(* ===== verification/Prelude.thy ===== *)
theory Prelude
  imports Main "HOL-Library.Multiset" "HOL-Library.AList" "HOL-Library.Char_ord" "HOL-Library.List_Lexorder"
    "HOL-Library.Product_Lexorder"
begin

text \<open>
  Shared vocabulary of the development: the exceptions of the Python program as a sum type,
  the two sequencing combinators used to translate statement sequences that may raise, Python's
  \<^verbatim>\<open>sorted(set(...))\<close> and insertion-ordered dictionaries, and the text operations the sources
  call (\<^verbatim>\<open>str\<close>, \<^verbatim>\<open>lower\<close>, \<^verbatim>\<open>casefold\<close>, \<^verbatim>\<open>strip\<close>, \<^verbatim>\<open>split\<close>, substring tests).
  Text is modelled as \<^typ>\<open>string\<close> over ASCII characters.
\<close>

named_theorems res_simps \<open>rewriting a sequence of statements that may raise\<close>
named_theorems order_facts \<open>facts on sorted canonical forms\<close>

section \<open>Exceptions as values\<close>

datatype py_error =
    DomainValidationError string
  | InvalidTransitionError string
  | ValueError string
  | TypeError
  | KeyError string
  | ZeroDivisionError
  | InvalidOperation
  | AttributeError
  | PermissionError string
  | LookupError string
  | RuntimeError string

type_synonym 'a res = "py_error + 'a"

fun bindE :: "'e + 'a \<Rightarrow> ('a \<Rightarrow> 'e + 'b) \<Rightarrow> 'e + 'b" where
  "bindE (Inl e) f = Inl e"
| "bindE (Inr x) f = f x"

fun mapE :: "('a \<Rightarrow> 'e + 'b) \<Rightarrow> 'a list \<Rightarrow> 'e + 'b list" where
  "mapE f [] = Inr []"
| "mapE f (x # xs) = bindE (f x) (\<lambda>y. bindE (mapE f xs) (\<lambda>ys. Inr (y # ys)))"

lemma bindE_Inr_conv [res_simps]:
  "bindE m f = Inr y \<longleftrightarrow> (\<exists>x. m = Inr x \<and> f x = Inr y)"
  by (cases m) auto

lemma bindE_Inl_conv:
  "bindE m f = Inl e \<longleftrightarrow> m = Inl e \<or> (\<exists>x. m = Inr x \<and> f x = Inl e)"
  by (cases m) auto

lemma bindE_cong [fundef_cong]:
  "m = m' \<Longrightarrow> (\<And>x. m' = Inr x \<Longrightarrow> f x = f' x) \<Longrightarrow> bindE m f = bindE m' f'"
  by (cases m') auto

lemma mapE_cong [fundef_cong]:
  "xs = ys \<Longrightarrow> (\<And>x. x \<in> set ys \<Longrightarrow> f x = g x) \<Longrightarrow> mapE f xs = mapE g ys"
  by (induction ys arbitrary: xs) auto

lemma mapE_Inr_conv [res_simps]:
  "mapE f xs = Inr ys \<longleftrightarrow> list_all2 (\<lambda>x y. f x = Inr y) xs ys"
proof (induction xs arbitrary: ys)
  case Nil
  then show ?case by auto
next
  case (Cons x xs)
  then show ?case by (cases ys) (auto simp: res_simps)
qed

lemma mapE_total:
  assumes "\<And>x. x \<in> set xs \<Longrightarrow> \<exists>y. f x = Inr y"
  obtains ys where "mapE f xs = Inr ys"
proof -
  from assms have "\<exists>ys. mapE f xs = Inr ys"
    by (induction xs) (fastforce simp: res_simps)+
  then show ?thesis using that by blast
qed

lemma list_all2_memL: "list_all2 P xs ys \<Longrightarrow> x \<in> set xs \<Longrightarrow> \<exists>y \<in> set ys. P x y"
  by (induction rule: list_all2_induct) auto

lemma list_all2_memR: "list_all2 P xs ys \<Longrightarrow> y \<in> set ys \<Longrightarrow> \<exists>x \<in> set xs. P x y"
  by (induction rule: list_all2_induct) auto

lemma mapE_memL: "mapE f xs = Inr ys \<Longrightarrow> x \<in> set xs \<Longrightarrow> \<exists>y \<in> set ys. f x = Inr y"
  unfolding mapE_Inr_conv by (rule list_all2_memL)

lemma mapE_memR: "mapE f xs = Inr ys \<Longrightarrow> y \<in> set ys \<Longrightarrow> \<exists>x \<in> set xs. f x = Inr y"
  unfolding mapE_Inr_conv by (rule list_all2_memR)

lemma mapE_Inr_map: "mapE f xs = Inr ys \<Longrightarrow> (\<And>x y. x \<in> set xs \<Longrightarrow> f x = Inr y \<Longrightarrow> g y = h x) \<Longrightarrow> map g ys = map h xs"
  by (induction xs arbitrary: ys) (auto simp: bindE_Inr_conv)

text \<open>\<^verbatim>\<open>all(f(x) for x in xs)\<close>: the first false element ends the evaluation.\<close>

fun allE :: "('a \<Rightarrow> 'e + bool) \<Rightarrow> 'a list \<Rightarrow> 'e + bool" where
  "allE f [] = Inr True"
| "allE f (x # xs) = bindE (f x) (\<lambda>b. if b then allE f xs else Inr False)"

lemma allE_True: "allE f xs = Inr True \<longleftrightarrow> (\<forall>x \<in> set xs. f x = Inr True)"
  by (induction xs) (auto simp: bindE_Inr_conv)

lemma allE_False: "allE f xs = Inr False \<Longrightarrow> \<exists>x \<in> set xs. f x = Inr False"
  by (induction xs) (auto simp: bindE_Inr_conv split: if_splits)

lemma mapE_pure: "mapE (\<lambda>x. Inr (f x)) xs = Inr (map f xs)"
  by (induction xs) auto

section \<open>Sorted sets and insertion-ordered dictionaries\<close>

text \<open>\<^verbatim>\<open>sorted(set(xs))\<close>: the ascending list of the distinct elements.\<close>

definition sorted_set :: "'a::linorder list \<Rightarrow> 'a list" where
  "sorted_set xs = sort (remdups xs)"

lemma sorted_set_props [simp, order_facts]:
  "set (sorted_set xs) = set xs" "sorted (sorted_set xs)" "distinct (sorted_set xs)"
  by (simp_all add: sorted_set_def)

lemma sorted_set_eq_sorted_list_of_set: "sorted_set xs = sorted_list_of_set (set xs)"
  by (metis sorted_set_props sorted_distinct_set_unique
      sorted_list_of_set.distinct_sorted_key_list_of_set
      sorted_list_of_set.sorted_sorted_key_list_of_set
      sorted_list_of_set.set_sorted_key_list_of_set finite_set)

lemma sorted_set_cong: "set xs = set ys \<Longrightarrow> sorted_set xs = sorted_set ys"
  by (simp add: sorted_set_eq_sorted_list_of_set)

lemma sorted_set_idem: "sorted_set (sorted_set xs) = sorted_set xs"
  by (rule sorted_set_cong) simp

lemma sorted_set_empty_iff [simp]: "sorted_set xs = [] \<longleftrightarrow> xs = []"
  by (metis sorted_set_props(1) set_empty)

lemma sorted_set_Nil [simp]: "sorted_set [] = []"
  by simp

text \<open>A dict built by successive assignment: a later value for a key replaces the earlier one
  in place, and new keys are appended, as in CPython.\<close>

definition dict_of :: "('k \<times> 'v) list \<Rightarrow> ('k \<times> 'v) list" where
  "dict_of kvs = fold (\<lambda>(k, v). AList.update k v) kvs []"

lemma fold_update_map_of:
  "map_of (fold (\<lambda>(k, v). AList.update k v) kvs d) = map_of (rev kvs @ d)"
  by (induction kvs arbitrary: d) (auto simp: update_conv' map_add_upd_left fun_eq_iff map_add_def
      split: option.splits)

lemma map_of_dict_of [simp]: "map_of (dict_of kvs) = map_of (rev kvs)"
  by (simp add: dict_of_def fold_update_map_of)

lemma distinct_fold_update:
  "distinct (map fst d) \<Longrightarrow> distinct (map fst (fold (\<lambda>(k, v). AList.update k v) kvs d))"
  by (induction kvs arbitrary: d) (auto simp: distinct_update)

lemma distinct_dict_of [simp]: "distinct (map fst (dict_of kvs))"
  by (simp add: dict_of_def distinct_fold_update)

lemma dom_dict_of: "fst ` set (dict_of kvs) = fst ` set kvs"
  by (metis dom_map_of_conv_image_fst map_of_dict_of set_rev)

lemma update_append: "k \<notin> fst ` set d \<Longrightarrow> AList.update k v d = d @ [(k, v)]"
  by (induction d) auto

lemma fold_update_append: "distinct (map fst (d @ kvs)) \<Longrightarrow> fold (\<lambda>(k, v). AList.update k v) kvs d = d @ kvs"
proof (induction kvs arbitrary: d)
  case (Cons kv kvs)
  have "fst kv \<notin> fst ` set d" "distinct (map fst ((d @ [kv]) @ kvs))" using Cons.prems by auto
  then have "AList.update (fst kv) (snd kv) d = d @ [kv]"
    "fold (\<lambda>(k, v). AList.update k v) kvs (d @ [kv]) = (d @ [kv]) @ kvs"
    using Cons.IH [of "d @ [kv]"] by (simp_all add: update_append)
  then show ?case by (cases kv) simp
qed simp

lemma dict_of_distinct: "distinct (map fst kvs) \<Longrightarrow> dict_of kvs = kvs"
  by (simp add: dict_of_def fold_update_append)

section \<open>First extremum\<close>

text \<open>\<^verbatim>\<open>min(xs, key=f)\<close> and \<^verbatim>\<open>max(xs, key=f)\<close>: the first extremal element, an exception on no element.\<close>

fun min_by :: "('a \<Rightarrow> 'k::linorder) \<Rightarrow> 'a list \<Rightarrow> 'a res" where
  "min_by f [] = Inl (ValueError ''min() iterable argument is empty'')"
| "min_by f (x # xs) = Inr (fold (\<lambda>y m. if f y < f m then y else m) xs x)"

fun max_by :: "('a \<Rightarrow> 'k::linorder) \<Rightarrow> 'a list \<Rightarrow> 'a res" where
  "max_by f [] = Inl (ValueError ''max() iterable argument is empty'')"
| "max_by f (x # xs) = Inr (fold (\<lambda>y m. if f m < f y then y else m) xs x)"

lemma fold_min_by:
  "let r = fold (\<lambda>y m. if f y < f m then y else m) xs x
   in r \<in> set (x # xs) \<and> (\<forall>y \<in> set (x # xs). (f r :: 'k::linorder) \<le> f y)"
  by (induction xs arbitrary: x) (auto simp: Let_def dest: less_imp_le order_trans, force+)

lemma fold_max_by:
  "let r = fold (\<lambda>y m. if f m < f y then y else m) xs x
   in r \<in> set (x # xs) \<and> (\<forall>y \<in> set (x # xs). (f y :: 'k::linorder) \<le> f r)"
  by (induction xs arbitrary: x) (auto simp: Let_def dest: less_imp_le order_trans, force+)

lemma min_by_Inr:
  assumes "min_by f xs = Inr m" shows "m \<in> set xs" "\<And>y. y \<in> set xs \<Longrightarrow> f m \<le> f y"
  using assms fold_min_by [of f "tl xs" "hd xs"] by (cases xs; auto simp: Let_def)+

lemma max_by_Inr:
  assumes "max_by f xs = Inr m" shows "m \<in> set xs" "\<And>y. y \<in> set xs \<Longrightarrow> f y \<le> f m"
  using assms fold_max_by [of f "tl xs" "hd xs"] by (cases xs; auto simp: Let_def)+

section \<open>Text\<close>

definition is_digit :: "char \<Rightarrow> bool" where
  "is_digit c \<longleftrightarrow> CHR ''0'' \<le> c \<and> c \<le> CHR ''9''"

definition is_lower :: "char \<Rightarrow> bool" where
  "is_lower c \<longleftrightarrow> CHR ''a'' \<le> c \<and> c \<le> CHR ''z''"

definition is_upper :: "char \<Rightarrow> bool" where
  "is_upper c \<longleftrightarrow> CHR ''A'' \<le> c \<and> c \<le> CHR ''Z''"

definition is_space :: "char \<Rightarrow> bool" where
  "is_space c \<longleftrightarrow> of_char c = (32::nat) \<or> (9 \<le> (of_char c::nat) \<and> (of_char c::nat) \<le> 13) \<or>
     (28 \<le> (of_char c::nat) \<and> (of_char c::nat) \<le> 31)"

definition lower_char :: "char \<Rightarrow> char" where
  "lower_char c = (if is_upper c then char_of (of_char c + 32 :: nat) else c)"

definition upper_char :: "char \<Rightarrow> char" where
  "upper_char c = (if is_lower c then char_of (of_char c - 32 :: nat) else c)"

text \<open>On ASCII text \<^verbatim>\<open>str.lower\<close> and \<^verbatim>\<open>str.casefold\<close> agree.\<close>

definition str_lower :: "string \<Rightarrow> string" where
  "str_lower = map lower_char"

definition str_upper :: "string \<Rightarrow> string" where
  "str_upper = map upper_char"

definition str_strip :: "string \<Rightarrow> string" where
  "str_strip s = rev (dropWhile is_space (rev (dropWhile is_space s)))"

fun str_split :: "char \<Rightarrow> string \<Rightarrow> string list" where
  "str_split c [] = [[]]"
| "str_split c (x # xs) =
     (if x = c then [] # str_split c xs
      else (case str_split c xs of [] \<Rightarrow> [[x]] | y # ys \<Rightarrow> (x # y) # ys))"

fun starts_with :: "string \<Rightarrow> string \<Rightarrow> bool" where
  "starts_with s [] = True"
| "starts_with [] (p # ps) = False"
| "starts_with (x # xs) (p # ps) = (x = p \<and> starts_with xs ps)"

fun str_contains :: "string \<Rightarrow> string \<Rightarrow> bool" where
  "str_contains [] p = (p = [])"
| "str_contains (x # xs) p = (starts_with (x # xs) p \<or> str_contains xs p)"

fun str_join :: "string \<Rightarrow> string list \<Rightarrow> string" where
  "str_join sep [] = []"
| "str_join sep [x] = x"
| "str_join sep (x # y # ys) = x @ sep @ str_join sep (y # ys)"

definition digit_char :: "nat \<Rightarrow> char" where
  "digit_char d = char_of (48 + d)"

fun show_nat :: "nat \<Rightarrow> string" where
  "show_nat n = (if n < 10 then [digit_char n] else show_nat (n div 10) @ [digit_char (n mod 10)])"

declare show_nat.simps [simp del]

definition show_int :: "int \<Rightarrow> string" where
  "show_int i = (if i < 0 then CHR ''-'' # show_nat (nat (- i)) else show_nat (nat i))"

lemma starts_with_iff: "starts_with s p \<longleftrightarrow> (\<exists>t. s = p @ t)"
  by (induction s p rule: starts_with.induct) auto

lemma str_contains_iff: "str_contains s p \<longleftrightarrow> (\<exists>l r. s = l @ p @ r)"
proof (induction s)
  case Nil
  then show ?case by auto
next
  case (Cons x xs)
  then show ?case
    by (auto simp: starts_with_iff Cons_eq_append_conv)
qed

lemma str_split_not_Nil [simp]: "str_split c s \<noteq> []"
  by (cases s) (auto split: list.splits)

lemma str_join_split: "str_join [c] (str_split c s) = s"
proof (induction s)
  case Nil
  then show ?case by simp
next
  case (Cons x xs)
  obtain y ys where "str_split c xs = y # ys" by (cases "str_split c xs") auto
  with Cons show ?case by (cases ys) auto
qed

lemma lower_char_idem: "lower_char (lower_char c) = lower_char c"
proof (cases "is_upper c")
  case True
  then have "65 \<le> (of_char c :: nat) \<and> (of_char c :: nat) \<le> 90"
    by (simp add: is_upper_def less_eq_char_def)
  then have "(of_char (char_of (of_char c + 32 :: nat)) :: nat) = of_char c + 32" "97 \<le> (of_char c + 32 :: nat)"
    by simp_all
  then have "\<not> is_upper (lower_char c)"
    by (simp add: is_upper_def lower_char_def less_eq_char_def True)
  then show ?thesis by (simp add: lower_char_def)
qed (simp add: lower_char_def)

lemma is_space_lower_char: "is_space (lower_char c) = is_space c"
proof (cases "is_upper c")
  case True
  then have "65 \<le> (of_char c :: nat) \<and> (of_char c :: nat) \<le> 90"
    by (simp add: is_upper_def less_eq_char_def)
  then show ?thesis by (simp add: is_space_def lower_char_def True)
qed (simp add: lower_char_def)

text \<open>Case folding and stripping give a normal form.\<close>

lemma dropWhile_idem: "dropWhile P (dropWhile P xs) = dropWhile P xs"
  by (induction xs) auto

lemma str_strip_idem: "str_strip (str_strip s) = str_strip s"
proof -
  let ?t = "dropWhile is_space s"
  have "dropWhile is_space (str_strip s) = str_strip s"
  proof (cases "str_strip s")
    case (Cons c r)
    then have "rev (dropWhile is_space (rev ?t)) = c # r" by (simp add: str_strip_def)
    moreover obtain u where "rev ?t = u @ dropWhile is_space (rev ?t)"
      by (metis takeWhile_dropWhile_id)
    ultimately have "?t = c # r @ rev u" by (metis append_Cons rev_append rev_rev_ident)
    then have "\<not> is_space c" by (metis hd_dropWhile list.distinct(1) list.sel(1))
    then show ?thesis by (simp add: Cons)
  qed simp
  then show ?thesis by (simp add: str_strip_def dropWhile_idem)
qed

lemma str_lower_strip: "str_lower (str_strip s) = str_strip (str_lower s)"
  by (simp add: str_lower_def str_strip_def dropWhile_map rev_map o_def is_space_lower_char)

lemma casefold_strip_idem: "str_strip (str_lower (str_strip (str_lower s))) = str_strip (str_lower s)"
  by (simp add: str_lower_strip str_strip_idem) (simp add: str_lower_def lower_char_idem o_def)

section \<open>Searching and updating rows\<close>

lemma find_SomeD: "find P xs = Some x \<Longrightarrow> x \<in> set xs \<and> P x"
  by (induction xs) (auto split: if_splits)

lemma find_NoneD: "find P xs = None \<Longrightarrow> x \<in> set xs \<Longrightarrow> \<not> P x"
  by (auto simp: find_None_iff)

lemma find_append: "find P (xs @ ys) = (case find P xs of None \<Rightarrow> find P ys | Some x \<Rightarrow> Some x)"
  by (induction xs) auto

lemma find_map_same: "(\<And>q. q \<in> set rows \<Longrightarrow> P (f q) = P q) \<Longrightarrow> find P (map f rows) = map_option f (find P rows)"
  by (induction rows) auto

lemma sort_key_sorted: "sorted (map f xs) \<Longrightarrow> sort_key f xs = xs"
  by (induction xs) (auto simp: insort_is_Cons)

lemma map_update_id: "i \<notin> key ` set rows \<Longrightarrow> map (\<lambda>r. if key r = i then f r else r) rows = rows"
  by (rule map_idI) auto

lemma filter_update:
  assumes "\<And>r. P (f r) = P r"
  shows "filter P (map (\<lambda>r. if key r = i then f r else r) rows) = map (\<lambda>r. if key r = i then f r else r) (filter P rows)"
  using assms by (induction rows) auto

text \<open>\<^verbatim>\<open>order_by(key.desc()).limit(1)\<close>\<close>

definition newest :: "('r \<Rightarrow> int) \<Rightarrow> 'r list \<Rightarrow> 'r option" where
  "newest key rows = (if rows = [] then None else Some (last (sort_key key rows)))"

text \<open>\<^verbatim>\<open>coalesce(max(key), 0)\<close>\<close>

definition max_key :: "('r \<Rightarrow> int) \<Rightarrow> 'r list \<Rightarrow> int" where
  "max_key key rows = (case newest key rows of None \<Rightarrow> 0 | Some r \<Rightarrow> key r)"

lemma newest_sorted: "sorted (map key rows) \<Longrightarrow> newest key rows = (if rows = [] then None else Some (last rows))"
  by (simp add: newest_def sort_key_sorted)

lemma sorted_numbered: "map f rows = map int [1..<Suc n] \<Longrightarrow> sorted (map f rows)"
  by (simp add: sorted_iff_nth_mono del: upt_Suc)

lemma newest_numbered:
  assumes "map key rows = map int [1..<Suc (length rows)]"
  shows "newest key rows = (if rows = [] then None else Some (last rows))" "max_key key rows = int (length rows)"
proof -
  show *: "newest key rows = (if rows = [] then None else Some (last rows))"
    by (rule newest_sorted, rule sorted_numbered [OF assms])
  have "key (last rows) = int (length rows)" if "rows \<noteq> []"
  proof -
    from that have "1 \<le> length rows" by (cases rows) auto
    moreover have "last (map key rows) = last (map int [1..<Suc (length rows)])" using assms by simp
    ultimately show ?thesis using that by (simp add: last_map)
  qed
  then show "max_key key rows = int (length rows)" by (simp add: max_key_def *)
qed

lemma numbered_snoc:
  "map f (rows @ [r]) = map int [1..<Suc (length (rows @ [r]))] \<longleftrightarrow>
     map f rows = map int [1..<Suc (length rows)] \<and> f r = int (length rows) + 1"
  by auto

section \<open>Sorting by a key that may raise\<close>

text \<open>Ascending stable sort by a key that may raise.\<close>

definition sort_by_keyE :: "('a \<Rightarrow> 'k::linorder res) \<Rightarrow> 'a list \<Rightarrow> 'a list res" where
  "sort_by_keyE key xs =
     bindE (mapE (\<lambda>x. bindE (key x) (\<lambda>k. Inr (k, x))) xs) (\<lambda>kxs. Inr (map snd (sort_key fst kxs)))"

lemma sort_by_keyE_Inr:
  assumes "sort_by_keyE key xs = Inr ys"
  shows "mset ys = mset xs"
    "\<And>x. x \<in> set xs \<Longrightarrow> \<exists>k. key x = Inr k"
    "ys = y # r \<Longrightarrow> x \<in> set xs \<Longrightarrow> key y = Inr k \<Longrightarrow> key x = Inr k' \<Longrightarrow> k \<le> k'"
proof -
  from assms obtain kxs where
    kxs: "mapE (\<lambda>x. bindE (key x) (\<lambda>k. Inr (k, x))) xs = Inr kxs" and ys: "ys = map snd (sort_key fst kxs)"
    by (auto simp: sort_by_keyE_def bindE_Inr_conv)
  have snd: "map snd kxs = xs"
    using mapE_Inr_map [OF kxs, of snd "\<lambda>x. x"] by (auto simp: bindE_Inr_conv)
  show "mset ys = mset xs" using snd by (metis ys mset_map mset_sort)
  show key: "\<exists>k. key x = Inr k" if "x \<in> set xs" for x
    using mapE_memL [OF kxs that] by (auto simp: bindE_Inr_conv)
  show "k \<le> k'" if "ys = y # r" "x \<in> set xs" "key y = Inr k" "key x = Inr k'"
  proof -
    from that(1) ys obtain kk rest where srt: "sort_key fst kxs = (kk, y) # rest"
      by (cases "sort_key fst kxs") auto
    then have "(kk, y) \<in> set kxs" by (metis list.set_intros(1) set_sort)
    from mapE_memR [OF kxs this] that(3) have "kk = k" by (auto simp: bindE_Inr_conv)
    have "(k', x) \<in> set kxs" using mapE_memL [OF kxs that(2)] that(4) by (auto simp: bindE_Inr_conv)
    then have "(k', x) \<in> set ((kk, y) # rest)" by (metis srt set_sort)
    moreover have "sorted (map fst ((kk, y) # rest))" by (metis srt sorted_sort_key)
    ultimately show ?thesis using \<open>kk = k\<close> by auto
  qed
qed

text \<open>Sorting by distinct keys does not depend on the order of the input.\<close>

lemma mapE_permuted:
  assumes "mapE f xs = Inr ys" "mset xs' = mset xs"
  obtains ys' where "mapE f xs' = Inr ys'" "mset ys' = mset ys"
proof -
  have s: "set xs' = set xs" using assms(2) by (metis set_mset_mset)
  have ok: "f x = Inr (projr (f x))" if "x \<in> set xs" for x using mapE_memL [OF assms(1) that] by auto
  have "mapE f zs = Inr (map (\<lambda>x. projr (f x)) zs)" if "set zs \<subseteq> set xs" for zs
    using that by (induction zs) (use ok in \<open>auto simp: res_simps\<close>)
  from this [of xs] this [of xs'] assms s show ?thesis by (intro that) auto
qed

lemma sort_key_distinct_cong:
  assumes "mset xs = mset ys" "distinct (map f xs)"
  shows "sort_key f xs = sort_key f ys"
  using assms by (intro sort_key_inj_key_eq) (auto simp: distinct_map)

lemma mapE_keyed:
  assumes "mapE (\<lambda>x. bindE (key x) (\<lambda>k. Inr (k, x))) xs = Inr kxs"
  shows "map snd kxs = xs" "\<And>k x. (k, x) \<in> set kxs \<Longrightarrow> key x = Inr k"
proof -
  show "map snd kxs = xs" using mapE_Inr_map [OF assms, of snd "\<lambda>x. x"] by (auto simp: bindE_Inr_conv)
  show "key x = Inr k" if "(k, x) \<in> set kxs" for k x
    using mapE_memR [OF assms that] by (auto simp: bindE_Inr_conv)
qed

lemma sort_by_keyE_permuted:
  assumes s: "sort_by_keyE key xs = Inr ys" and m: "mset xs' = mset xs"
    and inj: "\<And>x y k. x \<in> set xs \<Longrightarrow> y \<in> set xs \<Longrightarrow> key x = Inr k \<Longrightarrow> key y = Inr k \<Longrightarrow> x = y"
    and d: "distinct xs"
  shows "sort_by_keyE key xs' = Inr ys"
proof -
  let ?f = "\<lambda>x. bindE (key x) (\<lambda>k. Inr (k, x))"
  from s obtain kxs where kxs: "mapE ?f xs = Inr kxs" and ys: "ys = map snd (sort_key fst kxs)"
    by (auto simp: sort_by_keyE_def bindE_Inr_conv)
  obtain kxs' where kxs': "mapE ?f xs' = Inr kxs'" and mk: "mset kxs' = mset kxs"
    using mapE_permuted [OF kxs m] .
  note kx = mapE_keyed [OF kxs]
  have "inj_on fst (set kxs)"
  proof (rule inj_onI)
    fix a b assume a: "a \<in> set kxs" and b: "b \<in> set kxs" and e: "fst a = fst b"
    have "snd a \<in> set xs" "snd b \<in> set xs" using kx(1) a b by (metis image_eqI set_map)+
    moreover have "key (snd a) = Inr (fst a)" "key (snd b) = Inr (fst a)" using kx(2) a b e by (metis prod.collapse)+
    ultimately have "snd a = snd b" by (rule inj)
    with e show "a = b" by (simp add: prod_eq_iff)
  qed
  moreover have "distinct kxs" using kx(1) d by (metis distinct_map)
  ultimately have "distinct (map fst kxs)" by (simp add: distinct_map)
  then have "sort_key fst kxs = sort_key fst kxs'" using mk by (intro sort_key_distinct_cong) simp_all
  then show ?thesis by (simp add: sort_by_keyE_def kxs' ys)
qed

lemma sort_by_keyE_sorted:
  assumes "sort_by_keyE key xs = Inr ys"
  shows "sorted_wrt (\<lambda>x y. \<forall>k k'. key x = Inr k \<longrightarrow> key y = Inr k' \<longrightarrow> k \<le> k') ys"
proof -
  from assms obtain kxs where
    kxs: "mapE (\<lambda>x. bindE (key x) (\<lambda>k. Inr (k, x))) xs = Inr kxs" and ys: "ys = map snd (sort_key fst kxs)"
    by (auto simp: sort_by_keyE_def bindE_Inr_conv)
  have "sorted_wrt (\<lambda>a b. fst a \<le> fst b) (sort_key fst kxs)"
    using sorted_sort_key [of fst kxs] by (simp add: sorted_map)
  then have "sorted_wrt (\<lambda>a b. \<forall>k k'. key (snd a) = Inr k \<longrightarrow> key (snd b) = Inr k' \<longrightarrow> k \<le> k') (sort_key fst kxs)"
    by (rule sorted_wrt_mono_rel [rotated]) (use mapE_keyed(2) [OF kxs] in fastforce)
  then show ?thesis by (simp add: ys sorted_wrt_map)
qed

lemma length_remdups_permuted: "mset xs = mset ys \<Longrightarrow> length (remdups xs) = length (remdups ys)"
  by (metis length_remdups_card_conv set_mset_mset)

section \<open>First elements\<close>

definition first_of :: "'a list \<Rightarrow> 'a option" where
  "first_of xs = (case xs of [] \<Rightarrow> None | x # _ \<Rightarrow> Some x)"

lemma first_of_simps [simp]: "first_of [] = None" "first_of (x # xs) = Some x"
  by (simp_all add: first_of_def)

lemma first_sort_key:
  assumes "first_of (sort_key f xs) = Some x"
  shows "x \<in> set xs" "\<And>y. y \<in> set xs \<Longrightarrow> (f x :: 'k::linorder) \<le> f y"
proof -
  from assms obtain r where r: "sort_key f xs = x # r" by (cases "sort_key f xs") auto
  then show "x \<in> set xs" by (metis list.set_intros(1) set_sort)
  have "sorted (map f (x # r))" by (metis r sorted_sort_key)
  moreover have "set (x # r) = set xs" by (metis r set_sort)
  ultimately show "f x \<le> f y" if "y \<in> set xs" for y using that by auto
qed

text \<open>The first element that stops a scan stays the first, as long as those that passed stay and it stays open.\<close>

lemma find_stable:
  assumes "\<And>x. x \<in> set xs \<Longrightarrow> P x \<or> Q x = P x" "\<And>x. find P xs = Some x \<Longrightarrow> Q x"
    "\<And>x. x \<in> set xs \<Longrightarrow> \<not> P x \<Longrightarrow> \<not> Q x"
  shows "find Q xs = find P xs"
  using assms
proof (induction xs)
  case (Cons x xs)
  show ?case
  proof (cases "P x")
    case True
    with Cons.prems(2) [of x] show ?thesis by simp
  next
    case False
    have "find Q xs = find P xs"
      by (rule Cons.IH) (use Cons.prems False in \<open>auto split: if_splits\<close>)
    with False Cons.prems(3) [of x] show ?thesis by simp
  qed
qed simp

end
