(* ===== verification/Numerics.thy ===== *)
theory Numerics
  imports Complex_Main Prelude
begin

text \<open>
  The parts of Python's \<^verbatim>\<open>decimal\<close> and \<^verbatim>\<open>fractions\<close> modules the program uses. A finite
  \<^verbatim>\<open>Decimal\<close> is a signed coefficient and an exponent (the sign of zero is never observed by the
  sources); arithmetic rounds half-even to the default context's 28 digits. \<^verbatim>\<open>Fraction\<close> values
  are the rationals. The constructors from text follow the two modules' literal syntax.
\<close>

section \<open>Decimal\<close>

datatype decimal = DFin int int | DInf bool | DNaN

definition dec_rat :: "int \<Rightarrow> int \<Rightarrow> rat" where
  "dec_rat c e = (if 0 \<le> e then of_int (c * 10 ^ nat e) else of_int c / of_int (10 ^ nat (- e)))"

definition ndigits :: "nat \<Rightarrow> nat" where
  "ndigits n = length (show_nat n)"

definition div_half_even :: "nat \<Rightarrow> nat \<Rightarrow> nat" where
  "div_half_even n d =
     (let q = n div d; r = n mod d
      in if d < 2 * r \<or> (2 * r = d \<and> odd q) then q + 1 else q)"

definition signed :: "int \<Rightarrow> nat \<Rightarrow> int" where
  "signed c m = (if c < 0 then - int m else int m)"

text \<open>Rounding a coefficient to the context precision.\<close>

definition dec_prec :: nat where
  "dec_prec = 28"

definition dec_fix :: "int \<Rightarrow> int \<Rightarrow> int \<times> int" where
  "dec_fix c e =
     (let m = nat \<bar>c\<bar>; k = ndigits m - dec_prec
      in if k = 0 then (c, e)
         else let q = div_half_even m (10 ^ k)
              in if ndigits q > dec_prec then (signed c (q div 10), e + int k + 1)
                 else (signed c q, e + int k))"

fun dec_strip :: "nat \<Rightarrow> int \<Rightarrow> nat \<times> int" where
  "dec_strip m e = (if m \<noteq> 0 \<and> 10 dvd m then dec_strip (m div 10) (e + 1) else (m, e))"

declare dec_strip.simps [simp del]

text \<open>\<^verbatim>\<open>Decimal.normalize\<close>: round to the precision, then drop trailing zeros.\<close>

definition dec_normalize :: "int \<Rightarrow> int \<Rightarrow> int \<times> int" where
  "dec_normalize c e =
     (case dec_fix c e of (c', e') \<Rightarrow>
        if c' = 0 then (0, 0)
        else (case dec_strip (nat \<bar>c'\<bar>) e' of (m, e'') \<Rightarrow> (signed c' m, e'')))"

definition dec_align :: "int \<Rightarrow> int \<Rightarrow> int \<Rightarrow> int" where
  "dec_align c e e0 = c * 10 ^ nat (e - e0)"

definition dec_add :: "int \<times> int \<Rightarrow> int \<times> int \<Rightarrow> int \<times> int" where
  "dec_add x y =
     (let e = min (snd x) (snd y)
      in dec_fix (dec_align (fst x) (snd x) e + dec_align (fst y) (snd y) e) e)"

text \<open>Rounding to a fixed exponent (the \<^verbatim>\<open>_rescale\<close> step of \<^verbatim>\<open>quantize\<close> and of fixed formatting).\<close>

definition dec_rescale :: "int \<Rightarrow> int \<Rightarrow> int \<Rightarrow> int" where
  "dec_rescale c e e0 =
     (if e0 \<le> e then c * 10 ^ nat (e - e0)
      else signed c (div_half_even (nat \<bar>c\<bar>) (10 ^ nat (e0 - e))))"

definition dec_quantize_cents :: "int \<Rightarrow> int \<Rightarrow> int res" where
  "dec_quantize_cents c e =
     (let q = dec_rescale c e (-2)
      in if ndigits (nat \<bar>q\<bar>) > dec_prec then Inl InvalidOperation else Inr q)"

text \<open>\<^verbatim>\<open>str(Decimal)\<close>, the to-scientific-string conversion.\<close>

definition show_signed :: "int \<Rightarrow> string" where
  "show_signed i = (if i < 0 then CHR ''-'' # show_nat (nat (- i)) else CHR ''+'' # show_nat (nat i))"

definition dec_sign :: "int \<Rightarrow> string" where
  "dec_sign c = (if c < 0 then ''-'' else [])"

definition dec_place :: "string \<Rightarrow> int \<Rightarrow> string" where
  "dec_place ds p =
     (if p \<le> 0 then ''0.'' @ replicate (nat (- p)) (CHR ''0'') @ ds
      else if int (length ds) \<le> p then ds @ replicate (nat p - length ds) (CHR ''0'')
      else take (nat p) ds @ ''.'' @ drop (nat p) ds)"

definition dec_str :: "int \<Rightarrow> int \<Rightarrow> string" where
  "dec_str c e =
     (let ds = show_nat (nat \<bar>c\<bar>); left = e + int (length ds)
      in if e \<le> 0 \<and> -6 < left then dec_sign c @ dec_place ds left
         else dec_sign c @ dec_place ds 1 @
              (if left = 1 then [] else ''E'' @ show_signed (left - 1)))"

text \<open>\<^verbatim>\<open>format(value, ".2f")\<close>.\<close>

definition dec_format2 :: "int \<Rightarrow> int \<Rightarrow> string" where
  "dec_format2 c e =
     (let q = dec_rescale c e (-2); m = nat \<bar>q\<bar>
      in dec_sign q @ show_nat (m div 100) @ ''.'' @
         [digit_char (m div 10 mod 10), digit_char (m mod 10)])"

text \<open>\<^verbatim>\<open>format(value, "f")\<close>: no exponent, no rounding.\<close>

definition dec_format_f :: "int \<Rightarrow> int \<Rightarrow> string" where
  "dec_format_f c e =
     (if 0 \<le> e then dec_sign c @ show_nat (nat \<bar>c\<bar> * 10 ^ nat e)
      else dec_sign c @ dec_place (show_nat (nat \<bar>c\<bar>)) (e + int (ndigits (nat \<bar>c\<bar>))))"

section \<open>Literals\<close>

definition digit_val :: "char \<Rightarrow> nat" where
  "digit_val c = of_char c - 48"

definition digits_val :: "string \<Rightarrow> nat" where
  "digits_val = foldl (\<lambda>a c. 10 * a + digit_val c) 0"

fun read_sign :: "string \<Rightarrow> int \<times> string" where
  "read_sign (c # cs) =
     (if c = CHR ''-'' then (-1, cs) else if c = CHR ''+'' then (1, cs) else (1, c # cs))"
| "read_sign [] = (1, [])"

definition read_exp :: "string \<Rightarrow> (int \<times> string) option" where
  "read_exp s =
     (case read_sign s of (sg, r) \<Rightarrow>
        let ds = takeWhile is_digit r
        in if ds = [] then None else Some (sg * int (digits_val ds), dropWhile is_digit r))"

text \<open>\<^verbatim>\<open>Decimal(text)\<close>: surrounding white space and underscores are dropped; an invalid literal
  raises \<^verbatim>\<open>InvalidOperation\<close>.\<close>

definition parse_decimal_number :: "int \<Rightarrow> string \<Rightarrow> decimal res" where
  "parse_decimal_number sg r =
     (let ip = takeWhile is_digit r; r1 = dropWhile is_digit r;
          (fp, r2) = (case r1 of c # cs \<Rightarrow>
              if c = CHR ''.'' then (takeWhile is_digit cs, dropWhile is_digit cs) else ([], r1)
            | [] \<Rightarrow> ([], []))
      in if ip = [] \<and> fp = [] then Inl InvalidOperation
         else let coef = sg * int (digits_val (ip @ fp)); base = - int (length fp)
              in (case r2 of
                    [] \<Rightarrow> Inr (DFin coef base)
                  | c # cs \<Rightarrow>
                      if c = CHR ''e'' \<or> c = CHR ''E''
                      then (case read_exp cs of
                              Some (x, []) \<Rightarrow> Inr (DFin coef (base + x))
                            | _ \<Rightarrow> Inl InvalidOperation)
                      else Inl InvalidOperation))"

definition parse_decimal :: "string \<Rightarrow> decimal res" where
  "parse_decimal s =
     (case read_sign (filter (\<lambda>c. c \<noteq> CHR ''_'') (str_strip s)) of (sg, r) \<Rightarrow>
        let l = str_lower r
        in if l = ''inf'' \<or> l = ''infinity'' then Inr (DInf (sg < 0))
           else if starts_with l ''nan'' \<and> list_all is_digit (drop 3 l) then Inr DNaN
           else if starts_with l ''snan'' \<and> list_all is_digit (drop 4 l) then Inr DNaN
           else parse_decimal_number sg r)"

text \<open>A run of digits with single underscores between digits, as \<^verbatim>\<open>\d+(_\d+)*\<close> matches it.\<close>

fun digit_run :: "string \<Rightarrow> string \<times> string" where
  "digit_run [] = ([], [])"
| "digit_run (c # cs) =
     (if is_digit c then
        (case cs of
           u # d # r \<Rightarrow>
             if u = CHR ''_'' \<and> is_digit d then (case digit_run (d # r) of (ds, t) \<Rightarrow> (c # ds, t))
             else (case digit_run cs of (ds, t) \<Rightarrow> (c # ds, t))
         | _ \<Rightarrow> (case digit_run cs of (ds, t) \<Rightarrow> (c # ds, t)))
      else ([], c # cs))"

declare digit_run.simps(2) [simp del]

definition skip_space :: "string \<Rightarrow> string" where
  "skip_space = dropWhile is_space"

definition bad_fraction :: "string \<Rightarrow> rat res" where
  "bad_fraction s = Inl (ValueError (''Invalid literal for Fraction: '' @ s))"

definition parse_fraction_exp :: "string \<Rightarrow> rat \<Rightarrow> string \<Rightarrow> rat res" where
  "parse_fraction_exp s v r =
     (case r of
        c # cs \<Rightarrow>
          if c = CHR ''e'' \<or> c = CHR ''E'' then
            (case read_sign cs of (sg, r1) \<Rightarrow> (case digit_run r1 of (ds, r2) \<Rightarrow>
               if ds = [] \<or> skip_space r2 \<noteq> [] then bad_fraction s
               else if sg < 0 then Inr (v / of_nat (10 ^ digits_val ds))
               else Inr (v * of_nat (10 ^ digits_val ds))))
          else if skip_space r = [] then Inr v else bad_fraction s
      | [] \<Rightarrow> Inr v)"

text \<open>\<^verbatim>\<open>Fraction(text)\<close>: an optional sign, a numerator, and either a denominator or a decimal part
  and an exponent.\<close>

definition parse_fraction :: "string \<Rightarrow> rat res" where
  "parse_fraction s =
     (case read_sign (skip_space s) of (sg, r) \<Rightarrow> (case digit_run r of (num, r1) \<Rightarrow>
        let n = of_int sg * of_nat (digits_val num) :: rat
        in (case skip_space r1 of
              c # cs \<Rightarrow>
                if c = CHR ''/'' then
                  (case digit_run (skip_space cs) of (den, r2) \<Rightarrow>
                     if num = [] \<or> den = [] \<or> skip_space r2 \<noteq> [] then bad_fraction s
                     else if digits_val den = 0 then Inl ZeroDivisionError
                     else Inr (n / of_nat (digits_val den)))
                else (case r1 of
                        d # ds \<Rightarrow>
                          if d = CHR ''.'' then
                            (case digit_run ds of (fp, r2) \<Rightarrow>
                               if num = [] \<and> fp = [] then bad_fraction s
                               else parse_fraction_exp s
                                 (n + of_int sg * of_nat (digits_val fp) / of_nat (10 ^ length fp)) r2)
                          else if num = [] then bad_fraction s
                          else parse_fraction_exp s n r1
                      | [] \<Rightarrow> Inr n)
            | [] \<Rightarrow> if num = [] then bad_fraction s else Inr n)))"

section \<open>Printing and reading back\<close>

lemma is_digit_digit_char: "d < 10 \<Longrightarrow> is_digit (digit_char d)"
  by (simp add: is_digit_def digit_char_def less_eq_char_def)

lemma digit_val_digit_char [simp]: "d < 10 \<Longrightarrow> digit_val (digit_char d) = d"
  by (simp add: digit_val_def digit_char_def)

lemma show_nat_ne [simp]: "show_nat n \<noteq> []"
  by (subst show_nat.simps) simp

lemma show_nat_digits [simp]: "list_all is_digit (show_nat n)"
proof (induction n rule: show_nat.induct)
  case (1 n)
  then show ?case
    by (subst show_nat.simps) (simp add: is_digit_digit_char)
qed

lemma foldl_digits:
  "foldl (\<lambda>a c. 10 * a + digit_val c) a ds = a * 10 ^ length ds + digits_val ds"
proof (induction ds rule: rev_induct)
  case Nil
  then show ?case by (simp add: digits_val_def)
next
  case (snoc d ds)
  then show ?case by (simp add: digits_val_def algebra_simps)
qed

lemma digits_val_append [simp]:
  "digits_val (xs @ ys) = digits_val xs * 10 ^ length ys + digits_val ys"
  using foldl_digits [of "digits_val xs" ys] by (simp add: digits_val_def)

lemma digits_val_simps [simp]: "digits_val [] = 0" "digits_val [d] = digit_val d"
  by (simp_all add: digits_val_def)

lemma digits_val_Cons: "digits_val (d # ds) = digit_val d * 10 ^ length ds + digits_val ds"
  using digits_val_append [of "[d]" ds] by simp

lemma digits_val_show [simp]: "digits_val (show_nat n) = n"
proof (induction n rule: show_nat.induct)
  case (1 n)
  then show ?case by (subst show_nat.simps) auto
qed

lemma digits_val_zeros [simp]: "digits_val (replicate k (CHR ''0'')) = 0"
  by (induction k) (simp_all add: digits_val_Cons digit_val_def)

lemma is_digit_zero [simp]: "is_digit (CHR ''0'')"
  by (simp add: is_digit_def)

lemma digit_not_special:
  "is_digit c \<Longrightarrow> c \<noteq> CHR ''-'' \<and> c \<noteq> CHR ''+'' \<and> c \<noteq> CHR ''_'' \<and> c \<noteq> CHR ''/'' \<and> c \<noteq> CHR ''.'' \<and> \<not> is_space c"
  by (auto simp: is_digit_def is_space_def less_eq_char_def)

text \<open>What may follow a run of digits in the literals printed by the program.\<close>

definition run_end :: "string \<Rightarrow> bool" where
  "run_end r \<longleftrightarrow> r = [] \<or> (\<not> is_digit (hd r) \<and> hd r \<noteq> CHR ''_'')"

lemma digit_run_end: "run_end r \<Longrightarrow> digit_run r = ([], r)"
  by (cases r) (auto simp: run_end_def digit_run.simps(2))

lemma digit_run_step:
  assumes "is_digit d" and "r = [] \<or> hd r \<noteq> CHR ''_''"
  shows "digit_run (d # r) = (d # fst (digit_run r), snd (digit_run r))"
proof (cases r)
  case (Cons u r')
  with assms show ?thesis
    by (subst digit_run.simps(2)) (simp split: list.split prod.split)
qed (use assms in \<open>simp add: digit_run.simps(2)\<close>)

lemma digit_run_digits:
  "list_all is_digit ds \<Longrightarrow> run_end r \<Longrightarrow> digit_run (ds @ r) = (ds, r)"
proof (induction ds)
  case Nil
  then show ?case by (simp add: digit_run_end)
next
  case (Cons d ds)
  then have IH: "digit_run (ds @ r) = (ds, r)" by simp
  have "ds @ r = [] \<or> hd (ds @ r) \<noteq> CHR ''_''"
    using Cons.prems by (cases ds) (auto simp: run_end_def dest: digit_not_special)
  with IH Cons.prems show ?case
    using digit_run_step [of d "ds @ r"] by simp
qed

lemma read_sign_digits:
  "list_all is_digit ds \<Longrightarrow> ds \<noteq> [] \<Longrightarrow> read_sign (ds @ r) = (1, ds @ r)"
  by (cases ds) (auto dest: digit_not_special)

definition sign_of :: "bool \<Rightarrow> int" where
  "sign_of neg = (if neg then -1 else 1)"

definition sign_text :: "bool \<Rightarrow> string" where
  "sign_text neg = (if neg then ''-'' else [])"

lemma read_sign_text:
  "list_all is_digit ds \<Longrightarrow> ds \<noteq> [] \<Longrightarrow>
     read_sign (skip_space (sign_text neg @ ds @ r)) = (sign_of neg, ds @ r)"
  by (cases ds)
    (auto simp: sign_text_def sign_of_def skip_space_def is_space_def dest: digit_not_special)

text \<open>Text after the numerator that the decimal branch of the reader handles.\<close>

definition frac_tail :: "string \<Rightarrow> bool" where
  "frac_tail r \<longleftrightarrow> r = [] \<or> hd r = CHR ''.'' \<or> hd r = CHR ''E''"

lemma frac_tail_run_end: "frac_tail r \<Longrightarrow> run_end r"
  by (auto simp: frac_tail_def run_end_def is_digit_def less_eq_char_def)

lemma frac_tail_skip: "frac_tail r \<Longrightarrow> skip_space r = r"
  by (cases r) (auto simp: frac_tail_def skip_space_def is_space_def)

lemma frac_tail_slash: "frac_tail r \<Longrightarrow> r \<noteq> [] \<Longrightarrow> hd r \<noteq> CHR ''/''"
  by (auto simp: frac_tail_def)

lemma parse_fraction_int_tail:
  assumes "list_all is_digit ds" "ds \<noteq> []" "r = [] \<or> hd r = CHR ''E''"
  shows "parse_fraction (sign_text neg @ ds @ r) =
    parse_fraction_exp (sign_text neg @ ds @ r) (of_int (sign_of neg) * of_nat (digits_val ds)) r"
proof -
  have t: "frac_tail r" using assms(3) by (auto simp: frac_tail_def)
  have e: "hd r = CHR ''E'' \<Longrightarrow> r \<noteq> [] \<Longrightarrow> hd r \<noteq> CHR ''.''" by auto
  show ?thesis
    unfolding parse_fraction_def read_sign_text [OF assms(1,2)]
    using assms digit_run_digits [OF assms(1) frac_tail_run_end [OF t]]
      frac_tail_skip [OF t] frac_tail_slash [OF t]
    by (cases r) (auto simp: parse_fraction_exp_def Let_def)
qed

lemma parse_fraction_point_tail:
  assumes "list_all is_digit ds" "ds \<noteq> []" "list_all is_digit fp" "r = [] \<or> hd r = CHR ''E''"
  shows "parse_fraction (sign_text neg @ ds @ ''.'' @ fp @ r) =
    parse_fraction_exp (sign_text neg @ ds @ ''.'' @ fp @ r)
      (of_int (sign_of neg) * of_nat (digits_val (ds @ fp)) / of_nat (10 ^ length fp)) r"
proof -
  have t: "frac_tail (''.'' @ fp @ r)" by (simp add: frac_tail_def)
  have t2: "run_end r" using assms(4) by (intro frac_tail_run_end) (auto simp: frac_tail_def)
  have v: "of_int (sign_of neg) * of_nat (digits_val ds) +
      of_int (sign_of neg) * of_nat (digits_val fp) / of_nat (10 ^ length fp) =
      (of_int (sign_of neg) * of_nat (digits_val (ds @ fp)) / of_nat (10 ^ length fp) :: rat)"
    by (simp add: field_simps)
  show ?thesis
    unfolding parse_fraction_def read_sign_text [OF assms(1,2)] v [symmetric]
    using assms digit_run_digits [OF assms(1) frac_tail_run_end [OF t]]
      frac_tail_skip [OF t] digit_run_digits [OF assms(3) t2]
    by simp
qed

lemma parse_fraction_exp_signed:
  "parse_fraction_exp s v (''E'' @ show_signed k) =
     Inr (if k < 0 then v / of_nat (10 ^ nat (- k)) else v * of_nat (10 ^ nat k))"
  using digit_run_digits [of "show_nat (nat (- k))" "[]"] digit_run_digits [of "show_nat (nat k)" "[]"]
  by (simp add: parse_fraction_exp_def show_signed_def run_end_def skip_space_def)

lemma parse_fraction_exp_Nil [simp]: "parse_fraction_exp s v [] = Inr v"
  by (simp add: parse_fraction_exp_def)

theorem parse_fraction_show_int: "parse_fraction (show_int i) = Inr (of_int i)"
proof -
  have "show_int i = sign_text (i < 0) @ show_nat (nat \<bar>i\<bar>) @ []"
    by (simp add: show_int_def sign_text_def)
  then show ?thesis
    by (simp only: parse_fraction_int_tail show_nat_digits show_nat_ne simp_thms not_False_eq_True)
      (simp add: sign_of_def)
qed

lemma dec_sign_text: "dec_sign c = sign_text (c < 0)"
  by (simp add: dec_sign_def sign_text_def)

lemma signed_of_nat: "of_int (sign_of (c < 0)) * of_nat (nat \<bar>c\<bar>) = (of_int c :: rat)"
  by (simp add: sign_of_def)

lemma dec_rat_neg: "e \<le> 0 \<Longrightarrow> dec_rat c e = of_int c / of_nat (10 ^ nat (- e))"
  by (cases "e = 0") (auto simp: dec_rat_def)

lemma dec_rat_split:
  "0 \<le> k \<Longrightarrow> of_int c / of_nat (10 ^ n) * of_nat (10 ^ nat k) = dec_rat c (k - int n)"
  "k < 0 \<Longrightarrow> of_int c / of_nat (10 ^ n) / of_nat (10 ^ nat (- k)) = dec_rat c (k - int n)"
proof -
  assume k: "0 \<le> k"
  show "of_int c / of_nat (10 ^ n) * of_nat (10 ^ nat k) = dec_rat c (k - int n)"
  proof (cases "int n \<le> k")
    case True
    with k have "nat k = n + nat (k - int n)" by linarith
    then have "(10 :: rat) ^ nat k = 10 ^ n * 10 ^ nat (k - int n)" by (simp only: power_add)
    with True show ?thesis by (simp add: dec_rat_def)
  next
    case False
    with k have "n = nat k + nat (int n - k)" by linarith
    then have "(10 :: rat) ^ n = 10 ^ nat k * 10 ^ nat (int n - k)" by (metis power_add)
    with False show ?thesis by (simp add: dec_rat_def)
  qed
next
  assume k: "k < 0"
  then have "nat (- (k - int n)) = n + nat (- k)" by linarith
  then have "(10 :: rat) ^ nat (- (k - int n)) = 10 ^ n * 10 ^ nat (- k)" by (simp only: power_add)
  with k show "of_int c / of_nat (10 ^ n) / of_nat (10 ^ nat (- k)) = dec_rat c (k - int n)"
    by (simp add: dec_rat_def)
qed

text \<open>The digits of a coefficient with a decimal point after position \<open>p\<close>, followed by an exponent.\<close>

lemma parse_dec_place:
  fixes c :: int
  defines "ds \<equiv> show_nat (nat \<bar>c\<bar>)"
  assumes p: "p \<le> int (length ds)" and r: "r = [] \<or> hd r = CHR ''E''"
  shows "parse_fraction (dec_sign c @ dec_place ds p @ r) =
    parse_fraction_exp (dec_sign c @ dec_place ds p @ r)
      (of_int c / of_nat (10 ^ nat (int (length ds) - p))) r"
proof -
  have dig: "list_all is_digit ds" and ne: "ds \<noteq> []" and val: "digits_val ds = nat \<bar>c\<bar>"
    by (simp_all add: ds_def)
  have sgn: "of_int (sign_of (c < 0)) * of_nat (digits_val ds) = (of_int c :: rat)"
    by (simp only: val signed_of_nat)
  consider (lead) "p \<le> 0" | (mid) "0 < p" "p < int (length ds)" | (whole) "0 < p" "p = int (length ds)"
    using p by linarith
  then show ?thesis
  proof cases
    case lead
    let ?z = "replicate (nat (- p)) (CHR ''0'')"
    have "list_all is_digit (?z @ ds)" using dig by (auto simp: list_all_iff)
    moreover have "length (?z @ ds) = nat (int (length ds) - p)" using lead by simp
    moreover have "digits_val (''0'' @ ?z @ ds) = digits_val ds"
      by (simp add: digits_val_Cons digit_val_def)
    ultimately show ?thesis
      using parse_fraction_point_tail [of "''0''" "?z @ ds" r "c < 0"] lead r sgn
      by (simp add: dec_place_def dec_sign_text del: digits_val_append)
  next
    case mid
    have d: "list_all is_digit (take (nat p) ds)" "list_all is_digit (drop (nat p) ds)"
      "take (nat p) ds \<noteq> []"
      using dig mid ne by (auto simp: list_all_iff dest: in_set_takeD in_set_dropD)
    have "length (drop (nat p) ds) = nat (int (length ds) - p)" using mid by auto
    then show ?thesis
      using parse_fraction_point_tail [OF d(1,3,2) r, of "c < 0"] mid sgn
      by (simp add: dec_place_def dec_sign_text del: digits_val_append)
  next
    case whole
    then show ?thesis
      using parse_fraction_int_tail [OF dig ne r, of "c < 0"] sgn
      by (simp add: dec_place_def dec_sign_text)
  qed
qed

theorem parse_fraction_dec_str: "parse_fraction (dec_str c e) = Inr (dec_rat c e)"
proof -
  let ?ds = "show_nat (nat \<bar>c\<bar>)"
  have len: "0 < length ?ds" by simp
  let ?left = "e + int (length ?ds)"
  show ?thesis
  proof (cases "e \<le> 0 \<and> -6 < ?left")
    case True
    then have "parse_fraction (dec_sign c @ dec_place ?ds ?left @ []) = Inr (dec_rat c e)"
      by (subst parse_dec_place) (auto simp: dec_rat_neg)
    with True show ?thesis by (simp add: dec_str_def Let_def)
  next
    case False
    let ?r = "if ?left = 1 then [] else ''E'' @ show_signed (?left - 1)"
    have r: "?r = [] \<or> hd ?r = CHR ''E''" by simp
    have n: "nat (int (length ?ds) - 1) = length ?ds - 1" by simp
    have "parse_fraction (dec_sign c @ dec_place ?ds 1 @ ?r) = Inr (dec_rat c e)"
    proof (cases "?left = 1")
      case True
      then have e: "e \<le> 0" and "nat (- e) = length ?ds - 1" using len by linarith+
      with True show ?thesis
        using parse_dec_place [of 1 c "[]"] len dec_rat_neg [OF e, of c] by (simp add: n Suc_le_eq)
    next
      case False
      have "parse_fraction (dec_sign c @ dec_place ?ds 1 @ ?r) =
          parse_fraction_exp (dec_sign c @ dec_place ?ds 1 @ ?r)
            (of_int c / of_nat (10 ^ (length ?ds - 1))) ?r"
        using parse_dec_place [OF _ r, of 1 c] len by (simp add: n Suc_le_eq)
      also have "\<dots> = Inr (dec_rat c (?left - 1 - int (length ?ds - 1)))"
        using False dec_rat_split [of "?left - 1" c "length ?ds - 1"]
        by (simp add: parse_fraction_exp_signed [simplified])
      finally show ?thesis using len by (simp add: of_nat_diff Suc_le_eq)
    qed
    with False show ?thesis by (auto simp: dec_str_def Let_def)
  qed
qed

section \<open>Exactness within the precision\<close>

lemma dec_strip_value: "dec_strip m e = (m', e') \<Longrightarrow> dec_rat (int m') e' = dec_rat (int m) e"
proof (induction m e arbitrary: m' e' rule: dec_strip.induct)
  case (1 m e)
  show ?case
  proof (cases "m \<noteq> 0 \<and> 10 dvd m")
    case True
    then have s: "dec_strip (m div 10) (e + 1) = (m', e')"
      using "1.prems" by (simp add: dec_strip.simps [of m])
    from True obtain k where "m = 10 * k" by auto
    then have k: "m div 10 = k" "int m = 10 * int k" by simp_all
    have "dec_rat (int k) (e + 1) = dec_rat (10 * int k) e"
    proof (cases "0 \<le> e")
      case True
      then show ?thesis by (simp add: dec_rat_def nat_add_distrib)
    next
      case False
      then have "nat (- e) = Suc (nat (- (e + 1)))" by linarith
      with False show ?thesis by (simp add: dec_rat_def)
    qed
    with "1.IH" [OF True s] k show ?thesis by simp
  next
    case False
    with "1.prems" show ?thesis by (auto simp: dec_strip.simps [of m])
  qed
qed

lemma dec_fix_exact: "ndigits (nat \<bar>c\<bar>) \<le> dec_prec \<Longrightarrow> dec_fix c e = (c, e)"
  by (simp add: dec_fix_def)

lemma dec_rat_signed: "dec_rat (signed c m) e = (if c < 0 then - dec_rat (int m) e else dec_rat (int m) e)"
  by (simp add: signed_def dec_rat_def)

lemma dec_normalize_exact:
  assumes "ndigits (nat \<bar>c\<bar>) \<le> dec_prec" and "dec_normalize c e = (c', e')"
  shows "dec_rat c' e' = dec_rat c e"
proof (cases "c = 0")
  case False
  obtain m x where s: "dec_strip (nat \<bar>c\<bar>) e = (m, x)" by fastforce
  then have "dec_rat (int m) x = dec_rat \<bar>c\<bar> e"
    using dec_strip_value [OF s] by simp
  with assms False s show ?thesis
    by (auto simp: dec_normalize_def dec_fix_exact dec_rat_signed) (simp_all add: dec_rat_def)
qed (use assms in \<open>auto simp: dec_normalize_def dec_fix_exact dec_rat_def\<close>)

end
