(* ===== verification/Values.thy ===== *)
theory Values
  imports Numerics
begin

text \<open>
  Python values as the domain layer sees them (\<^verbatim>\<open>src/python/domain/hashing.py\<close> and the validators
  of \<^verbatim>\<open>src/python/domain/models.py\<close>): a universal value type, the typed normalisation into JSON,
  canonical JSON, content hashes, and the identifier, hash and time-zone checks. The two functions
  the program takes from outside, \<^verbatim>\<open>rfc8785.dumps\<close> and SHA-256, are the fields of \<open>hash_env\<close>,
  an argument of every definition that hashes.
\<close>

section \<open>Data\<close>

text \<open>A datetime is an instant in microseconds since 1970-01-01 UTC, with a flag for \<^verbatim>\<open>tzinfo\<close>.\<close>

record datetime =
  tz_aware :: bool
  micros :: int

text \<open>A dictionary key: a string, or another hashable value given by its \<^verbatim>\<open>str()\<close> text.\<close>

datatype pykey = KStr string | KOther string

fun key_text :: "pykey \<Rightarrow> string" where
  "key_text (KStr s) = s"
| "key_text (KOther s) = s"

text \<open>
  \<open>PyFloat\<close> holds the exact value of the float; \<open>PyDate\<close> is a day number; \<open>PyObj\<close> is a
  dataclass instance with its \<^verbatim>\<open>to_hash_payload()\<close> entries, or its fields where it has none.
  Members of \<^verbatim>\<open>StrEnum\<close> classes are strings.
\<close>

datatype pyval =
    PyNone
  | PyBool bool
  | PyInt int
  | PyFloat decimal
  | PyStr string
  | PyDec decimal
  | PyUUID string
  | PyDatetime datetime
  | PyDate int
  | PyBytes string
  | PyObj "(string \<times> pyval) list"
  | PyDict "(pykey \<times> pyval) list"
  | PyList "pyval list"
  | PyTuple "pyval list"
  | PySet "pyval list"

datatype json =
    JNull
  | JBool bool
  | JInt int
  | JStr string
  | JArr "json list"
  | JObj "(string \<times> json) list"

definition dict_str :: "(string \<times> pyval) list \<Rightarrow> pyval" where
  "dict_str kvs = PyDict (map (\<lambda>(k, v). (KStr k, v)) kvs)"

definition py_opt :: "('a \<Rightarrow> pyval) \<Rightarrow> 'a option \<Rightarrow> pyval" where
  "py_opt f x = (case x of None \<Rightarrow> PyNone | Some y \<Rightarrow> f y)"

definition py_strs :: "string list \<Rightarrow> pyval" where
  "py_strs xs = PyTuple (map PyStr xs)"

section \<open>Dates\<close>

definition civil_from_days :: "int \<Rightarrow> int \<times> int \<times> int" where
  "civil_from_days days =
     (let z = days + 719468; era = z div 146097; doe = z mod 146097;
          yoe = (doe - doe div 1460 + doe div 36524 - doe div 146096) div 365;
          doy = doe - (365 * yoe + yoe div 4 - yoe div 100);
          mp = (5 * doy + 2) div 153;
          d = doy - (153 * mp + 2) div 5 + 1;
          m = (if mp < 10 then mp + 3 else mp - 9);
          y = yoe + era * 400 + (if m \<le> 2 then 1 else 0)
      in (y, m, d))"

definition pad :: "nat \<Rightarrow> int \<Rightarrow> string" where
  "pad w i = (let s = show_nat (nat i) in replicate (w - length s) (CHR ''0'') @ s)"

definition iso_date :: "int \<Rightarrow> string" where
  "iso_date days = (case civil_from_days days of (y, m, d) \<Rightarrow> pad 4 y @ ''-'' @ pad 2 m @ ''-'' @ pad 2 d)"

definition utc_text :: "int \<Rightarrow> string" where
  "utc_text us =
     (let days = us div 86400000000; r = us mod 86400000000; s = r div 1000000; f = r mod 1000000
      in iso_date days @ ''T'' @ pad 2 (s div 3600) @ '':'' @ pad 2 (s div 60 mod 60) @ '':'' @
         pad 2 (s mod 60) @ (if f = 0 then [] else ''.'' @ pad 6 f) @ ''Z'')"

section \<open>Canonical JSON and content hashes\<close>

record hash_env =
  rfc8785_dumps :: "json \<Rightarrow> string option"
  sha256_hex :: "string \<Rightarrow> string"

definition rstrip_char :: "char \<Rightarrow> string \<Rightarrow> string" where
  "rstrip_char c s = rev (dropWhile (\<lambda>x. x = c) (rev s))"

definition decimal_canonical_text :: "decimal \<Rightarrow> string res" where
  "decimal_canonical_text v =
     (case v of
        DFin c e \<Rightarrow>
          if c = 0 then Inr ''0''
          else (case dec_normalize c e of (c', e') \<Rightarrow>
            let text = dec_format_f c' e'
            in if CHR ''.'' \<in> set text
               then Inr (rstrip_char (CHR ''.'') (rstrip_char (CHR ''0'') text))
               else Inr text)
      | _ \<Rightarrow> Inl (DomainValidationError ''non-finite decimals are not canonical JSON''))"

definition datetime_text :: "datetime \<Rightarrow> string res" where
  "datetime_text v =
     (if \<not> tz_aware v
      then Inl (DomainValidationError ''naive datetimes cannot enter canonical artifacts'')
      else Inr (utc_text (micros v)))"

definition unsupported :: "string \<Rightarrow> 'a res" where
  "unsupported ty = Inl (DomainValidationError (''unsupported canonical JSON value: '' @ ty))"

fun normalize :: "string list \<Rightarrow> pyval \<Rightarrow> json res"
  and normalize_list :: "string list \<Rightarrow> pyval list \<Rightarrow> json list res"
  and normalize_fields :: "string list \<Rightarrow> (string \<times> pyval) list \<Rightarrow> (string \<times> json) list res"
  and normalize_items :: "string list \<Rightarrow> (pykey \<times> pyval) list \<Rightarrow> (string \<times> json) list res"
where
  "normalize ex PyNone = Inr JNull"
| "normalize ex (PyBool b) = Inr (JBool b)"
| "normalize ex (PyStr s) = Inr (JStr s)"
| "normalize ex (PyUUID s) = Inr (JStr s)"
| "normalize ex (PyDatetime d) = bindE (datetime_text d) (\<lambda>t. Inr (JStr t))"
| "normalize ex (PyDate d) = Inr (JStr (iso_date d))"
| "normalize ex (PyDec d) = bindE (decimal_canonical_text d) (\<lambda>t. Inr (JStr t))"
| "normalize ex (PyInt i) = Inr (JInt i)"
| "normalize ex (PyFloat (DFin c e)) =
     Inl (DomainValidationError ''binary floating point is prohibited in canonical artifacts; use Decimal'')"
| "normalize ex (PyFloat (DInf b)) = Inl (DomainValidationError ''non-finite floats are not canonical JSON'')"
| "normalize ex (PyFloat DNaN) = Inl (DomainValidationError ''non-finite floats are not canonical JSON'')"
| "normalize ex (PyObj fs) = bindE (normalize_fields ex fs) (\<lambda>js. Inr (JObj js))"
| "normalize ex (PyDict kvs) = bindE (normalize_items ex kvs) (\<lambda>js. Inr (JObj js))"
| "normalize ex (PyList xs) = bindE (normalize_list ex xs) (\<lambda>js. Inr (JArr js))"
| "normalize ex (PyTuple xs) = bindE (normalize_list ex xs) (\<lambda>js. Inr (JArr js))"
| "normalize ex (PyBytes s) = unsupported ''bytes''"
| "normalize ex (PySet xs) = unsupported ''frozenset''"
| "normalize_list ex [] = Inr []"
| "normalize_list ex (x # xs) =
     bindE (normalize ex x) (\<lambda>j. bindE (normalize_list ex xs) (\<lambda>js. Inr (j # js)))"
| "normalize_fields ex [] = Inr []"
| "normalize_fields ex ((k, v) # r) =
     (if k \<in> set ex then normalize_fields ex r
      else bindE (normalize ex v) (\<lambda>j. bindE (normalize_fields ex r) (\<lambda>js. Inr ((k, j) # js))))"
| "normalize_items ex [] = Inr []"
| "normalize_items ex ((KStr k, v) # r) =
     (if k \<in> set ex then normalize_items ex r
      else bindE (normalize ex v) (\<lambda>j. bindE (normalize_items ex r) (\<lambda>js. Inr ((k, j) # js))))"
| "normalize_items ex ((KOther k, v) # r) =
     Inl (DomainValidationError ''canonical JSON object keys must be strings'')"

definition canonical_json :: "hash_env \<Rightarrow> string list \<Rightarrow> pyval \<Rightarrow> string res" where
  "canonical_json E ex v =
     bindE (normalize ex v) (\<lambda>j.
       case rfc8785_dumps E j of
         Some t \<Rightarrow> Inr t
       | None \<Rightarrow> Inl (DomainValidationError ''RFC 8785 canonicalization failed''))"

definition content_hash :: "hash_env \<Rightarrow> pyval \<Rightarrow> string res" where
  "content_hash E v = bindE (canonical_json E [] v) (\<lambda>p. Inr (''sha256:'' @ sha256_hex E p))"

text \<open>\<^verbatim>\<open>content_hash(v).split(':', maxsplit=1)[1][:n]\<close>\<close>

definition hash_prefix :: "hash_env \<Rightarrow> nat \<Rightarrow> pyval \<Rightarrow> string res" where
  "hash_prefix E n v =
     bindE (content_hash E v) (\<lambda>h. Inr (take n (drop 1 (dropWhile (\<lambda>c. c \<noteq> CHR '':'') h))))"

section \<open>Validators\<close>

definition id_start :: "char \<Rightarrow> bool" where
  "id_start c \<longleftrightarrow> is_lower c \<or> is_upper c \<or> is_digit c"

definition id_char :: "char \<Rightarrow> bool" where
  "id_char c \<longleftrightarrow> id_start c \<or> c \<in> {CHR ''_'', CHR ''.'', CHR '':'', CHR ''-''}"

definition valid_id :: "string \<Rightarrow> bool" where
  "valid_id s = (case s of [] \<Rightarrow> False
     | c # cs \<Rightarrow> id_start c \<and> list_all id_char cs \<and> length cs \<le> 127)"

definition require_id :: "string \<Rightarrow> string \<Rightarrow> unit res" where
  "require_id value field_name =
     (if valid_id value then Inr ()
      else Inl (DomainValidationError (field_name @ '' must be a stable non-empty identifier'')))"

definition is_hex :: "char \<Rightarrow> bool" where
  "is_hex c \<longleftrightarrow> is_digit c \<or> (CHR ''a'' \<le> c \<and> c \<le> CHR ''f'')"

definition valid_hash :: "string \<Rightarrow> bool" where
  "valid_hash s \<longleftrightarrow> starts_with s ''sha256:'' \<and> length s = 71 \<and> list_all is_hex (drop 7 s)"

definition require_hash :: "string \<Rightarrow> string \<Rightarrow> unit res" where
  "require_hash value field_name =
     (if valid_hash value then Inr ()
      else Inl (DomainValidationError (field_name @ '' must be a sha256 content hash'')))"

definition require_aware :: "datetime \<Rightarrow> string \<Rightarrow> unit res" where
  "require_aware value field_name =
     (if tz_aware value then Inr ()
      else Inl (DomainValidationError (field_name @ '' must be timezone-aware'')))"

fun require_ids :: "(string \<times> string) list \<Rightarrow> unit res" where
  "require_ids [] = Inr ()"
| "require_ids ((v, n) # r) = bindE (require_id v n) (\<lambda>_. require_ids r)"

text \<open>The deep freeze of nested containers: mappings get string keys, lists become tuples.\<close>

fun deep_freeze :: "pyval \<Rightarrow> pyval" where
  "deep_freeze (PyDict kvs) = PyDict (map (\<lambda>(k, v). (KStr (key_text k), deep_freeze v)) kvs)"
| "deep_freeze (PyList xs) = PyTuple (map deep_freeze xs)"
| "deep_freeze (PyTuple xs) = PyTuple (map deep_freeze xs)"
| "deep_freeze (PySet xs) = PySet (map deep_freeze xs)"
| "deep_freeze v = v"

section \<open>Lemmas\<close>

lemma require_ok [simp, res_simps]:
  "require_id v n = Inr u \<longleftrightarrow> valid_id v"
  "require_hash v n = Inr u \<longleftrightarrow> valid_hash v"
  "require_aware d n = Inr u \<longleftrightarrow> tz_aware d"
  by (simp_all add: require_id_def require_hash_def require_aware_def)

lemma require_ids_ok [simp, res_simps]:
  "require_ids vs = Inr u \<longleftrightarrow> list_all (\<lambda>(v, n). valid_id v) vs"
  by (induction vs rule: require_ids.induct) (auto simp: bindE_Inr_conv)

lemma content_hash_Inr:
  "content_hash E v = Inr h \<longleftrightarrow>
     (\<exists>j p. normalize [] v = Inr j \<and> rfc8785_dumps E j = Some p \<and> h = ''sha256:'' @ sha256_hex E p)"
proof (cases "normalize [] v")
  case (Inr j)
  then show ?thesis
    by (cases "rfc8785_dumps E j") (auto simp: content_hash_def canonical_json_def)
qed (simp add: content_hash_def canonical_json_def)

text \<open>Excluding a field removes it from the payload before hashing.\<close>

lemma normalize_items_excluded:
  "normalize_items ex kvs = Inr js \<Longrightarrow> k \<in> set ex \<Longrightarrow> k \<notin> fst ` set js"
proof (induction kvs arbitrary: js)
  case (Cons kv kvs)
  obtain key v where kv: "kv = (key, v)" by fastforce
  show ?case
    using Cons by (cases key) (fastforce simp: kv res_simps image_iff split: if_splits)+
qed simp

lemma deep_freeze_idem: "deep_freeze (deep_freeze v) = deep_freeze v"
  by (induction v rule: deep_freeze.induct) auto

end
