(* ===== verification/MoneyModel.thy ===== *)
theory MoneyModel
  imports Values
begin

text \<open>
  The exact money value object of \<^verbatim>\<open>src/python/domain/money.py\<close>. An amount is the normalised
  \<^verbatim>\<open>Decimal\<close> (coefficient and exponent) the constructor stores. The lemmas show that every value
  that can be constructed is a non-negative number of cents that fits the decimal context, that
  addition never rounds silently, and that the dictionary form reads back to the same value.
\<close>

text \<open>The inputs \<^verbatim>\<open>Decimal | str | int\<close> (and \<^verbatim>\<open>Fraction\<close>) with the two rejected look-alikes.\<close>

datatype exact_input = InDec decimal | InStr string | InInt int | InBool bool | InFloat | InFrac rat

record Money =
  amount :: "int \<times> int"
  currency :: string

definition check_amount :: "decimal \<Rightarrow> (int \<times> int) res" where
  "check_amount d =
     (case d of
        DFin c e \<Rightarrow>
          if c < 0 then Inl (DomainValidationError ''money amount cannot be negative'')
          else bindE (dec_quantize_cents c e) (\<lambda>q.
            if dec_rat q (-2) \<noteq> dec_rat c e
            then Inl (DomainValidationError ''money amount must have at most two decimal places'')
            else Inr (if c \<noteq> 0 then dec_normalize c e else (0, 0)))
      | _ \<Rightarrow> Inl (DomainValidationError ''money amount must be finite''))"

definition coerce_decimal :: "exact_input \<Rightarrow> (int \<times> int) res" where
  "coerce_decimal v =
     (case v of
        InFloat \<Rightarrow> Inl (DomainValidationError ''binary floating point is prohibited for money'')
      | InBool _ \<Rightarrow>
          Inl (DomainValidationError ''money must be constructed from Decimal, string, or int'')
      | InDec d \<Rightarrow> check_amount d
      | InStr s \<Rightarrow>
          (case parse_decimal s of
             Inl _ \<Rightarrow> Inl (DomainValidationError ''invalid decimal money amount'')
           | Inr d \<Rightarrow> check_amount d)
      | InInt i \<Rightarrow> check_amount (DFin i 0)
      | InFrac _ \<Rightarrow> Inl TypeError)"

definition decimal_text :: "int \<times> int \<Rightarrow> string" where
  "decimal_text a = dec_format2 (fst a) (snd a)"

definition valid_currency :: "string \<Rightarrow> bool" where
  "valid_currency s \<longleftrightarrow> length s = 3 \<and> list_all is_upper s"

definition mk_Money :: "exact_input \<Rightarrow> string \<Rightarrow> Money res" where
  "mk_Money a cur =
     bindE (coerce_decimal a) (\<lambda>amount_value.
       let currency_value = str_upper cur
       in if \<not> valid_currency currency_value
          then Inl (DomainValidationError ''currency must be a three-letter ISO code'')
          else Inr \<lparr>amount = amount_value, currency = currency_value\<rparr>)"

definition money_to_dict :: "Money \<Rightarrow> (string \<times> string) list" where
  "money_to_dict m = [(''amount'', decimal_text (amount m)), (''currency'', currency m)]"

definition money_from_dict :: "(string \<times> string) list \<Rightarrow> Money res" where
  "money_from_dict d =
     (if set (map fst d) \<noteq> {''amount'', ''currency''}
      then Inl (DomainValidationError ''money requires exactly amount and currency'')
      else (case (map_of d ''amount'', map_of d ''currency'') of
              (Some a, Some c) \<Rightarrow> mk_Money (InStr a) c
            | _ \<Rightarrow> Inl (KeyError ''amount'')))"

definition money_add :: "Money \<Rightarrow> Money \<Rightarrow> Money res" where
  "money_add a b =
     (if currency a \<noteq> currency b
      then Inl (DomainValidationError ''money values use different currencies'')
      else (case dec_add (amount a) (amount b) of (c, e) \<Rightarrow> mk_Money (InDec (DFin c e)) (currency a)))"

definition amount_rat :: "int \<times> int \<Rightarrow> rat" where
  "amount_rat a = dec_rat (fst a) (snd a)"

definition money_lt :: "Money \<Rightarrow> Money \<Rightarrow> bool res" where
  "money_lt a b =
     (if currency a \<noteq> currency b
      then Inl (DomainValidationError ''money values use different currencies'')
      else Inr (amount_rat (amount a) < amount_rat (amount b)))"

definition py_money :: "Money \<Rightarrow> pyval" where
  "py_money m = PyObj (map (\<lambda>(k, v). (k, PyStr v)) (money_to_dict m))"

section \<open>Well-formed amounts\<close>

text \<open>Zero, or a coefficient without trailing zero, standing for a number of cents of at most 28 digits.\<close>

definition amount_ok :: "int \<times> int \<Rightarrow> bool" where
  "amount_ok a \<longleftrightarrow>
     a = (0, 0) \<or>
     (0 < fst a \<and> \<not> 10 dvd fst a \<and> -2 \<le> snd a \<and>
      ndigits (nat (fst a * 10 ^ nat (snd a + 2))) \<le> dec_prec)"

definition money_ok :: "Money \<Rightarrow> bool" where
  "money_ok m \<longleftrightarrow> amount_ok (amount m) \<and> valid_currency (currency m)"

lemma ndigits_less: "n < 10 ^ ndigits n"
proof (induction n rule: show_nat.induct)
  case (1 n)
  show ?case
  proof (cases "n < 10")
    case False
    with 1 have IH: "n div 10 < 10 ^ ndigits (n div 10)" by simp
    have "ndigits n = Suc (ndigits (n div 10))"
      using False by (simp add: ndigits_def show_nat.simps [of n])
    moreover have "n < 10 * (n div 10 + 1)" by simp
    ultimately show ?thesis using IH by simp
  qed (simp add: ndigits_def show_nat.simps [of n])
qed

lemma ndigits_le_iff: "0 < k \<Longrightarrow> ndigits n \<le> k \<longleftrightarrow> n < 10 ^ k"
proof (induction k arbitrary: n)
  case (Suc k)
  show ?case
  proof (cases "n < 10")
    case True
    then have "n < 10 ^ Suc k" by (simp add: less_le_trans [of n 10])
    with True show ?thesis by (simp add: ndigits_def show_nat.simps [of n])
  next
    case False
    then have "ndigits n = Suc (ndigits (n div 10))"
      by (simp add: ndigits_def show_nat.simps [of n])
    moreover have "0 < ndigits (n div 10)" by (simp add: ndigits_def)
    ultimately show ?thesis
      using Suc.IH [of "n div 10"] False
      by (cases "k = 0") (auto simp: div_less_iff_less_mult mult.commute)
  qed
qed simp

lemma dec_strip_nonzero: "m \<noteq> 0 \<Longrightarrow> dec_strip m e = (m', e') \<Longrightarrow> m' \<noteq> 0 \<and> \<not> 10 dvd m' \<and> e \<le> e'"
proof (induction m e arbitrary: m' e' rule: dec_strip.induct)
  case (1 m e)
  show ?case
  proof (cases "10 dvd m")
    case True
    then have "m div 10 \<noteq> 0" using "1.prems" by auto
    with 1 True show ?thesis by (fastforce simp: dec_strip.simps [of m])
  next
    case False
    with 1 show ?thesis by (auto simp: dec_strip.simps [of m])
  qed
qed

text \<open>Two stripped coefficients for the same value are identical.\<close>

lemma dec_rat_pow: "e0 \<le> e \<Longrightarrow> dec_rat c e = dec_rat (c * 10 ^ nat (e - e0)) e0"
  using dec_rat_split(1) [of "e - e0 + int (nat (- e0))" "c" "nat (- e0)"]
  by (cases "0 \<le> e0")
    (auto simp: dec_rat_def nat_diff_distrib power_add [symmetric] field_simps nat_add_distrib
      simp flip: power_add)

lemma dec_rat_inject: "dec_rat c e = dec_rat c' e \<longleftrightarrow> c = c'"
  by (auto simp: dec_rat_def)

lemma dec_rat_less_0: "dec_rat c e < 0 \<longleftrightarrow> c < 0"
  by (simp add: dec_rat_def mult_less_0_iff divide_less_0_iff)

lemma stripped_unique_le:
  assumes "dec_rat c e = dec_rat c' e'" "\<not> 10 dvd c" "e' \<le> e" "\<not> 10 dvd c'"
  shows "c = c' \<and> e = e'"
proof -
  from assms have "c' = c * 10 ^ nat (e - e')"
    using dec_rat_pow [OF assms(3), of c] by (simp add: dec_rat_inject)
  moreover have "nat (e - e') = 0"
  proof (rule ccontr)
    assume "nat (e - e') \<noteq> 0"
    then obtain k where "nat (e - e') = Suc k" by (cases "nat (e - e')") auto
    with \<open>c' = _\<close> have "10 dvd c'" by simp
    with assms(4) show False ..
  qed
  ultimately show ?thesis using assms(3) by simp
qed

lemma stripped_unique:
  assumes "dec_rat c e = dec_rat c' e'" "\<not> 10 dvd c" "\<not> 10 dvd c'"
  shows "c = c' \<and> e = e'"
  using stripped_unique_le [OF assms(1,2) _ assms(3)] stripped_unique_le [OF assms(1)[symmetric] assms(3) _ assms(2)]
  by linarith

lemma dec_strip_cents:
  assumes "int m * 10 ^ nat (e + 2) < 10 ^ k" "-2 \<le> e" "m \<noteq> 0" "dec_strip m e = (m', e')"
  shows "int m' * 10 ^ nat (e' + 2) < 10 ^ k"
proof -
  have e: "e \<le> e'" using dec_strip_nonzero [OF assms(3,4)] by simp
  then have "dec_rat (int m' * 10 ^ nat (e' + 2)) (-2) = dec_rat (int m * 10 ^ nat (e + 2)) (-2)"
    using dec_strip_value [OF assms(4)] dec_rat_pow [of "-2" e' "int m'"] dec_rat_pow [of "-2" e "int m"]
      assms(2) by simp
  then show ?thesis using assms(1) by (simp add: dec_rat_inject)
qed

lemma quantize_same:
  assumes "dec_quantize_cents c e = Inr q" "dec_rat q (-2) = dec_rat c e" "0 < c"
  shows "0 < q" "ndigits (nat q) \<le> dec_prec"
proof -
  have "0 < dec_rat c e" using assms(3) by (simp add: dec_rat_def)
  with assms(2) show "0 < q" by (auto simp: dec_rat_def zero_less_divide_iff)
  with assms(1) show "ndigits (nat q) \<le> dec_prec"
    by (auto simp: dec_quantize_cents_def Let_def split: if_splits)
qed

text \<open>Rounding to the context precision is exact for a value that is a number of cents in range.\<close>

lemma dec_fix_rat:
  assumes q: "dec_rat q (-2) = dec_rat c e" "0 < c" "q < 10 ^ dec_prec"
    and f: "dec_fix c e = (c', e')"
  shows "dec_rat c' e' = dec_rat c e \<and> 0 < c'"
proof (cases "ndigits (nat \<bar>c\<bar>) \<le> dec_prec")
  case True
  with f q(2) show ?thesis by (simp add: dec_fix_exact)
next
  case False
  define k where "k = ndigits (nat \<bar>c\<bar>) - dec_prec"
  have big: "10 ^ (dec_prec + k - 1) \<le> nat c" and k: "0 < k"
    using False ndigits_le_iff [of "dec_prec + k - 1" "nat c"] q(2)
    by (auto simp: k_def dec_prec_def)
  show ?thesis
  proof (cases "-2 \<le> e")
    case True
    then have "q = c * 10 ^ nat (e + 2)" using q(1) dec_rat_pow [of "-2" e c] by (simp add: dec_rat_inject)
    then have "c \<le> q" using q(2) by simp
    moreover have "(10::int) ^ dec_prec \<le> 10 ^ (dec_prec + k - 1)" using k by simp
    moreover have "(10::int) ^ (dec_prec + k - 1) \<le> c" using big q(2) by (simp add: le_nat_iff)
    ultimately have False using q(3) by linarith
    then show ?thesis ..
  next
    case e: False
    define n where "n = nat (-2 - e)"
    have "dec_rat q (-2) = dec_rat (q * 10 ^ n) e"
      using dec_rat_pow [of e "-2" q] e by (simp add: n_def)
    then have c: "c = q * 10 ^ n" using q(1) by (simp add: dec_rat_inject)
    have lt: "c < 10 ^ dec_prec * 10 ^ n" using q(3) c by simp
    have "(10::int) ^ (dec_prec + k - 1) \<le> c" using big q(2) by (simp add: le_nat_iff)
    also note lt
    finally have "(10::int) ^ (dec_prec + k - 1) < 10 ^ (dec_prec + n)" by (simp only: power_add)
    then have "dec_prec + k - 1 < dec_prec + n" by (rule power_less_imp_less_exp [rotated]) simp
    then have "k \<le> n" using k by linarith
    then obtain d where "c = d * 10 ^ k" using c
      by (metis le_add_diff_inverse2 mult.assoc power_add)
    then have d: "0 < d" "nat \<bar>c\<bar> = nat d * 10 ^ k"
      using q(2) by (simp_all add: zero_less_mult_iff nat_mult_distrib nat_power_eq)
    then have "div_half_even (nat \<bar>c\<bar>) (10 ^ k) = nat d"
      by (simp add: div_half_even_def)
    moreover have "ndigits (nat d) \<le> dec_prec"
    proof -
      have "nat c < 10 ^ (dec_prec + k)"
        using ndigits_less [of "nat c"] False q(2) by (simp add: k_def)
      then have "nat d * 10 ^ k < 10 ^ dec_prec * 10 ^ k" using d q(2) by (simp add: power_add)
      then show ?thesis by (simp add: ndigits_le_iff dec_prec_def)
    qed
    ultimately have "dec_fix c e = (d, e + int k)"
      unfolding dec_fix_def Let_def k_def [symmetric] using d(1) q(2) k by (simp add: signed_def)
    moreover have "dec_rat d (e + int k) = dec_rat c e"
      using dec_rat_pow [of e "e + int k" d] \<open>c = d * 10 ^ k\<close> by simp
    ultimately show ?thesis using f d by simp
  qed
qed

section \<open>The constructor\<close>

lemma dec_strip_abs: "0 < c \<Longrightarrow> dec_strip (nat \<bar>c\<bar>) e = (m, x) \<Longrightarrow> signed c m = int m"
  by (simp add: signed_def)

lemma check_amount_Inr:
  assumes "check_amount (DFin c e) = Inr a"
  shows "amount_ok a \<and> amount_rat a = dec_rat c e"
proof (cases "c = 0")
  case True
  with assms show ?thesis
    by (auto simp: check_amount_def res_simps amount_ok_def amount_rat_def dec_rat_def split: if_splits)
next
  case False
  with assms obtain q where c: "0 < c" and q: "dec_quantize_cents c e = Inr q"
    and qe: "dec_rat q (-2) = dec_rat c e" and a: "a = dec_normalize c e"
    by (auto simp: check_amount_def res_simps split: if_splits)
  note qb = quantize_same [OF q qe c]
  have qlt: "q < 10 ^ dec_prec"
    using qb ndigits_le_iff [of dec_prec "nat q"] by (simp add: dec_prec_def nat_less_iff)
  obtain c1 e1 where f: "dec_fix c e = (c1, e1)" by fastforce
  note fx = dec_fix_rat [OF qe c qlt f]
  obtain m x where s: "dec_strip (nat c1) e1 = (m, x)" by fastforce
  from fx have a': "a = (int m, x)" using a f s by (simp add: dec_normalize_def signed_def)
  have nz: "m \<noteq> 0" "\<not> 10 dvd m" using dec_strip_nonzero [OF _ s] fx by auto
  have v: "dec_rat (int m) x = dec_rat q (-2)" using dec_strip_value [OF s] fx qe by simp
  have x: "-2 \<le> x"
  proof (rule ccontr)
    assume "\<not> -2 \<le> x"
    then have "dec_rat q (-2) = dec_rat (q * 10 ^ nat (-2 - x)) x" using dec_rat_pow [of x "-2" q] by simp
    with v have "int m = q * 10 ^ nat (-2 - x)" by (simp add: dec_rat_inject)
    moreover from \<open>\<not> -2 \<le> x\<close> obtain k where "nat (-2 - x) = Suc k" by (cases "nat (-2 - x)") auto
    ultimately have "int 10 dvd int m" by simp
    then show False using nz(2) by (simp only: int_dvd_int_iff)
  qed
  then have "int m * 10 ^ nat (x + 2) = q"
    using v dec_rat_pow [of "-2" x "int m"] by (simp add: dec_rat_inject)
  moreover have "\<not> (10::int) dvd int m" using nz(2) by presburger
  ultimately show ?thesis
    using a' nz x qb v qe by (simp add: amount_ok_def amount_rat_def)
qed

lemma amount_unique:
  assumes "amount_ok a" "amount_ok b" "amount_rat a = amount_rat b"
  shows "a = b"
proof (cases "a = (0, 0) \<or> b = (0, 0)")
  case True
  with assms show ?thesis
    by (auto simp: amount_ok_def amount_rat_def dec_rat_def split: if_splits)
next
  case False
  with assms show ?thesis
    using stripped_unique [of "fst a" "snd a" "fst b" "snd b"]
    by (auto simp: amount_ok_def amount_rat_def prod_eq_iff)
qed

lemma coerce_decimal_ok: "coerce_decimal v = Inr a \<Longrightarrow> amount_ok a"
  by (auto simp: coerce_decimal_def check_amount_def
      split: exact_input.splits sum.splits decimal.splits
      dest!: check_amount_Inr [unfolded check_amount_def decimal.case])

lemma mk_Money_ok: "mk_Money v cur = Inr m \<Longrightarrow> money_ok m"
  by (auto simp: mk_Money_def res_simps Let_def money_ok_def dest: coerce_decimal_ok split: if_splits)

lemma amount_rat_nonneg: "amount_ok a \<Longrightarrow> 0 \<le> amount_rat a"
  by (auto simp: amount_ok_def amount_rat_def dec_rat_def)

text \<open>The number of cents an amount stands for.\<close>

definition cents :: "int \<times> int \<Rightarrow> int" where
  "cents a = fst a * 10 ^ nat (snd a + 2)"

lemma cents_rat: "amount_ok a \<Longrightarrow> amount_rat a = dec_rat (cents a) (-2)"
  using dec_rat_pow [of "-2" "snd a" "fst a"]
  by (auto simp: amount_ok_def amount_rat_def cents_def dec_rat_def)

lemma cents_bounds: "amount_ok a \<Longrightarrow> 0 \<le> cents a \<and> cents a < 10 ^ dec_prec"
  by (auto simp: amount_ok_def cents_def ndigits_le_iff dec_prec_def nat_less_iff)

text \<open>Any text or decimal that denotes the value of a well-formed amount is coerced to that amount.\<close>

lemma check_amount_complete:
  assumes ok: "amount_ok a" and v: "dec_rat c e = amount_rat a"
    and q: "dec_rescale c e (-2) = cents a"
  shows "check_amount (DFin c e) = Inr a"
proof -
  have c: "0 \<le> c" using amount_rat_nonneg [OF ok] v dec_rat_less_0 [of c e] by simp
  have nd: "ndigits (nat (cents a)) \<le> dec_prec"
    using cents_bounds [OF ok] by (simp add: ndigits_le_iff dec_prec_def nat_less_iff)
  obtain a' where a': "check_amount (DFin c e) = Inr a'"
    using c q nd cents_bounds [OF ok] cents_rat [OF ok] v
    by (simp add: check_amount_def dec_quantize_cents_def)
  then have "amount_ok a'" "amount_rat a' = amount_rat a" using check_amount_Inr v by auto
  with ok have "a' = a" by (metis amount_unique)
  with a' show ?thesis by simp
qed

section \<open>Addition and the dictionary form\<close>

lemma dec_add_rat:
  assumes "ndigits (nat \<bar>dec_align (fst x) (snd x) m + dec_align (fst y) (snd y) m\<bar>) \<le> dec_prec"
    and "m = min (snd x) (snd y)" "dec_add x y = (c, e)"
  shows "dec_rat c e = amount_rat x + amount_rat y"
proof -
  have "dec_rat (a + b) m = dec_rat a m + dec_rat b m" for a b
    by (simp add: dec_rat_def add_divide_distrib distrib_right)
  moreover have "amount_rat x = dec_rat (dec_align (fst x) (snd x) m) m"
    "amount_rat y = dec_rat (dec_align (fst y) (snd y) m) m"
    using assms(2) dec_rat_pow [of m "snd x" "fst x"] dec_rat_pow [of m "snd y" "fst y"]
    by (simp_all add: amount_rat_def dec_align_def)
  ultimately show ?thesis
    using assms by (auto simp: dec_add_def Let_def dec_fix_exact)
qed

text \<open>
  The aligned sum of two well-formed amounts has at most 29 digits. If it has 29, rounding leaves
  an exponent above \<open>-2\<close> and 28 digits, which the constructor's \<^verbatim>\<open>quantize\<close> rejects.
\<close>

lemma dec_fix_big_rejected:
  assumes "dec_prec < ndigits (nat c)" "0 < c" "-2 \<le> e" "dec_fix c e = (c', e')"
  shows "check_amount (DFin c' e') = Inl InvalidOperation"
proof -
  define k where "k = ndigits (nat \<bar>c\<bar>) - dec_prec"
  define q where "q = div_half_even (nat \<bar>c\<bar>) (10 ^ k)"
  have k: "0 < k" using assms by (simp add: k_def)
  have "10 ^ (dec_prec + k - 1) \<le> nat c"
    using ndigits_le_iff [of "dec_prec + k - 1" "nat c"] assms(1,2) by (auto simp: k_def dec_prec_def)
  moreover have "dec_prec + k - 1 = (dec_prec - 1) + k" by (simp add: dec_prec_def)
  ultimately have "10 ^ (dec_prec - 1) * 10 ^ k \<le> nat c" by (simp only: power_add)
  then have "10 ^ (dec_prec - 1) \<le> nat c div 10 ^ k" by (simp add: less_eq_div_iff_mult_less_eq)
  then have q: "10 ^ (dec_prec - 1) \<le> q" using assms(2) by (simp add: q_def div_half_even_def Let_def)
  have fixed: "dec_fix c e = (if ndigits q > dec_prec then (signed c (q div 10), e + int k + 1)
      else (signed c q, e + int k))"
    unfolding dec_fix_def Let_def k_def [symmetric] q_def [symmetric] using k by simp
  obtain m x where cm: "c' = int m" "e' = x" "10 ^ (dec_prec - 1) \<le> m" "-1 \<le> x"
  proof (cases "ndigits q > dec_prec")
    case True
    then have "10 ^ dec_prec \<le> q" using ndigits_le_iff [of dec_prec q] by (simp add: dec_prec_def)
    then have "10 ^ (dec_prec - 1) \<le> q div 10"
      by (simp add: less_eq_div_iff_mult_less_eq dec_prec_def)
    with True assms k show ?thesis
      using that [of "q div 10" "e + int k + 1"] by (simp add: fixed signed_def)
  next
    case False
    with assms k q show ?thesis
      using that [of q "e + int k"] by (simp add: fixed signed_def)
  qed
  have "(10::nat) ^ dec_prec = 10 ^ (dec_prec - 1) * 10" by (simp add: dec_prec_def)
  also have "\<dots> \<le> m * 10 ^ nat (x + 2)" using cm by (intro mult_le_mono) (auto intro: self_le_power)
  finally have "\<not> ndigits (m * 10 ^ nat (x + 2)) \<le> dec_prec"
    using ndigits_le_iff [of dec_prec "m * 10 ^ nat (x + 2)"] by (simp add: dec_prec_def)
  with cm show ?thesis
    by (simp add: check_amount_def dec_quantize_cents_def dec_rescale_def nat_mult_distrib nat_power_eq)
qed

theorem money_add_exact:
  assumes "money_ok a" "money_ok b" "money_add a b = Inr s"
  shows "amount_rat (amount s) = amount_rat (amount a) + amount_rat (amount b)" "money_ok s"
proof -
  let ?m = "min (snd (amount a)) (snd (amount b))"
  let ?c = "dec_align (fst (amount a)) (snd (amount a)) ?m + dec_align (fst (amount b)) (snd (amount b)) ?m"
  obtain c e where ce: "dec_add (amount a) (amount b) = (c, e)" by fastforce
  with assms(3) have chk: "check_amount (DFin c e) = Inr (amount s)"
    by (auto simp: money_add_def mk_Money_def coerce_decimal_def res_simps Let_def split: if_splits)
  have m: "-2 \<le> ?m" and nn: "0 \<le> ?c"
    using assms(1,2) by (auto simp: money_ok_def amount_ok_def dec_align_def)
  have "ndigits (nat ?c) \<le> dec_prec"
  proof (rule ccontr)
    assume big: "\<not> ndigits (nat ?c) \<le> dec_prec"
    then have "0 < ?c" using nn by (cases "?c = 0") (auto simp: ndigits_def show_nat.simps dec_prec_def)
    moreover have "dec_fix ?c ?m = (c, e)" using ce by (simp add: dec_add_def Let_def)
    ultimately show False using dec_fix_big_rejected [of ?c ?m c e] big m chk by simp
  qed
  then have "dec_rat c e = amount_rat (amount a) + amount_rat (amount b)"
    using dec_add_rat [OF _ refl ce] nn by simp
  then show "amount_rat (amount s) = amount_rat (amount a) + amount_rat (amount b)"
    using check_amount_Inr [OF chk] by simp
  show "money_ok s"
    using assms(3) by (auto simp: money_add_def split: if_splits prod.splits dest: mk_Money_ok)
qed

lemma str_strip_noop: "s \<noteq> [] \<Longrightarrow> \<not> is_space (hd s) \<Longrightarrow> \<not> is_space (last s) \<Longrightarrow> str_strip s = s"
  by (cases s) (simp_all add: str_strip_def dropWhile_eq_self_iff hd_rev split: if_splits)

lemma takeWhile_digits:
  "list_all is_digit ds \<Longrightarrow> \<not> is_digit c \<Longrightarrow>
     takeWhile is_digit (ds @ c # r) = ds \<and> dropWhile is_digit (ds @ c # r) = c # r"
  by (induction ds) auto

lemma digit_not_underscore: "is_digit (CHR ''_'') \<Longrightarrow> False"
  by (simp add: is_digit_def less_eq_char_def)

lemma filter_digits: "list_all is_digit ds \<Longrightarrow> filter (\<lambda>c. c \<noteq> CHR ''_'') ds = ds"
  by (induction ds) (auto dest: digit_not_underscore)

lemma point_not_digit: "\<not> is_digit (CHR ''.'')"
  by (simp add: is_digit_def less_eq_char_def)

lemma parse_decimal_fixed:
  assumes "list_all is_digit ip" "ip \<noteq> []" "list_all is_digit fp" "fp \<noteq> []"
  shows "parse_decimal (ip @ ''.'' @ fp) = Inr (DFin (int (digits_val (ip @ fp))) (- int (length fp)))"
proof -
  let ?s = "ip @ ''.'' @ fp"
  have h: "is_digit (hd ?s)" "is_digit (last ?s)"
    using assms by (auto simp: list_all_iff)
  then have strip: "str_strip ?s = ?s"
    by (intro str_strip_noop) (auto dest: digit_not_special)
  have us: "filter (\<lambda>c. c \<noteq> CHR ''_'') ?s = ?s"
    using assms(1,3) by (simp add: filter_digits)
  have sg: "read_sign ?s = (1, ?s)" using read_sign_digits [OF assms(1,2)] by simp
  obtain d t where ip: "ip = d # t" and d: "is_digit d" using assms(1,2) by (cases ip) auto
  have "lower_char d = d" using d
    by (auto simp: lower_char_def is_digit_def is_upper_def less_eq_char_def)
  moreover have "d \<noteq> CHR ''i'' \<and> d \<noteq> CHR ''n'' \<and> d \<noteq> CHR ''s''" using d
    by (auto simp: is_digit_def less_eq_char_def)
  ultimately have notspecial: "str_lower ?s \<noteq> ''inf''" "str_lower ?s \<noteq> ''infinity''"
    "\<not> starts_with (str_lower ?s) ''nan''" "\<not> starts_with (str_lower ?s) ''snan''"
    by (auto simp: str_lower_def ip)
  have dr: "takeWhile is_digit fp = fp" "dropWhile is_digit fp = []"
    using assms(3) by (auto simp: list_all_iff takeWhile_eq_all_conv dropWhile_eq_Nil_conv)
  show ?thesis
    unfolding parse_decimal_def strip us sg
    using notspecial takeWhile_digits [OF assms(1) point_not_digit] assms
    by (simp add: parse_decimal_number_def Let_def dr del: digits_val_append)
qed

lemma decimal_text_parse:
  assumes "amount_ok a"
  shows "parse_decimal (decimal_text a) = Inr (DFin (cents a) (-2))"
proof -
  have q: "dec_rescale (fst a) (snd a) (-2) = cents a"
    using assms by (auto simp: amount_ok_def dec_rescale_def cents_def)
  define m where "m = nat (cents a)"
  have m: "cents a = int m" using cents_bounds [OF assms] by (simp add: m_def)
  have shown: "decimal_text a = show_nat (m div 100) @ ''.'' @
      [digit_char (m div 10 mod 10), digit_char (m mod 10)]"
    by (simp add: decimal_text_def dec_format2_def q m dec_sign_def)
  have "m div 100 * 100 + (m div 10 mod 10 * 10 + m mod 10) = (m div 10 div 10 * 10 + m div 10 mod 10) * 10 + m mod 10"
    by (simp add: div_mult2_eq [symmetric] algebra_simps)
  also have "\<dots> = m" by (simp only: div_mult_mod_eq)
  finally have "m div 100 * 100 + (m div 10 mod 10 * 10 + m mod 10) = m" .
  then have "int (digits_val (show_nat (m div 100) @ [digit_char (m div 10 mod 10), digit_char (m mod 10)])) = int m"
    by (simp add: digits_val_Cons)
  then show ?thesis
    unfolding shown m
    using parse_decimal_fixed [of "show_nat (m div 100)" "[digit_char (m div 10 mod 10), digit_char (m mod 10)]"]
    by (simp add: is_digit_digit_char)
qed

lemma str_upper_valid: "valid_currency c \<Longrightarrow> str_upper c = c"
  by (auto simp: valid_currency_def str_upper_def list_all_iff upper_char_def is_lower_def is_upper_def
      less_eq_char_def intro!: map_idI)

theorem money_dict_roundtrip: "money_ok m \<Longrightarrow> money_from_dict (money_to_dict m) = Inr m"
proof -
  assume ok: "money_ok m"
  then have a: "amount_ok (amount m)" and c: "valid_currency (currency m)"
    by (simp_all add: money_ok_def)
  have "check_amount (DFin (cents (amount m)) (-2)) = Inr (amount m)"
    using cents_rat [OF a] by (intro check_amount_complete [OF a]) (simp_all add: dec_rescale_def)
  then have "coerce_decimal (InStr (decimal_text (amount m))) = Inr (amount m)"
    by (simp add: coerce_decimal_def decimal_text_parse [OF a])
  then show ?thesis
    using c by (auto simp: money_from_dict_def money_to_dict_def mk_Money_def str_upper_valid)
qed

end
