(* ===== verification/Enums.thy ===== *)
theory Enums
  imports Prelude
begin

text \<open>
  The string enumerations of \<^verbatim>\<open>src/python/domain/enums.py\<close> that the modelled components use, with
  the text of each member where the program hashes or sorts by it. \<open>StackRisk\<close> is ordered by its
  \<^verbatim>\<open>rank\<close> property.
\<close>

datatype CandidateStatus =
    ELIGIBLE
  | ELIGIBLE_WITH_EXCEPTION
  | CONDITIONAL
  | SIRA_INELIGIBLE
  | SEIL_PASS
  | UNAVAILABLE
  | STALE_EVIDENCE
  | INSUFFICIENT_EVIDENCE
  | CONFLICTING_EVIDENCE
  | AUTHORITY_REQUIRED
  | ADVISORY_ONLY

fun candidate_status_value :: "CandidateStatus \<Rightarrow> string" where
  "candidate_status_value ELIGIBLE = ''ELIGIBLE''"
| "candidate_status_value ELIGIBLE_WITH_EXCEPTION = ''ELIGIBLE_WITH_EXCEPTION''"
| "candidate_status_value CONDITIONAL = ''CONDITIONAL''"
| "candidate_status_value SIRA_INELIGIBLE = ''SIRA_INELIGIBLE''"
| "candidate_status_value SEIL_PASS = ''SEIL_PASS''"
| "candidate_status_value UNAVAILABLE = ''UNAVAILABLE''"
| "candidate_status_value STALE_EVIDENCE = ''STALE_EVIDENCE''"
| "candidate_status_value INSUFFICIENT_EVIDENCE = ''INSUFFICIENT_EVIDENCE''"
| "candidate_status_value CONFLICTING_EVIDENCE = ''CONFLICTING_EVIDENCE''"
| "candidate_status_value AUTHORITY_REQUIRED = ''AUTHORITY_REQUIRED''"
| "candidate_status_value ADVISORY_ONLY = ''ADVISORY_ONLY''"

datatype RankStability = STABLE | UNSTABLE | UNDETERMINED

fun rank_stability_value :: "RankStability \<Rightarrow> string" where
  "rank_stability_value STABLE = ''STABLE''"
| "rank_stability_value UNSTABLE = ''UNSTABLE''"
| "rank_stability_value UNDETERMINED = ''UNDETERMINED''"

datatype PackAuthority = SELLER_SEALED | PLATFORM_COMPILED | EXTERNAL_UNSEALED

fun pack_authority_value :: "PackAuthority \<Rightarrow> string" where
  "pack_authority_value SELLER_SEALED = ''SELLER_SEALED''"
| "pack_authority_value PLATFORM_COMPILED = ''PLATFORM_COMPILED''"
| "pack_authority_value EXTERNAL_UNSEALED = ''EXTERNAL_UNSEALED''"

datatype ApprovalStatus =
    NOT_REQUIRED
  | NOT_REQUESTED
  | PENDING
  | APPROVED
  | REJECTED
  | REVOKED
  | EXPIRED
  | SUPERSEDED

datatype PaymentHandoffStatus = READY | OPENED | EXPIRED | CANCELLED

datatype SolutionAction =
    REUSE_EXISTING
  | CONFIGURE_EXISTING
  | NO_ACTION
  | BUY
  | RENEW
  | RESIZE
  | REPLACE
  | CONSOLIDATE
  | CANCEL

fun solution_action_value :: "SolutionAction \<Rightarrow> string" where
  "solution_action_value REUSE_EXISTING = ''REUSE_EXISTING''"
| "solution_action_value CONFIGURE_EXISTING = ''CONFIGURE_EXISTING''"
| "solution_action_value NO_ACTION = ''NO_ACTION''"
| "solution_action_value BUY = ''BUY''"
| "solution_action_value RENEW = ''RENEW''"
| "solution_action_value RESIZE = ''RESIZE''"
| "solution_action_value REPLACE = ''REPLACE''"
| "solution_action_value CONSOLIDATE = ''CONSOLIDATE''"
| "solution_action_value CANCEL = ''CANCEL''"

datatype StackRisk = LOW | MEDIUM | HIGH | CRITICAL

fun risk_rank :: "StackRisk \<Rightarrow> int" where
  "risk_rank LOW = 0"
| "risk_rank MEDIUM = 1"
| "risk_rank HIGH = 2"
| "risk_rank CRITICAL = 3"

fun stack_risk_value :: "StackRisk \<Rightarrow> string" where
  "stack_risk_value LOW = ''LOW''"
| "stack_risk_value MEDIUM = ''MEDIUM''"
| "stack_risk_value HIGH = ''HIGH''"
| "stack_risk_value CRITICAL = ''CRITICAL''"

datatype TruthValue = TRUE | FALSE | UNKNOWN | CONFLICT | UNRESOLVED

fun truth_value :: "TruthValue \<Rightarrow> string" where
  "truth_value TRUE = ''TRUE''"
| "truth_value FALSE = ''FALSE''"
| "truth_value UNKNOWN = ''UNKNOWN''"
| "truth_value CONFLICT = ''CONFLICT''"
| "truth_value UNRESOLVED = ''UNRESOLVED''"

datatype RuleOperator =
    EQ | NEQ | IN | NOT_IN | CONTAINS | CONTAINS_ALL | GTE | LTE | GT | LT | EXISTS
  | DATE_BEFORE | DATE_ON_OR_BEFORE | DATE_AFTER | DATE_ON_OR_AFTER

datatype ProductInstanceState =
    PROPOSED | CONTRACTED | PROVISIONED | DEPLOYING | ACTIVE | DEGRADED | RETIRING | CANCELLED

fun instance_state_value :: "ProductInstanceState \<Rightarrow> string" where
  "instance_state_value PROPOSED = ''proposed''"
| "instance_state_value CONTRACTED = ''contracted''"
| "instance_state_value PROVISIONED = ''provisioned''"
| "instance_state_value DEPLOYING = ''deploying''"
| "instance_state_value ACTIVE = ''active''"
| "instance_state_value DEGRADED = ''degraded''"
| "instance_state_value RETIRING = ''retiring''"
| "instance_state_value CANCELLED = ''cancelled''"

datatype StackPatchStatus =
    DRAFT | VALIDATED | AWAITING_APPROVAL | APPROVED | APPLYING | APPLIED | CONFLICT | FAILED
  | COMPENSATING_PATCH

section \<open>The risk order\<close>

lemma risk_rank_inject [simp]: "risk_rank a = risk_rank b \<longleftrightarrow> a = b"
  by (cases a; cases b) simp_all

instantiation StackRisk :: linorder
begin

definition less_eq_StackRisk :: "StackRisk \<Rightarrow> StackRisk \<Rightarrow> bool" where
  "less_eq_StackRisk a b \<longleftrightarrow> risk_rank a \<le> risk_rank b"

definition less_StackRisk :: "StackRisk \<Rightarrow> StackRisk \<Rightarrow> bool" where
  "less_StackRisk a b \<longleftrightarrow> risk_rank a < risk_rank b"

instance
  by standard (auto simp: less_eq_StackRisk_def less_StackRisk_def)

end

end
