(* ===== verification/Bounds.thy ===== *)
theory Bounds
  imports MoneyModel Enums
begin

text \<open>
  Exact Decision Graph intervals and rank stability: \<^verbatim>\<open>src/python/decision_engine/bounds.py\<close>. Each
  dataclass is a record with a constructor function for its \<^verbatim>\<open>__post_init__\<close> checks. The lemmas show
  that ratios are stored in lowest terms, that aggregated intervals bracket every value their
  inputs allow, and (through the locale \<open>ordering_envelope\<close>) what a rank-stability verdict means:
  the frontier holds exactly the competitors that can overtake the selected plan.
\<close>

section \<open>Exact ratios\<close>

definition to_fraction :: "exact_input \<Rightarrow> string \<Rightarrow> rat res" where
  "to_fraction v field_name =
     (let of_decimal = (\<lambda>d. case d of
            DFin c e \<Rightarrow> Inr (dec_rat c e)
          | _ \<Rightarrow> Inl (DomainValidationError (field_name @ '' must be finite'')))
      in case v of
           InBool _ \<Rightarrow> Inl (DomainValidationError (field_name @ '' requires exact input''))
         | InFloat \<Rightarrow> Inl (DomainValidationError (field_name @ '' requires exact input''))
         | InFrac r \<Rightarrow> Inr r
         | InDec d \<Rightarrow> of_decimal d
         | InInt i \<Rightarrow> of_decimal (DFin i 0)
         | InStr s \<Rightarrow>
             (case parse_decimal s of
                Inl _ \<Rightarrow> Inl (DomainValidationError (''invalid '' @ field_name))
              | Inr d \<Rightarrow> of_decimal d))"

record ExactRatio =
  numerator :: int
  denominator :: int

definition mk_ExactRatio :: "int \<Rightarrow> int \<Rightarrow> ExactRatio res" where
  "mk_ExactRatio n d =
     (if d = 0
      then Inl (DomainValidationError ''an exact ratio requires integer numerator/denominator'')
      else let sgn = (if d < 0 then -1 else 1); divisor = gcd n d
           in Inr \<lparr>numerator = (sgn * n) div divisor, denominator = \<bar>d\<bar> div divisor\<rparr>)"

definition ratio_fraction :: "ExactRatio \<Rightarrow> rat" where
  "ratio_fraction r = of_int (numerator r) / of_int (denominator r)"

text \<open>\<^verbatim>\<open>ExactRatio(f.numerator, f.denominator)\<close> for a fraction already in lowest terms.\<close>

definition ratio_of :: "rat \<Rightarrow> ExactRatio" where
  "ratio_of q = (case quotient_of q of (n, d) \<Rightarrow> \<lparr>numerator = n, denominator = d\<rparr>)"

definition ratio_from_value :: "exact_input \<Rightarrow> string \<Rightarrow> ExactRatio res" where
  "ratio_from_value v field_name =
     bindE (to_fraction v field_name) (\<lambda>q. case quotient_of q of (n, d) \<Rightarrow> mk_ExactRatio n d)"

definition ratio_payload :: "ExactRatio \<Rightarrow> pyval" where
  "ratio_payload r = dict_str [(''numerator'', PyInt (numerator r)), (''denominator'', PyInt (denominator r))]"

definition ratio_ok :: "ExactRatio \<Rightarrow> bool" where
  "ratio_ok r \<longleftrightarrow> 0 < denominator r \<and> coprime (numerator r) (denominator r)"

section \<open>Preference, coverage, risk, cost and age intervals\<close>

record PreferenceCriterionBound =
  pcb_criterion_id :: string
  pcb_weight :: int
  conservative_satisfaction :: ExactRatio
  optimistic_satisfaction :: ExactRatio

definition mk_PreferenceCriterionBound ::
  "string \<Rightarrow> int \<Rightarrow> ExactRatio \<Rightarrow> ExactRatio \<Rightarrow> PreferenceCriterionBound res" where
  "mk_PreferenceCriterionBound cid w lo hi =
     bindE (require_id cid ''criterion_id'') (\<lambda>_.
       if \<not> (1 \<le> w \<and> w \<le> 5)
       then Inl (DomainValidationError ''preference weight must be an integer from 1 to 5'')
       else if \<not> (0 \<le> ratio_fraction lo \<and> ratio_fraction lo \<le> ratio_fraction hi \<and> ratio_fraction hi \<le> 1)
       then Inl (DomainValidationError
         ''preference satisfaction bounds must satisfy 0 <= low <= high <= 1'')
       else Inr \<lparr>pcb_criterion_id = cid, pcb_weight = w,
                 conservative_satisfaction = lo, optimistic_satisfaction = hi\<rparr>)"

record PreferenceScoreBounds =
  psb_conservative :: ExactRatio
  psb_optimistic :: ExactRatio

definition mk_PreferenceScoreBounds :: "ExactRatio \<Rightarrow> ExactRatio \<Rightarrow> PreferenceScoreBounds res" where
  "mk_PreferenceScoreBounds lo hi =
     (if \<not> (0 \<le> ratio_fraction lo \<and> ratio_fraction lo \<le> ratio_fraction hi \<and> ratio_fraction hi \<le> 100)
      then Inl (DomainValidationError ''preference score bounds must be between zero and 100'')
      else Inr \<lparr>psb_conservative = lo, psb_optimistic = hi\<rparr>)"

text \<open>\<^verbatim>\<open>100 * sum(w_i * s_i) / sum(w_i)\<close> over (weight, satisfaction) pairs.\<close>

definition weighted_score :: "(int \<times> rat) list \<Rightarrow> rat" where
  "weighted_score ws =
     100 * sum_list (map (\<lambda>(w, s). of_int w * s) ws) / of_int (sum_list (map fst ws))"

definition aggregate_preference_bounds :: "PreferenceCriterionBound list \<Rightarrow> PreferenceScoreBounds res" where
  "aggregate_preference_bounds criteria =
     (if criteria = []
      then Inl (DomainValidationError ''a preference-capable plan requires at least one criterion'')
      else if \<not> distinct (map pcb_criterion_id criteria)
      then Inl (DomainValidationError ''preference criteria must be unique'')
      else mk_PreferenceScoreBounds
        (ratio_of (weighted_score
          (map (\<lambda>i. (pcb_weight i, ratio_fraction (conservative_satisfaction i))) criteria)))
        (ratio_of (weighted_score
          (map (\<lambda>i. (pcb_weight i, ratio_fraction (optimistic_satisfaction i))) criteria))))"

record CoverageCriterion =
  cc_criterion_id :: string
  cc_weight :: int
  conservative_covered :: bool
  optimistic_covered :: bool

definition mk_CoverageCriterion :: "string \<Rightarrow> int \<Rightarrow> bool \<Rightarrow> bool \<Rightarrow> CoverageCriterion res" where
  "mk_CoverageCriterion cid w con opt =
     bindE (require_id cid ''criterion_id'') (\<lambda>_.
       if \<not> (1 \<le> w \<and> w \<le> 5)
       then Inl (DomainValidationError ''coverage weight must be an integer from 1 to 5'')
       else if con \<and> \<not> opt
       then Inl (DomainValidationError
         ''optimistic coverage cannot be lower than conservative coverage'')
       else Inr \<lparr>cc_criterion_id = cid, cc_weight = w,
                 conservative_covered = con, optimistic_covered = opt\<rparr>)"

record CoverageBounds =
  cov_conservative :: ExactRatio
  cov_optimistic :: ExactRatio

definition covered_share :: "(CoverageCriterion \<Rightarrow> bool) \<Rightarrow> CoverageCriterion list \<Rightarrow> rat" where
  "covered_share covered criteria =
     of_int (sum_list (map cc_weight (filter covered criteria))) /
     of_int (sum_list (map cc_weight criteria))"

definition aggregate_coverage_bounds :: "CoverageCriterion list \<Rightarrow> CoverageBounds res" where
  "aggregate_coverage_bounds criteria =
     (if criteria = []
      then Inr \<lparr>cov_conservative = ratio_of 1, cov_optimistic = ratio_of 1\<rparr>
      else if \<not> distinct (map cc_criterion_id criteria)
      then Inl (DomainValidationError ''coverage criteria must be unique'')
      else Inr \<lparr>cov_conservative = ratio_of (covered_share conservative_covered criteria),
                cov_optimistic = ratio_of (covered_share optimistic_covered criteria)\<rparr>)"

record RiskBounds =
  risk_lower :: StackRisk
  risk_base :: StackRisk
  risk_upper :: StackRisk

definition mk_RiskBounds :: "StackRisk \<Rightarrow> StackRisk \<Rightarrow> StackRisk \<Rightarrow> RiskBounds res" where
  "mk_RiskBounds l b u =
     (if \<not> (risk_rank l \<le> risk_rank b \<and> risk_rank b \<le> risk_rank u)
      then Inl (DomainValidationError ''risk bounds must satisfy lower <= base <= upper'')
      else Inr \<lparr>risk_lower = l, risk_base = b, risk_upper = u\<rparr>)"

text \<open>The component-wise maximum by rank (\<^verbatim>\<open>by_rank[max(...)]\<close>).\<close>

definition max_risk :: "StackRisk list \<Rightarrow> StackRisk" where
  "max_risk rs = foldr max rs LOW"

definition aggregate_risk_bounds :: "RiskBounds list \<Rightarrow> RiskBounds res" where
  "aggregate_risk_bounds components =
     (if components = []
      then Inl (DomainValidationError ''risk aggregation requires a component or current-stack action'')
      else mk_RiskBounds (max_risk (map risk_lower components))
        (max_risk (map risk_base components)) (max_risk (map risk_upper components)))"

record CostBounds =
  cost_low :: Money
  cost_base :: Money
  cost_high :: Money

definition mk_CostBounds :: "Money \<Rightarrow> Money \<Rightarrow> Money \<Rightarrow> CostBounds res" where
  "mk_CostBounds l b h =
     (if \<not> (currency l = currency b \<and> currency b = currency h) \<or>
         \<not> (amount_rat (amount l) \<le> amount_rat (amount b) \<and> amount_rat (amount b) \<le> amount_rat (amount h))
      then Inl (DomainValidationError ''TCO bounds require one currency and low <= base <= high'')
      else Inr \<lparr>cost_low = l, cost_base = b, cost_high = h\<rparr>)"

record EvidenceAgeBounds =
  age_lower :: ExactRatio
  age_upper :: ExactRatio

definition mk_EvidenceAgeBounds :: "ExactRatio \<Rightarrow> ExactRatio \<Rightarrow> EvidenceAgeBounds res" where
  "mk_EvidenceAgeBounds l u =
     (if \<not> (0 \<le> ratio_fraction l \<and> ratio_fraction l \<le> ratio_fraction u)
      then Inl (DomainValidationError ''evidence-age bounds must satisfy 0 <= lower <= upper'')
      else Inr \<lparr>age_lower = l, age_upper = u\<rparr>)"

definition age_ratio :: "datetime \<Rightarrow> int \<Rightarrow> datetime \<Rightarrow> ExactRatio" where
  "age_ratio evaluated_at sla observed_at =
     ratio_of (of_int (micros evaluated_at - micros observed_at) / of_int (sla * 1000000))"

definition evidence_age_bounds :: "datetime \<Rightarrow> datetime \<Rightarrow> datetime \<Rightarrow> int \<Rightarrow> EvidenceAgeBounds res" where
  "evidence_age_bounds evaluated_at obs_lo obs_hi sla =
     (if \<not> tz_aware evaluated_at \<or> \<not> tz_aware obs_lo \<or> \<not> tz_aware obs_hi
      then Inl (DomainValidationError ''evidence times must be timezone-aware'')
      else if sla < 1
      then Inl (DomainValidationError ''evidence SLA must be a positive integer number of seconds'')
      else if \<not> (micros obs_lo \<le> micros obs_hi \<and> micros obs_hi \<le> micros evaluated_at)
      then Inl (DomainValidationError ''evidence time bounds must precede evaluation'')
      else mk_EvidenceAgeBounds (age_ratio evaluated_at sla obs_hi) (age_ratio evaluated_at sla obs_lo))"

definition max_rat :: "rat list \<Rightarrow> rat" where
  "max_rat qs = (case qs of [] \<Rightarrow> 0 | q # r \<Rightarrow> foldl max q r)"

definition aggregate_evidence_age_bounds :: "EvidenceAgeBounds list \<Rightarrow> EvidenceAgeBounds res" where
  "aggregate_evidence_age_bounds items =
     (if items = [] then mk_EvidenceAgeBounds (ratio_of 0) (ratio_of 0)
      else mk_EvidenceAgeBounds
        (ratio_of (max_rat (map (\<lambda>i. ratio_fraction (age_lower i)) items)))
        (ratio_of (max_rat (map (\<lambda>i. ratio_fraction (age_upper i)) items))))"

section \<open>Ordering keys and rank stability\<close>

record OrderingBounds =
  preference :: PreferenceScoreBounds
  stack_risk :: RiskBounds
  total_cost :: CostBounds
  decision_material_coverage :: CoverageBounds
  maximum_evidence_age_ratio :: EvidenceAgeBounds

record BoundedPlan =
  bp_plan_id :: string
  bp_status :: CandidateStatus
  bp_stable_action_ids :: "string list"
  bp_bounds :: "OrderingBounds option"
  bp_bound_unavailable_reasons :: "string list"

definition mk_BoundedPlan ::
  "string \<Rightarrow> CandidateStatus \<Rightarrow> string list \<Rightarrow> OrderingBounds option \<Rightarrow> string list \<Rightarrow> BoundedPlan res" where
  "mk_BoundedPlan pid st actions bnds reasons =
     bindE (require_id pid ''plan_id'') (\<lambda>_.
       if st \<notin> {ELIGIBLE, ELIGIBLE_WITH_EXCEPTION}
       then Inl (DomainValidationError ''only eligible plans receive authoritative ordering bounds'')
       else if actions = []
       then Inl (DomainValidationError ''a bounded plan requires stable action IDs'')
       else bindE (require_ids (map (\<lambda>a. (a, ''stable_action_id'')) actions)) (\<lambda>_.
         if (bnds = None) \<noteq> (reasons \<noteq> [])
         then Inl (DomainValidationError ''missing bounds require exact BOUND_UNAVAILABLE reasons'')
         else Inr \<lparr>bp_plan_id = pid, bp_status = st, bp_stable_action_ids = actions,
                   bp_bounds = bnds, bp_bound_unavailable_reasons = reasons\<rparr>))"

definition status_rank :: "BoundedPlan \<Rightarrow> int" where
  "status_rank p = (if bp_status p = ELIGIBLE then 0 else 1)"

type_synonym ordering_key = "int \<times> rat \<times> int \<times> rat \<times> rat \<times> rat \<times> string list \<times> string"

definition require_bounds :: "BoundedPlan \<Rightarrow> OrderingBounds res" where
  "require_bounds p =
     (case bp_bounds p of
        None \<Rightarrow> Inl (DomainValidationError ''BOUND_UNAVAILABLE plans cannot receive an ordering key'')
      | Some b \<Rightarrow> Inr b)"

definition authoritative_key_of :: "BoundedPlan \<Rightarrow> OrderingBounds \<Rightarrow> ordering_key" where
  "authoritative_key_of p b =
     (status_rank p,
      - ratio_fraction (psb_conservative (preference b)),
      risk_rank (risk_base (stack_risk b)),
      amount_rat (amount (cost_base (total_cost b))),
      - ratio_fraction (cov_conservative (decision_material_coverage b)),
      ratio_fraction (age_upper (maximum_evidence_age_ratio b)),
      bp_stable_action_ids p, bp_plan_id p)"

definition conservative_key_of :: "BoundedPlan \<Rightarrow> OrderingBounds \<Rightarrow> ordering_key" where
  "conservative_key_of p b =
     (status_rank p,
      - ratio_fraction (psb_conservative (preference b)),
      risk_rank (risk_upper (stack_risk b)),
      amount_rat (amount (cost_high (total_cost b))),
      - ratio_fraction (cov_conservative (decision_material_coverage b)),
      ratio_fraction (age_upper (maximum_evidence_age_ratio b)),
      bp_stable_action_ids p, bp_plan_id p)"

definition optimistic_key_of :: "BoundedPlan \<Rightarrow> OrderingBounds \<Rightarrow> ordering_key" where
  "optimistic_key_of p b =
     (status_rank p,
      - ratio_fraction (psb_optimistic (preference b)),
      risk_rank (risk_lower (stack_risk b)),
      amount_rat (amount (cost_low (total_cost b))),
      - ratio_fraction (cov_optimistic (decision_material_coverage b)),
      ratio_fraction (age_lower (maximum_evidence_age_ratio b)),
      bp_stable_action_ids p, bp_plan_id p)"

definition authoritative_ordering_key :: "BoundedPlan \<Rightarrow> ordering_key res" where
  "authoritative_ordering_key p = bindE (require_bounds p) (\<lambda>b. Inr (authoritative_key_of p b))"

definition conservative_envelope_key :: "BoundedPlan \<Rightarrow> ordering_key res" where
  "conservative_envelope_key p = bindE (require_bounds p) (\<lambda>b. Inr (conservative_key_of p b))"

definition optimistic_envelope_key :: "BoundedPlan \<Rightarrow> ordering_key res" where
  "optimistic_envelope_key p = bindE (require_bounds p) (\<lambda>b. Inr (optimistic_key_of p b))"

record RankStabilityResult =
  rs_status :: RankStability
  ordering_frontier_plan_ids :: "string list"
  bound_unavailable_plan_ids :: "string list"

definition assess_rank_stability :: "BoundedPlan \<Rightarrow> BoundedPlan list \<Rightarrow> RankStabilityResult res" where
  "assess_rank_stability selected competitors =
     (let unavailable = sort (map bp_plan_id (filter (\<lambda>p. bp_bounds p = None) (selected # competitors)))
      in if unavailable \<noteq> []
         then Inr \<lparr>rs_status = UNDETERMINED, ordering_frontier_plan_ids = [],
                   bound_unavailable_plan_ids = unavailable\<rparr>
         else bindE (conservative_envelope_key selected) (\<lambda>selected_worst.
           bindE (mapE (\<lambda>p. bindE (optimistic_envelope_key p) (\<lambda>k. Inr (k, bp_plan_id p))) competitors)
             (\<lambda>keyed.
               let frontier = sort (map snd (filter (\<lambda>(k, _). k < selected_worst) keyed))
               in Inr \<lparr>rs_status = (if frontier \<noteq> [] then UNSTABLE else STABLE),
                       ordering_frontier_plan_ids = frontier, bound_unavailable_plan_ids = []\<rparr>)))"

section \<open>Ratios in lowest terms\<close>

lemma mk_ExactRatio_ok:
  assumes "mk_ExactRatio n d = Inr r"
  shows "ratio_ok r" "ratio_fraction r = of_int n / of_int d"
proof -
  from assms have d: "d \<noteq> 0" by (auto simp: mk_ExactRatio_def split: if_splits)
  define g where "g = gcd n d"
  have g: "0 < g" "g \<noteq> 0" using d by (simp_all add: g_def)
  obtain n' d' where n': "n = n' * g" and d': "d = d' * g" and cop: "coprime n' d'"
    using gcd_coprime_exists [of n d] g unfolding g_def by blast
  have "- n = (- n') * g" "\<bar>d\<bar> = \<bar>d'\<bar> * g" using n' d' g by (simp_all add: abs_mult)
  then have "n div g = n'" "(- n) div g = - n'" "\<bar>d\<bar> div g = \<bar>d'\<bar>"
    using n' g(2) by (metis nonzero_mult_div_cancel_right)+
  moreover have "r = \<lparr>numerator = ((if d < 0 then -1 else 1) * n) div g, denominator = \<bar>d\<bar> div g\<rparr>"
    using assms d by (simp add: mk_ExactRatio_def Let_def g_def)
  ultimately have r: "r = \<lparr>numerator = (if d < 0 then - n' else n'), denominator = \<bar>d'\<bar>\<rparr>"
    by simp
  have d'0: "d' \<noteq> 0" and sg: "d < 0 \<longleftrightarrow> d' < 0" using d g d' by (auto simp: mult_less_0_iff)
  show "ratio_ok r" using cop d'0 by (simp add: r ratio_ok_def)
  show "ratio_fraction r = of_int n / of_int d"
    using g d'0 sg by (auto simp: r ratio_fraction_def n' d')
qed

lemma ratio_of_ok [simp]: "ratio_ok (ratio_of q)" "ratio_fraction (ratio_of q) = q"
proof -
  obtain n d where q: "quotient_of q = (n, d)" by fastforce
  then show "ratio_ok (ratio_of q)"
    using quotient_of_coprime [OF q] quotient_of_denom_pos [OF q]
    by (simp add: ratio_of_def ratio_ok_def)
  show "ratio_fraction (ratio_of q) = q"
    by (simp add: ratio_of_def ratio_fraction_def q quotient_of_div [OF q, symmetric])
qed

lemma ratio_eq_iff:
  assumes "ratio_ok r" "ratio_ok s"
  shows "r = s \<longleftrightarrow> ratio_fraction r = ratio_fraction s"
proof
  assume eq: "ratio_fraction r = ratio_fraction s"
  have "quotient_of (ratio_fraction x) = (numerator x, denominator x)" if "ratio_ok x" for x
    using that by (simp add: ratio_fraction_def ratio_ok_def Fract_of_int_quotient [symmetric]
        quotient_of_Fract Rat.normalize_def coprime_iff_gcd_eq_1)
  from this [OF assms(1)] this [OF assms(2)] eq show "r = s"
    by (simp add: ExactRatio.equality)
qed simp

text \<open>The stored form of a fraction is what the constructor computes from its parts.\<close>

lemma mk_ExactRatio_quotient: "quotient_of q = (n, d) \<Longrightarrow> mk_ExactRatio n d = Inr (ratio_of q)"
proof -
  assume q: "quotient_of q = (n, d)"
  then have "d \<noteq> 0" using quotient_of_denom_pos [OF q] by simp
  then obtain r where r: "mk_ExactRatio n d = Inr r" by (auto simp: mk_ExactRatio_def Let_def)
  have "ratio_fraction r = ratio_fraction (ratio_of q)"
    using mk_ExactRatio_ok(2) [OF r] quotient_of_div [OF q] by simp
  then have "r = ratio_of q" using mk_ExactRatio_ok(1) [OF r] by (simp add: ratio_eq_iff)
  with r show ?thesis by simp
qed

section \<open>Intervals bracket what they aggregate\<close>

definition criterion_ok :: "PreferenceCriterionBound \<Rightarrow> bool" where
  "criterion_ok i \<longleftrightarrow> 1 \<le> pcb_weight i \<and> pcb_weight i \<le> 5 \<and>
     0 \<le> ratio_fraction (conservative_satisfaction i) \<and>
     ratio_fraction (conservative_satisfaction i) \<le> ratio_fraction (optimistic_satisfaction i) \<and>
     ratio_fraction (optimistic_satisfaction i) \<le> 1"

lemma mk_PreferenceCriterionBound_ok:
  "mk_PreferenceCriterionBound cid w lo hi = Inr i \<Longrightarrow> criterion_ok i"
  by (auto simp: mk_PreferenceCriterionBound_def criterion_ok_def res_simps split: if_splits)

lemma sum_weights_pos: "ws \<noteq> [] \<Longrightarrow> (\<forall>w \<in> set ws. 1 \<le> w) \<Longrightarrow> 1 \<le> (sum_list ws :: int)"
  by (induction ws) (auto, metis add_mono_thms_linordered_semiring(1) sum_list.Nil add_0_right
      dual_order.trans one_le_numeral numeral_One one_add_one)

lemma weighted_score_mono:
  assumes "list_all2 (\<lambda>(w, s) (w', s'). w = w' \<and> 1 \<le> w \<and> s \<le> s') xs ys"
  shows "weighted_score xs \<le> weighted_score ys"
proof -
  have num: "sum_list (map (\<lambda>(w, s). of_int w * s) xs) \<le> sum_list (map (\<lambda>(w, s). of_int w * s) ys)"
    using assms by (induction rule: list_all2_induct) (auto intro!: add_mono mult_left_mono)
  have den: "map fst xs = map fst ys"
    using assms by (induction rule: list_all2_induct) auto
  have "0 \<le> sum_list (map fst ys)"
    using assms by (induction rule: list_all2_induct) auto
  with num show ?thesis by (simp add: weighted_score_def den divide_right_mono)
qed

lemma weighted_score_const:
  assumes "xs \<noteq> []" "\<forall>x \<in> set xs. 1 \<le> w x"
  shows "weighted_score (map (\<lambda>x. (w x, k)) xs) = 100 * k"
proof -
  have "sum_list (map (\<lambda>x. of_int (w x) * k) xs) = of_int (sum_list (map w xs)) * k"
    by (induction xs) (auto simp: distrib_right)
  moreover have "1 \<le> sum_list (map w xs)" using assms by (intro sum_weights_pos) auto
  ultimately show ?thesis by (simp add: weighted_score_def o_def)
qed

lemma weighted_score_between:
  assumes "\<forall>x \<in> set xs. 1 \<le> w x \<and> f x \<le> g x"
  shows "weighted_score (map (\<lambda>x. (w x, f x)) xs) \<le> weighted_score (map (\<lambda>x. (w x, g x)) xs)"
  using assms by (intro weighted_score_mono) (simp add: list_all2_conv_all_nth)

theorem aggregate_preference_bounds_bracket:
  assumes "criteria \<noteq> []" "distinct (map pcb_criterion_id criteria)" "\<forall>i \<in> set criteria. criterion_ok i"
  obtains b where "aggregate_preference_bounds criteria = Inr b"
    "ratio_ok (psb_conservative b)" "ratio_ok (psb_optimistic b)"
    "0 \<le> ratio_fraction (psb_conservative b)" "ratio_fraction (psb_optimistic b) \<le> 100"
    "\<And>sat. \<forall>i \<in> set criteria. ratio_fraction (conservative_satisfaction i) \<le> sat i \<and>
        sat i \<le> ratio_fraction (optimistic_satisfaction i) \<Longrightarrow>
      ratio_fraction (psb_conservative b) \<le> weighted_score (map (\<lambda>i. (pcb_weight i, sat i)) criteria) \<and>
      weighted_score (map (\<lambda>i. (pcb_weight i, sat i)) criteria) \<le> ratio_fraction (psb_optimistic b)"
proof -
  let ?lo = "\<lambda>i. ratio_fraction (conservative_satisfaction i)"
  let ?hi = "\<lambda>i. ratio_fraction (optimistic_satisfaction i)"
  let ?score = "\<lambda>f. weighted_score (map (\<lambda>i. (pcb_weight i, f i)) criteria)"
  have w: "\<forall>i \<in> set criteria. 1 \<le> pcb_weight i" using assms(3) by (auto simp: criterion_ok_def)
  have "?score (\<lambda>_. 0) \<le> ?score ?lo" "?score ?lo \<le> ?score ?hi" "?score ?hi \<le> ?score (\<lambda>_. 1)"
    using assms(3) by (auto intro!: weighted_score_between simp: criterion_ok_def)
  then have b: "0 \<le> ?score ?lo" "?score ?lo \<le> ?score ?hi" "?score ?hi \<le> 100"
    using weighted_score_const [OF assms(1) w, of 0] weighted_score_const [OF assms(1) w, of 1] by auto
  then have agg: "aggregate_preference_bounds criteria =
      Inr \<lparr>psb_conservative = ratio_of (?score ?lo), psb_optimistic = ratio_of (?score ?hi)\<rparr>"
    using assms(1,2) by (simp add: aggregate_preference_bounds_def mk_PreferenceScoreBounds_def)
  show ?thesis
    by (rule that [OF agg]) (use b w in \<open>auto intro!: weighted_score_between\<close>)
qed

lemma covered_share_bounds:
  assumes "\<forall>c \<in> set cs. 1 \<le> cc_weight c \<and> (f c \<longrightarrow> g c)"
  shows "0 \<le> covered_share f cs" "covered_share f cs \<le> covered_share g cs" "covered_share g cs \<le> 1"
proof -
  have "0 \<le> sum_list (map cc_weight (filter f cs))"
    "sum_list (map cc_weight (filter f cs)) \<le> sum_list (map cc_weight (filter g cs))"
    "sum_list (map cc_weight (filter g cs)) \<le> sum_list (map cc_weight cs)"
    using assms by (induction cs) auto
  then show "0 \<le> covered_share f cs" "covered_share f cs \<le> covered_share g cs" "covered_share g cs \<le> 1"
    by (auto simp: covered_share_def divide_right_mono divide_le_eq)
qed

lemma aggregate_coverage_bounds_ordered:
  assumes "aggregate_coverage_bounds cs = Inr b"
    "\<forall>c \<in> set cs. 1 \<le> cc_weight c \<and> (conservative_covered c \<longrightarrow> optimistic_covered c)"
  shows "0 \<le> ratio_fraction (cov_conservative b)"
    "ratio_fraction (cov_conservative b) \<le> ratio_fraction (cov_optimistic b)"
    "ratio_fraction (cov_optimistic b) \<le> 1"
  using assms covered_share_bounds [OF assms(2)]
  by (auto simp: aggregate_coverage_bounds_def split: if_splits)

lemma max_risk_mono:
  "list_all2 (\<lambda>x y. x \<le> y) xs ys \<Longrightarrow> max_risk xs \<le> max_risk ys"
  by (induction rule: list_all2_induct) (auto simp: max_risk_def max.coboundedI1 max.coboundedI2)

lemma aggregate_risk_bounds_total:
  assumes "rs \<noteq> []" "\<forall>r \<in> set rs. risk_lower r \<le> risk_base r \<and> risk_base r \<le> risk_upper r"
  obtains b where "aggregate_risk_bounds rs = Inr b"
    "risk_lower b \<le> risk_base b" "risk_base b \<le> risk_upper b"
    "\<forall>r \<in> set rs. risk_lower r \<le> risk_lower b \<and> risk_base r \<le> risk_base b \<and> risk_upper r \<le> risk_upper b"
proof -
  have "max_risk (map risk_lower rs) \<le> max_risk (map risk_base rs)"
    "max_risk (map risk_base rs) \<le> max_risk (map risk_upper rs)"
    using assms(2) by (auto intro!: max_risk_mono simp: list_all2_conv_all_nth)
  moreover have ub: "x \<in> set xs \<Longrightarrow> x \<le> max_risk xs" for x xs
    by (induction xs) (auto simp: max_risk_def max.coboundedI1 max.coboundedI2)
  ultimately show ?thesis
    using assms(1) that [of "\<lparr>risk_lower = max_risk (map risk_lower rs),
        risk_base = max_risk (map risk_base rs), risk_upper = max_risk (map risk_upper rs)\<rparr>"]
    by (simp add: aggregate_risk_bounds_def mk_RiskBounds_def less_eq_StackRisk_def [symmetric])
qed

lemma evidence_age_bounds_freshness:
  assumes "evidence_age_bounds ev lo hi sla = Inr b"
  shows "ratio_fraction (age_upper b) \<le> 1 \<longleftrightarrow> micros ev - micros lo \<le> sla * 1000000"
    "0 \<le> ratio_fraction (age_lower b)" "ratio_fraction (age_lower b) \<le> ratio_fraction (age_upper b)"
proof -
  from assms have "1 \<le> sla" and b: "b = \<lparr>age_lower = age_ratio ev sla hi, age_upper = age_ratio ev sla lo\<rparr>"
    by (auto simp: evidence_age_bounds_def mk_EvidenceAgeBounds_def split: if_splits)
  then have "0 < (of_int (sla * 1000000) :: rat)" by simp
  then show "ratio_fraction (age_upper b) \<le> 1 \<longleftrightarrow> micros ev - micros lo \<le> sla * 1000000"
    by (simp add: b age_ratio_def divide_le_eq_1 del: of_int_mult of_int_diff)
  show "0 \<le> ratio_fraction (age_lower b)" "ratio_fraction (age_lower b) \<le> ratio_fraction (age_upper b)"
    using assms by (auto simp: evidence_age_bounds_def mk_EvidenceAgeBounds_def split: if_splits)
qed

section \<open>What a stability verdict means\<close>

text \<open>
  An ordering envelope: every plan has a best and a worst key, any value a plan may turn out to
  have gives a key between them, and both ends are reached. Then the best key of a competitor lies
  below the worst key of the incumbent exactly if some outcome puts the competitor first.
\<close>

locale ordering_envelope =
  fixes best worst :: "'p \<Rightarrow> 'k::linorder"
    and realised :: "'p \<Rightarrow> 'v \<Rightarrow> 'k"
    and inside :: "'p \<Rightarrow> 'v \<Rightarrow> bool"
    and valid :: "'p \<Rightarrow> bool"
  assumes best_le: "valid p \<Longrightarrow> inside p v \<Longrightarrow> best p \<le> realised p v"
    and le_worst: "valid p \<Longrightarrow> inside p v \<Longrightarrow> realised p v \<le> worst p"
    and best_attained: "valid p \<Longrightarrow> \<exists>v. inside p v \<and> realised p v = best p"
    and worst_attained: "valid p \<Longrightarrow> \<exists>v. inside p v \<and> realised p v = worst p"
begin

lemma overtakes_iff:
  assumes "valid s" "valid c"
  shows "best c < worst s \<longleftrightarrow> (\<exists>v w. inside c v \<and> inside s w \<and> realised c v < realised s w)"
proof
  assume "best c < worst s"
  then show "\<exists>v w. inside c v \<and> inside s w \<and> realised c v < realised s w"
    using best_attained [OF assms(2)] worst_attained [OF assms(1)] by metis
next
  assume "\<exists>v w. inside c v \<and> inside s w \<and> realised c v < realised s w"
  then show "best c < worst s"
    using best_le [OF assms(2)] le_worst [OF assms(1)] by (meson le_less_trans less_le_trans)
qed

lemma keeps_lead_iff:
  assumes "valid s" "valid c"
  shows "\<not> best c < worst s \<longleftrightarrow> (\<forall>v w. inside c v \<longrightarrow> inside s w \<longrightarrow> realised s w \<le> realised c v)"
  using overtakes_iff [OF assms] by (meson not_le)

end

text \<open>A point: one value for every uncertain dimension of a plan.\<close>

record point =
  pt_preference :: rat
  pt_risk :: StackRisk
  pt_cost :: rat
  pt_coverage :: rat
  pt_age :: rat

definition point_key :: "BoundedPlan \<Rightarrow> point \<Rightarrow> ordering_key" where
  "point_key p v =
     (status_rank p, - pt_preference v, risk_rank (pt_risk v), pt_cost v, - pt_coverage v, pt_age v,
      bp_stable_action_ids p, bp_plan_id p)"

definition point_inside :: "OrderingBounds \<Rightarrow> point \<Rightarrow> bool" where
  "point_inside b v \<longleftrightarrow>
     ratio_fraction (psb_conservative (preference b)) \<le> pt_preference v \<and>
     pt_preference v \<le> ratio_fraction (psb_optimistic (preference b)) \<and>
     risk_lower (stack_risk b) \<le> pt_risk v \<and> pt_risk v \<le> risk_upper (stack_risk b) \<and>
     amount_rat (amount (cost_low (total_cost b))) \<le> pt_cost v \<and>
     pt_cost v \<le> amount_rat (amount (cost_high (total_cost b))) \<and>
     ratio_fraction (cov_conservative (decision_material_coverage b)) \<le> pt_coverage v \<and>
     pt_coverage v \<le> ratio_fraction (cov_optimistic (decision_material_coverage b)) \<and>
     ratio_fraction (age_lower (maximum_evidence_age_ratio b)) \<le> pt_age v \<and>
     pt_age v \<le> ratio_fraction (age_upper (maximum_evidence_age_ratio b))"

text \<open>The interval conditions every constructor checks.\<close>

definition ordering_ok :: "OrderingBounds \<Rightarrow> bool" where
  "ordering_ok b \<longleftrightarrow>
     ratio_fraction (psb_conservative (preference b)) \<le> ratio_fraction (psb_optimistic (preference b)) \<and>
     risk_lower (stack_risk b) \<le> risk_upper (stack_risk b) \<and>
     amount_rat (amount (cost_low (total_cost b))) \<le> amount_rat (amount (cost_high (total_cost b))) \<and>
     ratio_fraction (cov_conservative (decision_material_coverage b)) \<le>
       ratio_fraction (cov_optimistic (decision_material_coverage b)) \<and>
     ratio_fraction (age_lower (maximum_evidence_age_ratio b)) \<le>
       ratio_fraction (age_upper (maximum_evidence_age_ratio b))"

definition worst_point :: "OrderingBounds \<Rightarrow> point" where
  "worst_point b =
     \<lparr>pt_preference = ratio_fraction (psb_conservative (preference b)),
      pt_risk = risk_upper (stack_risk b),
      pt_cost = amount_rat (amount (cost_high (total_cost b))),
      pt_coverage = ratio_fraction (cov_conservative (decision_material_coverage b)),
      pt_age = ratio_fraction (age_upper (maximum_evidence_age_ratio b))\<rparr>"

definition best_point :: "OrderingBounds \<Rightarrow> point" where
  "best_point b =
     \<lparr>pt_preference = ratio_fraction (psb_optimistic (preference b)),
      pt_risk = risk_lower (stack_risk b),
      pt_cost = amount_rat (amount (cost_low (total_cost b))),
      pt_coverage = ratio_fraction (cov_optimistic (decision_material_coverage b)),
      pt_age = ratio_fraction (age_lower (maximum_evidence_age_ratio b))\<rparr>"

lemma lex_le_componentwise:
  fixes a a' :: "'a::linorder" and b b' :: "'b::linorder"
  shows "a \<le> a' \<Longrightarrow> b \<le> b' \<Longrightarrow> (a, b) \<le> (a', b')"
  by (auto simp: less_eq_prod_simp)

interpretation plan_env: ordering_envelope
  "\<lambda>(p, b). optimistic_key_of p b" "\<lambda>(p, b). conservative_key_of p b"
  "\<lambda>(p, b). point_key p" "\<lambda>(p, b). point_inside b" "\<lambda>(p, b). ordering_ok b"
proof (unfold_locales, goal_cases)
  case (1 pb v)
  then show ?case
    by (auto simp: optimistic_key_of_def point_key_def point_inside_def less_eq_StackRisk_def
        split: prod.splits intro!: lex_le_componentwise)
next
  case (2 pb v)
  then show ?case
    by (auto simp: conservative_key_of_def point_key_def point_inside_def less_eq_StackRisk_def
        split: prod.splits intro!: lex_le_componentwise)
next
  case (3 pb)
  then show ?case
    by (auto simp: optimistic_key_of_def point_key_def point_inside_def ordering_ok_def best_point_def
        split: prod.splits intro!: exI [of _ "best_point (snd pb)"])
next
  case (4 pb)
  then show ?case
    by (auto simp: conservative_key_of_def point_key_def point_inside_def ordering_ok_def worst_point_def
        split: prod.splits intro!: exI [of _ "worst_point (snd pb)"])
qed

text \<open>A plan can turn out to have the values of a point.\<close>

definition realisable :: "BoundedPlan \<Rightarrow> point \<Rightarrow> bool" where
  "realisable p v = (case bp_bounds p of None \<Rightarrow> False | Some b \<Rightarrow> point_inside b v)"

definition can_overtake :: "BoundedPlan \<Rightarrow> BoundedPlan \<Rightarrow> bool" where
  "can_overtake c s \<longleftrightarrow> (\<exists>v w. realisable c v \<and> realisable s w \<and> point_key c v < point_key s w)"

definition plan_bounds_ok :: "BoundedPlan \<Rightarrow> bool" where
  "plan_bounds_ok p \<longleftrightarrow> (\<forall>b. bp_bounds p = Some b \<longrightarrow> ordering_ok b)"

lemma optimistic_key_available:
  "bp_bounds p = Some b \<Longrightarrow> optimistic_envelope_key p = Inr (optimistic_key_of p b)"
  by (simp add: optimistic_envelope_key_def require_bounds_def)

lemma conservative_key_available:
  "bp_bounds p = Some b \<Longrightarrow> conservative_envelope_key p = Inr (conservative_key_of p b)"
  by (simp add: conservative_envelope_key_def require_bounds_def)

lemma overtake_key_iff:
  assumes "bp_bounds s = Some bs" "bp_bounds c = Some bc" "ordering_ok bs" "ordering_ok bc"
  shows "optimistic_key_of c bc < conservative_key_of s bs \<longleftrightarrow> can_overtake c s"
  using plan_env.overtakes_iff [of "(s, bs)" "(c, bc)"] assms
  by (simp add: can_overtake_def realisable_def)

lemma keyed_competitors:
  assumes "\<forall>c \<in> set cs. bp_bounds c \<noteq> None"
  shows "mapE (\<lambda>p. bindE (optimistic_envelope_key p) (\<lambda>k. Inr (k, bp_plan_id p))) cs =
    Inr (map (\<lambda>p. (optimistic_key_of p (the (bp_bounds p)), bp_plan_id p)) cs)"
  using assms by (induction cs) (auto simp: optimistic_key_available)

text \<open>With every bound available, the assessment computes the set of possible overtakers.\<close>

lemma assess_rank_stability_available:
  assumes "bp_bounds s = Some bs" "\<forall>c \<in> set cs. bp_bounds c \<noteq> None"
    and "\<forall>p \<in> set (s # cs). plan_bounds_ok p"
  shows "assess_rank_stability s cs =
    (let f = sort (map bp_plan_id (filter (\<lambda>c. can_overtake c s) cs))
     in Inr \<lparr>rs_status = (if f = [] then STABLE else UNSTABLE), ordering_frontier_plan_ids = f,
             bound_unavailable_plan_ids = []\<rparr>)"
proof -
  have none: "filter (\<lambda>p. bp_bounds p = None) (s # cs) = []" using assms(1,2) by auto
  have "filter (\<lambda>(k, _). k < conservative_key_of s bs)
      (map (\<lambda>p. (optimistic_key_of p (the (bp_bounds p)), bp_plan_id p)) cs) =
    map (\<lambda>p. (optimistic_key_of p (the (bp_bounds p)), bp_plan_id p)) (filter (\<lambda>c. can_overtake c s) cs)"
    using assms overtake_key_iff [OF assms(1)]
    by (auto simp: filter_map o_def plan_bounds_ok_def intro!: arg_cong [where f = "map _"] filter_cong)
  then show ?thesis
    unfolding assess_rank_stability_def none
    by (simp add: conservative_key_available [OF assms(1)] keyed_competitors [OF assms(2)] o_def Let_def)
qed

lemma assess_rank_stability_missing:
  assumes "p \<in> set (s # cs)" "bp_bounds p = None"
  shows "assess_rank_stability s cs =
    Inr \<lparr>rs_status = UNDETERMINED, ordering_frontier_plan_ids = [],
         bound_unavailable_plan_ids = sort (map bp_plan_id (filter (\<lambda>p. bp_bounds p = None) (s # cs)))\<rparr>"
proof -
  have "sort (map bp_plan_id (filter (\<lambda>p. bp_bounds p = None) (s # cs))) \<noteq> []"
    using assms by (metis (mono_tags) filter_empty_conv list.map_disc_iff set_empty set_sort)
  then show ?thesis by (simp only: assess_rank_stability_def Let_def if_True not_False_eq_True)
qed

end
