(* ===== verification/GraphModels.thy ===== *)
theory GraphModels
  imports Bounds
begin

text \<open>
  The value objects of the Decision Graph, \<^verbatim>\<open>src/python/decision_engine/graph_v1_models.py\<close>: one
  record per frozen dataclass and one constructor function per \<^verbatim>\<open>__post_init__\<close>, which validates
  and canonicalises its arguments in the order the source does.
\<close>

section \<open>Fact values and enumerations\<close>

text \<open>\<^verbatim>\<open>FactValue = str | int | bool | None | tuple[str, ...]\<close>\<close>

datatype fact_value = FStr string | FInt int | FBool bool | FNone | FTuple "string list"

fun py_fact_value :: "fact_value \<Rightarrow> pyval" where
  "py_fact_value (FStr s) = PyStr s"
| "py_fact_value (FInt i) = PyInt i"
| "py_fact_value (FBool b) = PyBool b"
| "py_fact_value FNone = PyNone"
| "py_fact_value (FTuple xs) = py_strs xs"

definition cost_line_types :: "string list" where
  "cost_line_types =
     [''MERCHANT_SUBTOTAL'', ''SIRA_TRANSACTION_FEE'', ''TAX'', ''CONTRACT_COST'',
      ''MIGRATION_COST'', ''IMPLEMENTATION_COST'']"

datatype EvidenceState = ACCEPTABLE | UNKNOWN | STALE | CONFLICT

fun evidence_state_value :: "EvidenceState \<Rightarrow> string" where
  "evidence_state_value EvidenceState.ACCEPTABLE = ''ACCEPTABLE''"
| "evidence_state_value EvidenceState.UNKNOWN = ''UNKNOWN''"
| "evidence_state_value EvidenceState.STALE = ''STALE''"
| "evidence_state_value EvidenceState.CONFLICT = ''CONFLICT''"

datatype GateMode = REQUIRE_MATCH | BLOCK_ON_MATCH

datatype PlanLifecycle = CANDIDATE | RESOLUTION_PENDING | EXECUTABLE | BLOCKED

fun plan_lifecycle_value :: "PlanLifecycle \<Rightarrow> string" where
  "plan_lifecycle_value CANDIDATE = ''CANDIDATE''"
| "plan_lifecycle_value RESOLUTION_PENDING = ''RESOLUTION_PENDING''"
| "plan_lifecycle_value EXECUTABLE = ''EXECUTABLE''"
| "plan_lifecycle_value BLOCKED = ''BLOCKED''"

datatype NormalizationKind = BOOLEAN_EQUALS | SET_CONTAINS_ALL | LOWER_IS_BETTER | OUTCOME_RATE

datatype CounterfactualOutcome = WINNER_CHANGED | NO_SMALL_COUNTERFACTUAL_FOUND

fun counterfactual_outcome_value :: "CounterfactualOutcome \<Rightarrow> string" where
  "counterfactual_outcome_value WINNER_CHANGED = ''WINNER_CHANGED''"
| "counterfactual_outcome_value NO_SMALL_COUNTERFACTUAL_FOUND = ''NO_SMALL_COUNTERFACTUAL_FOUND''"

section \<open>Frozen facts\<close>

record FrozenVersions =
  request_version :: string
  company_profile_version :: string
  stackfile_version :: string
  registry_version :: string
  pack_set_version :: string
  offer_set_version :: string
  taxonomy_version :: string
  normalization_version :: string
  policy_version :: string
  fx_version :: string
  pipeline_version :: string
  engine_version :: string

definition versions_list :: "FrozenVersions \<Rightarrow> (string \<times> string) list" where
  "versions_list v =
     [(''request_version'', request_version v), (''company_profile_version'', company_profile_version v),
      (''stackfile_version'', stackfile_version v), (''registry_version'', registry_version v),
      (''pack_set_version'', pack_set_version v), (''offer_set_version'', offer_set_version v),
      (''taxonomy_version'', taxonomy_version v), (''normalization_version'', normalization_version v),
      (''policy_version'', policy_version v), (''fx_version'', fx_version v),
      (''pipeline_version'', pipeline_version v), (''engine_version'', engine_version v)]"

definition check_FrozenVersions :: "FrozenVersions \<Rightarrow> FrozenVersions res" where
  "check_FrozenVersions v =
     (if [] \<in> set (map snd (versions_list v))
      then Inl (DomainValidationError ''every Decision Graph input version must be frozen'')
      else Inr v)"

record FactProvenance =
  fp_provider :: string
  fp_content_id :: string
  fp_source_version_id :: string
  fp_chunk_index :: int
  fp_retrieved_at :: datetime
  fp_source_mode :: string
  fp_evidence_hash :: "string option"

definition check_FactProvenance :: "FactProvenance \<Rightarrow> FactProvenance res" where
  "check_FactProvenance p =
     (if fp_provider p = [] \<or> fp_content_id p = [] \<or> fp_source_version_id p = []
      then Inl (DomainValidationError ''fact provenance requires provider content and version'')
      else if fp_chunk_index p < 0 \<or> \<not> tz_aware (fp_retrieved_at p)
      then Inl (DomainValidationError ''fact provenance requires chunk index and timestamp'')
      else if fp_source_mode p \<notin> {''PRODUCTION_PROVIDER'', ''DEVELOPMENT_FIXTURE'', ''MANUAL_INPUT'',
                ''CANONICAL_STACKFILE'', ''SYSTEM_OBSERVATION''}
      then Inl (DomainValidationError ''unsupported fact provenance mode'')
      else if (case fp_evidence_hash p of None \<Rightarrow> False | Some h \<Rightarrow> \<not> starts_with h ''sha256:'')
      then Inl (DomainValidationError ''fact provenance evidence hash must be SHA-256'')
      else Inr p)"

record FrozenFact =
  ff_fact_id :: string
  ff_field :: string
  ff_value :: fact_value
  ff_private :: bool
  ff_version :: string
  ff_asserted_by_role :: string
  ff_authority_level :: string
  ff_authority_rank :: int
  ff_provenance :: "FactProvenance option"

definition check_FrozenFact :: "FrozenFact \<Rightarrow> FrozenFact res" where
  "check_FrozenFact f =
     bindE (require_id (ff_fact_id f) ''fact_id'') (\<lambda>_.
       if ff_field f = [] \<or> ff_version f = [] \<or> ff_asserted_by_role f = []
       then Inl (DomainValidationError ''a frozen fact requires field and version'')
       else if ff_authority_rank f < 0 \<or> ff_authority_level f = []
       then Inl (DomainValidationError ''a frozen fact requires non-negative actor authority'')
       else Inr f)"

definition py_provenance :: "FactProvenance \<Rightarrow> pyval" where
  "py_provenance p = PyObj
     [(''provider'', PyStr (fp_provider p)), (''content_id'', PyStr (fp_content_id p)),
      (''source_version_id'', PyStr (fp_source_version_id p)), (''chunk_index'', PyInt (fp_chunk_index p)),
      (''retrieved_at'', PyDatetime (fp_retrieved_at p)), (''source_mode'', PyStr (fp_source_mode p)),
      (''evidence_hash'', py_opt PyStr (fp_evidence_hash p))]"

definition py_frozen_fact :: "FrozenFact \<Rightarrow> pyval" where
  "py_frozen_fact f = PyObj
     ([(''fact_id'', PyStr (ff_fact_id f)), (''field'', PyStr (ff_field f)),
       (''value'', py_fact_value (ff_value f)), (''private'', PyBool (ff_private f)),
       (''version'', PyStr (ff_version f))] @
      (if ff_asserted_by_role f \<noteq> ''unknown'' \<or> ff_authority_level f \<noteq> ''UNKNOWN'' \<or>
          ff_authority_rank f \<noteq> 0 \<or> ff_provenance f \<noteq> None
       then [(''asserted_by_role'', PyStr (ff_asserted_by_role f)),
             (''authority_level'', PyStr (ff_authority_level f)),
             (''authority_rank'', PyInt (ff_authority_rank f)),
             (''provenance'', py_opt py_provenance (ff_provenance f))]
       else []))"

record ActorConflictResolution =
  acr_field :: string
  acr_fact_ids :: "string list"
  acr_selected_fact_id :: string
  acr_selected_role :: string
  acr_decided_by_role :: string
  acr_strategy :: string
  acr_reason :: string

definition mk_ActorConflictResolution :: "ActorConflictResolution \<Rightarrow> ActorConflictResolution res" where
  "mk_ActorConflictResolution r =
     (if acr_field r = [] \<or> acr_selected_role r = [] \<or> acr_decided_by_role r = [] \<or> acr_reason r = []
      then Inl (DomainValidationError ''actor conflict resolution fields are required'')
      else if acr_strategy r \<notin> {''AUTHORITY_PRECEDENCE'', ''EXPLICIT_OWNER_DECISION''}
      then Inl (DomainValidationError ''unsupported actor conflict resolution strategy'')
      else let normalized = sorted_set (acr_fact_ids r)
           in if length normalized < 2 \<or> acr_selected_fact_id r \<notin> set normalized
              then Inl (DomainValidationError ''actor conflict resolution must select a conflicting fact'')
              else bindE (require_ids (map (\<lambda>i. (i, ''conflicting_fact_id'')) normalized))
                     (\<lambda>_. Inr (r\<lparr>acr_fact_ids := normalized\<rparr>)))"

section \<open>Candidates, evidence and offers\<close>

record ProductFact =
  pf_field :: string
  pf_value :: fact_value
  pf_evidence_ids :: "string list"
  pf_component_id :: "string option"

definition mk_ProductFact ::
  "string \<Rightarrow> fact_value \<Rightarrow> string list \<Rightarrow> string option \<Rightarrow> ProductFact res" where
  "mk_ProductFact fld v evidence_ids component_id =
     (if fld = [] then Inl (DomainValidationError ''a product fact requires a field'')
      else let ids = sorted_set evidence_ids
           in bindE (require_ids (map (\<lambda>i. (i, ''evidence_id'')) ids)) (\<lambda>_.
                bindE (case component_id of None \<Rightarrow> Inr ()
                       | Some c \<Rightarrow> require_id c ''fact_component_id'') (\<lambda>_.
                  Inr \<lparr>pf_field = fld, pf_value = v, pf_evidence_ids = ids,
                       pf_component_id = component_id\<rparr>)))"

record EvidenceRecord =
  er_evidence_id :: string
  er_record_id :: string
  er_source_class :: string
  er_verification_method :: string
  er_verification_scope :: string
  er_reconstructable :: bool
  er_observed_at_lower :: "datetime option"
  er_observed_at_upper :: "datetime option"
  er_disputed :: bool
  er_revoked :: bool

text \<open>Comparing a naive with an aware datetime raises \<^verbatim>\<open>TypeError\<close>.\<close>

definition check_EvidenceRecord :: "EvidenceRecord \<Rightarrow> EvidenceRecord res" where
  "check_EvidenceRecord r =
     bindE (require_id (er_evidence_id r) ''evidence_id'') (\<lambda>_.
     bindE (require_id (er_record_id r) ''record_id'') (\<lambda>_.
       if er_source_class r = [] \<or> er_verification_method r = [] \<or> er_verification_scope r = []
       then Inl (DomainValidationError ''evidence provenance is required'')
       else (case (er_observed_at_lower r, er_observed_at_upper r) of
               (None, None) \<Rightarrow> Inr r
             | (Some lo, Some hi) \<Rightarrow>
                 if tz_aware lo \<noteq> tz_aware hi then Inl TypeError
                 else if micros hi < micros lo
                 then Inl (DomainValidationError ''evidence time bounds are reversed'')
                 else Inr r
             | _ \<Rightarrow> Inl (DomainValidationError
                     ''both evidence observed-time bounds are required together''))))"

record RawCandidateRecord =
  rc_record_id :: string
  rc_pack_id :: string
  rc_pack_version :: int
  rc_seller_id :: string
  rc_product_id :: string
  rc_edition :: string
  rc_region :: string
  rc_offer_id :: string
  rc_authority :: PackAuthority
  rc_available :: bool
  rc_facts :: "ProductFact list"
  rc_seller_gate_ids :: "string list"
  rc_aliases :: "string list"
  rc_category_ids :: "string list"
  rc_jtbd_ids :: "string list"
  rc_pack_status :: string
  rc_required_product_ids :: "string list"

definition mk_RawCandidateRecord :: "RawCandidateRecord \<Rightarrow> RawCandidateRecord res" where
  "mk_RawCandidateRecord r =
     bindE (require_ids [(rc_record_id r, ''record_id''), (rc_pack_id r, ''pack_id''),
              (rc_seller_id r, ''seller_id''), (rc_product_id r, ''product_id''),
              (rc_offer_id r, ''offer_id'')]) (\<lambda>_.
       if rc_pack_version r < 1 \<or> rc_edition r = [] \<or> rc_region r = []
       then Inl (DomainValidationError ''candidate identity and positive Pack version are required'')
       else let r' = r\<lparr>rc_seller_gate_ids := sorted_set (rc_seller_gate_ids r),
                       rc_aliases := sorted_set (rc_aliases r),
                       rc_category_ids := sorted_set (rc_category_ids r),
                       rc_jtbd_ids := sorted_set (rc_jtbd_ids r),
                       rc_required_product_ids := sorted_set (rc_required_product_ids r)\<rparr>
            in if rc_pack_status r \<notin> {''PUBLISHED'', ''REVOKED'', ''SUPERSEDED''}
               then Inl (DomainValidationError ''unsupported candidate Pack status'')
               else bindE (require_ids (map (\<lambda>i. (i, ''candidate classification or dependency''))
                       (rc_category_ids r' @ rc_jtbd_ids r' @ rc_required_product_ids r'))) (\<lambda>_. Inr r'))"

record CostLineItem =
  li_line_item_type :: string
  li_low :: Money
  li_base :: Money
  li_high :: Money
  li_schedule_version :: "string option"

definition check_CostLineItem :: "CostLineItem \<Rightarrow> CostLineItem res" where
  "check_CostLineItem i =
     (if li_line_item_type i \<notin> set cost_line_types
      then Inl (DomainValidationError ''unsupported Decision Ledger cost line-item type'')
      else Inr i)"

record OfferCost =
  oc_offer_id :: string
  oc_low :: "Money option"
  oc_base :: "Money option"
  oc_high :: "Money option"
  oc_horizon_days :: int
  oc_line_items :: "CostLineItem list"
  oc_payment_required :: bool

definition mk_OfferCost :: "OfferCost \<Rightarrow> OfferCost res" where
  "mk_OfferCost c =
     bindE (require_id (oc_offer_id c) ''offer_id'') (\<lambda>_.
       if oc_horizon_days c < 1
       then Inl (DomainValidationError ''an offer cost requires a positive comparison horizon'')
       else if \<not> oc_payment_required c \<and>
               list_ex (\<lambda>i. li_line_item_type i = ''SIRA_TRANSACTION_FEE'') (oc_line_items c)
       then Inl (DomainValidationError ''a non-payment action cannot contain a transaction fee'')
       else Inr c)"

record IdentityNormalization =
  in_version :: string
  in_aliases :: "(string \<times> string) list"

definition mk_IdentityNormalization :: "string \<Rightarrow> (string \<times> string) list \<Rightarrow> IdentityNormalization res" where
  "mk_IdentityNormalization version aliases =
     (if version = [] then Inl (DomainValidationError ''identity normalization requires a version'')
      else let normalized = sort (map (\<lambda>(s, t). (str_strip (str_lower s), str_strip (str_lower t))) aliases)
           in if \<not> distinct (map fst normalized)
              then Inl (DomainValidationError ''identity aliases must be unique'')
              else Inr \<lparr>in_version = version, in_aliases = normalized\<rparr>)"

record IdentityRecord =
  ir_canonical_id :: string
  ir_seller_id :: string
  ir_product_id :: string
  ir_edition :: string
  ir_region :: string
  ir_record_ids :: "string list"
  ir_pack_ids :: "string list"
  ir_offer_ids :: "string list"

record IdentityMerge =
  im_canonical_id :: string
  im_merged_record_id :: string
  im_reasons :: "string list"

record RecallExclusion =
  rx_record_id :: string
  rx_reason_code :: string
  rx_detail :: string

definition mk_RecallExclusion :: "string \<Rightarrow> string \<Rightarrow> string \<Rightarrow> RecallExclusion res" where
  "mk_RecallExclusion rid code detail =
     bindE (require_id rid ''excluded_record_id'') (\<lambda>_.
       if code \<notin> {''CATEGORY_MISMATCH'', ''JTBD_MISMATCH'', ''REGION_UNSUPPORTED'', ''PACK_REVOKED'',
                   ''PACK_SUPERSEDED''}
       then Inl (DomainValidationError ''unsupported recall exclusion reason'')
       else if detail = [] then Inl (DomainValidationError ''recall exclusion requires detail'')
       else Inr \<lparr>rx_record_id = rid, rx_reason_code = code, rx_detail = detail\<rparr>)"

record RecallPolicy =
  rp_category_id :: string
  rp_jtbd_id :: string
  rp_allowed_regions :: "string list"

definition mk_RecallPolicy :: "string \<Rightarrow> string \<Rightarrow> string list \<Rightarrow> RecallPolicy res" where
  "mk_RecallPolicy category jtbd regions =
     bindE (require_ids [(category, ''recall_category_id''), (jtbd, ''recall_jtbd_id'')]) (\<lambda>_.
       let normalized = sorted_set regions
       in if normalized = [] then Inl (DomainValidationError ''recall policy requires an allowed region'')
          else Inr \<lparr>rp_category_id = category, rp_jtbd_id = jtbd, rp_allowed_regions = normalized\<rparr>)"

record RecallResult =
  rr_identities :: "IdentityRecord list"
  rr_merges :: "IdentityMerge list"
  rr_representatives :: "RawCandidateRecord list"
  rr_exclusions :: "RecallExclusion list"
  rr_raw_record_count :: int

record EvidencePolicy =
  ep_field :: string
  ep_allowed_source_classes :: "string list"
  ep_allowed_verification_methods :: "string list"
  ep_required_scope :: string
  ep_freshness_sla_seconds :: int

definition check_EvidencePolicy :: "EvidencePolicy \<Rightarrow> EvidencePolicy res" where
  "check_EvidencePolicy p =
     (if ep_field p = [] \<or> ep_required_scope p = [] \<or> ep_freshness_sla_seconds p < 1
      then Inl (DomainValidationError ''an evidence policy requires scope and a positive SLA'')
      else Inr p)"

record EvidenceAssessment =
  ea_evidence_id :: string
  ea_record_id :: string
  ea_field :: string
  ea_source_allowed :: bool
  ea_method_allowed :: bool
  ea_scope_match :: bool
  ea_reconstructable :: bool
  ea_freshness_current :: "bool option"
  ea_disputed :: bool
  ea_revoked :: bool
  ea_state :: EvidenceState
  ea_reasons :: "string list"
  ea_age_bounds :: "EvidenceAgeBounds option"

end
