(* ===== verification/GraphPlanModels.thy ===== *)
theory GraphPlanModels
  imports GraphModels
begin

text \<open>
  The second half of \<^verbatim>\<open>src/python/decision_engine/graph_v1_models.py\<close>: gates, preference criteria,
  risk rules, plans, the graph's input and its evaluation records.
\<close>

section \<open>Gates\<close>

record Predicate =
  pr_field :: string
  pr_operator :: string
  pr_value :: fact_value

definition check_Predicate :: "Predicate \<Rightarrow> Predicate res" where
  "check_Predicate p =
     (if pr_field p = [] \<or> pr_operator p = []
      then Inl (DomainValidationError ''a gate predicate requires field and operator'')
      else Inr p)"

record GateRule =
  gr_gate_id :: string
  gr_predicates :: "Predicate list"
  gr_mode :: GateMode
  gr_blocked_status :: CandidateStatus
  gr_reason_code :: string
  gr_source_fact_ids :: "string list"
  gr_applies_to_actions :: "SolutionAction list"
  gr_evidence_claim_ids :: "string list"
  gr_permitted_resolution :: "string option"
  gr_overridable :: bool

definition mk_GateRule :: "GateRule \<Rightarrow> GateRule res" where
  "mk_GateRule g =
     bindE (require_id (gr_gate_id g) ''gate_id'') (\<lambda>_.
       if gr_predicates g = [] \<or> gr_reason_code g = []
       then Inl (DomainValidationError ''a gate requires predicates and a reason'')
       else Inr (g\<lparr>gr_source_fact_ids := sorted_set (gr_source_fact_ids g),
                   gr_evidence_claim_ids := sorted_set (gr_evidence_claim_ids g)\<rparr>))"

record GateReason =
  gn_reason_code :: string
  gn_status :: CandidateStatus
  gn_detail :: string

record GateResult =
  gt_gate_id :: string
  gt_truth :: TruthValue
  gt_reasons :: "GateReason list"
  gt_evaluated_predicates :: "string list"
  gt_permitted_resolution :: "string option"

section \<open>Preferences, risk rules and current actions\<close>

record PreferenceCriterion =
  pc_criterion_id :: string
  pc_field :: string
  pc_weight :: int
  pc_coverage_weight :: int
  pc_normalization :: NormalizationKind
  pc_expected :: fact_value
  pc_source_fact_ids :: "string list"
  pc_applies_to_actions :: "SolutionAction list"
  pc_allowed_satisfactions :: "ExactRatio list"
  pc_lower_is_better_points :: "(int \<times> ExactRatio) list"
  pc_unknown_upper :: "ExactRatio option"
  pc_permitted_evidence_resolution :: "string option"
  pc_neutral_prior :: "ExactRatio option"
  pc_aggregation :: string

definition opt_not_in :: "'a option \<Rightarrow> 'a list \<Rightarrow> bool" where
  "opt_not_in x xs = (case x of None \<Rightarrow> False | Some y \<Rightarrow> y \<notin> set xs)"

text \<open>
  Sorting the piecewise points compares ratios only where two maxima are equal, which raises
  \<^verbatim>\<open>TypeError\<close> unless the ratios are equal too.
\<close>

definition sort_points :: "(int \<times> ExactRatio) list \<Rightarrow> (int \<times> ExactRatio) list res" where
  "sort_points ps =
     (if list_ex (\<lambda>p. list_ex (\<lambda>q. fst p = fst q \<and> snd p \<noteq> snd q) ps) ps then Inl TypeError
      else Inr (sort_key fst ps))"

definition mk_PreferenceCriterion :: "PreferenceCriterion \<Rightarrow> PreferenceCriterion res" where
  "mk_PreferenceCriterion c =
     bindE (require_id (pc_criterion_id c) ''criterion_id'') (\<lambda>_.
       if pc_field c = [] \<or> \<not> (1 \<le> pc_weight c \<and> pc_weight c \<le> 5) \<or>
          \<not> (1 \<le> pc_coverage_weight c \<and> pc_coverage_weight c \<le> 5)
       then Inl (DomainValidationError ''preference and coverage weights must be integers from 1 to 5'')
       else let allowed = sort_key ratio_fraction (remdups (pc_allowed_satisfactions c))
       in if allowed = [] \<or> ratio_fraction (hd allowed) < 0 \<or> 1 < ratio_fraction (last allowed)
       then Inl (DomainValidationError ''normalization must declare a finite satisfaction domain'')
       else if ratio_of 0 \<notin> set allowed
       then Inl (DomainValidationError ''normalization must define the zero satisfaction bound'')
       else if pc_aggregation c \<notin> {''PRIMARY_COMPONENT'', ''ALL'', ''ANY'', ''MIN'', ''MAX'', ''SUM'', ''UNION''}
       then Inl (DomainValidationError ''unsupported plan field aggregation'')
       else if opt_not_in (pc_unknown_upper c) allowed
       then Inl (DomainValidationError ''unknown preference bound must be in the declared domain'')
       else if opt_not_in (pc_neutral_prior c) allowed
       then Inl (DomainValidationError ''neutral outcome prior must be in the declared domain'')
       else if pc_normalization c = LOWER_IS_BETTER \<and> pc_lower_is_better_points c = []
       then Inl (DomainValidationError ''numeric normalization requires piecewise points'')
       else if pc_normalization c = LOWER_IS_BETTER \<and>
               list_ex (\<lambda>(_, v). v \<notin> set allowed) (pc_lower_is_better_points c)
       then Inl (DomainValidationError ''piecewise values must be in the declared domain'')
       else if pc_normalization c = SET_CONTAINS_ALL \<and> (case pc_expected c of FTuple _ \<Rightarrow> False | _ \<Rightarrow> True)
       then Inl (DomainValidationError ''set normalization requires a finite expected set'')
       else if pc_normalization c = OUTCOME_RATE \<and> pc_neutral_prior c = None
       then Inl (DomainValidationError ''an outcome preference requires an explicit neutral prior'')
       else bindE (sort_points (pc_lower_is_better_points c)) (\<lambda>pts.
         Inr (c\<lparr>pc_allowed_satisfactions := allowed,
                pc_source_fact_ids := sorted_set (pc_source_fact_ids c),
                pc_lower_is_better_points := pts\<rparr>)))"

record RiskRule =
  rl_rule_id :: string
  rl_actions :: "SolutionAction list"
  rl_predicate :: "Predicate option"
  rl_lower :: StackRisk
  rl_base :: StackRisk
  rl_upper :: StackRisk
  rl_missing_lower :: "StackRisk option"
  rl_missing_base :: "StackRisk option"
  rl_missing_upper :: "StackRisk option"

definition check_RiskRule :: "RiskRule \<Rightarrow> RiskRule res" where
  "check_RiskRule r =
     bindE (require_id (rl_rule_id r) ''rule_id'') (\<lambda>_.
       if rl_actions r = [] then Inl (DomainValidationError ''a risk rule requires an action scope'')
       else bindE (mk_RiskBounds (rl_lower r) (rl_base r) (rl_upper r)) (\<lambda>_.
         case (rl_missing_lower r, rl_missing_base r, rl_missing_upper r) of
           (None, None, None) \<Rightarrow> Inr r
         | (Some l, Some b, Some u) \<Rightarrow> bindE (mk_RiskBounds l b u) (\<lambda>_. Inr r)
         | _ \<Rightarrow> Inl (DomainValidationError ''a risk missing-input bound requires lower/base/upper'')))"

record CurrentActionRecord =
  ca_action_id :: string
  ca_action :: SolutionAction
  ca_instance_id :: string
  ca_facts :: "ProductFact list"
  ca_cost :: OfferCost
  ca_available :: bool
  ca_permitted_resolution :: "string option"

definition check_CurrentActionRecord :: "CurrentActionRecord \<Rightarrow> CurrentActionRecord res" where
  "check_CurrentActionRecord a =
     bindE (require_id (ca_action_id a) ''action_id'') (\<lambda>_.
     bindE (require_id (ca_instance_id a) ''instance_id'') (\<lambda>_. Inr a))"

section \<open>Plans\<close>

record PlanComponent =
  plc_component_id :: string
  plc_source_type :: string
  plc_action :: SolutionAction

record ScoreComponent =
  sc_criterion_id :: string
  sc_weight :: int
  sc_conservative_satisfaction :: ExactRatio
  sc_optimistic_satisfaction :: ExactRatio
  sc_contribution_conservative :: ExactRatio
  sc_contribution_optimistic :: ExactRatio
  sc_evidence_ids :: "string list"
  sc_evidence_state :: EvidenceState
  sc_prior_label :: "string option"

record HardCoverage =
  hc_numerator :: int
  hc_denominator :: int

definition mk_HardCoverage :: "int \<Rightarrow> int \<Rightarrow> HardCoverage res" where
  "mk_HardCoverage n d =
     (if d < 1 \<or> \<not> (0 \<le> n \<and> n \<le> d)
      then Inl (DomainValidationError ''hard coverage requires 0 <= numerator <= denominator'')
      else Inr \<lparr>hc_numerator = n, hc_denominator = d\<rparr>)"

record PlanDimensions =
  pd_preference :: "PreferenceScoreBounds option"
  pd_stack_risk :: "RiskBounds option"
  pd_total_cost :: OfferCost
  pd_decision_material_coverage :: "CoverageBounds option"
  pd_maximum_evidence_age_ratio :: "EvidenceAgeBounds option"
  pd_hard_coverage :: HardCoverage
  pd_universe_coverage :: ExactRatio
  pd_unresolved_count :: int
  pd_conflicting_count :: int
  pd_triggered_risk_rule_ids :: "string list"
  pd_risk_input_hash :: string
  pd_bound_unavailable_reasons :: "string list"

text \<open>The property \<^verbatim>\<open>ordering_bounds\<close>; its \<^verbatim>\<open>CostBounds\<close> call may raise.\<close>

definition ordering_bounds :: "PlanDimensions \<Rightarrow> OrderingBounds option res" where
  "ordering_bounds d =
     (case (pd_preference d, pd_stack_risk d, oc_low (pd_total_cost d), oc_base (pd_total_cost d),
            oc_high (pd_total_cost d), pd_decision_material_coverage d, pd_maximum_evidence_age_ratio d) of
        (Some pref, Some risk, Some low, Some base, Some high, Some cov, Some age) \<Rightarrow>
          if pd_bound_unavailable_reasons d \<noteq> [] then Inr None
          else bindE (mk_CostBounds low base high) (\<lambda>cost.
            Inr (Some \<lparr>preference = pref, stack_risk = risk, total_cost = cost,
                       decision_material_coverage = cov, maximum_evidence_age_ratio = age\<rparr>))
      | _ \<Rightarrow> Inr None)"

record EvaluatedPlan =
  pl_plan_id :: string
  pl_action :: SolutionAction
  pl_components :: "PlanComponent list"
  pl_component_hash :: string
  pl_construction_lifecycle :: PlanLifecycle
  pl_lifecycle :: PlanLifecycle
  pl_status :: CandidateStatus
  pl_primary_reason :: "GateReason option"
  pl_gate_results :: "GateResult list"
  pl_score_components :: "ScoreComponent list"
  pl_dimensions :: PlanDimensions
  pl_stable_action_ids :: "string list"
  pl_ordering_frontier_member :: bool
  pl_resolution_frontier_member :: bool
  pl_quote_required :: bool
  pl_quote_policy_reason :: string
  pl_permitted_resolution :: "string option"
  pl_autonomous_execution_allowed :: bool

record EvaluationCoverage =
  ec_raw_record_count :: int
  ec_pack_candidate_count :: int
  ec_canonical_product_count :: int
  ec_duplicate_count :: int
  ec_generated_solution_plan_count :: int
  ec_evaluated_solution_plan_count :: int
  ec_excluded_count :: int
  ec_statement :: string

record OutcomeObservation =
  oo_subject_id :: string
  oo_criterion_id :: string
  oo_value :: ExactRatio
  oo_evidence_ids :: "string list"
  oo_source_fact_ids :: "string list"

definition mk_OutcomeObservation :: "OutcomeObservation \<Rightarrow> OutcomeObservation res" where
  "mk_OutcomeObservation o1 =
     bindE (require_ids [(oo_subject_id o1, ''outcome_subject_id''),
              (oo_criterion_id o1, ''outcome_criterion_id'')]) (\<lambda>_.
       Inr (o1\<lparr>oo_evidence_ids := sorted_set (oo_evidence_ids o1),
               oo_source_fact_ids := sorted_set (oo_source_fact_ids o1)\<rparr>))"

section \<open>Input and evaluation\<close>

record DecisionGraphInput =
  di_versions :: FrozenVersions
  di_evaluated_at :: datetime
  di_buyer_facts :: "FrozenFact list"
  di_candidates :: "RawCandidateRecord list"
  di_offers :: "OfferCost list"
  di_evidence :: "EvidenceRecord list"
  di_evidence_policies :: "EvidencePolicy list"
  di_gates :: "GateRule list"
  di_preferences :: "PreferenceCriterion list"
  di_risk_rules :: "RiskRule list"
  di_risk_rule_set_complete :: bool
  di_current_actions :: "CurrentActionRecord list"
  di_identity_normalization :: IdentityNormalization
  di_outcome_values :: "OutcomeObservation list"
  di_removed_private_fact_ids :: "string list"
  di_actor_conflict_resolutions :: "ActorConflictResolution list"
  di_recall_policy :: "RecallPolicy option"

text \<open>\<^verbatim>\<open>removed_private_fact_ids\<close> is a frozenset, kept as the ascending list of its elements.\<close>

definition unique_groups :: "DecisionGraphInput \<Rightarrow> (string \<times> string list) list" where
  "unique_groups d =
     [(''buyer fact'', map ff_fact_id (di_buyer_facts d)),
      (''candidate record'', map rc_record_id (di_candidates d)),
      (''offer'', map oc_offer_id (di_offers d)),
      (''evidence'', map er_evidence_id (di_evidence d)),
      (''evidence policy'', map ep_field (di_evidence_policies d)),
      (''gate'', map gr_gate_id (di_gates d)),
      (''preference'', map pc_criterion_id (di_preferences d)),
      (''risk rule'', map rl_rule_id (di_risk_rules d)),
      (''current action'', map ca_action_id (di_current_actions d))]"

fun check_unique :: "(string \<times> string list) list \<Rightarrow> unit res" where
  "check_unique [] = Inr ()"
| "check_unique ((label, ids) # r) =
     (if \<not> distinct ids then Inl (DomainValidationError (label @ '' identifiers must be unique''))
      else check_unique r)"

definition mk_DecisionGraphInput :: "DecisionGraphInput \<Rightarrow> DecisionGraphInput res" where
  "mk_DecisionGraphInput d =
     (if \<not> tz_aware (di_evaluated_at d)
      then Inl (DomainValidationError ''evaluated_at must be timezone-aware'')
      else bindE (check_unique (unique_groups d)) (\<lambda>_.
        Inr (d\<lparr>di_removed_private_fact_ids := sorted_set (di_removed_private_fact_ids d)\<rparr>)))"

record DecisionGraphEvaluation =
  ev_evaluation_id :: string
  ev_generated_at :: datetime
  ev_versions :: FrozenVersions
  ev_evaluated_at :: datetime
  ev_frozen_input_hashes :: "(string \<times> string) list"
  ev_removed_private_fact_ids :: "string list"
  ev_identity_records :: "IdentityRecord list"
  ev_identity_merges :: "IdentityMerge list"
  ev_recall_exclusions :: "RecallExclusion list"
  ev_evidence_assessments :: "EvidenceAssessment list"
  ev_plans :: "EvaluatedPlan list"
  ev_ranked_plan_ids :: "string list"
  ev_selected_plan_id :: "string option"
  ev_rank_stability :: string
  ev_ordering_frontier_plan_ids :: "string list"
  ev_bound_unavailable_plan_ids :: "string list"
  ev_coverage :: EvaluationCoverage
  ev_evaluation_payload_hash :: string

record CounterfactualRecord =
  cf_outcome :: CounterfactualOutcome
  cf_removed_fact_ids :: "string list"
  cf_alternative_fact_id_sets :: "string list list"
  cf_tested_limit :: int
  cf_before_evaluation_payload_hash :: string
  cf_after_evaluation_payload_hash :: "string option"
  cf_generic_evaluation_payload_hash :: string
  cf_before_selected_plan_id :: "string option"
  cf_after_selected_plan_id :: "string option"
  cf_generic_selected_plan_id :: "string option"
  cf_changed_gate_ids :: "string list"
  cf_record_hash :: string

record DecisionGraphDecision =
  dd_base :: DecisionGraphEvaluation
  dd_generic :: DecisionGraphEvaluation
  dd_counterfactual :: CounterfactualRecord
  dd_decision_hash :: string

end
