(* ===== verification/Recall.thy ===== *)
theory Recall
  imports GraphPlanModels
begin

text \<open>
  Recall, identity deduplication and evidence assessment:
  \<^verbatim>\<open>src/python/decision_engine/graph_v1_recall.py\<close>. Hash-dependent operations take the hashing
  environment as their first argument.
\<close>

section \<open>Alias resolution\<close>

definition alias_map :: "DecisionGraphInput \<Rightarrow> (string \<times> string) list" where
  "alias_map d = dict_of (in_aliases (di_identity_normalization d))"

text \<open>The alias chase stops at a name without an alias and raises on a revisited one.\<close>

function chase :: "(string \<times> string) list \<Rightarrow> string list \<Rightarrow> string \<Rightarrow> string res" where
  "chase aliases visited current =
     (case map_of aliases current of
        None \<Rightarrow> Inr current
      | Some nxt \<Rightarrow>
          if current \<in> set visited
          then Inl (ValueError ''identity normalization aliases contain a cycle'')
          else chase aliases (current # visited) nxt)"
  by pat_completeness auto

termination
proof (relation "measure (\<lambda>(al, vis, cur). card (dom (map_of al) - set vis))", goal_cases)
  case (2 al vis cur nxt)
  then have "dom (map_of al) - set (cur # vis) \<subset> dom (map_of al) - set vis" by auto
  then show ?case by (simp add: psubset_card_mono finite_dom_map_of)
qed simp

declare chase.simps [simp del]

definition canonical :: "string \<Rightarrow> (string \<times> string) list \<Rightarrow> string res" where
  "canonical value aliases = chase aliases [] (str_strip (str_lower value))"

type_synonym identity_key = "string \<times> string \<times> string \<times> string"

definition identity_key :: "RawCandidateRecord \<Rightarrow> (string \<times> string) list \<Rightarrow> identity_key res" where
  "identity_key r aliases =
     bindE (canonical (rc_seller_id r) aliases) (\<lambda>s.
     bindE (canonical (rc_product_id r) aliases) (\<lambda>p.
     bindE (canonical (rc_edition r) aliases) (\<lambda>e.
     bindE (canonical (rc_region r) aliases) (\<lambda>g. Inr (s, p, e, g)))))"

definition canonical_id :: "hash_env \<Rightarrow> identity_key \<Rightarrow> string res" where
  "canonical_id E key =
     (case key of (s, p, e, g) \<Rightarrow>
        bindE (hash_prefix E 20 (py_strs [s, p, e, g])) (\<lambda>h. Inr (''canonical_'' @ h)))"

section \<open>Merging a group of records\<close>

fun authority_rank :: "PackAuthority \<Rightarrow> int" where
  "authority_rank SELLER_SEALED = 0"
| "authority_rank PLATFORM_COMPILED = 1"
| "authority_rank EXTERNAL_UNSEALED = 2"

definition authority_floor :: "RawCandidateRecord list \<Rightarrow> PackAuthority res" where
  "authority_floor records = max_by authority_rank (map rc_authority records)"

definition keyed_fact :: "hash_env \<Rightarrow> ProductFact \<Rightarrow> ((string \<times> string) \<times> ProductFact) res" where
  "keyed_fact E f =
     bindE (content_hash E (py_fact_value (pf_value f))) (\<lambda>h. Inr ((pf_field f, h), f))"

definition key_evidence :: "('k \<times> ProductFact) list \<Rightarrow> 'k \<Rightarrow> string list" where
  "key_evidence kfs k = sorted_set (concat (map (\<lambda>kf. pf_evidence_ids (snd kf)) (filter (\<lambda>kf. fst kf = k) kfs)))"

definition merge_facts :: "hash_env \<Rightarrow> RawCandidateRecord list \<Rightarrow> string \<Rightarrow> ProductFact list res" where
  "merge_facts E records component_id =
     bindE (mapE (keyed_fact E) (concat (map rc_facts records))) (\<lambda>kfs.
       mapE (\<lambda>k. mk_ProductFact (fst k)
               (case map_of (rev kfs) k of Some f \<Rightarrow> pf_value f | None \<Rightarrow> FNone)
               (key_evidence kfs k) (Some component_id))
         (sorted_set (map fst kfs)))"

definition recall_exclusion ::
  "RawCandidateRecord \<Rightarrow> DecisionGraphInput \<Rightarrow> (string \<times> string) list \<Rightarrow> RecallExclusion option res" where
  "recall_exclusion r d aliases =
     (let exclude = \<lambda>code detail. bindE (mk_RecallExclusion (rc_record_id r) code detail) (\<lambda>x. Inr (Some x))
      in if rc_pack_status r = ''REVOKED'' then exclude ''PACK_REVOKED'' ''Pack version is revoked''
         else if rc_pack_status r = ''SUPERSEDED'' then exclude ''PACK_SUPERSEDED'' ''Pack version is superseded''
         else case di_recall_policy d of
           None \<Rightarrow> Inr None
         | Some policy \<Rightarrow>
             if rp_category_id policy \<notin> set (rc_category_ids r)
             then exclude ''CATEGORY_MISMATCH'' (''Pack does not support category '' @ rp_category_id policy)
             else if rp_jtbd_id policy \<notin> set (rc_jtbd_ids r)
             then exclude ''JTBD_MISMATCH'' (''Pack does not support JTBD '' @ rp_jtbd_id policy)
             else bindE (canonical (rc_region r) aliases) (\<lambda>region.
                  bindE (mapE (\<lambda>v. canonical v aliases) (rp_allowed_regions policy)) (\<lambda>allowed.
                    if region \<notin> set allowed
                    then exclude ''REGION_UNSUPPORTED''
                      (''Pack region '' @ rc_region r @ '' is outside the allowed region set'')
                    else Inr None)))"

definition classify_record ::
  "DecisionGraphInput \<Rightarrow> (string \<times> string) list \<Rightarrow> RawCandidateRecord \<Rightarrow>
     (RecallExclusion + identity_key \<times> RawCandidateRecord) res" where
  "classify_record d aliases r =
     bindE (recall_exclusion r d aliases) (\<lambda>x.
       case x of Some e \<Rightarrow> Inr (Inl e)
       | None \<Rightarrow> bindE (identity_key r aliases) (\<lambda>k. Inr (Inr (k, r))))"

definition merge_reasons :: "RawCandidateRecord \<Rightarrow> RawCandidateRecord \<Rightarrow> string list" where
  "merge_reasons first duplicate =
     sort ([''CANONICAL_IDENTITY_MATCH''] @
       (if rc_offer_id duplicate \<noteq> rc_offer_id first then [''OFFER_ALIAS''] else []) @
       (if rc_edition duplicate \<noteq> rc_edition first then [''EDITION_ALIAS''] else []))"

definition merge_group ::
  "hash_env \<Rightarrow> (string \<times> string) list \<Rightarrow> identity_key \<Rightarrow> RawCandidateRecord list \<Rightarrow>
     (IdentityRecord \<times> RawCandidateRecord \<times> IdentityMerge list) res" where
  "merge_group E aliases key group_items =
     (case key of (seller, product, edition, region) \<Rightarrow>
      let group = sort_key rc_record_id group_items in
      bindE (canonical_id E key) (\<lambda>cid.
      bindE (mapE (\<lambda>i. canonical (rc_offer_id i) aliases) group) (\<lambda>offers.
      bindE (min_by (\<lambda>i. (- rc_pack_version i, rc_record_id i)) group) (\<lambda>anchor.
      bindE (canonical (rc_offer_id anchor) aliases) (\<lambda>offer.
      bindE (authority_floor group) (\<lambda>auth.
      bindE (merge_facts E group product) (\<lambda>facts.
      bindE (mk_RawCandidateRecord
         \<lparr>rc_record_id = cid, rc_pack_id = rc_pack_id anchor, rc_pack_version = rc_pack_version anchor,
          rc_seller_id = seller, rc_product_id = product, rc_edition = edition, rc_region = region,
          rc_offer_id = offer, rc_authority = auth, rc_available = list_all rc_available group,
          rc_facts = facts,
          rc_seller_gate_ids = sorted_set (concat (map rc_seller_gate_ids group)),
          rc_aliases = sorted_set (concat (map rc_aliases group)),
          rc_category_ids = sorted_set (concat (map rc_category_ids group)),
          rc_jtbd_ids = sorted_set (concat (map rc_jtbd_ids group)),
          rc_pack_status = ''PUBLISHED'',
          rc_required_product_ids = sorted_set (concat (map rc_required_product_ids group))\<rparr>) (\<lambda>rep.
       Inr (\<lparr>ir_canonical_id = cid, ir_seller_id = seller, ir_product_id = product,
             ir_edition = edition, ir_region = region, ir_record_ids = map rc_record_id group,
             ir_pack_ids = sorted_set (map rc_pack_id group), ir_offer_ids = sorted_set offers\<rparr>,
            rep,
            map (\<lambda>dup. \<lparr>im_canonical_id = cid, im_merged_record_id = rc_record_id dup,
                        im_reasons = merge_reasons (hd group) dup\<rparr>) (tl group))))))))))"

definition lefts :: "('a + 'b) list \<Rightarrow> 'a list" where
  "lefts xs = concat (map (\<lambda>x. case x of Inl a \<Rightarrow> [a] | Inr _ \<Rightarrow> []) xs)"

definition rights :: "('a + 'b) list \<Rightarrow> 'b list" where
  "rights xs = concat (map (\<lambda>x. case x of Inl _ \<Rightarrow> [] | Inr b \<Rightarrow> [b]) xs)"

text \<open>A \<^verbatim>\<open>defaultdict(list)\<close> filled in order and read back in ascending key order.\<close>

definition group_by :: "('k::linorder \<times> 'v) list \<Rightarrow> ('k \<times> 'v list) list" where
  "group_by kvs = map (\<lambda>k. (k, map snd (filter (\<lambda>kv. fst kv = k) kvs))) (sorted_set (map fst kvs))"

definition recall_and_deduplicate :: "hash_env \<Rightarrow> DecisionGraphInput \<Rightarrow> RecallResult res" where
  "recall_and_deduplicate E d =
     (let aliases = alias_map d in
      bindE (mapE (classify_record d aliases) (sort_key rc_record_id (di_candidates d))) (\<lambda>cls.
      bindE (mapE (\<lambda>(key, items). merge_group E aliases key items) (group_by (rights cls))) (\<lambda>merged.
       Inr \<lparr>rr_identities = map fst merged,
            rr_merges = sort_key (\<lambda>m. (im_canonical_id m, im_merged_record_id m))
              (concat (map (\<lambda>m. snd (snd m)) merged)),
            rr_representatives = sort_key rc_record_id (map (\<lambda>m. fst (snd m)) merged),
            rr_exclusions = sort_key rx_record_id (lefts cls),
            rr_raw_record_count = int (length (di_candidates d))\<rparr>)))"

section \<open>Evidence assessment\<close>

definition scope_matches :: "string \<Rightarrow> string \<Rightarrow> bool" where
  "scope_matches required_scope actual_scope =
     (let required = str_strip (str_lower required_scope); actual = str_strip (str_lower actual_scope)
      in required = ''*'' \<or> required = actual)"

definition source_allowed :: "EvidencePolicy \<Rightarrow> EvidenceRecord \<Rightarrow> bool" where
  "source_allowed policy r \<longleftrightarrow> er_source_class r \<in> set (ep_allowed_source_classes policy)"

definition method_allowed :: "EvidencePolicy \<Rightarrow> EvidenceRecord \<Rightarrow> bool" where
  "method_allowed policy r \<longleftrightarrow> er_verification_method r \<in> set (ep_allowed_verification_methods policy)"

definition scope_allowed :: "EvidencePolicy \<Rightarrow> EvidenceRecord \<Rightarrow> bool" where
  "scope_allowed policy r = scope_matches (ep_required_scope policy) (er_verification_scope r)"

text \<open>The age bounds and whether they are within the service level; both absent without a time.\<close>

definition evidence_time ::
  "EvidenceRecord \<Rightarrow> EvidencePolicy \<Rightarrow> DecisionGraphInput \<Rightarrow> (EvidenceAgeBounds option \<times> bool option) res" where
  "evidence_time r policy d =
     (case (er_observed_at_lower r, er_observed_at_upper r) of
        (Some lo, Some hi) \<Rightarrow>
          bindE (evidence_age_bounds (di_evaluated_at d) lo hi (ep_freshness_sla_seconds policy))
            (\<lambda>b. Inr (Some b, Some (ratio_fraction (age_upper b) \<le> 1)))
      | _ \<Rightarrow> Inr (None, None))"

definition assessment_reasons :: "EvidencePolicy \<Rightarrow> EvidenceRecord \<Rightarrow> bool option \<Rightarrow> string list" where
  "assessment_reasons policy r freshness_current =
     sort ((if \<not> source_allowed policy r then [''SOURCE_CLASS_NOT_ALLOWED''] else []) @
           (if \<not> method_allowed policy r then [''VERIFICATION_METHOD_NOT_ALLOWED''] else []) @
           (if \<not> scope_allowed policy r then [''VERIFICATION_SCOPE_MISMATCH''] else []) @
           (if \<not> er_reconstructable r then [''NOT_RECONSTRUCTABLE''] else []) @
           (if er_disputed r then [''DISPUTED''] else []) @
           (if er_revoked r then [''REVOKED''] else []) @
           (case freshness_current of None \<Rightarrow> [''BOUND_UNAVAILABLE:EVIDENCE_TIME'']
            | Some current \<Rightarrow> if \<not> current then [''STALE''] else []))"

definition assessment_state :: "EvidencePolicy \<Rightarrow> EvidenceRecord \<Rightarrow> bool option \<Rightarrow> EvidenceState" where
  "assessment_state policy r freshness_current =
     (if er_disputed r \<or> er_revoked r then EvidenceState.CONFLICT
      else if freshness_current = Some False then EvidenceState.STALE
      else if \<not> source_allowed policy r \<or> \<not> method_allowed policy r \<or> \<not> scope_allowed policy r \<or>
              \<not> er_reconstructable r \<or> freshness_current = None
      then EvidenceState.UNKNOWN
      else EvidenceState.ACCEPTABLE)"

definition assessment ::
  "EvidenceRecord \<Rightarrow> EvidencePolicy \<Rightarrow> string \<Rightarrow> DecisionGraphInput \<Rightarrow> EvidenceAssessment res" where
  "assessment r policy fld d =
     bindE (evidence_time r policy d) (\<lambda>(age_bounds, freshness_current).
       Inr \<lparr>ea_evidence_id = er_evidence_id r, ea_record_id = er_record_id r, ea_field = fld,
            ea_source_allowed = source_allowed policy r, ea_method_allowed = method_allowed policy r,
            ea_scope_match = scope_allowed policy r, ea_reconstructable = er_reconstructable r,
            ea_freshness_current = freshness_current, ea_disputed = er_disputed r,
            ea_revoked = er_revoked r, ea_state = assessment_state policy r freshness_current,
            ea_reasons = assessment_reasons policy r freshness_current, ea_age_bounds = age_bounds\<rparr>)"

definition fact_pairs :: "ProductFact list \<Rightarrow> (string \<times> string) list" where
  "fact_pairs facts = concat (map (\<lambda>f. map (\<lambda>e. (e, pf_field f)) (pf_evidence_ids f)) facts)"

definition material_pairs :: "DecisionGraphInput \<Rightarrow> RecallResult \<Rightarrow> (string \<times> string) list" where
  "material_pairs d recall =
     (let criterion_fields = dict_of (map (\<lambda>p. (pc_criterion_id p, pc_field p)) (di_preferences d))
      in concat (map (\<lambda>c. fact_pairs (rc_facts c)) (rr_representatives recall)) @
         concat (map (\<lambda>a. fact_pairs (ca_facts a)) (di_current_actions d)) @
         concat (map (\<lambda>ob. case map_of criterion_fields (oo_criterion_id ob) of None \<Rightarrow> []
                            | Some fld \<Rightarrow> map (\<lambda>e. (e, fld)) (oo_evidence_ids ob)) (di_outcome_values d)))"

definition missing_assessment :: "string \<Rightarrow> string \<Rightarrow> EvidenceAssessment" where
  "missing_assessment evidence_id fld =
     \<lparr>ea_evidence_id = evidence_id, ea_record_id = ''missing_record_'' @ evidence_id, ea_field = fld,
      ea_source_allowed = False, ea_method_allowed = False, ea_scope_match = False,
      ea_reconstructable = False, ea_freshness_current = None, ea_disputed = False, ea_revoked = False,
      ea_state = EvidenceState.UNKNOWN,
      ea_reasons = [''BOUND_UNAVAILABLE:EVIDENCE_TIME'', ''MISSING_EVIDENCE_RECORD''],
      ea_age_bounds = None\<rparr>"

definition assess_pair :: "DecisionGraphInput \<Rightarrow> string \<times> string \<Rightarrow> EvidenceAssessment res" where
  "assess_pair d pair =
     (case pair of (evidence_id, fld) \<Rightarrow>
        case map_of (dict_of (map (\<lambda>p. (ep_field p, p)) (di_evidence_policies d))) fld of
          None \<Rightarrow> Inl (DomainValidationError
            (''missing evidence policy for decision-material field '' @ fld))
        | Some policy \<Rightarrow>
            (case map_of (dict_of (map (\<lambda>r. (er_evidence_id r, r)) (di_evidence d))) evidence_id of
               None \<Rightarrow> Inr (missing_assessment evidence_id fld)
             | Some r \<Rightarrow> assessment r policy fld d))"

definition assess_evidence :: "DecisionGraphInput \<Rightarrow> RecallResult \<Rightarrow> EvidenceAssessment list res" where
  "assess_evidence d recall = mapE (assess_pair d) (sorted_set (material_pairs d recall))"

section \<open>Lemmas: alias resolution\<close>

text \<open>One alias step; a dictionary gives every name at most one successor.\<close>

definition alias_step :: "(string \<times> string) list \<Rightarrow> (string \<times> string) set" where
  "alias_step al = {(a, b). map_of al a = Some b}"

lemma alias_step_iff [simp]: "(a, b) \<in> alias_step al \<longleftrightarrow> map_of al a = Some b"
  by (simp add: alias_step_def)

lemma chase_Inr: "chase al vis cur = Inr r \<Longrightarrow> (cur, r) \<in> (alias_step al)\<^sup>* \<and> map_of al r = None"
proof (induction al vis cur rule: chase.induct)
  case (1 al vis cur)
  show ?case
  proof (cases "map_of al cur")
    case (Some nxt)
    with 1 have "(nxt, r) \<in> (alias_step al)\<^sup>*" "map_of al r = None"
      by (auto simp: chase.simps [of al vis cur] split: if_splits)
    then show ?thesis using Some by (auto intro: converse_rtrancl_into_rtrancl)
  qed (use "1.prems" in \<open>auto simp: chase.simps [of al vis cur]\<close>)
qed

lemma chase_Inl:
  "chase al vis cur = Inl e \<Longrightarrow> \<forall>v \<in> set vis. (v, cur) \<in> (alias_step al)\<^sup>+ \<Longrightarrow>
     e = ValueError ''identity normalization aliases contain a cycle'' \<and>
     (\<exists>c. (cur, c) \<in> (alias_step al)\<^sup>* \<and> (c, c) \<in> (alias_step al)\<^sup>+)"
proof (induction al vis cur rule: chase.induct)
  case (1 al vis cur)
  show ?case
  proof (cases "map_of al cur")
    case (Some nxt)
    then have st: "(cur, nxt) \<in> alias_step al" by simp
    show ?thesis
    proof (cases "cur \<in> set vis")
      case False
      moreover from st "1.prems"(2) have "\<forall>v \<in> set (cur # vis). (v, nxt) \<in> (alias_step al)\<^sup>+"
        by (auto intro: trancl_into_trancl)
      moreover have "chase al (cur # vis) nxt = Inl e"
        using "1.prems"(1) Some False by (simp add: chase.simps [of al vis cur])
      ultimately obtain c where "e = ValueError ''identity normalization aliases contain a cycle''"
        "(nxt, c) \<in> (alias_step al)\<^sup>*" "(c, c) \<in> (alias_step al)\<^sup>+"
        using "1.IH" [OF Some] by blast
      then show ?thesis using converse_rtrancl_into_rtrancl [OF st] by blast
    qed (use "1.prems" Some in \<open>auto simp: chase.simps [of al vis cur]\<close>)
  qed (use "1.prems" in \<open>simp add: chase.simps [of al vis cur]\<close>)
qed

lemma cycle_no_end:
  assumes "(c, r) \<in> (alias_step al)\<^sup>*" "(c, c) \<in> (alias_step al)\<^sup>+"
  shows "map_of al r \<noteq> None"
proof -
  have "(r, r) \<in> (alias_step al)\<^sup>+" using assms(1,2)
  proof (induction rule: rtrancl_induct)
    case (step y z)
    then obtain z' where "(y, z') \<in> alias_step al" "(z', y) \<in> (alias_step al)\<^sup>*"
      by (meson tranclD)
    with step(2) have "(z, y) \<in> (alias_step al)\<^sup>*" by simp
    then show ?case using step(2) by (rule rtrancl_into_trancl1)
  qed
  then show ?thesis by (auto dest: tranclD)
qed

lemma rtrancl_alias_linear:
  assumes "(a, b) \<in> (alias_step al)\<^sup>*" "(a, c) \<in> (alias_step al)\<^sup>*"
  shows "(b, c) \<in> (alias_step al)\<^sup>* \<or> (c, b) \<in> (alias_step al)\<^sup>*"
  using assms
proof (induction rule: rtrancl_induct)
  case (step y z)
  then consider "(y, c) \<in> (alias_step al)\<^sup>*" | "(c, y) \<in> (alias_step al)\<^sup>*" by blast
  then show ?case
  proof cases
    case 1
    then show ?thesis
    proof (cases rule: converse_rtranclE)
      case (step w)
      then have "w = z" using \<open>(y, z) \<in> alias_step al\<close> by simp
      then show ?thesis using step by simp
    qed (use step in auto)
  next
    case 2
    then show ?thesis using step(2) by (meson rtrancl.rtrancl_into_rtrancl)
  qed
qed simp

lemma canonical_iff:
  "canonical v al = Inr r \<longleftrightarrow> (str_strip (str_lower v), r) \<in> (alias_step al)\<^sup>* \<and> map_of al r = None"
proof
  assume "canonical v al = Inr r"
  then show "(str_strip (str_lower v), r) \<in> (alias_step al)\<^sup>* \<and> map_of al r = None"
    by (simp add: canonical_def chase_Inr)
next
  let ?s = "str_strip (str_lower v)"
  assume r: "(?s, r) \<in> (alias_step al)\<^sup>* \<and> map_of al r = None"
  show "canonical v al = Inr r"
  proof (cases "chase al [] ?s")
    case (Inl e)
    then obtain c where c: "(?s, c) \<in> (alias_step al)\<^sup>*" "(c, c) \<in> (alias_step al)\<^sup>+"
      using chase_Inl by fastforce
    from rtrancl_alias_linear [OF c(1), of r] r consider
      "(c, r) \<in> (alias_step al)\<^sup>*" | "(r, c) \<in> (alias_step al)\<^sup>*" by blast
    then show ?thesis
    proof cases
      case 1
      with c(2) r cycle_no_end show ?thesis by blast
    next
      case 2
      with r have "r = c" by (auto elim: converse_rtranclE)
      with c(2) r show ?thesis by (auto dest: tranclD)
    qed
  next
    case (Inr r')
    with chase_Inr have "(?s, r') \<in> (alias_step al)\<^sup>*" "map_of al r' = None" by blast+
    with r rtrancl_alias_linear [of ?s r al r'] have "r = r'"
      by (metis alias_step_iff converse_rtranclE option.distinct(1))
    with Inr show ?thesis by (simp add: canonical_def)
  qed
qed

lemma canonical_Inl:
  "canonical v al = Inl e \<Longrightarrow> e = ValueError ''identity normalization aliases contain a cycle''"
  by (simp add: canonical_def chase_Inl)

section \<open>Lemmas: grouping and merging\<close>

lemma mset_group:
  assumes "distinct ks" "fst ` set kvs \<subseteq> set ks"
  shows "mset (concat (map (\<lambda>k. map snd (filter (\<lambda>kv. fst kv = k) kvs)) ks)) = mset (map snd kvs)"
  using assms
proof (induction ks arbitrary: kvs)
  case (Cons k ks)
  let ?r = "filter (\<lambda>kv. fst kv \<noteq> k) kvs"
  have cong: "map (\<lambda>k'. map snd (filter (\<lambda>kv. fst kv = k') kvs)) ks =
      map (\<lambda>k'. map snd (filter (\<lambda>kv. fst kv = k') ?r)) ks"
  proof (rule map_cong [OF refl])
    fix k' assume "k' \<in> set ks"
    then have "k' \<noteq> k" using Cons.prems(1) by auto
    then have "filter (\<lambda>kv. fst kv = k') kvs = filter (\<lambda>kv. fst kv = k') ?r"
      by (simp add: filter_filter) (metis (no_types, lifting))
    then show "map snd (filter (\<lambda>kv. fst kv = k') kvs) = map snd (filter (\<lambda>kv. fst kv = k') ?r)" by simp
  qed
  have "mset kvs = mset (filter (\<lambda>kv. fst kv = k) kvs) + mset ?r"
    by (metis multiset_partition mset_filter)
  then have part: "mset (map snd kvs) = mset (map snd (filter (\<lambda>kv. fst kv = k) kvs)) + mset (map snd ?r)"
    by (simp only: mset_map image_mset_union)
  have IH: "mset (concat (map (\<lambda>k'. map snd (filter (\<lambda>kv. fst kv = k') ?r)) ks)) = mset (map snd ?r)"
    by (rule Cons.IH) (use Cons.prems in auto)
  show ?case by (simp only: list.map concat.simps mset_append cong IH part)
qed simp

lemma mset_group_by: "mset (concat (map snd (group_by kvs))) = mset (map snd kvs)"
  using mset_group [of "sorted_set (map fst kvs)" kvs] by (simp add: group_by_def o_def)

lemma group_by_mem:
  "(k, items) \<in> set (group_by kvs) \<longleftrightarrow> k \<in> fst ` set kvs \<and> items = map snd (filter (\<lambda>kv. fst kv = k) kvs)"
  by (auto simp: group_by_def)

lemma lefts_rights_simps [simp]:
  "lefts [] = []" "lefts (Inl a # xs) = a # lefts xs" "lefts (Inr b # xs) = lefts xs"
  "rights [] = []" "rights (Inl a # xs) = rights xs" "rights (Inr b # xs) = b # rights xs"
  by (simp_all add: lefts_def rights_def)

lemma rights_mem: "b \<in> set (rights xs) \<longleftrightarrow> Inr b \<in> set xs"
  by (induction xs) (auto split: sum.splits simp: rights_def)

lemma mk_RecallExclusion_id: "mk_RecallExclusion i c t = Inr x \<Longrightarrow> rx_record_id x = i"
  by (auto simp: mk_RecallExclusion_def res_simps split: if_splits)

lemma recall_exclusion_id: "recall_exclusion r d al = Inr (Some x) \<Longrightarrow> rx_record_id x = rc_record_id r"
  by (auto simp: recall_exclusion_def Let_def res_simps dest!: mk_RecallExclusion_id
      split: if_splits option.splits)

lemma classify_record_Inr:
  "classify_record d al r = Inr (Inl x) \<Longrightarrow> rx_record_id x = rc_record_id r"
  "classify_record d al r = Inr (Inr (k, r')) \<longleftrightarrow>
     recall_exclusion r d al = Inr None \<and> identity_key r al = Inr k \<and> r' = r"
  by (cases k; auto simp: classify_record_def res_simps dest: recall_exclusion_id split: option.splits)+

lemma classified_partition:
  assumes "mapE (classify_record d al) rs = Inr cls"
  shows "mset (map rc_record_id rs) =
    mset (map rx_record_id (lefts cls)) + mset (map rc_record_id (map snd (rights cls)))"
proof -
  from assms have "list_all2 (\<lambda>r c. classify_record d al r = Inr c) rs cls" by (simp add: res_simps)
  then show ?thesis
  proof (induction rule: list_all2_induct)
    case (Cons r rs c cls)
    then show ?case
      by (cases c) (auto dest: classify_record_Inr(1) simp: classify_record_Inr(2))
  qed simp
qed

lemma merge_group_records:
  "merge_group E al k items = Inr (i, rep, ms) \<Longrightarrow> ir_record_ids i = map rc_record_id (sort_key rc_record_id items)"
  by (auto simp: merge_group_def Let_def res_simps split: prod.splits)

lemma merged_records:
  assumes "mapE (\<lambda>(k, items). merge_group E al k items) gs = Inr merged"
  shows "mset (concat (map ir_record_ids (map fst merged))) = mset (map rc_record_id (concat (map snd gs)))"
proof -
  from assms have "list_all2 (\<lambda>(k, items) m. merge_group E al k items = Inr m) gs merged"
    by (simp add: res_simps case_prod_unfold)
  then show ?thesis
  proof (induction rule: list_all2_induct)
    case (Cons g gs m merged)
    then show ?case by (cases g; cases m) (auto dest: merge_group_records)
  qed simp
qed

lemma recall_records:
  assumes "recall_and_deduplicate E d = Inr r"
  shows "mset (map rc_record_id (di_candidates d)) =
    mset (map rx_record_id (rr_exclusions r)) + mset (concat (map ir_record_ids (rr_identities r)))"
proof -
  from assms obtain cls merged where
    cls: "mapE (classify_record d (alias_map d)) (sort_key rc_record_id (di_candidates d)) = Inr cls" and
    merged: "mapE (\<lambda>(k, items). merge_group E (alias_map d) k items) (group_by (rights cls)) = Inr merged" and
    r: "rr_exclusions r = sort_key rx_record_id (lefts cls)" "rr_identities r = map fst merged"
    by (auto simp: recall_and_deduplicate_def Let_def bindE_Inr_conv)
  have "mset (map rc_record_id (concat (map snd (group_by (rights cls))))) =
      mset (map rc_record_id (map snd (rights cls)))"
    using mset_group_by [of "rights cls"] by (simp only: mset_map)
  with classified_partition [OF cls] merged_records [OF merged] show ?thesis
    by (simp add: r)
qed

text \<open>The constructor of a product fact keeps field and value and canonicalises its evidence.\<close>

lemma mk_ProductFact_Inr:
  "mk_ProductFact fld v ev cid = Inr f \<Longrightarrow>
     pf_field f = fld \<and> pf_value f = v \<and> pf_evidence_ids f = sorted_set ev \<and> pf_component_id f = cid"
  by (auto simp: mk_ProductFact_def Let_def bindE_Inr_conv split: if_splits)

lemma keyed_fact_Inr:
  "keyed_fact E f = Inr kf \<longleftrightarrow>
     (\<exists>h. content_hash E (py_fact_value (pf_value f)) = Inr h \<and> kf = ((pf_field f, h), f))"
  by (auto simp: keyed_fact_def bindE_Inr_conv)

lemma merge_facts_keeps:
  assumes "merge_facts E rs c = Inr facts" "r \<in> set rs" "f \<in> set (rc_facts r)"
  shows "\<exists>g \<in> set facts. pf_field g = pf_field f \<and>
    content_hash E (py_fact_value (pf_value g)) = content_hash E (py_fact_value (pf_value f)) \<and>
    set (pf_evidence_ids f) \<subseteq> set (pf_evidence_ids g)"
proof -
  from assms(1) obtain kfs where
    kfs: "mapE (keyed_fact E) (concat (map rc_facts rs)) = Inr kfs" and
    out: "mapE (\<lambda>k. mk_ProductFact (fst k)
        (case map_of (rev kfs) k of Some f \<Rightarrow> pf_value f | None \<Rightarrow> FNone) (key_evidence kfs k) (Some c))
      (sorted_set (map fst kfs)) = Inr facts"
    by (auto simp: merge_facts_def bindE_Inr_conv)
  have kf: "\<And>kf. kf \<in> set kfs \<Longrightarrow> keyed_fact E (snd kf) = Inr kf"
    using mapE_memR [OF kfs] by (fastforce simp: keyed_fact_Inr)
  from assms(2,3) have "f \<in> set (concat (map rc_facts rs))" by auto
  from mapE_memL [OF kfs this] obtain h where h: "((pf_field f, h), f) \<in> set kfs"
    "content_hash E (py_fact_value (pf_value f)) = Inr h"
    by (auto simp: keyed_fact_Inr)
  let ?k = "(pf_field f, h)"
  have "map_of (rev kfs) ?k \<noteq> None"
    using h(1) by (metis map_of_eq_None_iff image_eqI fst_conv set_rev)
  then obtain f' where f': "map_of (rev kfs) ?k = Some f'" by blast
  then have "(?k, f') \<in> set kfs" by (metis map_of_SomeD set_rev)
  then have hf': "content_hash E (py_fact_value (pf_value f')) = Inr h"
    using kf by (fastforce simp: keyed_fact_Inr)
  have "?k \<in> set (sorted_set (map fst kfs))" using h(1) by force
  then obtain g where "g \<in> set facts"
    and g: "mk_ProductFact (pf_field f) (pf_value f') (key_evidence kfs ?k) (Some c) = Inr g"
    using mapE_memL [OF out] f' by fastforce
  moreover have "set (pf_evidence_ids f) \<subseteq> set (key_evidence kfs ?k)"
    using h(1) by (force simp: key_evidence_def)
  ultimately show ?thesis using mk_ProductFact_Inr [OF g] hf' h(2) by (intro bexI [of _ g]) simp_all
qed

lemma mk_RawCandidateRecord_Inr:
  "mk_RawCandidateRecord r = Inr r' \<Longrightarrow>
     r' = r\<lparr>rc_seller_gate_ids := sorted_set (rc_seller_gate_ids r), rc_aliases := sorted_set (rc_aliases r),
            rc_category_ids := sorted_set (rc_category_ids r), rc_jtbd_ids := sorted_set (rc_jtbd_ids r),
            rc_required_product_ids := sorted_set (rc_required_product_ids r)\<rparr>"
  by (auto simp: mk_RawCandidateRecord_def Let_def bindE_Inr_conv split: if_splits)

definition candidate_identity :: "RawCandidateRecord \<Rightarrow> identity_key" where
  "candidate_identity r = (rc_seller_id r, rc_product_id r, rc_edition r, rc_region r)"

text \<open>A representative claims no more than each record it stands for.\<close>

definition no_better_than :: "hash_env \<Rightarrow> RawCandidateRecord \<Rightarrow> RawCandidateRecord \<Rightarrow> bool" where
  "no_better_than E rep c \<longleftrightarrow>
     authority_rank (rc_authority c) \<le> authority_rank (rc_authority rep) \<and>
     (rc_available rep \<longrightarrow> rc_available c) \<and>
     set (rc_seller_gate_ids c) \<subseteq> set (rc_seller_gate_ids rep) \<and>
     set (rc_required_product_ids c) \<subseteq> set (rc_required_product_ids rep) \<and>
     (\<forall>f \<in> set (rc_facts c). \<exists>g \<in> set (rc_facts rep). pf_field g = pf_field f \<and>
        content_hash E (py_fact_value (pf_value g)) = content_hash E (py_fact_value (pf_value f)) \<and>
        set (pf_evidence_ids f) \<subseteq> set (pf_evidence_ids g))"

lemma merge_group_no_better:
  assumes "merge_group E al k items = Inr (i, rep, ms)" "c \<in> set items"
  shows "candidate_identity rep = k" "no_better_than E rep c"
proof -
  let ?g = "sort_key rc_record_id items"
  obtain s p e g where k: "k = (s, p, e, g)" by (cases k)
  from assms(1) obtain auth facts rep0 where
    auth: "authority_floor ?g = Inr auth" and facts: "merge_facts E ?g p = Inr facts" and
    mk: "mk_RawCandidateRecord rep0 = Inr rep" and
    rep0: "candidate_identity rep0 = k" "rc_authority rep0 = auth" "rc_facts rep0 = facts"
      "rc_available rep0 = list_all rc_available ?g"
      "rc_seller_gate_ids rep0 = sorted_set (concat (map rc_seller_gate_ids ?g))"
      "rc_required_product_ids rep0 = sorted_set (concat (map rc_required_product_ids ?g))"
    by (auto simp: merge_group_def k Let_def bindE_Inr_conv candidate_identity_def)
  from mk_RawCandidateRecord_Inr [OF mk] rep0(1) show "candidate_identity rep = k"
    by (simp add: candidate_identity_def)
  have "authority_rank (rc_authority c) \<le> authority_rank auth"
    using auth assms(2) max_by_Inr(2) [of authority_rank "map rc_authority ?g" auth]
    by (simp add: authority_floor_def)
  then show "no_better_than E rep c"
    using merge_facts_keeps [OF facts, of c] assms(2)
    unfolding no_better_than_def mk_RawCandidateRecord_Inr [OF mk]
    by (auto simp: rep0 list_all_iff)
qed

lemma recall_representative:
  assumes "recall_and_deduplicate E d = Inr r" "c \<in> set (di_candidates d)"
    "recall_exclusion c d (alias_map d) = Inr None"
  shows "\<exists>rep \<in> set (rr_representatives r).
    identity_key c (alias_map d) = Inr (candidate_identity rep) \<and> no_better_than E rep c"
proof -
  from assms(1) obtain cls merged where
    cls: "mapE (classify_record d (alias_map d)) (sort_key rc_record_id (di_candidates d)) = Inr cls" and
    merged: "mapE (\<lambda>(k, items). merge_group E (alias_map d) k items) (group_by (rights cls)) = Inr merged" and
    r: "rr_representatives r = sort_key rc_record_id (map (\<lambda>m. fst (snd m)) merged)"
    by (auto simp: recall_and_deduplicate_def Let_def bindE_Inr_conv)
  from mapE_memL [OF cls, of c] assms(2) obtain x
    where "x \<in> set cls" "classify_record d (alias_map d) c = Inr x" by auto
  moreover from this(2) assms(3) obtain k where x: "x = Inr (k, c)" "identity_key c (alias_map d) = Inr k"
    by (auto simp: classify_record_def bindE_Inr_conv)
  ultimately have kc: "(k, c) \<in> set (rights cls)" by (simp add: rights_mem)
  let ?items = "map snd (filter (\<lambda>kv. fst kv = k) (rights cls))"
  from kc have "(k, ?items) \<in> set (group_by (rights cls))" unfolding group_by_mem by force
  from mapE_memL [OF merged this] obtain m
    where "m \<in> set merged" "merge_group E (alias_map d) k ?items = Inr m" by auto
  moreover have "c \<in> set ?items" using kc by force
  moreover obtain i rep ms where "m = (i, rep, ms)" by (cases m)
  ultimately have "rep \<in> set (rr_representatives r)" "candidate_identity rep = k" "no_better_than E rep c"
    using merge_group_no_better [of E "alias_map d" k ?items i rep ms c] by (force simp: r)+
  then show ?thesis using x(2) by auto
qed

text \<open>The order in which the candidates arrive is immaterial.\<close>

lemma recall_order_independent:
  assumes "mset cs = mset (di_candidates d)" "distinct (map rc_record_id cs)"
  shows "recall_and_deduplicate E (d\<lparr>di_candidates := cs\<rparr>) = recall_and_deduplicate E d"
proof -
  let ?d = "d\<lparr>di_candidates := cs\<rparr>"
  have "inj_on rc_record_id (set cs)" using assms(2) by (simp add: distinct_map)
  then have "sort_key rc_record_id cs = sort_key rc_record_id (di_candidates d)"
    by (rule sort_key_eq_sort_key [OF assms(1)])
  moreover have "classify_record ?d = classify_record d"
    by (simp add: fun_eq_iff classify_record_def recall_exclusion_def)
  moreover have "length cs = length (di_candidates d)" using assms(1) by (metis size_mset)
  ultimately show ?thesis by (simp add: recall_and_deduplicate_def alias_map_def)
qed

section \<open>Lemmas: evidence\<close>

lemma assessment_Inr:
  assumes "assessment r p fld d = Inr a"
  obtains age fresh where "evidence_time r p d = Inr (age, fresh)" "ea_evidence_id a = er_evidence_id r"
    "ea_field a = fld" "ea_state a = assessment_state p r fresh" "ea_reasons a = assessment_reasons p r fresh"
    "ea_age_bounds a = age"
proof -
  from assms obtain age fresh where t: "evidence_time r p d = Inr (age, fresh)"
    by (auto simp: assessment_def bindE_Inr_conv)
  show ?thesis by (rule that [OF t]) (use assms in \<open>auto simp: assessment_def t\<close>)
qed

lemma evidence_time_fresh:
  assumes "evidence_time r p d = Inr (age, fresh)"
  shows "fresh = Some True \<longleftrightarrow>
    (\<exists>lo hi. er_observed_at_lower r = Some lo \<and> er_observed_at_upper r = Some hi \<and>
       micros (di_evaluated_at d) - micros lo \<le> ep_freshness_sla_seconds p * 1000000)"
    "fresh = None \<longleftrightarrow> er_observed_at_lower r = None \<or> er_observed_at_upper r = None"
  using assms
  by (auto simp: evidence_time_def bindE_Inr_conv evidence_age_bounds_freshness split: option.splits)

lemma map_of_dict_key:
  "map_of (dict_of (map (\<lambda>r. (f r, r)) rs)) k = Some r \<Longrightarrow> r \<in> set rs \<and> f r = k"
  by (auto dest: map_of_SomeD)

lemma assess_pair_key:
  assumes "assess_pair d p = Inr a" shows "(ea_evidence_id a, ea_field a) = p"
proof -
  obtain e f where p: "p = (e, f)" by (cases p)
  let ?found = "map_of (dict_of (map (\<lambda>r. (er_evidence_id r, r)) (di_evidence d))) e"
  show ?thesis
  proof (cases ?found)
    case (Some r)
    with assms obtain policy where "assessment r policy f d = Inr a"
      unfolding assess_pair_def p prod.case by (auto split: option.splits)
    then show ?thesis using map_of_dict_key [OF Some] by (auto simp: p elim!: assessment_Inr)
  qed (use assms in \<open>auto simp: p assess_pair_def missing_assessment_def split: option.splits\<close>)
qed

text \<open>Each decision-material pair of evidence and field is assessed exactly once, in order.\<close>

lemma assess_evidence_pairs:
  "assess_evidence d r = Inr as \<Longrightarrow>
     map (\<lambda>a. (ea_evidence_id a, ea_field a)) as = sorted_set (material_pairs d r)"
  unfolding assess_evidence_def by (drule mapE_Inr_map [where h = "\<lambda>p. p"]) (auto dest: assess_pair_key)

lemma assessment_acceptable:
  assumes "assessment r p fld d = Inr a"
  shows "ea_state a = EvidenceState.ACCEPTABLE \<longleftrightarrow>
    source_allowed p r \<and> method_allowed p r \<and> scope_allowed p r \<and>
    er_reconstructable r \<and> \<not> er_disputed r \<and> \<not> er_revoked r \<and>
    (\<exists>lo hi. er_observed_at_lower r = Some lo \<and> er_observed_at_upper r = Some hi \<and>
       micros (di_evaluated_at d) - micros lo \<le> ep_freshness_sla_seconds p * 1000000)"
proof -
  obtain age fresh where t: "evidence_time r p d = Inr (age, fresh)"
    and st: "ea_state a = assessment_state p r fresh" using assessment_Inr [OF assms] .
  have "fresh = Some True \<longleftrightarrow> fresh \<noteq> None \<and> fresh \<noteq> Some False" by (cases fresh) auto
  then show ?thesis unfolding st evidence_time_fresh(1) [OF t, symmetric] assessment_state_def by auto
qed

lemma assessment_reasons_empty:
  assumes "assessment r p fld d = Inr a"
  shows "ea_reasons a = [] \<longleftrightarrow> ea_state a = EvidenceState.ACCEPTABLE"
proof -
  obtain age fresh where st: "ea_state a = assessment_state p r fresh"
    and rs: "ea_reasons a = assessment_reasons p r fresh" using assessment_Inr [OF assms] .
  have "set (assessment_reasons p r fresh) = {} \<longleftrightarrow> assessment_state p r fresh = EvidenceState.ACCEPTABLE"
    unfolding assessment_reasons_def set_sort assessment_state_def by (cases fresh) auto
  then show ?thesis by (simp add: st rs)
qed

end
