(* ===== verification/Gates.thy ===== *)
theory Gates
  imports Recall
begin

text \<open>
  Hard gates of the Decision Graph, \<^verbatim>\<open>src/python/decision_engine/graph_v1.py\<close> from
  \<^verbatim>\<open>_STATUS_PRECEDENCE\<close> to \<^verbatim>\<open>_primary_status\<close>: active buyer facts, deterministic predicates, the
  evidence state of a field, the availability, dependency, authority and rule gates, and the
  primary status of a plan.
\<close>

section \<open>Status precedence\<close>

definition status_precedence :: "CandidateStatus list" where
  "status_precedence =
     [UNAVAILABLE, CONFLICTING_EVIDENCE, STALE_EVIDENCE, INSUFFICIENT_EVIDENCE, SIRA_INELIGIBLE,
      SEIL_PASS, AUTHORITY_REQUIRED, ADVISORY_ONLY, CONDITIONAL, ELIGIBLE_WITH_EXCEPTION, ELIGIBLE]"

definition precedence_rank :: "CandidateStatus \<Rightarrow> nat" where
  "precedence_rank s = length (takeWhile (\<lambda>t. t \<noteq> s) status_precedence)"

section \<open>Plan material and field states\<close>

record PlanMaterial =
  pm_source_id :: string
  pm_action :: SolutionAction
  pm_component_id :: string
  pm_component_ids :: "string list"
  pm_facts :: "ProductFact list"
  pm_gate_facts :: "ProductFact list"
  pm_cost :: OfferCost
  pm_payment_component_count :: int
  pm_available :: bool
  pm_authority :: "PackAuthority option"
  pm_seller_gate_ids :: "string list"
  pm_permitted_resolution :: "string option"
  pm_outcome_subject_id :: string
  pm_dependency_issues :: "string list"

record FieldState =
  fs_values :: "fact_value list"
  fs_state :: EvidenceState
  fs_evidence_ids :: "string list"
  fs_age_bounds :: "EvidenceAgeBounds list"
  fs_bound_reasons :: "string list"

definition active_buyer_facts :: "DecisionGraphInput \<Rightarrow> FrozenFact list" where
  "active_buyer_facts d =
     filter (\<lambda>f. ff_fact_id f \<notin> set (di_removed_private_fact_ids d)) (di_buyer_facts d)"

definition buyer_value_map :: "DecisionGraphInput \<Rightarrow> (string \<times> fact_value) list" where
  "buyer_value_map d = dict_of (map (\<lambda>f. (ff_field f, ff_value f)) (active_buyer_facts d))"

definition active_source_ids :: "DecisionGraphInput \<Rightarrow> string list" where
  "active_source_ids d = map ff_fact_id (active_buyer_facts d)"

fun is_bool :: "fact_value \<Rightarrow> bool" where
  "is_bool (FBool _) = True"
| "is_bool _ = False"

fun is_tuple :: "fact_value \<Rightarrow> bool" where
  "is_tuple (FTuple _) = True"
| "is_tuple _ = False"

definition strict_equal :: "fact_value \<Rightarrow> fact_value \<Rightarrow> bool" where
  "strict_equal l r =
     (if is_bool l \<or> is_bool r then is_bool l \<and> is_bool r \<and> l = r else l = r)"

text \<open>\<^verbatim>\<open>str(value)\<close> for the two numeric-capable kinds of value, \<open>None\<close> for the others.\<close>

fun numeric_text :: "fact_value \<Rightarrow> string option" where
  "numeric_text (FInt i) = Some (show_int i)"
| "numeric_text (FStr s) = Some s"
| "numeric_text _ = None"

definition compare_numeric :: "string \<Rightarrow> rat \<Rightarrow> rat \<Rightarrow> bool" where
  "compare_numeric op l r =
     (if op = ''lte'' then l \<le> r else if op = ''lt'' then l < r else if op = ''gte'' then r \<le> l else r < l)"

definition predicate_matches :: "fact_value \<Rightarrow> Predicate \<Rightarrow> bool res" where
  "predicate_matches v p =
     (let expected = pr_value p; op = pr_operator p in
      if op = ''eq'' then Inr (strict_equal v expected)
      else if op = ''neq'' then Inr (\<not> strict_equal v expected)
      else if op = ''in''
      then Inr (case expected of FTuple items \<Rightarrow> list_ex (\<lambda>i. strict_equal v (FStr i)) items | _ \<Rightarrow> False)
      else if op = ''contains_all''
      then Inr (case (v, expected) of
             (FTuple actual, FTuple items) \<Rightarrow>
               list_all (\<lambda>i. list_ex (\<lambda>a. strict_equal (FStr i) (FStr a)) actual) items
           | _ \<Rightarrow> False)
      else if op \<in> {''lte'', ''lt'', ''gte'', ''gt''}
      then (case (numeric_text v, numeric_text expected) of
              (Some l, Some r) \<Rightarrow>
                bindE (parse_fraction l) (\<lambda>x. bindE (parse_fraction r) (\<lambda>y. Inr (compare_numeric op x y)))
            | _ \<Rightarrow> Inr False)
      else if op = ''exists'' then Inr (v \<noteq> FNone)
      else Inl (ValueError (''unsupported deterministic predicate operator: '' @ op)))"

type_synonym assessment_index = "((string \<times> string) \<times> EvidenceAssessment) list"

definition index_assessments :: "EvidenceAssessment list \<Rightarrow> assessment_index" where
  "index_assessments as = dict_of (map (\<lambda>a. ((ea_evidence_id a, ea_field a), a)) as)"

definition bound_reason :: "string \<Rightarrow> bool" where
  "bound_reason r = starts_with r ''BOUND_UNAVAILABLE:''"

definition bound_reasons_of :: "EvidenceAssessment list \<Rightarrow> string list" where
  "bound_reasons_of as = filter bound_reason (concat (map ea_reasons as))"

definition lookup_assessments :: "assessment_index \<Rightarrow> string \<Rightarrow> string list \<Rightarrow> EvidenceAssessment list" where
  "lookup_assessments idx fld ids = List.map_filter (\<lambda>e. map_of idx (e, fld)) ids"

definition field_state ::
  "hash_env \<Rightarrow> ProductFact list \<Rightarrow> string \<Rightarrow> assessment_index \<Rightarrow> FieldState res" where
  "field_state E facts fld idx =
     (let matching = filter (\<lambda>f. pf_field f = fld) facts in
      if matching = []
      then Inr \<lparr>fs_values = [], fs_state = EvidenceState.UNKNOWN, fs_evidence_ids = [],
                fs_age_bounds = [], fs_bound_reasons = []\<rparr>
      else
        let evidence_ids = sorted_set (concat (map pf_evidence_ids matching));
            as = lookup_assessments idx fld evidence_ids;
            states = map ea_state as
        in bindE (mapE (\<lambda>f. bindE (content_hash E (py_fact_value (pf_value f))) (\<lambda>h. Inr (h, pf_value f)))
             matching) (\<lambda>hvs.
             let values_by_hash = dict_of hvs;
                 values = List.map_filter (map_of values_by_hash) (sort (map fst values_by_hash));
                 state = (if EvidenceState.CONFLICT \<in> set states \<or> 1 < length values then EvidenceState.CONFLICT
                          else if EvidenceState.ACCEPTABLE \<in> set states then EvidenceState.ACCEPTABLE
                          else if EvidenceState.STALE \<in> set states then EvidenceState.STALE
                          else EvidenceState.UNKNOWN)
             in Inr \<lparr>fs_values = values, fs_state = state, fs_evidence_ids = evidence_ids,
                     fs_age_bounds = List.map_filter ea_age_bounds as,
                     fs_bound_reasons = sorted_set (bound_reasons_of as)\<rparr>))"

section \<open>Gates\<close>

definition gate_applies :: "GateRule \<Rightarrow> PlanMaterial \<Rightarrow> string list \<Rightarrow> bool" where
  "gate_applies g m sources =
     (if gr_source_fact_ids g \<noteq> [] \<and> \<not> set (gr_source_fact_ids g) \<subseteq> set sources then False
      else if gr_applies_to_actions g \<noteq> [] \<and> pm_action m \<notin> set (gr_applies_to_actions g) then False
      else if gr_blocked_status g = SEIL_PASS then gr_gate_id g \<in> set (pm_seller_gate_ids m)
      else True)"

definition availability_gate :: "PlanMaterial \<Rightarrow> GateResult" where
  "availability_gate m =
     \<lparr>gt_gate_id = ''availability_'' @ pm_source_id m,
      gt_truth = (if pm_available m then TruthValue.TRUE else TruthValue.FALSE),
      gt_reasons = (if \<not> pm_available m
        then [\<lparr>gn_reason_code = ''UNAVAILABLE'', gn_status = UNAVAILABLE, gn_detail = ''Action is unavailable''\<rparr>]
        else []),
      gt_evaluated_predicates = [''availability''],
      gt_permitted_resolution = pm_permitted_resolution m\<rparr>"

definition authority_gate :: "PlanMaterial \<Rightarrow> GateResult option" where
  "authority_gate m =
     (if pm_authority m = None \<or> pm_authority m = Some SELLER_SEALED then None
      else Some
        \<lparr>gt_gate_id = ''authority_'' @ pm_source_id m, gt_truth = TruthValue.FALSE,
         gt_reasons = [\<lparr>gn_reason_code = ''SELLER_AUTHORITY_REQUIRED'', gn_status = ADVISORY_ONLY,
                        gn_detail = ''The package is research-only until a seller seals it''\<rparr>],
         gt_evaluated_predicates = [''publisher_authority''],
         gt_permitted_resolution = Some ''NEW_PACK_VERSION''\<rparr>)"

definition dependency_gates :: "PlanMaterial \<Rightarrow> GateResult list" where
  "dependency_gates m =
     map (\<lambda>(index, issue).
       \<lparr>gt_gate_id = ''dependency_'' @ pm_source_id m @ ''_'' @ show_nat index, gt_truth = TruthValue.FALSE,
        gt_reasons = [\<lparr>gn_reason_code = issue, gn_status = SIRA_INELIGIBLE,
                       gn_detail = ''Required component dependency closure is not feasible''\<rparr>],
        gt_evaluated_predicates = [''component_dependency_closure''],
        gt_permitted_resolution = None\<rparr>) (enumerate 1 (pm_dependency_issues m))"

definition component_field_states ::
  "hash_env \<Rightarrow> PlanMaterial \<Rightarrow> string \<Rightarrow> assessment_index \<Rightarrow> FieldState list res" where
  "component_field_states E m fld idx =
     (if length (pm_component_ids m) = 1
      then bindE (field_state E (pm_gate_facts m) fld idx) (\<lambda>s. Inr [s])
      else mapE (\<lambda>c. field_state E (filter (\<lambda>f. pf_component_id f = Some c) (pm_gate_facts m)) fld idx)
             (pm_component_ids m))"

definition seller_assessments :: "GateRule \<Rightarrow> assessment_index \<Rightarrow> EvidenceAssessment list" where
  "seller_assessments g idx = map snd (filter (\<lambda>((e, _), _). e \<in> set (gr_evidence_claim_ids g)) idx)"

text \<open>Truth states and reasons that the seller rule's own evidence contributes.\<close>

definition seller_evidence :: "GateRule \<Rightarrow> assessment_index \<Rightarrow> TruthValue list \<times> GateReason list" where
  "seller_evidence g idx =
     (if gr_blocked_status g = SEIL_PASS \<and> gr_evidence_claim_ids g \<noteq> []
      then
        let referenced = seller_assessments g idx;
            states = map ea_state referenced;
            insufficient = referenced = [] \<or> EvidenceState.UNKNOWN \<in> set states;
            stale = EvidenceState.STALE \<in> set states;
            conflict = EvidenceState.CONFLICT \<in> set states
        in ((if insufficient then [TruthValue.UNKNOWN] else []) @
            (if stale then [TruthValue.UNKNOWN] else []) @
            (if conflict then [TruthValue.CONFLICT] else []),
            (if insufficient
             then [\<lparr>gn_reason_code = ''INSUFFICIENT_SELLER_RULE_EVIDENCE'', gn_status = INSUFFICIENT_EVIDENCE,
                    gn_detail = ''The published seller rule lacks reconstructable current evidence''\<rparr>]
             else []) @
            (if stale
             then [\<lparr>gn_reason_code = ''STALE_SELLER_RULE_EVIDENCE'', gn_status = STALE_EVIDENCE,
                    gn_detail = ''The published seller rule evidence is stale''\<rparr>]
             else []) @
            (if conflict
             then [\<lparr>gn_reason_code = ''CONFLICTING_SELLER_RULE_EVIDENCE'', gn_status = CONFLICTING_EVIDENCE,
                    gn_detail = ''The published seller rule evidence is disputed or revoked''\<rparr>]
             else []))
      else ([], []))"

definition truth_of :: "bool \<Rightarrow> TruthValue" where
  "truth_of b = (if b then TruthValue.TRUE else TruthValue.FALSE)"

text \<open>The body of the loop over the gate's predicates.\<close>

definition predicate_outcome ::
  "hash_env \<Rightarrow> GateRule \<Rightarrow> PlanMaterial \<Rightarrow> (string \<times> fact_value) list \<Rightarrow> assessment_index \<Rightarrow> Predicate \<Rightarrow>
     (TruthValue list \<times> GateReason list) res" where
  "predicate_outcome E g m buyer_values idx p =
     (if gr_blocked_status g = SEIL_PASS
      then (case map_of buyer_values (pr_field p) of
              None \<Rightarrow> Inr ([TruthValue.UNKNOWN],
                [\<lparr>gn_reason_code = ''SELLER_CONDITION_UNRESOLVED'', gn_status = CONDITIONAL,
                  gn_detail = ''Missing sanitized condition field '' @ pr_field p\<rparr>])
            | Some v \<Rightarrow> bindE (predicate_matches v p) (\<lambda>b. Inr ([truth_of b], [])))
      else bindE (component_field_states E m (pr_field p) idx) (\<lambda>fss.
        let states = map fs_state fss in
        if EvidenceState.CONFLICT \<in> set states
        then Inr ([TruthValue.CONFLICT],
               [\<lparr>gn_reason_code = ''CONFLICTING_EVIDENCE'', gn_status = CONFLICTING_EVIDENCE,
                 gn_detail = ''Conflicting values support '' @ pr_field p\<rparr>])
        else if EvidenceState.STALE \<in> set states
        then Inr ([TruthValue.UNKNOWN],
               [\<lparr>gn_reason_code = ''STALE_EVIDENCE'', gn_status = STALE_EVIDENCE,
                 gn_detail = ''Evidence for '' @ pr_field p @ '' is stale''\<rparr>])
        else if EvidenceState.UNKNOWN \<in> set states \<or> list_ex (\<lambda>s. fs_values s = []) fss
        then Inr ([TruthValue.UNKNOWN],
               [\<lparr>gn_reason_code = ''INSUFFICIENT_EVIDENCE'', gn_status = INSUFFICIENT_EVIDENCE,
                 gn_detail = ''Current acceptable evidence for '' @ pr_field p @ '' is missing''\<rparr>])
        else bindE (mapE (\<lambda>s. bindE (allE (\<lambda>v. predicate_matches v p) (fs_values s)) (\<lambda>b. Inr (truth_of b))) fss)
               (\<lambda>ts. Inr (ts, []))))"

text \<open>The verdict over all truth states, with the reason it adds.\<close>

definition gate_verdict :: "GateRule \<Rightarrow> TruthValue list \<Rightarrow> TruthValue \<times> GateReason list" where
  "gate_verdict g states =
     (if TruthValue.CONFLICT \<in> set states then (TruthValue.CONFLICT, [])
      else if gr_mode g = REQUIRE_MATCH
      then (if TruthValue.FALSE \<in> set states
            then (TruthValue.FALSE,
                  [\<lparr>gn_reason_code = gr_reason_code g, gn_status = gr_blocked_status g,
                    gn_detail = ''Required predicate failed''\<rparr>])
            else if TruthValue.UNKNOWN \<in> set states then (TruthValue.UNKNOWN, [])
            else (TruthValue.TRUE, []))
      else if TruthValue.FALSE \<in> set states then (TruthValue.TRUE, [])
      else if TruthValue.UNKNOWN \<in> set states then (TruthValue.UNKNOWN, [])
      else (TruthValue.FALSE,
            [\<lparr>gn_reason_code = gr_reason_code g, gn_status = gr_blocked_status g,
              gn_detail = ''Blocking predicate matched''\<rparr>]))"

definition reason_key :: "GateReason \<Rightarrow> nat \<times> string \<times> string" where
  "reason_key r = (precedence_rank (gn_status r), gn_reason_code r, gn_detail r)"

definition evaluate_gate ::
  "hash_env \<Rightarrow> GateRule \<Rightarrow> PlanMaterial \<Rightarrow> (string \<times> fact_value) list \<Rightarrow> assessment_index \<Rightarrow> GateResult res" where
  "evaluate_gate E g m buyer_values idx =
     bindE (mapE (predicate_outcome E g m buyer_values idx) (gr_predicates g)) (\<lambda>outcomes.
       let states = fst (seller_evidence g idx) @ concat (map fst outcomes);
           reasons = snd (seller_evidence g idx) @ concat (map snd outcomes) @ snd (gate_verdict g states)
       in Inr \<lparr>gt_gate_id = gr_gate_id g, gt_truth = fst (gate_verdict g states),
               gt_reasons = sort_key reason_key (remdups reasons),
               gt_evaluated_predicates = map pr_field (gr_predicates g),
               gt_permitted_resolution = gr_permitted_resolution g\<rparr>)"

definition applicable_gates :: "DecisionGraphInput \<Rightarrow> PlanMaterial \<Rightarrow> GateRule list" where
  "applicable_gates d m = filter (\<lambda>g. gate_applies g m (active_source_ids d)) (sort_key gr_gate_id (di_gates d))"

definition evaluate_gates ::
  "hash_env \<Rightarrow> DecisionGraphInput \<Rightarrow> PlanMaterial \<Rightarrow> EvidenceAssessment list \<Rightarrow> GateResult list res" where
  "evaluate_gates E d m as =
     bindE (mapE (\<lambda>g. evaluate_gate E g m (buyer_value_map d) (index_assessments as)) (applicable_gates d m))
       (\<lambda>rules. Inr ([availability_gate m] @ dependency_gates m @
          (case authority_gate m of None \<Rightarrow> [] | Some a \<Rightarrow> [a]) @ rules))"

definition primary_status :: "GateResult list \<Rightarrow> CandidateStatus \<times> GateReason option" where
  "primary_status gates =
     (case min_by (\<lambda>r. (precedence_rank (gn_status r), gn_reason_code r)) (concat (map gt_reasons gates)) of
        Inl _ \<Rightarrow> (ELIGIBLE, None)
      | Inr primary \<Rightarrow> (gn_status primary, Some primary))"

section \<open>What a clear gate means\<close>

text \<open>
  The values a predicate is tested on: the sanitised buyer value for a seller gate, and otherwise
  the value of every component, provided all of them rest on acceptable evidence. \<open>None\<close> where
  the gate cannot know them.
\<close>

definition predicate_values ::
  "hash_env \<Rightarrow> GateRule \<Rightarrow> PlanMaterial \<Rightarrow> (string \<times> fact_value) list \<Rightarrow> assessment_index \<Rightarrow> Predicate \<Rightarrow>
     fact_value list option" where
  "predicate_values E g m buyer_values idx p =
     (if gr_blocked_status g = SEIL_PASS then map_option (\<lambda>v. [v]) (map_of buyer_values (pr_field p))
      else (case component_field_states E m (pr_field p) idx of
              Inl _ \<Rightarrow> None
            | Inr fss \<Rightarrow>
                if list_all (\<lambda>s. fs_state s = EvidenceState.ACCEPTABLE \<and> fs_values s \<noteq> []) fss
                then Some (concat (map fs_values fss)) else None))"

definition seller_evidence_clear :: "GateRule \<Rightarrow> assessment_index \<Rightarrow> bool" where
  "seller_evidence_clear g idx \<longleftrightarrow>
     gr_blocked_status g = SEIL_PASS \<longrightarrow> gr_evidence_claim_ids g \<noteq> [] \<longrightarrow>
       seller_assessments g idx \<noteq> [] \<and>
       list_all (\<lambda>a. ea_state a = EvidenceState.ACCEPTABLE) (seller_assessments g idx)"

definition gate_clear ::
  "hash_env \<Rightarrow> GateRule \<Rightarrow> PlanMaterial \<Rightarrow> (string \<times> fact_value) list \<Rightarrow> assessment_index \<Rightarrow> bool" where
  "gate_clear E g m bv idx \<longleftrightarrow>
     seller_evidence_clear g idx \<and>
     (\<forall>p \<in> set (gr_predicates g). predicate_values E g m bv idx p \<noteq> None) \<and>
     (if gr_mode g = REQUIRE_MATCH
      then \<forall>p \<in> set (gr_predicates g). \<forall>v \<in> set (the (predicate_values E g m bv idx p)).
             predicate_matches v p = Inr True
      else \<exists>p \<in> set (gr_predicates g). \<exists>v \<in> set (the (predicate_values E g m bv idx p)).
             predicate_matches v p = Inr False)"

section \<open>Lemmas\<close>

lemma precedence_rank_inject [simp]: "precedence_rank a = precedence_rank b \<longleftrightarrow> a = b"
  by (cases a; cases b) (simp_all add: precedence_rank_def status_precedence_def)

lemma reason_key_inject: "reason_key a = reason_key b \<Longrightarrow> a = b"
  by (simp add: reason_key_def)

lemma truth_of_simps [simp]:
  "truth_of b = TruthValue.TRUE \<longleftrightarrow> b" "truth_of b = TruthValue.FALSE \<longleftrightarrow> \<not> b"
  "TruthValue.TRUE = truth_of b \<longleftrightarrow> b" "TruthValue.FALSE = truth_of b \<longleftrightarrow> \<not> b"
  "truth_of b \<noteq> TruthValue.UNKNOWN" "truth_of b \<noteq> TruthValue.CONFLICT"
  "TruthValue.UNKNOWN \<noteq> truth_of b" "TruthValue.CONFLICT \<noteq> truth_of b"
  by (simp_all add: truth_of_def)

lemma seller_evidence_reasons:
  "snd (seller_evidence g idx) = [] \<longleftrightarrow> seller_evidence_clear g idx"
  "fst (seller_evidence g idx) = [] \<longleftrightarrow> snd (seller_evidence g idx) = []"
proof -
  have st: "EvidenceState.UNKNOWN \<noteq> s \<and> EvidenceState.STALE \<noteq> s \<and> EvidenceState.CONFLICT \<noteq> s \<longleftrightarrow>
      s = EvidenceState.ACCEPTABLE" for s by (cases s) auto
  show "snd (seller_evidence g idx) = [] \<longleftrightarrow> seller_evidence_clear g idx"
    unfolding seller_evidence_clear_def list_all_iff st [symmetric]
    by (auto simp: seller_evidence_def Let_def)
  show "fst (seller_evidence g idx) = [] \<longleftrightarrow> snd (seller_evidence g idx) = []"
    by (simp add: seller_evidence_def Let_def)
qed

lemma component_truths:
  assumes "mapE (\<lambda>s. bindE (allE (\<lambda>v. predicate_matches v p) (fs_values s)) (\<lambda>b. Inr (truth_of b))) fss = Inr ts"
  shows "set ts \<subseteq> {TruthValue.TRUE, TruthValue.FALSE}"
    "TruthValue.FALSE \<in> set ts \<longleftrightarrow> (\<exists>v \<in> set (concat (map fs_values fss)). predicate_matches v p = Inr False)"
    "TruthValue.FALSE \<notin> set ts \<longleftrightarrow> (\<forall>v \<in> set (concat (map fs_values fss)). predicate_matches v p = Inr True)"
proof -
  from assms show "set ts \<subseteq> {TruthValue.TRUE, TruthValue.FALSE}"
    by (fastforce simp: truth_of_def bindE_Inr_conv dest: mapE_memR)
  have total: "\<exists>b. allE (\<lambda>v. predicate_matches v p) (fs_values s) = Inr b \<and> truth_of b \<in> set ts"
    if "s \<in> set fss" for s
    using mapE_memL [OF assms that] by (auto simp: bindE_Inr_conv)
  have some_false: "\<exists>s \<in> set fss. allE (\<lambda>v. predicate_matches v p) (fs_values s) = Inr False"
    if "TruthValue.FALSE \<in> set ts"
    using mapE_memR [OF assms that] by (auto simp: bindE_Inr_conv)
  have neq: "allE (\<lambda>v. predicate_matches v p) (fs_values s) \<noteq> Inr True"
    if "v \<in> set (fs_values s)" "predicate_matches v p = Inr False" for s v
    using that by (force simp: allE_True)
  show false_iff: "TruthValue.FALSE \<in> set ts \<longleftrightarrow>
      (\<exists>v \<in> set (concat (map fs_values fss)). predicate_matches v p = Inr False)"
  proof
    assume "TruthValue.FALSE \<in> set ts"
    then obtain s where "s \<in> set fss" "allE (\<lambda>v. predicate_matches v p) (fs_values s) = Inr False"
      using some_false by blast
    then show "\<exists>v \<in> set (concat (map fs_values fss)). predicate_matches v p = Inr False"
      using allE_False by fastforce
  next
    assume "\<exists>v \<in> set (concat (map fs_values fss)). predicate_matches v p = Inr False"
    then obtain s v where s: "s \<in> set fss" "v \<in> set (fs_values s)" "predicate_matches v p = Inr False" by auto
    with total [OF s(1)] neq [OF s(2,3)] obtain b where "\<not> b" "truth_of b \<in> set ts" by auto
    then show "TruthValue.FALSE \<in> set ts" by (simp add: truth_of_def)
  qed
  show "TruthValue.FALSE \<notin> set ts \<longleftrightarrow>
      (\<forall>v \<in> set (concat (map fs_values fss)). predicate_matches v p = Inr True)"
  proof
    assume "TruthValue.FALSE \<notin> set ts"
    then show "\<forall>v \<in> set (concat (map fs_values fss)). predicate_matches v p = Inr True"
      using total by simp (metis (full_types) allE_True truth_of_def)
  qed (use false_iff in fastforce)
qed

lemma predicate_outcome_spec:
  assumes "predicate_outcome E g m bv idx p = Inr (ts, rs)"
  shows "predicate_values E g m bv idx p = None \<Longrightarrow> rs \<noteq> [] \<and> TruthValue.FALSE \<notin> set ts"
    "predicate_values E g m bv idx p = Some vs \<Longrightarrow>
       rs = [] \<and> set ts \<subseteq> {TruthValue.TRUE, TruthValue.FALSE} \<and>
       (TruthValue.FALSE \<in> set ts \<longleftrightarrow> (\<exists>v \<in> set vs. predicate_matches v p = Inr False)) \<and>
       (TruthValue.FALSE \<notin> set ts \<longleftrightarrow> (\<forall>v \<in> set vs. predicate_matches v p = Inr True))"
proof (atomize (full), cases "gr_blocked_status g = SEIL_PASS")
  case True
  with assms show "(predicate_values E g m bv idx p = None \<longrightarrow> rs \<noteq> [] \<and> TruthValue.FALSE \<notin> set ts) \<and>
     (predicate_values E g m bv idx p = Some vs \<longrightarrow>
       rs = [] \<and> set ts \<subseteq> {TruthValue.TRUE, TruthValue.FALSE} \<and>
       (TruthValue.FALSE \<in> set ts \<longleftrightarrow> (\<exists>v \<in> set vs. predicate_matches v p = Inr False)) \<and>
       (TruthValue.FALSE \<notin> set ts \<longleftrightarrow> (\<forall>v \<in> set vs. predicate_matches v p = Inr True)))"
    by (auto simp: predicate_outcome_def predicate_values_def bindE_Inr_conv split: option.splits)
next
  case False
  with assms obtain fss where fss: "component_field_states E m (pr_field p) idx = Inr fss"
    by (auto simp: predicate_outcome_def bindE_Inr_conv)
  have ok: "(\<forall>s \<in> set fss. fs_state s = EvidenceState.ACCEPTABLE \<and> fs_values s \<noteq> []) \<longleftrightarrow>
      EvidenceState.CONFLICT \<notin> set (map fs_state fss) \<and> EvidenceState.STALE \<notin> set (map fs_state fss) \<and>
      \<not> (EvidenceState.UNKNOWN \<in> set (map fs_state fss) \<or> list_ex (\<lambda>s. fs_values s = []) fss)"
    by (auto simp: list_ex_iff image_iff) (metis EvidenceState.exhaust)
  show "(predicate_values E g m bv idx p = None \<longrightarrow> rs \<noteq> [] \<and> TruthValue.FALSE \<notin> set ts) \<and>
     (predicate_values E g m bv idx p = Some vs \<longrightarrow>
       rs = [] \<and> set ts \<subseteq> {TruthValue.TRUE, TruthValue.FALSE} \<and>
       (TruthValue.FALSE \<in> set ts \<longleftrightarrow> (\<exists>v \<in> set vs. predicate_matches v p = Inr False)) \<and>
       (TruthValue.FALSE \<notin> set ts \<longleftrightarrow> (\<forall>v \<in> set vs. predicate_matches v p = Inr True)))"
  proof (cases "\<forall>s \<in> set fss. fs_state s = EvidenceState.ACCEPTABLE \<and> fs_values s \<noteq> []")
    case True
    with ok False fss assms
    have ts: "mapE (\<lambda>s. bindE (allE (\<lambda>v. predicate_matches v p) (fs_values s)) (\<lambda>b. Inr (truth_of b))) fss = Inr ts"
      and "rs = []"
      by (simp_all add: predicate_outcome_def Let_def bindE_Inr_conv)
    moreover have "predicate_values E g m bv idx p = Some (concat (map fs_values fss))"
      using True False fss by (simp add: predicate_values_def list_all_iff)
    ultimately show ?thesis using component_truths [OF ts] by (auto simp del: set_concat)
  next
    case bad: False
    with ok False fss assms show ?thesis
      by (auto simp: predicate_outcome_def predicate_values_def Let_def list_all_iff split: if_splits)
  qed
qed

text \<open>The gate reports no reason exactly if it is clear, and then its truth is TRUE.\<close>

lemma gate_verdict_reasons:
  assumes "TruthValue.CONFLICT \<notin> set sts" "TruthValue.UNKNOWN \<notin> set sts"
  shows "snd (gate_verdict g sts) = [] \<longleftrightarrow>
    (if gr_mode g = REQUIRE_MATCH then TruthValue.FALSE \<notin> set sts else TruthValue.FALSE \<in> set sts)"
    "snd (gate_verdict g sts) = [] \<Longrightarrow> fst (gate_verdict g sts) = TruthValue.TRUE"
  using assms by (auto simp: gate_verdict_def split: if_splits)

lemma sort_key_Nil_iff: "sort_key f xs = [] \<longleftrightarrow> xs = []"
  by (metis set_empty set_sort)

lemma evaluate_gate_clear:
  assumes "evaluate_gate E g m bv idx = Inr r"
  shows "gt_reasons r = [] \<longleftrightarrow> gate_clear E g m bv idx"
    "gt_reasons r = [] \<Longrightarrow> gt_truth r = TruthValue.TRUE"
proof -
  from assms obtain os where os: "mapE (predicate_outcome E g m bv idx) (gr_predicates g) = Inr os"
    by (auto simp: evaluate_gate_def bindE_Inr_conv)
  define sts where "sts = fst (seller_evidence g idx) @ concat (map fst os)"
  have r: "gt_truth r = fst (gate_verdict g sts)"
    "gt_reasons r = sort_key reason_key (remdups (snd (seller_evidence g idx) @ concat (map snd os) @
       snd (gate_verdict g sts)))"
    using assms by (auto simp: evaluate_gate_def os sts_def Let_def)
  let ?known = "\<forall>p \<in> set (gr_predicates g). predicate_values E g m bv idx p \<noteq> None"
  have empty: "gt_reasons r = [] \<longleftrightarrow>
      seller_evidence_clear g idx \<and> (\<forall>o1 \<in> set os. snd o1 = []) \<and> snd (gate_verdict g sts) = []"
    by (auto simp: r(2) sort_key_Nil_iff seller_evidence_reasons(1))
  have known: "(\<forall>o1 \<in> set os. snd o1 = []) \<longleftrightarrow> ?known"
  proof
    assume "\<forall>o1 \<in> set os. snd o1 = []"
    then show ?known using mapE_memL [OF os] predicate_outcome_spec(1) by fastforce
  next
    assume ?known
    then show "\<forall>o1 \<in> set os. snd o1 = []" using mapE_memR [OF os] predicate_outcome_spec(2) by fastforce
  qed
  have key: "snd (gate_verdict g sts) = [] \<longleftrightarrow>
      (if gr_mode g = REQUIRE_MATCH
       then \<forall>p \<in> set (gr_predicates g). \<forall>v \<in> set (the (predicate_values E g m bv idx p)).
              predicate_matches v p = Inr True
       else \<exists>p \<in> set (gr_predicates g). \<exists>v \<in> set (the (predicate_values E g m bv idx p)).
              predicate_matches v p = Inr False)"
    "snd (gate_verdict g sts) = [] \<Longrightarrow> fst (gate_verdict g sts) = TruthValue.TRUE"
    if "seller_evidence_clear g idx" ?known
  proof -
    have seller: "fst (seller_evidence g idx) = []" using that(1) seller_evidence_reasons by blast
    have out: "\<exists>vs. predicate_values E g m bv idx p = Some vs \<and>
        set (fst o1) \<subseteq> {TruthValue.TRUE, TruthValue.FALSE} \<and>
        (TruthValue.FALSE \<in> set (fst o1) \<longleftrightarrow> (\<exists>v \<in> set vs. predicate_matches v p = Inr False)) \<and>
        (TruthValue.FALSE \<notin> set (fst o1) \<longleftrightarrow> (\<forall>v \<in> set vs. predicate_matches v p = Inr True))"
      if "p \<in> set (gr_predicates g)" "predicate_outcome E g m bv idx p = Inr o1" for p o1
      using predicate_outcome_spec(2) [of E g m bv idx p "fst o1" "snd o1"] that \<open>?known\<close> by fastforce
    have plain: "TruthValue.CONFLICT \<notin> set sts" "TruthValue.UNKNOWN \<notin> set sts"
      using mapE_memR [OF os] out by (fastforce simp: sts_def seller)+
    have "TruthValue.FALSE \<in> set sts \<longleftrightarrow>
        (\<exists>p \<in> set (gr_predicates g). \<exists>v \<in> set (the (predicate_values E g m bv idx p)).
           predicate_matches v p = Inr False)"
      unfolding sts_def seller using mapE_memR [OF os] mapE_memL [OF os] out by simp (metis option.sel)
    moreover have "TruthValue.FALSE \<notin> set sts \<longleftrightarrow>
        (\<forall>p \<in> set (gr_predicates g). \<forall>v \<in> set (the (predicate_values E g m bv idx p)).
           predicate_matches v p = Inr True)"
      unfolding sts_def seller using mapE_memR [OF os] mapE_memL [OF os] out by simp (metis option.sel)
    ultimately show "snd (gate_verdict g sts) = [] \<longleftrightarrow>
      (if gr_mode g = REQUIRE_MATCH
       then \<forall>p \<in> set (gr_predicates g). \<forall>v \<in> set (the (predicate_values E g m bv idx p)).
              predicate_matches v p = Inr True
       else \<exists>p \<in> set (gr_predicates g). \<exists>v \<in> set (the (predicate_values E g m bv idx p)).
              predicate_matches v p = Inr False)"
      unfolding gate_verdict_reasons(1) [OF plain] by simp
    show "snd (gate_verdict g sts) = [] \<Longrightarrow> fst (gate_verdict g sts) = TruthValue.TRUE"
      by (rule gate_verdict_reasons(2) [OF plain])
  qed
  show "gt_reasons r = [] \<longleftrightarrow> gate_clear E g m bv idx"
    unfolding empty known gate_clear_def using key(1) by blast
  show "gt_reasons r = [] \<Longrightarrow> gt_truth r = TruthValue.TRUE"
    unfolding empty known r(1) using key(2) by blast
qed

lemma evaluate_gate_statuses:
  assumes "evaluate_gate E g m bv idx = Inr res" "r \<in> set (gt_reasons res)"
  shows "gn_status r \<in> {CONFLICTING_EVIDENCE, STALE_EVIDENCE, INSUFFICIENT_EVIDENCE, CONDITIONAL, gr_blocked_status g}"
proof -
  let ?ok = "\<lambda>r. gn_status r \<in> {CONFLICTING_EVIDENCE, STALE_EVIDENCE, INSUFFICIENT_EVIDENCE, CONDITIONAL, gr_blocked_status g}"
  from assms(1) obtain os where os: "mapE (predicate_outcome E g m bv idx) (gr_predicates g) = Inr os"
    and res: "set (gt_reasons res) = set (snd (seller_evidence g idx)) \<union> set (concat (map snd os)) \<union>
      set (snd (gate_verdict g (fst (seller_evidence g idx) @ concat (map fst os))))"
    by (auto simp: evaluate_gate_def bindE_Inr_conv Let_def Un_assoc)
  have "?ok r" if "predicate_outcome E g m bv idx p = Inr o1" "r \<in> set (snd o1)" for p o1
    using that by (auto simp: predicate_outcome_def bindE_Inr_conv Let_def split: if_splits option.splits)
  moreover have "?ok r" if "r \<in> set (snd (seller_evidence g idx))"
    using that by (auto simp: seller_evidence_def Let_def split: if_splits)
  moreover have "?ok r" if "r \<in> set (snd (gate_verdict g sts))" for sts
    using that by (auto simp: gate_verdict_def split: if_splits)
  ultimately show ?thesis using assms(2) mapE_memR [OF os] unfolding res by fastforce
qed

lemma primary_status_None: "snd (primary_status gs) = None \<longleftrightarrow> (\<forall>g \<in> set gs. gt_reasons g = [])"
proof -
  have "snd (primary_status gs) = None \<longleftrightarrow> concat (map gt_reasons gs) = []"
    unfolding primary_status_def by (cases "concat (map gt_reasons gs)") (simp_all del: concat_eq_Nil_conv)
  then show ?thesis by simp
qed

lemma primary_status_least:
  assumes "primary_status gs = (st, Some r)"
  shows "st = gn_status r" "\<exists>g \<in> set gs. r \<in> set (gt_reasons g)"
    "\<And>g r'. g \<in> set gs \<Longrightarrow> r' \<in> set (gt_reasons g) \<Longrightarrow> precedence_rank st \<le> precedence_rank (gn_status r')"
proof -
  let ?f = "\<lambda>r. (precedence_rank (gn_status r), gn_reason_code r)"
  from assms have m: "min_by ?f (concat (map gt_reasons gs)) = Inr r" and st: "st = gn_status r"
    by (auto simp: primary_status_def split: sum.splits)
  show "st = gn_status r" by (rule st)
  show "\<exists>g \<in> set gs. r \<in> set (gt_reasons g)" using min_by_Inr(1) [OF m] by auto
  show "precedence_rank st \<le> precedence_rank (gn_status r')" if "g \<in> set gs" "r' \<in> set (gt_reasons g)" for g r'
  proof -
    have "r' \<in> set (concat (map gt_reasons gs))" using that by auto
    then show ?thesis using min_by_Inr(2) [OF m] st by fastforce
  qed
qed

lemma evaluate_gates_parts:
  assumes "evaluate_gates E d m as = Inr gs"
  obtains rules where
    "mapE (\<lambda>g. evaluate_gate E g m (buyer_value_map d) (index_assessments as)) (applicable_gates d m) = Inr rules"
    "set gs = {availability_gate m} \<union> set (dependency_gates m) \<union> set_option (authority_gate m) \<union> set rules"
proof -
  from assms obtain rules where
    r: "mapE (\<lambda>g. evaluate_gate E g m (buyer_value_map d) (index_assessments as)) (applicable_gates d m) = Inr rules"
    by (auto simp: evaluate_gates_def bindE_Inr_conv)
  show ?thesis by (rule that [OF r]) (use assms in \<open>auto simp: evaluate_gates_def r split: option.splits\<close>)
qed

lemma builtin_gates_clear:
  "gt_reasons (availability_gate m) = [] \<longleftrightarrow> pm_available m"
  "(\<forall>g \<in> set (dependency_gates m). gt_reasons g = []) \<longleftrightarrow> pm_dependency_issues m = []"
  "(\<forall>g \<in> set_option (authority_gate m). gt_reasons g = []) \<longleftrightarrow> pm_authority m \<in> {None, Some SELLER_SEALED}"
proof -
  show "(\<forall>g \<in> set (dependency_gates m). gt_reasons g = []) \<longleftrightarrow> pm_dependency_issues m = []"
    by (cases "pm_dependency_issues m") (auto simp: dependency_gates_def)
qed (auto simp: availability_gate_def authority_gate_def)

text \<open>
  A plan is free of reasons exactly if it is available, its dependency closure is feasible, a seller
  sealed its packs, and every applicable rule gate is clear.
\<close>

lemma evaluate_gates_eligible:
  assumes "evaluate_gates E d m as = Inr gs"
  shows "snd (primary_status gs) = None \<longleftrightarrow>
    pm_available m \<and> pm_dependency_issues m = [] \<and> pm_authority m \<in> {None, Some SELLER_SEALED} \<and>
    (\<forall>g \<in> set (di_gates d). gate_applies g m (active_source_ids d) \<longrightarrow>
       gate_clear E g m (buyer_value_map d) (index_assessments as))"
proof -
  obtain rules where
    rules: "mapE (\<lambda>g. evaluate_gate E g m (buyer_value_map d) (index_assessments as)) (applicable_gates d m) = Inr rules"
    and gs: "set gs = {availability_gate m} \<union> set (dependency_gates m) \<union> set_option (authority_gate m) \<union> set rules"
    using evaluate_gates_parts [OF assms] .
  have app: "g \<in> set (applicable_gates d m) \<longleftrightarrow> g \<in> set (di_gates d) \<and> gate_applies g m (active_source_ids d)" for g
    by (simp add: applicable_gates_def)
  have "(\<forall>r \<in> set rules. gt_reasons r = []) \<longleftrightarrow>
      (\<forall>g \<in> set (applicable_gates d m). gate_clear E g m (buyer_value_map d) (index_assessments as))"
    using mapE_memL [OF rules] mapE_memR [OF rules] evaluate_gate_clear(1) by metis
  then show ?thesis
    unfolding primary_status_None gs using app by (simp add: ball_Un builtin_gates_clear) blast
qed

end
