(* ===== verification/Scoring.thy ===== *)
theory Scoring
  imports Gates
begin

text \<open>
  Scoring of plan material, \<^verbatim>\<open>src/python/decision_engine/graph_v1.py\<close> from \<^verbatim>\<open>_normalization_value\<close>
  to \<^verbatim>\<open>_material_dimensions\<close>: preference components with conservative and optimistic satisfaction,
  risk bounds, coverage and evidence age, total-cost validation, and the plan's dimensions. The prior
  label's dash is written in ASCII.
\<close>

section \<open>Preference components\<close>

definition exact_product :: "ExactRatio \<Rightarrow> int \<Rightarrow> ExactRatio" where
  "exact_product l k = ratio_of (ratio_fraction l * of_int k)"

fun piecewise :: "rat \<Rightarrow> (int \<times> ExactRatio) list \<Rightarrow> ExactRatio" where
  "piecewise x [] = ratio_of 0"
| "piecewise x ((maximum, satisfaction) # r) = (if x \<le> of_int maximum then satisfaction else piecewise x r)"

definition normalization_value :: "PreferenceCriterion \<Rightarrow> fact_value \<Rightarrow> ExactRatio res" where
  "normalization_value c v =
     (case pc_normalization c of
        BOOLEAN_EQUALS \<Rightarrow> Inr (ratio_of (if strict_equal v (pc_expected c) then 1 else 0))
      | SET_CONTAINS_ALL \<Rightarrow>
          Inr (ratio_of (case (v, pc_expected c) of
                 (FTuple actual, FTuple items) \<Rightarrow> if set items \<subseteq> set actual then 1 else 0
               | _ \<Rightarrow> 0))
      | LOWER_IS_BETTER \<Rightarrow>
          (case numeric_text v of
             None \<Rightarrow> Inr (ratio_of 0)
           | Some t \<Rightarrow> bindE (parse_fraction t) (\<lambda>x. Inr (piecewise x (pc_lower_is_better_points c))))
      | OUTCOME_RATE \<Rightarrow> Inl (ValueError ''OUTCOME_RATE is resolved from frozen outcome observations''))"

definition outcome_value :: "DecisionGraphInput \<Rightarrow> string \<Rightarrow> string \<Rightarrow> OutcomeObservation option" where
  "outcome_value d subject_id criterion_id =
     map_of (dict_of (map (\<lambda>o1. ((oo_subject_id o1, oo_criterion_id o1), o1))
       (filter (\<lambda>o1. oo_source_fact_ids o1 = [] \<or> set (oo_source_fact_ids o1) \<subseteq> set (active_source_ids d))
         (di_outcome_values d)))) (subject_id, criterion_id)"

definition preference_applies :: "DecisionGraphInput \<Rightarrow> PlanMaterial \<Rightarrow> PreferenceCriterion \<Rightarrow> bool" where
  "preference_applies d m c \<longleftrightarrow>
     \<not> (pc_applies_to_actions c \<noteq> [] \<and> pm_action m \<notin> set (pc_applies_to_actions c)) \<and>
     \<not> (pc_source_fact_ids c \<noteq> [] \<and> \<not> set (pc_source_fact_ids c) \<subseteq> set (active_source_ids d))"

definition applicable_preferences :: "DecisionGraphInput \<Rightarrow> PlanMaterial \<Rightarrow> PreferenceCriterion list" where
  "applicable_preferences d m = filter (preference_applies d m) (sort_key pc_criterion_id (di_preferences d))"

definition unknown_bound :: "PreferenceCriterion \<Rightarrow> ExactRatio \<times> string list" where
  "unknown_bound c =
     (case pc_unknown_upper c of
        None \<Rightarrow> (ratio_of 0, [''BOUND_UNAVAILABLE:'' @ pc_criterion_id c @ '':UNKNOWN_BOUND''])
      | Some u \<Rightarrow> (u, []))"

definition observation_state :: "EvidenceAssessment list \<Rightarrow> EvidenceState" where
  "observation_state as =
     (if EvidenceState.CONFLICT \<in> set (map ea_state as) then EvidenceState.CONFLICT
      else if EvidenceState.ACCEPTABLE \<in> set (map ea_state as) then EvidenceState.ACCEPTABLE
      else if EvidenceState.STALE \<in> set (map ea_state as) then EvidenceState.STALE
      else EvidenceState.UNKNOWN)"

text \<open>Conservative and optimistic satisfaction, evidence state, evidence, prior label, bound reasons.\<close>

record satisfaction =
  sat_low :: ExactRatio
  sat_high :: ExactRatio
  sat_state :: EvidenceState
  sat_evidence :: "string list"
  sat_label :: "string option"
  sat_reasons :: "string list"

definition criterion_satisfaction ::
  "DecisionGraphInput \<Rightarrow> PlanMaterial \<Rightarrow> assessment_index \<Rightarrow> PreferenceCriterion \<Rightarrow> FieldState \<Rightarrow> satisfaction res" where
  "criterion_satisfaction d m idx c fs =
     (if pc_normalization c = OUTCOME_RATE
      then (case outcome_value d (pm_outcome_subject_id m) (pc_criterion_id c) of
              None \<Rightarrow>
                (case pc_neutral_prior c of
                   None \<Rightarrow> Inr \<lparr>sat_low = ratio_of 0, sat_high = ratio_of 0, sat_state = EvidenceState.UNKNOWN,
                     sat_evidence = fs_evidence_ids fs, sat_label = None,
                     sat_reasons = [''BOUND_UNAVAILABLE:'' @ pc_criterion_id c @ '':NEUTRAL_PRIOR'']\<rparr>
                 | Some prior \<Rightarrow> Inr \<lparr>sat_low = prior, sat_high = prior, sat_state = EvidenceState.UNKNOWN,
                     sat_evidence = fs_evidence_ids fs,
                     sat_label = Some ''category prior-not observed outcome'', sat_reasons = []\<rparr>)
            | Some observed \<Rightarrow>
                (let as = lookup_assessments idx (pc_field c) (oo_evidence_ids observed);
                     st = observation_state as;
                     ub = unknown_bound c
                 in if st = EvidenceState.ACCEPTABLE
                    then Inr \<lparr>sat_low = oo_value observed, sat_high = oo_value observed, sat_state = st,
                      sat_evidence = oo_evidence_ids observed, sat_label = None,
                      sat_reasons = bound_reasons_of as\<rparr>
                    else Inr \<lparr>sat_low = ratio_of 0, sat_high = fst ub, sat_state = st,
                      sat_evidence = oo_evidence_ids observed, sat_label = None,
                      sat_reasons = snd ub @ bound_reasons_of as\<rparr>))
      else if fs_state fs = EvidenceState.ACCEPTABLE \<and> fs_values fs \<noteq> []
      then bindE (mapE (normalization_value c) (fs_values fs)) (\<lambda>vs.
           bindE (min_by ratio_fraction vs) (\<lambda>lo.
           bindE (max_by ratio_fraction vs) (\<lambda>hi.
             Inr \<lparr>sat_low = lo, sat_high = hi, sat_state = fs_state fs, sat_evidence = fs_evidence_ids fs,
                  sat_label = None, sat_reasons = []\<rparr>)))
      else Inr \<lparr>sat_low = ratio_of 0, sat_high = fst (unknown_bound c), sat_state = fs_state fs,
                sat_evidence = fs_evidence_ids fs, sat_label = None, sat_reasons = snd (unknown_bound c)\<rparr>)"

definition score_component ::
  "hash_env \<Rightarrow> DecisionGraphInput \<Rightarrow> PlanMaterial \<Rightarrow> assessment_index \<Rightarrow> PreferenceCriterion \<Rightarrow>
     (ScoreComponent \<times> string list) res" where
  "score_component E d m idx c =
     bindE (field_state E (pm_facts m) (pc_field c) idx) (\<lambda>fs.
     bindE (criterion_satisfaction d m idx c fs) (\<lambda>s.
       Inr (\<lparr>sc_criterion_id = pc_criterion_id c, sc_weight = pc_weight c,
             sc_conservative_satisfaction = sat_low s, sc_optimistic_satisfaction = sat_high s,
             sc_contribution_conservative = exact_product (sat_low s) (pc_weight c),
             sc_contribution_optimistic = exact_product (sat_high s) (pc_weight c),
             sc_evidence_ids = sat_evidence s, sc_evidence_state = sat_state s,
             sc_prior_label = sat_label s\<rparr>,
            sat_reasons s @ fs_bound_reasons fs)))"

definition score_components ::
  "hash_env \<Rightarrow> DecisionGraphInput \<Rightarrow> PlanMaterial \<Rightarrow> EvidenceAssessment list \<Rightarrow>
     (ScoreComponent list \<times> string list) res" where
  "score_components E d m as =
     bindE (mapE (score_component E d m (index_assessments as)) (applicable_preferences d m)) (\<lambda>scs.
       Inr (map fst scs, sorted_set (concat (map snd scs))))"

section \<open>Risk\<close>

text \<open>What one rule contributes: bounds, triggered identifiers, reasons.\<close>

type_synonym risk_part = "RiskBounds list \<times> string list \<times> string list"

definition risk_rule_part ::
  "hash_env \<Rightarrow> PlanMaterial \<Rightarrow> assessment_index \<Rightarrow> RiskRule \<Rightarrow> risk_part res" where
  "risk_rule_part E m idx r =
     (let fire = bindE (mk_RiskBounds (rl_lower r) (rl_base r) (rl_upper r)) (\<lambda>b. Inr ([b], [rl_rule_id r], []))
      in case rl_predicate r of
           None \<Rightarrow> fire
         | Some p \<Rightarrow>
             bindE (field_state E (pm_facts m) (pr_field p) idx) (\<lambda>fs.
               let values = (if fs_state fs = EvidenceState.ACCEPTABLE then fs_values fs else [])
               in if values = []
                  then (case (rl_missing_lower r, rl_missing_base r, rl_missing_upper r) of
                          (Some l, Some b, Some u) \<Rightarrow>
                            bindE (mk_RiskBounds l b u) (\<lambda>rb.
                              let suffix = (if fs_state fs = EvidenceState.UNKNOWN \<and> fs_values fs = []
                                            then ''MISSING_INPUT''
                                            else evidence_state_value (fs_state fs) @ ''_EVIDENCE'')
                              in Inr ([rb], [rl_rule_id r @ '':'' @ suffix], []))
                        | _ \<Rightarrow> Inr ([], [], [''BOUND_UNAVAILABLE:RISK:'' @ rl_rule_id r]))
                  else bindE (allE (\<lambda>v. predicate_matches v p) values) (\<lambda>matched.
                         if matched then fire else Inr ([], [], []))))"

definition risk_bounds ::
  "hash_env \<Rightarrow> DecisionGraphInput \<Rightarrow> PlanMaterial \<Rightarrow> EvidenceAssessment list \<Rightarrow>
     (RiskBounds option \<times> string list \<times> string list) res" where
  "risk_bounds E d m as =
     bindE (mapE (risk_rule_part E m (index_assessments as))
        (filter (\<lambda>r. pm_action m \<in> set (rl_actions r)) (sort_key rl_rule_id (di_risk_rules d)))) (\<lambda>parts.
       let component_bounds = concat (map fst parts);
           triggered = concat (map (\<lambda>p. fst (snd p)) parts);
           reasons = concat (map (\<lambda>p. snd (snd p)) parts)
       in if reasons \<noteq> [] then Inr (None, sort reasons, sort triggered)
          else if component_bounds = []
          then (if \<not> di_risk_rule_set_complete d then Inr (None, [''BOUND_UNAVAILABLE:RISK_RULE_COVERAGE''], [])
                else bindE (mk_RiskBounds LOW LOW LOW) (\<lambda>low.
                     bindE (aggregate_risk_bounds [low]) (\<lambda>b.
                       Inr (Some b, [], sort (triggered @ [''COMPLETE_RULE_SET_DEFAULT_LOW''])))))
          else bindE (aggregate_risk_bounds component_bounds) (\<lambda>b. Inr (Some b, [], sort triggered)))"

section \<open>Coverage and evidence age\<close>

definition coverage_criterion ::
  "ScoreComponent list \<Rightarrow> PreferenceCriterion \<Rightarrow> CoverageCriterion res" where
  "coverage_criterion scores c =
     (case map_of (dict_of (map (\<lambda>s. (sc_criterion_id s, s)) scores)) (pc_criterion_id c) of
        None \<Rightarrow> Inl (KeyError (pc_criterion_id c))
      | Some s \<Rightarrow>
          let conservative = sc_evidence_state s = EvidenceState.ACCEPTABLE \<and> sc_prior_label s = None;
              optimistic = conservative \<or> (pc_permitted_evidence_resolution c \<noteq> None \<and>
                sc_evidence_state s \<in> {EvidenceState.UNKNOWN, EvidenceState.STALE})
          in mk_CoverageCriterion (pc_criterion_id c) (pc_coverage_weight c) conservative optimistic)"

definition active_hard_gates :: "DecisionGraphInput \<Rightarrow> GateResult list \<Rightarrow> GateResult list" where
  "active_hard_gates d gates =
     filter (\<lambda>g. \<not> starts_with (gt_gate_id g) ''availability_'' \<and> \<not> starts_with (gt_gate_id g) ''authority_'' \<and>
       gt_gate_id g \<notin> set (map gr_gate_id (filter (\<lambda>r. gr_blocked_status r = SEIL_PASS) (di_gates d)))) gates"

definition count_truth :: "TruthValue \<Rightarrow> GateResult list \<Rightarrow> int" where
  "count_truth t gates = int (length (filter (\<lambda>g. gt_truth g = t) gates))"

definition hard_coverage_of :: "GateResult list \<Rightarrow> HardCoverage res" where
  "hard_coverage_of gates =
     (if gates \<noteq> [] then mk_HardCoverage (count_truth TruthValue.TRUE gates) (int (length gates))
      else mk_HardCoverage 1 1)"

definition material_assessments ::
  "PlanMaterial \<Rightarrow> ScoreComponent list \<Rightarrow> EvidenceAssessment list \<Rightarrow> EvidenceAssessment list" where
  "material_assessments m scores as =
     filter (\<lambda>a. ea_evidence_id a \<in> set (concat (map pf_evidence_ids (pm_facts m))) \<union>
       set (concat (map sc_evidence_ids scores))) as"

definition coverage_and_age ::
  "DecisionGraphInput \<Rightarrow> PlanMaterial \<Rightarrow> GateResult list \<Rightarrow> ScoreComponent list \<Rightarrow> EvidenceAssessment list \<Rightarrow>
     (CoverageBounds \<times> EvidenceAgeBounds \<times> HardCoverage \<times> string list) res" where
  "coverage_and_age d m gates scores as =
     bindE (mapE (coverage_criterion scores) (applicable_preferences d m)) (\<lambda>criteria.
     bindE (hard_coverage_of (active_hard_gates d gates)) (\<lambda>hard.
       let mas = material_assessments m scores as
       in bindE (aggregate_evidence_age_bounds (List.map_filter ea_age_bounds mas)) (\<lambda>age.
          bindE (aggregate_coverage_bounds criteria) (\<lambda>coverage.
            Inr (coverage, age, hard, sorted_set (bound_reasons_of mas))))))"

section \<open>Cost\<close>

definition fee_items :: "OfferCost \<Rightarrow> CostLineItem list" where
  "fee_items c = filter (\<lambda>i. li_line_item_type i = ''SIRA_TRANSACTION_FEE'') (oc_line_items c)"

text \<open>
  The sum of the line items in the decimal context; the first field whose sum differs from its
  total is reported.
\<close>

definition line_total :: "(CostLineItem \<Rightarrow> Money) \<Rightarrow> OfferCost \<Rightarrow> int \<times> int \<Rightarrow> int \<times> int" where
  "line_total f c start = foldl (\<lambda>acc i. dec_add acc (amount (f i))) start (oc_line_items c)"

fun line_item_mismatch ::
  "OfferCost \<Rightarrow> (string \<times> (CostLineItem \<Rightarrow> Money) \<times> Money) list \<Rightarrow> string list res" where
  "line_item_mismatch c [] = Inr []"
| "line_item_mismatch c ((fld, f, tot) # r) =
     bindE (mk_Money (InInt 0) (currency tot)) (\<lambda>zero.
       if amount_rat (line_total f c (amount zero)) \<noteq> amount_rat (amount tot)
       then Inr [''BOUND_UNAVAILABLE:TCO_LINE_ITEMS:'' @ oc_offer_id c @ '':'' @ fld]
       else line_item_mismatch c r)"

definition valid_cost :: "OfferCost \<Rightarrow> int \<Rightarrow> (bool \<times> string list) res" where
  "valid_cost c expected_payment_components =
     (case (oc_low c, oc_base c, oc_high c) of
        (Some low, Some base, Some high) \<Rightarrow>
          bindE (mk_CostBounds low base high) (\<lambda>_.
          bindE (if oc_line_items c \<noteq> []
                 then line_item_mismatch c [(''low'', li_low, low), (''base'', li_base, base), (''high'', li_high, high)]
                 else Inr []) (\<lambda>mismatch.
            if mismatch \<noteq> [] then Inr (False, mismatch)
            else if oc_payment_required c \<and> int (length (fee_items c)) \<noteq> expected_payment_components
            then Inr (False, [''BOUND_UNAVAILABLE:TRANSACTION_FEE:'' @ oc_offer_id c])
            else if \<not> oc_payment_required c \<and> (fee_items c \<noteq> [] \<or> expected_payment_components \<noteq> 0)
            then Inr (False, [''BOUND_UNAVAILABLE:UNEXPECTED_TRANSACTION_FEE:'' @ oc_offer_id c])
            else Inr (True, [])))
      | _ \<Rightarrow> Inr (False, [''BOUND_UNAVAILABLE:TCO:'' @ oc_offer_id c]))"

section \<open>Dimensions\<close>

definition preference_dimension :: "ScoreComponent list \<Rightarrow> PreferenceScoreBounds option res" where
  "preference_dimension scores =
     (if scores \<noteq> []
      then bindE (mapE (\<lambda>s. mk_PreferenceCriterionBound (sc_criterion_id s) (sc_weight s)
               (sc_conservative_satisfaction s) (sc_optimistic_satisfaction s)) scores) (\<lambda>cs.
           bindE (aggregate_preference_bounds cs) (\<lambda>b. Inr (Some b)))
      else Inr None)"

definition risk_input_hash :: "hash_env \<Rightarrow> PlanMaterial \<Rightarrow> string res" where
  "risk_input_hash E m =
     bindE (mapE (\<lambda>f. bindE (content_hash E (py_fact_value (pf_value f))) (\<lambda>h. Inr ((pf_field f, h), pf_value f)))
        (pm_facts m)) (\<lambda>keyed.
       content_hash E (dict_str
         [(''action'', PyStr (solution_action_value (pm_action m))),
          (''inputs'', PyTuple (map (\<lambda>((fld, _), v). PyTuple [PyStr fld, py_fact_value v]) (sort_key fst keyed)))]))"

definition material_dimensions ::
  "hash_env \<Rightarrow> DecisionGraphInput \<Rightarrow> PlanMaterial \<Rightarrow> GateResult list \<Rightarrow> EvidenceAssessment list \<Rightarrow> int \<Rightarrow> int \<Rightarrow>
     (ScoreComponent list \<times> PlanDimensions \<times> string list) res" where
  "material_dimensions E d m gates as evaluated_count discovered_count =
     bindE (score_components E d m as) (\<lambda>(scores, score_reasons0).
     bindE (preference_dimension scores) (\<lambda>pref.
       let score_reasons = (if scores \<noteq> [] then score_reasons0
             else score_reasons0 @ [''BOUND_UNAVAILABLE:NO_APPLICABLE_PREFERENCE'']) in
     bindE (risk_bounds E d m as) (\<lambda>(risk, risk_reasons, risk_rule_ids).
     bindE (coverage_and_age d m gates scores as) (\<lambda>(coverage, age, hard, evidence_reasons).
     bindE (valid_cost (pm_cost m) (pm_payment_component_count m)) (\<lambda>(_, cost_reasons).
     bindE (risk_input_hash E m) (\<lambda>rhash.
     bindE (if discovered_count \<noteq> 0 then mk_ExactRatio evaluated_count discovered_count
            else mk_ExactRatio 0 1) (\<lambda>universe.
       Inr (scores,
         \<lparr>pd_preference = pref, pd_stack_risk = risk, pd_total_cost = pm_cost m,
          pd_decision_material_coverage = Some coverage, pd_maximum_evidence_age_ratio = Some age,
          pd_hard_coverage = hard, pd_universe_coverage = universe,
          pd_unresolved_count = count_truth TruthValue.UNKNOWN gates,
          pd_conflicting_count = count_truth TruthValue.CONFLICT gates,
          pd_triggered_risk_rule_ids = risk_rule_ids, pd_risk_input_hash = rhash,
          pd_bound_unavailable_reasons =
            sorted_set (score_reasons @ risk_reasons @ evidence_reasons @ cost_reasons)\<rparr>,
         risk_rule_ids))))))))"

section \<open>Lemmas\<close>

lemma mk_RiskBounds_Inr: "mk_RiskBounds l b u = Inr r \<Longrightarrow> risk_lower r \<le> risk_base r \<and> risk_base r \<le> risk_upper r"
  by (auto simp: mk_RiskBounds_def less_eq_StackRisk_def split: if_splits)

lemma aggregate_risk_bounds_Inr:
  "aggregate_risk_bounds rs = Inr r \<Longrightarrow> risk_lower r \<le> risk_base r \<and> risk_base r \<le> risk_upper r"
  by (auto simp: aggregate_risk_bounds_def split: if_splits dest: mk_RiskBounds_Inr)

lemma risk_bounds_available:
  assumes "risk_bounds E d m as = Inr (b, reasons, ids)"
  shows "b = None \<longleftrightarrow> reasons \<noteq> []" "b = Some r \<Longrightarrow> risk_lower r \<le> risk_upper r"
  using assms unfolding risk_bounds_def bindE_Inr_conv Let_def
  by (auto simp: sort_key_Nil_iff bindE_Inr_conv simp del: concat_eq_Nil_conv
      dest!: aggregate_risk_bounds_Inr split: if_splits)

lemma preference_dimension_available:
  assumes "preference_dimension scores = Inr p"
  shows "p = None \<longleftrightarrow> scores = []"
    "p = Some b \<Longrightarrow> ratio_fraction (psb_conservative b) \<le> ratio_fraction (psb_optimistic b)"
  using assms
  by (auto simp: preference_dimension_def bindE_Inr_conv aggregate_preference_bounds_def
      mk_PreferenceScoreBounds_def split: if_splits)

lemma valid_cost_available:
  assumes "valid_cost c n = Inr (ok, reasons)"
  shows "ok \<longleftrightarrow> reasons = []"
    "reasons = [] \<Longrightarrow> \<exists>l b h cb. oc_low c = Some l \<and> oc_base c = Some b \<and> oc_high c = Some h \<and>
       mk_CostBounds l b h = Inr cb"
    "oc_low c = Some l \<Longrightarrow> oc_base c = Some b \<Longrightarrow> oc_high c = Some h \<Longrightarrow> \<exists>cb. mk_CostBounds l b h = Inr cb"
  using assms by (auto simp: valid_cost_def bindE_Inr_conv split: option.splits if_splits)

lemma coverage_criterion_ok:
  "coverage_criterion scores c = Inr cc \<Longrightarrow>
     1 \<le> cc_weight cc \<and> (conservative_covered cc \<longrightarrow> optimistic_covered cc)"
  by (auto simp: coverage_criterion_def mk_CoverageCriterion_def Let_def bindE_Inr_conv
      split: option.splits if_splits)

lemma coverage_and_age_ordered:
  assumes "coverage_and_age d m gates scores as = Inr (cov, age, hard, reasons)"
  shows "ratio_fraction (cov_conservative cov) \<le> ratio_fraction (cov_optimistic cov)"
    "ratio_fraction (age_lower age) \<le> ratio_fraction (age_upper age)"
proof -
  from assms obtain cs where
    cs: "mapE (coverage_criterion scores) (applicable_preferences d m) = Inr cs" and
    cov: "aggregate_coverage_bounds cs = Inr cov" and
    age: "aggregate_evidence_age_bounds (List.map_filter ea_age_bounds (material_assessments m scores as)) = Inr age"
    by (auto simp: coverage_and_age_def bindE_Inr_conv Let_def)
  have "\<forall>c \<in> set cs. 1 \<le> cc_weight c \<and> (conservative_covered c \<longrightarrow> optimistic_covered c)"
    using mapE_memR [OF cs] coverage_criterion_ok by blast
  then show "ratio_fraction (cov_conservative cov) \<le> ratio_fraction (cov_optimistic cov)"
    by (rule aggregate_coverage_bounds_ordered(2) [OF cov])
  show "ratio_fraction (age_lower age) \<le> ratio_fraction (age_upper age)"
    using age by (auto simp: aggregate_evidence_age_bounds_def mk_EvidenceAgeBounds_def split: if_splits)
qed

lemma mk_CostBounds_Inr:
  "mk_CostBounds l b h = Inr cb \<Longrightarrow>
     cb = \<lparr>cost_low = l, cost_base = b, cost_high = h\<rparr> \<and> amount_rat (amount l) \<le> amount_rat (amount h)"
  by (auto simp: mk_CostBounds_def split: if_splits)

text \<open>The parts from which the dimensions of a plan are put together.\<close>

lemma material_dimensions_parts:
  assumes "material_dimensions E d m gates as n k = Inr (scores, dims, ids)"
  obtains sr pref risk rr cov age hard er ok cr where
    "score_components E d m as = Inr (scores, sr)" "preference_dimension scores = Inr pref"
    "risk_bounds E d m as = Inr (risk, rr, ids)"
    "coverage_and_age d m gates scores as = Inr (cov, age, hard, er)"
    "valid_cost (pm_cost m) (pm_payment_component_count m) = Inr (ok, cr)"
    "pd_preference dims = pref" "pd_stack_risk dims = risk" "pd_total_cost dims = pm_cost m"
    "pd_decision_material_coverage dims = Some cov" "pd_maximum_evidence_age_ratio dims = Some age"
    "pd_bound_unavailable_reasons dims = sorted_set
       ((if scores \<noteq> [] then sr else sr @ [''BOUND_UNAVAILABLE:NO_APPLICABLE_PREFERENCE'']) @ rr @ er @ cr)"
proof -
  from assms obtain sr pref risk rr cov age hard er ok cr rh uc where
    a: "score_components E d m as = Inr (scores, sr)" "preference_dimension scores = Inr pref"
      "risk_bounds E d m as = Inr (risk, rr, ids)"
      "coverage_and_age d m gates scores as = Inr (cov, age, hard, er)"
      "valid_cost (pm_cost m) (pm_payment_component_count m) = Inr (ok, cr)" and
    dims: "dims = \<lparr>pd_preference = pref, pd_stack_risk = risk, pd_total_cost = pm_cost m,
      pd_decision_material_coverage = Some cov, pd_maximum_evidence_age_ratio = Some age,
      pd_hard_coverage = hard, pd_universe_coverage = uc,
      pd_unresolved_count = count_truth TruthValue.UNKNOWN gates,
      pd_conflicting_count = count_truth TruthValue.CONFLICT gates,
      pd_triggered_risk_rule_ids = ids, pd_risk_input_hash = rh,
      pd_bound_unavailable_reasons = sorted_set
        ((if scores \<noteq> [] then sr else sr @ [''BOUND_UNAVAILABLE:NO_APPLICABLE_PREFERENCE'']) @ rr @ er @ cr)\<rparr>"
    unfolding material_dimensions_def bindE_Inr_conv Let_def prod.case_eq_if by auto
  show ?thesis by (rule that [OF a]) (simp_all add: dims)
qed

text \<open>
  Bounds are available exactly if no reason says otherwise; computing them never raises, and
  available bounds are intervals.
\<close>

lemma material_dimensions_bounds:
  assumes "material_dimensions E d m gates as n k = Inr (scores, dims, ids)"
  obtains ob where "ordering_bounds dims = Inr ob" "ob = None \<longleftrightarrow> pd_bound_unavailable_reasons dims \<noteq> []"
    "\<And>b. ob = Some b \<Longrightarrow> ordering_ok b"
proof -
  obtain sr pref risk rr cov age hard er ok cr where
    p: "preference_dimension scores = Inr pref" "risk_bounds E d m as = Inr (risk, rr, ids)"
      "coverage_and_age d m gates scores as = Inr (cov, age, hard, er)"
      "valid_cost (pm_cost m) (pm_payment_component_count m) = Inr (ok, cr)" and
    dims: "pd_preference dims = pref" "pd_stack_risk dims = risk" "pd_total_cost dims = pm_cost m"
      "pd_decision_material_coverage dims = Some cov" "pd_maximum_evidence_age_ratio dims = Some age"
      "pd_bound_unavailable_reasons dims = sorted_set
         ((if scores \<noteq> [] then sr else sr @ [''BOUND_UNAVAILABLE:NO_APPLICABLE_PREFERENCE'']) @ rr @ er @ cr)"
    using material_dimensions_parts [OF assms] .
  show ?thesis
  proof (cases "pd_bound_unavailable_reasons dims = []")
    case False
    have "ordering_bounds dims = Inr None" using False by (simp add: ordering_bounds_def split: option.splits)
    then show ?thesis using that [of None] False by simp
  next
    case True
    then have none: "scores \<noteq> []" "rr = []" "cr = []" by (auto simp: dims(6) split: if_splits)
    from none(1) preference_dimension_available(1) [OF p(1)] obtain pb where pb: "pref = Some pb" by blast
    from none(2) risk_bounds_available(1) [OF p(2)] obtain rb where rb: "risk = Some rb" by blast
    from none(3) valid_cost_available(2) [OF p(4)] obtain l b h cb where
      c: "oc_low (pm_cost m) = Some l" "oc_base (pm_cost m) = Some b" "oc_high (pm_cost m) = Some h"
         "mk_CostBounds l b h = Inr cb" by blast
    let ?b = "\<lparr>preference = pb, stack_risk = rb, total_cost = cb, decision_material_coverage = cov,
      maximum_evidence_age_ratio = age\<rparr>"
    have ob: "ordering_bounds dims = Inr (Some ?b)" using True by (simp add: ordering_bounds_def dims pb rb c)
    have "ordering_ok ?b"
      using preference_dimension_available(2) [OF p(1) pb] risk_bounds_available(2) [OF p(2) rb]
        coverage_and_age_ordered [OF p(3)] mk_CostBounds_Inr [OF c(4)]
      by (simp add: ordering_ok_def)
    then show ?thesis using that [OF ob] True by simp
  qed
qed

end
