(* ===== verification/Plans.thy ===== *)
theory Plans
  imports Scoring
begin

text \<open>
  Construction of plans, \<^verbatim>\<open>src/python/decision_engine/graph_v1.py\<close> from \<^verbatim>\<open>_plan_id\<close> to
  \<^verbatim>\<open>build_solution_plans\<close>: field aggregation over a bundle, combined cost, the dependency closure
  of a pack, pack and current-stack material, and the evaluated plans. The element that
  \<^verbatim>\<open>next(iter(some_set))\<close> returns is not determined by the language; \<open>set_order\<close> holds the choice.
\<close>

record set_order =
  first_horizon :: "int list \<Rightarrow> int"
  first_currency :: "string list \<Rightarrow> string"

definition set_order_ok :: "set_order \<Rightarrow> bool" where
  "set_order_ok S \<longleftrightarrow>
     (\<forall>xs. xs \<noteq> [] \<longrightarrow> first_horizon S xs \<in> set xs) \<and> (\<forall>xs. xs \<noteq> [] \<longrightarrow> first_currency S xs \<in> set xs)"

definition plan_id :: "hash_env \<Rightarrow> SolutionAction \<Rightarrow> string list \<Rightarrow> string res" where
  "plan_id E action component_ids =
     (let payload = (case component_ids of
            [c] \<Rightarrow> dict_str [(''action'', PyStr (solution_action_value action)), (''component_id'', PyStr c)]
          | _ \<Rightarrow> dict_str [(''action'', PyStr (solution_action_value action)),
                           (''ordered_component_ids'', py_strs component_ids)])
      in bindE (hash_prefix E 20 payload) (\<lambda>h. Inr (''plan_'' @ h)))"

section \<open>Aggregating the facts of a bundle\<close>

definition fraction_value :: "rat \<Rightarrow> fact_value" where
  "fraction_value q =
     (case quotient_of q of (n, d) \<Rightarrow> if d = 1 then FInt n else FStr (show_int n @ ''/'' @ show_int d))"

fun bool_of :: "fact_value \<Rightarrow> bool" where
  "bool_of (FBool b) = b"
| "bool_of _ = False"

fun tuple_of :: "fact_value \<Rightarrow> string list" where
  "tuple_of (FTuple xs) = xs"
| "tuple_of _ = []"

text \<open>The value a criterion aggregates, \<open>None\<close> where the values are not of the kind it expects.\<close>

definition aggregated_value :: "string \<Rightarrow> fact_value list \<Rightarrow> fact_value option res" where
  "aggregated_value aggregation vs =
     (if aggregation \<in> {''SUM'', ''MIN'', ''MAX''}
      then if list_ex (\<lambda>v. numeric_text v = None) vs then Inr None
           else bindE (mapE parse_fraction (List.map_filter numeric_text vs)) (\<lambda>qs.
             if aggregation = ''SUM'' then Inr (Some (fraction_value (sum_list qs)))
             else if aggregation = ''MIN'' then bindE (min_by (\<lambda>q. q) qs) (\<lambda>q. Inr (Some (fraction_value q)))
             else bindE (max_by (\<lambda>q. q) qs) (\<lambda>q. Inr (Some (fraction_value q))))
      else if aggregation = ''UNION''
      then if list_ex (\<lambda>v. \<not> is_tuple v) vs then Inr None
           else Inr (Some (FTuple (sorted_set (concat (map tuple_of vs)))))
      else if aggregation \<in> {''ALL'', ''ANY''}
      then if list_ex (\<lambda>v. \<not> is_bool v) vs then Inr None
           else Inr (Some (FBool (if aggregation = ''ALL'' then list_all bool_of vs else list_ex bool_of vs)))
      else Inr None)"

definition aggregate_field ::
  "RawCandidateRecord list \<Rightarrow> string \<Rightarrow> PreferenceCriterion \<Rightarrow> ProductFact list res" where
  "aggregate_field records fld c =
     (let per_component = map (\<lambda>r. filter (\<lambda>f. pf_field f = fld) (rc_facts r)) records
      in if pc_aggregation c = ''PRIMARY_COMPONENT'' then Inr (last per_component)
         else if list_ex (\<lambda>facts. length facts \<noteq> 1) per_component then Inr (concat per_component)
         else
           let facts = map hd per_component
           in bindE (aggregated_value (pc_aggregation c) (map pf_value facts)) (\<lambda>agg.
                case agg of
                  None \<Rightarrow> Inr facts
                | Some v \<Rightarrow>
                    bindE (mk_ProductFact fld v (sorted_set (concat (map pf_evidence_ids facts)))
                        (Some (rc_product_id (last records)))) (\<lambda>f. Inr [f])))"

definition aggregate_preference_facts ::
  "DecisionGraphInput \<Rightarrow> RawCandidateRecord list \<Rightarrow> ProductFact list res" where
  "aggregate_preference_facts d records =
     (let raw_facts = concat (map rc_facts records)
      in if length records = 1 then Inr raw_facts
         else
           let by_field = dict_of (map (\<lambda>c. (pc_field c, c)) (di_preferences d));
               retained = filter (\<lambda>f. pf_field f \<notin> fst ` set by_field) raw_facts
           in bindE (mapE (\<lambda>(fld, c). aggregate_field records fld c) (sort_key fst by_field)) (\<lambda>added.
                Inr (retained @ concat added)))"

section \<open>Combined cost\<close>

definition cost_currencies :: "OfferCost list \<Rightarrow> string list" where
  "cost_currencies costs =
     sorted_set (map currency (concat (map (\<lambda>c. List.map_filter (\<lambda>x. x) [oc_low c, oc_base c, oc_high c]) costs)))"

definition cost_horizons :: "OfferCost list \<Rightarrow> int list" where
  "cost_horizons costs = sorted_set (map oc_horizon_days costs)"

definition bundle_total ::
  "nat \<Rightarrow> string \<Rightarrow> Money option list \<Rightarrow> Money option res" where
  "bundle_total record_count cur values =
     (if length values \<noteq> record_count \<or> None \<in> set values then Inr None
      else case foldl dec_add (0, 0) (map amount (List.map_filter (\<lambda>x. x) values)) of
             (c, e) \<Rightarrow> bindE (mk_Money (InDec (DFin c e)) cur) (\<lambda>m. Inr (Some m)))"

definition combined_cost ::
  "hash_env \<Rightarrow> set_order \<Rightarrow> RawCandidateRecord list \<Rightarrow> (string \<times> OfferCost) list \<Rightarrow>
     (OfferCost \<times> int \<times> string list) res" where
  "combined_cost E S records offers =
     (let costs = List.map_filter (\<lambda>r. map_of offers (rc_offer_id r)) records;
          missing = length costs \<noteq> length records
      in if length records = 1 \<and> length costs = 1
         then Inr (hd costs, of_bool (oc_payment_required (hd costs)), [])
         else
           let horizons = cost_horizons costs;
               currencies = cost_currencies costs;
               issues = (if missing then [''MISSING_REQUIRED_DEPENDENCY_OFFER''] else []) @
                 (if 1 < length horizons \<or> 1 < length currencies then [''INCOMPARABLE_DEPENDENCY_COST''] else []);
               horizon = (if horizons = [] then 1 else first_horizon S horizons);
               cur = (if currencies = [] then ''USD'' else first_currency S currencies);
               payment_count = int (length (filter oc_payment_required costs))
           in bindE (hash_prefix E 20 (py_strs (map oc_offer_id costs))) (\<lambda>h.
              bindE (bundle_total (length records) cur (map oc_low costs)) (\<lambda>low.
              bindE (bundle_total (length records) cur (map oc_base costs)) (\<lambda>base.
              bindE (bundle_total (length records) cur (map oc_high costs)) (\<lambda>high.
              bindE (mk_OfferCost
                \<lparr>oc_offer_id = ''bundle_'' @ h, oc_low = low, oc_base = base, oc_high = high,
                 oc_horizon_days = horizon, oc_line_items = concat (map oc_line_items costs),
                 oc_payment_required = 0 < payment_count\<rparr>) (\<lambda>cost.
                Inr (cost, payment_count, sort issues)))))))"

section \<open>Dependency closure\<close>

definition matches_of :: "RawCandidateRecord list \<Rightarrow> string \<Rightarrow> RawCandidateRecord list" where
  "matches_of reps pid = filter (\<lambda>r. rc_product_id r = pid) reps"

text \<open>
  \<open>visiting\<close> is the stack of products being visited, which the source restores on return; the
  closure state holds the records in completion order, the issues and the visited products.
\<close>

record closure_state =
  cl_ordered :: "RawCandidateRecord list"
  cl_issues :: "string list"
  cl_visited :: "string list"

definition add_issue :: "string \<Rightarrow> closure_state \<Rightarrow> closure_state" where
  "add_issue i st = st\<lparr>cl_issues := cl_issues st @ [i]\<rparr>"

definition open_products :: "RawCandidateRecord list \<Rightarrow> string list \<Rightarrow> nat" where
  "open_products reps visiting = card (rc_product_id ` set reps - set visiting)"

lemma open_products_less:
  "pid \<in> rc_product_id ` set reps \<Longrightarrow> pid \<notin> set visiting \<Longrightarrow>
     open_products reps (pid # visiting) < open_products reps visiting"
  unfolding open_products_def by (rule psubset_card_mono) auto

lemma open_products_same:
  "pid \<notin> rc_product_id ` set reps \<Longrightarrow> open_products reps (pid # visiting) = open_products reps visiting"
  unfolding open_products_def by (rule arg_cong [where f = card]) auto

lemma matches_of_mem: "m \<in> set (matches_of reps dep) \<Longrightarrow> m \<in> set reps \<and> rc_product_id m = dep"
  by (simp add: matches_of_def)

function visit :: "RawCandidateRecord list \<Rightarrow> string list \<Rightarrow> RawCandidateRecord \<Rightarrow> closure_state \<Rightarrow> closure_state"
  and visit_deps :: "RawCandidateRecord list \<Rightarrow> string list \<Rightarrow> string list \<Rightarrow> closure_state \<Rightarrow> closure_state"
where
  "visit reps visiting r st =
     (let pid = rc_product_id r in
      if pid \<in> set visiting then add_issue ''CYCLIC_COMPONENT_DEPENDENCY'' st
      else if pid \<in> set (cl_visited st) then st
      else let st' = visit_deps reps (pid # visiting) (rc_required_product_ids r) st
           in st'\<lparr>cl_visited := cl_visited st' @ [pid], cl_ordered := cl_ordered st' @ [r]\<rparr>)"
| "visit_deps reps visiting [] st = st"
| "visit_deps reps visiting (dep # deps) st =
     visit_deps reps visiting deps
       (case matches_of reps dep of
          [] \<Rightarrow> add_issue ''MISSING_REQUIRED_COMPONENT'' st
        | [m] \<Rightarrow> visit reps visiting m st
        | _ \<Rightarrow> add_issue ''AMBIGUOUS_REQUIRED_COMPONENT'' st)"
  by pat_completeness auto

termination
proof (relation "inv_image (less_than <*lex*> less_than)
    (\<lambda>x. case x of
       Inl (reps, visiting, r, st) \<Rightarrow>
         (2 * open_products reps visiting + (if rc_product_id r \<in> rc_product_id ` set reps then 0 else 2), 0)
     | Inr (reps, visiting, deps, st) \<Rightarrow> (2 * open_products reps visiting + 1, length deps))", goal_cases)
  case (2 reps visiting r st pid)
  then show ?case
    using open_products_less [of pid reps visiting] open_products_same [of pid reps visiting] by auto
next
  case (3 reps visiting dep deps st m ms)
  then have "m \<in> set reps" using matches_of_mem [of m reps dep] by simp
  then show ?case by auto
qed auto

definition dependency_closure :: "RawCandidateRecord list \<Rightarrow> RawCandidateRecord \<Rightarrow> RawCandidateRecord list \<times> string list" where
  "dependency_closure reps top_record =
     (let st = visit reps [] top_record \<lparr>cl_ordered = [], cl_issues = [], cl_visited = []\<rparr>
      in (cl_ordered st, sorted_set (cl_issues st)))"

section \<open>Plan material\<close>

function canonical_offer_chase :: "(string \<times> string) list \<Rightarrow> string list \<Rightarrow> string \<Rightarrow> string" where
  "canonical_offer_chase aliases visited current =
     (case map_of aliases current of
        None \<Rightarrow> current
      | Some nxt \<Rightarrow>
          if current \<in> set visited then current
          else canonical_offer_chase aliases (current # visited) nxt)"
  by pat_completeness auto

termination
proof (relation "measure (\<lambda>(al, vis, cur). card (dom (map_of al) - set vis))", goal_cases)
  case (2 al vis cur nxt)
  then have "dom (map_of al) - set (cur # vis) \<subset> dom (map_of al) - set vis" by auto
  then show ?case by (simp add: psubset_card_mono finite_dom_map_of)
qed simp

declare visit.simps [simp del] visit_deps.simps [simp del] canonical_offer_chase.simps [simp del]

definition canonical_offer :: "(string \<times> string) list \<Rightarrow> string \<Rightarrow> string" where
  "canonical_offer aliases v = canonical_offer_chase aliases [] (str_strip (str_lower v))"

definition landed_total :: "Money \<Rightarrow> string list \<Rightarrow> string \<Rightarrow> ProductFact res" where
  "landed_total base evidence pid =
     mk_ProductFact ''offer.landed_total'' (FStr (dec_str (fst (amount base)) (snd (amount base)))) evidence (Some pid)"

definition pack_material ::
  "hash_env \<Rightarrow> set_order \<Rightarrow> DecisionGraphInput \<Rightarrow> RawCandidateRecord list \<Rightarrow> (string \<times> OfferCost) list \<Rightarrow>
     RawCandidateRecord \<Rightarrow> PlanMaterial res" where
  "pack_material E S d reps offers top_record =
     (case dependency_closure reps top_record of (records, dependency_issues) \<Rightarrow>
      bindE (combined_cost E S records offers) (\<lambda>(cost, payment_count, cost_issues).
        let raw_facts = concat (map rc_facts records);
            cost_evidence = sorted_set (concat (map pf_evidence_ids
              (filter (\<lambda>f. pf_field f = ''offer.landed_total'') raw_facts)));
            non_cost = filter (\<lambda>f. pf_field f \<noteq> ''offer.landed_total'') raw_facts
        in bindE (case oc_base cost of None \<Rightarrow> Inr []
                  | Some base \<Rightarrow> mapE (\<lambda>r. landed_total base cost_evidence (rc_product_id r)) records) (\<lambda>cost_facts.
           bindE (aggregate_preference_facts d records) (\<lambda>pref_facts.
           bindE (case oc_base cost of None \<Rightarrow> Inr []
                  | Some base \<Rightarrow> bindE (landed_total base cost_evidence (rc_product_id top_record)) (\<lambda>f. Inr [f])) (\<lambda>root_fact.
           bindE (authority_floor records) (\<lambda>auth.
             Inr \<lparr>pm_source_id = rc_record_id top_record, pm_action = REPLACE, pm_component_id = rc_product_id top_record,
                  pm_component_ids = map rc_product_id records,
                  pm_facts = filter (\<lambda>f. pf_field f \<noteq> ''offer.landed_total'') pref_facts @ root_fact,
                  pm_gate_facts = non_cost @ cost_facts,
                  pm_cost = cost, pm_payment_component_count = payment_count,
                  pm_available = list_all rc_available records, pm_authority = Some auth,
                  pm_seller_gate_ids = sorted_set (concat (map rc_seller_gate_ids records)),
                  pm_permitted_resolution = None, pm_outcome_subject_id = rc_product_id top_record,
                  pm_dependency_issues = sorted_set (dependency_issues @ cost_issues)\<rparr>))))))"

definition pack_materials ::
  "hash_env \<Rightarrow> set_order \<Rightarrow> DecisionGraphInput \<Rightarrow> RecallResult \<Rightarrow> PlanMaterial list res" where
  "pack_materials E S d recall =
     (let aliases = alias_map d;
          offers = dict_of (map (\<lambda>o1. (canonical_offer aliases (oc_offer_id o1), o1)) (di_offers d))
      in bindE (mapE (\<lambda>r. mk_RawCandidateRecord (r\<lparr>rc_offer_id := canonical_offer aliases (rc_offer_id r)\<rparr>))
             (rr_representatives recall)) (\<lambda>reps.
           mapE (pack_material E S d reps offers) reps))"

definition current_material :: "CurrentActionRecord \<Rightarrow> PlanMaterial" where
  "current_material a =
     \<lparr>pm_source_id = ca_action_id a, pm_action = ca_action a, pm_component_id = ca_instance_id a,
      pm_component_ids = [ca_instance_id a], pm_facts = ca_facts a, pm_gate_facts = ca_facts a,
      pm_cost = ca_cost a, pm_payment_component_count = 0, pm_available = ca_available a,
      pm_authority = None, pm_seller_gate_ids = [], pm_permitted_resolution = ca_permitted_resolution a,
      pm_outcome_subject_id =
        (if ca_action a = CANCEL then ''cancelled_'' @ ca_instance_id a else ca_instance_id a),
      pm_dependency_issues = []\<rparr>"

section \<open>Evaluated plans\<close>

definition eligible_status :: "CandidateStatus \<Rightarrow> bool" where
  "eligible_status s \<longleftrightarrow> s \<in> {ELIGIBLE, ELIGIBLE_WITH_EXCEPTION}"

definition permitted_resolution_of :: "PlanMaterial \<Rightarrow> GateResult list \<Rightarrow> string option" where
  "permitted_resolution_of m gates =
     (let rs = sorted_set (List.map_filter gt_permitted_resolution (filter (\<lambda>g. gt_reasons g \<noteq> []) gates))
      in case rs of
           [r] \<Rightarrow> Some r
         | _ \<Rightarrow> if str_join ''+'' rs \<noteq> [] then Some (str_join ''+'' rs) else pm_permitted_resolution m)"

definition plan_lifecycle ::
  "CandidateStatus \<Rightarrow> OrderingBounds option \<Rightarrow> string option \<Rightarrow> PlanLifecycle" where
  "plan_lifecycle status bounds resolution =
     (if eligible_status status then (if bounds \<noteq> None then EXECUTABLE else BLOCKED)
      else if status \<in> {CONDITIONAL, STALE_EVIDENCE, INSUFFICIENT_EVIDENCE, ADVISORY_ONLY} \<and>
              resolution \<noteq> None \<and> resolution \<noteq> Some []
      then RESOLUTION_PENDING
      else BLOCKED)"

definition build_plan ::
  "hash_env \<Rightarrow> DecisionGraphInput \<Rightarrow> EvidenceAssessment list \<Rightarrow> int \<Rightarrow> int \<Rightarrow> PlanMaterial \<Rightarrow> EvaluatedPlan res" where
  "build_plan E d as evaluated_count discovered_count m =
     bindE (evaluate_gates E d m as) (\<lambda>gates.
     case primary_status gates of (status, primary_reason) \<Rightarrow>
     bindE (material_dimensions E d m gates as evaluated_count discovered_count) (\<lambda>(scores, dims, _).
     bindE (content_hash E (dict_str [(''action'', PyStr (solution_action_value (pm_action m))),
        (''ordered_component_ids'', py_strs (pm_component_ids m))])) (\<lambda>component_hash.
     bindE (ordering_bounds dims) (\<lambda>bounds.
     bindE (plan_id E (pm_action m) (pm_component_ids m)) (\<lambda>pid.
       let resolution = permitted_resolution_of m gates
       in Inr \<lparr>pl_plan_id = pid, pl_action = pm_action m,
          pl_components = map (\<lambda>c. \<lparr>plc_component_id = c,
            plc_source_type = (if pm_authority m \<noteq> None then ''PACK'' else ''CURRENT_INSTANCE''),
            plc_action = pm_action m\<rparr>) (pm_component_ids m),
          pl_component_hash = component_hash, pl_construction_lifecycle = CANDIDATE,
          pl_lifecycle = plan_lifecycle status bounds resolution, pl_status = status,
          pl_primary_reason = primary_reason, pl_gate_results = gates, pl_score_components = scores,
          pl_dimensions = dims,
          pl_stable_action_ids = str_lower (solution_action_value (pm_action m)) # pm_component_ids m,
          pl_ordering_frontier_member = False, pl_resolution_frontier_member = False,
          pl_quote_required = False, pl_quote_policy_reason = ''NONE'',
          pl_permitted_resolution = resolution, pl_autonomous_execution_allowed = False\<rparr>)))))"

definition build_solution_plans ::
  "hash_env \<Rightarrow> set_order \<Rightarrow> DecisionGraphInput \<Rightarrow> RecallResult \<Rightarrow> EvidenceAssessment list \<Rightarrow> EvaluatedPlan list res" where
  "build_solution_plans E S d recall as =
     bindE (pack_materials E S d recall) (\<lambda>packs.
       let materials = packs @ map current_material (di_current_actions d);
           evaluated_count = int (length materials);
           discovered_count = evaluated_count + int (length (rr_exclusions recall))
       in mapE (build_plan E d as evaluated_count discovered_count)
            (sort_key (\<lambda>m. (solution_action_value (pm_action m), pm_component_id m, pm_source_id m)) materials))"

section \<open>Lemmas: the closure is a dependency order\<close>

definition deps_before :: "RawCandidateRecord list \<Rightarrow> bool" where
  "deps_before xs \<longleftrightarrow>
     (\<forall>i < length xs. set (rc_required_product_ids (xs ! i)) \<subseteq> rc_product_id ` set (take i xs))"

lemma deps_before_snoc:
  "deps_before (xs @ [r]) \<longleftrightarrow> deps_before xs \<and> set (rc_required_product_ids r) \<subseteq> rc_product_id ` set xs"
  by (auto simp: deps_before_def nth_append less_Suc_eq)

definition closure_inv :: "RawCandidateRecord list \<Rightarrow> string list \<Rightarrow> closure_state \<Rightarrow> bool" where
  "closure_inv reps visiting st \<longleftrightarrow>
     cl_visited st = map rc_product_id (cl_ordered st) \<and> distinct (cl_visited st) \<and>
     set (cl_ordered st) \<subseteq> set reps \<and> set visiting \<inter> set (cl_visited st) = {} \<and>
     (cl_issues st = [] \<longrightarrow> deps_before (cl_ordered st))"

text \<open>One state extends another: records and issues are only ever appended.\<close>

definition extends :: "closure_state \<Rightarrow> closure_state \<Rightarrow> bool" where
  "extends st st' \<longleftrightarrow> (\<exists>xs is. cl_ordered st' = cl_ordered st @ xs \<and> cl_issues st' = cl_issues st @ is)"

lemma extends_refl [simp]: "extends st st"
  by (simp add: extends_def)

lemma extends_trans: "extends a b \<Longrightarrow> extends b c \<Longrightarrow> extends a c"
  by (auto simp: extends_def)

lemma add_issue_simps [simp]:
  "cl_ordered (add_issue i st) = cl_ordered st" "cl_visited (add_issue i st) = cl_visited st"
  "cl_issues (add_issue i st) \<noteq> []" "extends st (add_issue i st)"
  by (simp_all add: add_issue_def extends_def)

lemma closure_inv_add_issue: "closure_inv reps visiting st \<Longrightarrow> closure_inv reps visiting (add_issue i st)"
  by (auto simp: closure_inv_def)

lemma visit_invariant:
  "r \<in> set reps \<Longrightarrow> closure_inv reps visiting st \<Longrightarrow>
     closure_inv reps visiting (visit reps visiting r st) \<and> extends st (visit reps visiting r st) \<and>
     (cl_issues (visit reps visiting r st) = [] \<longrightarrow> rc_product_id r \<in> set (cl_visited (visit reps visiting r st)))"
  "closure_inv reps visiting st \<Longrightarrow>
     closure_inv reps visiting (visit_deps reps visiting deps st) \<and> extends st (visit_deps reps visiting deps st) \<and>
     (cl_issues (visit_deps reps visiting deps st) = [] \<longrightarrow>
        set deps \<subseteq> set (cl_visited (visit_deps reps visiting deps st)))"
proof (induction reps visiting r st and reps visiting deps st rule: visit_visit_deps.induct)
  case (1 reps visiting r st)
  let ?pid = "rc_product_id r"
  let ?st = "visit_deps reps (?pid # visiting) (rc_required_product_ids r) st"
  show ?case
  proof (cases "?pid \<in> set visiting \<or> ?pid \<in> set (cl_visited st)")
    case True
    then show ?thesis using "1.prems" by (auto simp: visit.simps Let_def closure_inv_add_issue)
  next
    case False
    then have "closure_inv reps (?pid # visiting) st" using "1.prems"(2) by (auto simp: closure_inv_def)
    with "1.IH" False have IH: "closure_inv reps (?pid # visiting) ?st" "extends st ?st"
      "cl_issues ?st = [] \<Longrightarrow> set (rc_required_product_ids r) \<subseteq> set (cl_visited ?st)" by auto
    from IH(1) have v: "cl_visited ?st = map rc_product_id (cl_ordered ?st)" by (simp add: closure_inv_def)
    have res: "visit reps visiting r st =
        ?st\<lparr>cl_visited := cl_visited ?st @ [?pid], cl_ordered := cl_ordered ?st @ [r]\<rparr>"
      using False by (simp add: visit.simps [of reps visiting r st] Let_def)
    have "closure_inv reps visiting (visit reps visiting r st)"
      using IH(1,3) False "1.prems"(1) v by (auto simp: res closure_inv_def deps_before_snoc)
    moreover have "extends st (visit reps visiting r st)"
      using IH(2) by (auto simp: res extends_def)
    ultimately show ?thesis by (simp add: res)
  qed
next
  case (2 reps visiting st)
  then show ?case by (simp add: visit_deps.simps)
next
  case (3 reps visiting dep deps st)
  let ?mid = "case matches_of reps dep of
      [] \<Rightarrow> add_issue ''MISSING_REQUIRED_COMPONENT'' st | [m] \<Rightarrow> visit reps visiting m st
    | _ \<Rightarrow> add_issue ''AMBIGUOUS_REQUIRED_COMPONENT'' st"
  let ?st = "visit_deps reps visiting deps ?mid"
  have eq: "visit_deps reps visiting (dep # deps) st = ?st" by (simp only: visit_deps.simps)
  have mid: "closure_inv reps visiting ?mid" "extends st ?mid"
    "cl_issues ?mid = [] \<Longrightarrow> dep \<in> set (cl_visited ?mid)"
    using "3.IH"(1) "3.prems" matches_of_mem [of _ reps dep]
    by (auto simp: closure_inv_add_issue split: list.splits)
  from "3.IH"(2) [OF mid(1)] have st: "closure_inv reps visiting ?st" "extends ?mid ?st"
    "cl_issues ?st = [] \<Longrightarrow> set deps \<subseteq> set (cl_visited ?st)" by auto
  have "cl_issues ?st = [] \<Longrightarrow> cl_issues ?mid = []" using st(2) by (auto simp: extends_def)
  moreover have "set (cl_visited ?mid) \<subseteq> set (cl_visited ?st)"
    using st(1,2) mid(1) by (auto simp: extends_def closure_inv_def)
  ultimately show ?case
    unfolding eq using st mid extends_trans [OF mid(2) st(2)] by auto
qed

lemma closure_order:
  assumes "dependency_closure reps r = (records, issues)" "r \<in> set reps"
  shows "distinct (map rc_product_id records)" "set records \<subseteq> set reps" "records \<noteq> []" "last records = r"
    "issues = [] \<Longrightarrow> deps_before records"
proof -
  let ?init = "\<lparr>cl_ordered = [], cl_issues = [], cl_visited = []\<rparr>"
  let ?st = "visit reps [] r ?init"
  have "closure_inv reps [] ?init" by (simp add: closure_inv_def deps_before_def)
  from visit_invariant(1) [OF assms(2) this] have inv: "closure_inv reps [] ?st" by blast
  have res: "records = cl_ordered ?st" "issues = sorted_set (cl_issues ?st)"
    using assms(1) by (auto simp: dependency_closure_def Let_def)
  show "distinct (map rc_product_id records)" "set records \<subseteq> set reps" "issues = [] \<Longrightarrow> deps_before records"
    using inv by (auto simp: res closure_inv_def)
  show "records \<noteq> []" "last records = r" by (simp_all add: res visit.simps Let_def)
qed

section \<open>Lemmas: bundle totals are exact\<close>

lemma dec_add_cents:
  assumes "0 \<le> fst x" "-2 \<le> snd x" "0 \<le> fst y" "-2 \<le> snd y" "cents x + cents y < 10 ^ dec_prec"
  shows "0 \<le> fst (dec_add x y)" "-2 \<le> snd (dec_add x y)" "cents (dec_add x y) = cents x + cents y"
proof -
  define m where "m = min (snd x) (snd y)"
  define s where "s = dec_align (fst x) (snd x) m + dec_align (fst y) (snd y) m"
  have m: "-2 \<le> m" "m \<le> snd x" "m \<le> snd y" using assms by (auto simp: m_def)
  have al: "dec_align c e m * 10 ^ nat (m + 2) = c * 10 ^ nat (e + 2)" if "m \<le> e" for c e
  proof -
    have "nat (e - m) + nat (m + 2) = nat (e + 2)" using that m(1) by linarith
    then show ?thesis by (simp add: dec_align_def mult.assoc flip: power_add)
  qed
  have sum: "s * 10 ^ nat (m + 2) = cents x + cents y"
    using al m by (simp add: s_def cents_def distrib_right)
  have s0: "0 \<le> s" using assms by (simp add: s_def dec_align_def)
  have "s * 1 \<le> s * 10 ^ nat (m + 2)" using s0 by (intro mult_left_mono) auto
  then have "s < 10 ^ dec_prec" using sum assms(5) by linarith
  then have "ndigits (nat \<bar>s\<bar>) \<le> dec_prec" using s0 by (simp add: ndigits_le_iff dec_prec_def nat_less_iff)
  then have "dec_add x y = (s, m)"
    by (simp add: dec_add_def Let_def m_def [symmetric] s_def [symmetric] dec_fix_exact)
  then show "0 \<le> fst (dec_add x y)" "-2 \<le> snd (dec_add x y)" "cents (dec_add x y) = cents x + cents y"
    using s0 m(1) sum by (simp_all add: cents_def)
qed

lemma sum_list_cents_nonneg: "\<forall>a \<in> set as. amount_ok a \<Longrightarrow> 0 \<le> sum_list (map cents as)"
  using cents_bounds by (induction as) fastforce+

lemma foldl_dec_add_cents:
  assumes "0 \<le> fst acc" "-2 \<le> snd acc" "\<forall>a \<in> set as. amount_ok a"
    "cents acc + sum_list (map cents as) < 10 ^ dec_prec"
  shows "-2 \<le> snd (foldl dec_add acc as) \<and> cents (foldl dec_add acc as) = cents acc + sum_list (map cents as)"
  using assms
proof (induction as arbitrary: acc)
  case (Cons a as)
  then have a: "0 \<le> fst a" "-2 \<le> snd a" by (auto simp: amount_ok_def)
  have "0 \<le> sum_list (map cents as)" using Cons.prems(3) by (intro sum_list_cents_nonneg) auto
  then have "cents acc + cents a < 10 ^ dec_prec" using Cons.prems(4) by simp
  note step = dec_add_cents [OF Cons.prems(1,2) a this]
  show ?case using Cons.IH [OF step(1,2)] Cons.prems step(3) by simp
qed simp

lemma map_filter_all_Some: "None \<notin> set vs \<Longrightarrow> List.map_filter (\<lambda>x. x) vs = map the vs"
  by (induction vs) (auto simp: List.map_filter_simps split: option.splits, metis option.exhaust)

lemma bundle_total_exact:
  assumes "bundle_total n cur vs = Inr (Some m)" "\<forall>v \<in> set vs. \<exists>x. v = Some x \<and> money_ok x"
    "sum_list (map (\<lambda>v. cents (amount (the v))) vs) < 10 ^ dec_prec"
  shows "cents (amount m) = sum_list (map (\<lambda>v. cents (amount (the v))) vs)" "length vs = n"
proof -
  have none: "None \<notin> set vs" using assms(2) by auto
  obtain c e where ce: "foldl dec_add (0, 0) (map amount (map the vs)) = (c, e)" by fastforce
  have chk: "check_amount (DFin c e) = Inr (amount m)" "length vs = n"
    using assms(1) ce none
    by (auto simp: bundle_total_def map_filter_all_Some bindE_Inr_conv mk_Money_def coerce_decimal_def Let_def
        split: if_splits)
  have "-2 \<le> e \<and> cents (c, e) = sum_list (map (\<lambda>v. cents (amount (the v))) vs)"
    using foldl_dec_add_cents [of "(0, 0)" "map amount (map the vs)"] assms(2,3) ce
    by (force simp: cents_def [of "(0, 0)"] money_ok_def o_def)
  then have e: "-2 \<le> e" and sum: "cents (c, e) = sum_list (map (\<lambda>v. cents (amount (the v))) vs)" by auto
  have "dec_rat (cents (c, e)) (-2) = dec_rat c e"
    using e dec_rat_pow [of "-2" e c] by (simp add: cents_def)
  also have "\<dots> = dec_rat (cents (amount m)) (-2)"
    using check_amount_Inr [OF chk(1)] cents_rat by metis
  finally have "cents (c, e) = cents (amount m)" by (simp add: dec_rat_def)
  then show "cents (amount m) = sum_list (map (\<lambda>v. cents (amount (the v))) vs)" using sum by simp
  show "length vs = n" by (rule chk(2))
qed

section \<open>Lemmas: lifecycle\<close>

text \<open>An applicable gate lets a plan pass if it is clear, or if its blocked status is itself an eligible one
  (\<^verbatim>\<open>ELIGIBLE_WITH_EXCEPTION\<close>) and its predicates could be tested.\<close>

definition gate_passes ::
  "hash_env \<Rightarrow> GateRule \<Rightarrow> PlanMaterial \<Rightarrow> (string \<times> fact_value) list \<Rightarrow> assessment_index \<Rightarrow> bool" where
  "gate_passes E g m bv idx \<longleftrightarrow> gate_clear E g m bv idx \<or>
     eligible_status (gr_blocked_status g) \<and> (\<forall>p \<in> set (gr_predicates g). predicate_values E g m bv idx p \<noteq> None)"

lemma predicate_outcome_statuses:
  assumes "predicate_outcome E g m bv idx p = Inr (ts, rs)" "r \<in> set rs"
  shows "\<not> eligible_status (gn_status r)"
  using assms by (auto simp: predicate_outcome_def bindE_Inr_conv Let_def eligible_status_def split: if_splits option.splits)

lemma evaluate_gate_passes:
  assumes "evaluate_gate E g m bv idx = Inr res"
  shows "(\<forall>r \<in> set (gt_reasons res). eligible_status (gn_status r)) \<longleftrightarrow> gate_passes E g m bv idx"
proof (cases "eligible_status (gr_blocked_status g)")
  case False
  then have "\<not> eligible_status (gn_status r)" if "r \<in> set (gt_reasons res)" for r
    using evaluate_gate_statuses [OF assms that] by (auto simp: eligible_status_def)
  then have "(\<forall>r \<in> set (gt_reasons res). eligible_status (gn_status r)) \<longleftrightarrow> gt_reasons res = []"
    by (cases "gt_reasons res") auto
  then show ?thesis using False evaluate_gate_clear(1) [OF assms] by (simp add: gate_passes_def)
next
  case True
  let ?known = "\<forall>p \<in> set (gr_predicates g). predicate_values E g m bv idx p \<noteq> None"
  from assms obtain os where os: "mapE (predicate_outcome E g m bv idx) (gr_predicates g) = Inr os"
    by (auto simp: evaluate_gate_def bindE_Inr_conv)
  have "gr_blocked_status g \<noteq> SEIL_PASS" using True by (auto simp: eligible_status_def)
  then have "seller_evidence g idx = ([], [])" by (simp add: seller_evidence_def)
  with assms os have "gt_reasons res = sort_key reason_key (remdups (concat (map snd os) @ snd (gate_verdict g (concat (map fst os)))))"
    by (simp add: evaluate_gate_def Let_def) (metis GateResult.select_convs(3))
  then have res: "set (gt_reasons res) = set (concat (map snd os)) \<union> set (snd (gate_verdict g (concat (map fst os))))" by simp
  have verdict: "eligible_status (gn_status r)" if "r \<in> set (snd (gate_verdict g sts))" for r sts
    using that True by (auto simp: gate_verdict_def split: if_splits)
  have "(\<forall>r \<in> set (gt_reasons res). eligible_status (gn_status r)) \<longleftrightarrow> (\<forall>o1 \<in> set os. snd o1 = [])"
  proof
    assume all: "\<forall>r \<in> set (gt_reasons res). eligible_status (gn_status r)"
    show "\<forall>o1 \<in> set os. snd o1 = []"
    proof
      fix o1 assume o1: "o1 \<in> set os"
      then obtain p where p: "predicate_outcome E g m bv idx p = Inr (fst o1, snd o1)" using mapE_memR [OF os] by fastforce
      have "r \<notin> set (snd o1)" for r
        using predicate_outcome_statuses [OF p, of r] all o1 unfolding res by auto
      then show "snd o1 = []" by (cases "snd o1") auto
    qed
  next
    assume "\<forall>o1 \<in> set os. snd o1 = []"
    then show "\<forall>r \<in> set (gt_reasons res). eligible_status (gn_status r)" unfolding res using verdict by auto
  qed
  also have "\<dots> \<longleftrightarrow> ?known"
  proof
    assume none: "\<forall>o1 \<in> set os. snd o1 = []"
    show ?known
    proof
      fix p assume "p \<in> set (gr_predicates g)"
      then obtain o1 where "o1 \<in> set os" "predicate_outcome E g m bv idx p = Inr (fst o1, snd o1)" using mapE_memL [OF os] by fastforce
      then show "predicate_values E g m bv idx p \<noteq> None" using predicate_outcome_spec(1) none by blast
    qed
  next
    assume known: ?known
    show "\<forall>o1 \<in> set os. snd o1 = []"
    proof
      fix o1 assume "o1 \<in> set os"
      then obtain p where "p \<in> set (gr_predicates g)" "predicate_outcome E g m bv idx p = Inr (fst o1, snd o1)"
        using mapE_memR [OF os] by fastforce
      then show "snd o1 = []" using predicate_outcome_spec(2) known by blast
    qed
  qed
  finally show ?thesis using True by (auto simp: gate_passes_def gate_clear_def)
qed

text \<open>The primary status is an eligible one exactly if every reason has an eligible status.\<close>

lemma rank_eligible: "precedence_rank s \<le> precedence_rank t \<Longrightarrow> eligible_status s \<Longrightarrow> eligible_status t"
  by (cases s; cases t) (simp_all add: eligible_status_def precedence_rank_def status_precedence_def)

lemma primary_status_eligible:
  "eligible_status (fst (primary_status gs)) \<longleftrightarrow> (\<forall>g \<in> set gs. \<forall>r \<in> set (gt_reasons g). eligible_status (gn_status r))"
proof (cases "snd (primary_status gs)")
  case None
  then have "fst (primary_status gs) = ELIGIBLE" by (auto simp: primary_status_def split: sum.splits)
  then show ?thesis using None primary_status_None [of gs] by (simp add: eligible_status_def)
next
  case (Some r)
  then have "primary_status gs = (fst (primary_status gs), Some r)" by (metis prod.collapse)
  note least = primary_status_least [OF this]
  show ?thesis using least(1,2) least(3) [THEN rank_eligible] by metis
qed

lemma evaluate_gates_passes:
  assumes "evaluate_gates E d m as = Inr gs"
  shows "eligible_status (fst (primary_status gs)) \<longleftrightarrow>
    pm_available m \<and> pm_dependency_issues m = [] \<and> pm_authority m \<in> {None, Some SELLER_SEALED} \<and>
    (\<forall>g \<in> set (di_gates d). gate_applies g m (active_source_ids d) \<longrightarrow>
       gate_passes E g m (buyer_value_map d) (index_assessments as))"
proof -
  let ?el = "\<lambda>g. \<forall>r \<in> set (gt_reasons g). eligible_status (gn_status r)"
  obtain rules where
    rules: "mapE (\<lambda>g. evaluate_gate E g m (buyer_value_map d) (index_assessments as)) (applicable_gates d m) = Inr rules"
    and gs: "set gs = {availability_gate m} \<union> set (dependency_gates m) \<union> set_option (authority_gate m) \<union> set rules"
    using evaluate_gates_parts [OF assms] .
  have app: "g \<in> set (applicable_gates d m) \<longleftrightarrow> g \<in> set (di_gates d) \<and> gate_applies g m (active_source_ids d)" for g
    by (simp add: applicable_gates_def)
  have rule: "(\<forall>r \<in> set rules. ?el r) \<longleftrightarrow>
      (\<forall>g \<in> set (applicable_gates d m). gate_passes E g m (buyer_value_map d) (index_assessments as))"
    using mapE_memL [OF rules] mapE_memR [OF rules] evaluate_gate_passes by metis
  have builtin: "?el (availability_gate m) \<longleftrightarrow> pm_available m"
    "(\<forall>g \<in> set_option (authority_gate m). ?el g) \<longleftrightarrow> pm_authority m \<in> {None, Some SELLER_SEALED}"
    by (auto simp: availability_gate_def authority_gate_def eligible_status_def)
  moreover have "(\<forall>g \<in> set (dependency_gates m). ?el g) \<longleftrightarrow> pm_dependency_issues m = []"
    by (cases "pm_dependency_issues m") (auto simp: dependency_gates_def eligible_status_def)
  ultimately show ?thesis unfolding primary_status_eligible gs using app rule by (simp add: ball_Un) blast
qed

lemma build_plan_parts:
  assumes "build_plan E d as n k m = Inr p"
  obtains gates scores dims ids bounds where
    "evaluate_gates E d m as = Inr gates" "material_dimensions E d m gates as n k = Inr (scores, dims, ids)"
    "ordering_bounds dims = Inr bounds" "pl_status p = fst (primary_status gates)"
    "pl_primary_reason p = snd (primary_status gates)" "pl_gate_results p = gates" "pl_dimensions p = dims"
    "pl_lifecycle p = plan_lifecycle (pl_status p) bounds (pl_permitted_resolution p)"
    "pl_stable_action_ids p = str_lower (solution_action_value (pm_action m)) # pm_component_ids m"
    "pl_action p = pm_action m" "plan_id E (pm_action m) (pm_component_ids m) = Inr (pl_plan_id p)"
proof -
  from assms obtain gates where g: "evaluate_gates E d m as = Inr gates"
    by (auto simp: build_plan_def bindE_Inr_conv)
  from assms g obtain scores dims ids where dm: "material_dimensions E d m gates as n k = Inr (scores, dims, ids)"
    by (auto simp: build_plan_def bindE_Inr_conv split: prod.splits)
  from assms g dm obtain bounds where ob: "ordering_bounds dims = Inr bounds"
    by (auto simp: build_plan_def bindE_Inr_conv split: prod.splits)
  show ?thesis
    by (rule that [OF g dm ob]) (use assms g dm ob in \<open>auto simp: build_plan_def bindE_Inr_conv Let_def split: prod.splits\<close>)
qed

lemma build_plan_executable:
  assumes "build_plan E d as n k m = Inr p"
  shows "pl_lifecycle p = EXECUTABLE \<longleftrightarrow>
    pm_available m \<and> pm_dependency_issues m = [] \<and> pm_authority m \<in> {None, Some SELLER_SEALED} \<and>
    (\<forall>g \<in> set (di_gates d). gate_applies g m (active_source_ids d) \<longrightarrow>
       gate_passes E g m (buyer_value_map d) (index_assessments as)) \<and>
    pd_bound_unavailable_reasons (pl_dimensions p) = []"
proof -
  obtain gates scores dims ids bounds where
    g: "evaluate_gates E d m as = Inr gates" and
    dm: "material_dimensions E d m gates as n k = Inr (scores, dims, ids)" and
    ob: "ordering_bounds dims = Inr bounds" and
    p: "pl_status p = fst (primary_status gates)" "pl_dimensions p = dims"
      "pl_lifecycle p = plan_lifecycle (pl_status p) bounds (pl_permitted_resolution p)"
    using build_plan_parts [OF assms(1)] .
  have "bounds = None \<longleftrightarrow> pd_bound_unavailable_reasons dims \<noteq> []"
    using material_dimensions_bounds [OF dm] ob by (metis sum.inject(2))
  then have "pl_lifecycle p = EXECUTABLE \<longleftrightarrow>
      eligible_status (fst (primary_status gates)) \<and> pd_bound_unavailable_reasons dims = []"
    unfolding p by (auto simp: plan_lifecycle_def)
  then show "pl_lifecycle p = EXECUTABLE \<longleftrightarrow>
    pm_available m \<and> pm_dependency_issues m = [] \<and> pm_authority m \<in> {None, Some SELLER_SEALED} \<and>
    (\<forall>g \<in> set (di_gates d). gate_applies g m (active_source_ids d) \<longrightarrow>
       gate_passes E g m (buyer_value_map d) (index_assessments as)) \<and>
    pd_bound_unavailable_reasons (pl_dimensions p) = []"
    unfolding evaluate_gates_passes [OF g] p(2) by blast
qed

end
