(* ===== verification/Payloads.thy ===== *)
theory Payloads
  imports Plans
begin

text \<open>
  The canonical payloads of \<^verbatim>\<open>src/python/decision_engine/graph_v1.py\<close>: dataclasses as the field
  dictionaries that \<^verbatim>\<open>content_hash\<close> normalises, \<^verbatim>\<open>_canonical_plan\<close>,
  \<^verbatim>\<open>evaluation_canonical_payload\<close>, \<^verbatim>\<open>_frozen_input_hashes\<close> and \<^verbatim>\<open>_counterfactual_payload\<close>.
\<close>

section \<open>Dataclasses as values\<close>

fun gate_mode_value :: "GateMode \<Rightarrow> string" where
  "gate_mode_value REQUIRE_MATCH = ''REQUIRE_MATCH''"
| "gate_mode_value BLOCK_ON_MATCH = ''BLOCK_ON_MATCH''"

fun normalization_kind_value :: "NormalizationKind \<Rightarrow> string" where
  "normalization_kind_value BOOLEAN_EQUALS = ''BOOLEAN_EQUALS''"
| "normalization_kind_value SET_CONTAINS_ALL = ''SET_CONTAINS_ALL''"
| "normalization_kind_value LOWER_IS_BETTER = ''LOWER_IS_BETTER''"
| "normalization_kind_value OUTCOME_RATE = ''OUTCOME_RATE''"

definition py_ratio :: "ExactRatio \<Rightarrow> pyval" where
  "py_ratio r = PyObj [(''numerator'', PyInt (numerator r)), (''denominator'', PyInt (denominator r))]"

definition py_versions :: "FrozenVersions \<Rightarrow> pyval" where
  "py_versions v = PyObj (map (\<lambda>(k, x). (k, PyStr x)) (versions_list v))"

definition py_fact :: "ProductFact \<Rightarrow> pyval" where
  "py_fact f = PyObj
     [(''field'', PyStr (pf_field f)), (''value'', py_fact_value (pf_value f)),
      (''evidence_ids'', py_strs (pf_evidence_ids f)), (''component_id'', py_opt PyStr (pf_component_id f))]"

definition py_candidate :: "RawCandidateRecord \<Rightarrow> pyval" where
  "py_candidate r = PyObj
     [(''record_id'', PyStr (rc_record_id r)), (''pack_id'', PyStr (rc_pack_id r)),
      (''pack_version'', PyInt (rc_pack_version r)), (''seller_id'', PyStr (rc_seller_id r)),
      (''product_id'', PyStr (rc_product_id r)), (''edition'', PyStr (rc_edition r)),
      (''region'', PyStr (rc_region r)), (''offer_id'', PyStr (rc_offer_id r)),
      (''authority'', PyStr (pack_authority_value (rc_authority r))), (''available'', PyBool (rc_available r)),
      (''facts'', PyTuple (map py_fact (rc_facts r))), (''seller_gate_ids'', py_strs (rc_seller_gate_ids r)),
      (''aliases'', py_strs (rc_aliases r)), (''category_ids'', py_strs (rc_category_ids r)),
      (''jtbd_ids'', py_strs (rc_jtbd_ids r)), (''pack_status'', PyStr (rc_pack_status r)),
      (''required_product_ids'', py_strs (rc_required_product_ids r))]"

definition py_line_item :: "CostLineItem \<Rightarrow> pyval" where
  "py_line_item i = PyObj
     [(''line_item_type'', PyStr (li_line_item_type i)), (''low'', py_money (li_low i)),
      (''base'', py_money (li_base i)), (''high'', py_money (li_high i)),
      (''schedule_version'', py_opt PyStr (li_schedule_version i))]"

definition py_offer :: "OfferCost \<Rightarrow> pyval" where
  "py_offer c = PyObj
     [(''offer_id'', PyStr (oc_offer_id c)), (''low'', py_opt py_money (oc_low c)),
      (''base'', py_opt py_money (oc_base c)), (''high'', py_opt py_money (oc_high c)),
      (''horizon_days'', PyInt (oc_horizon_days c)), (''line_items'', PyTuple (map py_line_item (oc_line_items c))),
      (''payment_required'', PyBool (oc_payment_required c))]"

definition py_evidence :: "EvidenceRecord \<Rightarrow> pyval" where
  "py_evidence r = PyObj
     [(''evidence_id'', PyStr (er_evidence_id r)), (''record_id'', PyStr (er_record_id r)),
      (''source_class'', PyStr (er_source_class r)), (''verification_method'', PyStr (er_verification_method r)),
      (''verification_scope'', PyStr (er_verification_scope r)), (''reconstructable'', PyBool (er_reconstructable r)),
      (''observed_at_lower'', py_opt PyDatetime (er_observed_at_lower r)),
      (''observed_at_upper'', py_opt PyDatetime (er_observed_at_upper r)),
      (''disputed'', PyBool (er_disputed r)), (''revoked'', PyBool (er_revoked r))]"

definition py_evidence_policy :: "EvidencePolicy \<Rightarrow> pyval" where
  "py_evidence_policy p = PyObj
     [(''field'', PyStr (ep_field p)), (''allowed_source_classes'', py_strs (ep_allowed_source_classes p)),
      (''allowed_verification_methods'', py_strs (ep_allowed_verification_methods p)),
      (''required_scope'', PyStr (ep_required_scope p)),
      (''freshness_sla_seconds'', PyInt (ep_freshness_sla_seconds p))]"

definition py_predicate :: "Predicate \<Rightarrow> pyval" where
  "py_predicate p = PyObj
     [(''field'', PyStr (pr_field p)), (''operator'', PyStr (pr_operator p)), (''value'', py_fact_value (pr_value p))]"

definition py_actions :: "SolutionAction list \<Rightarrow> pyval" where
  "py_actions as = py_strs (map solution_action_value as)"

definition py_gate :: "GateRule \<Rightarrow> pyval" where
  "py_gate g = PyObj
     [(''gate_id'', PyStr (gr_gate_id g)), (''predicates'', PyTuple (map py_predicate (gr_predicates g))),
      (''mode'', PyStr (gate_mode_value (gr_mode g))),
      (''blocked_status'', PyStr (candidate_status_value (gr_blocked_status g))),
      (''reason_code'', PyStr (gr_reason_code g)), (''source_fact_ids'', py_strs (gr_source_fact_ids g)),
      (''applies_to_actions'', py_actions (gr_applies_to_actions g)),
      (''evidence_claim_ids'', py_strs (gr_evidence_claim_ids g)),
      (''permitted_resolution'', py_opt PyStr (gr_permitted_resolution g)), (''overridable'', PyBool (gr_overridable g))]"

definition py_preference :: "PreferenceCriterion \<Rightarrow> pyval" where
  "py_preference c = PyObj
     [(''criterion_id'', PyStr (pc_criterion_id c)), (''field'', PyStr (pc_field c)),
      (''weight'', PyInt (pc_weight c)), (''coverage_weight'', PyInt (pc_coverage_weight c)),
      (''normalization'', PyStr (normalization_kind_value (pc_normalization c))),
      (''expected'', py_fact_value (pc_expected c)), (''source_fact_ids'', py_strs (pc_source_fact_ids c)),
      (''applies_to_actions'', py_actions (pc_applies_to_actions c)),
      (''allowed_satisfactions'', PyTuple (map py_ratio (pc_allowed_satisfactions c))),
      (''lower_is_better_points'',
         PyTuple (map (\<lambda>(m, r). PyTuple [PyInt m, py_ratio r]) (pc_lower_is_better_points c))),
      (''unknown_upper'', py_opt py_ratio (pc_unknown_upper c)),
      (''permitted_evidence_resolution'', py_opt PyStr (pc_permitted_evidence_resolution c)),
      (''neutral_prior'', py_opt py_ratio (pc_neutral_prior c)), (''aggregation'', PyStr (pc_aggregation c))]"

definition py_risk :: "StackRisk \<Rightarrow> pyval" where
  "py_risk r = PyStr (stack_risk_value r)"

definition py_risk_rule :: "RiskRule \<Rightarrow> pyval" where
  "py_risk_rule r = PyObj
     [(''rule_id'', PyStr (rl_rule_id r)), (''actions'', py_actions (rl_actions r)),
      (''predicate'', py_opt py_predicate (rl_predicate r)), (''lower'', py_risk (rl_lower r)),
      (''base'', py_risk (rl_base r)), (''upper'', py_risk (rl_upper r)),
      (''missing_lower'', py_opt py_risk (rl_missing_lower r)), (''missing_base'', py_opt py_risk (rl_missing_base r)),
      (''missing_upper'', py_opt py_risk (rl_missing_upper r))]"

definition py_current_action :: "CurrentActionRecord \<Rightarrow> pyval" where
  "py_current_action a = PyObj
     [(''action_id'', PyStr (ca_action_id a)), (''action'', PyStr (solution_action_value (ca_action a))),
      (''instance_id'', PyStr (ca_instance_id a)), (''facts'', PyTuple (map py_fact (ca_facts a))),
      (''cost'', py_offer (ca_cost a)), (''available'', PyBool (ca_available a)),
      (''permitted_resolution'', py_opt PyStr (ca_permitted_resolution a))]"

definition py_normalization :: "IdentityNormalization \<Rightarrow> pyval" where
  "py_normalization n = PyObj
     [(''version'', PyStr (in_version n)),
      (''aliases'', PyTuple (map (\<lambda>(s, t). py_strs [s, t]) (in_aliases n)))]"

definition py_outcome :: "OutcomeObservation \<Rightarrow> pyval" where
  "py_outcome ob = PyObj
     [(''subject_id'', PyStr (oo_subject_id ob)), (''criterion_id'', PyStr (oo_criterion_id ob)),
      (''value'', py_ratio (oo_value ob)), (''evidence_ids'', py_strs (oo_evidence_ids ob)),
      (''source_fact_ids'', py_strs (oo_source_fact_ids ob))]"

definition py_actor_resolution :: "ActorConflictResolution \<Rightarrow> pyval" where
  "py_actor_resolution r = PyObj
     [(''field'', PyStr (acr_field r)), (''fact_ids'', py_strs (acr_fact_ids r)),
      (''selected_fact_id'', PyStr (acr_selected_fact_id r)), (''selected_role'', PyStr (acr_selected_role r)),
      (''decided_by_role'', PyStr (acr_decided_by_role r)), (''strategy'', PyStr (acr_strategy r)),
      (''reason'', PyStr (acr_reason r))]"

definition py_recall_policy :: "RecallPolicy \<Rightarrow> pyval" where
  "py_recall_policy p = PyObj
     [(''category_id'', PyStr (rp_category_id p)), (''jtbd_id'', PyStr (rp_jtbd_id p)),
      (''allowed_regions'', py_strs (rp_allowed_regions p))]"

definition py_merge :: "IdentityMerge \<Rightarrow> pyval" where
  "py_merge m = PyObj
     [(''canonical_id'', PyStr (im_canonical_id m)), (''merged_record_id'', PyStr (im_merged_record_id m)),
      (''reasons'', py_strs (im_reasons m))]"

definition py_exclusion :: "RecallExclusion \<Rightarrow> pyval" where
  "py_exclusion x = PyObj
     [(''record_id'', PyStr (rx_record_id x)), (''reason_code'', PyStr (rx_reason_code x)),
      (''detail'', PyStr (rx_detail x))]"

definition py_age :: "EvidenceAgeBounds \<Rightarrow> pyval" where
  "py_age b = PyObj [(''lower'', py_ratio (age_lower b)), (''upper'', py_ratio (age_upper b))]"

definition py_assessment :: "EvidenceAssessment \<Rightarrow> pyval" where
  "py_assessment a = PyObj
     [(''evidence_id'', PyStr (ea_evidence_id a)), (''record_id'', PyStr (ea_record_id a)),
      (''field'', PyStr (ea_field a)), (''source_allowed'', PyBool (ea_source_allowed a)),
      (''method_allowed'', PyBool (ea_method_allowed a)), (''scope_match'', PyBool (ea_scope_match a)),
      (''reconstructable'', PyBool (ea_reconstructable a)),
      (''freshness_current'', py_opt PyBool (ea_freshness_current a)), (''disputed'', PyBool (ea_disputed a)),
      (''revoked'', PyBool (ea_revoked a)), (''state'', PyStr (evidence_state_value (ea_state a))),
      (''reasons'', py_strs (ea_reasons a)), (''age_bounds'', py_opt py_age (ea_age_bounds a))]"

definition py_coverage :: "EvaluationCoverage \<Rightarrow> pyval" where
  "py_coverage c = PyObj
     [(''raw_record_count'', PyInt (ec_raw_record_count c)),
      (''pack_candidate_count'', PyInt (ec_pack_candidate_count c)),
      (''canonical_product_count'', PyInt (ec_canonical_product_count c)),
      (''duplicate_count'', PyInt (ec_duplicate_count c)),
      (''generated_solution_plan_count'', PyInt (ec_generated_solution_plan_count c)),
      (''evaluated_solution_plan_count'', PyInt (ec_evaluated_solution_plan_count c)),
      (''excluded_count'', PyInt (ec_excluded_count c)), (''statement'', PyStr (ec_statement c))]"

section \<open>Plans and evaluations\<close>

definition money_payload :: "Money option \<Rightarrow> pyval" where
  "money_payload m = py_opt (\<lambda>x. dict_str (map (\<lambda>(k, v). (k, PyStr v)) (money_to_dict x))) m"

definition reason_payload :: "GateReason \<Rightarrow> pyval" where
  "reason_payload r = dict_str
     [(''code'', PyStr (gn_reason_code r)), (''status'', PyStr (candidate_status_value (gn_status r))),
      (''detail'', PyStr (gn_detail r))]"

definition gate_payload :: "GateResult \<Rightarrow> pyval" where
  "gate_payload g = dict_str
     [(''gate_id'', PyStr (gt_gate_id g)), (''truth'', PyStr (truth_value (gt_truth g))),
      (''reasons'', PyTuple (map reason_payload (gt_reasons g))),
      (''predicates'', py_strs (gt_evaluated_predicates g)),
      (''permitted_resolution'', py_opt PyStr (gt_permitted_resolution g))]"

definition score_payload :: "ScoreComponent \<Rightarrow> pyval" where
  "score_payload s = dict_str
     [(''criterion_id'', PyStr (sc_criterion_id s)), (''weight'', PyInt (sc_weight s)),
      (''conservative'', ratio_payload (sc_conservative_satisfaction s)),
      (''optimistic'', ratio_payload (sc_optimistic_satisfaction s)),
      (''evidence_ids'', py_strs (sc_evidence_ids s)),
      (''evidence_state'', PyStr (evidence_state_value (sc_evidence_state s))),
      (''prior_label'', py_opt PyStr (sc_prior_label s))]"

definition tco_payload :: "OfferCost \<Rightarrow> pyval" where
  "tco_payload c = dict_str
     [(''low'', money_payload (oc_low c)), (''base'', money_payload (oc_base c)),
      (''high'', money_payload (oc_high c)), (''horizon_days'', PyInt (oc_horizon_days c)),
      (''payment_required'', PyBool (oc_payment_required c)),
      (''line_items'', PyTuple (map (\<lambda>i. dict_str
         [(''type'', PyStr (li_line_item_type i)), (''low'', money_payload (Some (li_low i))),
          (''base'', money_payload (Some (li_base i))), (''high'', money_payload (Some (li_high i))),
          (''schedule_version'', py_opt PyStr (li_schedule_version i))]) (oc_line_items c)))]"

definition bounds_payload :: "PlanDimensions \<Rightarrow> pyval" where
  "bounds_payload d = dict_str
     [(''preference'', py_opt (\<lambda>p. dict_str [(''conservative'', ratio_payload (psb_conservative p)),
         (''optimistic'', ratio_payload (psb_optimistic p))]) (pd_preference d)),
      (''risk'', dict_str
        [(''lower'', py_opt (\<lambda>r. py_risk (risk_lower r)) (pd_stack_risk d)),
         (''base'', py_opt (\<lambda>r. py_risk (risk_base r)) (pd_stack_risk d)),
         (''upper'', py_opt (\<lambda>r. py_risk (risk_upper r)) (pd_stack_risk d)),
         (''triggered_rule_ids'', py_strs (pd_triggered_risk_rule_ids d)),
         (''input_hash'', PyStr (pd_risk_input_hash d))]),
      (''tco'', tco_payload (pd_total_cost d)),
      (''coverage'', py_opt (\<lambda>c. dict_str [(''conservative'', ratio_payload (cov_conservative c)),
         (''optimistic'', ratio_payload (cov_optimistic c))]) (pd_decision_material_coverage d)),
      (''age'', py_opt (\<lambda>a. dict_str [(''lower'', ratio_payload (age_lower a)),
         (''upper'', ratio_payload (age_upper a))]) (pd_maximum_evidence_age_ratio d)),
      (''hard_coverage'', dict_str [(''numerator'', PyInt (hc_numerator (pd_hard_coverage d))),
         (''denominator'', PyInt (hc_denominator (pd_hard_coverage d)))]),
      (''bound_unavailable_reasons'', py_strs (pd_bound_unavailable_reasons d))]"

definition canonical_plan :: "EvaluatedPlan \<Rightarrow> pyval" where
  "canonical_plan p = dict_str
     [(''action'', PyStr (solution_action_value (pl_action p))),
      (''stable_action_ids'', py_strs (pl_stable_action_ids p)),
      (''component_hash'', PyStr (pl_component_hash p)),
      (''lifecycle'', PyStr (plan_lifecycle_value (pl_lifecycle p))),
      (''status'', PyStr (candidate_status_value (pl_status p))),
      (''primary_reason'', py_opt reason_payload (pl_primary_reason p)),
      (''gates'', PyTuple (map gate_payload (pl_gate_results p))),
      (''scores'', PyTuple (map score_payload (pl_score_components p))),
      (''bounds'', bounds_payload (pl_dimensions p)),
      (''ordering_frontier_member'', PyBool (pl_ordering_frontier_member p)),
      (''resolution_frontier_member'', PyBool (pl_resolution_frontier_member p)),
      (''quote_required'', PyBool (pl_quote_required p)),
      (''quote_policy_reason'', PyStr (pl_quote_policy_reason p)),
      (''permitted_resolution'', py_opt PyStr (pl_permitted_resolution p)),
      (''autonomous_execution_allowed'', PyBool (pl_autonomous_execution_allowed p))]"

definition plan_actions :: "EvaluatedPlan list \<Rightarrow> string \<Rightarrow> string list option" where
  "plan_actions plans pid = map_option pl_stable_action_ids (List.find (\<lambda>p. pl_plan_id p = pid) plans)"

text \<open>\<^verbatim>\<open>next(...)\<close> without a default raises \<^verbatim>\<open>StopIteration\<close>, here \<open>KeyError\<close> on the plan identifier.\<close>

definition plan_actions_of :: "EvaluatedPlan list \<Rightarrow> string \<Rightarrow> pyval res" where
  "plan_actions_of plans pid =
     (case plan_actions plans pid of None \<Rightarrow> Inl (KeyError pid) | Some ids \<Rightarrow> Inr (py_strs ids))"

definition identity_payload :: "IdentityRecord \<Rightarrow> pyval" where
  "identity_payload i = dict_str
     [(''seller_id'', PyStr (ir_seller_id i)), (''product_id'', PyStr (ir_product_id i)),
      (''edition'', PyStr (ir_edition i)), (''region'', PyStr (ir_region i)),
      (''record_ids'', py_strs (ir_record_ids i)), (''pack_ids'', py_strs (ir_pack_ids i)),
      (''offer_ids'', py_strs (ir_offer_ids i))]"

definition evaluation_canonical_payload :: "DecisionGraphEvaluation \<Rightarrow> pyval res" where
  "evaluation_canonical_payload e =
     (let selected = Option.bind (ev_selected_plan_id e) (plan_actions (ev_plans e)) in
      bindE (mapE (plan_actions_of (ev_plans e)) (ev_ranked_plan_ids e)) (\<lambda>ranked.
      bindE (mapE (plan_actions_of (ev_plans e)) (ev_ordering_frontier_plan_ids e)) (\<lambda>frontier.
      bindE (mapE (plan_actions_of (ev_plans e)) (ev_bound_unavailable_plan_ids e)) (\<lambda>unavailable.
        Inr (dict_str
          [(''versions'', py_versions (ev_versions e)), (''evaluated_at'', PyDatetime (ev_evaluated_at e)),
           (''frozen_input_hashes'', PyTuple (map (\<lambda>(n, h). py_strs [n, h]) (ev_frozen_input_hashes e))),
           (''removed_private_fact_ids'', py_strs (ev_removed_private_fact_ids e)),
           (''identities'', PyTuple (map identity_payload (ev_identity_records e))),
           (''identity_merges'', PyTuple (map py_merge (ev_identity_merges e))),
           (''recall_exclusions'', PyTuple (map py_exclusion (ev_recall_exclusions e))),
           (''evidence_assessments'', PyTuple (map py_assessment (ev_evidence_assessments e))),
           (''plans'', PyTuple (map canonical_plan (ev_plans e))),
           (''ranked_stable_action_ids'', PyTuple ranked),
           (''selected_stable_action_ids'', py_opt py_strs selected),
           (''rank_stability'', PyStr (ev_rank_stability e)),
           (''ordering_frontier_stable_action_ids'', PyTuple frontier),
           (''bound_unavailable_stable_action_ids'', PyTuple unavailable),
           (''coverage'', py_coverage (ev_coverage e))])))))"

text \<open>The artifacts a decision freezes, in ascending order of their names.\<close>

definition frozen_artifacts :: "DecisionGraphInput \<Rightarrow> (string \<times> pyval) list" where
  "frozen_artifacts d =
     (if di_actor_conflict_resolutions d \<noteq> []
      then [(''actor_conflict_resolutions'',
             PyTuple (map py_actor_resolution (sort_key acr_field (di_actor_conflict_resolutions d))))]
      else []) @
     [(''buyer_facts'', PyTuple (map py_frozen_fact (sort_key ff_fact_id (active_buyer_facts d)))),
      (''candidate_records'', PyTuple (map py_candidate (sort_key rc_record_id (di_candidates d)))),
      (''current_actions'', PyTuple (map py_current_action (sort_key ca_action_id (di_current_actions d)))),
      (''evidence'', PyTuple (map py_evidence (sort_key er_evidence_id (di_evidence d)))),
      (''evidence_policies'', PyTuple (map py_evidence_policy (sort_key ep_field (di_evidence_policies d)))),
      (''gates'', PyTuple (map py_gate (sort_key gr_gate_id (di_gates d)))),
      (''identity_normalization'', py_normalization (di_identity_normalization d)),
      (''offers'', PyTuple (map py_offer (sort_key oc_offer_id (di_offers d)))),
      (''outcome_observations'', PyTuple (map py_outcome
         (sort_key (\<lambda>ob. (oo_subject_id ob, oo_criterion_id ob)) (di_outcome_values d)))),
      (''preferences'', PyTuple (map py_preference (sort_key pc_criterion_id (di_preferences d))))] @
     (case di_recall_policy d of None \<Rightarrow> [] | Some p \<Rightarrow> [(''recall_policy'', py_recall_policy p)]) @
     [(''risk_rules'', dict_str
        [(''complete_input_coverage'', PyBool (di_risk_rule_set_complete d)),
         (''rules'', PyTuple (map py_risk_rule (sort_key rl_rule_id (di_risk_rules d))))])]"

definition frozen_input_hashes :: "hash_env \<Rightarrow> DecisionGraphInput \<Rightarrow> (string \<times> string) list res" where
  "frozen_input_hashes E d =
     mapE (\<lambda>(name, v). bindE (content_hash E v) (\<lambda>h. Inr (name, h))) (frozen_artifacts d)"

definition counterfactual_payload :: "CounterfactualRecord \<Rightarrow> pyval" where
  "counterfactual_payload r = dict_str
     [(''outcome'', PyStr (counterfactual_outcome_value (cf_outcome r))),
      (''removed_fact_ids'', py_strs (cf_removed_fact_ids r)),
      (''alternative_fact_id_sets'', PyTuple (map py_strs (cf_alternative_fact_id_sets r))),
      (''tested_limit'', PyInt (cf_tested_limit r)),
      (''before_evaluation_payload_hash'', PyStr (cf_before_evaluation_payload_hash r)),
      (''after_evaluation_payload_hash'', py_opt PyStr (cf_after_evaluation_payload_hash r)),
      (''generic_evaluation_payload_hash'', PyStr (cf_generic_evaluation_payload_hash r)),
      (''before_selected_plan_id'', py_opt PyStr (cf_before_selected_plan_id r)),
      (''after_selected_plan_id'', py_opt PyStr (cf_after_selected_plan_id r)),
      (''generic_selected_plan_id'', py_opt PyStr (cf_generic_selected_plan_id r)),
      (''changed_gate_ids'', py_strs (cf_changed_gate_ids r))]"

lemma frozen_artifacts_sorted: "sorted (map fst (frozen_artifacts d))"
  by (simp add: frozen_artifacts_def less_eq_char_def less_char_def
      split: option.splits)

end
