(* ===== verification/Ranking.thy ===== *)
theory Ranking
  imports Payloads
begin

text \<open>
  Ranking, frontiers, one evaluation of the graph, and the private-fact counterfactual search:
  \<^verbatim>\<open>src/python/decision_engine/graph_v1.py\<close> from \<^verbatim>\<open>_bounded_plan\<close> to \<^verbatim>\<open>evaluate_decision_graph\<close>.
  Evaluation takes the hashing environment, the set-iteration choice and the generation time
  (\<^verbatim>\<open>datetime.now(UTC)\<close> in the source) as arguments.
\<close>

section \<open>Ranking\<close>

definition bounded_plan :: "EvaluatedPlan \<Rightarrow> bool \<Rightarrow> BoundedPlan res" where
  "bounded_plan p resolved =
     bindE (ordering_bounds (pl_dimensions p)) (\<lambda>b.
       mk_BoundedPlan (pl_plan_id p) (if resolved then ELIGIBLE else pl_status p) (pl_stable_action_ids p) b
         (pd_bound_unavailable_reasons (pl_dimensions p)))"

definition quote_actions :: "SolutionAction list" where
  "quote_actions = [BUY, RENEW, RESIZE, REPLACE, CONSOLIDATE]"

definition autonomous_actions :: "SolutionAction list" where
  "autonomous_actions = [REUSE_EXISTING, NO_ACTION]"

definition cost_signatures :: "EvaluatedPlan list \<Rightarrow> BoundedPlan list \<Rightarrow> (string \<times> int option) list" where
  "cost_signatures eligible rankable =
     (let horizon_by_plan = dict_of (map (\<lambda>p. (pl_plan_id p, oc_horizon_days (pd_total_cost (pl_dimensions p)))) eligible)
      in remdups (List.map_filter (\<lambda>p. map_option (\<lambda>b.
           (currency (cost_base (total_cost b)), map_of horizon_by_plan (bp_plan_id p))) (bp_bounds p)) rankable))"

text \<open>The plans whose resolution may beat the selected plan's worst case.\<close>

fun resolution_frontier :: "ordering_key \<Rightarrow> EvaluatedPlan list \<Rightarrow> string list res" where
  "resolution_frontier worst [] = Inr []"
| "resolution_frontier worst (p # ps) =
     bindE (if pl_lifecycle p = RESOLUTION_PENDING \<and> pl_permitted_resolution p \<noteq> None
            then bindE (ordering_bounds (pl_dimensions p)) (\<lambda>b.
              if b \<noteq> None
              then bindE (bounded_plan p True) (\<lambda>hyp.
                   bindE (optimistic_envelope_key hyp) (\<lambda>k. Inr (k < worst)))
              else Inr False)
            else Inr False) (\<lambda>hit.
     bindE (resolution_frontier worst ps) (\<lambda>r. Inr (if hit then pl_plan_id p # r else r)))"

definition quote_reason :: "string option \<Rightarrow> string list \<Rightarrow> string list \<Rightarrow> string list \<Rightarrow> string \<Rightarrow> string" where
  "quote_reason selected frontier_ids resolution top_three pid =
     (if selected = Some pid then ''SELECTED_PLAN''
      else if pid \<in> set frontier_ids then ''ORDERING_FRONTIER''
      else if pid \<in> set resolution then ''RESOLUTION_FRONTIER''
      else if pid \<in> set top_three then ''PRELIMINARY_TOP_THREE''
      else ''NONE'')"

definition autonomous_allowed :: "RankStability \<Rightarrow> EvaluatedPlan \<Rightarrow> bool" where
  "autonomous_allowed stability p \<longleftrightarrow>
     pl_lifecycle p = EXECUTABLE \<and> stability = STABLE \<and>
     \<not> oc_payment_required (pd_total_cost (pl_dimensions p)) \<and> pl_action p \<in> set autonomous_actions"

definition mark_plan ::
  "string option \<Rightarrow> RankStability \<Rightarrow> string list \<Rightarrow> string list \<Rightarrow> string list \<Rightarrow> EvaluatedPlan \<Rightarrow> EvaluatedPlan" where
  "mark_plan selected stability frontier_ids resolution top_three p =
     (let reason = quote_reason selected frontier_ids resolution top_three (pl_plan_id p)
      in p\<lparr>pl_ordering_frontier_member := pl_plan_id p \<in> set frontier_ids,
           pl_resolution_frontier_member := pl_plan_id p \<in> set resolution,
           pl_quote_required := reason \<noteq> ''NONE'' \<and> pl_action p \<in> set quote_actions,
           pl_quote_policy_reason := reason,
           pl_autonomous_execution_allowed := autonomous_allowed stability p\<rparr>)"

record ranking =
  rk_plans :: "EvaluatedPlan list"
  rk_ranked_ids :: "string list"
  rk_stability :: RankStability
  rk_ordering_frontier :: "string list"
  rk_unavailable :: "string list"

text \<open>Stability, ordering frontier and plans without bounds, given the selected plan if any.\<close>

definition frontier_of ::
  "BoundedPlan option \<Rightarrow> BoundedPlan list \<Rightarrow> (RankStability \<times> string list \<times> string list) res" where
  "frontier_of selected bounded =
     (case selected of
        None \<Rightarrow> Inr (UNDETERMINED, [], sort (map bp_plan_id (filter (\<lambda>p. bp_bounds p = None) bounded)))
      | Some s \<Rightarrow>
          bindE (assess_rank_stability s (filter (\<lambda>p. bp_plan_id p \<noteq> bp_plan_id s) bounded)) (\<lambda>r.
            Inr (rs_status r, sorted_set (bp_plan_id s # ordering_frontier_plan_ids r),
                 bound_unavailable_plan_ids r)))"

definition rank_and_frontiers :: "EvaluatedPlan list \<Rightarrow> ranking res" where
  "rank_and_frontiers plans =
     (let eligible = filter (\<lambda>p. eligible_status (pl_status p)) plans in
      bindE (mapE (\<lambda>p. bounded_plan p False) eligible) (\<lambda>bounded.
        let rankable = filter (\<lambda>p. bp_bounds p \<noteq> None) bounded in
        if 1 < length (cost_signatures eligible rankable)
        then Inl (DomainValidationError ''authoritative ranking requires one currency and comparison horizon'')
        else bindE (sort_by_keyE authoritative_ordering_key rankable) (\<lambda>ranked.
          let ranked_ids = map bp_plan_id ranked;
              selected = (case ranked of [] \<Rightarrow> None | s # _ \<Rightarrow> Some s) in
          bindE (frontier_of selected bounded) (\<lambda>(stability, frontier_ids, unavailable).
          bindE (case selected of None \<Rightarrow> Inr []
                 | Some s \<Rightarrow> bindE (conservative_envelope_key s) (\<lambda>worst. resolution_frontier worst plans)) (\<lambda>resolution.
            Inr \<lparr>rk_plans = map (mark_plan (map_option bp_plan_id selected) stability frontier_ids resolution
                   (take 3 ranked_ids)) plans,
                 rk_ranked_ids = ranked_ids, rk_stability = stability, rk_ordering_frontier = frontier_ids,
                 rk_unavailable = unavailable\<rparr>)))))"

section \<open>One evaluation\<close>

definition coverage_statement :: "DecisionGraphInput \<Rightarrow> RecallResult \<Rightarrow> string" where
  "coverage_statement d recall =
     ''Best supported action among '' @ show_nat (length (rr_identities recall)) @ '' canonical products and '' @
     show_nat (length (di_current_actions d)) @ '' current-stack/contract actions'' @
     (if rr_exclusions recall \<noteq> []
      then ''; '' @ show_nat (length (rr_exclusions recall)) @ '' catalog records excluded by frozen recall policy''
      else [])"

definition evaluation_coverage :: "DecisionGraphInput \<Rightarrow> RecallResult \<Rightarrow> EvaluatedPlan list \<Rightarrow> EvaluationCoverage" where
  "evaluation_coverage d recall plans =
     \<lparr>ec_raw_record_count = rr_raw_record_count recall, ec_pack_candidate_count = int (length (di_candidates d)),
      ec_canonical_product_count = int (length (rr_identities recall)),
      ec_duplicate_count = int (length (rr_merges recall)),
      ec_generated_solution_plan_count = int (length plans), ec_evaluated_solution_plan_count = int (length plans),
      ec_excluded_count = int (length (rr_exclusions recall)), ec_statement = coverage_statement d recall\<rparr>"

definition evaluate_once ::
  "hash_env \<Rightarrow> set_order \<Rightarrow> DecisionGraphInput \<Rightarrow> string \<Rightarrow> datetime \<Rightarrow> DecisionGraphEvaluation res" where
  "evaluate_once E S d evaluation_id generated_at =
     bindE (recall_and_deduplicate E d) (\<lambda>recall.
     bindE (assess_evidence d recall) (\<lambda>as.
     bindE (build_solution_plans E S d recall as) (\<lambda>plans.
     bindE (rank_and_frontiers plans) (\<lambda>rk.
     bindE (frozen_input_hashes E d) (\<lambda>hashes.
       let provisional =
         \<lparr>ev_evaluation_id = evaluation_id, ev_generated_at = generated_at, ev_versions = di_versions d,
          ev_evaluated_at = di_evaluated_at d, ev_frozen_input_hashes = hashes,
          ev_removed_private_fact_ids = sort (di_removed_private_fact_ids d),
          ev_identity_records = rr_identities recall, ev_identity_merges = rr_merges recall,
          ev_recall_exclusions = rr_exclusions recall, ev_evidence_assessments = as,
          ev_plans = rk_plans rk, ev_ranked_plan_ids = rk_ranked_ids rk,
          ev_selected_plan_id = (case rk_ranked_ids rk of [] \<Rightarrow> None | i # _ \<Rightarrow> Some i),
          ev_rank_stability = rank_stability_value (rk_stability rk),
          ev_ordering_frontier_plan_ids = rk_ordering_frontier rk,
          ev_bound_unavailable_plan_ids = rk_unavailable rk,
          ev_coverage = evaluation_coverage d recall (rk_plans rk),
          ev_evaluation_payload_hash = []\<rparr> in
       bindE (evaluation_canonical_payload provisional) (\<lambda>payload.
       bindE (content_hash E payload) (\<lambda>h.
         Inr (provisional\<lparr>ev_evaluation_payload_hash := h\<rparr>))))))))"

section \<open>Counterfactual search\<close>

definition gate_truth_map :: "DecisionGraphEvaluation \<Rightarrow> ((string list \<times> string) \<times> string) list" where
  "gate_truth_map e =
     dict_of (concat (map (\<lambda>p. map (\<lambda>g. ((pl_stable_action_ids p, gt_gate_id g), truth_value (gt_truth g)))
       (pl_gate_results p)) (ev_plans e)))"

definition changed_gate_ids :: "DecisionGraphEvaluation \<Rightarrow> DecisionGraphEvaluation \<Rightarrow> string list" where
  "changed_gate_ids before after =
     (let bm = gate_truth_map before; am = gate_truth_map after
      in sorted_set (map snd (filter (\<lambda>k. map_of bm k \<noteq> map_of am k) (map fst bm @ map fst am))))"

text \<open>\<^verbatim>\<open>itertools.combinations\<close>: the sublists of a given length, in lexicographic order of positions.\<close>

fun combinations :: "'a list \<Rightarrow> nat \<Rightarrow> 'a list list" where
  "combinations xs 0 = [[]]"
| "combinations [] (Suc k) = []"
| "combinations (x # xs) (Suc k) = map (\<lambda>c. x # c) (combinations xs k) @ combinations xs (Suc k)"

definition remove_facts :: "DecisionGraphInput \<Rightarrow> string list \<Rightarrow> DecisionGraphInput res" where
  "remove_facts d ids =
     mk_DecisionGraphInput (d\<lparr>di_removed_private_fact_ids := di_removed_private_fact_ids d @ ids\<rparr>)"

definition ablate ::
  "hash_env \<Rightarrow> set_order \<Rightarrow> DecisionGraphInput \<Rightarrow> datetime \<Rightarrow> string list \<Rightarrow> DecisionGraphEvaluation res" where
  "ablate E S d generated_at removed =
     bindE (remove_facts d removed) (\<lambda>d'. evaluate_once E S d' ''counterfactual_evaluation_id'' generated_at)"

definition private_ids :: "DecisionGraphInput \<Rightarrow> string list" where
  "private_ids d = sort (map ff_fact_id (filter (\<lambda>f. ff_private f \<and>
     ff_fact_id f \<notin> set (di_removed_private_fact_ids d)) (di_buyer_facts d)))"

text \<open>The sets of one cardinality whose removal changes the selected plan.\<close>

definition winners_of ::
  "(string list \<Rightarrow> DecisionGraphEvaluation res) \<Rightarrow> string option \<Rightarrow> string list \<Rightarrow> nat \<Rightarrow>
     (string list \<times> DecisionGraphEvaluation) list res" where
  "winners_of run selected ids k =
     bindE (mapE (\<lambda>removed. bindE (run removed) (\<lambda>e. Inr (removed, e))) (combinations ids k)) (\<lambda>runs.
       Inr (filter (\<lambda>(_, e). ev_selected_plan_id e \<noteq> selected) runs))"

fun search_levels ::
  "(string list \<Rightarrow> DecisionGraphEvaluation res) \<Rightarrow> string option \<Rightarrow> string list \<Rightarrow> nat list \<Rightarrow>
     (string list \<times> DecisionGraphEvaluation) list res" where
  "search_levels run selected ids [] = Inr []"
| "search_levels run selected ids (k # ks) =
     bindE (winners_of run selected ids k) (\<lambda>ws. if ws \<noteq> [] then Inr ws else search_levels run selected ids ks)"

definition seal_counterfactual :: "hash_env \<Rightarrow> CounterfactualRecord \<Rightarrow> CounterfactualRecord res" where
  "seal_counterfactual E r = bindE (content_hash E (counterfactual_payload r)) (\<lambda>h. Inr (r\<lparr>cf_record_hash := h\<rparr>))"

definition search_private_fact_counterfactuals ::
  "hash_env \<Rightarrow> set_order \<Rightarrow> DecisionGraphInput \<Rightarrow> DecisionGraphEvaluation \<Rightarrow> DecisionGraphEvaluation \<Rightarrow> int \<Rightarrow>
     CounterfactualRecord res" where
  "search_private_fact_counterfactuals E S d base generic limit =
     (if \<not> (1 \<le> limit \<and> limit \<le> 3)
      then Inl (DomainValidationError ''Decision Graph v1 counterfactual limit must be from 1 to 3'')
      else
        let ids = private_ids d;
            top = min (nat limit) (length ids);
            template = \<lparr>cf_outcome = NO_SMALL_COUNTERFACTUAL_FOUND, cf_removed_fact_ids = [],
              cf_alternative_fact_id_sets = [], cf_tested_limit = limit,
              cf_before_evaluation_payload_hash = ev_evaluation_payload_hash base,
              cf_after_evaluation_payload_hash = None,
              cf_generic_evaluation_payload_hash = ev_evaluation_payload_hash generic,
              cf_before_selected_plan_id = ev_selected_plan_id base, cf_after_selected_plan_id = None,
              cf_generic_selected_plan_id = ev_selected_plan_id generic, cf_changed_gate_ids = [],
              cf_record_hash = []\<rparr>
        in bindE (search_levels (ablate E S d (ev_generated_at base)) (ev_selected_plan_id base) ids [1..<Suc top])
             (\<lambda>winners.
               seal_counterfactual E
                 (case sort_key fst winners of
                    [] \<Rightarrow> template
                  | (chosen_ids, chosen) # rest \<Rightarrow>
                      template\<lparr>cf_outcome := WINNER_CHANGED, cf_removed_fact_ids := chosen_ids,
                        cf_alternative_fact_id_sets := map fst rest,
                        cf_after_evaluation_payload_hash := Some (ev_evaluation_payload_hash chosen),
                        cf_after_selected_plan_id := ev_selected_plan_id chosen,
                        cf_changed_gate_ids := changed_gate_ids base chosen\<rparr>)))"

definition evaluate_decision_graph ::
  "hash_env \<Rightarrow> set_order \<Rightarrow> DecisionGraphInput \<Rightarrow> string \<Rightarrow> datetime \<Rightarrow> int \<Rightarrow> DecisionGraphDecision res" where
  "evaluate_decision_graph E S d evaluation_id generated_at limit =
     bindE (evaluate_once E S d evaluation_id generated_at) (\<lambda>base.
     bindE (remove_facts d (map ff_fact_id (filter ff_private (di_buyer_facts d)))) (\<lambda>generic_input.
     bindE (evaluate_once E S generic_input ''generic_evaluation_id'' generated_at) (\<lambda>generic.
     bindE (search_private_fact_counterfactuals E S d base generic limit) (\<lambda>cf.
     bindE (content_hash E (dict_str
        [(''base_evaluation_payload_hash'', PyStr (ev_evaluation_payload_hash base)),
         (''counterfactual_record_hashes'', py_strs [cf_record_hash cf]),
         (''selected_outcome'', py_opt py_strs (Option.bind (ev_selected_plan_id base) (plan_actions (ev_plans base))))]))
       (\<lambda>h. Inr \<lparr>dd_base = base, dd_generic = generic, dd_counterfactual = cf, dd_decision_hash = h\<rparr>)))))"

section \<open>Lemmas: ranking\<close>

lemma bounded_plan_Inr:
  assumes "bounded_plan p resolved = Inr bp"
  shows "bp_plan_id bp = pl_plan_id p" "ordering_bounds (pl_dimensions p) = Inr (bp_bounds bp)"
    "bp_status bp = (if resolved then ELIGIBLE else pl_status p)" "bp_stable_action_ids bp = pl_stable_action_ids p"
  using assms by (auto simp: bounded_plan_def mk_BoundedPlan_def bindE_Inr_conv split: if_splits)

lemma rank_and_frontiers_parts:
  assumes "rank_and_frontiers plans = Inr rk"
  obtains bounded ranked resolution where
    "mapE (\<lambda>p. bounded_plan p False) (filter (\<lambda>p. eligible_status (pl_status p)) plans) = Inr bounded"
    "sort_by_keyE authoritative_ordering_key (filter (\<lambda>p. bp_bounds p \<noteq> None) bounded) = Inr ranked"
    "rk_ranked_ids rk = map bp_plan_id ranked"
    "frontier_of (case ranked of [] \<Rightarrow> None | s # _ \<Rightarrow> Some s) bounded =
       Inr (rk_stability rk, rk_ordering_frontier rk, rk_unavailable rk)"
    "rk_plans rk = map (mark_plan (map_option bp_plan_id (case ranked of [] \<Rightarrow> None | s # _ \<Rightarrow> Some s))
       (rk_stability rk) (rk_ordering_frontier rk) resolution (take 3 (rk_ranked_ids rk))) plans"
proof -
  from assms obtain bounded where
    b: "mapE (\<lambda>p. bounded_plan p False) (filter (\<lambda>p. eligible_status (pl_status p)) plans) = Inr bounded"
    by (auto simp: rank_and_frontiers_def bindE_Inr_conv Let_def)
  from assms b obtain ranked where
    r: "sort_by_keyE authoritative_ordering_key (filter (\<lambda>p. bp_bounds p \<noteq> None) bounded) = Inr ranked"
    by (auto simp: rank_and_frontiers_def bindE_Inr_conv Let_def split: if_splits)
  from assms b r obtain st fr un resolution where
    f: "frontier_of (case ranked of [] \<Rightarrow> None | s # _ \<Rightarrow> Some s) bounded = Inr (st, fr, un)" and
    rk: "rk = \<lparr>rk_plans = map (mark_plan (map_option bp_plan_id (case ranked of [] \<Rightarrow> None | s # _ \<Rightarrow> Some s))
         st fr resolution (take 3 (map bp_plan_id ranked))) plans,
       rk_ranked_ids = map bp_plan_id ranked, rk_stability = st, rk_ordering_frontier = fr, rk_unavailable = un\<rparr>"
    by (auto simp: rank_and_frontiers_def bindE_Inr_conv Let_def split: if_splits)
  show ?thesis by (rule that [of bounded ranked resolution, OF b r]) (use f rk in simp_all)
qed

text \<open>The first ranked plan has the least authoritative key among the eligible plans with bounds.\<close>

lemma selected_is_least:
  assumes "rank_and_frontiers plans = Inr rk" "rk_ranked_ids rk = sid # rest"
    "mapE (\<lambda>p. bounded_plan p False) (filter (\<lambda>p. eligible_status (pl_status p)) plans) = Inr bounded"
  obtains s b where "s \<in> set bounded" "bp_plan_id s = sid" "bp_bounds s = Some b"
    "\<And>c bc. c \<in> set bounded \<Longrightarrow> bp_bounds c = Some bc \<Longrightarrow> authoritative_key_of s b \<le> authoritative_key_of c bc"
proof -
  obtain ranked where
    r: "sort_by_keyE authoritative_ordering_key (filter (\<lambda>p. bp_bounds p \<noteq> None) bounded) = Inr ranked" and
    ids: "rk_ranked_ids rk = map bp_plan_id ranked"
    using rank_and_frontiers_parts [OF assms(1)] assms(3) by (metis sum.inject(2))
  from ids assms(2) obtain s rest' where ranked: "ranked = s # rest'" and sid: "bp_plan_id s = sid"
    by (cases ranked) auto
  have "set ranked = set (filter (\<lambda>p. bp_bounds p \<noteq> None) bounded)"
    using sort_by_keyE_Inr(1) [OF r] by (metis set_mset_mset)
  then have "s \<in> set bounded" "bp_bounds s \<noteq> None" using ranked by auto
  then obtain b where b: "s \<in> set bounded" "bp_bounds s = Some b" by blast
  have key: "bp_bounds c = Some bc \<Longrightarrow> authoritative_ordering_key c = Inr (authoritative_key_of c bc)" for c bc
    by (simp add: authoritative_ordering_key_def require_bounds_def)
  show ?thesis
  proof (rule that [OF b(1) sid b(2)])
    fix c bc assume "c \<in> set bounded" "bp_bounds c = Some bc"
    then show "authoritative_key_of s b \<le> authoritative_key_of c bc"
      using sort_by_keyE_Inr(3) [OF r ranked, of c] key b by auto
  qed
qed

text \<open>Every plan that a build produced has bounds that are intervals, or none.\<close>

definition plan_intervals :: "EvaluatedPlan \<Rightarrow> bool" where
  "plan_intervals p \<longleftrightarrow>
     (\<exists>ob. ordering_bounds (pl_dimensions p) = Inr ob \<and> (\<forall>b. ob = Some b \<longrightarrow> ordering_ok b) \<and>
       (ob = None \<longleftrightarrow> pd_bound_unavailable_reasons (pl_dimensions p) \<noteq> []))"

lemma build_plan_intervals: "build_plan E d as n k m = Inr p \<Longrightarrow> plan_intervals p"
proof -
  assume "build_plan E d as n k m = Inr p"
  then obtain gates scores dims ids where
    dm: "material_dimensions E d m gates as n k = Inr (scores, dims, ids)" and p: "pl_dimensions p = dims"
    using build_plan_parts by metis
  obtain ob where "ordering_bounds dims = Inr ob" "ob = None \<longleftrightarrow> pd_bound_unavailable_reasons dims \<noteq> []"
    "\<And>b. ob = Some b \<Longrightarrow> ordering_ok b" using material_dimensions_bounds [OF dm] by metis
  then show ?thesis by (auto simp: plan_intervals_def p)
qed

lemma build_solution_plans_intervals:
  assumes "build_solution_plans E S d recall as = Inr plans" "p \<in> set plans"
  shows "plan_intervals p"
proof -
  from assms(1) obtain ms n k where "mapE (build_plan E d as n k) ms = Inr plans"
    by (auto simp: build_solution_plans_def bindE_Inr_conv Let_def)
  from mapE_memR [OF this assms(2)] show ?thesis using build_plan_intervals by blast
qed

lemma bounded_plan_ok:
  "bounded_plan p False = Inr bp \<Longrightarrow> plan_intervals p \<Longrightarrow> plan_bounds_ok bp"
  by (auto simp: plan_bounds_ok_def plan_intervals_def dest: bounded_plan_Inr(2))

text \<open>
  The stability verdict over a set of plans: stable exactly if every eligible plan has bounds and no
  eligible competitor can turn out better than the selected plan.
\<close>

lemma bounded_ids:
  assumes "mapE (\<lambda>p. bounded_plan p False) ps = Inr bounded"
  shows "map bp_plan_id bounded = map pl_plan_id ps"
  using mapE_Inr_map [OF assms, of bp_plan_id pl_plan_id] bounded_plan_Inr(1) by blast

lemma assess_rank_stability_stable:
  assumes "bp_bounds s = Some b" "\<forall>p \<in> set (s # cs). plan_bounds_ok p" "assess_rank_stability s cs = Inr res"
  shows "rs_status res = STABLE \<longleftrightarrow> (\<forall>c \<in> set cs. bp_bounds c \<noteq> None \<and> \<not> can_overtake c s)"
proof (cases "\<forall>c \<in> set cs. bp_bounds c \<noteq> None")
  case True
  have "res = (let f = sort (map bp_plan_id (filter (\<lambda>c. can_overtake c s) cs))
     in \<lparr>rs_status = (if f = [] then STABLE else UNSTABLE), ordering_frontier_plan_ids = f,
             bound_unavailable_plan_ids = []\<rparr>)"
    using assms(3) assess_rank_stability_available [OF assms(1) True assms(2)] by (simp add: Let_def)
  then show ?thesis using True by (auto simp: Let_def sort_key_Nil_iff filter_empty_conv)
next
  case False
  then obtain p where "p \<in> set (s # cs)" "bp_bounds p = None" by auto
  from assess_rank_stability_missing [OF this] assms(3) False show ?thesis by auto
qed

lemma rank_stability_exact:
  assumes "rank_and_frontiers plans = Inr rk" "\<forall>p \<in> set plans. plan_intervals p"
    "mapE (\<lambda>p. bounded_plan p False) (filter (\<lambda>p. eligible_status (pl_status p)) plans) = Inr bounded"
    "sort_by_keyE authoritative_ordering_key (filter (\<lambda>p. bp_bounds p \<noteq> None) bounded) = Inr ranked"
  shows "rk_ranked_ids rk = map bp_plan_id ranked"
    "rk_stability rk = STABLE \<longleftrightarrow> (\<exists>s rest. ranked = s # rest \<and>
       (\<forall>c \<in> set bounded. bp_plan_id c \<noteq> bp_plan_id s \<longrightarrow> bp_bounds c \<noteq> None \<and> \<not> can_overtake c s))"
proof -
  obtain bounded' ranked' where
    "mapE (\<lambda>p. bounded_plan p False) (filter (\<lambda>p. eligible_status (pl_status p)) plans) = Inr bounded'" and
    "sort_by_keyE authoritative_ordering_key (filter (\<lambda>p. bp_bounds p \<noteq> None) bounded') = Inr ranked'" and
    ids: "rk_ranked_ids rk = map bp_plan_id ranked'" and
    "frontier_of (case ranked' of [] \<Rightarrow> None | s # _ \<Rightarrow> Some s) bounded' =
       Inr (rk_stability rk, rk_ordering_frontier rk, rk_unavailable rk)"
    using rank_and_frontiers_parts [OF assms(1)] by blast
  then have fr: "frontier_of (case ranked of [] \<Rightarrow> None | s # _ \<Rightarrow> Some s) bounded =
       Inr (rk_stability rk, rk_ordering_frontier rk, rk_unavailable rk)" and same: "ranked' = ranked"
    using assms(3,4) by simp_all
  show "rk_ranked_ids rk = map bp_plan_id ranked" using ids same by simp
  have ok: "\<forall>p \<in> set bounded. plan_bounds_ok p"
    using mapE_memR [OF assms(3)] bounded_plan_ok assms(2) by fastforce
  show "rk_stability rk = STABLE \<longleftrightarrow> (\<exists>s rest. ranked = s # rest \<and>
       (\<forall>c \<in> set bounded. bp_plan_id c \<noteq> bp_plan_id s \<longrightarrow> bp_bounds c \<noteq> None \<and> \<not> can_overtake c s))"
  proof (cases ranked)
    case Nil
    then show ?thesis using fr by (simp add: frontier_of_def)
  next
    case (Cons s rest)
    let ?cs = "filter (\<lambda>p. bp_plan_id p \<noteq> bp_plan_id s) bounded"
    have "set ranked = set (filter (\<lambda>p. bp_bounds p \<noteq> None) bounded)"
      using sort_by_keyE_Inr(1) [OF assms(4)] by (metis set_mset_mset)
    then have s: "s \<in> set bounded" "bp_bounds s \<noteq> None" using Cons by auto
    from fr Cons obtain res where res: "assess_rank_stability s ?cs = Inr res" "rk_stability rk = rs_status res"
      by (auto simp: frontier_of_def bindE_Inr_conv)
    from s(2) obtain b where b: "bp_bounds s = Some b" by blast
    have "rk_stability rk = STABLE \<longleftrightarrow> (\<forall>c \<in> set ?cs. bp_bounds c \<noteq> None \<and> \<not> can_overtake c s)"
      unfolding res(2) by (rule assess_rank_stability_stable [OF b _ res(1)]) (use ok s in auto)
    then show ?thesis using Cons by auto
  qed
qed

section \<open>Lemmas: counterfactual search\<close>

lemma combinations_set:
  "distinct xs \<Longrightarrow> set ` set (combinations xs k) = {A. A \<subseteq> set xs \<and> card A = k}"
proof (induction xs k rule: combinations.induct)
  case (1 xs)
  then show ?case using finite_subset [OF _ finite_set] by (auto simp: card_eq_0_iff)
next
  case (2 k)
  then show ?case by auto
next
  case (3 x xs k)
  have "set ` set (combinations (x # xs) (Suc k)) =
      insert x ` {A. A \<subseteq> set xs \<and> card A = k} \<union> {A. A \<subseteq> set xs \<and> card A = Suc k}"
  proof -
    have "set ` set (map (\<lambda>c. x # c) cs) = insert x ` (set ` set cs)" for cs by (auto simp: image_image)
    then show ?thesis using 3 by (simp only: combinations.simps set_append image_Un distinct.simps)
  qed
  also have "\<dots> = {A. A \<subseteq> set (x # xs) \<and> card A = Suc k}"
  proof (intro equalityI subsetI)
    have fin: "B \<subseteq> set xs \<Longrightarrow> finite B \<and> x \<notin> B" for B using "3.prems" finite_subset by fastforce
    fix A assume A: "A \<in> insert x ` {A. A \<subseteq> set xs \<and> card A = k} \<union> {A. A \<subseteq> set xs \<and> card A = Suc k}"
    then show "A \<in> {A. A \<subseteq> set (x # xs) \<and> card A = Suc k}"
      using fin by (auto simp: card_insert_disjoint)
  next
    fix A assume A: "A \<in> {A. A \<subseteq> set (x # xs) \<and> card A = Suc k}"
    show "A \<in> insert x ` {A. A \<subseteq> set xs \<and> card A = k} \<union> {A. A \<subseteq> set xs \<and> card A = Suc k}"
    proof (cases "x \<in> A")
      case True
      with A have "A - {x} \<subseteq> set xs" "card (A - {x}) = k" "A = insert x (A - {x})" by auto
      then show ?thesis by blast
    qed (use A in auto)
  qed
  finally show ?case .
qed

lemma combinations_sublist:
  "c \<in> set (combinations xs k) \<Longrightarrow> length c = k \<and> set c \<subseteq> set xs \<and> (sorted xs \<longrightarrow> sorted c) \<and> (distinct xs \<longrightarrow> distinct c)"
proof (induction xs k arbitrary: c rule: combinations.induct)
  case (3 x xs k)
  then show ?case by (fastforce simp: subset_iff)
qed auto

text \<open>Over a canonical list the combinations are the canonical lists of the subsets.\<close>

definition ablations :: "string list \<Rightarrow> nat \<Rightarrow> string list set" where
  "ablations ids k = {c. sorted c \<and> distinct c \<and> set c \<subseteq> set ids \<and> length c = k}"

lemma combinations_ablations:
  assumes "sorted ids" "distinct ids" shows "set (combinations ids k) = ablations ids k"
proof (intro equalityI subsetI)
  fix c assume "c \<in> set (combinations ids k)"
  then show "c \<in> ablations ids k" using combinations_sublist assms by (fastforce simp: ablations_def)
next
  fix c assume c: "c \<in> ablations ids k"
  then have "set c \<in> {A. A \<subseteq> set ids \<and> card A = k}" by (auto simp: ablations_def distinct_card)
  then have "set c \<in> set ` set (combinations ids k)" by (simp add: combinations_set [OF assms(2)])
  then obtain c' where c': "c' \<in> set (combinations ids k)" "set c = set c'" by auto
  have "sorted c'" "distinct c'" using combinations_sublist [OF c'(1)] assms by auto
  then have "c = c'" using c c'(2) by (intro sorted_distinct_set_unique) (auto simp: ablations_def)
  with c'(1) show "c \<in> set (combinations ids k)" by simp
qed

definition keeps_winner :: "(string list \<Rightarrow> DecisionGraphEvaluation res) \<Rightarrow> string option \<Rightarrow> string list \<Rightarrow> bool" where
  "keeps_winner run selected c \<longleftrightarrow> (\<exists>e. run c = Inr e \<and> ev_selected_plan_id e = selected)"

lemma winners_of_Inr:
  assumes "winners_of run sel ids k = Inr ws"
  shows "(c, e) \<in> set ws \<longleftrightarrow> c \<in> set (combinations ids k) \<and> run c = Inr e \<and> ev_selected_plan_id e \<noteq> sel"
    "ws = [] \<Longrightarrow> c \<in> set (combinations ids k) \<Longrightarrow> keeps_winner run sel c"
proof -
  from assms obtain runs where
    runs: "mapE (\<lambda>removed. bindE (run removed) (\<lambda>e. Inr (removed, e))) (combinations ids k) = Inr runs" and
    ws: "ws = filter (\<lambda>(_, e). ev_selected_plan_id e \<noteq> sel) runs"
    by (auto simp: winners_of_def bindE_Inr_conv)
  have run: "(c, e) \<in> set runs \<longleftrightarrow> c \<in> set (combinations ids k) \<and> run c = Inr e" for c e
    using mapE_memL [OF runs, of c] mapE_memR [OF runs, of "(c, e)"] by (auto simp: bindE_Inr_conv)
  show "(c, e) \<in> set ws \<longleftrightarrow> c \<in> set (combinations ids k) \<and> run c = Inr e \<and> ev_selected_plan_id e \<noteq> sel"
    using run by (auto simp: ws)
  show "keeps_winner run sel c" if "ws = []" "c \<in> set (combinations ids k)"
    using mapE_memL [OF runs that(2)] that(1) run by (auto simp: ws keeps_winner_def bindE_Inr_conv filter_empty_conv)
qed

lemma search_levels_Inr:
  assumes "search_levels run sel ids [a..<b] = Inr ws"
  shows "ws = [] \<Longrightarrow> a \<le> k \<Longrightarrow> k < b \<Longrightarrow> c \<in> set (combinations ids k) \<Longrightarrow> keeps_winner run sel c"
    "ws \<noteq> [] \<Longrightarrow> \<exists>k. a \<le> k \<and> k < b \<and> winners_of run sel ids k = Inr ws \<and>
       (\<forall>j c. a \<le> j \<longrightarrow> j < k \<longrightarrow> c \<in> set (combinations ids j) \<longrightarrow> keeps_winner run sel c)"
proof -
  have "(ws = [] \<longrightarrow> (\<forall>k c. a \<le> k \<longrightarrow> k < b \<longrightarrow> c \<in> set (combinations ids k) \<longrightarrow> keeps_winner run sel c)) \<and>
    (ws \<noteq> [] \<longrightarrow> (\<exists>k. a \<le> k \<and> k < b \<and> winners_of run sel ids k = Inr ws \<and>
       (\<forall>j c. a \<le> j \<longrightarrow> j < k \<longrightarrow> c \<in> set (combinations ids j) \<longrightarrow> keeps_winner run sel c)))"
    using assms
  proof (induction "b - a" arbitrary: a)
    case 0
    then show ?case by simp
  next
    case (Suc n)
    then have ab: "a < b" "n = b - Suc a" by auto
    then have "[a..<b] = a # [Suc a..<b]" by (simp add: upt_conv_Cons)
    with Suc.prems obtain wa where wa: "winners_of run sel ids a = Inr wa"
      "wa \<noteq> [] \<Longrightarrow> ws = wa" "wa = [] \<Longrightarrow> search_levels run sel ids [Suc a..<b] = Inr ws"
      by (auto simp: bindE_Inr_conv split: if_splits)
    show ?case
    proof (cases "wa = []")
      case True
      have keep: "keeps_winner run sel c" if "c \<in> set (combinations ids a)" for c
        by (rule winners_of_Inr(2) [OF wa(1) True that])
      from Suc.hyps(1) [OF ab(2) wa(3) [OF True]] show ?thesis
        using keep by (metis Suc_leI Suc_leD le_neq_implies_less)
    next
      case False
      with wa ab show ?thesis by force
    qed
  qed
  then show "ws = [] \<Longrightarrow> a \<le> k \<Longrightarrow> k < b \<Longrightarrow> c \<in> set (combinations ids k) \<Longrightarrow> keeps_winner run sel c"
    "ws \<noteq> [] \<Longrightarrow> \<exists>k. a \<le> k \<and> k < b \<and> winners_of run sel ids k = Inr ws \<and>
       (\<forall>j c. a \<le> j \<longrightarrow> j < k \<longrightarrow> c \<in> set (combinations ids j) \<longrightarrow> keeps_winner run sel c)"
    by blast+
qed

lemma private_ids_canonical:
  "distinct (map ff_fact_id (di_buyer_facts d)) \<Longrightarrow> sorted (private_ids d) \<and> distinct (private_ids d)"
  by (simp add: private_ids_def distinct_map_filter)

lemma ablations_length: "c \<in> ablations ids k \<Longrightarrow> k \<le> length ids"
  by (metis (mono_tags, lifting) ablations_def mem_Collect_eq card_length card_mono distinct_card finite_set le_trans)

lemma seal_counterfactual_Inr:
  "seal_counterfactual E r = Inr r' \<Longrightarrow> cf_outcome r' = cf_outcome r \<and> cf_removed_fact_ids r' = cf_removed_fact_ids r \<and>
     cf_after_selected_plan_id r' = cf_after_selected_plan_id r \<and>
     cf_alternative_fact_id_sets r' = cf_alternative_fact_id_sets r"
  by (auto simp: seal_counterfactual_def bindE_Inr_conv)

lemma search_counterfactuals_parts:
  assumes "search_private_fact_counterfactuals E S d base generic limit = Inr r"
  obtains ws where "1 \<le> limit" "limit \<le> 3"
    "search_levels (ablate E S d (ev_generated_at base)) (ev_selected_plan_id base) (private_ids d)
       [1..<Suc (min (nat limit) (length (private_ids d)))] = Inr ws"
    "ws = [] \<Longrightarrow> cf_outcome r = NO_SMALL_COUNTERFACTUAL_FOUND"
    "\<And>c e rest. sort_key fst ws = (c, e) # rest \<Longrightarrow> cf_outcome r = WINNER_CHANGED \<and> cf_removed_fact_ids r = c \<and>
       cf_after_selected_plan_id r = ev_selected_plan_id e \<and> cf_alternative_fact_id_sets r = map fst rest"
proof -
  from assms have lim: "1 \<le> limit" "limit \<le> 3"
    by (auto simp: search_private_fact_counterfactuals_def split: if_splits)
  from assms lim obtain ws where
    ws: "search_levels (ablate E S d (ev_generated_at base)) (ev_selected_plan_id base) (private_ids d)
       [1..<Suc (min (nat limit) (length (private_ids d)))] = Inr ws"
    unfolding search_private_fact_counterfactuals_def by (auto simp: bindE_Inr_conv Let_def simp del: upt_Suc)
  show ?thesis
    by (rule that [OF lim ws])
      (use assms lim ws in \<open>auto simp: search_private_fact_counterfactuals_def Let_def simp del: upt_Suc
        dest!: seal_counterfactual_Inr split: list.splits\<close>)
qed

lemma counterfactual_none:
  assumes "search_private_fact_counterfactuals E S d base generic limit = Inr r"
    "distinct (map ff_fact_id (di_buyer_facts d))" "cf_outcome r = NO_SMALL_COUNTERFACTUAL_FOUND"
    "1 \<le> k" "int k \<le> limit" "c \<in> ablations (private_ids d) k"
  shows "keeps_winner (ablate E S d (ev_generated_at base)) (ev_selected_plan_id base) c"
proof -
  obtain ws where
    ws: "search_levels (ablate E S d (ev_generated_at base)) (ev_selected_plan_id base) (private_ids d)
       [1..<Suc (min (nat limit) (length (private_ids d)))] = Inr ws" and
    some: "\<And>c e rest. sort_key fst ws = (c, e) # rest \<Longrightarrow> cf_outcome r = WINNER_CHANGED"
    using search_counterfactuals_parts [OF assms(1)] by metis
  have "ws = []"
    using some assms(3) by (cases "sort_key fst ws") (auto simp: sort_key_Nil_iff)
  then show ?thesis
    using search_levels_Inr(1) [OF ws _ assms(4)] assms(4-6) ablations_length [OF assms(6)]
      combinations_ablations [of "private_ids d" k] private_ids_canonical [OF assms(2)] by simp
qed

lemma counterfactual_found:
  assumes "search_private_fact_counterfactuals E S d base generic limit = Inr r"
    "distinct (map ff_fact_id (di_buyer_facts d))" "cf_outcome r = WINNER_CHANGED"
  defines "run \<equiv> ablate E S d (ev_generated_at base)" and "sel \<equiv> ev_selected_plan_id base"
    and "c \<equiv> cf_removed_fact_ids r"
  shows "1 \<le> length c" "int (length c) \<le> limit" "c \<in> ablations (private_ids d) (length c)"
    "\<exists>e. run c = Inr e \<and> ev_selected_plan_id e \<noteq> sel \<and> cf_after_selected_plan_id r = ev_selected_plan_id e"
    "\<And>j c'. 1 \<le> j \<Longrightarrow> j < length c \<Longrightarrow> c' \<in> ablations (private_ids d) j \<Longrightarrow> keeps_winner run sel c'"
    "\<And>c' e'. c' \<in> ablations (private_ids d) (length c) \<Longrightarrow> run c' = Inr e' \<Longrightarrow> ev_selected_plan_id e' \<noteq> sel \<Longrightarrow> c \<le> c'"
proof -
  note canon = private_ids_canonical [OF assms(2)]
  note combos = combinations_ablations [OF conjunct1 [OF canon] conjunct2 [OF canon]]
  obtain ws where
    ws: "search_levels run sel (private_ids d) [1..<Suc (min (nat limit) (length (private_ids d)))] = Inr ws" and
    none: "ws = [] \<Longrightarrow> cf_outcome r = NO_SMALL_COUNTERFACTUAL_FOUND" and
    some: "\<And>c e rest. sort_key fst ws = (c, e) # rest \<Longrightarrow> cf_removed_fact_ids r = c \<and>
       cf_after_selected_plan_id r = ev_selected_plan_id e"
    using search_counterfactuals_parts [OF assms(1)] unfolding run_def sel_def by metis
  from none assms(3) have ne: "ws \<noteq> []" by auto
  then obtain k where k: "1 \<le> k" "k < Suc (min (nat limit) (length (private_ids d)))"
    "winners_of run sel (private_ids d) k = Inr ws"
    "\<And>j c. 1 \<le> j \<Longrightarrow> j < k \<Longrightarrow> c \<in> ablations (private_ids d) j \<Longrightarrow> keeps_winner run sel c"
    using search_levels_Inr(2) [OF ws] combos by auto
  from ne obtain c0 e0 rest where srt: "sort_key fst ws = (c0, e0) # rest"
    by (cases "sort_key fst ws") (auto simp: sort_key_Nil_iff)
  then have c0: "c = c0" "cf_after_selected_plan_id r = ev_selected_plan_id e0" using some by (auto simp: c_def)
  have "(c0, e0) \<in> set ws" by (metis srt list.set_intros(1) set_sort)
  then have w: "c \<in> ablations (private_ids d) k" "run c = Inr e0" "ev_selected_plan_id e0 \<noteq> sel"
    using winners_of_Inr(1) [OF k(3)] combos c0 by auto
  then have len: "length c = k" by (simp add: ablations_def)
  show "1 \<le> length c" "int (length c) \<le> limit" using k len by auto
  show "c \<in> ablations (private_ids d) (length c)" using w len by simp
  show "\<exists>e. run c = Inr e \<and> ev_selected_plan_id e \<noteq> sel \<and> cf_after_selected_plan_id r = ev_selected_plan_id e"
    using w c0 by auto
  show "keeps_winner run sel c'" if "1 \<le> j" "j < length c" "c' \<in> ablations (private_ids d) j" for j c'
    using k(4) that len by simp
  show "c \<le> c'" if "c' \<in> ablations (private_ids d) (length c)" "run c' = Inr e'" "ev_selected_plan_id e' \<noteq> sel" for c' e'
  proof -
    have "(c', e') \<in> set ws" using winners_of_Inr(1) [OF k(3)] combos that len by simp
    then have "(c', e') \<in> set ((c0, e0) # rest)" by (metis srt set_sort)
    moreover have "sorted (map fst ((c0, e0) # rest))" by (metis srt sorted_sort_key)
    ultimately show ?thesis using c0 by auto
  qed
qed

end
