(* ===== verification/DemoEnv.thy ===== *)
theory DemoEnv
  imports Values
begin

text \<open>
  The environment of the witnesses: a shallow JSON printer and a digest of the first 64 characters
  of its text in place of RFC 8785 and SHA-256, and a point in time.
\<close>

fun scalar_text :: "json \<Rightarrow> string" where
  "scalar_text (JStr s) = s"
| "scalar_text (JInt i) = show_int i"
| "scalar_text (JBool b) = (if b then ''t'' else ''f'')"
| "scalar_text JNull = ''n''"
| "scalar_text _ = ''*''"

fun json_text :: "json \<Rightarrow> string" where
  "json_text (JArr xs) = concat (map scalar_text xs)"
| "json_text (JObj fs) = concat (map (\<lambda>kv. scalar_text (snd kv)) fs)"
| "json_text j = scalar_text j"

fun nibble :: "char \<Rightarrow> char" where
  "nibble (Char a b c d e f g h) =
     (if d then (if c then (if b then (if a then CHR ''f'' else CHR ''e'') else (if a then CHR ''d'' else CHR ''c''))
                 else (if b then (if a then CHR ''b'' else CHR ''a'') else (if a then CHR ''9'' else CHR ''8'')))
      else (if c then (if b then (if a then CHR ''7'' else CHR ''6'') else (if a then CHR ''5'' else CHR ''4''))
            else (if b then (if a then CHR ''3'' else CHR ''2'') else (if a then CHR ''1'' else CHR ''0''))))"

text \<open>One hexadecimal digit for each of the first characters, padded with zeros.\<close>

fun digits_of :: "nat \<Rightarrow> string \<Rightarrow> string" where
  "digits_of 0 s = []"
| "digits_of (Suc n) [] = CHR ''0'' # digits_of n []"
| "digits_of (Suc n) (c # s) = nibble c # digits_of n s"

definition demo_env :: hash_env where
  "demo_env = \<lparr>rfc8785_dumps = \<lambda>j. Some (json_text j),
               sha256_hex = digits_of 64\<rparr>"

definition demo_now :: datetime where
  "demo_now = \<lparr>tz_aware = True, micros = 1000000000\<rparr>"

end
