(* ===== verification/Examples.thy ===== *)
theory Examples
  imports Ranking DemoEnv
begin

text \<open>
  A concrete decision used by the witnesses: two current-stack actions, one private buyer fact that
  activates a gate, one preference and one risk rule. The environment is the one of
  \<^verbatim>\<open>DemoEnv\<close>.
\<close>

definition demo_order :: set_order where
  "demo_order = \<lparr>first_horizon = hd, first_currency = hd\<rparr>"

section \<open>A concrete input\<close>

definition demo_usd :: "int \<Rightarrow> Money" where
  "demo_usd n = \<lparr>amount = (n, 0), currency = ''USD''\<rparr>"

definition demo_cost :: "string \<Rightarrow> int \<Rightarrow> OfferCost" where
  "demo_cost i n = \<lparr>oc_offer_id = i, oc_low = Some (demo_usd n), oc_base = Some (demo_usd n),
     oc_high = Some (demo_usd n), oc_horizon_days = 30, oc_line_items = [], oc_payment_required = False\<rparr>"

definition demo_fact :: "bool \<Rightarrow> ProductFact" where
  "demo_fact b = \<lparr>pf_field = ''soc2'', pf_value = FBool b, pf_evidence_ids = [''e1''], pf_component_id = None\<rparr>"

definition demo_action :: "string \<Rightarrow> SolutionAction \<Rightarrow> string \<Rightarrow> bool \<Rightarrow> int \<Rightarrow> CurrentActionRecord" where
  "demo_action i a inst b n = \<lparr>ca_action_id = i, ca_action = a, ca_instance_id = inst, ca_facts = [demo_fact b],
     ca_cost = demo_cost (''o'' @ i) n, ca_available = True, ca_permitted_resolution = None\<rparr>"

definition demo_input :: DecisionGraphInput where
  "demo_input =
     \<lparr>di_versions = \<lparr>request_version = ''1'', company_profile_version = ''1'', stackfile_version = ''1'',
        registry_version = ''1'', pack_set_version = ''1'', offer_set_version = ''1'', taxonomy_version = ''1'',
        normalization_version = ''1'', policy_version = ''1'', fx_version = ''1'', pipeline_version = ''1'',
        engine_version = ''1''\<rparr>,
      di_evaluated_at = demo_now,
      di_buyer_facts = [\<lparr>ff_fact_id = ''f1'', ff_field = ''needs_soc2'', ff_value = FBool True, ff_private = True,
        ff_version = ''1'', ff_asserted_by_role = ''unknown'', ff_authority_level = ''UNKNOWN'',
        ff_authority_rank = 0, ff_provenance = None\<rparr>],
      di_candidates = [], di_offers = [],
      di_evidence = [\<lparr>er_evidence_id = ''e1'', er_record_id = ''r1'', er_source_class = ''audit'',
        er_verification_method = ''report'', er_verification_scope = ''global'', er_reconstructable = True,
        er_observed_at_lower = Some demo_now, er_observed_at_upper = Some demo_now, er_disputed = False,
        er_revoked = False\<rparr>],
      di_evidence_policies = [\<lparr>ep_field = ''soc2'', ep_allowed_source_classes = [''audit''],
        ep_allowed_verification_methods = [''report''], ep_required_scope = ''*'', ep_freshness_sla_seconds = 60\<rparr>],
      di_gates = [\<lparr>gr_gate_id = ''g1'',
        gr_predicates = [\<lparr>pr_field = ''soc2'', pr_operator = ''eq'', pr_value = FBool True\<rparr>],
        gr_mode = REQUIRE_MATCH, gr_blocked_status = SIRA_INELIGIBLE, gr_reason_code = ''SOC2_REQUIRED'',
        gr_source_fact_ids = [''f1''], gr_applies_to_actions = [], gr_evidence_claim_ids = [],
        gr_permitted_resolution = None, gr_overridable = False\<rparr>],
      di_preferences = [\<lparr>pc_criterion_id = ''p1'', pc_field = ''soc2'', pc_weight = 1, pc_coverage_weight = 1,
        pc_normalization = BOOLEAN_EQUALS, pc_expected = FBool False, pc_source_fact_ids = [],
        pc_applies_to_actions = [], pc_allowed_satisfactions = [ratio_of 0, ratio_of 1],
        pc_lower_is_better_points = [], pc_unknown_upper = Some (ratio_of 1),
        pc_permitted_evidence_resolution = None, pc_neutral_prior = None, pc_aggregation = ''ALL''\<rparr>],
      di_risk_rules = [\<lparr>rl_rule_id = ''k1'', rl_actions = [REUSE_EXISTING, NO_ACTION], rl_predicate = None,
        rl_lower = LOW, rl_base = LOW, rl_upper = LOW, rl_missing_lower = None, rl_missing_base = None,
        rl_missing_upper = None\<rparr>],
      di_risk_rule_set_complete = True,
      di_current_actions = [demo_action ''a1'' REUSE_EXISTING ''inst_a'' False 1,
                            demo_action ''a2'' NO_ACTION ''inst_b'' True 2],
      di_identity_normalization = \<lparr>in_version = ''1'', in_aliases = []\<rparr>,
      di_outcome_values = [], di_removed_private_fact_ids = [], di_actor_conflict_resolutions = [],
      di_recall_policy = None\<rparr>"

end
