(* ===== verification/GraphClaims.thy ===== *)
theory GraphClaims
  imports Examples
begin

text \<open>
  The properties of the Decision Graph, each with a witness on the concrete decision of
  \<^verbatim>\<open>Examples\<close> or on a smaller input.
\<close>

section \<open>Concrete inputs of the witnesses\<close>

definition no_recall :: RecallResult where
  "no_recall = \<lparr>rr_identities = [], rr_merges = [], rr_representatives = [], rr_exclusions = [],
                rr_raw_record_count = 0\<rparr>"

definition demo_assessments :: "EvidenceAssessment list" where
  "demo_assessments = (case assess_evidence demo_input no_recall of Inr as \<Rightarrow> as | Inl _ \<Rightarrow> [])"

definition demo_material :: PlanMaterial where
  "demo_material = current_material (demo_action ''a2'' NO_ACTION ''inst_b'' True 2)"

text \<open>An input without plans, whose only fact is private, and a base evaluation to compare with.\<close>

definition tiny_input :: DecisionGraphInput where
  "tiny_input = demo_input\<lparr>di_gates := [], di_preferences := [], di_risk_rules := [], di_evidence := [],
     di_evidence_policies := [], di_current_actions := []\<rparr>"

definition tiny_base :: "string option \<Rightarrow> DecisionGraphEvaluation" where
  "tiny_base sel =
     \<lparr>ev_evaluation_id = ''b'', ev_generated_at = demo_now, ev_versions = di_versions demo_input,
      ev_evaluated_at = demo_now, ev_frozen_input_hashes = [], ev_removed_private_fact_ids = [],
      ev_identity_records = [], ev_identity_merges = [], ev_recall_exclusions = [],
      ev_evidence_assessments = [], ev_plans = [], ev_ranked_plan_ids = [], ev_selected_plan_id = sel,
      ev_rank_stability = ''UNDETERMINED'', ev_ordering_frontier_plan_ids = [],
      ev_bound_unavailable_plan_ids = [],
      ev_coverage = evaluation_coverage tiny_input no_recall [], ev_evaluation_payload_hash = []\<rparr>"

definition demo_candidate :: "string \<Rightarrow> string \<Rightarrow> string list \<Rightarrow> bool \<Rightarrow> RawCandidateRecord" where
  "demo_candidate i p req avail =
     \<lparr>rc_record_id = i, rc_pack_id = ''pack'', rc_pack_version = 1, rc_seller_id = ''Acme'', rc_product_id = p,
      rc_edition = ''pro'', rc_region = ''eu'', rc_offer_id = ''o1'', rc_authority = SELLER_SEALED,
      rc_available = avail, rc_facts = [demo_fact True], rc_seller_gate_ids = [], rc_aliases = [],
      rc_category_ids = [], rc_jtbd_ids = [], rc_pack_status = ''PUBLISHED'', rc_required_product_ids = req\<rparr>"

definition recall_input :: DecisionGraphInput where
  "recall_input = tiny_input\<lparr>di_candidates :=
     [demo_candidate ''r2'' ''CRM'' [] True, demo_candidate ''r1'' ''crm'' [] False,
      (demo_candidate ''r3'' ''old'' [] True)\<lparr>rc_pack_status := ''REVOKED''\<rparr>]\<rparr>"

lemma demo_plans:
  "case build_solution_plans demo_env demo_order demo_input no_recall demo_assessments of
     Inl _ \<Rightarrow> False
   | Inr plans \<Rightarrow> distinct (map pl_plan_id plans) \<and>
       (case rank_and_frontiers plans of Inl _ \<Rightarrow> False | Inr rk \<Rightarrow> rk_stability rk = STABLE \<and> rk_ranked_ids rk \<noteq> [])"
  by code_simp

section \<open>Ranking\<close>

text \<open>C1 A ranking over the plans built for a decision is STABLE exactly if it selects a plan, the first of the eligible
  plans with bounds in the authoritative order, and every eligible plan with another plan identifier has ordering
  bounds and cannot end up before the selected one, whatever values inside the published bounds the two plans
  turn out to have. Plans that share the identifier of the selected plan are not compared with it.\<close>

theorem stable_means_unbeatable:
  assumes "build_solution_plans E S d recall as = Inr plans" "rank_and_frontiers plans = Inr rk"
    "mapE (\<lambda>p. bounded_plan p False) (filter (\<lambda>p. eligible_status (pl_status p)) plans) = Inr bounded"
    "sort_by_keyE authoritative_ordering_key (filter (\<lambda>p. bp_bounds p \<noteq> None) bounded) = Inr ranked"
  shows "rk_ranked_ids rk = map bp_plan_id ranked \<and>
    (rk_stability rk = STABLE \<longleftrightarrow> (\<exists>s rest. ranked = s # rest \<and>
       (\<forall>c \<in> set bounded. bp_plan_id c \<noteq> bp_plan_id s \<longrightarrow> bp_bounds c \<noteq> None \<and> \<not> can_overtake c s)))"
  using build_solution_plans_intervals [OF assms(1)] rank_stability_exact [OF assms(2) _ assms(3,4)] by blast

theorem stable_means_unbeatable_witness:
  "\<exists>plans rk bounded ranked s rest. build_solution_plans demo_env demo_order demo_input no_recall demo_assessments = Inr plans \<and>
     rank_and_frontiers plans = Inr rk \<and> rk_stability rk = STABLE \<and>
     mapE (\<lambda>p. bounded_plan p False) (filter (\<lambda>p. eligible_status (pl_status p)) plans) = Inr bounded \<and>
     sort_by_keyE authoritative_ordering_key (filter (\<lambda>p. bp_bounds p \<noteq> None) bounded) = Inr ranked \<and> ranked = s # rest \<and>
     (\<forall>c \<in> set bounded. bp_plan_id c \<noteq> bp_plan_id s \<longrightarrow> \<not> can_overtake c s)"
proof -
  from demo_plans obtain plans rk where
    p: "build_solution_plans demo_env demo_order demo_input no_recall demo_assessments = Inr plans" and
    rk: "rank_and_frontiers plans = Inr rk" "rk_stability rk = STABLE"
    by (auto split: sum.splits)
  obtain bounded ranked where
    b: "mapE (\<lambda>p. bounded_plan p False) (filter (\<lambda>p. eligible_status (pl_status p)) plans) = Inr bounded"
      "sort_by_keyE authoritative_ordering_key (filter (\<lambda>p. bp_bounds p \<noteq> None) bounded) = Inr ranked"
    using rank_and_frontiers_parts [OF rk(1)] by metis
  from stable_means_unbeatable [OF p rk(1) b] rk(2) obtain s rest where "ranked = s # rest"
    "\<forall>c \<in> set bounded. bp_plan_id c \<noteq> bp_plan_id s \<longrightarrow> \<not> can_overtake c s" by blast
  then show ?thesis using p rk b by blast
qed

text \<open>The selected plan has bounds and the least authoritative ordering key of all eligible plans
  with bounds.\<close>

theorem selected_plan_least:
  assumes "rank_and_frontiers plans = Inr rk" "rk_ranked_ids rk = sid # rest"
    "mapE (\<lambda>p. bounded_plan p False) (filter (\<lambda>p. eligible_status (pl_status p)) plans) = Inr bounded"
  shows "\<exists>s \<in> set bounded. \<exists>b. bp_plan_id s = sid \<and> bp_bounds s = Some b \<and>
    (\<forall>c \<in> set bounded. \<forall>bc. bp_bounds c = Some bc \<longrightarrow> authoritative_key_of s b \<le> authoritative_key_of c bc)"
  by (rule selected_is_least [OF assms]) blast

theorem selected_plan_least_witness:
  "\<exists>plans rk sid rest bounded. rank_and_frontiers plans = Inr rk \<and> rk_ranked_ids rk = sid # rest \<and>
     mapE (\<lambda>p. bounded_plan p False) (filter (\<lambda>p. eligible_status (pl_status p)) plans) = Inr bounded \<and>
     (\<exists>s \<in> set bounded. bp_plan_id s = sid)"
proof -
  from demo_plans obtain plans rk where rk: "rank_and_frontiers plans = Inr rk" "rk_ranked_ids rk \<noteq> []"
    by (auto split: sum.splits)
  then obtain sid rest where ids: "rk_ranked_ids rk = sid # rest" by (cases "rk_ranked_ids rk") auto
  obtain bounded where
    b: "mapE (\<lambda>p. bounded_plan p False) (filter (\<lambda>p. eligible_status (pl_status p)) plans) = Inr bounded"
    using rank_and_frontiers_parts [OF rk(1)] by metis
  from selected_plan_least [OF rk(1) ids b] show ?thesis using rk ids b by blast
qed

text \<open>C2 The quick path to unattended execution is safe: a plan that a ranking marks for autonomous
  execution is a reuse or no-action plan that needs no payment, the ranking is STABLE, and the material it was built
  from is available, has a feasible dependency closure and seller authority, has all its bounds, and passes every
  applicable gate: the gate is clear, or its blocked status is itself an eligible one and its predicates could all
  be tested.\<close>

theorem autonomous_plan_safe:
  assumes "build_solution_plans E S d recall as = Inr plans" "rank_and_frontiers plans = Inr rk"
    "q \<in> set (rk_plans rk)" "pl_autonomous_execution_allowed q"
  shows "pl_action q \<in> {REUSE_EXISTING, NO_ACTION} \<and> \<not> oc_payment_required (pd_total_cost (pl_dimensions q)) \<and>
    rk_stability rk = STABLE \<and> pd_bound_unavailable_reasons (pl_dimensions q) = [] \<and>
    (\<exists>p n k m. p \<in> set plans \<and> build_plan E d as n k m = Inr p \<and> pl_plan_id q = pl_plan_id p \<and> pl_action q = pl_action p \<and>
       pl_gate_results q = pl_gate_results p \<and> pm_available m \<and> pm_dependency_issues m = [] \<and>
       pm_authority m \<in> {None, Some SELLER_SEALED} \<and>
       (\<forall>g \<in> set (di_gates d). gate_applies g m (active_source_ids d) \<longrightarrow>
          gate_clear E g m (buyer_value_map d) (index_assessments as) \<or>
          eligible_status (gr_blocked_status g) \<and>
            (\<forall>x \<in> set (gr_predicates g). predicate_values E g m (buyer_value_map d) (index_assessments as) x \<noteq> None)))"
proof -
  obtain sel resolution where
    "rk_plans rk = map (mark_plan sel (rk_stability rk) (rk_ordering_frontier rk) resolution (take 3 (rk_ranked_ids rk))) plans"
    using rank_and_frontiers_parts [OF assms(2)] by blast
  with assms(3) obtain p where p: "p \<in> set plans"
    and q: "q = mark_plan sel (rk_stability rk) (rk_ordering_frontier rk) resolution (take 3 (rk_ranked_ids rk)) p"
    by auto
  then have auto: "autonomous_allowed (rk_stability rk) p" using assms(4) by (simp add: mark_plan_def Let_def)
  from assms(1) obtain ms n k where "mapE (build_plan E d as n k) ms = Inr plans"
    by (auto simp: build_solution_plans_def bindE_Inr_conv Let_def)
  from mapE_memR [OF this p] obtain m where m: "build_plan E d as n k m = Inr p" by blast
  have same: "pl_action q = pl_action p" "pl_dimensions q = pl_dimensions p" "pl_plan_id q = pl_plan_id p"
    "pl_gate_results q = pl_gate_results p"
    by (simp_all add: q mark_plan_def Let_def)
  from auto have a: "pl_action p \<in> {REUSE_EXISTING, NO_ACTION}" "\<not> oc_payment_required (pd_total_cost (pl_dimensions p))"
    "rk_stability rk = STABLE" "pl_lifecycle p = EXECUTABLE"
    by (auto simp: autonomous_allowed_def autonomous_actions_def)
  with build_plan_executable [OF m] show ?thesis unfolding same gate_passes_def using p m by blast
qed

theorem autonomous_plan_safe_witness:
  "\<exists>plans rk q. build_solution_plans demo_env demo_order demo_input no_recall demo_assessments = Inr plans \<and>
     rank_and_frontiers plans = Inr rk \<and> q \<in> set (rk_plans rk) \<and> pl_autonomous_execution_allowed q \<and>
     pd_bound_unavailable_reasons (pl_dimensions q) = []"
proof -
  have "case build_solution_plans demo_env demo_order demo_input no_recall demo_assessments of
     Inl _ \<Rightarrow> False
   | Inr plans \<Rightarrow> (case rank_and_frontiers plans of Inl _ \<Rightarrow> False
       | Inr rk \<Rightarrow> list_ex pl_autonomous_execution_allowed (rk_plans rk))"
    by code_simp
  then obtain plans rk q where
    p: "build_solution_plans demo_env demo_order demo_input no_recall demo_assessments = Inr plans"
      "rank_and_frontiers plans = Inr rk" "q \<in> set (rk_plans rk)" "pl_autonomous_execution_allowed q"
    by (auto simp: list_ex_iff split: sum.splits)
  from autonomous_plan_safe [OF p] p show ?thesis by blast
qed

section \<open>Gates\<close>

text \<open>C3 A plan is EXECUTABLE exactly if its material is available, its dependency closure is feasible, every pack in
  it is seller-sealed, no bound is unavailable, and every applicable gate is clear or has an eligible blocked status
  (\<^verbatim>\<open>ELIGIBLE_WITH_EXCEPTION\<close>) and predicates that could all be tested.\<close>

theorem executable_plan_clear:
  assumes "build_plan E d as n k m = Inr p"
  shows "pl_lifecycle p = EXECUTABLE \<longleftrightarrow>
    pm_available m \<and> pm_dependency_issues m = [] \<and> pm_authority m \<in> {None, Some SELLER_SEALED} \<and>
    (\<forall>g \<in> set (di_gates d). gate_applies g m (active_source_ids d) \<longrightarrow>
       gate_clear E g m (buyer_value_map d) (index_assessments as) \<or>
       eligible_status (gr_blocked_status g) \<and>
         (\<forall>x \<in> set (gr_predicates g). predicate_values E g m (buyer_value_map d) (index_assessments as) x \<noteq> None)) \<and>
    pd_bound_unavailable_reasons (pl_dimensions p) = []"
  using build_plan_executable [OF assms] by (simp only: gate_passes_def)

theorem executable_plan_clear_witness:
  "\<exists>p. build_plan demo_env demo_input demo_assessments 2 2 demo_material = Inr p \<and> pl_lifecycle p = EXECUTABLE \<and>
     pd_bound_unavailable_reasons (pl_dimensions p) = []"
proof -
  have "case build_plan demo_env demo_input demo_assessments 2 2 demo_material of
      Inl _ \<Rightarrow> False | Inr p \<Rightarrow> pl_lifecycle p = EXECUTABLE" by code_simp
  then obtain p where p: "build_plan demo_env demo_input demo_assessments 2 2 demo_material = Inr p"
    "pl_lifecycle p = EXECUTABLE" by (auto split: sum.splits)
  from executable_plan_clear [OF p(1)] p show ?thesis by blast
qed

text \<open>C4 A rule gate reports no reason exactly if it is clear: its seller evidence (for a seller gate) is
  acceptable, every predicate is tested on known values resting on acceptable evidence, and, for a
  requiring gate, all those values match, for a blocking gate, at least one does not. Such a gate is TRUE.\<close>

theorem gate_without_reason_clear:
  assumes "evaluate_gate E g m bv idx = Inr r"
  shows "(gt_reasons r = [] \<longleftrightarrow> gate_clear E g m bv idx) \<and> (gt_reasons r = [] \<longrightarrow> gt_truth r = TruthValue.TRUE)"
  using evaluate_gate_clear [OF assms] by blast

theorem gate_without_reason_clear_witness:
  "\<exists>r. evaluate_gate demo_env (hd (di_gates demo_input)) demo_material [] (index_assessments demo_assessments) = Inr r \<and>
     gate_clear demo_env (hd (di_gates demo_input)) demo_material [] (index_assessments demo_assessments)"
proof -
  have "case evaluate_gate demo_env (hd (di_gates demo_input)) demo_material [] (index_assessments demo_assessments) of
      Inl _ \<Rightarrow> False | Inr r \<Rightarrow> gt_reasons r = []" by code_simp
  then obtain r where
    r: "evaluate_gate demo_env (hd (di_gates demo_input)) demo_material [] (index_assessments demo_assessments) = Inr r"
      "gt_reasons r = []" by (auto split: sum.splits)
  from gate_without_reason_clear [OF r(1)] r show ?thesis by blast
qed

text \<open>The primary status of a plan is the status of one of its gate reasons, and no reason of any gate
  takes precedence over it; a plan without reasons is ELIGIBLE.\<close>

theorem primary_status_precedence:
  "(case primary_status gs of
      (st, None) \<Rightarrow> st = ELIGIBLE \<and> list_all (\<lambda>g. gt_reasons g = []) gs
    | (st, Some r) \<Rightarrow> st = gn_status r \<and> list_ex (\<lambda>g. r \<in> set (gt_reasons g)) gs \<and>
        list_all (\<lambda>g. list_all (\<lambda>r'. precedence_rank st \<le> precedence_rank (gn_status r')) (gt_reasons g)) gs)"
proof (cases "snd (primary_status gs)")
  case None
  then have "fst (primary_status gs) = ELIGIBLE" by (auto simp: primary_status_def split: sum.splits)
  then show ?thesis using None primary_status_None [of gs] by (auto simp: list_all_iff split: prod.splits option.splits)
next
  case (Some r)
  then have "primary_status gs = (fst (primary_status gs), Some r)" by (metis prod.collapse)
  from primary_status_least [OF this] Some show ?thesis
    by (auto simp: list_all_iff list_ex_iff split: prod.splits option.splits)
qed

section \<open>Counterfactuals\<close>

text \<open>C5 A reported counterfactual is a smallest one: removing the reported private facts changes the
  selected plan, removing any smaller non-empty set of private facts does not, and among the sets of that
  size that change it the reported one is lexicographically first.\<close>

theorem counterfactual_smallest:
  assumes "search_private_fact_counterfactuals E S d base generic limit = Inr r"
    "distinct (map ff_fact_id (di_buyer_facts d))" "cf_outcome r = WINNER_CHANGED"
  shows "let c = cf_removed_fact_ids r; run = ablate E S d (ev_generated_at base); sel = ev_selected_plan_id base in
    1 \<le> length c \<and> int (length c) \<le> limit \<and> c \<in> ablations (private_ids d) (length c) \<and>
    (\<exists>e. run c = Inr e \<and> ev_selected_plan_id e \<noteq> sel \<and> cf_after_selected_plan_id r = ev_selected_plan_id e) \<and>
    (\<forall>j c'. 1 \<le> j \<longrightarrow> j < length c \<longrightarrow> c' \<in> ablations (private_ids d) j \<longrightarrow> keeps_winner run sel c') \<and>
    (\<forall>c' e'. c' \<in> ablations (private_ids d) (length c) \<longrightarrow> run c' = Inr e' \<longrightarrow> ev_selected_plan_id e' \<noteq> sel \<longrightarrow> c \<le> c')"
  unfolding Let_def using counterfactual_found [OF assms] by blast

lemma tiny_found:
  "case search_private_fact_counterfactuals demo_env demo_order tiny_input (tiny_base (Some ''x'')) (tiny_base None) 1 of
     Inl _ \<Rightarrow> False | Inr r \<Rightarrow> cf_outcome r = WINNER_CHANGED \<and> cf_removed_fact_ids r = [''f1'']"
  by code_simp

theorem counterfactual_smallest_witness:
  "\<exists>r. search_private_fact_counterfactuals demo_env demo_order tiny_input (tiny_base (Some ''x'')) (tiny_base None) 1 = Inr r \<and>
     cf_removed_fact_ids r = [''f1''] \<and>
     (\<exists>e. ablate demo_env demo_order tiny_input demo_now [''f1''] = Inr e \<and> ev_selected_plan_id e \<noteq> Some ''x'')"
proof -
  from tiny_found obtain r where
    r: "search_private_fact_counterfactuals demo_env demo_order tiny_input (tiny_base (Some ''x'')) (tiny_base None) 1 = Inr r"
      "cf_outcome r = WINNER_CHANGED" "cf_removed_fact_ids r = [''f1'']" by (auto split: sum.splits)
  have "distinct (map ff_fact_id (di_buyer_facts tiny_input))" by (simp add: tiny_input_def demo_input_def)
  from counterfactual_smallest [OF r(1) this r(2)] r show ?thesis
    by (auto simp: Let_def tiny_base_def)
qed

text \<open>When the search reports that it found no small counterfactual, every non-empty set of at most
  \<^verbatim>\<open>limit\<close> private facts was really tried and leaves the selected plan as it is.\<close>

theorem counterfactual_exhaustive:
  assumes "search_private_fact_counterfactuals E S d base generic limit = Inr r"
    "distinct (map ff_fact_id (di_buyer_facts d))" "cf_outcome r = NO_SMALL_COUNTERFACTUAL_FOUND"
    "1 \<le> k" "int k \<le> limit" "c \<in> ablations (private_ids d) k"
  shows "\<exists>e. ablate E S d (ev_generated_at base) c = Inr e \<and> ev_selected_plan_id e = ev_selected_plan_id base"
  using counterfactual_none [OF assms] by (simp add: keeps_winner_def)

theorem counterfactual_exhaustive_witness:
  "\<exists>e. ablate demo_env demo_order tiny_input demo_now [''f1''] = Inr e \<and> ev_selected_plan_id e = None"
proof -
  have "case search_private_fact_counterfactuals demo_env demo_order tiny_input (tiny_base None) (tiny_base None) 1 of
     Inl _ \<Rightarrow> False | Inr r \<Rightarrow> cf_outcome r = NO_SMALL_COUNTERFACTUAL_FOUND"
    by code_simp
  then obtain r where
    r: "search_private_fact_counterfactuals demo_env demo_order tiny_input (tiny_base None) (tiny_base None) 1 = Inr r"
      "cf_outcome r = NO_SMALL_COUNTERFACTUAL_FOUND" by (auto split: sum.splits)
  have d: "distinct (map ff_fact_id (di_buyer_facts tiny_input))" by (simp add: tiny_input_def demo_input_def)
  have "[''f1''] \<in> ablations (private_ids tiny_input) 1"
    by (simp add: ablations_def private_ids_def tiny_input_def demo_input_def)
  from counterfactual_exhaustive [OF r(1) d r(2) _ _ this] show ?thesis by (simp add: tiny_base_def)
qed

section \<open>Recall and identity\<close>

text \<open>Recall loses and invents no record: every candidate record is either excluded with a reason or
  belongs to exactly one canonical identity.\<close>

theorem recall_partitions_records:
  assumes "recall_and_deduplicate E d = Inr r"
  shows "mset (map rc_record_id (di_candidates d)) =
    mset (map rx_record_id (rr_exclusions r)) + mset (concat (map ir_record_ids (rr_identities r)))"
  by (rule recall_records [OF assms])

lemma recall_demo:
  "case recall_and_deduplicate demo_env recall_input of
     Inl _ \<Rightarrow> False | Inr r \<Rightarrow> length (rr_identities r) = 1 \<and> length (rr_exclusions r) = 1"
  by code_simp

theorem recall_partitions_records_witness:
  "\<exists>r. recall_and_deduplicate demo_env recall_input = Inr r \<and>
     mset (map rx_record_id (rr_exclusions r)) + mset (concat (map ir_record_ids (rr_identities r))) =
     {#''r2'', ''r1'', ''r3''#}"
proof -
  from recall_demo obtain r where r: "recall_and_deduplicate demo_env recall_input = Inr r"
    by (auto split: sum.splits)
  from recall_partitions_records [OF r] r show ?thesis
    by (auto simp: recall_input_def tiny_input_def demo_candidate_def)
qed

text \<open>A duplicate never improves a candidate: every record that recall keeps has a representative with
  its canonical identity whose authority is no higher, which is available only if the record is, which
  carries all its seller gates and required products, and which keeps each of its facts, with all its
  evidence, as a fact of the same field and content hash.\<close>

theorem recall_never_improves:
  assumes "recall_and_deduplicate E d = Inr r" "c \<in> set (di_candidates d)"
    "recall_exclusion c d (alias_map d) = Inr None"
  shows "\<exists>rep \<in> set (rr_representatives r).
    identity_key c (alias_map d) = Inr (candidate_identity rep) \<and> no_better_than E rep c"
  by (rule recall_representative [OF assms])

theorem recall_never_improves_witness:
  "\<exists>r. recall_and_deduplicate demo_env recall_input = Inr r \<and>
     (\<exists>rep \<in> set (rr_representatives r). \<not> rc_available rep \<and> no_better_than demo_env rep (demo_candidate ''r1'' ''crm'' [] False)) "
proof -
  from recall_demo obtain r where r: "recall_and_deduplicate demo_env recall_input = Inr r"
    by (auto split: sum.splits)
  have c: "demo_candidate ''r1'' ''crm'' [] False \<in> set (di_candidates recall_input)" by (simp add: recall_input_def)
  have "recall_exclusion (demo_candidate ''r1'' ''crm'' [] False) recall_input (alias_map recall_input) = Inr None"
    by code_simp
  from recall_never_improves [OF r c this] r show ?thesis
    by (auto simp: no_better_than_def demo_candidate_def)
qed

text \<open>The order in which candidate records arrive does not matter to recall.\<close>

theorem recall_ignores_order:
  assumes "mset cs = mset (di_candidates d)" "distinct (map rc_record_id cs)"
  shows "recall_and_deduplicate E (d\<lparr>di_candidates := cs\<rparr>) = recall_and_deduplicate E d"
  by (rule recall_order_independent [OF assms])

theorem recall_ignores_order_witness:
  "recall_and_deduplicate demo_env (recall_input\<lparr>di_candidates := rev (di_candidates recall_input)\<rparr>) =
   recall_and_deduplicate demo_env recall_input"
  by (rule recall_ignores_order) (simp_all add: recall_input_def tiny_input_def demo_candidate_def)

text \<open>C6 Alias resolution follows the alias table from the case-folded name to its end: it returns a name
  exactly if that name is reached and has no alias itself, and otherwise reports a cycle.\<close>

theorem canonical_follows_aliases:
  "(canonical v al = Inr r \<longleftrightarrow> (str_strip (str_lower v), r) \<in> (alias_step al)\<^sup>* \<and> map_of al r = None) \<and>
   (canonical v al \<in> range Inr \<or>
    canonical v al = Inl (ValueError ''identity normalization aliases contain a cycle''))"
  using canonical_iff [of v al r] canonical_Inl [of v al]
  by (intro conjI, simp) (cases "canonical v al"; auto)

section \<open>Evidence\<close>

text \<open>Evidence is ACCEPTABLE exactly if the policy allows its source class, method and scope, it can be
  reconstructed, it is neither disputed nor revoked, and its observation bounds are known and lie within
  the freshness limit of the evaluation time; exactly then no reason is recorded.\<close>

theorem evidence_acceptable_iff:
  assumes "assessment r p fld d = Inr a"
  shows "(ea_state a = EvidenceState.ACCEPTABLE \<longleftrightarrow>
      source_allowed p r \<and> method_allowed p r \<and> scope_allowed p r \<and>
      er_reconstructable r \<and> \<not> er_disputed r \<and> \<not> er_revoked r \<and>
      (\<exists>lo hi. er_observed_at_lower r = Some lo \<and> er_observed_at_upper r = Some hi \<and>
         micros (di_evaluated_at d) - micros lo \<le> ep_freshness_sla_seconds p * 1000000)) \<and>
    (ea_reasons a = [] \<longleftrightarrow> ea_state a = EvidenceState.ACCEPTABLE)"
  using assessment_acceptable [OF assms] assessment_reasons_empty [OF assms] by blast

theorem evidence_acceptable_iff_witness:
  "\<exists>a. assessment (hd (di_evidence demo_input)) (hd (di_evidence_policies demo_input)) ''soc2'' demo_input = Inr a \<and>
     ea_state a = EvidenceState.ACCEPTABLE \<and> ea_reasons a = []"
proof -
  have "case assessment (hd (di_evidence demo_input)) (hd (di_evidence_policies demo_input)) ''soc2'' demo_input of
      Inl _ \<Rightarrow> False | Inr a \<Rightarrow> ea_state a = EvidenceState.ACCEPTABLE" by code_simp
  then obtain a where
    "assessment (hd (di_evidence demo_input)) (hd (di_evidence_policies demo_input)) ''soc2'' demo_input = Inr a"
    "ea_state a = EvidenceState.ACCEPTABLE" by (auto split: sum.splits)
  then show ?thesis using evidence_acceptable_iff by blast
qed

text \<open>Every decision-material pair of evidence and field is assessed exactly once, in ascending order.\<close>

theorem evidence_assessed_once:
  assumes "assess_evidence d r = Inr as"
  shows "map (\<lambda>a. (ea_evidence_id a, ea_field a)) as = sorted_set (material_pairs d r)"
  by (rule assess_evidence_pairs [OF assms])

theorem evidence_assessed_once_witness:
  "\<exists>as. assess_evidence demo_input no_recall = Inr as \<and>
     map (\<lambda>a. (ea_evidence_id a, ea_field a)) as = [(''e1'', ''soc2'')]"
proof -
  have "case assess_evidence demo_input no_recall of Inl _ \<Rightarrow> False | Inr as \<Rightarrow> as \<noteq> []" by code_simp
  then obtain as where as: "assess_evidence demo_input no_recall = Inr as" by (auto split: sum.splits)
  have "sorted_set (material_pairs demo_input no_recall) = [(''e1'', ''soc2'')]" by code_simp
  with evidence_assessed_once [OF as] as show ?thesis by simp
qed

section \<open>Bundles\<close>

text \<open>The dependency closure of a pack ends with the pack, lists each product once, takes its records from
  the recalled representatives, and, when it reports no issue, lists every required product before the
  record that requires it.\<close>

theorem closure_is_dependency_order:
  assumes "dependency_closure reps r = (records, issues)" "r \<in> set reps"
  shows "distinct (map rc_product_id records) \<and> set records \<subseteq> set reps \<and> records \<noteq> [] \<and> last records = r \<and>
    (issues = [] \<longrightarrow> deps_before records)"
  using closure_order [OF assms] by blast

theorem closure_is_dependency_order_witness:
  "let reps = [demo_candidate ''r1'' ''app'' [''db'', ''os''] True, demo_candidate ''r2'' ''db'' [''os''] True,
               demo_candidate ''r3'' ''os'' [] True]
   in map rc_product_id (fst (dependency_closure reps (hd reps))) = [''os'', ''db'', ''app''] \<and>
      deps_before (fst (dependency_closure reps (hd reps)))"
proof -
  let ?reps = "[demo_candidate ''r1'' ''app'' [''db'', ''os''] True, demo_candidate ''r2'' ''db'' [''os''] True,
               demo_candidate ''r3'' ''os'' [] True]"
  have e: "map rc_product_id (fst (dependency_closure ?reps (hd ?reps))) = [''os'', ''db'', ''app''] \<and>
      snd (dependency_closure ?reps (hd ?reps)) = []" by code_simp
  have "dependency_closure ?reps (hd ?reps) =
      (fst (dependency_closure ?reps (hd ?reps)), snd (dependency_closure ?reps (hd ?reps)))" by simp
  from closure_is_dependency_order [OF this] e show ?thesis by (simp add: Let_def)
qed

text \<open>The total of a bundle is the exact sum of its components' amounts, to the cent, whenever the sum fits
  the decimal context.\<close>

theorem bundle_total_is_sum:
  assumes "bundle_total n cur vs = Inr (Some m)" "\<forall>v \<in> set vs. \<exists>x. v = Some x \<and> money_ok x"
    "sum_list (map (\<lambda>v. cents (amount (the v))) vs) < 10 ^ dec_prec"
  shows "cents (amount m) = sum_list (map (\<lambda>v. cents (amount (the v))) vs)"
  by (rule bundle_total_exact(1) [OF assms])

theorem bundle_total_is_sum_witness:
  "\<exists>m. bundle_total 2 ''USD'' [Some (demo_usd 1), Some (demo_usd 2)] = Inr (Some m) \<and> cents (amount m) = 300"
proof -
  have "case bundle_total 2 ''USD'' [Some (demo_usd 1), Some (demo_usd 2)] of
      Inr (Some m) \<Rightarrow> True | _ \<Rightarrow> False" by code_simp
  then obtain m where m: "bundle_total 2 ''USD'' [Some (demo_usd 1), Some (demo_usd 2)] = Inr (Some m)"
    by (auto split: sum.splits option.splits)
  have "money_ok (demo_usd 1)" "money_ok (demo_usd 2)" by code_simp+
  then have "cents (amount m) = sum_list (map (\<lambda>v. cents (amount (the v))) [Some (demo_usd 1), Some (demo_usd 2)])"
    by (intro bundle_total_is_sum [OF m]) (simp_all add: demo_usd_def cents_def dec_prec_def)
  then show ?thesis using m by (simp add: demo_usd_def cents_def)
qed

section \<open>Bounds\<close>

text \<open>The ordering bounds of a plan are available exactly if no reason says otherwise; computing them never
  raises, and available bounds are intervals in every dimension.\<close>

theorem bounds_available_iff_no_reason:
  assumes "material_dimensions E d m gates as n k = Inr (scores, dims, ids)"
  shows "\<exists>ob. ordering_bounds dims = Inr ob \<and> (ob = None \<longleftrightarrow> pd_bound_unavailable_reasons dims \<noteq> []) \<and>
    (\<forall>b. ob = Some b \<longrightarrow> ordering_ok b)"
  using material_dimensions_bounds [OF assms] by metis

theorem bounds_available_iff_no_reason_witness:
  "\<exists>scores dims ids b. material_dimensions demo_env demo_input demo_material [] demo_assessments 2 2 = Inr (scores, dims, ids) \<and>
     ordering_bounds dims = Inr (Some b) \<and> ordering_ok b"
proof -
  have "case material_dimensions demo_env demo_input demo_material [] demo_assessments 2 2 of
      Inl _ \<Rightarrow> False | Inr x \<Rightarrow> pd_bound_unavailable_reasons (fst (snd x)) = []" by code_simp
  then obtain scores dims ids where
    m: "material_dimensions demo_env demo_input demo_material [] demo_assessments 2 2 = Inr (scores, dims, ids)"
      "pd_bound_unavailable_reasons dims = []"
    by (cases "material_dimensions demo_env demo_input demo_material [] demo_assessments 2 2") auto
  from bounds_available_iff_no_reason [OF m(1)] m show ?thesis by auto
qed

text \<open>The preference score bounds enclose the score of every assignment of satisfactions inside the
  criteria's own bounds, and stay between 0 and 100.\<close>

theorem preference_bounds_bracket:
  assumes "criteria \<noteq> []" "distinct (map pcb_criterion_id criteria)" "\<forall>i \<in> set criteria. criterion_ok i"
  shows "\<exists>b. aggregate_preference_bounds criteria = Inr b \<and>
    0 \<le> ratio_fraction (psb_conservative b) \<and> ratio_fraction (psb_optimistic b) \<le> 100 \<and>
    (\<forall>sat. (\<forall>i \<in> set criteria. ratio_fraction (conservative_satisfaction i) \<le> sat i \<and>
        sat i \<le> ratio_fraction (optimistic_satisfaction i)) \<longrightarrow>
      ratio_fraction (psb_conservative b) \<le> weighted_score (map (\<lambda>i. (pcb_weight i, sat i)) criteria) \<and>
      weighted_score (map (\<lambda>i. (pcb_weight i, sat i)) criteria) \<le> ratio_fraction (psb_optimistic b))"
proof (rule aggregate_preference_bounds_bracket [OF assms], goal_cases)
  case (1 b)
  then show ?case by (intro exI [of _ b] conjI allI impI) auto
qed

theorem preference_bounds_bracket_witness:
  "let c = \<lparr>pcb_criterion_id = ''p1'', pcb_weight = 3, conservative_satisfaction = ratio_of 0,
            optimistic_satisfaction = ratio_of 1\<rparr>
   in \<exists>b. aggregate_preference_bounds [c] = Inr b \<and>
        ratio_fraction (psb_conservative b) \<le> weighted_score [(3, 1/2)] \<and>
        weighted_score [(3, 1/2)] \<le> ratio_fraction (psb_optimistic b)"
proof -
  let ?c = "\<lparr>pcb_criterion_id = ''p1'', pcb_weight = 3, conservative_satisfaction = ratio_of 0,
            optimistic_satisfaction = ratio_of 1\<rparr>"
  have "criterion_ok ?c" by (simp add: criterion_ok_def)
  then obtain b where b: "aggregate_preference_bounds [?c] = Inr b"
    "\<forall>sat. (\<forall>i \<in> set [?c]. ratio_fraction (conservative_satisfaction i) \<le> sat i \<and>
        sat i \<le> ratio_fraction (optimistic_satisfaction i)) \<longrightarrow>
      ratio_fraction (psb_conservative b) \<le> weighted_score (map (\<lambda>i. (pcb_weight i, sat i)) [?c]) \<and>
      weighted_score (map (\<lambda>i. (pcb_weight i, sat i)) [?c]) \<le> ratio_fraction (psb_optimistic b)"
    using preference_bounds_bracket [of "[?c]"] by auto
  from b(2) [rule_format, of "\<lambda>_. 1/2"] b(1) show ?thesis by (simp add: Let_def)
qed

text \<open>Two exact ratios built by the constructor are equal exactly if they denote the same number, so the
  hashed numerator and denominator are canonical.\<close>

theorem exact_ratio_canonical:
  assumes "mk_ExactRatio n d = Inr r" "mk_ExactRatio n' d' = Inr r'"
  shows "r = r' \<longleftrightarrow> n * d' = n' * d"
proof -
  have nz: "d \<noteq> 0" "d' \<noteq> 0" using assms by (auto simp: mk_ExactRatio_def split: if_splits)
  have "r = r' \<longleftrightarrow> (of_int n / of_int d :: rat) = of_int n' / of_int d'"
    using ratio_eq_iff [OF mk_ExactRatio_ok(1) [OF assms(1)] mk_ExactRatio_ok(1) [OF assms(2)]]
      mk_ExactRatio_ok(2) [OF assms(1)] mk_ExactRatio_ok(2) [OF assms(2)] by simp
  also have "\<dots> \<longleftrightarrow> (of_int (n * d') :: rat) = of_int (n' * d)" using nz by (simp add: frac_eq_eq)
  finally show ?thesis by (simp only: of_int_eq_iff)
qed

theorem exact_ratio_canonical_witness:
  "mk_ExactRatio 2 4 = Inr (ratio_of (1/2)) \<and> mk_ExactRatio (-3) (-6) = Inr (ratio_of (1/2)) \<and> (2 * (-6) = (-3) * (4::int))"
proof -
  have "mk_ExactRatio 2 4 = Inr (ratio_of (1/2))" "mk_ExactRatio (-3) (-6) = Inr (ratio_of (1/2))" by code_simp+
  then show ?thesis using exact_ratio_canonical by blast
qed

section \<open>Money\<close>

text \<open>Adding two well-formed amounts of one currency is exact or refused: the sum, when returned, is
  well-formed and denotes the sum of the two amounts.\<close>

theorem money_addition_exact:
  assumes "money_ok a" "money_ok b" "money_add a b = Inr s"
  shows "amount_rat (amount s) = amount_rat (amount a) + amount_rat (amount b) \<and> money_ok s"
  using money_add_exact [OF assms] by blast

theorem money_addition_exact_witness:
  "\<exists>s. money_add (demo_usd 1) (demo_usd 2) = Inr s \<and> amount_rat (amount s) = amount_rat (1, 0) + amount_rat (2, 0)"
proof -
  have "case money_add (demo_usd 1) (demo_usd 2) of Inl _ \<Rightarrow> False | Inr _ \<Rightarrow> True" by code_simp
  then obtain s where s: "money_add (demo_usd 1) (demo_usd 2) = Inr s" by (auto split: sum.splits)
  have "money_ok (demo_usd 1)" "money_ok (demo_usd 2)" by code_simp+
  from money_addition_exact [OF this s] s show ?thesis by (auto simp: demo_usd_def)
qed

text \<open>Writing a well-formed amount as a dictionary and reading it back gives the same amount.\<close>

theorem money_roundtrip:
  assumes "money_ok m" shows "money_from_dict (money_to_dict m) = Inr m"
  by (rule money_dict_roundtrip [OF assms])

theorem money_roundtrip_witness: "money_from_dict (money_to_dict (demo_usd 2)) = Inr (demo_usd 2)"
proof -
  have "money_ok (demo_usd 2)" by code_simp
  then show ?thesis by (rule money_roundtrip)
qed

end
