(* ===== verification/Documents.thy ===== *)
theory Documents
  imports Values
begin

text \<open>
  JSON documents as \<^verbatim>\<open>json.loads\<close> returns them, restricted to integral numbers, and the Python
  operations the readers of such documents use: subscription, \<^verbatim>\<open>get\<close>, iteration, truth value,
  \<^verbatim>\<open>str\<close> and \<^verbatim>\<open>int\<close> conversion. A document object has distinct keys, in document order.
\<close>

section \<open>str and repr\<close>

definition hex_digit :: "nat \<Rightarrow> char" where
  "hex_digit n = (if n < 10 then digit_char n else char_of (n + 87))"

definition escape_char :: "char \<Rightarrow> char \<Rightarrow> string" where
  "escape_char quote c =
     (let n = of_char c :: nat in
      if c = quote \<or> n = 92 then [char_of (92 :: nat), c]
      else if n = 10 then [char_of (92 :: nat), CHR ''n'']
      else if n = 13 then [char_of (92 :: nat), CHR ''r'']
      else if n = 9 then [char_of (92 :: nat), CHR ''t'']
      else if n < 32 \<or> n = 127 then [char_of (92 :: nat), CHR ''x'', hex_digit (n div 16), hex_digit (n mod 16)]
      else [c])"

definition str_repr :: "string \<Rightarrow> string" where
  "str_repr s =
     (let single = CHR 0x27; double = CHR 0x22;
          quote = (if single \<in> set s \<and> double \<notin> set s then double else single)
      in [quote] @ concat (map (escape_char quote) s) @ [quote])"

fun json_repr :: "json \<Rightarrow> string" where
  "json_repr JNull = ''None''"
| "json_repr (JBool b) = (if b then ''True'' else ''False'')"
| "json_repr (JInt i) = show_int i"
| "json_repr (JStr s) = str_repr s"
| "json_repr (JArr js) = ''['' @ str_join '', '' (map json_repr js) @ '']''"
| "json_repr (JObj kvs) = ''{'' @ str_join '', '' (map (\<lambda>(k, v). str_repr k @ '': '' @ json_repr v) kvs) @ ''}''"

fun json_str :: "json \<Rightarrow> string" where
  "json_str (JStr s) = s"
| "json_str j = json_repr j"

section \<open>Access\<close>

fun json_item :: "json \<Rightarrow> string \<Rightarrow> json res" where
  "json_item (JObj kvs) k = (case map_of kvs k of Some v \<Rightarrow> Inr v | None \<Rightarrow> Inl (KeyError k))"
| "json_item _ k = Inl TypeError"

text \<open>\<^verbatim>\<open>data.get(key, default)\<close> on a document object\<close>

definition json_get :: "(string \<times> json) list \<Rightarrow> string \<Rightarrow> json \<Rightarrow> json" where
  "json_get kvs k d = (case map_of kvs k of Some v \<Rightarrow> v | None \<Rightarrow> d)"

fun json_iter :: "json \<Rightarrow> json list res" where
  "json_iter (JArr js) = Inr js"
| "json_iter (JObj kvs) = Inr (map (\<lambda>(k, v). JStr k) kvs)"
| "json_iter (JStr s) = Inr (map (\<lambda>c. JStr [c]) s)"
| "json_iter _ = Inl TypeError"

fun json_truthy :: "json \<Rightarrow> bool" where
  "json_truthy JNull = False"
| "json_truthy (JBool b) = b"
| "json_truthy (JInt i) = (i \<noteq> 0)"
| "json_truthy (JStr s) = (s \<noteq> [])"
| "json_truthy (JArr js) = (js \<noteq> [])"
| "json_truthy (JObj kvs) = (kvs \<noteq> [])"

text \<open>\<^verbatim>\<open>int(text)\<close>: surrounding space, a sign, and digits in which single underscores may stand.\<close>

definition int_digits_ok :: "string \<Rightarrow> bool" where
  "int_digits_ok s \<longleftrightarrow> list_all (\<lambda>p. p \<noteq> [] \<and> list_all is_digit p) (str_split (CHR ''_'') s)"

definition parse_int :: "string \<Rightarrow> int res" where
  "parse_int s =
     (let t = str_strip s in
      case read_sign t of (sg, ds) \<Rightarrow>
        if int_digits_ok ds then Inr (sg * int (digits_val (filter is_digit ds)))
        else Inl (ValueError ''invalid literal for int() with base 10''))"

fun json_int :: "json \<Rightarrow> int res" where
  "json_int (JInt i) = Inr i"
| "json_int (JBool b) = Inr (of_bool b)"
| "json_int (JStr s) = parse_int s"
| "json_int _ = Inl TypeError"

text \<open>The Python value of a document.\<close>

fun json_value :: "json \<Rightarrow> pyval" where
  "json_value JNull = PyNone"
| "json_value (JBool b) = PyBool b"
| "json_value (JInt i) = PyInt i"
| "json_value (JStr s) = PyStr s"
| "json_value (JArr js) = PyList (map json_value js)"
| "json_value (JObj kvs) = PyDict (map (\<lambda>(k, v). (KStr k, json_value v)) kvs)"

text \<open>A value that canonical JSON keeps as it is: what \<^verbatim>\<open>json.loads\<close> gives back is the same value
  once frozen.\<close>

fun json_like :: "pyval \<Rightarrow> bool" where
  "json_like (PyTuple xs) = list_all json_like xs"
| "json_like (PyDict kvs) = list_all (\<lambda>(k, v). (case k of KStr _ \<Rightarrow> True | KOther _ \<Rightarrow> False) \<and> json_like v) kvs"
| "json_like v = (case v of PyNone \<Rightarrow> True | PyBool _ \<Rightarrow> True | PyInt _ \<Rightarrow> True | PyStr _ \<Rightarrow> True | _ \<Rightarrow> False)"

lemma json_value_normalize:
  "normalize [] v = Inr j \<Longrightarrow> json_like v \<Longrightarrow> deep_freeze (json_value j) = v"
  "normalize_list [] vs = Inr js \<Longrightarrow> list_all json_like vs \<Longrightarrow> map (\<lambda>j. deep_freeze (json_value j)) js = vs"
  "normalize_fields [] fs = Inr fjs \<Longrightarrow> True"
  "normalize_items [] kvs = Inr kjs \<Longrightarrow> json_like (PyDict kvs) \<Longrightarrow>
     map (\<lambda>(k, j). (KStr k, deep_freeze (json_value j))) kjs = kvs"
proof (induction "[] :: string list" v and "[] :: string list" vs and "[] :: string list" fs
    and "[] :: string list" kvs arbitrary: j and js and fjs and kjs
    rule: normalize_normalize_list_normalize_fields_normalize_items.induct)
qed (auto simp: bindE_Inr_conv unsupported_def comp_def case_prod_beta)

end
