(* ===== verification/StackfileModel.thy ===== *)
theory StackfileModel
  imports Documents Enums
begin

text \<open>
  The Stackfile graph (\<^verbatim>\<open>src/python/stackfile/models.py\<close>): nodes, edges and snapshots with the
  checks of their constructors, the graph validation with its depth first search for cycles of hard
  dependencies, and the readers of the two lock document formats. The text of a document is read
  from a file; the model starts at the parsed document. The search of the source recurses once per
  node on a path, so a path longer than the recursion limit of the interpreter is not modelled.
\<close>

section \<open>Enumerations\<close>

datatype NodeType =
    ORGANIZATION | BUSINESS_GOAL | JTBD | WORKFLOW | CAPABILITY | TEAM | ROLE | PERSON_REF
    | PRODUCT | PRODUCT_VERSION | PRODUCT_INSTANCE | IMPLEMENTATION_PROJECT | OFFER | CONTRACT
    | ENTITLEMENT | INTEGRATION | DATA_ASSET | POLICY | BUDGET | VENDOR | DECISION | OUTCOME
    | RISK

fun node_type_value :: "NodeType \<Rightarrow> string" where
  "node_type_value ORGANIZATION = ''organization''"
| "node_type_value BUSINESS_GOAL = ''business_goal''"
| "node_type_value JTBD = ''jtbd''"
| "node_type_value WORKFLOW = ''workflow''"
| "node_type_value CAPABILITY = ''capability''"
| "node_type_value TEAM = ''team''"
| "node_type_value ROLE = ''role''"
| "node_type_value PERSON_REF = ''person_ref''"
| "node_type_value PRODUCT = ''product''"
| "node_type_value PRODUCT_VERSION = ''product_version''"
| "node_type_value PRODUCT_INSTANCE = ''product_instance''"
| "node_type_value IMPLEMENTATION_PROJECT = ''implementation_project''"
| "node_type_value OFFER = ''offer''"
| "node_type_value CONTRACT = ''contract''"
| "node_type_value ENTITLEMENT = ''entitlement''"
| "node_type_value INTEGRATION = ''integration''"
| "node_type_value DATA_ASSET = ''data_asset''"
| "node_type_value POLICY = ''policy''"
| "node_type_value BUDGET = ''budget''"
| "node_type_value VENDOR = ''vendor''"
| "node_type_value DECISION = ''decision''"
| "node_type_value OUTCOME = ''outcome''"
| "node_type_value RISK = ''risk''"

definition node_types :: "NodeType list" where
  "node_types = [ORGANIZATION, BUSINESS_GOAL, JTBD, WORKFLOW, CAPABILITY, TEAM,
     ROLE, PERSON_REF, PRODUCT, PRODUCT_VERSION, PRODUCT_INSTANCE, IMPLEMENTATION_PROJECT,
     OFFER, CONTRACT, ENTITLEMENT, INTEGRATION, DATA_ASSET, POLICY,
     BUDGET, VENDOR, DECISION, OUTCOME, RISK]"

datatype EdgeType =
    FULFILLS | FULFILLED_BY | PROVIDES | REQUIRES_CAPABILITY | DEPLOYED_FOR | REQUIRES
    | INTEGRATES_WITH | SENDS_DATA_TO | REPLACES | OVERLAPS_WITH | BLOCKS | CONSTRAINED_BY
    | OWNED_BY | USED_BY | PAID_BY | PROVISIONED_BY | GOVERNED_BY | MEASURED_BY | RENEWED_BY

fun edge_type_value :: "EdgeType \<Rightarrow> string" where
  "edge_type_value FULFILLS = ''fulfills''"
| "edge_type_value FULFILLED_BY = ''fulfilled_by''"
| "edge_type_value PROVIDES = ''provides''"
| "edge_type_value REQUIRES_CAPABILITY = ''requires_capability''"
| "edge_type_value DEPLOYED_FOR = ''deployed_for''"
| "edge_type_value REQUIRES = ''requires''"
| "edge_type_value INTEGRATES_WITH = ''integrates_with''"
| "edge_type_value SENDS_DATA_TO = ''sends_data_to''"
| "edge_type_value REPLACES = ''replaces''"
| "edge_type_value OVERLAPS_WITH = ''overlaps_with''"
| "edge_type_value BLOCKS = ''blocks''"
| "edge_type_value CONSTRAINED_BY = ''constrained_by''"
| "edge_type_value OWNED_BY = ''owned_by''"
| "edge_type_value USED_BY = ''used_by''"
| "edge_type_value PAID_BY = ''paid_by''"
| "edge_type_value PROVISIONED_BY = ''provisioned_by''"
| "edge_type_value GOVERNED_BY = ''governed_by''"
| "edge_type_value MEASURED_BY = ''measured_by''"
| "edge_type_value RENEWED_BY = ''renewed_by''"

definition edge_types :: "EdgeType list" where
  "edge_types = [FULFILLS, FULFILLED_BY, PROVIDES, REQUIRES_CAPABILITY, DEPLOYED_FOR, REQUIRES,
     INTEGRATES_WITH, SENDS_DATA_TO, REPLACES, OVERLAPS_WITH, BLOCKS, CONSTRAINED_BY,
     OWNED_BY, USED_BY, PAID_BY, PROVISIONED_BY, GOVERNED_BY, MEASURED_BY,
     RENEWED_BY]"

definition instance_states :: "ProductInstanceState list" where
  "instance_states = [PROPOSED, CONTRACTED, PROVISIONED, DEPLOYING, ACTIVE, DEGRADED, RETIRING, CANCELLED]"

definition stack_risks :: "StackRisk list" where
  "stack_risks = [LOW, MEDIUM, HIGH, CRITICAL]"

text \<open>\<^verbatim>\<open>_enum\<close> on a document value: the member with that text, or with its upper case text.\<close>

definition coerce_enum :: "('a \<Rightarrow> string) \<Rightarrow> 'a list \<Rightarrow> json \<Rightarrow> string \<Rightarrow> 'a res" where
  "coerce_enum val members v field_name =
     (let bad = Inl (DomainValidationError (''unsupported '' @ field_name @ '': '' @ json_str v))
      in case v of
           JStr s \<Rightarrow> (case find (\<lambda>m. val m = s) members of
               Some m \<Rightarrow> Inr m
             | None \<Rightarrow> (case find (\<lambda>m. val m = str_upper s) members of Some m \<Rightarrow> Inr m | None \<Rightarrow> bad))
         | _ \<Rightarrow> bad)"

section \<open>Nodes and edges\<close>

record StackNode =
  sn_node_id :: string
  sn_alias :: string
  sn_node_type :: NodeType
  sn_attributes :: pyval
  sn_state :: "ProductInstanceState option"

definition mk_StackNode :: "StackNode \<Rightarrow> StackNode res" where
  "mk_StackNode n =
     bindE (require_id (sn_node_id n) ''node_id'') (\<lambda>_.
     bindE (require_id (sn_alias n) ''alias'') (\<lambda>_.
       if sn_node_type n = PRODUCT_INSTANCE \<and> sn_state n = None
       then Inl (DomainValidationError ''product_instance nodes require lifecycle state'')
       else if sn_node_type n \<noteq> PRODUCT_INSTANCE \<and> sn_state n \<noteq> None
       then Inl (DomainValidationError ''only product_instance nodes have lifecycle state'')
       else Inr (n\<lparr>sn_attributes := deep_freeze (sn_attributes n)\<rparr>)))"

definition py_stack_node :: "StackNode \<Rightarrow> pyval" where
  "py_stack_node n = PyObj
     [(''node_id'', PyStr (sn_node_id n)),
      (''alias'', PyStr (sn_alias n)),
      (''node_type'', PyStr (node_type_value (sn_node_type n))),
      (''attributes'', sn_attributes n),
      (''product_instance_state'', py_opt (\<lambda>s. PyStr (instance_state_value s)) (sn_state n))]"

definition node_state_from :: "(string \<times> json) list \<Rightarrow> ProductInstanceState option res" where
  "node_state_from kvs =
     (case json_get kvs ''product_instance_state'' JNull of
        JNull \<Rightarrow> Inr None
      | v \<Rightarrow> bindE (coerce_enum instance_state_value instance_states v ''product_instance_state'') (\<lambda>s. Inr (Some s)))"

fun node_from_dict :: "json \<Rightarrow> StackNode res" where
  "node_from_dict (JObj kvs) =
     bindE (json_item (JObj kvs) ''node_id'') (\<lambda>nid.
     bindE (json_item (JObj kvs) ''alias'') (\<lambda>al.
     bindE (json_item (JObj kvs) ''node_type'') (\<lambda>ty.
     bindE (coerce_enum node_type_value node_types ty ''node_type'') (\<lambda>nt.
     bindE (node_state_from kvs) (\<lambda>st.
       mk_StackNode \<lparr>sn_node_id = json_str nid, sn_alias = json_str al, sn_node_type = nt,
         sn_attributes = json_value (json_get kvs ''attributes'' (JObj [])), sn_state = st\<rparr>)))))"
| "node_from_dict _ = Inl TypeError"

record StackEdge =
  se_edge_id :: string
  se_from_node_id :: string
  se_to_node_id :: string
  se_edge_type :: EdgeType
  se_criticality :: StackRisk
  se_hard :: bool
  se_evidence_ref :: pyval
  se_confidence :: string

definition edge_confidences :: "string list" where
  "edge_confidences = [''confirmed'', ''measured'', ''observed'', ''inferred'', ''unknown'']"

definition mk_StackEdge :: "StackEdge \<Rightarrow> StackEdge res" where
  "mk_StackEdge e =
     bindE (require_id (se_edge_id e) ''edge_id'') (\<lambda>_.
     bindE (require_id (se_from_node_id e) ''from_node_id'') (\<lambda>_.
     bindE (require_id (se_to_node_id e) ''to_node_id'') (\<lambda>_.
       if se_from_node_id e = se_to_node_id e
       then Inl (DomainValidationError ''Stackfile self-edges are prohibited'')
       else if se_confidence e \<notin> set edge_confidences
       then Inl (DomainValidationError ''unsupported Stackfile edge confidence'')
       else Inr e)))"

definition py_stack_edge :: "StackEdge \<Rightarrow> pyval" where
  "py_stack_edge e = PyObj
     [(''edge_id'', PyStr (se_edge_id e)),
      (''from_node_id'', PyStr (se_from_node_id e)),
      (''to_node_id'', PyStr (se_to_node_id e)),
      (''edge_type'', PyStr (edge_type_value (se_edge_type e))),
      (''criticality'', PyStr (stack_risk_value (se_criticality e))),
      (''hard'', PyBool (se_hard e)),
      (''evidence_ref'', se_evidence_ref e),
      (''confidence'', PyStr (se_confidence e))]"

fun edge_from_dict :: "json \<Rightarrow> StackEdge res" where
  "edge_from_dict (JObj kvs) =
     bindE (json_item (JObj kvs) ''edge_id'') (\<lambda>eid.
     bindE (json_item (JObj kvs) ''from_node_id'') (\<lambda>fr.
     bindE (json_item (JObj kvs) ''to_node_id'') (\<lambda>to.
     bindE (json_item (JObj kvs) ''edge_type'') (\<lambda>ty.
     bindE (coerce_enum edge_type_value edge_types ty ''edge_type'') (\<lambda>et.
     bindE (coerce_enum stack_risk_value stack_risks (json_get kvs ''criticality'' (JStr ''LOW'')) ''criticality'') (\<lambda>cr.
       mk_StackEdge \<lparr>se_edge_id = json_str eid, se_from_node_id = json_str fr, se_to_node_id = json_str to,
         se_edge_type = et, se_criticality = cr,
         se_hard = json_truthy (json_get kvs ''hard'' (JBool False)),
         se_evidence_ref = json_value (json_get kvs ''evidence_ref'' JNull),
         se_confidence = json_str (json_get kvs ''confidence'' (JStr ''confirmed''))\<rparr>))))))"
| "edge_from_dict _ = Inl TypeError"

section \<open>Graph validation\<close>

definition hard_edge :: "StackEdge \<Rightarrow> bool" where
  "hard_edge e \<longleftrightarrow> se_hard e \<and> se_edge_type e \<in> {REQUIRES, REQUIRES_CAPABILITY}"

definition hard_graph :: "StackNode list \<Rightarrow> StackEdge list \<Rightarrow> (string \<times> string list) list" where
  "hard_graph nodes edges =
     map (\<lambda>n. (sn_node_id n,
        map se_to_node_id (filter (\<lambda>e. hard_edge e \<and> se_from_node_id e = sn_node_id n) edges))) nodes"

function visit_node :: "(string \<times> string list) list \<Rightarrow> string list \<Rightarrow> string \<Rightarrow> string list \<Rightarrow> string list res"
  and visit_nodes :: "(string \<times> string list) list \<Rightarrow> string list \<Rightarrow> string list \<Rightarrow> string list \<Rightarrow> string list res"
where
  "visit_node g visiting n visited =
     (if n \<in> set visiting then Inl (DomainValidationError ''hard directed dependency cycle detected'')
      else if n \<in> set visited then Inr visited
      else case map_of g n of
             None \<Rightarrow> Inl (KeyError n)
           | Some ds \<Rightarrow> bindE (visit_nodes g (n # visiting) ds visited) (\<lambda>v. Inr (v @ [n])))"
| "visit_nodes g visiting [] visited = Inr visited"
| "visit_nodes g visiting (d # ds) visited =
     bindE (visit_node g visiting d visited) (\<lambda>v. visit_nodes g visiting ds v)"
  by pat_completeness auto

termination
proof (relation "inv_image (less_than <*lex*> less_than)
    (\<lambda>x. case x of
       Inl (g, visiting, n, v) \<Rightarrow> (2 * card (dom (map_of g) - set visiting), 0)
     | Inr (g, visiting, ds, v) \<Rightarrow> (2 * card (dom (map_of g) - set visiting) + 1, length ds))", goal_cases)
  case (2 g visiting n v ds)
  then have "dom (map_of g) - set (n # visiting) \<subset> dom (map_of g) - set visiting" by auto
  then have "card (dom (map_of g) - set (n # visiting)) < card (dom (map_of g) - set visiting)"
    by (simp add: psubset_card_mono finite_dom_map_of)
  then show ?case by auto
qed auto

definition validate_no_hard_dependency_cycle :: "StackNode list \<Rightarrow> StackEdge list \<Rightarrow> unit res" where
  "validate_no_hard_dependency_cycle nodes edges =
     bindE (visit_nodes (hard_graph nodes edges) [] (sort (map fst (hard_graph nodes edges))) []) (\<lambda>_. Inr ())"

definition inactive_instance :: "StackNode list \<Rightarrow> string \<Rightarrow> bool" where
  "inactive_instance nodes nid =
     list_ex (\<lambda>n. sn_node_id n = nid \<and> sn_node_type n = PRODUCT_INSTANCE \<and> sn_state n \<noteq> Some ACTIVE) nodes"

definition validate_edge :: "StackNode list \<Rightarrow> StackEdge \<Rightarrow> unit res" where
  "validate_edge nodes e =
     (let ids = map sn_node_id nodes in
      if se_from_node_id e \<notin> set ids \<or> se_to_node_id e \<notin> set ids
      then Inl (DomainValidationError ''Stackfile edges must reference nodes in the same snapshot'')
      else if se_edge_type e = FULFILLS \<and> inactive_instance nodes (se_from_node_id e)
      then Inl (DomainValidationError ''only active product instances can fulfill a JTBD'')
      else if se_edge_type e = FULFILLED_BY \<and> inactive_instance nodes (se_to_node_id e)
      then Inl (DomainValidationError ''only active product instances can fulfill a JTBD'')
      else Inr ())"

definition validate_graph :: "StackNode list \<Rightarrow> StackEdge list \<Rightarrow> unit res" where
  "validate_graph nodes edges =
     (if \<not> distinct (map sn_node_id nodes)
      then Inl (DomainValidationError ''Stackfile node IDs must be unique'')
      else if \<not> distinct (map sn_alias nodes)
      then Inl (DomainValidationError ''Stackfile aliases must be unique per snapshot'')
      else if \<not> distinct (map se_edge_id edges)
      then Inl (DomainValidationError ''Stackfile edge IDs must be unique'')
      else bindE (mapE (validate_edge nodes) edges) (\<lambda>_. validate_no_hard_dependency_cycle nodes edges))"

section \<open>Snapshots\<close>

record StackSnapshot =
  ss_schema_version :: string
  ss_organization_id :: string
  ss_version :: int
  ss_nodes :: "StackNode list"
  ss_edges :: "StackEdge list"
  ss_content_hash :: string

definition py_snapshot :: "StackSnapshot \<Rightarrow> pyval" where
  "py_snapshot s = dict_str
     [(''schema_version'', PyStr (ss_schema_version s)),
      (''organization_id'', PyStr (ss_organization_id s)),
      (''version'', PyInt (ss_version s)),
      (''nodes'', PyTuple (map py_stack_node (ss_nodes s))),
      (''edges'', PyTuple (map py_stack_edge (ss_edges s)))]"

definition mk_StackSnapshot :: "hash_env \<Rightarrow> StackSnapshot \<Rightarrow> StackSnapshot res" where
  "mk_StackSnapshot E s0 =
     (if ss_schema_version s0 = [] then Inl (DomainValidationError ''Stackfile schema_version is required'')
      else bindE (require_id (ss_organization_id s0) ''organization_id'') (\<lambda>_.
        if ss_version s0 < 1 then Inl (DomainValidationError ''Stackfile snapshot version must be positive'')
        else
          let s = s0\<lparr>ss_nodes := sort_key sn_node_id (ss_nodes s0), ss_edges := sort_key se_edge_id (ss_edges s0)\<rparr>
          in bindE (validate_graph (ss_nodes s) (ss_edges s)) (\<lambda>_.
             bindE (content_hash E (py_snapshot s)) (\<lambda>computed.
               if ss_content_hash s \<noteq> []
               then bindE (require_hash (ss_content_hash s) ''content_hash'') (\<lambda>_.
                      if computed \<noteq> ss_content_hash s
                      then Inl (DomainValidationError ''Stackfile content_hash does not match snapshot'')
                      else Inr s)
               else Inr (s\<lparr>ss_content_hash := computed\<rparr>)))))"

definition snapshot_node :: "StackSnapshot \<Rightarrow> string \<Rightarrow> StackNode res" where
  "snapshot_node s nid =
     (case find (\<lambda>n. sn_node_id n = nid) (ss_nodes s) of Some n \<Rightarrow> Inr n | None \<Rightarrow> Inl (KeyError nid))"

definition lock_fields :: "string list" where
  "lock_fields = [''schema_version'', ''organization_id'', ''version'', ''nodes'', ''edges'', ''content_hash'']"

definition snapshot_from_dict :: "hash_env \<Rightarrow> (string \<times> json) list \<Rightarrow> StackSnapshot res" where
  "snapshot_from_dict E kvs =
     (let unknown = sorted_set (filter (\<lambda>k. k \<notin> set lock_fields) (map fst kvs)) in
      if unknown \<noteq> []
      then Inl (DomainValidationError (''unknown Stackfile lock fields: '' @ json_repr (JArr (map JStr unknown))))
      else
        bindE (json_item (JObj kvs) ''schema_version'') (\<lambda>sv.
        bindE (json_item (JObj kvs) ''organization_id'') (\<lambda>org.
        bindE (json_item (JObj kvs) ''version'') (\<lambda>v.
        bindE (json_int v) (\<lambda>version.
        bindE (json_iter (json_get kvs ''nodes'' (JArr []))) (\<lambda>ns.
        bindE (mapE node_from_dict ns) (\<lambda>nodes.
        bindE (json_iter (json_get kvs ''edges'' (JArr []))) (\<lambda>es.
        bindE (mapE edge_from_dict es) (\<lambda>edges.
          mk_StackSnapshot E \<lparr>ss_schema_version = json_str sv, ss_organization_id = json_str org,
            ss_version = version, ss_nodes = nodes, ss_edges = edges,
            ss_content_hash = json_str (json_get kvs ''content_hash'' (JStr []))\<rparr>)))))))))"

section \<open>The compact lock\<close>

definition compact_lifecycle :: "(string \<times> ProductInstanceState) list" where
  "compact_lifecycle =
     [(''planned'', PROPOSED), (''staged'', PROVISIONED), (''active'', ACTIVE), (''degraded'', DEGRADED),
      (''retiring'', RETIRING), (''retired'', CANCELLED), (''cancelled'', CANCELLED), (''failed'', DEGRADED)]"

definition compact_instance :: "json \<Rightarrow> StackNode res" where
  "compact_instance i =
     bindE (json_item i ''product_id'') (\<lambda>pid.
     bindE (json_item i ''lifecycle'') (\<lambda>lc.
       case map_of compact_lifecycle (json_str lc) of
         None \<Rightarrow> Inl (DomainValidationError (''unknown compact lock lifecycle: '' @ json_str lc))
       | Some st \<Rightarrow>
           bindE (json_item i ''instance_id'') (\<lambda>iid.
           bindE (json_item i ''version'') (\<lambda>ver.
           bindE (json_item i ''serves'') (\<lambda>srv.
           bindE (json_item i ''integrations'') (\<lambda>int.
             mk_StackNode \<lparr>sn_node_id = json_str pid, sn_alias = json_str pid, sn_node_type = PRODUCT_INSTANCE,
               sn_attributes = dict_str [(''instance_id'', json_value iid), (''version'', json_value ver),
                 (''serves'', json_value srv), (''integrations'', json_value int)],
               sn_state = Some st\<rparr>))))))"

fun compact_instances :: "json list \<Rightarrow> (string \<times> StackNode) list \<Rightarrow> (string \<times> StackNode) list res" where
  "compact_instances [] nodes = Inr nodes"
| "compact_instances (i # is) nodes =
     bindE (compact_instance i) (\<lambda>n. compact_instances is (AList.update (sn_node_id n) n nodes))"

definition endpoint_type :: "EdgeType \<Rightarrow> bool \<Rightarrow> NodeType" where
  "endpoint_type et is_source =
     (if et = FULFILLED_BY \<and> is_source \<or> et = FULFILLS \<and> \<not> is_source then JTBD else CAPABILITY)"

definition compact_endpoint ::
  "EdgeType \<Rightarrow> string \<times> bool \<Rightarrow> (string \<times> StackNode) list \<Rightarrow> (string \<times> StackNode) list res" where
  "compact_endpoint et ep nodes =
     (case ep of (endpoint, is_source) \<Rightarrow>
        if map_of nodes endpoint \<noteq> None then Inr nodes
        else bindE (mk_StackNode \<lparr>sn_node_id = endpoint, sn_alias = endpoint,
                 sn_node_type = endpoint_type et is_source, sn_attributes = PyDict [], sn_state = None\<rparr>)
               (\<lambda>n. Inr (AList.update endpoint n nodes)))"

fun compact_edges ::
  "nat \<Rightarrow> json list \<Rightarrow> (string \<times> StackNode) list \<Rightarrow> StackEdge list \<Rightarrow>
     ((string \<times> StackNode) list \<times> StackEdge list) res" where
  "compact_edges index [] nodes edges = Inr (nodes, edges)"
| "compact_edges index (item # items) nodes edges =
     bindE (json_item item ''type'') (\<lambda>ty.
     bindE (coerce_enum edge_type_value edge_types ty ''edge_type'') (\<lambda>et.
     bindE (json_item item ''from'') (\<lambda>fr.
     bindE (json_item item ''to'') (\<lambda>to.
     bindE (compact_endpoint et (json_str fr, True) nodes) (\<lambda>nodes1.
     bindE (compact_endpoint et (json_str to, False) nodes1) (\<lambda>nodes2.
     bindE (json_item item ''criticality'') (\<lambda>c.
     bindE (coerce_enum stack_risk_value stack_risks c ''criticality'') (\<lambda>cr.
     bindE (mk_StackEdge \<lparr>se_edge_id = ''edge_'' @ show_nat index @ ''_'' @ json_str fr @ ''_'' @
              edge_type_value et @ ''_'' @ json_str to,
            se_from_node_id = json_str fr, se_to_node_id = json_str to, se_edge_type = et, se_criticality = cr,
            se_hard = False, se_evidence_ref = PyNone, se_confidence = ''confirmed''\<rparr>) (\<lambda>e.
       compact_edges (Suc index) items nodes2 (edges @ [e]))))))))))"

definition first_build_lock :: "hash_env \<Rightarrow> (string \<times> json) list \<Rightarrow> StackSnapshot res" where
  "first_build_lock E kvs =
     bindE (json_iter (json_get kvs ''instances'' (JArr []))) (\<lambda>is.
     bindE (compact_instances is []) (\<lambda>nodes0.
     bindE (json_iter (json_get kvs ''edges'' (JArr []))) (\<lambda>es.
     bindE (compact_edges 0 es nodes0 []) (\<lambda>(nodes, edges).
     bindE (json_item (JObj kvs) ''schema_version'') (\<lambda>sv.
     bindE (json_item (JObj kvs) ''organization_id'') (\<lambda>org.
     bindE (json_item (JObj kvs) ''snapshot'') (\<lambda>v.
     bindE (json_int v) (\<lambda>version.
       mk_StackSnapshot E \<lparr>ss_schema_version = json_str sv, ss_organization_id = json_str org,
         ss_version = version, ss_nodes = map snd nodes, ss_edges = edges, ss_content_hash = []\<rparr>))))))))"

definition load_stackfile_lock :: "hash_env \<Rightarrow> json \<Rightarrow> StackSnapshot res" where
  "load_stackfile_lock E doc =
     (case doc of
        JObj kvs \<Rightarrow>
          if ''instances'' \<in> fst ` set kvs \<and> ''snapshot'' \<in> fst ` set kvs then first_build_lock E kvs
          else snapshot_from_dict E kvs
      | _ \<Rightarrow> Inl (DomainValidationError ''Stackfile lock root must be an object''))"

section \<open>The cycle search is exact\<close>

definition graph_rel :: "(string \<times> string list) list \<Rightarrow> (string \<times> string) set" where
  "graph_rel g = {(a, b). \<exists>ds. map_of g a = Some ds \<and> b \<in> set ds}"

definition closed_visited :: "(string \<times> string list) list \<Rightarrow> string list \<Rightarrow> bool" where
  "closed_visited g v \<longleftrightarrow> (\<forall>a \<in> set v. (\<forall>b. (a, b) \<in> graph_rel g \<longrightarrow> b \<in> set v) \<and> (a, a) \<notin> (graph_rel g)\<^sup>+)"

lemma closed_visited_reach:
  assumes "closed_visited g v" "(a, b) \<in> (graph_rel g)\<^sup>*" "a \<in> set v"
  shows "b \<in> set v"
  using assms(2,3,1) by (induction rule: rtrancl_induct) (auto simp: closed_visited_def)

lemma closed_visited_snoc:
  assumes "closed_visited g v" "map_of g n = Some ds" "set ds \<subseteq> set v" "n \<notin> set v"
  shows "closed_visited g (v @ [n])"
proof -
  have "(n, n) \<notin> (graph_rel g)\<^sup>+"
  proof
    assume "(n, n) \<in> (graph_rel g)\<^sup>+"
    then obtain d where "(n, d) \<in> graph_rel g" "(d, n) \<in> (graph_rel g)\<^sup>*" by (auto dest: tranclD)
    then have "d \<in> set v" using assms(2,3) by (auto simp: graph_rel_def)
    then have "n \<in> set v" using closed_visited_reach [OF assms(1)] \<open>(d, n) \<in> _\<close> by blast
    then show False using assms(4) by blast
  qed
  then show ?thesis using assms by (auto simp: closed_visited_def graph_rel_def)
qed

text \<open>A search that ends has visited what it was asked to, keeps the visited nodes closed under
  dependencies, and touches no node on the current path.\<close>

lemma visit_sound:
  "visit_node g visiting n v = Inr v' \<Longrightarrow> closed_visited g v \<Longrightarrow> set v \<inter> set visiting = {} \<Longrightarrow>
     closed_visited g v' \<and> set v \<subseteq> set v' \<and> n \<in> set v' \<and> set v' \<inter> set visiting = {}"
  "visit_nodes g visiting ds v = Inr v' \<Longrightarrow> closed_visited g v \<Longrightarrow> set v \<inter> set visiting = {} \<Longrightarrow>
     closed_visited g v' \<and> set v \<subseteq> set v' \<and> set ds \<subseteq> set v' \<and> set v' \<inter> set visiting = {}"
proof (induction g visiting n v and g visiting ds v arbitrary: v' and v' rule: visit_node_visit_nodes.induct)
  case (1 g visiting n v)
  show ?case
  proof (cases "n \<in> set v")
    case True
    with 1 show ?thesis by (auto split: if_splits)
  next
    case False
    with 1(2) obtain ds w where ds: "n \<notin> set visiting" "map_of g n = Some ds"
        "visit_nodes g (n # visiting) ds v = Inr w" "v' = w @ [n]"
      by (auto simp: bindE_Inr_conv split: if_splits option.splits)
    have "closed_visited g w \<and> set v \<subseteq> set w \<and> set ds \<subseteq> set w \<and> set w \<inter> set (n # visiting) = {}"
      by (rule 1(1) [OF ds(1) False ds(2,3)]) (use 1(3,4) False in auto)
    then show ?thesis using closed_visited_snoc [OF _ ds(2)] ds(1,4) by auto
  qed
next
  case (2 g visiting v)
  then show ?case by simp
next
  case (3 g visiting d ds v)
  from 3(3) obtain w where w: "visit_node g visiting d v = Inr w" "visit_nodes g visiting ds w = Inr v'"
    by (auto simp: bindE_Inr_conv)
  from 3(1) [OF w(1) 3(4,5)] 3(2) [OF w(1) w(2)] show ?case by auto
qed

text \<open>On an acyclic graph the search never raises.\<close>

lemma visit_complete:
  "acyclic (graph_rel g) \<Longrightarrow> Range (graph_rel g) \<subseteq> dom (map_of g) \<Longrightarrow> n \<in> dom (map_of g) \<Longrightarrow>
     \<forall>x \<in> set visiting. (x, n) \<in> (graph_rel g)\<^sup>+ \<Longrightarrow> \<exists>v'. visit_node g visiting n v = Inr v'"
  "acyclic (graph_rel g) \<Longrightarrow> Range (graph_rel g) \<subseteq> dom (map_of g) \<Longrightarrow> set ds \<subseteq> dom (map_of g) \<Longrightarrow>
     \<forall>x \<in> set visiting. \<forall>d \<in> set ds. (x, d) \<in> (graph_rel g)\<^sup>+ \<Longrightarrow> \<exists>v'. visit_nodes g visiting ds v = Inr v'"
proof (induction g visiting n v and g visiting ds v rule: visit_node_visit_nodes.induct)
  case (1 g visiting n v)
  then have fresh: "n \<notin> set visiting" by (auto simp: acyclic_def)
  from 1(4) obtain ds where ds: "map_of g n = Some ds" by auto
  have edges: "(n, d) \<in> graph_rel g" if "d \<in> set ds" for d
    using that ds by (auto simp: graph_rel_def)
  show ?case
  proof (cases "n \<in> set v")
    case False
    have "\<exists>w. visit_nodes g (n # visiting) ds v = Inr w"
    proof (rule 1(1) [OF fresh False ds 1(2,3)])
      show "set ds \<subseteq> dom (map_of g)" using edges 1(3) by (meson Range.intros subset_iff)
      show "\<forall>x \<in> set (n # visiting). \<forall>d \<in> set ds. (x, d) \<in> (graph_rel g)\<^sup>+"
        using edges 1(5) by (auto intro: trancl_into_trancl)
    qed
    then show ?thesis using fresh False ds by auto
  qed (use fresh in simp)
next
  case (2 g visiting v)
  then show ?case by simp
next
  case (3 g visiting d ds v)
  then obtain w where "visit_node g visiting d v = Inr w" by auto
  then show ?case using 3 by auto
qed

lemma graph_rel_hard_graph:
  assumes "distinct (map sn_node_id nodes)"
  shows "graph_rel (hard_graph nodes edges) =
    {(a, b). a \<in> sn_node_id ` set nodes \<and> (\<exists>e \<in> set edges. hard_edge e \<and> se_from_node_id e = a \<and> se_to_node_id e = b)}"
proof -
  let ?ds = "\<lambda>a. map se_to_node_id (filter (\<lambda>e. hard_edge e \<and> se_from_node_id e = a) edges)"
  have dist: "distinct (map fst (hard_graph nodes edges))"
    using assms by (simp add: hard_graph_def comp_def)
  have "map_of (hard_graph nodes edges) a = Some ds \<longleftrightarrow> a \<in> sn_node_id ` set nodes \<and> ds = ?ds a" for a ds
    using dist by (auto simp: hard_graph_def)
  then show ?thesis by (auto simp: graph_rel_def)
qed

definition hard_rel :: "StackEdge list \<Rightarrow> (string \<times> string) set" where
  "hard_rel edges = {(a, b). \<exists>e \<in> set edges. hard_edge e \<and> se_from_node_id e = a \<and> se_to_node_id e = b}"

lemma cycle_check_exact:
  assumes "distinct (map sn_node_id nodes)"
    and ends: "\<forall>e \<in> set edges. se_from_node_id e \<in> sn_node_id ` set nodes \<and> se_to_node_id e \<in> sn_node_id ` set nodes"
  shows "validate_no_hard_dependency_cycle nodes edges = Inr () \<longleftrightarrow> acyclic (hard_rel edges)"
proof -
  let ?g = "hard_graph nodes edges"
  have rel: "graph_rel ?g = hard_rel edges"
    using ends by (auto simp: graph_rel_hard_graph [OF assms(1)] hard_rel_def)
  have dom: "dom (map_of ?g) = sn_node_id ` set nodes"
    by (simp add: dom_map_of_conv_image_fst hard_graph_def image_image)
  have fst: "set (map fst ?g) = sn_node_id ` set nodes" by (simp add: hard_graph_def image_image)
  show ?thesis
  proof
    assume "validate_no_hard_dependency_cycle nodes edges = Inr ()"
    then obtain v where "visit_nodes ?g [] (sort (map fst ?g)) [] = Inr v"
      by (auto simp: validate_no_hard_dependency_cycle_def bindE_Inr_conv)
    from visit_sound(2) [OF this] have v: "closed_visited ?g v" "sn_node_id ` set nodes \<subseteq> set v"
      using fst by (auto simp: closed_visited_def)
    show "acyclic (hard_rel edges)"
      unfolding acyclic_def
    proof (intro allI notI)
      fix x assume x: "(x, x) \<in> (hard_rel edges)\<^sup>+"
      then obtain y where "(x, y) \<in> hard_rel edges" by (auto dest: tranclD)
      then have "x \<in> set v" using ends v(2) by (auto simp: hard_rel_def)
      with v(1) x rel show False by (auto simp: closed_visited_def)
    qed
  next
    assume ac: "acyclic (hard_rel edges)"
    have "\<exists>v. visit_nodes ?g [] (sort (map fst ?g)) [] = Inr v"
    proof (rule visit_complete(2))
      show "acyclic (graph_rel ?g)" using ac rel by simp
      show "Range (graph_rel ?g) \<subseteq> dom (map_of ?g)" using ends by (auto simp: rel dom hard_rel_def)
      show "set (sort (map fst ?g)) \<subseteq> dom (map_of ?g)" using fst dom by simp
    qed simp
    then show "validate_no_hard_dependency_cycle nodes edges = Inr ()"
      by (auto simp: validate_no_hard_dependency_cycle_def bindE_Inr_conv)
  qed
qed

section \<open>Well-formed snapshots\<close>

definition node_ok :: "StackNode \<Rightarrow> bool" where
  "node_ok n \<longleftrightarrow> valid_id (sn_node_id n) \<and> valid_id (sn_alias n) \<and>
     (sn_node_type n = PRODUCT_INSTANCE \<longleftrightarrow> sn_state n \<noteq> None) \<and> deep_freeze (sn_attributes n) = sn_attributes n"

lemma mk_StackNode_ok:
  "mk_StackNode n = Inr m \<Longrightarrow> node_ok m \<and> m = n\<lparr>sn_attributes := deep_freeze (sn_attributes n)\<rparr>"
  by (auto simp: mk_StackNode_def node_ok_def bindE_Inr_conv deep_freeze_idem split: if_splits)

lemma mk_StackNode_same: "node_ok n \<Longrightarrow> mk_StackNode n = Inr n"
  by (auto simp: mk_StackNode_def node_ok_def require_id_def)

text \<open>Only active instances fulfil a job.\<close>

definition fulfilment_ok :: "StackNode list \<Rightarrow> StackEdge \<Rightarrow> bool" where
  "fulfilment_ok nodes e \<longleftrightarrow>
     (\<forall>n \<in> set nodes. sn_node_type n = PRODUCT_INSTANCE \<longrightarrow>
        (se_edge_type e = FULFILLS \<and> se_from_node_id e = sn_node_id n \<or>
         se_edge_type e = FULFILLED_BY \<and> se_to_node_id e = sn_node_id n) \<longrightarrow> sn_state n = Some ACTIVE)"

definition graph_ok :: "StackNode list \<Rightarrow> StackEdge list \<Rightarrow> bool" where
  "graph_ok nodes edges \<longleftrightarrow>
     distinct (map sn_node_id nodes) \<and> distinct (map sn_alias nodes) \<and> distinct (map se_edge_id edges) \<and>
     (\<forall>e \<in> set edges. se_from_node_id e \<in> sn_node_id ` set nodes \<and> se_to_node_id e \<in> sn_node_id ` set nodes \<and>
        fulfilment_ok nodes e) \<and>
     acyclic (hard_rel edges)"

lemma validate_edge_iff:
  "validate_edge nodes e = Inr () \<longleftrightarrow>
     se_from_node_id e \<in> sn_node_id ` set nodes \<and> se_to_node_id e \<in> sn_node_id ` set nodes \<and> fulfilment_ok nodes e"
  by (auto simp: validate_edge_def fulfilment_ok_def inactive_instance_def list_ex_iff Let_def)

lemma mapE_unit: "(\<exists>us. mapE f xs = Inr us) \<longleftrightarrow> (\<forall>x \<in> set xs. f x = Inr ())"
  by (induction xs) (auto simp: bindE_Inr_conv)

theorem validate_graph_iff: "validate_graph nodes edges = Inr () \<longleftrightarrow> graph_ok nodes edges"
proof -
  have "(\<exists>us. mapE (validate_edge nodes) edges = Inr us \<and> validate_no_hard_dependency_cycle nodes edges = Inr ()) \<longleftrightarrow>
      (\<forall>e \<in> set edges. validate_edge nodes e = Inr ()) \<and> validate_no_hard_dependency_cycle nodes edges = Inr ()"
    using mapE_unit by metis
  then show ?thesis
    using cycle_check_exact [of nodes edges]
    by (auto simp: validate_graph_def graph_ok_def bindE_Inr_conv validate_edge_iff)
qed

definition snapshot_ok :: "hash_env \<Rightarrow> StackSnapshot \<Rightarrow> bool" where
  "snapshot_ok E s \<longleftrightarrow>
     ss_schema_version s \<noteq> [] \<and> valid_id (ss_organization_id s) \<and> 1 \<le> ss_version s \<and>
     sorted (map sn_node_id (ss_nodes s)) \<and> sorted (map se_edge_id (ss_edges s)) \<and>
     graph_ok (ss_nodes s) (ss_edges s) \<and> content_hash E (py_snapshot s) = Inr (ss_content_hash s)"

lemma py_snapshot_hash [simp]: "py_snapshot (s\<lparr>ss_content_hash := h\<rparr>) = py_snapshot s"
  by (simp add: py_snapshot_def)

theorem mk_StackSnapshot_ok:
  assumes "mk_StackSnapshot E s0 = Inr s"
  shows "snapshot_ok E s \<and> mset (ss_nodes s) = mset (ss_nodes s0) \<and> mset (ss_edges s) = mset (ss_edges s0) \<and>
    ss_schema_version s = ss_schema_version s0 \<and> ss_organization_id s = ss_organization_id s0 \<and>
    ss_version s = ss_version s0"
  using assms
  by (auto simp: mk_StackSnapshot_def snapshot_ok_def bindE_Inr_conv validate_graph_iff Let_def split: if_splits)

section \<open>Reading back a canonical lock\<close>

lemma coerce_enum_value:
  "coerce_enum node_type_value node_types (JStr (node_type_value nt)) f = Inr nt"
  "coerce_enum edge_type_value edge_types (JStr (edge_type_value et)) f = Inr et"
  "coerce_enum stack_risk_value stack_risks (JStr (stack_risk_value r)) f = Inr r"
  "coerce_enum instance_state_value instance_states (JStr (instance_state_value st)) f = Inr st"
proof -
  show "coerce_enum node_type_value node_types (JStr (node_type_value nt)) f = Inr nt"
    by (cases nt) (simp_all add: coerce_enum_def node_types_def)
  show "coerce_enum edge_type_value edge_types (JStr (edge_type_value et)) f = Inr et"
    by (cases et) (simp_all add: coerce_enum_def edge_types_def)
  show "coerce_enum stack_risk_value stack_risks (JStr (stack_risk_value r)) f = Inr r"
    by (cases r) (simp_all add: coerce_enum_def stack_risks_def)
  show "coerce_enum instance_state_value instance_states (JStr (instance_state_value st)) f = Inr st"
    by (cases st) (simp_all add: coerce_enum_def instance_states_def)
qed

definition edge_ok :: "StackEdge \<Rightarrow> bool" where
  "edge_ok e \<longleftrightarrow> mk_StackEdge e = Inr e \<and> (se_evidence_ref e = PyNone \<or> (\<exists>r. se_evidence_ref e = PyStr r))"

lemma node_roundtrip:
  assumes "normalize [] (py_stack_node n) = Inr j" "node_ok n" "json_like (sn_attributes n)"
  shows "node_from_dict j = Inr n"
proof -
  from assms(1) obtain a st where j: "normalize [] (sn_attributes n) = Inr a"
      "normalize [] (py_opt (\<lambda>s. PyStr (instance_state_value s)) (sn_state n)) = Inr st"
      "j = JObj [(''node_id'', JStr (sn_node_id n)), (''alias'', JStr (sn_alias n)),
        (''node_type'', JStr (node_type_value (sn_node_type n))), (''attributes'', a), (''product_instance_state'', st)]"
    by (auto simp: py_stack_node_def bindE_Inr_conv)
  have "n\<lparr>sn_attributes := json_value a\<rparr>\<lparr>sn_attributes := deep_freeze (json_value a)\<rparr> = n"
    using json_value_normalize(1) [OF j(1) assms(3)] by simp
  moreover have "mk_StackNode (n\<lparr>sn_attributes := json_value a\<rparr>) =
      Inr (n\<lparr>sn_attributes := json_value a\<rparr>\<lparr>sn_attributes := deep_freeze (json_value a)\<rparr>)"
    using assms(2) by (auto simp: mk_StackNode_def node_ok_def require_id_def)
  moreover have "node_state_from [(''node_id'', JStr (sn_node_id n)), (''alias'', JStr (sn_alias n)),
        (''node_type'', JStr (node_type_value (sn_node_type n))), (''attributes'', a), (''product_instance_state'', st)] =
      Inr (sn_state n)"
    using j(2) by (cases "sn_state n") (auto simp: node_state_from_def json_get_def py_opt_def coerce_enum_value)
  ultimately show ?thesis
    by (cases n) (simp add: j(3) json_get_def coerce_enum_value)
qed

lemma edge_roundtrip:
  assumes "normalize [] (py_stack_edge e) = Inr j" "edge_ok e"
  shows "edge_from_dict j = Inr e"
  using assms
  by (cases e) (auto simp: py_stack_edge_def edge_ok_def bindE_Inr_conv json_get_def coerce_enum_value)

lemma normalize_list_mapE: "normalize_list ex vs = mapE (normalize ex) vs"
  by (induction vs) auto

lemma mapE_roundtrip:
  assumes "mapE (normalize []) (map enc xs) = Inr js" "\<And>x j. x \<in> set xs \<Longrightarrow> normalize [] (enc x) = Inr j \<Longrightarrow> dec j = Inr x"
  shows "mapE dec js = Inr xs"
  using assms by (induction xs arbitrary: js) (fastforce simp: bindE_Inr_conv)+

lemma mk_StackSnapshot_same:
  assumes "snapshot_ok E s" "valid_hash (ss_content_hash s)"
  shows "mk_StackSnapshot E s = Inr s"
proof -
  have "sort_key sn_node_id (ss_nodes s) = ss_nodes s" "sort_key se_edge_id (ss_edges s) = ss_edges s"
    using assms(1) by (simp_all add: snapshot_ok_def sort_key_id_if_sorted)
  then have "s\<lparr>ss_nodes := sort_key sn_node_id (ss_nodes s), ss_edges := sort_key se_edge_id (ss_edges s)\<rparr> = s" by simp
  moreover have "validate_graph (ss_nodes s) (ss_edges s) = Inr ()"
    using assms(1) by (simp add: validate_graph_iff snapshot_ok_def)
  ultimately show ?thesis
    using assms by (auto simp: mk_StackSnapshot_def snapshot_ok_def require_id_def require_hash_def Let_def)
qed

theorem lock_roundtrip:
  assumes "snapshot_ok E s" "valid_hash (ss_content_hash s)" "normalize [] (py_snapshot s) = Inr (JObj kvs)"
    and "\<forall>n \<in> set (ss_nodes s). node_ok n \<and> json_like (sn_attributes n)" "\<forall>e \<in> set (ss_edges s). edge_ok e"
  shows "load_stackfile_lock E (JObj (kvs @ [(''content_hash'', JStr (ss_content_hash s))])) = Inr s"
proof -
  from assms(3) obtain ns es where kvs: "mapE (normalize []) (map py_stack_node (ss_nodes s)) = Inr ns"
      "mapE (normalize []) (map py_stack_edge (ss_edges s)) = Inr es"
      "kvs = [(''schema_version'', JStr (ss_schema_version s)), (''organization_id'', JStr (ss_organization_id s)),
         (''version'', JInt (ss_version s)), (''nodes'', JArr ns), (''edges'', JArr es)]"
    by (auto simp: py_snapshot_def dict_str_def bindE_Inr_conv normalize_list_mapE)
  have "mapE node_from_dict ns = Inr (ss_nodes s)"
    by (rule mapE_roundtrip [OF kvs(1)]) (use assms(4) in \<open>blast intro: node_roundtrip\<close>)
  moreover have "mapE edge_from_dict es = Inr (ss_edges s)"
    by (rule mapE_roundtrip [OF kvs(2)]) (use assms(5) in \<open>blast intro: edge_roundtrip\<close>)
  ultimately show ?thesis
    using mk_StackSnapshot_same [OF assms(1,2)]
    by (cases s) (simp add: load_stackfile_lock_def snapshot_from_dict_def kvs(3) lock_fields_def json_get_def sorted_set_def)
qed

end
