(* ===== verification/Transitions.thy ===== *)
theory Transitions
  imports Prelude
begin

text \<open>
  The contract shared by the status tables of the program: a table of allowed successors per status
  and a transition operation that refuses everything outside the table. Runs of such an operation,
  reachability, invariants of reachable statuses and, for tables in which every transition moves
  towards a final status, a bound on the length of every run are proved once here and are used for
  every table (approvals, payment handoffs, Stackfile patches, product lifecycles, publications,
  exchanges).
\<close>

section \<open>Runs of a fallible step\<close>

fun run_steps :: "('s \<Rightarrow> 'c \<Rightarrow> 'e + 's) \<Rightarrow> 's \<Rightarrow> 'c list \<Rightarrow> 'e + 's" where
  "run_steps f s [] = Inr s"
| "run_steps f s (c # cs) = bindE (f s c) (\<lambda>s'. run_steps f s' cs)"

lemma run_steps_append:
  "run_steps f s (cs @ ds) = bindE (run_steps f s cs) (\<lambda>s'. run_steps f s' ds)"
proof (induction cs arbitrary: s)
  case (Cons c cs)
  then show ?case by (cases "f s c") auto
qed simp

lemma run_steps_invariant:
  assumes "run_steps f s cs = Inr t" "P s" "\<And>s c s'. c \<in> set cs \<Longrightarrow> P s \<Longrightarrow> f s c = Inr s' \<Longrightarrow> P s'"
  shows "P t"
  using assms by (induction cs arbitrary: s) (auto simp: bindE_Inr_conv)

section \<open>Status tables\<close>

locale status_table =
  fixes allowed :: "'s \<Rightarrow> 's list"
    and move :: "'s \<Rightarrow> 's \<Rightarrow> 'e + 's"
  assumes move_iff: "move a b = Inr c \<longleftrightarrow> b \<in> set (allowed a) \<and> c = b"
begin

definition succeeds :: "'s \<Rightarrow> 's \<Rightarrow> bool" where
  "succeeds a b \<longleftrightarrow> b \<in> set (allowed a)"

lemma move_refused: "b \<notin> set (allowed a) \<Longrightarrow> \<exists>e. move a b = Inl e"
  using move_iff [of a b] by (cases "move a b") auto

lemma terminal_refuses: "allowed a = [] \<Longrightarrow> \<exists>e. move a b = Inl e"
  by (rule move_refused) simp

lemma run_reachable: "run_steps move a bs = Inr c \<Longrightarrow> succeeds\<^sup>*\<^sup>* a c"
proof (induction bs arbitrary: a)
  case (Cons b bs)
  then show ?case
    by (auto simp: bindE_Inr_conv move_iff succeeds_def intro: converse_rtranclp_into_rtranclp)
qed simp

lemma reachable_run: "succeeds\<^sup>*\<^sup>* a c \<Longrightarrow> \<exists>bs. run_steps move a bs = Inr c"
proof (induction rule: converse_rtranclp_induct)
  case base
  have "run_steps move c [] = Inr c" by simp
  then show ?case by blast
next
  case (step a b)
  then obtain bs where "run_steps move b bs = Inr c" by blast
  moreover have "move a b = Inr b" using step.hyps by (simp add: move_iff succeeds_def)
  ultimately have "run_steps move a (b # bs) = Inr c" by simp
  then show ?case by blast
qed

lemma run_last: "run_steps move a bs = Inr c \<Longrightarrow> c = (if bs = [] then a else last bs)"
  by (induction bs arbitrary: a) (auto simp: bindE_Inr_conv move_iff)

lemma reachable_closed:
  assumes "succeeds\<^sup>*\<^sup>* a c" "a \<in> S" "\<And>x y. x \<in> S \<Longrightarrow> y \<in> set (allowed x) \<Longrightarrow> y \<in> S"
  shows "c \<in> S"
  using assms by (induction rule: rtranclp_induct) (auto simp: succeeds_def)

lemma terminal_reachable: "allowed a = [] \<Longrightarrow> succeeds\<^sup>*\<^sup>* a c \<longleftrightarrow> c = a"
  by (auto simp: succeeds_def elim: converse_rtranclpE)

end

text \<open>A table whose transitions all lower a measure: every run ends.\<close>

locale progressing_table = status_table +
  fixes remaining :: "'a \<Rightarrow> nat"
  assumes progress: "b \<in> set (allowed a) \<Longrightarrow> remaining b < remaining a"
begin

lemma run_bounded: "run_steps move a bs = Inr c \<Longrightarrow> length bs + remaining c \<le> remaining a"
proof (induction bs arbitrary: a)
  case (Cons b bs)
  then have "length bs + remaining c \<le> remaining b" "remaining b < remaining a"
    by (auto simp: bindE_Inr_conv move_iff dest: progress)
  then show ?case by simp
qed simp

lemma never_returns: "succeeds\<^sup>+\<^sup>+ a b \<Longrightarrow> remaining b < remaining a"
  by (induction rule: tranclp_induct) (auto simp: succeeds_def dest: progress)

lemma no_cycle: "\<not> succeeds\<^sup>+\<^sup>+ a a"
  using never_returns by blast

end

section \<open>Systems of transactions\<close>

text \<open>A step relation that keeps an invariant and, on states with the invariant, only moves along a
  preorder: then so do all its runs.\<close>

locale evolving_system =
  fixes step :: "'s \<Rightarrow> 's \<Rightarrow> bool"
    and inv :: "'s \<Rightarrow> bool"
    and evolve :: "'s \<Rightarrow> 's \<Rightarrow> bool"
  assumes step_inv: "step s t \<Longrightarrow> inv s \<Longrightarrow> inv t"
    and step_evolve: "step s t \<Longrightarrow> inv s \<Longrightarrow> evolve s t"
    and evolve_refl: "evolve s s"
    and evolve_trans: "evolve s t \<Longrightarrow> evolve t u \<Longrightarrow> evolve s u"
begin

lemma steps_inv: "step\<^sup>*\<^sup>* s t \<Longrightarrow> inv s \<Longrightarrow> inv t"
  by (induction rule: rtranclp_induct) (auto intro: step_inv)

lemma steps_evolve:
  assumes "step\<^sup>*\<^sup>* s t" "inv s"
  shows "evolve s t"
  using assms
proof (induction rule: rtranclp_induct)
  case (step t u)
  then show ?case using steps_inv step_evolve evolve_trans by blast
qed (rule evolve_refl)

text \<open>What holds at a state and is kept by every step holds from then on.\<close>

lemma steps_keep:
  assumes "step\<^sup>*\<^sup>* s t" "inv s" "P s" "\<And>s t. inv s \<Longrightarrow> P s \<Longrightarrow> step s t \<Longrightarrow> P t"
  shows "P t"
proof -
  have "P t \<and> inv t" using assms(1)
    by (induction rule: rtranclp_induct) (use assms(2-4) step_inv in blast)+
  then show ?thesis by blast
qed

end

end
