(* ===== verification/Patches.thy ===== *)
theory Patches
  imports StackfileModel Transitions
begin

text \<open>
  Version-bound Stackfile patches (\<^verbatim>\<open>src/python/stackfile/patches.py\<close>): the five operations, the
  simulation of a patch on a snapshot with its issues, the status table of patches and the guarded
  application of an approved patch. The tables of the module are instances of the status table
  contract.
\<close>

section \<open>Operations and patches\<close>

datatype PatchOperation =
    AddNode (op_id: string) StackNode
  | AddEdge (op_id: string) StackEdge
  | TransitionProductInstance (op_id: string) string ProductInstanceState ProductInstanceState bool
  | RemoveEdge (op_id: string) string
  | RemoveNode (op_id: string) string

fun mk_PatchOperation :: "PatchOperation \<Rightarrow> PatchOperation res" where
  "mk_PatchOperation (AddNode i n) =
     bindE (require_id i ''operation_id'') (\<lambda>_.
       if sn_node_type n = PRODUCT_INSTANCE \<and> sn_state n = Some ACTIVE
       then Inl (DomainValidationError ''a purchased product must be staged before deployment activation'')
       else Inr (AddNode i n))"
| "mk_PatchOperation (AddEdge i e) = bindE (require_id i ''operation_id'') (\<lambda>_. Inr (AddEdge i e))"
| "mk_PatchOperation (TransitionProductInstance i nid a b v) =
     bindE (require_id i ''operation_id'') (\<lambda>_.
     bindE (require_id nid ''node_id'') (\<lambda>_. Inr (TransitionProductInstance i nid a b v)))"
| "mk_PatchOperation (RemoveEdge i eid) =
     bindE (require_id i ''operation_id'') (\<lambda>_.
     bindE (require_id eid ''edge_id'') (\<lambda>_. Inr (RemoveEdge i eid)))"
| "mk_PatchOperation (RemoveNode i nid) =
     bindE (require_id i ''operation_id'') (\<lambda>_.
     bindE (require_id nid ''node_id'') (\<lambda>_. Inr (RemoveNode i nid)))"

fun py_operation :: "PatchOperation \<Rightarrow> pyval" where
  "py_operation (AddNode i n) = PyObj
     [(''kind'', PyStr ''ADD_NODE''), (''operation_id'', PyStr i), (''node'', py_stack_node n)]"
| "py_operation (AddEdge i e) = PyObj
     [(''kind'', PyStr ''ADD_EDGE''), (''operation_id'', PyStr i), (''edge'', py_stack_edge e)]"
| "py_operation (TransitionProductInstance i nid a b v) = PyObj
     [(''kind'', PyStr ''TRANSITION_PRODUCT_INSTANCE''), (''operation_id'', PyStr i), (''node_id'', PyStr nid),
      (''from_state'', PyStr (instance_state_value a)), (''to_state'', PyStr (instance_state_value b)),
      (''deployment_validated'', PyBool v)]"
| "py_operation (RemoveEdge i eid) = PyObj
     [(''kind'', PyStr ''REMOVE_EDGE''), (''operation_id'', PyStr i), (''edge_id'', PyStr eid)]"
| "py_operation (RemoveNode i nid) = PyObj
     [(''kind'', PyStr ''REMOVE_NODE''), (''operation_id'', PyStr i), (''node_id'', PyStr nid)]"

record StackPatch =
  sp_schema_version :: string
  sp_patch_id :: string
  sp_organization_id :: string
  sp_base_snapshot_version :: int
  sp_base_snapshot_hash :: string
  sp_operations :: "PatchOperation list"
  sp_status :: StackPatchStatus
  sp_patch_hash :: string

definition py_patch :: "StackPatch \<Rightarrow> pyval" where
  "py_patch p = dict_str
     [(''schema_version'', PyStr (sp_schema_version p)),
      (''patch_id'', PyStr (sp_patch_id p)),
      (''organization_id'', PyStr (sp_organization_id p)),
      (''base_snapshot_version'', PyInt (sp_base_snapshot_version p)),
      (''base_snapshot_hash'', PyStr (sp_base_snapshot_hash p)),
      (''operations'', PyTuple (map py_operation (sp_operations p)))]"

definition mk_StackPatch :: "hash_env \<Rightarrow> StackPatch \<Rightarrow> StackPatch res" where
  "mk_StackPatch E p =
     bindE (require_id (sp_patch_id p) ''patch_id'') (\<lambda>_.
     bindE (require_id (sp_organization_id p) ''organization_id'') (\<lambda>_.
     bindE (require_hash (sp_base_snapshot_hash p) ''base_snapshot_hash'') (\<lambda>_.
       if sp_base_snapshot_version p < 1 \<or> sp_schema_version p = []
       then Inl (DomainValidationError ''patch schema and positive base version are required'')
       else if sp_operations p = []
       then Inl (DomainValidationError ''a Stackfile patch requires at least one operation'')
       else if \<not> distinct (map op_id (sp_operations p))
       then Inl (DomainValidationError ''patch operation IDs must be unique'')
       else bindE (content_hash E (py_patch p)) (\<lambda>computed.
              if sp_patch_hash p \<noteq> []
              then bindE (require_hash (sp_patch_hash p) ''patch_hash'') (\<lambda>_.
                     if sp_patch_hash p \<noteq> computed
                     then Inl (DomainValidationError ''patch_hash does not match patch payload'')
                     else Inr p)
              else Inr (p\<lparr>sp_patch_hash := computed\<rparr>)))))"

record PatchIssue =
  pi_code :: string
  pi_message :: string
  pi_operation_id :: "string option"

record PatchValidation =
  pv_valid :: bool
  pv_issues :: "PatchIssue list"
  pv_simulated_snapshot :: "StackSnapshot option"

section \<open>Simulation\<close>

definition instance_transitions :: "ProductInstanceState \<Rightarrow> ProductInstanceState list" where
  "instance_transitions s = (case s of
      PROPOSED \<Rightarrow> [CONTRACTED]
    | CONTRACTED \<Rightarrow> [PROVISIONED, RETIRING]
    | PROVISIONED \<Rightarrow> [DEPLOYING, RETIRING]
    | DEPLOYING \<Rightarrow> [ACTIVE, DEGRADED, RETIRING]
    | ACTIVE \<Rightarrow> [DEGRADED, RETIRING]
    | DEGRADED \<Rightarrow> [ACTIVE, RETIRING]
    | RETIRING \<Rightarrow> [CANCELLED]
    | CANCELLED \<Rightarrow> [])"

text \<open>The dictionaries of the loop, by identifier in insertion order.\<close>

record patch_state =
  ps_nodes :: "(string \<times> StackNode) list"
  ps_edges :: "(string \<times> StackEdge) list"
  ps_issues :: "PatchIssue list"

definition op_issue :: "string \<Rightarrow> string \<Rightarrow> PatchOperation \<Rightarrow> patch_state \<Rightarrow> patch_state" where
  "op_issue code message opn s =
     s\<lparr>ps_issues := ps_issues s @ [\<lparr>pi_code = code, pi_message = message, pi_operation_id = Some (op_id opn)\<rparr>]\<rparr>"

fun apply_operation :: "PatchOperation \<Rightarrow> patch_state \<Rightarrow> patch_state res" where
  "apply_operation (AddNode i n) s =
     (if map_of (ps_nodes s) (sn_node_id n) \<noteq> None
      then Inr (op_issue ''DUPLICATE_NODE'' ''Node ID already exists'' (AddNode i n) s)
      else if list_ex (\<lambda>(k, m). sn_alias m = sn_alias n) (ps_nodes s)
      then Inr (op_issue ''DUPLICATE_ALIAS'' ''Node alias already exists'' (AddNode i n) s)
      else Inr (s\<lparr>ps_nodes := AList.update (sn_node_id n) n (ps_nodes s)\<rparr>))"
| "apply_operation (AddEdge i e) s =
     (if map_of (ps_edges s) (se_edge_id e) \<noteq> None
      then Inr (op_issue ''DUPLICATE_EDGE'' ''Edge ID already exists'' (AddEdge i e) s)
      else if map_of (ps_nodes s) (se_from_node_id e) = None \<or> map_of (ps_nodes s) (se_to_node_id e) = None
      then Inr (op_issue ''MISSING_ENDPOINT'' ''Edge endpoint is absent'' (AddEdge i e) s)
      else Inr (s\<lparr>ps_edges := AList.update (se_edge_id e) e (ps_edges s)\<rparr>))"
| "apply_operation (TransitionProductInstance i nid a b v) s =
     (let opn = TransitionProductInstance i nid a b v;
          absent = op_issue ''NOT_PRODUCT_INSTANCE'' ''Lifecycle target is absent or not a product instance'' opn s
      in case map_of (ps_nodes s) nid of
           None \<Rightarrow> Inr absent
         | Some n \<Rightarrow>
             if sn_node_type n \<noteq> PRODUCT_INSTANCE then Inr absent
             else if sn_state n \<noteq> Some a
             then Inr (op_issue ''STALE_INSTANCE_STATE'' ''Lifecycle from_state does not match'' opn s)
             else if b \<notin> set (instance_transitions a)
             then Inr (op_issue ''INVALID_INSTANCE_TRANSITION'' ''Product lifecycle transition is not allowed'' opn s)
             else if b = ACTIVE \<and> \<not> v
             then Inr (op_issue ''DEPLOYMENT_NOT_VALIDATED'' ''Activation requires deployment validation'' opn s)
             else bindE (mk_StackNode (n\<lparr>sn_state := Some b\<rparr>)) (\<lambda>n'.
                    Inr (s\<lparr>ps_nodes := AList.update (sn_node_id n) n' (ps_nodes s)\<rparr>)))"
| "apply_operation (RemoveEdge i eid) s =
     (if map_of (ps_edges s) eid = None
      then Inr (op_issue ''MISSING_EDGE'' ''Cannot remove absent edge'' (RemoveEdge i eid) s)
      else Inr (s\<lparr>ps_edges := AList.delete eid (ps_edges s)\<rparr>))"
| "apply_operation (RemoveNode i nid) s =
     (case map_of (ps_nodes s) nid of
        None \<Rightarrow> Inr (op_issue ''MISSING_NODE'' ''Cannot remove absent node'' (RemoveNode i nid) s)
      | Some n \<Rightarrow>
          if sn_node_type n = PRODUCT_INSTANCE
          then Inr (op_issue ''INSTANCE_HISTORY_REQUIRED''
                 ''Product instances are retired/cancelled, not deleted'' (RemoveNode i nid) s)
          else if list_ex (\<lambda>(k, e). nid \<in> {se_from_node_id e, se_to_node_id e}) (ps_edges s)
          then Inr (op_issue ''DEPENDENCIES_REMAIN'' ''Remove related edges before removing a node'' (RemoveNode i nid) s)
          else Inr (s\<lparr>ps_nodes := AList.delete nid (ps_nodes s)\<rparr>))"

definition base_issues :: "StackSnapshot \<Rightarrow> StackPatch \<Rightarrow> PatchIssue list" where
  "base_issues base patch =
     (if sp_organization_id patch \<noteq> ss_organization_id base
      then [\<lparr>pi_code = ''TENANT_MISMATCH'', pi_message = ''Patch organization does not match snapshot'',
             pi_operation_id = None\<rparr>] else []) @
     (if sp_base_snapshot_version patch \<noteq> ss_version base \<or> sp_base_snapshot_hash patch \<noteq> ss_content_hash base
      then [\<lparr>pi_code = ''STALE_BASE'', pi_message = ''Patch base version or hash is stale'', pi_operation_id = None\<rparr>]
      else [])"

definition initial_patch_state :: "StackSnapshot \<Rightarrow> patch_state" where
  "initial_patch_state base =
     \<lparr>ps_nodes = dict_of (map (\<lambda>n. (sn_node_id n, n)) (ss_nodes base)),
      ps_edges = dict_of (map (\<lambda>e. (se_edge_id e, e)) (ss_edges base)), ps_issues = []\<rparr>"

definition rejected :: "PatchIssue list \<Rightarrow> PatchValidation" where
  "rejected issues = \<lparr>pv_valid = False, pv_issues = issues, pv_simulated_snapshot = None\<rparr>"

definition validate_patch :: "hash_env \<Rightarrow> StackSnapshot \<Rightarrow> StackPatch \<Rightarrow> PatchValidation res" where
  "validate_patch E base patch =
     (if base_issues base patch \<noteq> [] then Inr (rejected (base_issues base patch))
      else bindE (run_steps (\<lambda>s opn. apply_operation opn s) (initial_patch_state base) (sp_operations patch)) (\<lambda>s.
        if ps_issues s \<noteq> [] then Inr (rejected (ps_issues s))
        else case mk_StackSnapshot E
                 \<lparr>ss_schema_version = ss_schema_version base, ss_organization_id = ss_organization_id base,
                  ss_version = ss_version base + 1, ss_nodes = map snd (ps_nodes s), ss_edges = map snd (ps_edges s),
                  ss_content_hash = []\<rparr> of
               Inr simulated \<Rightarrow>
                 Inr \<lparr>pv_valid = True, pv_issues = [], pv_simulated_snapshot = Some simulated\<rparr>
             | Inl (DomainValidationError m) \<Rightarrow>
                 Inr (rejected [\<lparr>pi_code = ''GRAPH_INVALID'', pi_message = m, pi_operation_id = None\<rparr>])
             | Inl (InvalidTransitionError m) \<Rightarrow>
                 Inr (rejected [\<lparr>pi_code = ''GRAPH_INVALID'', pi_message = m, pi_operation_id = None\<rparr>])
             | Inl e \<Rightarrow> Inl e))"

definition simulate_patch :: "hash_env \<Rightarrow> StackSnapshot \<Rightarrow> StackPatch \<Rightarrow> StackSnapshot res" where
  "simulate_patch E base patch =
     bindE (validate_patch E base patch) (\<lambda>result.
       case pv_simulated_snapshot result of
         Some s \<Rightarrow> if pv_valid result then Inr s
           else Inl (DomainValidationError (''invalid Stackfile patch: '' @
                  str_join ''; '' (map (\<lambda>i. pi_code i @ '': '' @ pi_message i) (pv_issues result))))
       | None \<Rightarrow> Inl (DomainValidationError (''invalid Stackfile patch: '' @
                  str_join ''; '' (map (\<lambda>i. pi_code i @ '': '' @ pi_message i) (pv_issues result)))))"

section \<open>Status\<close>

definition patch_transitions :: "StackPatchStatus \<Rightarrow> StackPatchStatus list" where
  "patch_transitions s = (case s of
      DRAFT \<Rightarrow> [VALIDATED, FAILED, CONFLICT]
    | VALIDATED \<Rightarrow> [AWAITING_APPROVAL]
    | AWAITING_APPROVAL \<Rightarrow> [APPROVED, CONFLICT]
    | APPROVED \<Rightarrow> [APPLYING, CONFLICT]
    | APPLYING \<Rightarrow> [APPLIED, FAILED]
    | APPLIED \<Rightarrow> [COMPENSATING_PATCH]
    | CONFLICT \<Rightarrow> []
    | FAILED \<Rightarrow> [COMPENSATING_PATCH]
    | COMPENSATING_PATCH \<Rightarrow> [])"

fun patch_status_value :: "StackPatchStatus \<Rightarrow> string" where
  "patch_status_value DRAFT = ''DRAFT''"
| "patch_status_value VALIDATED = ''VALIDATED''"
| "patch_status_value AWAITING_APPROVAL = ''AWAITING_APPROVAL''"
| "patch_status_value APPROVED = ''APPROVED''"
| "patch_status_value APPLYING = ''APPLYING''"
| "patch_status_value APPLIED = ''APPLIED''"
| "patch_status_value CONFLICT = ''CONFLICT''"
| "patch_status_value FAILED = ''FAILED''"
| "patch_status_value COMPENSATING_PATCH = ''COMPENSATING_PATCH''"

definition check_patch_status :: "StackPatchStatus \<Rightarrow> StackPatchStatus \<Rightarrow> StackPatchStatus res" where
  "check_patch_status current target =
     (if target \<notin> set (patch_transitions current)
      then Inl (InvalidTransitionError (''Stack patch cannot transition '' @ patch_status_value current @
             '' -> '' @ patch_status_value target))
      else Inr target)"

definition transition_patch_status :: "hash_env \<Rightarrow> StackPatch \<Rightarrow> StackPatchStatus \<Rightarrow> StackPatch res" where
  "transition_patch_status E patch target =
     bindE (check_patch_status (sp_status patch) target) (\<lambda>st.
       mk_StackPatch E (patch\<lparr>sp_status := st, sp_patch_hash := []\<rparr>))"

definition apply_approved_patch :: "hash_env \<Rightarrow> StackSnapshot \<Rightarrow> StackPatch \<Rightarrow> StackSnapshot res" where
  "apply_approved_patch E base patch =
     (if sp_status patch \<noteq> APPROVED
      then Inl (InvalidTransitionError ''only an approved Stackfile patch may be applied'')
      else simulate_patch E base patch)"

section \<open>The tables meet the status contract\<close>

definition check_instance_transition :: "ProductInstanceState \<Rightarrow> ProductInstanceState \<Rightarrow> unit + ProductInstanceState" where
  "check_instance_transition a b = (if b \<in> set (instance_transitions a) then Inr b else Inl ())"

interpretation lifecycle: status_table instance_transitions check_instance_transition
  by unfold_locales (auto simp: check_instance_transition_def)

definition patch_steps_left :: "StackPatchStatus \<Rightarrow> nat" where
  "patch_steps_left s = (case s of DRAFT \<Rightarrow> 6 | VALIDATED \<Rightarrow> 5 | AWAITING_APPROVAL \<Rightarrow> 4 | APPROVED \<Rightarrow> 3
     | APPLYING \<Rightarrow> 2 | APPLIED \<Rightarrow> 1 | FAILED \<Rightarrow> 1 | CONFLICT \<Rightarrow> 0 | COMPENSATING_PATCH \<Rightarrow> 0)"

interpretation patch_status: progressing_table patch_transitions check_patch_status patch_steps_left
proof
  show "check_patch_status a b = Inr c \<longleftrightarrow> b \<in> set (patch_transitions a) \<and> c = b" for a b c
    by (auto simp: check_patch_status_def)
  show "b \<in> set (patch_transitions a) \<Longrightarrow> patch_steps_left b < patch_steps_left a" for a b
    by (cases a) (auto simp: patch_transitions_def patch_steps_left_def)
qed

lemma patch_transition_iff:
  "b \<in> set (patch_transitions a) \<longleftrightarrow>
     (a, b) \<in> {(DRAFT, VALIDATED), (DRAFT, FAILED), (DRAFT, CONFLICT), (VALIDATED, AWAITING_APPROVAL),
       (AWAITING_APPROVAL, APPROVED), (AWAITING_APPROVAL, CONFLICT), (APPROVED, APPLYING), (APPROVED, CONFLICT),
       (APPLYING, APPLIED), (APPLYING, FAILED), (APPLIED, COMPENSATING_PATCH), (FAILED, COMPENSATING_PATCH)}"
  by (cases a) (auto simp: patch_transitions_def)

lemma status_run_approved:
  "run_steps check_patch_status DRAFT bs = Inr APPROVED \<longleftrightarrow> bs = [VALIDATED, AWAITING_APPROVAL, APPROVED]"
proof
  assume run: "run_steps check_patch_status DRAFT bs = Inr APPROVED"
  have len: "length bs + 3 \<le> 6" using patch_status.run_bounded [OF run] by (simp add: patch_steps_left_def)
  then have "length bs = 0 \<or> length bs = 1 \<or> length bs = 2 \<or> length bs = 3" by arith
  then consider "bs = []" | a where "bs = [a]" | a b where "bs = [a, b]" | a b c where "bs = [a, b, c]"
    by (auto simp: length_Suc_conv numeral_2_eq_2 numeral_3_eq_3)
  then show "bs = [VALIDATED, AWAITING_APPROVAL, APPROVED]"
    using run by cases (auto simp: bindE_Inr_conv patch_status.move_iff patch_transition_iff)
next
  assume "bs = [VALIDATED, AWAITING_APPROVAL, APPROVED]"
  then show "run_steps check_patch_status DRAFT bs = Inr APPROVED"
    by (simp add: check_patch_status_def patch_transitions_def)
qed

section \<open>Well-formed patches keep their content\<close>

definition patch_ok :: "hash_env \<Rightarrow> StackPatch \<Rightarrow> bool" where
  "patch_ok E p \<longleftrightarrow> mk_StackPatch E (p\<lparr>sp_patch_hash := []\<rparr>) = Inr p"

lemma py_patch_frame [simp]:
  "py_patch (p\<lparr>sp_patch_hash := h\<rparr>) = py_patch p" "py_patch (p\<lparr>sp_status := st\<rparr>) = py_patch p"
  by (simp_all add: py_patch_def)

lemma mk_StackPatch_Inr:
  "mk_StackPatch E p = Inr q \<Longrightarrow> \<exists>h. q = p\<lparr>sp_patch_hash := h\<rparr> \<and> content_hash E (py_patch p) = Inr h"
  by (cases p) (auto simp: mk_StackPatch_def bindE_Inr_conv split: if_splits)

lemma mk_StackPatch_ok: "mk_StackPatch E p = Inr q \<Longrightarrow> patch_ok E q"
  using mk_StackPatch_Inr [of E p q]
  by (cases p) (auto simp: patch_ok_def mk_StackPatch_def bindE_Inr_conv py_patch_def split: if_splits)

lemma mk_StackPatch_status:
  "mk_StackPatch E (p\<lparr>sp_patch_hash := []\<rparr>) = Inr p \<Longrightarrow>
     mk_StackPatch E (p\<lparr>sp_status := st, sp_patch_hash := []\<rparr>) = Inr (p\<lparr>sp_status := st\<rparr>)"
  by (cases p) (auto simp: mk_StackPatch_def bindE_Inr_conv py_patch_def split: if_splits)

lemma transition_patch_status_Inr:
  assumes "patch_ok E p"
  shows "transition_patch_status E p st = bindE (check_patch_status (sp_status p) st) (\<lambda>t. Inr (p\<lparr>sp_status := t\<rparr>))"
proof (cases "check_patch_status (sp_status p) st")
  case (Inr t)
  then show ?thesis
    using assms mk_StackPatch_status [of E p t] by (simp add: transition_patch_status_def patch_ok_def)
qed (simp add: transition_patch_status_def)

lemma patch_ok_status [simp]: "patch_ok E (p\<lparr>sp_status := st\<rparr>) = patch_ok E p"
proof -
  have "patch_ok E p \<Longrightarrow> patch_ok E (p\<lparr>sp_status := st\<rparr>)" for p st
    using mk_StackPatch_status [of E p st] by (simp add: patch_ok_def)
  from this [of p st] this [of "p\<lparr>sp_status := st\<rparr>" "sp_status p"] show ?thesis by auto
qed

lemma patch_status_run:
  "patch_ok E p \<Longrightarrow> run_steps (transition_patch_status E) p bs = Inr q \<longleftrightarrow>
     (\<exists>st. run_steps check_patch_status (sp_status p) bs = Inr st \<and> q = p\<lparr>sp_status := st\<rparr>)"
proof (induction bs arbitrary: p)
  case (Cons b bs)
  show ?case
  proof (cases "check_patch_status (sp_status p) b")
    case (Inr t)
    then show ?thesis using Cons.IH [of "p\<lparr>sp_status := t\<rparr>"] Cons.prems
      by (simp add: transition_patch_status_Inr)
  qed (use Cons.prems in \<open>simp add: transition_patch_status_Inr\<close>)
qed auto

section \<open>What an accepted patch does\<close>

lemma validate_patch_accepted:
  assumes "validate_patch E base patch = Inr v" "pv_simulated_snapshot v = Some s"
  obtains st where "sp_organization_id patch = ss_organization_id base" "sp_base_snapshot_version patch = ss_version base"
    "sp_base_snapshot_hash patch = ss_content_hash base"
    "run_steps (\<lambda>s opn. apply_operation opn s) (initial_patch_state base) (sp_operations patch) = Inr st" "ps_issues st = []"
    "mk_StackSnapshot E
       \<lparr>ss_schema_version = ss_schema_version base, ss_organization_id = ss_organization_id base,
        ss_version = ss_version base + 1, ss_nodes = map snd (ps_nodes st), ss_edges = map snd (ps_edges st),
        ss_content_hash = []\<rparr> = Inr s"
  using assms
  by (auto simp: validate_patch_def bindE_Inr_conv rejected_def base_issues_def
      split: if_splits sum.splits py_error.splits)

lemma simulate_patch_Inr:
  "simulate_patch E base patch = Inr s \<Longrightarrow>
     \<exists>v. validate_patch E base patch = Inr v \<and> pv_valid v \<and> pv_simulated_snapshot v = Some s"
  by (auto simp: simulate_patch_def bindE_Inr_conv split: option.splits if_splits)

text \<open>The node dictionary holds every node under its own identifier.\<close>

definition keyed :: "patch_state \<Rightarrow> bool" where
  "keyed s \<longleftrightarrow> distinct (map fst (ps_nodes s)) \<and> (\<forall>k n. map_of (ps_nodes s) k = Some n \<longrightarrow> sn_node_id n = k)"

lemma op_issue_simps [simp]:
  "ps_nodes (op_issue c m opn s) = ps_nodes s" "ps_edges (op_issue c m opn s) = ps_edges s"
  by (simp_all add: op_issue_def)

text \<open>What one operation does to one entry of the node dictionary.\<close>

lemma apply_operation_node:
  assumes "apply_operation opn s = Inr t" "keyed s"
  shows "keyed t \<and>
    (map_of (ps_nodes t) k = map_of (ps_nodes s) k \<or>
     (\<exists>i n. opn = AddNode i n \<and> sn_node_id n = k \<and> map_of (ps_nodes s) k = None \<and> map_of (ps_nodes t) k = Some n) \<or>
     (\<exists>i a b v n. opn = TransitionProductInstance i k a b v \<and> map_of (ps_nodes s) k = Some n \<and>
        sn_node_type n = PRODUCT_INSTANCE \<and> sn_state n = Some a \<and> b \<in> set (instance_transitions a) \<and>
        (b = ACTIVE \<longrightarrow> v) \<and>
        map_of (ps_nodes t) k = Some (n\<lparr>sn_state := Some b, sn_attributes := deep_freeze (sn_attributes n)\<rparr>)) \<or>
     (\<exists>i n. opn = RemoveNode i k \<and> map_of (ps_nodes s) k = Some n \<and> sn_node_type n \<noteq> PRODUCT_INSTANCE \<and>
        map_of (ps_nodes t) k = None))"
proof (cases opn)
  case (AddNode i n)
  with assms show ?thesis
    by (auto simp: keyed_def update_conv' distinct_update simp del: map_of_eq_Some_iff split: if_splits)
next
  case (AddEdge i e)
  with assms show ?thesis by (auto simp: keyed_def split: if_splits)
next
  case (TransitionProductInstance i nid a b v)
  with assms show ?thesis
    by (auto simp: keyed_def update_conv' distinct_update bindE_Inr_conv Let_def simp del: map_of_eq_Some_iff
        split: if_splits option.splits dest!: mk_StackNode_ok)
next
  case (RemoveEdge i eid)
  with assms show ?thesis by (auto simp: keyed_def split: if_splits)
next
  case (RemoveNode i nid)
  with assms show ?thesis
    by (auto simp: keyed_def delete_conv' distinct_delete simp del: map_of_eq_Some_iff split: if_splits option.splits)
qed

lemma initial_keyed: "keyed (initial_patch_state base)"
  "distinct (map sn_node_id (ss_nodes base)) \<Longrightarrow>
     map_of (ps_nodes (initial_patch_state base)) k = Some n \<longleftrightarrow> n \<in> set (ss_nodes base) \<and> sn_node_id n = k"
proof -
  let ?l = "map (\<lambda>n. (sn_node_id n, n)) (ss_nodes base)"
  show "keyed (initial_patch_state base)"
    by (auto simp: keyed_def initial_patch_state_def distinct_dict_of map_of_dict_of dest!: map_of_SomeD)
  assume "distinct (map sn_node_id (ss_nodes base))"
  then have "distinct (map fst (rev ?l))" by (simp add: comp_def rev_map [symmetric])
  then show "map_of (ps_nodes (initial_patch_state base)) k = Some n \<longleftrightarrow> n \<in> set (ss_nodes base) \<and> sn_node_id n = k"
    by (auto simp: initial_patch_state_def map_of_dict_of)
qed

definition lifecycle_path :: "ProductInstanceState \<Rightarrow> ProductInstanceState \<Rightarrow> bool" where
  "lifecycle_path = (\<lambda>a b. b \<in> set (instance_transitions a))\<^sup>*\<^sup>*"

lemma lifecycle_path_succeeds: "lifecycle_path = lifecycle.succeeds\<^sup>*\<^sup>*"
  by (simp add: lifecycle_path_def lifecycle.succeeds_def [abs_def])

lemma patch_run_instance:
  assumes "run_steps (\<lambda>s opn. apply_operation opn s) s0 ops = Inr t" "keyed s0"
    "map_of (ps_nodes s0) k = Some n0" "sn_node_type n0 = PRODUCT_INSTANCE" "sn_state n0 = Some a" "node_ok n0"
  shows "\<exists>b. map_of (ps_nodes t) k = Some (n0\<lparr>sn_state := Some b\<rparr>) \<and> lifecycle_path a b"
proof -
  let ?P = "\<lambda>s. keyed s \<and> (\<exists>b. map_of (ps_nodes s) k = Some (n0\<lparr>sn_state := Some b\<rparr>) \<and> lifecycle_path a b)"
  have "?P t"
  proof (rule run_steps_invariant [OF assms(1)])
    have "map_of (ps_nodes s0) k = Some (n0\<lparr>sn_state := Some a\<rparr>)" using assms(3,5) by simp
    moreover have "lifecycle_path a a" by (simp add: lifecycle_path_def)
    ultimately show "?P s0" using assms(2) by blast
  next
    fix s opn s'
    assume s: "?P s" and step: "apply_operation opn s = Inr s'"
    then obtain b where b: "map_of (ps_nodes s) k = Some (n0\<lparr>sn_state := Some b\<rparr>)" "lifecycle_path a b" by blast
    have frozen: "n0\<lparr>sn_state := Some c, sn_attributes := deep_freeze (sn_attributes n0)\<rparr> = n0\<lparr>sn_state := Some c\<rparr>" for c
      using assms(6) by (simp add: node_ok_def)
    from apply_operation_node [OF step, of k] s b(1) assms(4) show "?P s'"
      using b(2) frozen
      by (auto simp: lifecycle_path_def simp del: map_of_eq_Some_iff intro: rtranclp.rtrancl_into_rtrancl)
  qed
  then show ?thesis by blast
qed

lemma patch_run_active:
  assumes "run_steps (\<lambda>s opn. apply_operation opn s) s0 ops = Inr t" "keyed s0"
    "\<forall>opn \<in> set ops. mk_PatchOperation opn = Inr opn"
    "map_of (ps_nodes t) k = Some n" "sn_node_type n = PRODUCT_INSTANCE" "sn_state n = Some ACTIVE"
  shows "(\<exists>m. map_of (ps_nodes s0) k = Some m \<and> sn_node_type m = PRODUCT_INSTANCE \<and> sn_state m = Some ACTIVE) \<or>
    (\<exists>i a. TransitionProductInstance i k a ACTIVE True \<in> set ops)" (is "?old s0 \<or> ?new")
proof -
  let ?act = "\<lambda>s. \<exists>m. map_of (ps_nodes s) k = Some m \<and> sn_node_type m = PRODUCT_INSTANCE \<and> sn_state m = Some ACTIVE"
  let ?P = "\<lambda>s. keyed s \<and> (?act s \<longrightarrow> ?old s0 \<or> ?new)"
  have "?P t"
  proof (rule run_steps_invariant [OF assms(1)])
    show "?P s0" using assms(2) by blast
  next
    fix s opn s'
    assume s: "?P s" and step: "apply_operation opn s = Inr s'" and opn: "opn \<in> set ops"
    then have "mk_PatchOperation opn = Inr opn" using assms(3) by blast
    with apply_operation_node [OF step, of k] s opn show "?P s'"
      by (auto simp: bindE_Inr_conv simp del: map_of_eq_Some_iff split: if_splits)
  qed
  then show ?thesis using assms(4-6) by blast
qed

lemma snapshot_node_mem:
  assumes "keyed st" "mset ns = mset (map snd (ps_nodes st))"
  shows "n \<in> set ns \<longleftrightarrow> map_of (ps_nodes st) (sn_node_id n) = Some n"
proof -
  have "set ns = snd ` set (ps_nodes st)" using assms(2) by (metis set_map set_mset_mset)
  moreover have "n \<in> snd ` set (ps_nodes st) \<longleftrightarrow> (\<exists>k. map_of (ps_nodes st) k = Some n)"
    using assms(1) by (force simp: keyed_def intro: rev_image_eqI)
  ultimately show ?thesis using assms(1) unfolding keyed_def by metis
qed

lemma run_keyed:
  "run_steps (\<lambda>s opn. apply_operation opn s) s0 ops = Inr t \<Longrightarrow> keyed s0 \<Longrightarrow> keyed t"
  by (rule run_steps_invariant) (auto dest: apply_operation_node)

lemma simulate_patch_nodes:
  assumes "simulate_patch E base patch = Inr s" "snapshot_ok E base"
  obtains st where
    "run_steps (\<lambda>s opn. apply_operation opn s) (initial_patch_state base) (sp_operations patch) = Inr st"
    "\<And>n. n \<in> set (ss_nodes s) \<longleftrightarrow> map_of (ps_nodes st) (sn_node_id n) = Some n"
    "\<And>k n. map_of (ps_nodes (initial_patch_state base)) k = Some n \<longleftrightarrow> n \<in> set (ss_nodes base) \<and> sn_node_id n = k"
proof -
  from simulate_patch_Inr [OF assms(1)] obtain v where
    v: "validate_patch E base patch = Inr v" "pv_simulated_snapshot v = Some s" by blast
  from validate_patch_accepted [OF v] obtain st where
    run: "run_steps (\<lambda>s opn. apply_operation opn s) (initial_patch_state base) (sp_operations patch) = Inr st"
    and mk: "mk_StackSnapshot E
       \<lparr>ss_schema_version = ss_schema_version base, ss_organization_id = ss_organization_id base,
        ss_version = ss_version base + 1, ss_nodes = map snd (ps_nodes st), ss_edges = map snd (ps_edges st),
        ss_content_hash = []\<rparr> = Inr s" .
  have "mset (ss_nodes s) = mset (map snd (ps_nodes st))" using mk_StackSnapshot_ok [OF mk] by simp
  moreover have "distinct (map sn_node_id (ss_nodes base))"
    using assms(2) by (simp add: snapshot_ok_def graph_ok_def)
  ultimately show thesis
    by (intro that [OF run] snapshot_node_mem [OF run_keyed [OF run initial_keyed(1)]] initial_keyed(2))
qed

end
