(* ===== verification/StackfileClaims.thy ===== *)
theory StackfileClaims
  imports Patches DemoEnv
begin

text \<open>
  The properties of the Stackfile: validation, lock documents, patches and their lifecycle.
\<close>

section \<open>Concrete inputs of the witnesses\<close>

definition demo_instance :: StackNode where
  "demo_instance = \<lparr>sn_node_id = ''p'', sn_alias = ''p'', sn_node_type = PRODUCT_INSTANCE,
     sn_attributes = PyDict [(KStr ''k'', PyTuple [PyInt 1, PyNone])], sn_state = Some DEPLOYING\<rparr>"

definition demo_stack :: StackSnapshot where
  "demo_stack = projr (mk_StackSnapshot demo_env \<lparr>ss_schema_version = ''1'', ss_organization_id = ''org'', ss_version = 1,
     ss_nodes = [demo_instance, demo_instance\<lparr>sn_node_id := ''c'', sn_alias := ''c'', sn_node_type := CAPABILITY, sn_state := None\<rparr>],
     ss_edges = [\<lparr>se_edge_id = ''e'', se_from_node_id = ''p'', se_to_node_id = ''c'', se_edge_type = REQUIRES,
        se_criticality = LOW, se_hard = True, se_evidence_ref = PyNone, se_confidence = ''confirmed''\<rparr>],
     ss_content_hash = []\<rparr>)"

definition demo_patch :: StackPatch where
  "demo_patch = \<lparr>sp_schema_version = ''1'', sp_patch_id = ''patch'', sp_organization_id = ''org'',
     sp_base_snapshot_version = 1, sp_base_snapshot_hash = ss_content_hash demo_stack,
     sp_operations = [TransitionProductInstance ''o1'' ''p'' DEPLOYING ACTIVE True],
     sp_status = DRAFT, sp_patch_hash = []\<rparr>"

lemma projr_Inr_eq: "\<not> isl x \<Longrightarrow> x = Inr (projr x)"
  by (cases x) auto

lemma demo_stack_ok: "snapshot_ok demo_env demo_stack"
proof -
  have "\<exists>s0. mk_StackSnapshot demo_env s0 = Inr demo_stack"
    unfolding demo_stack_def by (rule exI, rule projr_Inr_eq) code_simp
  then show ?thesis using mk_StackSnapshot_ok by blast
qed

section \<open>Validation and lock documents\<close>

text \<open>C18 The graph validation accepts exactly the well-formed graphs: unique node, alias and edge
  identifiers, edges between nodes of the snapshot, only active product instances fulfilling a job,
  and no cycle of hard dependencies.\<close>

theorem graph_validation_exact: "validate_graph nodes edges = Inr () \<longleftrightarrow> graph_ok nodes edges"
  by (rule validate_graph_iff)

text \<open>C19 A lock document that holds the canonical payload of a valid snapshot and its content hash is read back as that
  snapshot, provided that the attributes of its nodes are JSON values (\<open>json_like\<close>: null, booleans, integers, strings, frozen
  lists and dictionaries of them). A decimal or a date in an attribute is written as a text and read back as one.\<close>

theorem lock_read_back:
  assumes "snapshot_ok E s" "valid_hash (ss_content_hash s)" "normalize [] (py_snapshot s) = Inr (JObj kvs)"
    and "\<forall>n \<in> set (ss_nodes s). node_ok n \<and> json_like (sn_attributes n)" "\<forall>e \<in> set (ss_edges s). edge_ok e"
  shows "load_stackfile_lock E (JObj (kvs @ [(''content_hash'', JStr (ss_content_hash s))])) = Inr s"
  by (rule lock_roundtrip [OF assms])

theorem lock_read_back_witness:
  "\<exists>kvs. normalize [] (py_snapshot demo_stack) = Inr (JObj kvs) \<and>
     load_stackfile_lock demo_env (JObj (kvs @ [(''content_hash'', JStr (ss_content_hash demo_stack))])) = Inr demo_stack"
proof -
  have "case normalize [] (py_snapshot demo_stack) of Inr (JObj kvs) \<Rightarrow> True | _ \<Rightarrow> False" by code_simp
  then obtain kvs where kvs: "normalize [] (py_snapshot demo_stack) = Inr (JObj kvs)"
    by (auto split: sum.splits json.splits)
  have "valid_hash (ss_content_hash demo_stack)" by code_simp
  moreover have "list_all (\<lambda>n. node_ok n \<and> json_like (sn_attributes n)) (ss_nodes demo_stack)" by code_simp
  moreover have "list_all (\<lambda>e. mk_StackEdge e = Inr e \<and> se_evidence_ref e = PyNone) (ss_edges demo_stack)" by code_simp
  ultimately show ?thesis
    using lock_read_back [OF demo_stack_ok _ kvs] kvs by (auto simp: list_all_iff edge_ok_def)
qed

section \<open>Patches\<close>

text \<open>An accepted patch keeps the history of every product instance: no instance disappears or loses
  its identity, and its state moves along the lifecycle table.\<close>

theorem instance_history_kept:
  assumes "simulate_patch E base patch = Inr s" "snapshot_ok E base"
    "n \<in> set (ss_nodes base)" "node_ok n" "sn_node_type n = PRODUCT_INSTANCE" "sn_state n = Some a"
  shows "\<exists>b. n\<lparr>sn_state := Some b\<rparr> \<in> set (ss_nodes s) \<and> lifecycle_path a b"
proof -
  from simulate_patch_nodes [OF assms(1,2)] obtain st where
    run: "run_steps (\<lambda>s opn. apply_operation opn s) (initial_patch_state base) (sp_operations patch) = Inr st"
    and nodes: "\<And>n. n \<in> set (ss_nodes s) \<longleftrightarrow> map_of (ps_nodes st) (sn_node_id n) = Some n"
      "\<And>k n. map_of (ps_nodes (initial_patch_state base)) k = Some n \<longleftrightarrow> n \<in> set (ss_nodes base) \<and> sn_node_id n = k"
    by blast
  have "map_of (ps_nodes (initial_patch_state base)) (sn_node_id n) = Some n" using nodes(2) assms(3) by blast
  from patch_run_instance [OF run initial_keyed(1) this assms(5,6,4)] nodes(1) show ?thesis by force
qed

theorem instance_history_kept_witness:
  "\<exists>s b. simulate_patch demo_env demo_stack demo_patch = Inr s \<and>
     demo_instance\<lparr>sn_state := Some b\<rparr> \<in> set (ss_nodes s) \<and> lifecycle_path DEPLOYING b"
proof -
  have "case simulate_patch demo_env demo_stack demo_patch of Inr s \<Rightarrow> True | Inl _ \<Rightarrow> False" by code_simp
  then obtain s where s: "simulate_patch demo_env demo_stack demo_patch = Inr s" by (auto split: sum.splits)
  have "demo_instance \<in> set (ss_nodes demo_stack)" "node_ok demo_instance" by code_simp+
  then show ?thesis
    using instance_history_kept [OF s demo_stack_ok, of demo_instance DEPLOYING] s by (auto simp: demo_instance_def)
qed

text \<open>No patch activates a product instance without a validated deployment: an instance that is active
  after an accepted patch was active before it, or the patch holds a validated activation of it.\<close>

theorem activation_needs_validation:
  assumes "simulate_patch E base patch = Inr s" "snapshot_ok E base"
    "\<forall>opn \<in> set (sp_operations patch). mk_PatchOperation opn = Inr opn"
    "n \<in> set (ss_nodes s)" "sn_node_type n = PRODUCT_INSTANCE" "sn_state n = Some ACTIVE"
  shows "(\<exists>m \<in> set (ss_nodes base). sn_node_id m = sn_node_id n \<and> sn_node_type m = PRODUCT_INSTANCE \<and>
      sn_state m = Some ACTIVE) \<or>
    (\<exists>i a. TransitionProductInstance i (sn_node_id n) a ACTIVE True \<in> set (sp_operations patch))"
proof -
  from simulate_patch_nodes [OF assms(1,2)] obtain st where
    run: "run_steps (\<lambda>s opn. apply_operation opn s) (initial_patch_state base) (sp_operations patch) = Inr st"
    and nodes: "\<And>n. n \<in> set (ss_nodes s) \<longleftrightarrow> map_of (ps_nodes st) (sn_node_id n) = Some n"
      "\<And>k n. map_of (ps_nodes (initial_patch_state base)) k = Some n \<longleftrightarrow> n \<in> set (ss_nodes base) \<and> sn_node_id n = k"
    by blast
  from patch_run_active [OF run initial_keyed(1) assms(3) _ assms(5,6)] assms(4) show ?thesis
    unfolding nodes by blast
qed

theorem activation_needs_validation_witness:
  "\<exists>s. simulate_patch demo_env demo_stack demo_patch = Inr s \<and>
     demo_instance\<lparr>sn_state := Some ACTIVE\<rparr> \<in> set (ss_nodes s) \<and>
     (\<exists>i a. TransitionProductInstance i ''p'' a ACTIVE True \<in> set (sp_operations demo_patch))"
proof -
  have "case simulate_patch demo_env demo_stack demo_patch of
      Inr s \<Rightarrow> demo_instance\<lparr>sn_state := Some ACTIVE\<rparr> \<in> set (ss_nodes s) | Inl _ \<Rightarrow> False" by code_simp
  then obtain s where s: "simulate_patch demo_env demo_stack demo_patch = Inr s"
      "demo_instance\<lparr>sn_state := Some ACTIVE\<rparr> \<in> set (ss_nodes s)" by (auto split: sum.splits)
  have "list_all (\<lambda>opn. mk_PatchOperation opn = Inr opn) (sp_operations demo_patch)" by code_simp
  moreover have "list_all (\<lambda>m. sn_state m \<noteq> Some ACTIVE) (ss_nodes demo_stack)" by code_simp
  ultimately show ?thesis
    using activation_needs_validation [OF s(1) demo_stack_ok _ s(2)] s
    by (auto simp: list_all_iff demo_instance_def)
qed

text \<open>C20 A patch that starts as a draft and is applied to a snapshot went through exactly validation,
  approval request and approval with its content and hash unchanged, was made for exactly that version and
  content of the snapshot, and yields the next version as a well-formed snapshot.\<close>

theorem applied_patch_approved:
  assumes "mk_StackPatch E p0 = Inr p" "sp_status p = DRAFT"
    "run_steps (transition_patch_status E) p bs = Inr q" "apply_approved_patch E base q = Inr s"
  shows "bs = [VALIDATED, AWAITING_APPROVAL, APPROVED] \<and> q = p\<lparr>sp_status := APPROVED\<rparr> \<and>
    sp_organization_id p = ss_organization_id base \<and> sp_base_snapshot_version p = ss_version base \<and>
    sp_base_snapshot_hash p = ss_content_hash base \<and> snapshot_ok E s \<and> ss_version s = ss_version base + 1 \<and>
    ss_organization_id s = ss_organization_id base"
proof -
  from patch_status_run [OF mk_StackPatch_ok [OF assms(1)]] assms(2,3) obtain st where
    st: "run_steps check_patch_status DRAFT bs = Inr st" "q = p\<lparr>sp_status := st\<rparr>" by auto
  from assms(4) st(2) have app: "st = APPROVED" "simulate_patch E base q = Inr s"
    by (auto simp: apply_approved_patch_def split: if_splits)
  from simulate_patch_Inr [OF app(2)] obtain v where
    v: "validate_patch E base q = Inr v" "pv_simulated_snapshot v = Some s" by blast
  show ?thesis
    by (rule validate_patch_accepted [OF v], drule mk_StackSnapshot_ok)
      (use st app(1) status_run_approved in simp)
qed

theorem applied_patch_approved_witness:
  "\<exists>p q s. mk_StackPatch demo_env demo_patch = Inr p \<and>
     run_steps (transition_patch_status demo_env) p [VALIDATED, AWAITING_APPROVAL, APPROVED] = Inr q \<and>
     apply_approved_patch demo_env demo_stack q = Inr s \<and> ss_version s = 2 \<and> q = p\<lparr>sp_status := APPROVED\<rparr>"
proof -
  have "case bindE (mk_StackPatch demo_env demo_patch) (\<lambda>p.
      bindE (run_steps (transition_patch_status demo_env) p [VALIDATED, AWAITING_APPROVAL, APPROVED]) (\<lambda>q.
        bindE (apply_approved_patch demo_env demo_stack q) (\<lambda>s. Inr (sp_status p)))) of
      Inr st \<Rightarrow> st = DRAFT | Inl _ \<Rightarrow> False" by code_simp
  then obtain p q s where p: "mk_StackPatch demo_env demo_patch = Inr p" "sp_status p = DRAFT"
      "run_steps (transition_patch_status demo_env) p [VALIDATED, AWAITING_APPROVAL, APPROVED] = Inr q"
      "apply_approved_patch demo_env demo_stack q = Inr s"
    by (auto simp: bindE_Inr_conv split: sum.splits)
  have "ss_version demo_stack = 1" by code_simp
  with applied_patch_approved [OF p] p show ?thesis by auto
qed

end
