(* ===== verification/Commerce.thy ===== *)
theory Commerce
  imports MoneyModel Enums
begin

text \<open>
  The value objects of the purchase vertical (\<^verbatim>\<open>src/python/domain/models.py\<close>): source references,
  verifications, buyer facts, evidence references, merchants, expected fulfilments, purchase intents,
  approval bindings and payment handoffs, each with the checks of its constructor. Urls are split as
  \<^verbatim>\<open>urllib.parse.urlsplit\<close> does on ASCII text; its check of a bracketed IP literal is the argument
  \<open>literal_ok\<close>.
\<close>

section \<open>Splitting urls\<close>

definition partition_at :: "char \<Rightarrow> string \<Rightarrow> string \<times> bool \<times> string" where
  "partition_at c s = (let a = takeWhile (\<lambda>x. x \<noteq> c) s in (a, c \<in> set s, drop (Suc (length a)) s))"

definition rpartition_at :: "char \<Rightarrow> string \<Rightarrow> string \<times> bool \<times> string" where
  "rpartition_at c s = (case partition_at c (rev s) of (b, found, a) \<Rightarrow> if found then (rev a, True, rev b) else ([], False, s))"

record url =
  url_scheme :: string
  url_netloc :: string
  url_fragment :: string

definition scheme_char :: "char \<Rightarrow> bool" where
  "scheme_char c \<longleftrightarrow> is_lower c \<or> is_upper c \<or> is_digit c \<or> c \<in> {CHR ''+'', CHR ''-'', CHR ''.''}"

definition url_clean :: "string \<Rightarrow> string" where
  "url_clean s = filter (\<lambda>c. (of_char c :: nat) \<notin> {9, 10, 13}) (dropWhile (\<lambda>c. (of_char c :: nat) \<le> 32) s)"

definition urlsplit :: "(string \<Rightarrow> bool) \<Rightarrow> string \<Rightarrow> url res" where
  "urlsplit literal_ok s0 =
     (let s = url_clean s0;
          (pre, colon, post) = partition_at (CHR '':'') s;
          has_scheme = (colon \<and> pre \<noteq> [] \<and> (is_lower (hd pre) \<or> is_upper (hd pre)) \<and> list_all scheme_char pre);
          rest = (if has_scheme then post else s);
          scheme = (if has_scheme then str_lower pre else []);
          slashes = starts_with rest ''//'';
          body = (if slashes then drop 2 rest else rest);
          netloc = (if slashes then takeWhile (\<lambda>c. c \<notin> {CHR ''/'', CHR ''?'', CHR ''#''}) body else []);
          tail = (if slashes then drop (length netloc) body else body);
          fragment = snd (snd (partition_at (CHR ''#'') tail));
          opn = CHR ''['' \<in> set netloc; cls = CHR '']'' \<in> set netloc
      in if opn \<noteq> cls then Inl (ValueError ''Invalid IPv6 URL'')
         else if opn \<and> \<not> literal_ok netloc then Inl (ValueError ''Invalid IPv6 URL'')
         else Inr \<lparr>url_scheme = scheme, url_netloc = netloc, url_fragment = fragment\<rparr>)"

definition url_has_userinfo :: "url \<Rightarrow> bool" where
  "url_has_userinfo u \<longleftrightarrow> CHR ''@'' \<in> set (url_netloc u)"

definition url_hostname :: "url \<Rightarrow> string" where
  "url_hostname u =
     (let hostinfo = snd (snd (rpartition_at (CHR ''@'') (url_netloc u)));
          (pre, bracket, inside) = partition_at (CHR ''['') hostinfo
      in str_lower (if bracket then fst (partition_at (CHR '']'') inside)
         else fst (partition_at (CHR '':'') hostinfo)))"

section \<open>Facts and evidence\<close>

record SourceRef =
  sr_provider :: string
  sr_content_id :: string
  sr_version_id :: string
  sr_fragment_hash :: string
  sr_retrieved_at :: datetime
  sr_fragment_ordinal :: "int option"

definition mk_SourceRef :: "SourceRef \<Rightarrow> SourceRef res" where
  "mk_SourceRef s =
     bindE (require_ids [(sr_provider s, ''provider''), (sr_content_id s, ''content_id''), (sr_version_id s, ''version_id'')]) (\<lambda>_.
     bindE (require_hash (sr_fragment_hash s) ''fragment_hash'') (\<lambda>_.
     bindE (require_aware (sr_retrieved_at s) ''retrieved_at'') (\<lambda>_.
       case sr_fragment_ordinal s of
         Some i \<Rightarrow> if i < 0 then Inl (DomainValidationError ''fragment_ordinal cannot be negative'') else Inr s
       | None \<Rightarrow> Inr s)))"

record Verification =
  vf_status :: string
  vf_method :: string
  vf_verified_by :: "string option"
  vf_verified_at :: "datetime option"
  vf_scope :: string

definition verification_statuses :: "string list" where
  "verification_statuses = [''unverified'', ''verified'', ''human_approved'', ''disputed'', ''expired'', ''revoked'']"

definition mk_Verification :: "Verification \<Rightarrow> Verification res" where
  "mk_Verification v =
     (if vf_status v \<notin> set verification_statuses then Inl (DomainValidationError ''unsupported verification status'')
      else if vf_method v = [] then Inl (DomainValidationError ''verification method is required'')
      else if vf_status v \<in> {''verified'', ''human_approved''} \<and>
        (vf_verified_by v = None \<or> vf_verified_by v = Some [] \<or> vf_verified_at v = None)
      then Inl (DomainValidationError ''verified facts require verifier and timestamp'')
      else case vf_verified_at v of
             Some t \<Rightarrow> bindE (require_aware t ''verified_at'') (\<lambda>_. Inr v)
           | None \<Rightarrow> Inr v)"

record BuyerFact =
  bf_fact_id :: string
  bf_organization_id :: string
  bf_subject_type :: string
  bf_subject_id :: string
  bf_field :: string
  bf_operator :: string
  bf_value :: pyval
  bf_kind :: string
  bf_stakeholder_role :: string
  bf_source :: SourceRef
  bf_verification :: Verification
  bf_valid_from :: datetime
  bf_valid_until :: "datetime option"
  bf_sensitivity :: string
  bf_confidence :: string

definition check_validity :: "datetime \<Rightarrow> datetime option \<Rightarrow> unit res" where
  "check_validity from until =
     (case until of None \<Rightarrow> Inr ()
      | Some u \<Rightarrow> bindE (require_aware u ''valid_until'') (\<lambda>_.
          if micros u \<le> micros from then Inl (DomainValidationError ''valid_until must be after valid_from'') else Inr ()))"

definition mk_BuyerFact :: "BuyerFact \<Rightarrow> BuyerFact res" where
  "mk_BuyerFact f =
     bindE (require_ids [(bf_fact_id f, ''fact_id''), (bf_organization_id f, ''organization_id''), (bf_subject_id f, ''subject_id'')]) (\<lambda>_.
       if bf_subject_type f = [] \<or> bf_field f = [] \<or> bf_operator f = []
       then Inl (DomainValidationError ''fact subject, field, and operator are required'')
       else if bf_kind f \<notin> {''hard_constraint'', ''preference'', ''observation'', ''authority''}
       then Inl (DomainValidationError ''unsupported buyer fact kind'')
       else if bf_confidence f \<notin> {''confirmed'', ''measured'', ''inferred'', ''unknown''}
       then Inl (DomainValidationError ''unsupported confidence'')
       else bindE (require_aware (bf_valid_from f) ''valid_from'') (\<lambda>_.
            bindE (check_validity (bf_valid_from f) (bf_valid_until f)) (\<lambda>_.
              if bf_kind f = ''hard_constraint'' \<and> vf_status (bf_verification f) \<notin> {''verified'', ''human_approved''}
              then Inl (DomainValidationError ''hard constraints require verified or owner-approved facts'')
              else Inr (f\<lparr>bf_value := deep_freeze (bf_value f)\<rparr>))))"

text \<open>\<^verbatim>\<open>now\<close> is the current time, read when no point in time is given.\<close>

definition fact_is_current :: "datetime \<Rightarrow> BuyerFact \<Rightarrow> datetime option \<Rightarrow> bool res" where
  "fact_is_current now f time =
     (let point = (case time of Some t \<Rightarrow> t | None \<Rightarrow> now) in
      bindE (require_aware point ''at'') (\<lambda>_.
        Inr (micros (bf_valid_from f) \<le> micros point \<and>
          (case bf_valid_until f of None \<Rightarrow> True | Some u \<Rightarrow> micros point < micros u))))"

record EvidenceRef =
  er_evidence_id :: string
  er_claim_id :: string
  er_source :: SourceRef
  er_assertion_source :: string
  er_visibility :: string
  er_verification_method :: string
  er_verification_scope :: string
  er_verification_state :: string
  er_expires_at :: "datetime option"

definition mk_EvidenceRef :: "EvidenceRef \<Rightarrow> EvidenceRef res" where
  "mk_EvidenceRef r =
     bindE (require_ids [(er_evidence_id r, ''evidence_id''), (er_claim_id r, ''claim_id'')]) (\<lambda>_.
       if er_verification_state r \<notin> {''unverified'', ''verified'', ''disputed'', ''expired'', ''revoked''}
       then Inl (DomainValidationError ''unsupported evidence verification state'')
       else case er_expires_at r of
              Some t \<Rightarrow> bindE (require_aware t ''expires_at'') (\<lambda>_. Inr r)
            | None \<Rightarrow> Inr r)"

section \<open>Purchase intents\<close>

record MerchantIdentity =
  mi_merchant_id :: string
  mi_name :: string
  mi_url :: string
  mi_country :: string

definition mk_MerchantIdentity :: "MerchantIdentity \<Rightarrow> MerchantIdentity res" where
  "mk_MerchantIdentity m =
     bindE (require_id (mi_merchant_id m) ''merchant_id'') (\<lambda>_.
       if mi_name m = [] then Inl (DomainValidationError ''merchant name is required'')
       else if \<not> starts_with (mi_url m) ''https://'' then Inl (DomainValidationError ''merchant URL must use HTTPS'')
       else if length (mi_country m) \<noteq> 2 \<or> \<not> list_all is_upper (mi_country m)
       then Inl (DomainValidationError ''merchant country must be ISO alpha-2'')
       else Inr m)"

definition py_merchant :: "MerchantIdentity \<Rightarrow> pyval" where
  "py_merchant m = PyObj [(''merchant_id'', PyStr (mi_merchant_id m)), (''name'', PyStr (mi_name m)),
     (''url'', PyStr (mi_url m)), (''country'', PyStr (mi_country m))]"

record ExpectedFulfillment =
  xf_fulfillment_item_id :: string
  xf_line_item_id :: string
  xf_type :: string
  xf_subject_type :: string
  xf_required :: bool
  xf_minimum_quantity :: int
  xf_expected_quantity :: int
  xf_verification_method :: string

definition mk_ExpectedFulfillment :: "ExpectedFulfillment \<Rightarrow> ExpectedFulfillment res" where
  "mk_ExpectedFulfillment x =
     bindE (require_ids [(xf_fulfillment_item_id x, ''fulfillment_item_id''), (xf_line_item_id x, ''line_item_id'')]) (\<lambda>_.
       if xf_type x = [] \<or> xf_subject_type x = [] \<or> xf_verification_method x = []
       then Inl (DomainValidationError ''fulfillment type, subject, and verification are required'')
       else if xf_minimum_quantity x < 0 \<or> xf_expected_quantity x < xf_minimum_quantity x
       then Inl (DomainValidationError ''fulfillment quantities are inconsistent'')
       else if xf_required x \<and> xf_minimum_quantity x < 1
       then Inl (DomainValidationError ''required fulfillment needs a positive minimum'')
       else Inr x)"

definition py_fulfillment :: "ExpectedFulfillment \<Rightarrow> pyval" where
  "py_fulfillment x = PyObj
     [(''fulfillment_item_id'', PyStr (xf_fulfillment_item_id x)), (''line_item_id'', PyStr (xf_line_item_id x)),
      (''type'', PyStr (xf_type x)), (''subject_type'', PyStr (xf_subject_type x)), (''required'', PyBool (xf_required x)),
      (''minimum_quantity'', PyInt (xf_minimum_quantity x)), (''expected_quantity'', PyInt (xf_expected_quantity x)),
      (''verification_method'', PyStr (xf_verification_method x))]"

record PurchaseIntent =
  in_schema_version :: string
  in_purchase_intent_id :: string
  in_organization_id :: string
  in_decision_id :: string
  in_decision_hash :: string
  in_solution_plan_id :: string
  in_procurement_plan_id :: string
  in_procurement_gate_result_hash :: string
  in_pack_id :: string
  in_pack_version :: int
  in_offer_id :: string
  in_offer_version :: int
  in_quote_id :: string
  in_quote_expires_at :: datetime
  in_merchant :: MerchantIdentity
  in_approved_merchant_chain_id :: string
  in_amount :: Money
  in_line_items :: "pyval list"
  in_expected_fulfillments :: "ExpectedFulfillment list"
  in_approval_policy_version :: int
  in_approval_plan_hash :: string
  in_buyer_legal_entity_id :: string
  in_seller_contracting_entity_id :: string
  in_billing_identity_id :: string
  in_cost_center_id :: string
  in_contract_version_id :: string
  in_intent_hash :: string

definition py_intent :: "PurchaseIntent \<Rightarrow> pyval" where
  "py_intent p = dict_str
     [(''schema_version'', PyStr (in_schema_version p)),
      (''purchase_intent_id'', PyStr (in_purchase_intent_id p)),
      (''organization_id'', PyStr (in_organization_id p)),
      (''decision_id'', PyStr (in_decision_id p)),
      (''decision_hash'', PyStr (in_decision_hash p)),
      (''solution_plan_id'', PyStr (in_solution_plan_id p)),
      (''procurement_plan_id'', PyStr (in_procurement_plan_id p)),
      (''procurement_gate_result_hash'', PyStr (in_procurement_gate_result_hash p)),
      (''pack_id'', PyStr (in_pack_id p)),
      (''pack_version'', PyInt (in_pack_version p)),
      (''offer_id'', PyStr (in_offer_id p)),
      (''offer_version'', PyInt (in_offer_version p)),
      (''quote_id'', PyStr (in_quote_id p)),
      (''quote_expires_at'', PyDatetime (in_quote_expires_at p)),
      (''merchant'', py_merchant (in_merchant p)),
      (''approved_merchant_chain_id'', PyStr (in_approved_merchant_chain_id p)),
      (''amount'', py_money (in_amount p)),
      (''line_items'', PyTuple (in_line_items p)),
      (''expected_fulfillments'', PyTuple (map py_fulfillment (in_expected_fulfillments p))),
      (''approval_policy_version'', PyInt (in_approval_policy_version p)),
      (''approval_plan_hash'', PyStr (in_approval_plan_hash p)),
      (''buyer_legal_entity_id'', PyStr (in_buyer_legal_entity_id p)),
      (''seller_contracting_entity_id'', PyStr (in_seller_contracting_entity_id p)),
      (''billing_identity_id'', PyStr (in_billing_identity_id p)),
      (''cost_center_id'', PyStr (in_cost_center_id p)),
      (''contract_version_id'', PyStr (in_contract_version_id p))]"

definition intent_ids :: "PurchaseIntent \<Rightarrow> (string \<times> string) list" where
  "intent_ids p =
     [(in_purchase_intent_id p, ''purchase_intent_id''), (in_organization_id p, ''organization_id''),
      (in_decision_id p, ''decision_id''), (in_solution_plan_id p, ''solution_plan_id''),
      (in_procurement_plan_id p, ''procurement_plan_id''), (in_pack_id p, ''pack_id''), (in_offer_id p, ''offer_id''),
      (in_quote_id p, ''quote_id''), (in_approved_merchant_chain_id p, ''approved_merchant_chain_id''),
      (in_buyer_legal_entity_id p, ''buyer_legal_entity_id''),
      (in_seller_contracting_entity_id p, ''seller_contracting_entity_id''),
      (in_billing_identity_id p, ''billing_identity_id''), (in_cost_center_id p, ''cost_center_id''),
      (in_contract_version_id p, ''contract_version_id'')]"

text \<open>The seal shared by hashed values: an empty hash is computed, a given one must match.\<close>

definition seal :: "hash_env \<Rightarrow> pyval \<Rightarrow> string \<Rightarrow> string \<Rightarrow> string \<Rightarrow> string res" where
  "seal E payload given field_name mismatch =
     bindE (content_hash E payload) (\<lambda>computed.
       if given \<noteq> [] then bindE (require_hash given field_name) (\<lambda>_.
         if given \<noteq> computed then Inl (DomainValidationError mismatch) else Inr given)
       else Inr computed)"

definition mk_PurchaseIntent :: "hash_env \<Rightarrow> PurchaseIntent \<Rightarrow> PurchaseIntent res" where
  "mk_PurchaseIntent E p0 =
     bindE (require_ids (intent_ids p0)) (\<lambda>_.
     bindE (require_hash (in_decision_hash p0) ''decision_hash'') (\<lambda>_.
     bindE (require_hash (in_procurement_gate_result_hash p0) ''procurement_gate_result_hash'') (\<lambda>_.
     bindE (require_hash (in_approval_plan_hash p0) ''approval_plan_hash'') (\<lambda>_.
     bindE (require_aware (in_quote_expires_at p0) ''quote_expires_at'') (\<lambda>_.
       if in_pack_version p0 < 1 \<or> in_offer_version p0 < 1 \<or> in_approval_policy_version p0 < 1
       then Inl (DomainValidationError ''artifact versions must be positive'')
       else if in_schema_version p0 = [] then Inl (DomainValidationError ''schema_version is required'')
       else
         let p = p0\<lparr>in_line_items := map deep_freeze (in_line_items p0)\<rparr>
         in if in_line_items p = [] \<or> in_expected_fulfillments p = []
            then Inl (DomainValidationError ''a purchase intent needs line items and expected fulfillment'')
            else bindE (seal E (py_intent p) (in_intent_hash p) ''intent_hash''
                   ''intent_hash does not match the canonical payload'') (\<lambda>h. Inr (p\<lparr>in_intent_hash := h\<rparr>)))))))"

section \<open>Approval bindings and payment handoffs\<close>

record ApprovalBinding =
  ab_approval_request_id :: string
  ab_intent_hash :: string
  ab_status :: ApprovalStatus

definition mk_ApprovalBinding :: "ApprovalBinding \<Rightarrow> ApprovalBinding res" where
  "mk_ApprovalBinding b =
     bindE (require_id (ab_approval_request_id b) ''approval_request_id'') (\<lambda>_.
     bindE (require_hash (ab_intent_hash b) ''intent_hash'') (\<lambda>_. Inr b))"

record PaymentHandoff =
  ph_schema_version :: string
  ph_handoff_id :: string
  ph_organization_id :: string
  ph_purchase_intent_id :: string
  ph_approval_request_id :: string
  ph_intent_hash :: string
  ph_destination_url :: string
  ph_recipient :: string
  ph_amount :: Money
  ph_reference :: string
  ph_created_at :: datetime
  ph_expires_at :: datetime
  ph_status :: PaymentHandoffStatus
  ph_opened_at :: "datetime option"
  ph_handoff_hash :: string

definition py_handoff :: "PaymentHandoff \<Rightarrow> pyval" where
  "py_handoff h = dict_str
     [(''schema_version'', PyStr (ph_schema_version h)),
      (''handoff_id'', PyStr (ph_handoff_id h)),
      (''organization_id'', PyStr (ph_organization_id h)),
      (''purchase_intent_id'', PyStr (ph_purchase_intent_id h)),
      (''approval_request_id'', PyStr (ph_approval_request_id h)),
      (''intent_hash'', PyStr (ph_intent_hash h)),
      (''destination_url'', PyStr (ph_destination_url h)),
      (''recipient'', PyStr (ph_recipient h)),
      (''amount'', py_money (ph_amount h)),
      (''reference'', PyStr (ph_reference h)),
      (''created_at'', PyDatetime (ph_created_at h)),
      (''expires_at'', PyDatetime (ph_expires_at h))]"

definition safe_destination :: "(string \<Rightarrow> bool) \<Rightarrow> string \<Rightarrow> bool res" where
  "safe_destination literal_ok dest =
     bindE (urlsplit literal_ok dest) (\<lambda>u.
       Inr (url_scheme u = ''https'' \<and> url_hostname u \<noteq> [] \<and> \<not> url_has_userinfo u \<and> url_fragment u = []))"

definition check_opened :: "PaymentHandoff \<Rightarrow> unit res" where
  "check_opened h =
     bindE (case ph_opened_at h of Some t \<Rightarrow> require_aware t ''opened_at'' | None \<Rightarrow> Inr ()) (\<lambda>_.
       if ph_status h = OPENED
       then (case ph_opened_at h of
               None \<Rightarrow> Inl (DomainValidationError ''opened payment handoff requires opened_at'')
             | Some t \<Rightarrow> if micros (ph_expires_at h) \<le> micros t
                 then Inl (DomainValidationError ''expired payment handoff cannot be opened'') else Inr ())
       else if ph_opened_at h \<noteq> None
       then Inl (DomainValidationError ''only an opened payment handoff may have opened_at'') else Inr ())"

definition mk_PaymentHandoff :: "hash_env \<Rightarrow> (string \<Rightarrow> bool) \<Rightarrow> PaymentHandoff \<Rightarrow> PaymentHandoff res" where
  "mk_PaymentHandoff E literal_ok h =
     bindE (require_ids [(ph_handoff_id h, ''handoff_id''), (ph_organization_id h, ''organization_id''),
        (ph_purchase_intent_id h, ''purchase_intent_id''), (ph_approval_request_id h, ''approval_request_id'')]) (\<lambda>_.
     bindE (require_hash (ph_intent_hash h) ''intent_hash'') (\<lambda>_.
       if ph_schema_version h = [] then Inl (DomainValidationError ''schema_version is required'')
       else if str_strip (ph_recipient h) = [] \<or> str_strip (ph_reference h) = []
       then Inl (DomainValidationError ''payment handoff recipient and reference are required'')
       else bindE (safe_destination literal_ok (ph_destination_url h)) (\<lambda>safe.
         if \<not> safe
         then Inl (DomainValidationError ''payment handoff destination must be an HTTPS URL without credentials or fragment'')
         else
           bindE (require_aware (ph_created_at h) ''created_at'') (\<lambda>_.
           bindE (require_aware (ph_expires_at h) ''expires_at'') (\<lambda>_.
             if micros (ph_expires_at h) \<le> micros (ph_created_at h)
             then Inl (DomainValidationError ''payment handoff must expire after it is created'')
             else bindE (check_opened h) (\<lambda>_.
               bindE (seal E (py_handoff h) (ph_handoff_hash h) ''handoff_hash''
                   ''handoff_hash does not match the canonical payload'') (\<lambda>s. Inr (h\<lparr>ph_handoff_hash := s\<rparr>))))))))"

section \<open>Sealed values\<close>

lemma seal_Inr:
  "seal E v given f m = Inr h \<longleftrightarrow>
     content_hash E v = Inr h \<and> (given = [] \<or> given = h \<and> valid_hash h)"
  by (auto simp: seal_def bindE_Inr_conv split: if_splits)

end
