(* ===== verification/Approvals.thy ===== *)
theory Approvals
  imports Commerce Transitions
begin

text \<open>
  The approval and payment handoff services (\<^verbatim>\<open>src/python/domain/state_machines.py\<close>): their
  transition tables as instances of the status table contract, approval of an exact intent,
  reconciliation with a changed intent, and the transitions of a handoff.
\<close>

section \<open>Approvals\<close>

fun approval_status_value :: "ApprovalStatus \<Rightarrow> string" where
  "approval_status_value NOT_REQUIRED = ''NOT_REQUIRED''"
| "approval_status_value NOT_REQUESTED = ''NOT_REQUESTED''"
| "approval_status_value PENDING = ''PENDING''"
| "approval_status_value ApprovalStatus.APPROVED = ''APPROVED''"
| "approval_status_value REJECTED = ''REJECTED''"
| "approval_status_value REVOKED = ''REVOKED''"
| "approval_status_value ApprovalStatus.EXPIRED = ''EXPIRED''"
| "approval_status_value SUPERSEDED = ''SUPERSEDED''"

text \<open>The table has no entry for \<open>NOT_REQUIRED\<close>; looking it up raises.\<close>

definition approval_allowed :: "ApprovalStatus \<Rightarrow> ApprovalStatus list option" where
  "approval_allowed s = (case s of
      NOT_REQUIRED \<Rightarrow> None
    | NOT_REQUESTED \<Rightarrow> Some [PENDING]
    | PENDING \<Rightarrow> Some [ApprovalStatus.APPROVED, REJECTED, REVOKED, ApprovalStatus.EXPIRED, SUPERSEDED]
    | ApprovalStatus.APPROVED \<Rightarrow> Some [REVOKED, SUPERSEDED]
    | REJECTED \<Rightarrow> Some []
    | REVOKED \<Rightarrow> Some []
    | ApprovalStatus.EXPIRED \<Rightarrow> Some []
    | SUPERSEDED \<Rightarrow> Some [])"

definition approval_transition :: "ApprovalStatus \<Rightarrow> ApprovalStatus \<Rightarrow> ApprovalStatus res" where
  "approval_transition current target =
     (case approval_allowed current of
        None \<Rightarrow> Inl (KeyError (approval_status_value current))
      | Some targets \<Rightarrow>
          if target \<notin> set targets
          then Inl (InvalidTransitionError (''approval cannot transition '' @ approval_status_value current @
                 '' -> '' @ approval_status_value target))
          else Inr target)"

definition approve_exact :: "ApprovalBinding \<Rightarrow> string \<Rightarrow> ApprovalBinding res" where
  "approve_exact b presented =
     bindE (require_hash presented ''presented_intent_hash'') (\<lambda>_.
       if presented \<noteq> ab_intent_hash b
       then Inl (DomainValidationError ''approval payload hash does not match Purchase Intent'')
       else bindE (approval_transition (ab_status b) ApprovalStatus.APPROVED) (\<lambda>st.
              mk_ApprovalBinding (b\<lparr>ab_status := st\<rparr>)))"

definition reconcile_payload :: "ApprovalBinding \<Rightarrow> string \<Rightarrow> ApprovalBinding res" where
  "reconcile_payload b current =
     bindE (require_hash current ''current_intent_hash'') (\<lambda>_.
       if ab_intent_hash b = current then Inr b
       else if ab_status b \<in> {PENDING, ApprovalStatus.APPROVED}
       then mk_ApprovalBinding (b\<lparr>ab_status := SUPERSEDED\<rparr>)
       else Inr b)"

section \<open>Payment handoffs\<close>

fun handoff_status_value :: "PaymentHandoffStatus \<Rightarrow> string" where
  "handoff_status_value READY = ''READY''"
| "handoff_status_value OPENED = ''OPENED''"
| "handoff_status_value PaymentHandoffStatus.EXPIRED = ''EXPIRED''"
| "handoff_status_value PaymentHandoffStatus.CANCELLED = ''CANCELLED''"

definition handoff_allowed :: "PaymentHandoffStatus \<Rightarrow> PaymentHandoffStatus list" where
  "handoff_allowed s = (case s of
      READY \<Rightarrow> [OPENED, PaymentHandoffStatus.EXPIRED, PaymentHandoffStatus.CANCELLED]
    | OPENED \<Rightarrow> [] | PaymentHandoffStatus.EXPIRED \<Rightarrow> [] | PaymentHandoffStatus.CANCELLED \<Rightarrow> [])"

definition handoff_transition ::
  "hash_env \<Rightarrow> (string \<Rightarrow> bool) \<Rightarrow> PaymentHandoff \<Rightarrow> PaymentHandoffStatus \<times> datetime \<Rightarrow> PaymentHandoff res" where
  "handoff_transition E literal_ok h tt =
     (case tt of (target, time) \<Rightarrow>
        bindE (require_aware time ''at'') (\<lambda>_.
          if target \<notin> set (handoff_allowed (ph_status h))
          then Inl (InvalidTransitionError (''payment handoff cannot transition '' @ handoff_status_value (ph_status h) @
                 '' -> '' @ handoff_status_value target))
          else if target = OPENED
          then (if micros (ph_expires_at h) \<le> micros time
                then Inl (InvalidTransitionError ''expired payment handoff cannot be opened'')
                else mk_PaymentHandoff E literal_ok (h\<lparr>ph_status := target, ph_opened_at := Some time\<rparr>))
          else mk_PaymentHandoff E literal_ok (h\<lparr>ph_status := target\<rparr>)))"

section \<open>The tables meet the status contract\<close>

definition approval_successors :: "ApprovalStatus \<Rightarrow> ApprovalStatus list" where
  "approval_successors s = (case approval_allowed s of None \<Rightarrow> [] | Some ts \<Rightarrow> ts)"

definition approval_steps_left :: "ApprovalStatus \<Rightarrow> nat" where
  "approval_steps_left s = (case s of NOT_REQUESTED \<Rightarrow> 3 | PENDING \<Rightarrow> 2 | ApprovalStatus.APPROVED \<Rightarrow> 1 | _ \<Rightarrow> 0)"

interpretation approval: progressing_table approval_successors approval_transition approval_steps_left
proof
  show "approval_transition a b = Inr c \<longleftrightarrow> b \<in> set (approval_successors a) \<and> c = b" for a b c
    by (auto simp: approval_transition_def approval_successors_def split: option.splits)
  show "b \<in> set (approval_successors a) \<Longrightarrow> approval_steps_left b < approval_steps_left a" for a b
    by (cases a) (auto simp: approval_successors_def approval_allowed_def approval_steps_left_def)
qed

definition check_handoff :: "PaymentHandoffStatus \<Rightarrow> PaymentHandoffStatus \<Rightarrow> unit + PaymentHandoffStatus" where
  "check_handoff a b = (if b \<in> set (handoff_allowed a) then Inr b else Inl ())"

definition handoff_steps_left :: "PaymentHandoffStatus \<Rightarrow> nat" where
  "handoff_steps_left s = of_bool (s = READY)"

interpretation handoff: progressing_table handoff_allowed check_handoff handoff_steps_left
proof
  show "check_handoff a b = Inr c \<longleftrightarrow> b \<in> set (handoff_allowed a) \<and> c = b" for a b c
    by (auto simp: check_handoff_def)
  show "b \<in> set (handoff_allowed a) \<Longrightarrow> handoff_steps_left b < handoff_steps_left a" for a b
    by (cases a) (auto simp: handoff_allowed_def handoff_steps_left_def)
qed

section \<open>Bindings\<close>

lemma approve_exact_Inr:
  "approve_exact b h = Inr c \<longleftrightarrow>
     valid_id (ab_approval_request_id b) \<and> valid_hash h \<and> h = ab_intent_hash b \<and> ab_status b = PENDING \<and>
     c = b\<lparr>ab_status := ApprovalStatus.APPROVED\<rparr>"
  by (cases "ab_status b")
    (auto simp: approve_exact_def mk_ApprovalBinding_def approval_transition_def approval_allowed_def bindE_Inr_conv
      split: if_splits)

lemma reconcile_payload_Inr:
  "reconcile_payload b h = Inr c \<Longrightarrow>
     valid_hash h \<and> ab_intent_hash c = ab_intent_hash b \<and> ab_approval_request_id c = ab_approval_request_id b \<and>
     (if h = ab_intent_hash b \<or> ab_status b \<notin> {PENDING, ApprovalStatus.APPROVED} then c = b
      else ab_status c = SUPERSEDED)"
  by (auto simp: reconcile_payload_def mk_ApprovalBinding_def bindE_Inr_conv split: if_splits)

text \<open>The history of a binding: decisions on presented hashes, and changes of the intent.\<close>

datatype binding_event = Approve string | Reconcile string

fun binding_step :: "ApprovalBinding \<Rightarrow> binding_event \<Rightarrow> ApprovalBinding res" where
  "binding_step b (Approve h) = approve_exact b h"
| "binding_step b (Reconcile h) = reconcile_payload b h"

lemma superseded_stays:
  "run_steps binding_step b evs = Inr c \<Longrightarrow> ab_status b = SUPERSEDED \<Longrightarrow> ab_status c = SUPERSEDED"
proof (erule run_steps_invariant)
  fix s e s' assume "ab_status s = SUPERSEDED" "binding_step s e = Inr s'"
  then show "ab_status s' = SUPERSEDED"
    by (cases e) (auto simp: approve_exact_Inr dest: reconcile_payload_Inr)
qed

lemma binding_identity:
  "run_steps binding_step b evs = Inr c \<Longrightarrow>
     ab_intent_hash c = ab_intent_hash b \<and> ab_approval_request_id c = ab_approval_request_id b"
proof (erule run_steps_invariant)
  fix s e s' assume "ab_intent_hash s = ab_intent_hash b \<and> ab_approval_request_id s = ab_approval_request_id b"
    "binding_step s e = Inr s'"
  then show "ab_intent_hash s' = ab_intent_hash b \<and> ab_approval_request_id s' = ab_approval_request_id b"
    by (cases e) (auto simp: approve_exact_Inr dest: reconcile_payload_Inr)
qed simp

lemma unchanged_payload:
  "run_steps binding_step b evs = Inr c \<Longrightarrow> ab_status b \<in> {PENDING, ApprovalStatus.APPROVED} \<Longrightarrow>
     ab_status c = ApprovalStatus.APPROVED \<Longrightarrow>
     (\<forall>h. Reconcile h \<in> set evs \<longrightarrow> h = ab_intent_hash b) \<and>
     (ab_status b = PENDING \<longrightarrow> Approve (ab_intent_hash b) \<in> set evs)"
proof (induction evs arbitrary: b)
  case (Cons e evs)
  from Cons.prems(1) obtain d where d: "binding_step b e = Inr d" "run_steps binding_step d evs = Inr c"
    by (auto simp: bindE_Inr_conv)
  show ?case
  proof (cases e)
    case (Approve h)
    with d(1) have "d = b\<lparr>ab_status := ApprovalStatus.APPROVED\<rparr>" "h = ab_intent_hash b" by (simp_all add: approve_exact_Inr)
    then show ?thesis using Cons.IH [OF d(2)] Cons.prems(3) Approve by auto
  next
    case (Reconcile h)
    with d(1) have r: "ab_intent_hash d = ab_intent_hash b"
        "if h = ab_intent_hash b then d = b else ab_status d = SUPERSEDED"
      using Cons.prems(2) by (auto dest: reconcile_payload_Inr)
    have "h = ab_intent_hash b"
    proof (rule ccontr)
      assume "h \<noteq> ab_intent_hash b"
      then have "ab_status d = SUPERSEDED" using r(2) by simp
      then show False using superseded_stays [OF d(2)] Cons.prems(3) by simp
    qed
    then show ?thesis using Cons.IH [OF d(2)] r(2) Cons.prems(2,3) Reconcile by auto
  qed
qed auto

section \<open>Handoffs\<close>

definition handoff_ok :: "hash_env \<Rightarrow> (string \<Rightarrow> bool) \<Rightarrow> PaymentHandoff \<Rightarrow> bool" where
  "handoff_ok E literal_ok h \<longleftrightarrow>
     safe_destination literal_ok (ph_destination_url h) = Inr True \<and> valid_hash (ph_intent_hash h) \<and>
     micros (ph_created_at h) < micros (ph_expires_at h) \<and>
     content_hash E (py_handoff h) = Inr (ph_handoff_hash h) \<and>
     (case ph_opened_at h of
        None \<Rightarrow> ph_status h \<noteq> OPENED
      | Some t \<Rightarrow> ph_status h = OPENED \<and> tz_aware t \<and> micros t < micros (ph_expires_at h))"

lemma check_opened_Inr:
  "check_opened h = Inr () \<longleftrightarrow>
     (case ph_opened_at h of
        None \<Rightarrow> ph_status h \<noteq> OPENED
      | Some t \<Rightarrow> ph_status h = OPENED \<and> tz_aware t \<and> micros t < micros (ph_expires_at h))"
  by (auto simp: check_opened_def bindE_Inr_conv split: option.splits if_splits)

lemma py_handoff_frame [simp]:
  "py_handoff (h\<lparr>ph_handoff_hash := x\<rparr>) = py_handoff h" "py_handoff (h\<lparr>ph_status := st\<rparr>) = py_handoff h"
  "py_handoff (h\<lparr>ph_opened_at := t\<rparr>) = py_handoff h"
  by (simp_all add: py_handoff_def)

lemma mk_PaymentHandoff_Inr:
  assumes "mk_PaymentHandoff E literal_ok h = Inr k"
  shows "handoff_ok E literal_ok k" "\<exists>x. k = h\<lparr>ph_handoff_hash := x\<rparr> \<and> (ph_handoff_hash h = [] \<or> x = ph_handoff_hash h)"
  using assms
  by (auto simp: mk_PaymentHandoff_def bindE_Inr_conv check_opened_Inr seal_Inr handoff_ok_def
      split: if_splits option.splits)

lemma content_hash_nonempty: "content_hash E v = Inr h \<Longrightarrow> h \<noteq> []"
  by (auto simp: content_hash_Inr)

lemma handoff_transition_Inr:
  assumes "handoff_transition E literal_ok h (target, time) = Inr k" "handoff_ok E literal_ok h"
  shows "ph_status h = READY \<and> target \<noteq> READY \<and> handoff_ok E literal_ok k \<and>
    k = h\<lparr>ph_status := target, ph_opened_at := (if target = OPENED then Some time else None)\<rparr>"
proof -
  have step: "target \<in> set (handoff_allowed (ph_status h))"
    and k: "mk_PaymentHandoff E literal_ok (h\<lparr>ph_status := target, ph_opened_at := (if target = OPENED then Some time else ph_opened_at h)\<rparr>) = Inr k"
    using assms(1) by (auto simp: handoff_transition_def bindE_Inr_conv split: if_splits)
  have ready: "ph_status h = READY" "target \<noteq> READY" using step by (cases "ph_status h"; auto simp: handoff_allowed_def)+
  then have "ph_opened_at h = None" using assms(2) by (auto simp: handoff_ok_def split: option.splits)
  moreover have "ph_handoff_hash h \<noteq> []" using assms(2) by (auto simp: handoff_ok_def dest: content_hash_nonempty)
  ultimately show ?thesis using mk_PaymentHandoff_Inr [OF k] ready by auto
qed

end
