(* ===== verification/Exchange.thy ===== *)
theory Exchange
  imports Values Transitions
begin

text \<open>
  The two-party exchange compiler (\<^verbatim>\<open>src/python/domain/bilateral_exchange.py\<close>): party commands with
  their validation, the coordinator state, the transition compiler and the projections released to
  the two parties. Canonical JSON and SHA-256 applied to raw payloads are the fields of \<open>raw_env\<close>.
\<close>

section \<open>Commands\<close>

datatype exchange_error =
    ExchangeConflict string
  | ValidationError string
  | CanonicalizationError

type_synonym 'a ex = "exchange_error + 'a"

datatype ExchangeParty = BUYER | SELLER | SYSTEM

fun party_value :: "ExchangeParty \<Rightarrow> string" where
  "party_value BUYER = ''BUYER''"
| "party_value SELLER = ''SELLER''"
| "party_value SYSTEM = ''SYSTEM''"

datatype ExchangeState =
    CREATED | REQUIREMENT_RELEASED | EVIDENCE_RELEASED | OFFERED | COUNTERED | AGREED_PENDING_APPROVAL
  | APPROVED_FOR_HANDOFF | REJECTED | EXPIRED

fun exchange_state_value :: "ExchangeState \<Rightarrow> string" where
  "exchange_state_value CREATED = ''CREATED''"
| "exchange_state_value REQUIREMENT_RELEASED = ''REQUIREMENT_RELEASED''"
| "exchange_state_value EVIDENCE_RELEASED = ''EVIDENCE_RELEASED''"
| "exchange_state_value OFFERED = ''OFFERED''"
| "exchange_state_value COUNTERED = ''COUNTERED''"
| "exchange_state_value AGREED_PENDING_APPROVAL = ''AGREED_PENDING_APPROVAL''"
| "exchange_state_value APPROVED_FOR_HANDOFF = ''APPROVED_FOR_HANDOFF''"
| "exchange_state_value REJECTED = ''REJECTED''"
| "exchange_state_value EXPIRED = ''EXPIRED''"

datatype CommandType =
    RELEASE_REQUIREMENT | PUBLISH_EVIDENCE | PROPOSE_OFFER | COUNTER_OFFER | ACCEPT_OFFER | ACCEPT_COUNTER
  | APPROVE_HANDOFF | REJECT | EXPIRE

record PartyCommand =
  pc_id :: string
  pc_case_id :: string
  pc_party :: ExchangeParty
  pc_actor_id :: string
  pc_command_type :: CommandType
  pc_expected_version :: int
  pc_idempotency_key :: string
  pc_payload :: "(pykey \<times> pyval) list"

definition command_owner :: "CommandType \<Rightarrow> ExchangeParty" where
  "command_owner t = (case t of
      RELEASE_REQUIREMENT \<Rightarrow> BUYER
    | PUBLISH_EVIDENCE \<Rightarrow> SELLER
    | PROPOSE_OFFER \<Rightarrow> BUYER
    | COUNTER_OFFER \<Rightarrow> SELLER
    | ACCEPT_OFFER \<Rightarrow> SELLER
    | ACCEPT_COUNTER \<Rightarrow> BUYER
    | APPROVE_HANDOFF \<Rightarrow> SYSTEM
    | REJECT \<Rightarrow> SYSTEM
    | EXPIRE \<Rightarrow> SYSTEM)"

definition private_parts :: "string list" where
  "private_parts = [''buyer_private'', ''seller_private'', ''hidden_budget'', ''reservation_value'', ''seller_floor'',
     ''private_notes'', ''private_source'']"

definition private_key :: "pykey \<Rightarrow> bool" where
  "private_key k \<longleftrightarrow> list_ex (str_contains (str_lower (key_text k))) private_parts"

text \<open>\<^verbatim>\<open>_reject_private_fields\<close> raises exactly if a key of a nested dict is private.\<close>

fun has_private :: "pyval \<Rightarrow> bool" where
  "has_private (PyDict kvs) = list_ex (\<lambda>(k, v). private_key k \<or> has_private v) kvs"
| "has_private (PyList xs) = list_ex has_private xs"
| "has_private (PyTuple xs) = list_ex has_private xs"
| "has_private _ = False"

definition length_between :: "nat \<Rightarrow> nat \<Rightarrow> string \<Rightarrow> bool" where
  "length_between a b s \<longleftrightarrow> a \<le> length s \<and> length s \<le> b"

definition mk_PartyCommand :: "PartyCommand \<Rightarrow> PartyCommand ex" where
  "mk_PartyCommand c =
     (if \<not> length_between 1 64 (pc_id c) then Inl (ValidationError ''id'')
      else if \<not> length_between 1 64 (pc_case_id c) then Inl (ValidationError ''case_id'')
      else if \<not> length_between 1 100 (pc_actor_id c) then Inl (ValidationError ''actor_id'')
      else if pc_expected_version c < 1 then Inl (ValidationError ''expected_version'')
      else if \<not> length_between 1 128 (pc_idempotency_key c) then Inl (ValidationError ''idempotency_key'')
      else if pc_party c \<noteq> command_owner (pc_command_type c)
      then Inl (ValidationError ''party does not own this command type'')
      else if has_private (PyDict (pc_payload c))
      then Inl (ValidationError ''party command contains a private-plane field'')
      else Inr c)"

section \<open>Coordinator\<close>

record CoordinatorState =
  cs_case_id :: string
  cs_state :: ExchangeState
  cs_version :: int
  cs_requirement :: "(pykey \<times> pyval) list option"
  cs_evidence :: "(pykey \<times> pyval) list option"
  cs_current_offer :: "(pykey \<times> pyval) list option"
  cs_approval :: "(pykey \<times> pyval) list option"
  cs_last_command_id :: "string option"

record PartyProjection =
  pp_case_id :: string
  pp_party :: ExchangeParty
  pp_state :: ExchangeState
  pp_version :: int
  pp_released :: "(pykey \<times> pyval) list"
  pp_source_command_id :: string
  pp_projection_hash :: string

record CompiledTransition =
  ct_previous_state :: ExchangeState
  ct_next_state :: CoordinatorState
  ct_buyer_projection :: PartyProjection
  ct_seller_projection :: PartyProjection

record raw_env =
  raw_dumps :: "pyval \<Rightarrow> string option"
  raw_sha256 :: "string \<Rightarrow> string"

definition exchange_transitions :: "ExchangeState \<Rightarrow> CommandType \<Rightarrow> ExchangeState option" where
  "exchange_transitions s t =
     map_of [((CREATED, RELEASE_REQUIREMENT), REQUIREMENT_RELEASED),
       ((REQUIREMENT_RELEASED, PUBLISH_EVIDENCE), EVIDENCE_RELEASED),
       ((EVIDENCE_RELEASED, PROPOSE_OFFER), OFFERED),
       ((OFFERED, COUNTER_OFFER), COUNTERED),
       ((OFFERED, ACCEPT_OFFER), AGREED_PENDING_APPROVAL),
       ((COUNTERED, ACCEPT_COUNTER), AGREED_PENDING_APPROVAL),
       ((AGREED_PENDING_APPROVAL, APPROVE_HANDOFF), APPROVED_FOR_HANDOFF)] (s, t)"

definition released_fields :: "CoordinatorState \<Rightarrow> (pykey \<times> pyval) list" where
  "released_fields s =
     (case cs_requirement s of None \<Rightarrow> [] | Some d \<Rightarrow> [(KStr ''requirement'', PyDict d)]) @
     (case cs_evidence s of None \<Rightarrow> [] | Some d \<Rightarrow> [(KStr ''evidence'', PyDict d)]) @
     (case cs_current_offer s of None \<Rightarrow> [] | Some d \<Rightarrow> [(KStr ''current_offer'', PyDict d)]) @
     (case cs_approval s of None \<Rightarrow> [] | Some d \<Rightarrow> [(KStr ''approval'', PyDict d)])"

definition projection :: "raw_env \<Rightarrow> CoordinatorState \<Rightarrow> ExchangeParty \<Rightarrow> string \<Rightarrow> PartyProjection ex" where
  "projection R s party command_id =
     (let payload = dict_str
            [(''case_id'', PyStr (cs_case_id s)), (''party'', PyStr (party_value party)),
             (''state'', PyStr (exchange_state_value (cs_state s))), (''version'', PyInt (cs_version s)),
             (''released'', PyDict (released_fields s)), (''source_command_id'', PyStr command_id)]
      in case raw_dumps R payload of
           None \<Rightarrow> Inl CanonicalizationError
         | Some t \<Rightarrow>
             let h = ''sha256:'' @ raw_sha256 R t in
             if \<not> valid_hash h then Inl (ValidationError ''projection_hash'')
             else Inr \<lparr>pp_case_id = cs_case_id s, pp_party = party, pp_state = cs_state s, pp_version = cs_version s,
                    pp_released = released_fields s, pp_source_command_id = command_id, pp_projection_hash = h\<rparr>)"

definition command_target :: "CoordinatorState \<Rightarrow> PartyCommand \<Rightarrow> ExchangeState ex" where
  "command_target s c =
     (if pc_command_type c \<in> {REJECT, EXPIRE}
      then Inr (if pc_command_type c = REJECT then REJECTED else EXPIRED)
      else case exchange_transitions (cs_state s) (pc_command_type c) of
             None \<Rightarrow> Inl (ExchangeConflict ''command is invalid for the current exchange state'')
           | Some t \<Rightarrow> Inr t)"

definition command_changes :: "CoordinatorState \<Rightarrow> PartyCommand \<Rightarrow> ExchangeState \<Rightarrow> CoordinatorState" where
  "command_changes s c target =
     (let s1 = s\<lparr>cs_state := target, cs_version := cs_version s + 1, cs_last_command_id := Some (pc_id c)\<rparr>;
          t = pc_command_type c
      in if t = RELEASE_REQUIREMENT then s1\<lparr>cs_requirement := Some (pc_payload c)\<rparr>
         else if t = PUBLISH_EVIDENCE then s1\<lparr>cs_evidence := Some (pc_payload c)\<rparr>
         else if t \<in> {PROPOSE_OFFER, COUNTER_OFFER} then s1\<lparr>cs_current_offer := Some (pc_payload c)\<rparr>
         else if t = APPROVE_HANDOFF then s1\<lparr>cs_approval := Some (pc_payload c)\<rparr>
         else s1)"

definition compile_party_command :: "raw_env \<Rightarrow> CoordinatorState \<Rightarrow> PartyCommand \<Rightarrow> CompiledTransition ex" where
  "compile_party_command R s c =
     (if pc_case_id c \<noteq> cs_case_id s then Inl (ExchangeConflict ''command targets another exchange case'')
      else if pc_expected_version c \<noteq> cs_version s
      then Inl (ExchangeConflict ''command expected a stale coordinator version'')
      else bindE (command_target s c) (\<lambda>target.
        let next_state = command_changes s c target in
        bindE (projection R next_state BUYER (pc_id c)) (\<lambda>bp.
        bindE (projection R next_state SELLER (pc_id c)) (\<lambda>sp.
          Inr \<lparr>ct_previous_state = cs_state s, ct_next_state = next_state,
               ct_buyer_projection = bp, ct_seller_projection = sp\<rparr>))))"

text \<open>The coordinator follows the compiled transitions of validated commands.\<close>

definition exchange_step :: "raw_env \<Rightarrow> CoordinatorState \<Rightarrow> PartyCommand \<Rightarrow> CoordinatorState ex" where
  "exchange_step R s c0 =
     bindE (mk_PartyCommand c0) (\<lambda>c. bindE (compile_party_command R s c) (\<lambda>t. Inr (ct_next_state t)))"

definition initial_exchange :: "string \<Rightarrow> CoordinatorState" where
  "initial_exchange case_id = \<lparr>cs_case_id = case_id, cs_state = CREATED, cs_version = 1, cs_requirement = None,
     cs_evidence = None, cs_current_offer = None, cs_approval = None, cs_last_command_id = None\<rparr>"

section \<open>The state table meets the status contract\<close>

definition exchange_successors :: "ExchangeState \<Rightarrow> ExchangeState list" where
  "exchange_successors s =
     List.map_filter (exchange_transitions s)
       [RELEASE_REQUIREMENT, PUBLISH_EVIDENCE, PROPOSE_OFFER, COUNTER_OFFER, ACCEPT_OFFER, ACCEPT_COUNTER, APPROVE_HANDOFF]
     @ [REJECTED, EXPIRED]"

definition check_exchange :: "ExchangeState \<Rightarrow> ExchangeState \<Rightarrow> unit + ExchangeState" where
  "check_exchange a b = (if b \<in> set (exchange_successors a) then Inr b else Inl ())"

interpretation exchange: status_table exchange_successors check_exchange
  by unfold_locales (auto simp: check_exchange_def)

lemma closed_exchange_stays:
  "exchange.succeeds\<^sup>*\<^sup>* a b \<Longrightarrow> a \<in> {REJECTED, EXPIRED} \<Longrightarrow> b \<in> {REJECTED, EXPIRED}"
  by (erule exchange.reachable_closed [where S = "{REJECTED, EXPIRED}"])
    (auto simp: exchange_successors_def exchange_transitions_def map_filter_simps)

section \<open>What a run of commands leaves\<close>

lemma mk_PartyCommand_Inr:
  "mk_PartyCommand c = Inr d \<Longrightarrow>
     d = c \<and> pc_party c = command_owner (pc_command_type c) \<and> \<not> has_private (PyDict (pc_payload c))"
  by (auto simp: mk_PartyCommand_def split: if_splits)

lemma exchange_step_Inr:
  assumes "exchange_step R s c = Inr t"
  obtains target where "mk_PartyCommand c = Inr c" "pc_case_id c = cs_case_id s" "pc_expected_version c = cs_version s"
    "command_target s c = Inr target" "t = command_changes s c target"
  using assms mk_PartyCommand_Inr [of c]
  by (auto simp: exchange_step_def compile_party_command_def bindE_Inr_conv Let_def split: if_splits)

definition last_payload :: "CommandType set \<Rightarrow> PartyCommand list \<Rightarrow> (pykey \<times> pyval) list option" where
  "last_payload ts cs =
     (case filter (\<lambda>c. pc_command_type c \<in> ts) (rev cs) of [] \<Rightarrow> None | c # _ \<Rightarrow> Some (pc_payload c))"

lemma last_payload_simps [simp]:
  "last_payload ts [] = None"
  "last_payload ts (cs @ [c]) = (if pc_command_type c \<in> ts then Some (pc_payload c) else last_payload ts cs)"
  by (simp_all add: last_payload_def)

text \<open>The command histories that can lead to each open state.\<close>

definition offered_history :: "CommandType list" where
  "offered_history = [RELEASE_REQUIREMENT, PUBLISH_EVIDENCE, PROPOSE_OFFER]"

definition state_histories :: "ExchangeState \<Rightarrow> CommandType list list" where
  "state_histories s = (case s of
      CREATED \<Rightarrow> [[]]
    | REQUIREMENT_RELEASED \<Rightarrow> [[RELEASE_REQUIREMENT]]
    | EVIDENCE_RELEASED \<Rightarrow> [[RELEASE_REQUIREMENT, PUBLISH_EVIDENCE]]
    | OFFERED \<Rightarrow> [offered_history]
    | COUNTERED \<Rightarrow> [offered_history @ [COUNTER_OFFER]]
    | AGREED_PENDING_APPROVAL \<Rightarrow> [offered_history @ [ACCEPT_OFFER], offered_history @ [COUNTER_OFFER, ACCEPT_COUNTER]]
    | APPROVED_FOR_HANDOFF \<Rightarrow> [offered_history @ [ACCEPT_OFFER, APPROVE_HANDOFF],
        offered_history @ [COUNTER_OFFER, ACCEPT_COUNTER, APPROVE_HANDOFF]]
    | REJECTED \<Rightarrow> [] | EXPIRED \<Rightarrow> [])"

lemma exchange_transitions_Some:
  "exchange_transitions s t = Some s' \<Longrightarrow> h \<in> set (state_histories s) \<Longrightarrow> h @ [t] \<in> set (state_histories s')"
  by (cases s; cases t) (auto simp: exchange_transitions_def state_histories_def offered_history_def)

definition exchange_inv :: "string \<Rightarrow> PartyCommand list \<Rightarrow> CoordinatorState \<Rightarrow> bool" where
  "exchange_inv case_id cs s \<longleftrightarrow>
     cs_case_id s = case_id \<and> cs_version s = 1 + int (length cs) \<and>
     (cs_state s \<notin> {REJECTED, EXPIRED} \<longrightarrow> map pc_command_type cs \<in> set (state_histories (cs_state s))) \<and>
     cs_requirement s = last_payload {RELEASE_REQUIREMENT} cs \<and>
     cs_evidence s = last_payload {PUBLISH_EVIDENCE} cs \<and>
     cs_current_offer s = last_payload {PROPOSE_OFFER, COUNTER_OFFER} cs \<and>
     cs_approval s = last_payload {APPROVE_HANDOFF} cs"

lemma command_target_Inr:
  "command_target s c = Inr target \<Longrightarrow>
     target \<in> {REJECTED, EXPIRED} \<or> exchange_transitions (cs_state s) (pc_command_type c) = Some target"
  by (auto simp: command_target_def split: if_splits option.splits)

lemma exchange_inv_step:
  assumes "exchange_inv cid cs s" "exchange_step R s c = Inr t"
  shows "exchange_inv cid (cs @ [c]) t"
proof -
  from exchange_step_Inr [OF assms(2)] obtain target where
    c: "command_target s c = Inr target" "t = command_changes s c target" by blast
  have hist: "map pc_command_type (cs @ [c]) \<in> set (state_histories target)" if "target \<notin> {REJECTED, EXPIRED}"
  proof -
    have tr: "exchange_transitions (cs_state s) (pc_command_type c) = Some target"
      using command_target_Inr [OF c(1)] that by blast
    then have "cs_state s \<notin> {REJECTED, EXPIRED}" by (auto simp: exchange_transitions_def)
    then have "map pc_command_type cs \<in> set (state_histories (cs_state s))"
      using assms(1) by (simp add: exchange_inv_def)
    then show ?thesis using exchange_transitions_Some [OF tr] by simp
  qed
  show ?thesis
    using assms(1) hist by (auto simp: exchange_inv_def c(2) command_changes_def Let_def)
qed

lemma exchange_run_inv:
  "run_steps (exchange_step R) (initial_exchange cid) cs = Inr s \<Longrightarrow> exchange_inv cid cs s"
proof (induction cs arbitrary: s rule: rev_induct)
  case Nil
  then show ?case by (auto simp: exchange_inv_def initial_exchange_def state_histories_def)
next
  case (snoc c cs)
  then obtain t where "run_steps (exchange_step R) (initial_exchange cid) cs = Inr t" "exchange_step R t c = Inr s"
    by (auto simp: run_steps_append bindE_Inr_conv)
  then show ?case using exchange_inv_step snoc.IH by blast
qed

lemma exchange_run_commands:
  assumes "run_steps (exchange_step R) s0 cs = Inr s"
  shows "\<forall>c \<in> set cs. mk_PartyCommand c = Inr c"
  using assms
proof (induction cs arbitrary: s0)
  case (Cons c cs)
  then show ?case by (auto simp: bindE_Inr_conv elim: exchange_step_Inr)
qed simp

text \<open>No released field holds a private key.\<close>

lemma last_payload_private:
  "\<forall>c \<in> set cs. mk_PartyCommand c = Inr c \<Longrightarrow> last_payload ts cs = Some d \<Longrightarrow> \<not> has_private (PyDict d)"
proof (induction cs rule: rev_induct)
  case (snoc c cs)
  then show ?case by (auto simp: mk_PartyCommand_Inr split: if_splits dest: mk_PartyCommand_Inr)
qed simp

lemma public_field_names:
  "\<not> private_key (KStr ''requirement'')" "\<not> private_key (KStr ''evidence'')"
  "\<not> private_key (KStr ''current_offer'')" "\<not> private_key (KStr ''approval'')"
  by code_simp+

lemma released_public:
  assumes "exchange_inv cid cs s" "\<forall>c \<in> set cs. mk_PartyCommand c = Inr c"
  shows "\<not> has_private (PyDict (released_fields s))"
  using last_payload_private [OF assms(2)] assms(1) public_field_names
  by (auto simp: released_fields_def exchange_inv_def split: option.splits)

lemma projection_Inr:
  "projection R s party i = Inr p \<Longrightarrow>
     pp_released p = released_fields s \<and> pp_state p = cs_state s \<and> pp_version p = cs_version s \<and>
     pp_case_id p = cs_case_id s \<and> pp_party p = party \<and> pp_source_command_id p = i \<and> valid_hash (pp_projection_hash p)"
  by (auto simp: projection_def Let_def split: option.splits if_splits)

end
