(* ===== verification/Publication.thy ===== *)
theory Publication
  imports Values
begin

text \<open>
  The publication boundary (\<^verbatim>\<open>src/python/domain/publication.py\<close>): a deny-by-default copy of the
  allowlisted dotted paths of a document, checked for denied field names at every depth. Documents
  are JSON values as plain dicts and lists with string keys; copies are equal to their originals.
\<close>

section \<open>Allowlists and denied fields\<close>

definition requirement_brief_allowlist :: "string list" where
  "requirement_brief_allowlist =
     [''schema_version'', ''requirement_brief_id'', ''request_id'', ''version'', ''visibility'',
      ''category_id'', ''jtbd_id'', ''intent'', ''desired_outcome'', ''desired_outcome.metric'',
      ''desired_outcome.target'', ''desired_outcome.operator'', ''desired_outcome.checkpoint_days'',
      ''seat_count'', ''deadline'', ''region'', ''currency'', ''meeting_platforms'',
      ''required_capabilities'', ''workflow_requirements'', ''privacy_requirements'',
      ''privacy_requirements.customer_training_allowed'', ''privacy_requirements.residency'',
      ''privacy_requirements.retention'', ''privacy_requirements.recording_notice_required'',
      ''privacy_requirements.source_links_required'', ''identity_requirements'',
      ''integration_requirements'', ''implementation_constraints'', ''disclosed_stack_interfaces'']"

definition pack_publication_allowlist :: "string list" where
  "pack_publication_allowlist =
     [''schema_version'', ''pack_id'', ''version'', ''status'', ''seller_id'', ''product_id'',
      ''offer_ids'', ''category_ids'', ''jtbd_ids'', ''identity'', ''jobs_and_segments'',
      ''capabilities'', ''requirements'', ''compatibility'', ''security_privacy'', ''deployment'',
      ''commercial'', ''contract'', ''facts'', ''fit_rules'', ''anti_fit_rules'',
      ''dependency_rules'', ''positioning_angles'', ''claims'', ''fulfillment_spec'',
      ''merchant_chain'', ''operations'', ''learning_policy'', ''published_at'',
      ''supersedes_version'', ''content_hash'']"

definition denied_segments :: "string list" where
  "denied_segments =
     [''organization_name'', ''organization_id'', ''company_name'', ''company_identity'',
      ''buyer_identity'', ''hidden_budget'', ''hidden_maximum'', ''maximum_budget'',
      ''budget_envelope'', ''payer_identity'', ''employee'', ''employees'', ''contacts'',
      ''contact_details'', ''email'', ''phone'', ''private_failures'', ''prior_private_failures'',
      ''competing_bids'', ''competing_offers'', ''competitor_list'', ''unrestricted_stackfile'',
      ''raw_buyer_passport'', ''roadmap_notes'', ''negotiation_bounds'', ''seller_floor'',
      ''fulfillment_credentials'', ''provider_credentials'', ''source_material'',
      ''compilation_history'']"

definition denied_markers :: "string list" where
  "denied_markers =
     [''secret'', ''password'', ''credential'', ''dynamic_cvv'', ''hidden_budget'',
      ''hidden_maximum'', ''budget_envelope'', ''roadmap'', ''negotiation_bound'', ''seller_floor'',
      ''service_account'', ''private_failure'', ''competing_bid'', ''competing_offer'',
      ''competitor_list'', ''source_material'', ''compilation_history'', ''unpublished_constraint'']"

definition is_denied_segment :: "string \<Rightarrow> bool" where
  "is_denied_segment v \<longleftrightarrow>
     str_lower v \<in> set denied_segments \<or> list_ex (str_contains (str_lower v)) denied_markers"

section \<open>Paths\<close>

text \<open>The value at a path, where every step goes through a dict that has the key.\<close>

fun path_value :: "pyval \<Rightarrow> string list \<Rightarrow> pyval option" where
  "path_value v [] = Some v"
| "path_value (PyDict kvs) (seg # segs) =
     (case map_of kvs (KStr seg) of None \<Rightarrow> None | Some v \<Rightarrow> path_value v segs)"
| "path_value _ (seg # segs) = None"

text \<open>Assignment at a path, through \<^verbatim>\<open>setdefault(segment, {})\<close> on the way.\<close>

fun put_path :: "string list \<Rightarrow> pyval \<Rightarrow> pyval \<Rightarrow> pyval res" where
  "put_path [] w d = Inr w"
| "put_path [seg] w (PyDict kvs) = Inr (PyDict (AList.update (KStr seg) w kvs))"
| "put_path (seg # seg' # segs) w (PyDict kvs) =
     bindE (put_path (seg' # segs) w (case map_of kvs (KStr seg) of None \<Rightarrow> PyDict [] | Some v \<Rightarrow> v)) (\<lambda>v'.
       Inr (PyDict (AList.update (KStr seg) v' kvs)))"
| "put_path _ w _ = Inl AttributeError"

definition copy_path :: "pyval \<Rightarrow> pyval \<Rightarrow> string \<Rightarrow> pyval res" where
  "copy_path source target path =
     (let segments = str_split (CHR ''.'') path in
      case path_value source segments of None \<Rightarrow> Inr target | Some v \<Rightarrow> put_path segments v target)"

fun forbidden_paths :: "pyval \<Rightarrow> string \<Rightarrow> string list"
  and forbidden_items :: "(pykey \<times> pyval) list \<Rightarrow> string \<Rightarrow> string list"
  and forbidden_elements :: "pyval list \<Rightarrow> nat \<Rightarrow> string \<Rightarrow> string list"
where
  "forbidden_paths (PyDict kvs) prefix = forbidden_items kvs prefix"
| "forbidden_paths (PyList xs) prefix = forbidden_elements xs 0 prefix"
| "forbidden_paths (PyTuple xs) prefix = forbidden_elements xs 0 prefix"
| "forbidden_paths _ prefix = []"
| "forbidden_items [] prefix = []"
| "forbidden_items ((k, v) # r) prefix =
     (let path = (if prefix \<noteq> [] then prefix @ ''.'' @ key_text k else key_text k)
      in (if is_denied_segment (str_lower (key_text k)) then [path] else []) @
         forbidden_paths v path @ forbidden_items r prefix)"
| "forbidden_elements [] index prefix = []"
| "forbidden_elements (v # r) index prefix =
     forbidden_paths v (prefix @ ''['' @ show_nat index @ '']'') @ forbidden_elements r (Suc index) prefix"

definition assert_public_payload :: "pyval \<Rightarrow> unit res" where
  "assert_public_payload payload =
     (let paths = forbidden_paths payload [] in
      if paths \<noteq> [] then Inl (DomainValidationError (''publication payload contains denied fields: '' @ str_join '', '' paths))
      else Inr ())"

fun copy_paths :: "pyval \<Rightarrow> string list \<Rightarrow> pyval \<Rightarrow> pyval res" where
  "copy_paths source [] out = Inr out"
| "copy_paths source (path # paths) out =
     (if list_ex is_denied_segment (str_split (CHR ''.'') path)
      then Inl (DomainValidationError (''allowlist contains prohibited field: '' @ path))
      else bindE (copy_path source out path) (copy_paths source paths))"

definition allowlisted_copy :: "pyval \<Rightarrow> string list \<Rightarrow> pyval res" where
  "allowlisted_copy source allowed_paths =
     bindE (copy_paths source (sorted_set allowed_paths) (PyDict [])) (\<lambda>out.
     bindE (assert_public_payload out) (\<lambda>_. Inr out))"

definition sanitize_requirement_brief :: "pyval \<Rightarrow> string list \<Rightarrow> pyval res" where
  "sanitize_requirement_brief purchase_brief allowlist = allowlisted_copy purchase_brief allowlist"

definition publish_seil_pack :: "pyval \<Rightarrow> string list \<Rightarrow> pyval res" where
  "publish_seil_pack product_passport allowlist = allowlisted_copy product_passport allowlist"

section \<open>No denied name at any depth\<close>

text \<open>Every dict key of a value, at every depth.\<close>

fun deep_keys :: "pyval \<Rightarrow> string set" where
  "deep_keys (PyDict kvs) = (\<Union>(k, v) \<in> set kvs. insert (key_text k) (deep_keys v))"
| "deep_keys (PyList xs) = (\<Union>v \<in> set xs. deep_keys v)"
| "deep_keys (PyTuple xs) = (\<Union>v \<in> set xs. deep_keys v)"
| "deep_keys _ = {}"

lemma is_denied_lower [simp]: "is_denied_segment (str_lower v) = is_denied_segment v"
  by (simp add: is_denied_segment_def str_lower_def lower_char_idem comp_def)

lemma forbidden_paths_empty:
  "forbidden_paths v p = [] \<longleftrightarrow> (\<forall>k \<in> deep_keys v. \<not> is_denied_segment k)"
  "forbidden_items kvs p = [] \<longleftrightarrow> (\<forall>k \<in> deep_keys (PyDict kvs). \<not> is_denied_segment k)"
  "forbidden_elements vs i p = [] \<longleftrightarrow> (\<forall>k \<in> deep_keys (PyList vs). \<not> is_denied_segment k)"
  by (induction v p and kvs p and vs i p rule: forbidden_paths_forbidden_items_forbidden_elements.induct)
    (auto simp: Let_def)

lemma assert_public_Inr: "assert_public_payload v = Inr () \<longleftrightarrow> (\<forall>k \<in> deep_keys v. \<not> is_denied_segment k)"
  by (auto simp: assert_public_payload_def Let_def forbidden_paths_empty)

section \<open>The copy depends on the allowlisted paths only\<close>

lemma copy_paths_cong:
  assumes "\<forall>p \<in> set paths. path_value s1 (str_split (CHR ''.'') p) = path_value s2 (str_split (CHR ''.'') p)"
  shows "copy_paths s1 paths out = copy_paths s2 paths out"
  using assms
proof (induction paths arbitrary: out)
  case (Cons p paths)
  then have "copy_path s1 out p = copy_path s2 out p" "copy_paths s1 paths = copy_paths s2 paths"
    by (simp_all add: copy_path_def fun_eq_iff)
  then show ?case by simp
qed simp

section \<open>Every published leaf is a leaf of the source under an allowlisted path\<close>

fun is_dict :: "pyval \<Rightarrow> bool" where
  "is_dict (PyDict _) = True"
| "is_dict _ = False"

lemma path_value_append:
  "path_value v (p @ q) = (case path_value v p of None \<Rightarrow> None | Some w \<Rightarrow> path_value w q)"
  by (induction v p rule: path_value.induct) (auto split: option.splits)

lemma path_value_nondict: "\<not> is_dict v \<Longrightarrow> path_value v q = (if q = [] then Some v else None)"
  by (cases v; cases q) auto

text \<open>Reading after writing: below the written path, on the way to it, and elsewhere.\<close>

lemma put_path_value:
  assumes "put_path p w d = Inr d'" "p \<noteq> []" "path_value d' q = Some v" "\<not> is_dict v"
  shows "(\<exists>r. q = p @ r \<and> path_value w r = Some v) \<or> path_value d q = Some v"
  using assms
proof (induction p w d arbitrary: d' q rule: put_path.induct)
  case (2 seg w kvs)
  then show ?case by (cases q) (auto simp: update_conv' split: if_splits option.splits)
next
  case (3 seg seg' segs w kvs)
  from 3(2) obtain e where e: "put_path (seg' # segs) w (case map_of kvs (KStr seg) of None \<Rightarrow> PyDict [] | Some v \<Rightarrow> v) = Inr e"
      "d' = PyDict (AList.update (KStr seg) e kvs)" by (auto simp: bindE_Inr_conv)
  show ?case
  proof (cases q)
    case (Cons s q')
    show ?thesis
    proof (cases "s = seg")
      case True
      then have "path_value e q' = Some v" using 3(4) Cons e(2) by (simp add: update_conv')
      from 3(1) [OF e(1) _ this 3(5)] show ?thesis
        using Cons True 3(5) by (cases q') (auto split: option.splits)
    qed (use 3(4) Cons e(2) in \<open>simp add: update_conv'\<close>)
  qed (use 3(4,5) e(2) in auto)
qed auto

lemma str_split_ne [simp]: "str_split c s \<noteq> []"
  by (induction s) (auto split: list.splits)

lemma copy_paths_origin:
  assumes "copy_paths src paths out = Inr out'" "path_value out' q = Some v" "\<not> is_dict v"
  shows "(path_value src q = Some v \<and> (\<exists>p \<in> set paths. \<exists>r. q = str_split (CHR ''.'') p @ r)) \<or> path_value out q = Some v"
  using assms
proof (induction paths arbitrary: out)
  case (Cons p paths)
  from Cons.prems(1) obtain o1 where o1: "copy_path src out p = Inr o1" "copy_paths src paths o1 = Inr out'"
    by (auto simp: bindE_Inr_conv split: if_splits)
  from Cons.IH [OF o1(2) Cons.prems(2,3)] consider
      (new) "path_value src q = Some v" "\<exists>p \<in> set paths. \<exists>r. q = str_split (CHR ''.'') p @ r"
    | (old) "path_value o1 q = Some v" by blast
  then show ?case
  proof cases
    case old
    show ?thesis
    proof (cases "path_value src (str_split (CHR ''.'') p)")
      case (Some w)
      with o1(1) have "put_path (str_split (CHR ''.'') p) w out = Inr o1" by (simp add: copy_path_def)
      from put_path_value [OF this _ old Cons.prems(3)] Some show ?thesis
        by (auto simp: path_value_append)
    qed (use o1(1) old in \<open>simp add: copy_path_def\<close>)
  qed auto
qed auto

section \<open>Every allowlisted value is published\<close>

lemma put_path_same:
  "put_path p w d = Inr d' \<Longrightarrow> path_value d' p = Some w"
  by (induction p w d arbitrary: d' rule: put_path.induct) (auto simp: bindE_Inr_conv update_conv')

end
