(* ===== verification/CommerceClaims.thy ===== *)
theory CommerceClaims
  imports Approvals Exchange Publication DemoEnv
begin

text \<open>
  The properties of approvals, payment handoffs, the two-party exchange and the publication boundary.
\<close>

section \<open>Concrete inputs of the witnesses\<close>

definition demo_hash :: string where
  "demo_hash = ''sha256:'' @ digits_of 64 ''abc''"

definition demo_binding :: ApprovalBinding where
  "demo_binding = \<lparr>ab_approval_request_id = ''req'', ab_intent_hash = demo_hash, ab_status = PENDING\<rparr>"

definition later :: "int \<Rightarrow> datetime" where
  "later n = demo_now\<lparr>micros := micros demo_now + n\<rparr>"

definition demo_handoff :: PaymentHandoff where
  "demo_handoff = \<lparr>ph_schema_version = ''1'', ph_handoff_id = ''h'', ph_organization_id = ''org'',
     ph_purchase_intent_id = ''i'', ph_approval_request_id = ''req'', ph_intent_hash = demo_hash,
     ph_destination_url = ''https://pay.example/x'', ph_recipient = ''Shop'', ph_amount = \<lparr>amount = (5, 0), currency = ''USD''\<rparr>,
     ph_reference = ''r'', ph_created_at = demo_now, ph_expires_at = later 10, ph_status = READY, ph_opened_at = None,
     ph_handoff_hash = []\<rparr>"

definition demo_raw :: raw_env where
  "demo_raw = \<lparr>raw_dumps = \<lambda>_. Some ''x'', raw_sha256 = digits_of 64\<rparr>"

definition demo_command :: "int \<Rightarrow> CommandType \<Rightarrow> (pykey \<times> pyval) list \<Rightarrow> PartyCommand" where
  "demo_command n t d = \<lparr>pc_id = ''c'', pc_case_id = ''case'', pc_party = command_owner t, pc_actor_id = ''a'',
     pc_command_type = t, pc_expected_version = n, pc_idempotency_key = ''k'', pc_payload = d\<rparr>"

definition demo_commands :: "PartyCommand list" where
  "demo_commands = [demo_command 1 RELEASE_REQUIREMENT [], demo_command 2 PUBLISH_EVIDENCE [],
     demo_command 3 PROPOSE_OFFER [(KStr ''price'', PyInt 9)], demo_command 4 ACCEPT_OFFER [],
     demo_command 5 APPROVE_HANDOFF []]"

definition demo_passport :: pyval where
  "demo_passport = dict_str [(''pack_id'', PyStr ''p''), (''seller_floor'', PyInt 3),
     (''identity'', dict_str [(''name'', PyStr ''n'')])]"

section \<open>Approvals and handoffs\<close>

text \<open>C21 A pending approval that ends up approved was approved for exactly the hash of its intent, the
  intent was never seen with another hash before or after, and request and intent stay the same.\<close>

theorem approval_binds_exact_intent:
  assumes "run_steps binding_step b evs = Inr c" "ab_status b = PENDING" "ab_status c = ApprovalStatus.APPROVED"
  shows "Approve (ab_intent_hash b) \<in> set evs \<and> (\<forall>h. Reconcile h \<in> set evs \<longrightarrow> h = ab_intent_hash b) \<and>
    ab_intent_hash c = ab_intent_hash b \<and> ab_approval_request_id c = ab_approval_request_id b"
  using unchanged_payload [OF assms(1)] binding_identity [OF assms(1)] assms(2,3) by simp

theorem approval_binds_exact_intent_witness:
  "\<exists>c. run_steps binding_step demo_binding [Reconcile demo_hash, Approve demo_hash] = Inr c \<and>
     ab_status c = ApprovalStatus.APPROVED \<and> ab_intent_hash c = demo_hash"
proof -
  have "run_steps binding_step demo_binding [Reconcile demo_hash, Approve demo_hash] =
      Inr (demo_binding\<lparr>ab_status := ApprovalStatus.APPROVED\<rparr>)" by code_simp
  then show ?thesis
    using approval_binds_exact_intent [of demo_binding "[Reconcile demo_hash, Approve demo_hash]"
        "demo_binding\<lparr>ab_status := ApprovalStatus.APPROVED\<rparr>"]
    by (simp add: demo_binding_def)
qed

text \<open>A payment handoff is used at most once: from its creation at most one transition succeeds, it keeps
  the sealed payload and hash, and a handoff that was opened was opened before it expired, on a checked HTTPS
  destination.\<close>

theorem handoff_opened_once:
  assumes "mk_PaymentHandoff E literal_ok h0 = Inr h" "run_steps (handoff_transition E literal_ok) h ts = Inr k"
    "ph_status h = READY"
  shows "length ts \<le> 1 \<and> handoff_ok E literal_ok k \<and> py_handoff k = py_handoff h \<and>
    ph_handoff_hash k = ph_handoff_hash h \<and>
    (ph_status k = OPENED \<longrightarrow> (\<exists>t. ts = [(OPENED, t)] \<and> ph_opened_at k = Some t \<and> micros t < micros (ph_expires_at h)))"
proof -
  note ok = mk_PaymentHandoff_Inr(1) [OF assms(1)]
  show ?thesis
  proof (cases ts)
    case Nil
    then show ?thesis using assms(2,3) ok by auto
  next
    case (Cons tt rest)
    obtain target time where tt: "tt = (target, time)" by fastforce
    from assms(2) Cons obtain h1 where h1: "handoff_transition E literal_ok h (target, time) = Inr h1"
        "run_steps (handoff_transition E literal_ok) h1 rest = Inr k" by (auto simp: tt bindE_Inr_conv)
    note step = handoff_transition_Inr [OF h1(1) ok]
    have "rest = []"
    proof (cases rest)
      case (Cons tt' rest')
      obtain target' time' where "tt' = (target', time')" by fastforce
      with h1(2) Cons obtain h2 where "handoff_transition E literal_ok h1 (target', time') = Inr h2"
        by (auto simp: bindE_Inr_conv)
      from handoff_transition_Inr [OF this] step show ?thesis by auto
    qed simp
    then show ?thesis using step h1(2) Cons tt by (auto simp: handoff_ok_def)
  qed
qed

theorem handoff_opened_once_witness:
  "\<exists>h k. mk_PaymentHandoff demo_env (\<lambda>_. False) demo_handoff = Inr h \<and>
     run_steps (handoff_transition demo_env (\<lambda>_. False)) h [(OPENED, later 5)] = Inr k \<and>
     ph_opened_at k = Some (later 5) \<and> ph_handoff_hash k = ph_handoff_hash h"
proof -
  have "case bindE (mk_PaymentHandoff demo_env (\<lambda>_. False) demo_handoff) (\<lambda>h.
      bindE (run_steps (handoff_transition demo_env (\<lambda>_. False)) h [(OPENED, later 5)]) (\<lambda>k.
        Inr (ph_status h, ph_status k))) of Inr (a, b) \<Rightarrow> a = READY \<and> b = OPENED | Inl _ \<Rightarrow> False" by code_simp
  then obtain h k where h: "mk_PaymentHandoff demo_env (\<lambda>_. False) demo_handoff = Inr h"
      "run_steps (handoff_transition demo_env (\<lambda>_. False)) h [(OPENED, later 5)] = Inr k"
      "ph_status h = READY" "ph_status k = OPENED"
    by (auto simp: bindE_Inr_conv split: sum.splits)
  from handoff_opened_once [OF h(1-3)] h show ?thesis by auto
qed

lemma not_required_raises: "approval_transition NOT_REQUIRED t = Inl (KeyError ''NOT_REQUIRED'')"
  by (simp add: approval_transition_def approval_allowed_def)

section \<open>The exchange\<close>

text \<open>C22 An exchange is approved for handoff only after exactly the agreed protocol: requirement, evidence and
  offer, then acceptance by the seller, or a counter offer of the seller accepted by the buyer, then approval.
  The approved offer is the one that was accepted, and every command came from the party that owns it.\<close>

theorem agreement_follows_protocol:
  assumes "run_steps (exchange_step R) (initial_exchange case_id) cs = Inr s" "cs_state s = APPROVED_FOR_HANDOFF"
  shows "map pc_command_type cs \<in>
      {[RELEASE_REQUIREMENT, PUBLISH_EVIDENCE, PROPOSE_OFFER, ACCEPT_OFFER, APPROVE_HANDOFF],
       [RELEASE_REQUIREMENT, PUBLISH_EVIDENCE, PROPOSE_OFFER, COUNTER_OFFER, ACCEPT_COUNTER, APPROVE_HANDOFF]} \<and>
    cs_current_offer s = last_payload {PROPOSE_OFFER, COUNTER_OFFER} cs \<and>
    cs_version s = 1 + int (length cs) \<and> list_all (\<lambda>c. pc_party c = command_owner (pc_command_type c)) cs"
  using exchange_run_inv [OF assms(1)] exchange_run_commands [OF assms(1)] assms(2)
  by (auto simp: exchange_inv_def state_histories_def offered_history_def list_all_iff dest: mk_PartyCommand_Inr)

theorem agreement_follows_protocol_witness:
  "\<exists>s. run_steps (exchange_step demo_raw) (initial_exchange ''case'') demo_commands = Inr s \<and>
     cs_state s = APPROVED_FOR_HANDOFF \<and> cs_version s = 6"
proof -
  have "case run_steps (exchange_step demo_raw) (initial_exchange ''case'') demo_commands of
      Inr s \<Rightarrow> cs_state s = APPROVED_FOR_HANDOFF | Inl _ \<Rightarrow> False" by code_simp
  then obtain s where s: "run_steps (exchange_step demo_raw) (initial_exchange ''case'') demo_commands = Inr s"
      "cs_state s = APPROVED_FOR_HANDOFF" by (auto split: sum.splits)
  from agreement_follows_protocol [OF s] s show ?thesis by (auto simp: demo_commands_def)
qed

text \<open>C23 Whatever validated commands the parties send, the two projections of a compiled transition release the
  same fields to both parties, and no private-plane key occurs in them at any depth.\<close>

theorem projections_public:
  assumes "run_steps (exchange_step R) (initial_exchange case_id) cs = Inr s"
    "mk_PartyCommand c = Inr c" "compile_party_command R s c = Inr t"
  shows "pp_released (ct_buyer_projection t) = pp_released (ct_seller_projection t) \<and>
    \<not> has_private (PyDict (pp_released (ct_buyer_projection t))) \<and>
    pp_version (ct_buyer_projection t) = int (length cs) + 2"
proof -
  have "exchange_step R s c = Inr (ct_next_state t)" using assms(2,3) by (simp add: exchange_step_def)
  then have run: "run_steps (exchange_step R) (initial_exchange case_id) (cs @ [c]) = Inr (ct_next_state t)"
    using assms(1) by (simp add: run_steps_append)
  have proj: "projection R (ct_next_state t) BUYER (pc_id c) = Inr (ct_buyer_projection t)"
    "projection R (ct_next_state t) SELLER (pc_id c) = Inr (ct_seller_projection t)"
    using assms(3) by (auto simp: compile_party_command_def bindE_Inr_conv Let_def split: if_splits)
  show ?thesis
    using released_public [OF exchange_run_inv [OF run] exchange_run_commands [OF run]] exchange_run_inv [OF run]
      projection_Inr [OF proj(1)] projection_Inr [OF proj(2)] by (simp add: exchange_inv_def)
qed

theorem projections_public_witness:
  "\<exists>t. compile_party_command demo_raw (initial_exchange ''case'') (hd demo_commands) = Inr t \<and>
     \<not> has_private (PyDict (pp_released (ct_buyer_projection t))) \<and> pp_version (ct_buyer_projection t) = 2"
proof -
  have "case compile_party_command demo_raw (initial_exchange ''case'') (hd demo_commands) of
      Inr t \<Rightarrow> True | Inl _ \<Rightarrow> False" by code_simp
  then obtain t where t: "compile_party_command demo_raw (initial_exchange ''case'') (hd demo_commands) = Inr t"
    by (auto split: sum.splits)
  have "mk_PartyCommand (hd demo_commands) = Inr (hd demo_commands)" by code_simp
  from projections_public [OF _ this t, of "''case''" "[]"] t show ?thesis by auto
qed

text \<open>The compiler accepts a rejection in every state, also after the exchange was approved.\<close>

lemma reject_after_approval:
  "pc_command_type c = REJECT \<Longrightarrow> cs_state s = APPROVED_FOR_HANDOFF \<Longrightarrow> command_target s c = Inr REJECTED"
  by (simp add: command_target_def)

section \<open>Publication\<close>

text \<open>C24 What is published is public: no denied field name occurs at any depth, and every published leaf is
  the value of the source at the same path, below an allowlisted path.\<close>

theorem published_fields_public:
  assumes "allowlisted_copy source allowed_paths = Inr out"
  shows "(\<forall>k \<in> deep_keys out. \<not> is_denied_segment k) \<and>
    (\<forall>q v. path_value out q = Some v \<longrightarrow> \<not> is_dict v \<longrightarrow>
       path_value source q = Some v \<and> (\<exists>p \<in> set allowed_paths. \<exists>r. q = str_split (CHR ''.'') p @ r))"
proof -
  from assms have c: "copy_paths source (sorted_set allowed_paths) (PyDict []) = Inr out" "assert_public_payload out = Inr ()"
    by (auto simp: allowlisted_copy_def bindE_Inr_conv)
  have "path_value (PyDict []) q = Some v \<Longrightarrow> is_dict v" for q v by (cases q) auto
  then show ?thesis using copy_paths_origin [OF c(1)] c(2) by (fastforce simp: assert_public_Inr)
qed

theorem published_fields_public_witness:
  "\<exists>out. publish_seil_pack demo_passport pack_publication_allowlist = Inr out \<and>
     path_value out [''identity'', ''name''] = Some (PyStr ''n'') \<and> (\<forall>k \<in> deep_keys out. \<not> is_denied_segment k) \<and>
     path_value demo_passport [''identity'', ''name''] = Some (PyStr ''n'')"
proof -
  have "case publish_seil_pack demo_passport pack_publication_allowlist of
      Inr out \<Rightarrow> path_value out [''identity'', ''name''] = Some (PyStr ''n'') | Inl _ \<Rightarrow> False" by code_simp
  then obtain out where out: "publish_seil_pack demo_passport pack_publication_allowlist = Inr out"
      "path_value out [''identity'', ''name''] = Some (PyStr ''n'')" by (auto split: sum.splits)
  from published_fields_public [OF out(1) [unfolded publish_seil_pack_def]] out show ?thesis by auto
qed

text \<open>C25 Publication does not depend on anything outside the allowlist: two documents that agree on the
  allowlisted paths are published alike, errors included.\<close>

theorem publication_noninterference:
  assumes "\<forall>p \<in> set allowed_paths. path_value s1 (str_split (CHR ''.'') p) = path_value s2 (str_split (CHR ''.'') p)"
  shows "allowlisted_copy s1 allowed_paths = allowlisted_copy s2 allowed_paths"
  using copy_paths_cong [of "sorted_set allowed_paths" s1 s2] assms by (simp add: allowlisted_copy_def)

theorem publication_noninterference_witness:
  "allowlisted_copy demo_passport [''pack_id''] = allowlisted_copy (dict_str [(''pack_id'', PyStr ''p'')]) [''pack_id'']"
  by (rule publication_noninterference) code_simp

end
