(* ===== verification/Qualification.thy ===== *)
theory Qualification
  imports Values
begin

text \<open>
  The transactional kernel of qualified marketplace decisions
  (\<^verbatim>\<open>src/python/persistence/qualification_repository.py\<close>). The database is a record of tables, each a
  list of rows with the columns the kernel reads or writes; one operation of the repository is one
  serializable transaction, a function from the tables to a result and the new tables, or an error that
  leaves them as they were. \<open>org\<close> is the tenant of the repository, \<open>now\<close> the database time,
  \<open>uuid\<close> the hexadecimal texts that the successive calls of \<^verbatim>\<open>uuid4\<close> return. Of the constraints in the
  schema (\<^verbatim>\<open>qualification_models.py\<close>) the model has the primary key of attempts, the sequence numbers of
  checkpoints, and the foreign key by which a checkpoint refers to the generation of its attempt. It leaves out the
  others, among them the unique indexes on current decisions and on the input digest of a mission, the unique key of
  outbox events, and the lengths of columns: with them some transactions that succeed here are rolled back, so
  the model allows all runs of the database and more. The last section is the part of the worker
  (\<^verbatim>\<open>src/services/worker/sira_worker/qualification.py\<close>) that creates attempts.
\<close>

section \<open>Errors\<close>

datatype persistence_error =
    PersistenceConflict string
  | RecordNotFound string
  | IntegrityError string
  | BadArgument string
  | HashingFailed py_error

type_synonym 'a tx = "persistence_error + 'a"

fun hashing :: "'a res \<Rightarrow> 'a tx" where
  "hashing (Inl e) = Inl (HashingFailed e)"
| "hashing (Inr x) = Inr x"

section \<open>Rows\<close>

datatype AttemptState = QUEUED | RUNNING | SNAPSHOT_COMPLETE | STALE | COMPLETED | FAILED | CANCELLED

record ProductBundle =
  bu_id :: string
  bu_org :: string
  bu_product_id :: string
  bu_digest :: string
  bu_state :: string
  bu_activated_at :: "int option"

record ProductBundleMember =
  bm_org :: string
  bm_bundle_id :: string
  bm_ordinal :: int
  bm_kind :: string
  bm_member_id :: string
  bm_hash :: string

record ActiveProductBundle =
  ap_org :: string
  ap_product_id :: string
  ap_bundle_id :: string
  ap_bundle_digest :: string
  ap_generation :: int

record QualificationMission =
  qm_id :: string
  qm_org :: string
  qm_buyer_context_version_id :: string
  qm_buyer_context_hash :: string
  qm_requirement_brief_version_id :: string
  qm_requirement_brief_hash :: string
  qm_procurement_policy_version :: string
  qm_procurement_policy_hash :: string
  qm_trace_id :: string
  qm_state :: string

record QualificationMissionBundle =
  mb_org :: string
  mb_attempt_id :: string
  mb_product_id :: string
  mb_seller_org :: string
  mb_bundle_id :: string
  mb_bundle_digest :: string

record QualificationAttempt =
  qa_id :: string
  qa_org :: string
  qa_mission_id :: string
  qa_root_attempt_id :: string
  qa_predecessor :: "string option"
  qa_depth :: int
  qa_state :: AttemptState
  qa_generation :: int
  qa_lease_owner :: "string option"
  qa_lease_expires_at :: "int option"
  qa_input_digest :: "string option"
  qa_stale_reason :: "string option"

record DependencySnapshot =
  ds_kind :: string
  ds_org :: string
  ds_identifier :: string
  ds_version :: string
  ds_digest :: string

record AttemptDependency =
  ad_id :: string
  ad_org :: string
  ad_attempt_id :: string
  ad_dep :: DependencySnapshot

record AttemptCheckpoint =
  ck_id :: string
  ck_org :: string
  ck_attempt_id :: string
  ck_generation :: int
  ck_sequence :: int
  ck_kind :: string
  ck_payload :: pyval

record QualificationDecision =
  qd_id :: string
  qd_org :: string
  qd_mission_id :: string
  qd_attempt_id :: string
  qd_input_digest :: string
  qd_decision_digest :: string
  qd_recommended_product_id :: string
  qd_payload :: pyval
  qd_approval_state :: string
  qd_current :: bool

record DecisionDependency =
  dd_id :: string
  dd_org :: string
  dd_decision_id :: string
  dd_dep :: DependencySnapshot
  dd_cited :: bool

record MarketplaceEngagement =
  en_id :: string
  en_decision_id :: string
  en_buyer_org :: string
  en_seller_org :: string
  en_input_digest :: string
  en_state :: string
  en_expires_at :: int

record MarketplaceConsent =
  co_id :: string
  co_engagement_id :: string
  co_party :: string
  co_actor_id :: string
  co_input_digest :: string
  co_approved_fields_hash :: string
  co_state :: string
  co_expires_at :: int

record QualifiedIntroduction =
  qi_id :: string
  qi_engagement_id :: string
  qi_decision_id :: string
  qi_buyer_org :: string
  qi_seller_org :: string
  qi_input_digest :: string
  qi_shared_fields_hash :: string
  qi_receipt :: pyval

record QualificationEffect =
  ef_id :: string
  ef_org :: string
  ef_kind :: string
  ef_semantic_key :: string
  ef_state :: string
  ef_payload :: pyval
  ef_result_ref :: string

record ConsumerReceipt =
  cr_id :: string
  cr_org :: string
  cr_consumer_name :: string
  cr_message_id :: string
  cr_payload_hash :: string
  cr_result_ref :: string

record OutboxEvent =
  ob_id :: string
  ob_org :: string
  ob_aggregate_type :: string
  ob_aggregate_id :: string
  ob_event_type :: string
  ob_event_key :: string
  ob_payload :: pyval

record qdb =
  db_bundles :: "ProductBundle list"
  db_members :: "ProductBundleMember list"
  db_actives :: "ActiveProductBundle list"
  db_missions :: "QualificationMission list"
  db_mission_bundles :: "QualificationMissionBundle list"
  db_attempts :: "QualificationAttempt list"
  db_attempt_deps :: "AttemptDependency list"
  db_checkpoints :: "AttemptCheckpoint list"
  db_decisions :: "QualificationDecision list"
  db_decision_deps :: "DecisionDependency list"
  db_engagements :: "MarketplaceEngagement list"
  db_consents :: "MarketplaceConsent list"
  db_introductions :: "QualifiedIntroduction list"
  db_effects :: "QualificationEffect list"
  db_receipts :: "ConsumerReceipt list"
  db_outbox :: "OutboxEvent list"

record AttemptLease =
  le_attempt_id :: string
  le_generation :: int
  le_owner :: string
  le_expires_at :: int

record FinalizationResult =
  fr_state :: string
  fr_attempt_id :: string
  fr_decision_id :: "string option"
  fr_replacement_attempt_id :: "string option"

section \<open>Shared steps\<close>

definition outbox :: "string \<Rightarrow> string \<Rightarrow> string \<Rightarrow> string \<Rightarrow> string \<Rightarrow> string \<Rightarrow> pyval \<Rightarrow> qdb \<Rightarrow> qdb" where
  "outbox org uuid event_type aggregate_type aggregate_id event_key payload db =
     db\<lparr>db_outbox := db_outbox db @
       [\<lparr>ob_id = ''outbox_'' @ uuid, ob_org = org, ob_aggregate_type = aggregate_type, ob_aggregate_id = aggregate_id,
         ob_event_type = event_type, ob_event_key = event_key, ob_payload = payload\<rparr>]\<rparr>"

definition attempt_of :: "qdb \<Rightarrow> string \<Rightarrow> string \<Rightarrow> QualificationAttempt option" where
  "attempt_of db org i = find (\<lambda>a. qa_org a = org \<and> qa_id a = i) (db_attempts db)"

definition set_attempt :: "QualificationAttempt \<Rightarrow> qdb \<Rightarrow> qdb" where
  "set_attempt a db = db\<lparr>db_attempts := map (\<lambda>b. if qa_id b = qa_id a then a else b) (db_attempts db)\<rparr>"

definition insert_attempt :: "QualificationAttempt \<Rightarrow> qdb \<Rightarrow> qdb tx" where
  "insert_attempt a db =
     (if qa_id a \<in> qa_id ` set (db_attempts db) then Inl (IntegrityError ''qualification_attempts_pkey'')
      else Inr (db\<lparr>db_attempts := db_attempts db @ [a]\<rparr>))"

definition fenced_attempt :: "string \<Rightarrow> int \<Rightarrow> AttemptLease \<Rightarrow> AttemptState list \<Rightarrow> qdb \<Rightarrow> QualificationAttempt tx" where
  "fenced_attempt org now lease allowed_states db =
     (case find (\<lambda>a. qa_org a = org \<and> qa_id a = le_attempt_id lease \<and> qa_generation a = le_generation lease \<and>
          qa_lease_owner a = Some (le_owner lease) \<and>
          (case qa_lease_expires_at a of None \<Rightarrow> False | Some t \<Rightarrow> now < t) \<and>
          qa_state a \<in> set allowed_states) (db_attempts db) of
        None \<Rightarrow> Inl (PersistenceConflict ''attempt lease or generation fence was lost'')
      | Some a \<Rightarrow> Inr a)"

definition bundle_is_active :: "qdb \<Rightarrow> DependencySnapshot \<Rightarrow> bool" where
  "bundle_is_active db d =
     list_ex (\<lambda>a. ap_org a = ds_org d \<and> ap_product_id a = ds_identifier d \<and> ap_bundle_id a = ds_version d \<and>
       ap_bundle_digest a = ds_digest d) (db_actives db)"

definition changed_product_bundles :: "qdb \<Rightarrow> AttemptDependency list \<Rightarrow> string list" where
  "changed_product_bundles db deps =
     sort (map (\<lambda>d. ds_identifier (ad_dep d))
       (filter (\<lambda>d. ds_kind (ad_dep d) = ''PRODUCT_BUNDLE'' \<and> \<not> bundle_is_active db (ad_dep d)) deps))"

definition replacement_for ::
  "string \<Rightarrow> string \<Rightarrow> QualificationAttempt \<Rightarrow> qdb \<Rightarrow> (QualificationAttempt \<times> qdb) tx" where
  "replacement_for org uuid attempt db =
     (case find (\<lambda>a. qa_org a = org \<and> qa_predecessor a = Some (qa_id attempt)) (db_attempts db) of
        Some existing \<Rightarrow> Inr (existing, db)
      | None \<Rightarrow>
          if 3 \<le> qa_depth attempt then Inl (PersistenceConflict ''qualification replacement chain exhausted'')
          else
            let r = \<lparr>qa_id = ''qattempt_'' @ uuid, qa_org = org, qa_mission_id = qa_mission_id attempt,
                  qa_root_attempt_id = qa_root_attempt_id attempt, qa_predecessor = Some (qa_id attempt),
                  qa_depth = qa_depth attempt + 1, qa_state = QUEUED, qa_generation = 0, qa_lease_owner = None,
                  qa_lease_expires_at = None, qa_input_digest = None, qa_stale_reason = None\<rparr>
            in bindE (insert_attempt r db) (\<lambda>db'. Inr (r, db')))"

section \<open>Bundles\<close>

definition members_of :: "qdb \<Rightarrow> string \<Rightarrow> string \<Rightarrow> ProductBundleMember list" where
  "members_of db org bundle_id =
     sort_key bm_ordinal (filter (\<lambda>m. bm_org m = org \<and> bm_bundle_id m = bundle_id) (db_members db))"

definition members_payload :: "ProductBundleMember list \<Rightarrow> pyval" where
  "members_payload ms = PyList (map (\<lambda>m. dict_str
     [(''ordinal'', PyInt (bm_ordinal m)), (''kind'', PyStr (bm_kind m)), (''id'', PyStr (bm_member_id m)),
      (''hash'', PyStr (bm_hash m))]) ms)"

definition point_active :: "string \<Rightarrow> ProductBundle \<Rightarrow> qdb \<Rightarrow> qdb" where
  "point_active org bundle db =
     (case find (\<lambda>a. ap_org a = org \<and> ap_product_id a = bu_product_id bundle) (db_actives db) of
        None \<Rightarrow> db\<lparr>db_actives := db_actives db @
            [\<lparr>ap_org = org, ap_product_id = bu_product_id bundle, ap_bundle_id = bu_id bundle,
              ap_bundle_digest = bu_digest bundle, ap_generation = 1\<rparr>]\<rparr>
      | Some active \<Rightarrow>
          if ap_bundle_id active = bu_id bundle then db
          else db\<lparr>
            db_bundles := map (\<lambda>b. if bu_id b = ap_bundle_id active \<and> bu_state b = ''ACTIVE''
                then b\<lparr>bu_state := ''SUPERSEDED''\<rparr> else b) (db_bundles db),
            db_actives := map (\<lambda>a. if ap_org a = org \<and> ap_product_id a = bu_product_id bundle
                then a\<lparr>ap_bundle_id := bu_id bundle, ap_bundle_digest := bu_digest bundle,
                  ap_generation := ap_generation a + 1\<rparr> else a) (db_actives db)\<rparr>)"

definition activate_bundle ::
  "hash_env \<Rightarrow> string \<Rightarrow> int \<Rightarrow> string \<Rightarrow> string \<Rightarrow> string \<Rightarrow> string \<Rightarrow> qdb \<Rightarrow> (ProductBundle \<times> qdb) tx" where
  "activate_bundle E org now uuid bundle_id actor_id expected_digest db =
     (case find (\<lambda>b. bu_org b = org \<and> bu_id b = bundle_id) (db_bundles db) of
        None \<Rightarrow> Inl (RecordNotFound ''product bundle was not found'')
      | Some bundle \<Rightarrow>
          if bu_digest bundle \<noteq> expected_digest then Inl (PersistenceConflict ''product bundle digest changed'')
          else if bu_state bundle \<notin> {''READY'', ''ACTIVE''} then Inl (PersistenceConflict ''product bundle is not ready'')
          else
            let members = members_of db org (bu_id bundle) in
            bindE (hashing (content_hash E (members_payload members))) (\<lambda>computed.
              if members = [] \<or> computed \<noteq> bu_digest bundle
              then Inl (PersistenceConflict ''product bundle membership is incomplete or corrupt'')
              else
                let activated = bundle\<lparr>bu_state := ''ACTIVE'', bu_activated_at := Some now\<rparr>;
                    db1 = point_active org bundle db;
                    db2 = db1\<lparr>db_bundles := map (\<lambda>b. if bu_id b = bu_id bundle then activated else b) (db_bundles db1)\<rparr>
                in Inr (activated, outbox org uuid ''PRODUCT_BUNDLE_ACTIVATED'' ''PRODUCT_BUNDLE'' (bu_id bundle)
                     (''bundle-activated:'' @ bu_id bundle @ '':'' @ bu_digest bundle)
                     (dict_str [(''bundle_id'', PyStr (bu_id bundle)), (''product_id'', PyStr (bu_product_id bundle)),
                        (''bundle_digest'', PyStr (bu_digest bundle)), (''actor_id'', PyStr actor_id)]) db2)))"

section \<open>Attempts\<close>

text \<open>\<open>now\<close> is \<open>None\<close> where the driver does not return a datetime.\<close>

definition claimable :: "string \<Rightarrow> int \<Rightarrow> string \<Rightarrow> string \<Rightarrow> QualificationAttempt \<Rightarrow> bool" where
  "claimable org now attempt_id owner a \<longleftrightarrow>
     qa_org a = org \<and> qa_id a = attempt_id \<and> qa_state a \<in> {QUEUED, RUNNING, SNAPSHOT_COMPLETE} \<and>
     (qa_lease_owner a = None \<or> (case qa_lease_expires_at a of None \<Rightarrow> False | Some t \<Rightarrow> t \<le> now) \<or>
      qa_lease_owner a = Some owner)"

text \<open>The update of a generation fails while a checkpoint refers to the old one.\<close>

definition checkpoint_refers :: "qdb \<Rightarrow> QualificationAttempt \<Rightarrow> bool" where
  "checkpoint_refers db a =
     list_ex (\<lambda>c. ck_org c = qa_org a \<and> ck_attempt_id c = qa_id a \<and> ck_generation c = qa_generation a) (db_checkpoints db)"

definition claim_attempt ::
  "string \<Rightarrow> int option \<Rightarrow> string \<Rightarrow> string \<Rightarrow> int \<Rightarrow> qdb \<Rightarrow> (AttemptLease \<times> qdb) tx" where
  "claim_attempt org now attempt_id owner lease_seconds db =
     (if lease_seconds < 1 \<or> 600 < lease_seconds then Inl (BadArgument ''lease_seconds must be between 1 and 600'')
      else case now of
        None \<Rightarrow> Inl (PersistenceConflict ''database time is unavailable'')
      | Some t \<Rightarrow>
          let expires = t + lease_seconds * 1000000 in
          case find (claimable org t attempt_id owner) (db_attempts db) of
            None \<Rightarrow> Inl (PersistenceConflict ''attempt lease is held by another worker or is terminal'')
          | Some a \<Rightarrow>
              if checkpoint_refers db a then Inl (IntegrityError ''qualification_attempt_checkpoints_fkey'') else
              Inr (\<lparr>le_attempt_id = attempt_id, le_generation = qa_generation a + 1, le_owner = owner, le_expires_at = expires\<rparr>,
                   db\<lparr>db_attempts := map (\<lambda>b. if claimable org t attempt_id owner b
                     then b\<lparr>qa_state := RUNNING, qa_lease_owner := Some owner, qa_lease_expires_at := Some expires,
                       qa_generation := qa_generation b + 1\<rparr> else b) (db_attempts db)\<rparr>))"

text \<open>A checkpoint has a positive sequence number that is new for its attempt.\<close>

definition insert_checkpoint :: "AttemptCheckpoint \<Rightarrow> qdb \<Rightarrow> qdb tx" where
  "insert_checkpoint c db =
     (if ck_sequence c < 1 then Inl (IntegrityError ''ck_qualification_checkpoint_sequence'')
      else if list_ex (\<lambda>d. ck_org d = ck_org c \<and> ck_attempt_id d = ck_attempt_id c \<and> ck_sequence d = ck_sequence c) (db_checkpoints db)
      then Inl (IntegrityError ''uq_qualification_checkpoint_sequence'')
      else Inr (db\<lparr>db_checkpoints := db_checkpoints db @ [c]\<rparr>))"

definition mission_of :: "qdb \<Rightarrow> string \<Rightarrow> string \<Rightarrow> QualificationMission option" where
  "mission_of db org i = find (\<lambda>m. qm_org m = org \<and> qm_id m = i) (db_missions db)"

definition dependencies_of ::
  "string \<Rightarrow> qdb \<Rightarrow> QualificationMission \<Rightarrow> QualificationMissionBundle list \<Rightarrow> DependencySnapshot list" where
  "dependencies_of org db mission bundles =
     [\<lparr>ds_kind = ''BUYER_CONTEXT'', ds_org = org, ds_identifier = qm_buyer_context_version_id mission,
       ds_version = qm_buyer_context_version_id mission, ds_digest = qm_buyer_context_hash mission\<rparr>,
      \<lparr>ds_kind = ''REQUIREMENT_BRIEF'', ds_org = org, ds_identifier = qm_requirement_brief_version_id mission,
       ds_version = qm_requirement_brief_version_id mission, ds_digest = qm_requirement_brief_hash mission\<rparr>,
      \<lparr>ds_kind = ''PROCUREMENT_POLICY'', ds_org = org, ds_identifier = qm_procurement_policy_version mission,
       ds_version = qm_procurement_policy_version mission, ds_digest = qm_procurement_policy_hash mission\<rparr>] @
     map (\<lambda>b. \<lparr>ds_kind = ''PRODUCT_BUNDLE'', ds_org = mb_seller_org b, ds_identifier = mb_product_id b,
       ds_version = mb_bundle_id b, ds_digest = mb_bundle_digest b\<rparr>) bundles @
     concat (map (\<lambda>b. map (\<lambda>m. \<lparr>ds_kind = bm_kind m, ds_org = mb_seller_org b, ds_identifier = bm_member_id m,
       ds_version = mb_bundle_id b, ds_digest = bm_hash m\<rparr>) (members_of db (mb_seller_org b) (mb_bundle_id b))) bundles)"

definition dependency_payload :: "DependencySnapshot list \<Rightarrow> pyval" where
  "dependency_payload ds = PyList (map (\<lambda>d. dict_str
     [(''kind'', PyStr (ds_kind d)), (''organization_id'', PyStr (ds_org d)), (''id'', PyStr (ds_identifier d)),
      (''version'', PyStr (ds_version d)), (''digest'', PyStr (ds_digest d))]) ds)"

definition deps_of_attempt :: "qdb \<Rightarrow> string \<Rightarrow> string \<Rightarrow> AttemptDependency list" where
  "deps_of_attempt db org attempt_id =
     filter (\<lambda>d. ad_org d = org \<and> ad_attempt_id d = attempt_id) (db_attempt_deps db)"

definition attempt_rows ::
  "string \<Rightarrow> (nat \<Rightarrow> string) \<Rightarrow> string \<Rightarrow> DependencySnapshot list \<Rightarrow> AttemptDependency list" where
  "attempt_rows org uuid attempt_id ds =
     map (\<lambda>i. \<lparr>ad_id = ''dep_'' @ uuid i, ad_org = org, ad_attempt_id = attempt_id, ad_dep = ds ! i\<rparr>) [0..<length ds]"

definition snapshot_attempt ::
  "hash_env \<Rightarrow> string \<Rightarrow> int \<Rightarrow> (nat \<Rightarrow> string) \<Rightarrow> AttemptLease \<Rightarrow> qdb \<Rightarrow> (DependencySnapshot list \<times> qdb) tx" where
  "snapshot_attempt E org now uuid lease db =
     bindE (fenced_attempt org now lease [RUNNING, SNAPSHOT_COMPLETE] db) (\<lambda>attempt.
       case mission_of db org (qa_mission_id attempt) of
         None \<Rightarrow> Inl (RecordNotFound ''qualification mission was not found'')
       | Some mission \<Rightarrow>
           let bundles = sort_key mb_product_id
                 (filter (\<lambda>b. mb_org b = org \<and> mb_attempt_id b = qa_id attempt) (db_mission_bundles db))
           in if bundles = [] then Inl (PersistenceConflict ''qualification mission has no product bundles'')
              else if list_ex (\<lambda>b. members_of db (mb_seller_org b) (mb_bundle_id b) = []) bundles
              then Inl (PersistenceConflict ''qualification product bundle has no members'')
              else
                let deps = dependencies_of org db mission bundles in
                bindE (hashing (content_hash E (dependency_payload deps))) (\<lambda>digest.
                  if deps_of_attempt db org (qa_id attempt) \<noteq> []
                  then (if qa_input_digest attempt \<noteq> Some digest
                        then Inl (PersistenceConflict ''attempt snapshot is immutable'')
                        else Inr (deps, db))
                  else bindE (insert_checkpoint
                      \<lparr>ck_id = ''chk_'' @ uuid (length deps), ck_org = org, ck_attempt_id = qa_id attempt,
                       ck_generation = qa_generation attempt, ck_sequence = 1, ck_kind = ''SNAPSHOT_COMPLETE'',
                       ck_payload = dict_str [(''input_digest'', PyStr digest),
                         (''dependency_count'', PyInt (int (length deps)))]\<rparr>
                      ((set_attempt (attempt\<lparr>qa_input_digest := Some digest, qa_state := SNAPSHOT_COMPLETE\<rparr>) db)\<lparr>
                        db_attempt_deps := db_attempt_deps db @ attempt_rows org uuid (qa_id attempt) deps\<rparr>))
                    (\<lambda>db'. Inr (deps, db'))))"

definition checkpoint_attempt ::
  "string \<Rightarrow> int \<Rightarrow> string \<Rightarrow> AttemptLease \<Rightarrow> int \<Rightarrow> string \<Rightarrow> pyval \<Rightarrow> qdb \<Rightarrow> (AttemptCheckpoint \<times> qdb) tx" where
  "checkpoint_attempt org now uuid lease sequence kind payload db =
     bindE (fenced_attempt org now lease [RUNNING, SNAPSHOT_COMPLETE] db) (\<lambda>attempt.
       let c = \<lparr>ck_id = ''chk_'' @ uuid, ck_org = org, ck_attempt_id = qa_id attempt,
             ck_generation = qa_generation attempt, ck_sequence = sequence, ck_kind = kind, ck_payload = payload\<rparr>
       in bindE (insert_checkpoint c db) (\<lambda>db'. Inr (c, db')))"

definition decision_rows ::
  "string \<Rightarrow> (nat \<Rightarrow> string) \<Rightarrow> string \<Rightarrow> string list \<Rightarrow> AttemptDependency list \<Rightarrow> DecisionDependency list" where
  "decision_rows org uuid decision_id cited deps =
     map (\<lambda>i. \<lparr>dd_id = ''ddep_'' @ uuid i, dd_org = org, dd_decision_id = decision_id, dd_dep = ad_dep (deps ! i),
       dd_cited = (ds_identifier (ad_dep (deps ! i)) \<in> set cited)\<rparr>) [0..<length deps]"

definition finalize_stale ::
  "string \<Rightarrow> (nat \<Rightarrow> string) \<Rightarrow> QualificationAttempt \<Rightarrow> string list \<Rightarrow> qdb \<Rightarrow> (FinalizationResult \<times> qdb) tx" where
  "finalize_stale org uuid attempt changed db =
     (let stale = attempt\<lparr>qa_state := STALE, qa_stale_reason := Some (str_join '','' changed)\<rparr> in
      bindE (replacement_for org (uuid 0) stale (set_attempt stale db)) (\<lambda>(r, db1).
        Inr (\<lparr>fr_state = ''STALE'', fr_attempt_id = qa_id attempt, fr_decision_id = None,
               fr_replacement_attempt_id = Some (qa_id r)\<rparr>,
             outbox org (uuid 1) ''QUALIFICATION_ATTEMPT_STALE'' ''QUALIFICATION_ATTEMPT'' (qa_id attempt)
               (''attempt-stale:'' @ qa_id attempt @ '':'' @ show_int (qa_generation attempt))
               (dict_str [(''attempt_id'', PyStr (qa_id attempt)), (''replacement_attempt_id'', PyStr (qa_id r)),
                 (''changed_dependencies'', PyList (map PyStr changed))]) db1)))"

definition finalize_attempt ::
  "hash_env \<Rightarrow> string \<Rightarrow> int \<Rightarrow> (nat \<Rightarrow> string) \<Rightarrow> AttemptLease \<Rightarrow> string \<Rightarrow> pyval \<Rightarrow> string list \<Rightarrow> qdb \<Rightarrow>
     (FinalizationResult \<times> qdb) tx" where
  "finalize_attempt E org now uuid lease recommended_product_id payload cited db =
     bindE (fenced_attempt org now lease [SNAPSHOT_COMPLETE] db) (\<lambda>attempt.
       let deps = deps_of_attempt db org (qa_id attempt);
           changed = changed_product_bundles db deps
       in if changed \<noteq> [] then finalize_stale org uuid attempt changed db
          else if \<not> set cited \<subseteq> (\<lambda>d. ds_identifier (ad_dep d)) ` set deps
          then Inl (PersistenceConflict ''decision cites evidence outside the committed snapshot'')
          else if \<not> list_ex (\<lambda>d. ds_kind (ad_dep d) = ''PRODUCT_BUNDLE'' \<and> ds_identifier (ad_dep d) = recommended_product_id) deps
          then Inl (PersistenceConflict ''recommended product is outside the committed snapshot'')
          else case qa_input_digest attempt of
            None \<Rightarrow> Inl (PersistenceConflict ''attempt has no committed input digest'')
          | Some input_digest \<Rightarrow>
              bindE (hashing (content_hash E (dict_str [(''attempt_id'', PyStr (qa_id attempt)),
                  (''input_digest'', PyStr input_digest), (''recommended_product_id'', PyStr recommended_product_id),
                  (''payload'', payload)]))) (\<lambda>digest.
                let did = ''qdec_'' @ uuid 0;
                    decision = \<lparr>qd_id = did, qd_org = org, qd_mission_id = qa_mission_id attempt,
                      qd_attempt_id = qa_id attempt, qd_input_digest = input_digest, qd_decision_digest = digest,
                      qd_recommended_product_id = recommended_product_id, qd_payload = payload,
                      qd_approval_state = ''PENDING'', qd_current = True\<rparr>;
                    db1 = (set_attempt (attempt\<lparr>qa_state := COMPLETED\<rparr>) db)\<lparr>
                      db_decisions := db_decisions db @ [decision],
                      db_decision_deps := db_decision_deps db @ decision_rows org (\<lambda>i. uuid (i + 1)) did cited deps\<rparr>
                in Inr (\<lparr>fr_state = ''COMPLETED'', fr_attempt_id = qa_id attempt, fr_decision_id = Some did,
                       fr_replacement_attempt_id = None\<rparr>,
                     outbox org (uuid (length deps + 1)) ''QUALIFICATION_DECISION_CREATED'' ''QUALIFICATION_DECISION'' did
                       (''decision-created:'' @ did)
                       (dict_str [(''decision_id'', PyStr did), (''mission_id'', PyStr (qa_mission_id attempt)),
                         (''attempt_id'', PyStr (qa_id attempt)), (''input_digest'', PyStr input_digest)]) db1)))"

section \<open>Introductions and receipts\<close>

definition party_consent :: "string \<Rightarrow> MarketplaceConsent list \<Rightarrow> MarketplaceConsent option" where
  "party_consent party cs = find (\<lambda>c. co_party c = party) (rev cs)"

definition valid_consents :: "qdb \<Rightarrow> string \<Rightarrow> string \<Rightarrow> int \<Rightarrow> MarketplaceConsent list" where
  "valid_consents db engagement_id input_digest now =
     filter (\<lambda>c. co_engagement_id c = engagement_id \<and> co_input_digest c = input_digest \<and> co_state c = ''GRANTED'' \<and>
       now < co_expires_at c) (db_consents db)"

definition introduction_receipt ::
  "MarketplaceEngagement \<Rightarrow> string \<Rightarrow> string \<Rightarrow> MarketplaceConsent \<Rightarrow> MarketplaceConsent \<Rightarrow> string \<Rightarrow> pyval \<Rightarrow> pyval" where
  "introduction_receipt engagement decision_id input_digest buyer seller h shared_fields = dict_str
     [(''engagement_id'', PyStr (en_id engagement)), (''decision_id'', PyStr decision_id),
      (''input_digest'', PyStr input_digest), (''buyer_consent_id'', PyStr (co_id buyer)),
      (''seller_consent_id'', PyStr (co_id seller)), (''shared_fields_hash'', PyStr h), (''shared_fields'', shared_fields)]"

definition check_consents :: "qdb \<Rightarrow> MarketplaceEngagement \<Rightarrow> string \<Rightarrow> int \<Rightarrow> string \<Rightarrow>
    (MarketplaceConsent \<times> MarketplaceConsent) tx" where
  "check_consents db engagement input_digest now h =
     (let cs = valid_consents db (en_id engagement) input_digest now in
      case (party_consent ''BUYER'' cs, party_consent ''SELLER'' cs) of
        (Some buyer, Some seller) \<Rightarrow>
          if \<not> list_all (\<lambda>c. co_party c \<in> {''BUYER'', ''SELLER''}) cs
          then Inl (PersistenceConflict ''current buyer and seller consent are required'')
          else if co_actor_id buyer = co_actor_id seller
          then Inl (PersistenceConflict ''buyer and seller consent require distinct humans'')
          else if co_approved_fields_hash buyer \<noteq> h \<or> co_approved_fields_hash seller \<noteq> h
          then Inl (PersistenceConflict ''buyer and seller must approve the exact shared fields'')
          else Inr (buyer, seller)
      | _ \<Rightarrow> Inl (PersistenceConflict ''current buyer and seller consent are required''))"

definition store_introduction ::
  "string \<Rightarrow> (nat \<Rightarrow> string) \<Rightarrow> MarketplaceEngagement \<Rightarrow> QualifiedIntroduction \<Rightarrow> pyval \<Rightarrow> qdb \<Rightarrow> qdb" where
  "store_introduction org uuid engagement i receipt db =
     outbox org (uuid 2) ''QUALIFIED_INTRODUCTION_CREATED'' ''QUALIFIED_INTRODUCTION'' (qi_id i)
       (''introduction-created:'' @ en_id engagement @ '':'' @ qi_input_digest i) receipt
       (db\<lparr>db_introductions := db_introductions db @ [i],
          db_effects := db_effects db @
            [\<lparr>ef_id = ''effect_'' @ uuid 1, ef_org = org, ef_kind = ''QUALIFIED_INTRODUCTION'',
              ef_semantic_key = ''introduction:'' @ en_id engagement @ '':'' @ qi_input_digest i, ef_state = ''RESERVED'',
              ef_payload = receipt, ef_result_ref = qi_id i\<rparr>],
          db_engagements := map (\<lambda>e. if en_id e = en_id engagement then e\<lparr>en_state := ''INTRODUCED''\<rparr> else e)
            (db_engagements db)\<rparr>)"

definition introduce ::
  "hash_env \<Rightarrow> string \<Rightarrow> int option \<Rightarrow> (nat \<Rightarrow> string) \<Rightarrow> string \<Rightarrow> string \<Rightarrow> string \<Rightarrow> pyval \<Rightarrow> qdb \<Rightarrow>
     (QualifiedIntroduction \<times> qdb) tx" where
  "introduce E org now uuid engagement_id decision_id input_digest shared_fields db =
     bindE (hashing (content_hash E shared_fields)) (\<lambda>h.
       case find (\<lambda>e. en_id e = engagement_id \<and> en_decision_id e = decision_id \<and> en_input_digest e = input_digest \<and>
           en_buyer_org e = org) (db_engagements db) of
         None \<Rightarrow> Inl (RecordNotFound ''marketplace engagement was not found'')
       | Some engagement \<Rightarrow>
           (case find (\<lambda>i. qi_engagement_id i = en_id engagement) (db_introductions db) of
              Some existing \<Rightarrow>
                if qi_input_digest existing \<noteq> input_digest \<or> qi_shared_fields_hash existing \<noteq> h
                then Inl (PersistenceConflict ''existing introduction binds another digest or shared field set'')
                else Inr (existing, db)
            | None \<Rightarrow>
                if \<not> list_ex (\<lambda>d. qd_org d = org \<and> qd_id d = decision_id \<and> qd_input_digest d = input_digest \<and>
                    qd_current d \<and> qd_approval_state d = ''APPROVED'') (db_decisions db)
                then Inl (PersistenceConflict ''decision is not current and approved'')
                else case now of
                    None \<Rightarrow> Inl (PersistenceConflict ''engagement has expired'')
                  | Some t \<Rightarrow>
                      if en_expires_at engagement \<le> t then Inl (PersistenceConflict ''engagement has expired'')
                      else bindE (check_consents db engagement input_digest t h) (\<lambda>(buyer, seller).
                        let receipt = introduction_receipt engagement decision_id input_digest buyer seller h shared_fields;
                            i = \<lparr>qi_id = ''intro_'' @ uuid 0, qi_engagement_id = en_id engagement, qi_decision_id = decision_id,
                              qi_buyer_org = en_buyer_org engagement, qi_seller_org = en_seller_org engagement,
                              qi_input_digest = input_digest, qi_shared_fields_hash = h, qi_receipt = receipt\<rparr>
                        in Inr (i, store_introduction org uuid engagement i receipt db))))"

definition record_consumer_receipt ::
  "string \<Rightarrow> string \<Rightarrow> string \<Rightarrow> string \<Rightarrow> string \<Rightarrow> string \<Rightarrow> qdb \<Rightarrow> ((ConsumerReceipt \<times> bool) \<times> qdb) tx" where
  "record_consumer_receipt org uuid consumer_name message_id payload_hash result_ref db =
     (case find (\<lambda>r. cr_org r = org \<and> cr_consumer_name r = consumer_name \<and> cr_message_id r = message_id) (db_receipts db) of
        Some existing \<Rightarrow>
          if cr_payload_hash existing \<noteq> payload_hash
          then Inl (PersistenceConflict ''consumer message ID was reused with another payload'')
          else Inr ((existing, True), db)
      | None \<Rightarrow>
          let r = \<lparr>cr_id = ''consumer_'' @ uuid, cr_org = org, cr_consumer_name = consumer_name, cr_message_id = message_id,
                cr_payload_hash = payload_hash, cr_result_ref = result_ref\<rparr>
          in Inr ((r, False), db\<lparr>db_receipts := db_receipts db @ [r]\<rparr>))"

section \<open>Invalidation\<close>

record BundleInvalidationResult =
  bi_product_id :: string
  bi_invalidated_decision_ids :: "string list"
  bi_replacement_attempt_ids :: "string list"

text \<open>The join of current decisions with their dependency on a product, in the order of decision identifiers.\<close>

definition pinned_decisions :: "string \<Rightarrow> string \<Rightarrow> qdb \<Rightarrow> (QualificationDecision \<times> DecisionDependency) list" where
  "pinned_decisions org product_id db =
     sort_key (\<lambda>(d, p). qd_id d)
       (concat (map (\<lambda>d. map (\<lambda>p. (d, p)) (filter (\<lambda>p. dd_org p = org \<and> dd_decision_id p = qd_id d \<and>
            ds_kind (dd_dep p) = ''PRODUCT_BUNDLE'' \<and> ds_identifier (dd_dep p) = product_id) (db_decision_deps db)))
          (filter (\<lambda>d. qd_org d = org \<and> qd_current d) (db_decisions db))))"

definition retire_decision :: "string \<Rightarrow> QualificationDecision \<Rightarrow> qdb \<Rightarrow> qdb" where
  "retire_decision org d db = db\<lparr>
     db_decisions := map (\<lambda>x. if qd_id x = qd_id d then x\<lparr>qd_current := False, qd_approval_state := ''INVALIDATED''\<rparr> else x)
       (db_decisions db),
     db_engagements := map (\<lambda>e. if en_buyer_org e = org \<and> en_decision_id e = qd_id d \<and>
         en_state e \<notin> {''INTRODUCED'', ''EXPIRED''} then e\<lparr>en_state := ''INVALIDATED''\<rparr> else e) (db_engagements db)\<rparr>"

definition active_of :: "qdb \<Rightarrow> string \<Rightarrow> string \<Rightarrow> ActiveProductBundle option" where
  "active_of db org product_id = find (\<lambda>a. ap_org a = org \<and> ap_product_id a = product_id) (db_actives db)"

definition up_to_date :: "qdb \<Rightarrow> string \<Rightarrow> DependencySnapshot \<Rightarrow> bool" where
  "up_to_date db product_id d =
     (case active_of db (ds_org d) product_id of
        None \<Rightarrow> False | Some a \<Rightarrow> ap_bundle_id a = ds_version d \<and> ap_bundle_digest a = ds_digest d)"

definition requeue_decision ::
  "string \<Rightarrow> (nat \<Rightarrow> string) \<Rightarrow> string \<Rightarrow> ActiveProductBundle \<Rightarrow> QualificationDecision \<Rightarrow> qdb \<Rightarrow> (string list \<times> qdb) tx" where
  "requeue_decision org uuid product_id active d db =
     (case (attempt_of db org (qd_attempt_id d), mission_of db org (qd_mission_id d)) of
        (Some attempt, Some mission) \<Rightarrow>
          if qm_state mission \<in> {''FAILED'', ''CANCELLED''} then Inr ([], db)
          else bindE (replacement_for org (uuid 0) attempt db) (\<lambda>(r, db1).
            let db2 = db1\<lparr>db_missions := map (\<lambda>m. if qm_id m = qm_id mission then m\<lparr>qm_state := ''READY''\<rparr> else m) (db_missions db1)\<rparr>
            in Inr ([qa_id r], outbox org (uuid 1) ''QUALIFICATION_MISSION_READY'' ''QUALIFICATION_MISSION'' (qm_id mission)
                 (''qualification-mission-ready:'' @ qm_id mission @ '':bundle:'' @ product_id @ '':'' @ show_int (ap_generation active))
                 (dict_str [(''mission_id'', PyStr (qm_id mission)), (''trace_id'', PyStr (qm_trace_id mission)),
                   (''organization_id'', PyStr org), (''reason'', PyStr ''ACTIVE_PRODUCT_BUNDLE_CHANGED''),
                   (''product_id'', PyStr product_id), (''replacement_attempt_id'', PyStr (qa_id r))]) db2))
      | _ \<Rightarrow> Inr ([], db))"

fun invalidate_rows ::
  "string \<Rightarrow> (nat \<Rightarrow> string) \<Rightarrow> string \<Rightarrow> (QualificationDecision \<times> DecisionDependency) list \<Rightarrow> qdb \<Rightarrow>
     (string list \<times> string list \<times> qdb) tx" where
  "invalidate_rows org uuid product_id [] db = Inr ([], [], db)"
| "invalidate_rows org uuid product_id ((d, p) # rows) db =
     (if up_to_date db product_id (dd_dep p)
      then invalidate_rows org (\<lambda>i. uuid (i + 2)) product_id rows db
      else
        let db1 = retire_decision org d db in
        bindE (case active_of db (ds_org (dd_dep p)) product_id of
                 None \<Rightarrow> Inr ([], db1)
               | Some active \<Rightarrow> requeue_decision org uuid product_id active d db1) (\<lambda>(reps, db2).
        bindE (invalidate_rows org (\<lambda>i. uuid (i + 2)) product_id rows db2) (\<lambda>(inv, reps', db3).
          Inr (qd_id d # inv, reps @ reps', db3))))"

definition invalidate_decisions_for_active_bundle ::
  "string \<Rightarrow> (nat \<Rightarrow> string) \<Rightarrow> string \<Rightarrow> qdb \<Rightarrow> (BundleInvalidationResult \<times> qdb) tx" where
  "invalidate_decisions_for_active_bundle org uuid product_id db =
     bindE (invalidate_rows org uuid product_id (pinned_decisions org product_id db) db) (\<lambda>(inv, reps, db').
       Inr (\<lparr>bi_product_id = product_id, bi_invalidated_decision_ids = inv, bi_replacement_attempt_ids = reps\<rparr>, db'))"

section \<open>The worker\<close>

record VectorCandidate =
  vq_org :: string
  vq_product_id :: string
  vq_bundle_id :: string
  vq_bundle_digest :: string

text \<open>The loop of \<^verbatim>\<open>_unique_products\<close>.\<close>

fun unique_products :: "VectorCandidate list \<Rightarrow> nat \<Rightarrow> VectorCandidate list \<Rightarrow> VectorCandidate list" where
  "unique_products [] limit selected = selected"
| "unique_products (c # cs) limit selected =
     (if vq_product_id c \<in> vq_product_id ` set selected then unique_products cs limit selected
      else if length selected + 1 = limit then selected @ [c]
      else unique_products cs limit (selected @ [c]))"

definition worker_id :: "hash_env \<Rightarrow> string \<Rightarrow> string \<Rightarrow> string" where
  "worker_id E prefix value = prefix @ ''_'' @ take 32 (sha256_hex E value)"

text \<open>The queued attempt of least depth, the oldest first, or the first attempt of the mission.\<close>

definition attempt_to_run ::
  "hash_env \<Rightarrow> string \<Rightarrow> string \<Rightarrow> qdb \<Rightarrow> (QualificationAttempt \<times> qdb) tx" where
  "attempt_to_run E org mission_id db =
     (case sort_key qa_depth (filter (\<lambda>a. qa_org a = org \<and> qa_mission_id a = mission_id \<and> qa_state a = QUEUED) (db_attempts db)) of
        a # _ \<Rightarrow> Inr (a, db)
      | [] \<Rightarrow>
          if list_ex (\<lambda>a. qa_org a = org \<and> qa_mission_id a = mission_id) (db_attempts db)
          then Inl (PersistenceConflict ''qualification mission has no claimable attempt'')
          else
            let attempt_id = worker_id E ''qattempt'' mission_id;
                a = \<lparr>qa_id = attempt_id, qa_org = org, qa_mission_id = mission_id, qa_root_attempt_id = attempt_id,
                  qa_predecessor = None, qa_depth = 0, qa_state = QUEUED, qa_generation = 0, qa_lease_owner = None,
                  qa_lease_expires_at = None, qa_input_digest = None, qa_stale_reason = None\<rparr>
            in bindE (insert_attempt a db) (\<lambda>db'. Inr (a, db')))"

definition prepare_attempt ::
  "hash_env \<Rightarrow> string \<Rightarrow> string \<Rightarrow> VectorCandidate list \<Rightarrow> qdb \<Rightarrow> (string \<times> qdb) tx" where
  "prepare_attempt E org mission_id candidates db =
     (case mission_of db org mission_id of
        None \<Rightarrow> Inl (RecordNotFound ''qualification mission was not found'')
      | Some mission \<Rightarrow>
          bindE (attempt_to_run E org mission_id db) (\<lambda>(a, db1).
            let db2 = (if list_ex (\<lambda>b. mb_org b = org \<and> mb_attempt_id b = qa_id a) (db_mission_bundles db1) then db1
                  else db1\<lparr>db_mission_bundles := db_mission_bundles db1 @
                    map (\<lambda>c. \<lparr>mb_org = org, mb_attempt_id = qa_id a, mb_product_id = vq_product_id c, mb_seller_org = vq_org c,
                      mb_bundle_id = vq_bundle_id c, mb_bundle_digest = vq_bundle_digest c\<rparr>) candidates\<rparr>);
                db3 = db2\<lparr>db_missions := map (\<lambda>m. if qm_id m = qm_id mission then m\<lparr>qm_state := ''RUNNING''\<rparr> else m) (db_missions db2)\<rparr>;
                outbox_id = worker_id E ''outbox'' (''attempt-ready:'' @ qa_id a)
            in Inr (qa_id a,
                 if list_ex (\<lambda>e. ob_id e = outbox_id) (db_outbox db3) then db3
                 else db3\<lparr>db_outbox := db_outbox db3 @
                   [\<lparr>ob_id = outbox_id, ob_org = org, ob_aggregate_type = ''QUALIFICATION_ATTEMPT'', ob_aggregate_id = qa_id a,
                     ob_event_type = ''QUALIFICATION_ATTEMPT_READY'', ob_event_key = ''qualification-attempt-ready:'' @ qa_id a,
                     ob_payload = dict_str [(''mission_id'', PyStr (qm_id mission)), (''attempt_id'', PyStr (qa_id a))]\<rparr>]\<rparr>)))"

text \<open>One transaction: if the snapshot fails, the claim is rolled back with it.\<close>

definition claim_and_snapshot ::
  "hash_env \<Rightarrow> string \<Rightarrow> int \<Rightarrow> (nat \<Rightarrow> string) \<Rightarrow> string \<Rightarrow> string \<Rightarrow> qdb \<Rightarrow> (AttemptLease \<times> qdb) tx" where
  "claim_and_snapshot E org now uuid attempt_id owner db =
     bindE (claim_attempt org (Some now) attempt_id owner 300 db) (\<lambda>(lease, db1).
     bindE (snapshot_attempt E org now uuid lease db1) (\<lambda>(_, db2). Inr (lease, db2)))"

end
