(* ===== verification/QualificationFacts.thy ===== *)
theory QualificationFacts
  imports Qualification Transitions
begin

text \<open>
  How the tables of the qualification kernel evolve under its operations: the step relation of the
  kernel, the invariants of its reachable states, and the lemmas on leases, decisions, replacements and
  introductions.
\<close>

section \<open>The step relation\<close>

text \<open>What the other transactions of the API and the worker may do: anything to missions, bundles, engagements, consents,
  receipts, effects and the outbox, and the approval state of decisions (\<^verbatim>\<open>decide_approval\<close> of
  \<^verbatim>\<open>qualification_service.py\<close>); the rows of attempts, their dependencies and checkpoints and
  introductions are written by the kernel alone.\<close>

definition outside_write :: "qdb \<Rightarrow> qdb \<Rightarrow> bool" where
  "outside_write db db' \<longleftrightarrow>
     db_attempts db' = db_attempts db \<and> db_attempt_deps db' = db_attempt_deps db \<and> db_checkpoints db' = db_checkpoints db \<and>
     db_introductions db' = db_introductions db \<and>
     map (\<lambda>d. d\<lparr>qd_approval_state := []\<rparr>) (db_decisions db') = map (\<lambda>d. d\<lparr>qd_approval_state := []\<rparr>) (db_decisions db)"

inductive qstep :: "hash_env \<Rightarrow> qdb \<Rightarrow> qdb \<Rightarrow> bool" for E where
  activate: "activate_bundle E org now uuid bundle_id actor_id expected_digest db = Inr (b, db') \<Longrightarrow> qstep E db db'"
| invalidate: "invalidate_decisions_for_active_bundle org uuids product_id db = Inr (r, db') \<Longrightarrow> qstep E db db'"
| claim: "claim_attempt org now' attempt_id owner secs db = Inr (l, db') \<Longrightarrow> qstep E db db'"
| snapshot: "snapshot_attempt E org now uuids l db = Inr (ds, db') \<Longrightarrow> qstep E db db'"
| checkpoint: "checkpoint_attempt org now uuid l sequence kind payload db = Inr (c, db') \<Longrightarrow> qstep E db db'"
| finalize: "finalize_attempt E org now uuids l product payload cited db = Inr (f, db') \<Longrightarrow> qstep E db db'"
| introduction: "introduce E org now' uuids eid did dig shared db = Inr (i, db') \<Longrightarrow> qstep E db db'"
| receipt: "record_consumer_receipt org uuid consumer mid h ref db = Inr (rb, db') \<Longrightarrow> qstep E db db'"
| prepare: "prepare_attempt E org mission_id candidates db = Inr (i, db') \<Longrightarrow> qstep E db db'"
| outside: "outside_write db db' \<Longrightarrow> qstep E db db'"

section \<open>Attempts\<close>

definition live :: "AttemptState \<Rightarrow> bool" where
  "live s \<longleftrightarrow> s \<in> {QUEUED, RUNNING, SNAPSHOT_COMPLETE}"

text \<open>A row keeps its identity and place in the replacement chain; its generation never falls, and a
  terminal row never changes.\<close>

definition row_evolves :: "QualificationAttempt \<Rightarrow> QualificationAttempt \<Rightarrow> bool" where
  "row_evolves a b \<longleftrightarrow>
     qa_id b = qa_id a \<and> qa_org b = qa_org a \<and> qa_mission_id b = qa_mission_id a \<and>
     qa_predecessor b = qa_predecessor a \<and> qa_depth b = qa_depth a \<and> qa_generation a \<le> qa_generation b \<and>
     (live (qa_state a) \<or> b = a)"

definition rows_evolve :: "QualificationAttempt list \<Rightarrow> QualificationAttempt list \<Rightarrow> bool" where
  "rows_evolve as bs \<longleftrightarrow> (\<exists>f extra. bs = map f as @ extra \<and> (\<forall>a \<in> set as. row_evolves a (f a)))"

definition attempts_evolve :: "qdb \<Rightarrow> qdb \<Rightarrow> bool" where
  "attempts_evolve db db' \<longleftrightarrow> rows_evolve (db_attempts db) (db_attempts db')"

lemma row_evolves_refl [simp]: "row_evolves a a"
  by (simp add: row_evolves_def)

lemma row_evolves_trans: "row_evolves a b \<Longrightarrow> row_evolves b c \<Longrightarrow> row_evolves a c"
  unfolding row_evolves_def by (elim conjE disjE) simp_all

lemma rows_evolve_refl [simp]: "rows_evolve as as"
  unfolding rows_evolve_def by (rule exI [of _ id], rule exI [of _ "[]"]) simp

lemma rows_evolve_map: "(\<And>a. a \<in> set as \<Longrightarrow> row_evolves a (f a)) \<Longrightarrow> rows_evolve as (map f as)"
  unfolding rows_evolve_def by (rule exI [of _ f], rule exI [of _ "[]"]) simp

lemma rows_evolve_append: "rows_evolve as (as @ extra)"
  unfolding rows_evolve_def by (rule exI [of _ id], rule exI [of _ extra]) simp

lemma rows_evolve_trans:
  assumes "rows_evolve as bs" "rows_evolve bs cs"
  shows "rows_evolve as cs"
proof -
  from assms obtain f x g y where fg: "bs = map f as @ x" "\<forall>a \<in> set as. row_evolves a (f a)"
      "cs = map g bs @ y" "\<forall>b \<in> set bs. row_evolves b (g b)" unfolding rows_evolve_def by blast
  then have "cs = map (g \<circ> f) as @ (map g x @ y)" by simp
  moreover have "\<forall>a \<in> set as. row_evolves a ((g \<circ> f) a)" using fg by (auto intro: row_evolves_trans)
  ultimately show ?thesis unfolding rows_evolve_def by blast
qed

abbreviation ids_distinct :: "qdb \<Rightarrow> bool" where
  "ids_distinct db \<equiv> distinct (map qa_id (db_attempts db))"

lemma same_id_same_row:
  "ids_distinct db \<Longrightarrow> a \<in> set (db_attempts db) \<Longrightarrow> b \<in> set (db_attempts db) \<Longrightarrow> qa_id a = qa_id b \<Longrightarrow> a = b"
  by (auto simp: distinct_map inj_on_def)

lemma fenced_attempt_Inr:
  "fenced_attempt org now l states db = Inr a \<Longrightarrow>
     a \<in> set (db_attempts db) \<and> qa_org a = org \<and> qa_id a = le_attempt_id l \<and> qa_generation a = le_generation l \<and>
     qa_lease_owner a = Some (le_owner l) \<and> qa_state a \<in> set states"
  by (auto simp: fenced_attempt_def dest!: find_SomeD split: option.splits)

lemma fenced_attempt_Inl:
  "fenced_attempt org now l states db = Inl e \<Longrightarrow> e = PersistenceConflict ''attempt lease or generation fence was lost''"
  by (simp add: fenced_attempt_def split: option.splits)

lemma set_attempt_evolves:
  assumes "ids_distinct db" "a \<in> set (db_attempts db)" "row_evolves a b"
  shows "rows_evolve (db_attempts db) (db_attempts (set_attempt b db))" "ids_distinct (set_attempt b db)"
    "\<And>c. c \<in> set (db_attempts (set_attempt b db)) \<Longrightarrow> c = b \<or> c \<in> set (db_attempts db) \<and> qa_id c \<noteq> qa_id b"
proof -
  have same: "qa_id b = qa_id a" using assms(3) by (simp add: row_evolves_def)
  have "row_evolves c (if qa_id c = qa_id b then b else c)" if "c \<in> set (db_attempts db)" for c
    using same_id_same_row [OF assms(1) that assms(2)] same assms(3) by (cases "c = a") auto
  then show "rows_evolve (db_attempts db) (db_attempts (set_attempt b db))"
    by (simp add: set_attempt_def rows_evolve_map)
  have "map qa_id (db_attempts (set_attempt b db)) = map qa_id (db_attempts db)"
    by (simp add: set_attempt_def comp_def)
  then show "ids_distinct (set_attempt b db)" using assms(1) by simp
  show "\<And>c. c \<in> set (db_attempts (set_attempt b db)) \<Longrightarrow> c = b \<or> c \<in> set (db_attempts db) \<and> qa_id c \<noteq> qa_id b"
    by (auto simp: set_attempt_def)
qed

text \<open>Every new attempt is the only direct successor of its predecessor, one deeper, at most three deep.\<close>

definition chain_inv :: "qdb \<Rightarrow> bool" where
  "chain_inv db \<longleftrightarrow>
     ids_distinct db \<and>
     (\<forall>a \<in> set (db_attempts db). 0 \<le> qa_depth a \<and> qa_depth a \<le> 3 \<and>
        (\<forall>p. qa_predecessor a = Some p \<longrightarrow> (\<exists>b \<in> set (db_attempts db). qa_id b = p \<and> qa_depth a = qa_depth b + 1))) \<and>
     (\<forall>a \<in> set (db_attempts db). \<forall>b \<in> set (db_attempts db).
        qa_org a = qa_org b \<longrightarrow> qa_predecessor a \<noteq> None \<longrightarrow> qa_predecessor a = qa_predecessor b \<longrightarrow> a = b)"

lemma chain_inv_cong: "db_attempts db' = db_attempts db \<Longrightarrow> chain_inv db' = chain_inv db"
  by (simp add: chain_inv_def)

lemma chain_inv_map:
  assumes "chain_inv db" "db_attempts db' = map f (db_attempts db)"
    "\<And>a. a \<in> set (db_attempts db) \<Longrightarrow> row_evolves a (f a)"
  shows "chain_inv db'"
proof -
  have same: "qa_id (f a) = qa_id a" "qa_org (f a) = qa_org a" "qa_predecessor (f a) = qa_predecessor a" "qa_depth (f a) = qa_depth a"
    if "a \<in> set (db_attempts db)" for a
    using assms(3) [OF that] by (simp_all add: row_evolves_def)
  have "map qa_id (db_attempts db') = map qa_id (db_attempts db)" using same(1) by (simp add: assms(2))
  then have "ids_distinct db'" using assms(1) by (simp add: chain_inv_def)
  moreover have "\<forall>a \<in> set (db_attempts db). 0 \<le> qa_depth (f a) \<and> qa_depth (f a) \<le> 3 \<and>
     (\<forall>p. qa_predecessor (f a) = Some p \<longrightarrow> (\<exists>b \<in> set (db_attempts db). qa_id (f b) = p \<and> qa_depth (f a) = qa_depth (f b) + 1))"
    using assms(1) same unfolding chain_inv_def by metis
  moreover have "\<forall>a \<in> set (db_attempts db). \<forall>b \<in> set (db_attempts db). qa_org (f a) = qa_org (f b) \<longrightarrow>
      qa_predecessor (f a) \<noteq> None \<longrightarrow> qa_predecessor (f a) = qa_predecessor (f b) \<longrightarrow> f a = f b"
    using assms(1) same unfolding chain_inv_def by metis
  ultimately show ?thesis unfolding chain_inv_def assms(2) by auto
qed

definition same_but_attempts :: "qdb \<Rightarrow> qdb \<Rightarrow> bool" where
  "same_but_attempts db db' \<longleftrightarrow>
     db_decisions db' = db_decisions db \<and> db_introductions db' = db_introductions db \<and>
     db_attempt_deps db' = db_attempt_deps db \<and> db_actives db' = db_actives db \<and>
     db_decision_deps db' = db_decision_deps db \<and> db_missions db' = db_missions db \<and> db_checkpoints db' = db_checkpoints db"

lemma replacement_for_Inr:
  assumes "replacement_for org uuid a db = Inr (r, db')" "chain_inv db" "b \<in> set (db_attempts db)"
    "qa_id a = qa_id b" "qa_depth a = qa_depth b"
  shows "chain_inv db' \<and> rows_evolve (db_attempts db) (db_attempts db') \<and>
    same_but_attempts db db' \<and> r \<in> set (db_attempts db') \<and>
    (\<forall>c \<in> set (db_attempts db'). c \<in> set (db_attempts db) \<or> qa_state c = QUEUED \<and> qa_id c \<notin> qa_id ` set (db_attempts db))"
proof (cases "find (\<lambda>x. qa_org x = org \<and> qa_predecessor x = Some (qa_id a)) (db_attempts db)")
  case (Some x)
  then have "r = x" "db' = db" using assms(1) by (simp_all add: replacement_for_def)
  then show ?thesis using assms(2) find_SomeD [OF Some] by (simp add: same_but_attempts_def)
next
  case None
  then have none: "x \<in> set (db_attempts db) \<Longrightarrow> qa_org x = org \<Longrightarrow> qa_predecessor x \<noteq> Some (qa_id a)" for x
    using find_NoneD [OF None] by blast
  from None assms(1) have r: "qa_depth a < 3" "qa_id r \<notin> qa_id ` set (db_attempts db)"
      "db' = db\<lparr>db_attempts := db_attempts db @ [r]\<rparr>" "qa_org r = org" "qa_predecessor r = Some (qa_id a)"
      "qa_depth r = qa_depth a + 1" "qa_state r = QUEUED"
    by (auto simp: replacement_for_def insert_attempt_def bindE_Inr_conv Let_def split: if_splits)
  have "chain_inv db'"
    unfolding chain_inv_def
  proof (intro conjI ballI)
    show "ids_distinct db'" using assms(2) r(2,3) by (simp add: chain_inv_def)
    fix c assume "c \<in> set (db_attempts db')"
    then have c: "c = r \<or> c \<in> set (db_attempts db)" using r(3) by auto
    have b: "0 \<le> qa_depth b" using assms(2,3) by (simp add: chain_inv_def)
    show "0 \<le> qa_depth c" "qa_depth c \<le> 3"
      using c b r(1,6) assms(2,5) by (auto simp: chain_inv_def)
    show "\<forall>p. qa_predecessor c = Some p \<longrightarrow> (\<exists>b \<in> set (db_attempts db'). qa_id b = p \<and> qa_depth c = qa_depth b + 1)"
      using c
    proof
      assume "c = r"
      then show ?thesis using r(3,5,6) assms(3-5) by auto
    next
      assume "c \<in> set (db_attempts db)"
      then have "\<forall>p. qa_predecessor c = Some p \<longrightarrow> (\<exists>b \<in> set (db_attempts db). qa_id b = p \<and> qa_depth c = qa_depth b + 1)"
        using assms(2) unfolding chain_inv_def by blast
      then show ?thesis using r(3) by auto
    qed
    fix d assume "d \<in> set (db_attempts db')"
    then have d: "d = r \<or> d \<in> set (db_attempts db)" using r(3) by auto
    show "qa_org c = qa_org d \<longrightarrow> qa_predecessor c \<noteq> None \<longrightarrow> qa_predecessor c = qa_predecessor d \<longrightarrow> c = d"
      using c d none r(4,5) assms(2) unfolding chain_inv_def by metis
  qed
  then show ?thesis using r by (auto simp: same_but_attempts_def intro: rows_evolve_append)
qed

section \<open>What each operation does to the attempts\<close>

lemma outbox_simps [simp]:
  "db_attempts (outbox og u t ty ai k p db) = db_attempts db" "db_decisions (outbox og u t ty ai k p db) = db_decisions db"
  "db_introductions (outbox og u t ty ai k p db) = db_introductions db" "db_actives (outbox og u t ty ai k p db) = db_actives db"
  "db_decision_deps (outbox og u t ty ai k p db) = db_decision_deps db" "db_attempt_deps (outbox og u t ty ai k p db) = db_attempt_deps db"
  "db_checkpoints (outbox og u t ty ai k p db) = db_checkpoints db"
  "db_engagements (outbox og u t ty ai k p db) = db_engagements db" "db_consents (outbox og u t ty ai k p db) = db_consents db"
  by (simp_all add: outbox_def)

lemma set_attempt_simps [simp]:
  "db_decisions (set_attempt a db) = db_decisions db" "db_introductions (set_attempt a db) = db_introductions db"
  "db_actives (set_attempt a db) = db_actives db" "db_decision_deps (set_attempt a db) = db_decision_deps db"
  "db_attempt_deps (set_attempt a db) = db_attempt_deps db" "db_checkpoints (set_attempt a db) = db_checkpoints db"
  by (simp_all add: set_attempt_def)

lemma insert_checkpoint_Inr: "insert_checkpoint c db = Inr db' \<Longrightarrow> db' = db\<lparr>db_checkpoints := db_checkpoints db @ [c]\<rparr>"
  by (simp add: insert_checkpoint_def split: if_splits)

lemma claim_attempt_Inr:
  assumes "claim_attempt org now i owner secs db = Inr (l, db')" "ids_distinct db"
  shows "\<exists>f a. db' = db\<lparr>db_attempts := map f (db_attempts db)\<rparr> \<and> (\<forall>b \<in> set (db_attempts db). row_evolves b (f b)) \<and>
    a \<in> set (db_attempts db) \<and> qa_id a = i \<and> qa_org a = org \<and> live (qa_state a) \<and> le_attempt_id l = i \<and>
    le_generation l = qa_generation a + 1 \<and> qa_generation (f a) = qa_generation a + 1 \<and> qa_state (f a) = RUNNING"
proof -
  from assms(1) obtain t a where t: "now = Some t" "find (claimable org t i owner) (db_attempts db) = Some a"
      "l = \<lparr>le_attempt_id = i, le_generation = qa_generation a + 1, le_owner = owner, le_expires_at = t + secs * 1000000\<rparr>"
      "db' = db\<lparr>db_attempts := map (\<lambda>b. if claimable org t i owner b
         then b\<lparr>qa_state := RUNNING, qa_lease_owner := Some owner, qa_lease_expires_at := Some (t + secs * 1000000),
           qa_generation := qa_generation b + 1\<rparr> else b) (db_attempts db)\<rparr>"
    by (auto simp: claim_attempt_def Let_def split: if_splits option.splits)
  let ?f = "\<lambda>b. if claimable org t i owner b
     then b\<lparr>qa_state := RUNNING, qa_lease_owner := Some owner, qa_lease_expires_at := Some (t + secs * 1000000),
       qa_generation := qa_generation b + 1\<rparr> else b"
  have "\<forall>b \<in> set (db_attempts db). row_evolves b (?f b)"
    by (auto simp: row_evolves_def claimable_def live_def)
  moreover have "a \<in> set (db_attempts db)" "claimable org t i owner a" using find_SomeD [OF t(2)] by blast+
  ultimately show ?thesis using t(3,4) by (intro exI [of _ ?f] exI [of _ a]) (auto simp: claimable_def live_def)
qed

lemma snapshot_attempt_Inr:
  assumes "snapshot_attempt E org now uuid l db = Inr (ds, db')"
  shows "\<exists>a \<in> set (db_attempts db). qa_org a = org \<and> qa_id a = le_attempt_id l \<and> qa_state a \<in> {RUNNING, SNAPSHOT_COMPLETE} \<and>
    db_decisions db' = db_decisions db \<and> db_introductions db' = db_introductions db \<and>
    (deps_of_attempt db org (qa_id a) \<noteq> [] \<and> db' = db \<or>
     deps_of_attempt db org (qa_id a) = [] \<and>
       (\<exists>dg. db_attempts db' = db_attempts (set_attempt (a\<lparr>qa_input_digest := Some dg, qa_state := SNAPSHOT_COMPLETE\<rparr>) db)) \<and>
       db_attempt_deps db' = db_attempt_deps db @ attempt_rows org uuid (qa_id a) ds \<and>
       (\<exists>c. db_checkpoints db' = db_checkpoints db @ [c] \<and> ck_org c = org \<and> ck_attempt_id c = qa_id a \<and>
          ck_generation c = qa_generation a))"
proof -
  from assms obtain a where a: "fenced_attempt org now l [RUNNING, SNAPSHOT_COMPLETE] db = Inr a"
    by (auto simp: snapshot_attempt_def bindE_Inr_conv)
  with assms obtain m where m: "mission_of db org (qa_mission_id a) = Some m"
    by (cases "mission_of db org (qa_mission_id a)") (simp_all add: snapshot_attempt_def)
  have "db_decisions db' = db_decisions db \<and> db_introductions db' = db_introductions db \<and>
    (deps_of_attempt db org (qa_id a) \<noteq> [] \<and> db' = db \<or>
     deps_of_attempt db org (qa_id a) = [] \<and>
       (\<exists>dg. db_attempts db' = db_attempts (set_attempt (a\<lparr>qa_input_digest := Some dg, qa_state := SNAPSHOT_COMPLETE\<rparr>) db)) \<and>
       db_attempt_deps db' = db_attempt_deps db @ attempt_rows org uuid (qa_id a) ds \<and>
       (\<exists>c. db_checkpoints db' = db_checkpoints db @ [c] \<and> ck_org c = org \<and> ck_attempt_id c = qa_id a \<and>
          ck_generation c = qa_generation a))"
  proof (cases "deps_of_attempt db org (qa_id a) = []")
    case True
    with assms obtain dg where "db_attempts db' = db_attempts (set_attempt (a\<lparr>qa_input_digest := Some dg, qa_state := SNAPSHOT_COMPLETE\<rparr>) db)"
        "db_attempt_deps db' = db_attempt_deps db @ attempt_rows org uuid (qa_id a) ds"
        "db_decisions db' = db_decisions db" "db_introductions db' = db_introductions db"
        "\<exists>c. db_checkpoints db' = db_checkpoints db @ [c] \<and> ck_org c = org \<and> ck_attempt_id c = qa_id a \<and>
          ck_generation c = qa_generation a"
      by (auto simp: snapshot_attempt_def a m bindE_Inr_conv Let_def split: if_splits dest!: insert_checkpoint_Inr)
    then show ?thesis using True by blast
  next
    case False
    with assms show ?thesis by (auto simp: snapshot_attempt_def a m bindE_Inr_conv Let_def split: if_splits)
  qed
  then show ?thesis using fenced_attempt_Inr [OF a] by auto
qed

lemma checkpoint_attempt_Inr:
  "checkpoint_attempt org now uuid l sq kind payload db = Inr (c, db') \<Longrightarrow>
     db_attempts db' = db_attempts db \<and> db_decisions db' = db_decisions db \<and> db_introductions db' = db_introductions db \<and>
     db_attempt_deps db' = db_attempt_deps db"
  by (auto simp: checkpoint_attempt_def bindE_Inr_conv Let_def dest!: insert_checkpoint_Inr)

lemma activate_bundle_Inr:
  "activate_bundle E org now uuid bid actor dig db = Inr (b, db') \<Longrightarrow>
     db_attempts db' = db_attempts db \<and> db_decisions db' = db_decisions db \<and> db_introductions db' = db_introductions db \<and>
     db_attempt_deps db' = db_attempt_deps db"
  by (auto simp: activate_bundle_def bindE_Inr_conv Let_def point_active_def split: option.splits if_splits)

lemma receipt_Inr:
  "record_consumer_receipt org uuid consumer mid h ref db = Inr (rb, db') \<Longrightarrow>
     db_attempts db' = db_attempts db \<and> db_decisions db' = db_decisions db \<and> db_introductions db' = db_introductions db \<and>
     db_attempt_deps db' = db_attempt_deps db"
  by (auto simp: record_consumer_receipt_def Let_def split: option.splits if_splits)

lemma finalize_attempt_Inr:
  assumes "finalize_attempt E org now uuid l product payload cited db = Inr (f, db')"
  obtains (stale) a changed where "a \<in> set (db_attempts db)" "qa_org a = org" "qa_id a = le_attempt_id l" "qa_state a = SNAPSHOT_COMPLETE"
      "changed = changed_product_bundles db (deps_of_attempt db org (qa_id a))" "changed \<noteq> []"
      "finalize_stale org uuid a changed db = Inr (f, db')"
  | (completed) a dg digest where "a \<in> set (db_attempts db)" "qa_org a = org" "qa_id a = le_attempt_id l" "qa_state a = SNAPSHOT_COMPLETE"
      "changed_product_bundles db (deps_of_attempt db org (qa_id a)) = []" "qa_input_digest a = Some dg"
      "set cited \<subseteq> (\<lambda>d. ds_identifier (ad_dep d)) ` set (deps_of_attempt db org (qa_id a))"
      "\<exists>d \<in> set (deps_of_attempt db org (qa_id a)). ds_kind (ad_dep d) = ''PRODUCT_BUNDLE'' \<and> ds_identifier (ad_dep d) = product"
      "fr_state f = ''COMPLETED''" "fr_decision_id f = Some (''qdec_'' @ uuid 0)"
      "db_attempts db' = db_attempts (set_attempt (a\<lparr>qa_state := COMPLETED\<rparr>) db)"
      "db_decisions db' = db_decisions db @ [\<lparr>qd_id = ''qdec_'' @ uuid 0, qd_org = org, qd_mission_id = qa_mission_id a,
         qd_attempt_id = qa_id a, qd_input_digest = dg, qd_decision_digest = digest,
         qd_recommended_product_id = product, qd_payload = payload, qd_approval_state = ''PENDING'', qd_current = True\<rparr>]"
      "db_decision_deps db' = db_decision_deps db @
         decision_rows org (\<lambda>i. uuid (i + 1)) (''qdec_'' @ uuid 0) cited (deps_of_attempt db org (qa_id a))"
      "db_introductions db' = db_introductions db" "db_attempt_deps db' = db_attempt_deps db" "db_actives db' = db_actives db"
        "db_checkpoints db' = db_checkpoints db"
proof -
  from assms obtain a where a: "fenced_attempt org now l [SNAPSHOT_COMPLETE] db = Inr a"
    by (auto simp: finalize_attempt_def bindE_Inr_conv)
  note mem = fenced_attempt_Inr [OF a]
  show thesis
  proof (cases "changed_product_bundles db (deps_of_attempt db org (qa_id a)) = []")
    case False
    then show thesis using assms a mem stale [of a] by (simp add: finalize_attempt_def Let_def)
  next
    case True
    let ?deps = "deps_of_attempt db org (qa_id a)"
    from assms True obtain dg where dg: "qa_input_digest a = Some dg"
        "set cited \<subseteq> (\<lambda>d. ds_identifier (ad_dep d)) ` set ?deps"
        "list_ex (\<lambda>d. ds_kind (ad_dep d) = ''PRODUCT_BUNDLE'' \<and> ds_identifier (ad_dep d) = product) ?deps"
      by (auto simp: finalize_attempt_def a Let_def split: option.splits if_splits)
    with assms True obtain digest where "fr_state f = ''COMPLETED''" "fr_decision_id f = Some (''qdec_'' @ uuid 0)"
        "db_attempts db' = db_attempts (set_attempt (a\<lparr>qa_state := COMPLETED\<rparr>) db)"
        "db_decisions db' = db_decisions db @ [\<lparr>qd_id = ''qdec_'' @ uuid 0, qd_org = org, qd_mission_id = qa_mission_id a,
           qd_attempt_id = qa_id a, qd_input_digest = dg, qd_decision_digest = digest,
           qd_recommended_product_id = product, qd_payload = payload, qd_approval_state = ''PENDING'', qd_current = True\<rparr>]"
        "db_decision_deps db' = db_decision_deps db @ decision_rows org (\<lambda>i. uuid (i + 1)) (''qdec_'' @ uuid 0) cited ?deps"
        "db_introductions db' = db_introductions db" "db_attempt_deps db' = db_attempt_deps db" "db_actives db' = db_actives db"
        "db_checkpoints db' = db_checkpoints db"
      by (auto simp: finalize_attempt_def a Let_def bindE_Inr_conv)
    with dg mem True show thesis by (intro completed [of a dg digest]) (auto simp: list_ex_iff)
  qed
qed

lemma finalize_stale_Inr:
  assumes "finalize_stale org uuid a changed db = Inr (f, db')" "a \<in> set (db_attempts db)" "chain_inv db" "qa_state a = SNAPSHOT_COMPLETE"
  shows "chain_inv db' \<and> rows_evolve (db_attempts db) (db_attempts db') \<and> db_decisions db' = db_decisions db \<and>
    db_introductions db' = db_introductions db \<and> db_attempt_deps db' = db_attempt_deps db \<and>
    (\<forall>c \<in> set (db_attempts db'). qa_id c = qa_id a \<longrightarrow> qa_state c = STALE) \<and>
    (\<forall>c \<in> set (db_attempts db'). qa_state c = SNAPSHOT_COMPLETE \<longrightarrow> c \<in> set (db_attempts db)) \<and> fr_state f = ''STALE''"
proof -
  let ?s = "a\<lparr>qa_state := STALE, qa_stale_reason := Some (str_join '','' changed)\<rparr>"
  from assms(1) obtain r db1 where r: "replacement_for org (uuid 0) ?s (set_attempt ?s db) = Inr (r, db1)"
      "db_attempts db' = db_attempts db1" "db_decisions db' = db_decisions db1" "db_introductions db' = db_introductions db1"
      "db_attempt_deps db' = db_attempt_deps db1" "fr_state f = ''STALE''"
    by (auto simp: finalize_stale_def bindE_Inr_conv Let_def)
  have ev: "row_evolves a ?s" using assms(4) by (simp add: row_evolves_def live_def)
  have ids: "ids_distinct db" using assms(3) by (simp add: chain_inv_def)
  note s = set_attempt_evolves [OF ids assms(2) ev]
  have chain: "chain_inv (set_attempt ?s db)"
  proof (rule chain_inv_map [OF assms(3), where f = "\<lambda>b. if qa_id b = qa_id ?s then ?s else b"])
    show "db_attempts (set_attempt ?s db) = map (\<lambda>b. if qa_id b = qa_id ?s then ?s else b) (db_attempts db)"
      by (simp add: set_attempt_def)
    show "row_evolves b (if qa_id b = qa_id ?s then ?s else b)" if "b \<in> set (db_attempts db)" for b
      using same_id_same_row [OF ids that assms(2)] ev by auto
  qed
  have mem: "?s \<in> set (db_attempts (set_attempt ?s db))"
    using assms(2) by (auto simp: set_attempt_def)
  note rep = replacement_for_Inr [OF r(1) chain mem refl refl]
  have "qa_id c = qa_id a \<longrightarrow> qa_state c = STALE" "qa_state c = SNAPSHOT_COMPLETE \<longrightarrow> c \<in> set (db_attempts db)"
    if "c \<in> set (db_attempts db1)" for c
  proof -
    from rep that consider "c \<in> set (db_attempts (set_attempt ?s db))" | "qa_state c = QUEUED" "qa_id c \<noteq> qa_id ?s"
      using mem by blast
    then have "c = ?s \<or> c \<in> set (db_attempts db) \<and> qa_id c \<noteq> qa_id a \<or> qa_state c = QUEUED \<and> qa_id c \<noteq> qa_id a"
      using s(3) [of c] by cases auto
    then show "qa_id c = qa_id a \<longrightarrow> qa_state c = STALE" "qa_state c = SNAPSHOT_COMPLETE \<longrightarrow> c \<in> set (db_attempts db)"
      by auto
  qed
  then show ?thesis
    using rep r(2-6) rows_evolve_trans [OF s(1)] chain_inv_cong [OF r(2)] by (simp add: same_but_attempts_def)
qed

section \<open>Invalidation\<close>

definition retired :: "QualificationDecision \<Rightarrow> QualificationDecision" where
  "retired d = d\<lparr>qd_current := False, qd_approval_state := ''INVALIDATED''\<rparr>"

lemma retired_simps [simp]:
  "qd_id (retired d) = qd_id d" "qd_org (retired d) = qd_org d" "qd_attempt_id (retired d) = qd_attempt_id d"
  "\<not> qd_current (retired d)" "retired (retired d) = retired d"
  by (simp_all add: retired_def)

text \<open>Requeueing touches attempts, missions and the outbox only.\<close>

definition queued_only :: "qdb \<Rightarrow> qdb \<Rightarrow> bool" where
  "queued_only db db' \<longleftrightarrow>
     (\<forall>c \<in> set (db_attempts db'). c \<in> set (db_attempts db) \<or> qa_state c = QUEUED \<and> qa_id c \<notin> qa_id ` set (db_attempts db))"

definition requeues :: "qdb \<Rightarrow> qdb \<Rightarrow> bool" where
  "requeues db db' \<longleftrightarrow>
     chain_inv db' \<and> rows_evolve (db_attempts db) (db_attempts db') \<and> queued_only db db' \<and>
     db_introductions db' = db_introductions db \<and> db_attempt_deps db' = db_attempt_deps db \<and>
     db_actives db' = db_actives db \<and> db_decision_deps db' = db_decision_deps db \<and> db_checkpoints db' = db_checkpoints db"

lemma requeues_refl: "chain_inv db \<Longrightarrow> requeues db db"
  by (simp add: requeues_def queued_only_def)

lemma rows_evolve_ids: "rows_evolve as bs \<Longrightarrow> qa_id ` set as \<subseteq> qa_id ` set bs"
proof -
  assume "rows_evolve as bs"
  then obtain f extra where "bs = map f as @ extra" "\<forall>a \<in> set as. qa_id (f a) = qa_id a"
    by (auto simp: rows_evolve_def row_evolves_def)
  then have "qa_id a \<in> qa_id ` f ` set as" if "a \<in> set as" for a using that by (metis image_eqI)
  then show ?thesis using \<open>bs = _\<close> by auto
qed

lemma queued_only_trans:
  assumes "queued_only a b" "queued_only b c" "rows_evolve (db_attempts a) (db_attempts b)"
  shows "queued_only a c"
  unfolding queued_only_def
proof
  fix x assume "x \<in> set (db_attempts c)"
  then consider "x \<in> set (db_attempts b)" | "qa_state x = QUEUED" "qa_id x \<notin> qa_id ` set (db_attempts b)"
    using assms(2) unfolding queued_only_def by blast
  then show "x \<in> set (db_attempts a) \<or> qa_state x = QUEUED \<and> qa_id x \<notin> qa_id ` set (db_attempts a)"
    using assms(1) rows_evolve_ids [OF assms(3)] unfolding queued_only_def by cases blast+
qed

lemma requeues_trans: "requeues a b \<Longrightarrow> requeues b c \<Longrightarrow> requeues a c"
  unfolding requeues_def
  by (elim conjE, intro conjI) (simp_all, (erule (1) rows_evolve_trans | erule (2) queued_only_trans)+)

lemma requeue_decision_Inr:
  assumes "requeue_decision org uuid p active d db = Inr (reps, db')" "chain_inv db"
  shows "requeues db db' \<and> db_decisions db' = db_decisions db"
proof (cases "attempt_of db org (qd_attempt_id d)")
  case None
  then show ?thesis using assms by (simp add: requeue_decision_def requeues_refl)
next
  case (Some a)
  then have mem: "a \<in> set (db_attempts db)" using find_SomeD by (fastforce simp: attempt_of_def)
  show ?thesis
  proof (cases "mission_of db org (qd_mission_id d)")
    case None
    then show ?thesis using assms Some by (simp add: requeue_decision_def requeues_refl)
  next
    case (Some m)
    show ?thesis
    proof (cases "qm_state m \<in> {''FAILED'', ''CANCELLED''}")
      case True
      then show ?thesis
        using assms Some \<open>attempt_of db org (qd_attempt_id d) = Some a\<close> by (auto simp: requeue_decision_def requeues_refl)
    next
      case False
      with assms(1) Some \<open>attempt_of db org (qd_attempt_id d) = Some a\<close> obtain r db1 where
        r: "replacement_for org (uuid 0) a db = Inr (r, db1)" "db_attempts db' = db_attempts db1" "db_decisions db' = db_decisions db1"
          "db_introductions db' = db_introductions db1" "db_attempt_deps db' = db_attempt_deps db1"
          "db_actives db' = db_actives db1" "db_decision_deps db' = db_decision_deps db1" "db_checkpoints db' = db_checkpoints db1"
        by (auto simp: requeue_decision_def bindE_Inr_conv Let_def)
      from replacement_for_Inr [OF r(1) assms(2) mem refl refl] r(2-) chain_inv_cong [OF r(2)] show ?thesis
        by (simp add: requeues_def same_but_attempts_def queued_only_def)
    qed
  qed
qed

lemma retire_decision_simps [simp]:
  "db_attempts (retire_decision org d db) = db_attempts db" "db_introductions (retire_decision org d db) = db_introductions db"
  "db_attempt_deps (retire_decision org d db) = db_attempt_deps db" "db_actives (retire_decision org d db) = db_actives db"
  "db_decision_deps (retire_decision org d db) = db_decision_deps db" "db_checkpoints (retire_decision org d db) = db_checkpoints db"
  "db_decisions (retire_decision org d db) = map (\<lambda>x. if qd_id x = qd_id d then retired x else x) (db_decisions db)"
  by (simp_all add: retire_decision_def retired_def)

lemma up_to_date_cong: "db_actives db' = db_actives db \<Longrightarrow> up_to_date db' p d = up_to_date db p d"
  by (simp add: up_to_date_def active_of_def)

lemma invalidate_rows_Inr:
  "invalidate_rows org uuid p rows db = Inr (gone, reps, db') \<Longrightarrow> chain_inv db \<Longrightarrow>
     requeues db db' \<and> set gone = {qd_id d |d q. (d, q) \<in> set rows \<and> \<not> up_to_date db p (dd_dep q)} \<and>
     db_decisions db' = map (\<lambda>x. if qd_id x \<in> set gone then retired x else x) (db_decisions db)"
proof (induction org uuid p rows db arbitrary: gone reps db' rule: invalidate_rows.induct)
  case (1 org uuid p db)
  then show ?case by (simp add: requeues_refl)
next
  case (2 org uuid p d q rows db)
  show ?case
  proof (cases "up_to_date db p (dd_dep q)")
    case True
    then show ?thesis using 2(1) [OF True, of gone reps db'] 2(3,4) by auto
  next
    case False
    let ?db1 = "retire_decision org d db"
    from False 2(3) obtain reps1 db2 gone' reps' where
      s: "(case active_of db (ds_org (dd_dep q)) p of None \<Rightarrow> Inr ([], ?db1)
            | Some active \<Rightarrow> requeue_decision org uuid p active d ?db1) = Inr (reps1, db2)"
        "invalidate_rows org (\<lambda>i. uuid (i + 2)) p rows db2 = Inr (gone', reps', db')" "gone = qd_id d # gone'"
      by (auto simp: bindE_Inr_conv Let_def)
    have chain1: "chain_inv ?db1" using 2(4) chain_inv_cong [of ?db1 db] by simp
    have db2: "requeues ?db1 db2 \<and> db_decisions db2 = db_decisions ?db1"
      using s(1) requeue_decision_Inr [OF _ chain1] requeues_refl [OF chain1] by (auto split: option.splits)
    have "requeues db ?db1" using chain1 by (simp add: requeues_def queued_only_def)
    with db2 have req: "requeues db db2" using requeues_trans by blast
    then have chain2: "chain_inv db2" by (simp add: requeues_def)
    have IH: "requeues db2 db' \<and> set gone' = {qd_id d |d q. (d, q) \<in> set rows \<and> \<not> up_to_date db2 p (dd_dep q)} \<and>
        db_decisions db' = map (\<lambda>x. if qd_id x \<in> set gone' then retired x else x) (db_decisions db2)"
      by (rule 2(2) [OF False refl s(1) refl s(2) chain2])
    have "up_to_date db2 p x = up_to_date db p x" for x
      using req by (intro up_to_date_cong) (simp add: requeues_def)
    then have "set gone = {qd_id d' |d' q'. (d', q') \<in> set ((d, q) # rows) \<and> \<not> up_to_date db p (dd_dep q')}"
      using IH s(3) False by auto
    moreover have "db_decisions db' = map (\<lambda>x. if qd_id x \<in> set gone then retired x else x) (db_decisions db)"
      using IH db2 s(3) by (auto simp: comp_def)
    ultimately show ?thesis using IH req requeues_trans by blast
  qed
qed

lemma invalidate_Inr:
  assumes "invalidate_decisions_for_active_bundle org uuid p db = Inr (r, db')" "chain_inv db"
  shows "requeues db db' \<and>
    set (bi_invalidated_decision_ids r) = {qd_id d |d q. (d, q) \<in> set (pinned_decisions org p db) \<and> \<not> up_to_date db p (dd_dep q)} \<and>
    db_decisions db' = map (\<lambda>x. if qd_id x \<in> set (bi_invalidated_decision_ids r) then retired x else x) (db_decisions db)"
  using assms invalidate_rows_Inr [OF _ assms(2)]
  by (fastforce simp: invalidate_decisions_for_active_bundle_def bindE_Inr_conv)

section \<open>Introductions\<close>

lemma introduce_Inr:
  assumes "introduce E org now uuid eid did dig shared db = Inr (i, db')"
  obtains (existing) "i \<in> set (db_introductions db)" "qi_engagement_id i = eid" "db' = db"
  | (new) h t en buyer seller where "content_hash E shared = Inr h" "now = Some t"
      "en \<in> set (db_engagements db)" "en_id en = eid" "en_decision_id en = did" "en_input_digest en = dig" "en_buyer_org en = org"
      "t < en_expires_at en" "\<forall>j \<in> set (db_introductions db). qi_engagement_id j \<noteq> eid"
      "\<exists>d \<in> set (db_decisions db). qd_org d = org \<and> qd_id d = did \<and> qd_input_digest d = dig \<and> qd_current d \<and> qd_approval_state d = ''APPROVED''"
      "check_consents db en dig t h = Inr (buyer, seller)"
      "qi_engagement_id i = eid" "qi_decision_id i = did" "qi_input_digest i = dig" "qi_shared_fields_hash i = h"
      "qi_buyer_org i = org" "qi_seller_org i = en_seller_org en"
      "db' = store_introduction org uuid en i (qi_receipt i) db"
proof -
  from assms obtain h en where h: "content_hash E shared = Inr h"
      "find (\<lambda>e. en_id e = eid \<and> en_decision_id e = did \<and> en_input_digest e = dig \<and> en_buyer_org e = org) (db_engagements db) = Some en"
    by (cases "content_hash E shared") (auto simp: introduce_def split: option.splits)
  note en = find_SomeD [OF h(2)]
  show thesis
  proof (cases "find (\<lambda>i. qi_engagement_id i = en_id en) (db_introductions db)")
    case (Some x)
    then have "i = x" "db' = db" using assms by (simp_all add: introduce_def h split: if_splits)
    then show thesis using existing find_SomeD [OF Some] en by simp
  next
    case None
    with assms obtain t where t: "now = Some t" by (cases now) (simp_all add: introduce_def h split: if_splits)
    with assms None obtain buyer seller where
      "check_consents db en dig t h = Inr (buyer, seller)" "t < en_expires_at en"
      "list_ex (\<lambda>d. qd_org d = org \<and> qd_id d = did \<and> qd_input_digest d = dig \<and> qd_current d \<and> qd_approval_state d = ''APPROVED'') (db_decisions db)"
      "qi_engagement_id i = eid" "qi_decision_id i = did" "qi_input_digest i = dig" "qi_shared_fields_hash i = h"
      "qi_buyer_org i = org" "qi_seller_org i = en_seller_org en" "db' = store_introduction org uuid en i (qi_receipt i) db"
      using en by (auto simp: introduce_def h bindE_Inr_conv Let_def split: if_splits)
    then show thesis using h(1) t en find_NoneD [OF None] by (intro new [of h t en buyer seller]) (auto simp: list_ex_iff)
  qed
qed

lemma store_introduction_simps [simp]:
  "db_attempts (store_introduction org u en i r db) = db_attempts db" "db_decisions (store_introduction org u en i r db) = db_decisions db"
  "db_introductions (store_introduction org u en i r db) = db_introductions db @ [i]"
  "db_attempt_deps (store_introduction org u en i r db) = db_attempt_deps db"
  "db_checkpoints (store_introduction org u en i r db) = db_checkpoints db"
  "db_engagements (store_introduction org u en i r db) =
     map (\<lambda>e. if en_id e = en_id en then e\<lparr>en_state := ''INTRODUCED''\<rparr> else e) (db_engagements db)"
  by (simp_all add: store_introduction_def)

lemma check_consents_Inr:
  assumes "check_consents db en dig now h = Inr (buyer, seller)"
  shows "buyer \<in> set (db_consents db) \<and> seller \<in> set (db_consents db) \<and> co_party buyer = ''BUYER'' \<and> co_party seller = ''SELLER'' \<and>
    co_actor_id buyer \<noteq> co_actor_id seller \<and>
    (\<forall>c \<in> {buyer, seller}. co_engagement_id c = en_id en \<and> co_input_digest c = dig \<and> co_state c = ''GRANTED'' \<and>
       now < co_expires_at c \<and> co_approved_fields_hash c = h)"
proof -
  let ?cs = "valid_consents db (en_id en) dig now"
  from assms have c: "party_consent ''BUYER'' ?cs = Some buyer" "party_consent ''SELLER'' ?cs = Some seller"
      "co_actor_id buyer \<noteq> co_actor_id seller" "co_approved_fields_hash buyer = h" "co_approved_fields_hash seller = h"
    by (auto simp: check_consents_def Let_def split: option.splits if_splits)
  then have "buyer \<in> set ?cs \<and> co_party buyer = ''BUYER''" "seller \<in> set ?cs \<and> co_party seller = ''SELLER''"
    using find_SomeD by (fastforce simp: party_consent_def)+
  then show ?thesis using c(3-5) by (auto simp: valid_consents_def)
qed

lemma prepare_attempt_Inr:
  assumes "prepare_attempt E org mission_id candidates db = Inr (i, db')"
  shows "(db_attempts db' = db_attempts db \<or> (\<exists>a. db_attempts db' = db_attempts db @ [a] \<and> qa_id a \<notin> qa_id ` set (db_attempts db) \<and>
      qa_predecessor a = None \<and> qa_depth a = 0)) \<and>
    db_checkpoints db' = db_checkpoints db \<and> db_decisions db' = db_decisions db \<and> db_introductions db' = db_introductions db"
proof -
  from assms obtain a db1 where a: "attempt_to_run E org mission_id db = Inr (a, db1)"
    and rest: "db_attempts db' = db_attempts db1" "db_checkpoints db' = db_checkpoints db1" "db_decisions db' = db_decisions db1"
      "db_introductions db' = db_introductions db1"
    by (auto simp: prepare_attempt_def bindE_Inr_conv Let_def split: option.splits)
  from a have "db1 = db \<or> qa_id a \<notin> qa_id ` set (db_attempts db) \<and> db1 = db\<lparr>db_attempts := db_attempts db @ [a]\<rparr> \<and>
      qa_predecessor a = None \<and> qa_depth a = 0"
    by (auto simp: attempt_to_run_def insert_attempt_def bindE_Inr_conv Let_def split: list.splits if_splits)
  with rest show ?thesis by auto
qed

lemma chain_inv_new:
  assumes "chain_inv db" "db_attempts db' = db_attempts db @ [a]" "qa_id a \<notin> qa_id ` set (db_attempts db)"
    "qa_predecessor a = None" "qa_depth a = 0"
  shows "chain_inv db'"
  using assms unfolding chain_inv_def by (auto simp: assms(2))

section \<open>The kernel as an evolving system\<close>

definition decision_inv :: "qdb \<Rightarrow> bool" where
  "decision_inv db \<longleftrightarrow> distinct (map qd_attempt_id (db_decisions db)) \<and>
     (\<forall>d \<in> set (db_decisions db). \<exists>a \<in> set (db_attempts db). qa_id a = qd_attempt_id d \<and> qa_state a = COMPLETED)"

definition kernel_inv :: "qdb \<Rightarrow> bool" where
  "kernel_inv db \<longleftrightarrow> chain_inv db \<and> decision_inv db \<and> distinct (map qi_engagement_id (db_introductions db))"

lemma rows_evolve_terminal: "rows_evolve as bs \<Longrightarrow> a \<in> set as \<Longrightarrow> \<not> live (qa_state a) \<Longrightarrow> a \<in> set bs"
  by (force simp: rows_evolve_def row_evolves_def)

lemma decision_inv_frame:
  assumes "decision_inv db" "map qd_attempt_id (db_decisions db') = map qd_attempt_id (db_decisions db)"
    "rows_evolve (db_attempts db) (db_attempts db')"
  shows "decision_inv db'"
  unfolding decision_inv_def
proof (intro conjI ballI)
  show "distinct (map qd_attempt_id (db_decisions db'))" using assms(1,2) by (simp add: decision_inv_def)
  fix d assume "d \<in> set (db_decisions db')"
  then have "qd_attempt_id d \<in> qd_attempt_id ` set (db_decisions db)" using assms(2) by (metis image_eqI set_map)
  then obtain a where "a \<in> set (db_attempts db)" "qa_id a = qd_attempt_id d" "qa_state a = COMPLETED"
    using assms(1) by (auto simp: decision_inv_def)
  then show "\<exists>a \<in> set (db_attempts db'). qa_id a = qd_attempt_id d \<and> qa_state a = COMPLETED"
    using rows_evolve_terminal [OF assms(3)] by (auto simp: live_def)
qed

lemma chain_inv_set_attempt:
  assumes "chain_inv db" "a \<in> set (db_attempts db)" "row_evolves a b" "db_attempts db' = db_attempts (set_attempt b db)"
  shows "chain_inv db' \<and> rows_evolve (db_attempts db) (db_attempts db')"
proof -
  have ids: "ids_distinct db" using assms(1) by (simp add: chain_inv_def)
  have "chain_inv (set_attempt b db)"
  proof (rule chain_inv_map [OF assms(1), where f = "\<lambda>c. if qa_id c = qa_id b then b else c"])
    show "db_attempts (set_attempt b db) = map (\<lambda>c. if qa_id c = qa_id b then b else c) (db_attempts db)"
      by (simp add: set_attempt_def)
    show "row_evolves c (if qa_id c = qa_id b then b else c)" if "c \<in> set (db_attempts db)" for c
      using same_id_same_row [OF ids that assms(2)] assms(3) by (auto simp: row_evolves_def)
  qed
  then show ?thesis
    using set_attempt_evolves(1) [OF ids assms(2,3)] chain_inv_cong [OF assms(4)] assms(4) by simp
qed

lemma finalize_step:
  assumes "finalize_attempt E org now uuid l product payload cited db = Inr (f, db')" "kernel_inv db"
  shows "kernel_inv db' \<and> rows_evolve (db_attempts db) (db_attempts db')"
  using assms(1)
proof (cases rule: finalize_attempt_Inr)
  case (stale a changed)
  have chain: "chain_inv db" using assms(2) by (simp add: kernel_inv_def)
  note st = finalize_stale_Inr [OF stale(7,1) chain stale(4)]
  have "decision_inv db" using assms(2) by (simp add: kernel_inv_def)
  then have "decision_inv db'" using st by (intro decision_inv_frame [of db db']) auto
  then show ?thesis using st assms(2) by (simp add: kernel_inv_def)
next
  case (completed a dg digest)
  have chain: "chain_inv db" using assms(2) by (simp add: kernel_inv_def)
  have ev: "row_evolves a (a\<lparr>qa_state := COMPLETED\<rparr>)" using completed(4) by (simp add: row_evolves_def live_def)
  note c = chain_inv_set_attempt [OF chain completed(1) ev completed(11)]
  have fresh: "qd_attempt_id d \<noteq> qa_id a" if d: "d \<in> set (db_decisions db)" for d
  proof
    assume "qd_attempt_id d = qa_id a"
    moreover obtain b where b: "b \<in> set (db_attempts db)" "qa_id b = qd_attempt_id d" "qa_state b = COMPLETED"
      using d assms(2) by (auto simp: kernel_inv_def decision_inv_def)
    ultimately have "b = a" using same_id_same_row [of db b a] chain completed(1) by (simp add: chain_inv_def)
    then show False using b(3) completed(4) by simp
  qed
  have "decision_inv db'"
    unfolding decision_inv_def
  proof (intro conjI ballI)
    show "distinct (map qd_attempt_id (db_decisions db'))"
      using assms(2) fresh [THEN not_sym] by (auto simp: completed(12) kernel_inv_def decision_inv_def)
    fix d assume "d \<in> set (db_decisions db')"
    then consider "d \<in> set (db_decisions db)" | "qd_attempt_id d = qa_id a" by (auto simp: completed(12))
    then show "\<exists>b \<in> set (db_attempts db'). qa_id b = qd_attempt_id d \<and> qa_state b = COMPLETED"
    proof cases
      case 1
      then obtain b where "b \<in> set (db_attempts db)" "qa_id b = qd_attempt_id d" "qa_state b = COMPLETED"
        using assms(2) by (auto simp: kernel_inv_def decision_inv_def)
      then show ?thesis using rows_evolve_terminal [of _ _ b] c by (auto simp: live_def)
    next
      case 2
      have "a\<lparr>qa_state := COMPLETED\<rparr> \<in> set (db_attempts db')"
        using completed(1) by (auto simp: completed(11) set_attempt_def)
      then show ?thesis using 2 by (intro bexI [of _ "a\<lparr>qa_state := COMPLETED\<rparr>"]) simp_all
    qed
  qed
  then show ?thesis using c completed(14) assms(2) by (simp add: kernel_inv_def)
qed

lemma frame_step:
  assumes "kernel_inv db" "chain_inv db'" "rows_evolve (db_attempts db) (db_attempts db')"
    "map qd_attempt_id (db_decisions db') = map qd_attempt_id (db_decisions db)" "db_introductions db' = db_introductions db"
  shows "kernel_inv db' \<and> rows_evolve (db_attempts db) (db_attempts db')"
  using assms decision_inv_frame [of db db'] by (simp add: kernel_inv_def)

lemma kernel_step:
  assumes "qstep E db db'" "kernel_inv db"
  shows "kernel_inv db' \<and> rows_evolve (db_attempts db) (db_attempts db')"
  using assms(1)
proof cases
  case activate
  from activate_bundle_Inr [OF this] chain_inv_cong [of db' db] assms(2) show ?thesis
    by (intro frame_step [OF assms(2)]) (simp_all add: kernel_inv_def)
next
  case (invalidate org uuids p r)
  from invalidate_Inr [OF this] assms(2) show ?thesis
    by (intro frame_step [OF assms(2)]) (simp_all add: kernel_inv_def requeues_def comp_def)
next
  case (claim org now i owner secs l)
  then obtain f where f: "db' = db\<lparr>db_attempts := map f (db_attempts db)\<rparr>" "\<forall>b \<in> set (db_attempts db). row_evolves b (f b)"
    using claim_attempt_Inr [OF claim] assms(2) by (auto simp: kernel_inv_def chain_inv_def)
  then have "chain_inv db'" using assms(2) chain_inv_map [of db db' f] by (simp add: kernel_inv_def)
  then show ?thesis using f by (intro frame_step [OF assms(2)]) (auto intro: rows_evolve_map)
next
  case (snapshot org now uuids l ds)
  from snapshot_attempt_Inr [OF this] obtain a where a: "a \<in> set (db_attempts db)" "qa_state a \<in> {RUNNING, SNAPSHOT_COMPLETE}"
      "db_decisions db' = db_decisions db" "db_introductions db' = db_introductions db"
      "db' = db \<or> (\<exists>dg. db_attempts db' = db_attempts (set_attempt (a\<lparr>qa_input_digest := Some dg, qa_state := SNAPSHOT_COMPLETE\<rparr>) db))"
    by blast
  from a(5) show ?thesis
  proof
    assume "db' = db"
    then show ?thesis using assms(2) by simp
  next
    assume "\<exists>dg. db_attempts db' = db_attempts (set_attempt (a\<lparr>qa_input_digest := Some dg, qa_state := SNAPSHOT_COMPLETE\<rparr>) db)"
    then obtain dg where dg: "db_attempts db' = db_attempts (set_attempt (a\<lparr>qa_input_digest := Some dg, qa_state := SNAPSHOT_COMPLETE\<rparr>) db)" ..
    have "row_evolves a (a\<lparr>qa_input_digest := Some dg, qa_state := SNAPSHOT_COMPLETE\<rparr>)"
      using a(2) by (auto simp: row_evolves_def live_def)
    from chain_inv_set_attempt [OF _ a(1) this dg] assms(2) a(3,4) show ?thesis
      by (intro frame_step [OF assms(2)]) (simp_all add: kernel_inv_def)
  qed
next
  case checkpoint
  from checkpoint_attempt_Inr [OF this] chain_inv_cong [of db' db] assms(2) show ?thesis by (intro frame_step [OF assms(2)]) (simp_all add: kernel_inv_def)
next
  case finalize
  then show ?thesis using finalize_step assms(2) by blast
next
  case introduction
  then show ?thesis
  proof (cases rule: introduce_Inr)
    case new
    then show ?thesis
      using assms(2) chain_inv_cong [of db' db] by (auto simp: kernel_inv_def decision_inv_def)
  qed (use assms(2) in simp)
next
  case receipt
  from receipt_Inr [OF this] chain_inv_cong [of db' db] assms(2) show ?thesis by (intro frame_step [OF assms(2)]) (simp_all add: kernel_inv_def)
next
  case prepare
  note P = prepare_attempt_Inr [OF this]
  have "chain_inv db'" using P chain_inv_new [of db db'] chain_inv_cong [of db' db] assms(2) by (auto simp: kernel_inv_def)
  then show ?thesis using P rows_evolve_append by (intro frame_step [OF assms(2)]) auto
next
  case outside
  have blank: "map qd_attempt_id ds = map qd_attempt_id (map (\<lambda>d. d\<lparr>qd_approval_state := []\<rparr>) ds)" for ds by simp
  have "map qd_attempt_id (db_decisions db') = map qd_attempt_id (db_decisions db)"
    unfolding blank [of "db_decisions db'"] blank [of "db_decisions db"] using outside by (simp only: outside_write_def)
  then show ?thesis using outside chain_inv_cong [of db' db] assms(2)
    by (intro frame_step [OF assms(2)]) (simp_all add: kernel_inv_def outside_write_def)
qed

interpretation kernel: evolving_system "qstep E" kernel_inv attempts_evolve for E
proof
  show "qstep E s t \<Longrightarrow> kernel_inv s \<Longrightarrow> kernel_inv t" for s t using kernel_step by blast
  show "qstep E s t \<Longrightarrow> kernel_inv s \<Longrightarrow> attempts_evolve s t" for s t using kernel_step by (simp add: attempts_evolve_def)
  show "attempts_evolve s s" for s by (simp add: attempts_evolve_def)
  show "attempts_evolve s t \<Longrightarrow> attempts_evolve t u \<Longrightarrow> attempts_evolve s u" for s t u
    unfolding attempts_evolve_def by (rule rows_evolve_trans)
qed

section \<open>Leases\<close>

text \<open>The generation of an attempt is at least \<open>g\<close>.\<close>

definition generation_from :: "string \<Rightarrow> int \<Rightarrow> qdb \<Rightarrow> bool" where
  "generation_from i g db \<longleftrightarrow> i \<in> qa_id ` set (db_attempts db) \<and> (\<forall>a \<in> set (db_attempts db). qa_id a = i \<longrightarrow> g \<le> qa_generation a)"

lemma generation_from_evolve:
  assumes "generation_from i g db" "attempts_evolve db db'" "ids_distinct db'"
  shows "generation_from i g db'"
proof -
  from assms(1) obtain a where a: "a \<in> set (db_attempts db)" "qa_id a = i" "g \<le> qa_generation a"
    by (auto simp: generation_from_def)
  from assms(2) obtain f extra where f: "db_attempts db' = map f (db_attempts db) @ extra" "row_evolves a (f a)"
    using a(1) by (auto simp: attempts_evolve_def rows_evolve_def)
  then have fa: "f a \<in> set (db_attempts db')" "qa_id (f a) = i" "g \<le> qa_generation (f a)"
    using a by (auto simp: row_evolves_def)
  moreover have "b = f a" if "b \<in> set (db_attempts db')" "qa_id b = i" for b
    using same_id_same_row [OF assms(3) that(1) fa(1)] that(2) fa(2) by simp
  ultimately have "\<forall>b \<in> set (db_attempts db'). qa_id b = i \<longrightarrow> g \<le> qa_generation b" by blast
  moreover have "i \<in> qa_id ` set (db_attempts db')" using fa(1,2) by blast
  ultimately show ?thesis by (simp add: generation_from_def)
qed

lemma claim_generation:
  assumes "claim_attempt org now i owner secs db = Inr (l, db')" "kernel_inv db"
  shows "generation_from i (le_generation l) db' \<and> le_attempt_id l = i \<and> (\<forall>g. generation_from i g db \<longrightarrow> g < le_generation l)"
proof -
  have ids: "ids_distinct db" using assms(2) by (simp add: kernel_inv_def chain_inv_def)
  from claim_attempt_Inr [OF assms(1) ids] obtain f a where
    f: "db' = db\<lparr>db_attempts := map f (db_attempts db)\<rparr>" "\<forall>b \<in> set (db_attempts db). row_evolves b (f b)"
      "a \<in> set (db_attempts db)" "qa_id a = i" "le_attempt_id l = i" "le_generation l = qa_generation a + 1"
      "qa_generation (f a) = qa_generation a + 1" by blast
  have "b = a" if "b \<in> set (db_attempts db)" "qa_id (f b) = i" for b
    using that f(2,4) same_id_same_row [OF ids that(1) f(3)] by (auto simp: row_evolves_def)
  moreover have "qa_id (f a) = i" using f(2-4) by (auto simp: row_evolves_def)
  moreover have rows: "db_attempts db' = map f (db_attempts db)" by (simp add: f(1))
  ultimately have "\<forall>b \<in> set (db_attempts db'). qa_id b = i \<longrightarrow> le_generation l \<le> qa_generation b"
    using f(6,7) by (metis image_iff order_refl set_map)
  moreover have "f a \<in> set (db_attempts db')" using f(3) rows by simp
  moreover have "\<forall>g. generation_from i g db \<longrightarrow> g < le_generation l"
    using f(3,4,6) by (auto simp: generation_from_def)
  ultimately show ?thesis using \<open>qa_id (f a) = i\<close> f(5) unfolding generation_from_def by blast
qed

lemma fence_lost:
  assumes "generation_from (le_attempt_id l) g db" "le_generation l < g"
  shows "fenced_attempt org now l states db = Inl (PersistenceConflict ''attempt lease or generation fence was lost'')"
proof (cases "fenced_attempt org now l states db")
  case (Inl e)
  then show ?thesis using fenced_attempt_Inl by blast
next
  case (Inr a)
  then show ?thesis using fenced_attempt_Inr [OF Inr] assms by (auto simp: generation_from_def)
qed

section \<open>Checkpoints pin a generation\<close>

text \<open>Every attempt keeps a row with its generation, and no checkpoint disappears: what every operation
  but a claim guarantees.\<close>

definition keeps_generations :: "qdb \<Rightarrow> qdb \<Rightarrow> bool" where
  "keeps_generations db db' \<longleftrightarrow> set (db_checkpoints db) \<subseteq> set (db_checkpoints db') \<and>
     (\<forall>a \<in> set (db_attempts db). \<exists>b \<in> set (db_attempts db').
        qa_id b = qa_id a \<and> qa_org b = qa_org a \<and> qa_generation b = qa_generation a)"

lemma keeps_generations_same:
  "db_attempts db' = db_attempts db \<Longrightarrow> set (db_checkpoints db) \<subseteq> set (db_checkpoints db') \<Longrightarrow> keeps_generations db db'"
  by (auto simp: keeps_generations_def)

lemma keeps_generations_set:
  assumes "ids_distinct db" "a \<in> set (db_attempts db)" "qa_id b = qa_id a" "qa_org b = qa_org a" "qa_generation b = qa_generation a"
    "set (db_attempts (set_attempt b db)) \<subseteq> set (db_attempts db')" "set (db_checkpoints db) \<subseteq> set (db_checkpoints db')"
  shows "keeps_generations db db'"
  unfolding keeps_generations_def
proof (intro conjI ballI)
  fix c assume c: "c \<in> set (db_attempts db)"
  show "\<exists>d \<in> set (db_attempts db'). qa_id d = qa_id c \<and> qa_org d = qa_org c \<and> qa_generation d = qa_generation c"
  proof (cases "c = a")
    case True
    have "b \<in> set (db_attempts (set_attempt b db))" using assms(2,3) by (auto simp: set_attempt_def)
    then show ?thesis using True assms(3-6) by blast
  next
    case False
    then have "qa_id c \<noteq> qa_id b" using same_id_same_row [OF assms(1) c assms(2)] assms(3) by auto
    then have "c \<in> set (db_attempts (set_attempt b db))" using c by (auto simp: set_attempt_def)
    then show ?thesis using assms(6) by blast
  qed
qed (rule assms(7))

lemma replacement_for_keeps:
  "replacement_for org u a db = Inr (r, db') \<Longrightarrow>
     set (db_attempts db) \<subseteq> set (db_attempts db') \<and> db_checkpoints db' = db_checkpoints db"
  by (auto simp: replacement_for_def insert_attempt_def bindE_Inr_conv Let_def split: option.splits if_splits)

lemma requeues_keeps:
  assumes "requeues db db'"  "ids_distinct db"
  shows "keeps_generations db db'"
  unfolding keeps_generations_def
proof (intro conjI ballI)
  show "set (db_checkpoints db) \<subseteq> set (db_checkpoints db')" using assms(1) by (simp add: requeues_def)
  fix a assume a: "a \<in> set (db_attempts db)"
  from assms(1) a obtain f x where f: "db_attempts db' = map f (db_attempts db) @ x" "row_evolves a (f a)"
    by (auto simp: requeues_def rows_evolve_def)
  then have mem: "f a \<in> set (db_attempts db')" "qa_id (f a) = qa_id a" using a by (auto simp: row_evolves_def)
  with assms(1) a have "f a \<in> set (db_attempts db)" unfolding requeues_def queued_only_def by (metis image_eqI)
  then have "f a = a" using same_id_same_row [OF assms(2) _ a] mem(2) by blast
  then show "\<exists>b \<in> set (db_attempts db'). qa_id b = qa_id a \<and> qa_org b = qa_org a \<and> qa_generation b = qa_generation a"
    using mem(1) by auto
qed

lemma snapshot_keeps:
  assumes "snapshot_attempt E org now uuid l db = Inr (ds, db')" "ids_distinct db"
  shows "keeps_generations db db'"
    "deps_of_attempt db org (le_attempt_id l) = [] \<Longrightarrow> \<exists>a \<in> set (db_attempts db). qa_org a = org \<and> qa_id a = le_attempt_id l \<and>
       (\<exists>c \<in> set (db_checkpoints db'). ck_org c = org \<and> ck_attempt_id c = qa_id a \<and> ck_generation c = qa_generation a)"
proof -
  from snapshot_attempt_Inr [OF assms(1)] obtain a where a: "a \<in> set (db_attempts db)" "qa_org a = org" "qa_id a = le_attempt_id l"
    and cases: "deps_of_attempt db org (qa_id a) \<noteq> [] \<and> db' = db \<or>
     deps_of_attempt db org (qa_id a) = [] \<and>
       (\<exists>dg. db_attempts db' = db_attempts (set_attempt (a\<lparr>qa_input_digest := Some dg, qa_state := SNAPSHOT_COMPLETE\<rparr>) db)) \<and>
       db_attempt_deps db' = db_attempt_deps db @ attempt_rows org uuid (qa_id a) ds \<and>
       (\<exists>c. db_checkpoints db' = db_checkpoints db @ [c] \<and> ck_org c = org \<and> ck_attempt_id c = qa_id a \<and>
          ck_generation c = qa_generation a)" by blast
  from cases have "keeps_generations db db' \<and> (deps_of_attempt db org (qa_id a) = [] \<longrightarrow>
      (\<exists>c \<in> set (db_checkpoints db'). ck_org c = org \<and> ck_attempt_id c = qa_id a \<and> ck_generation c = qa_generation a))"
  proof (elim disjE conjE exE)
    assume "deps_of_attempt db org (qa_id a) \<noteq> []" "db' = db"
    then show ?thesis by (simp add: keeps_generations_same)
  next
    fix dg c
    assume fresh: "db_attempts db' = db_attempts (set_attempt (a\<lparr>qa_input_digest := Some dg, qa_state := SNAPSHOT_COMPLETE\<rparr>) db)"
      "db_checkpoints db' = db_checkpoints db @ [c]" "ck_org c = org" "ck_attempt_id c = qa_id a" "ck_generation c = qa_generation a"
    have "keeps_generations db db'"
      by (rule keeps_generations_set [OF assms(2) a(1), of "a\<lparr>qa_input_digest := Some dg, qa_state := SNAPSHOT_COMPLETE\<rparr>"])
        (simp_all add: fresh(1,2) subset_insertI)
    then show ?thesis using fresh(2-5) by auto
  qed
  then show "keeps_generations db db'"
    "deps_of_attempt db org (le_attempt_id l) = [] \<Longrightarrow> \<exists>a \<in> set (db_attempts db). qa_org a = org \<and> qa_id a = le_attempt_id l \<and>
       (\<exists>c \<in> set (db_checkpoints db'). ck_org c = org \<and> ck_attempt_id c = qa_id a \<and> ck_generation c = qa_generation a)"
    using a by metis+
qed

lemma finalize_keeps:
  assumes "finalize_attempt E org now uuid l product payload cited db = Inr (f, db')" "ids_distinct db"
  shows "keeps_generations db db'"
  using assms(1)
proof (cases rule: finalize_attempt_Inr)
  case (stale a changed)
  let ?s = "a\<lparr>qa_state := STALE, qa_stale_reason := Some (str_join '','' changed)\<rparr>"
  from stale(7) obtain r db1 where r: "replacement_for org (uuid 0) ?s (set_attempt ?s db) = Inr (r, db1)"
      "db_attempts db' = db_attempts db1" "db_checkpoints db' = db_checkpoints db1"
    by (auto simp: finalize_stale_def bindE_Inr_conv Let_def)
  show ?thesis
    by (rule keeps_generations_set [OF assms(2) stale(1), of ?s]) (use replacement_for_keeps [OF r(1)] r(2,3) in simp_all)
next
  case (completed a dg digest)
  show ?thesis
    by (rule keeps_generations_set [OF assms(2) completed(1), of "a\<lparr>qa_state := COMPLETED\<rparr>"]) (simp_all add: completed(11,17))
qed

definition pinned :: "string \<Rightarrow> string \<Rightarrow> qdb \<Rightarrow> bool" where
  "pinned org i db \<longleftrightarrow> (\<exists>a \<in> set (db_attempts db). qa_id a = i \<and> qa_org a = org \<and> checkpoint_refers db a)"

lemma pinned_keeps: "pinned org i db \<Longrightarrow> keeps_generations db db' \<Longrightarrow> pinned org i db'"
  unfolding pinned_def keeps_generations_def checkpoint_refers_def list_ex_iff by (metis subsetD)

text \<open>A claim never concerns an attempt whose generation is pinned.\<close>

lemma pinned_claim:
  assumes "pinned org i db" "ids_distinct db" "claim_attempt org' now j owner secs db = Inr (l, db')"
  shows "\<not> (org' = org \<and> j = i) \<and> pinned org i db'"
proof -
  from assms(3) obtain t b where t: "find (claimable org' t j owner) (db_attempts db) = Some b" "\<not> checkpoint_refers db b"
      "db' = db\<lparr>db_attempts := map (\<lambda>b. if claimable org' t j owner b
         then b\<lparr>qa_state := RUNNING, qa_lease_owner := Some owner, qa_lease_expires_at := Some (t + secs * 1000000),
           qa_generation := qa_generation b + 1\<rparr> else b) (db_attempts db)\<rparr>"
    by (auto simp: claim_attempt_def Let_def split: if_splits option.splits)
  have b: "b \<in> set (db_attempts db)" "qa_id b = j" "qa_org b = org'"
    using find_SomeD [OF t(1)] by (simp_all add: claimable_def)
  from assms(1) obtain a where a: "a \<in> set (db_attempts db)" "qa_id a = i" "qa_org a = org" "checkpoint_refers db a"
    by (auto simp: pinned_def)
  have "a \<noteq> b" using a(4) t(2) by blast
  then have other: "i \<noteq> j" using same_id_same_row [OF assms(2) a(1) b(1)] a(2) b(2) by auto
  then have "\<not> claimable org' t j owner a" using a(2) by (simp add: claimable_def)
  then have "a \<in> set (db_attempts db')" using a(1) t(3) by (auto simp: image_iff intro!: bexI [of _ a])
  moreover have "checkpoint_refers db' a" using a(4) by (simp add: t(3) checkpoint_refers_def)
  ultimately show ?thesis using other a(2,3) unfolding pinned_def by blast
qed

lemma pinned_step:
  assumes "kernel_inv db" "pinned org i db" "qstep E db db'"
  shows "pinned org i db'"
proof -
  have chain: "chain_inv db" using assms(1) by (simp add: kernel_inv_def)
  then have ids: "ids_distinct db" by (simp add: chain_inv_def)
  from assms(3) show ?thesis
  proof cases
    case activate
    then have "db_attempts db' = db_attempts db \<and> db_checkpoints db' = db_checkpoints db"
      by (auto simp: activate_bundle_def bindE_Inr_conv Let_def point_active_def split: option.splits if_splits)
    then show ?thesis using pinned_keeps [OF assms(2)] keeps_generations_same by simp
  next
    case invalidate
    then show ?thesis using pinned_keeps [OF assms(2)] requeues_keeps [OF _ ids] invalidate_Inr [OF _ chain] by blast
  next
    case claim
    then show ?thesis using pinned_claim [OF assms(2) ids] by blast
  next
    case snapshot
    then show ?thesis using pinned_keeps [OF assms(2)] snapshot_keeps(1) [OF _ ids] by blast
  next
    case (checkpoint org' now uuid l sq kind payload c)
    then have "db_attempts db' = db_attempts db \<and> set (db_checkpoints db) \<subseteq> set (db_checkpoints db')"
      by (auto simp: checkpoint_attempt_def bindE_Inr_conv Let_def dest!: insert_checkpoint_Inr)
    then show ?thesis using pinned_keeps [OF assms(2)] keeps_generations_same by blast
  next
    case finalize
    then show ?thesis using pinned_keeps [OF assms(2)] finalize_keeps [OF _ ids] by blast
  next
    case introduction
    then have "db_attempts db' = db_attempts db \<and> db_checkpoints db' = db_checkpoints db"
      by (cases rule: introduce_Inr) simp_all
    then show ?thesis using pinned_keeps [OF assms(2)] keeps_generations_same by simp
  next
    case receipt
    then have "db_attempts db' = db_attempts db \<and> db_checkpoints db' = db_checkpoints db"
      by (auto simp: record_consumer_receipt_def Let_def split: option.splits if_splits)
    then show ?thesis using pinned_keeps [OF assms(2)] keeps_generations_same by simp
  next
    case prepare
    from prepare_attempt_Inr [OF this] have "keeps_generations db db'" by (auto simp: keeps_generations_def)
    then show ?thesis by (rule pinned_keeps [OF assms(2)])
  next
    case outside
    then show ?thesis using pinned_keeps [OF assms(2)] keeps_generations_same by (simp add: outside_write_def)
  qed
qed

end
