(* ===== verification/QualificationClaims.thy ===== *)
theory QualificationClaims
  imports QualificationFacts DemoEnv
begin

text \<open>
  The properties of the qualification kernel over arbitrary sequences of its transactions: leases and
  their fences, decisions, replacement chains, invalidation and introductions.
\<close>

section \<open>Concrete inputs of the witnesses\<close>

definition demo_digest :: string where
  "demo_digest = ''sha256:'' @ digits_of 64 ''x''"

definition demo_attempt :: QualificationAttempt where
  "demo_attempt = \<lparr>qa_id = ''a'', qa_org = ''b'', qa_mission_id = ''m'', qa_root_attempt_id = ''a'', qa_predecessor = None,
     qa_depth = 0, qa_state = QUEUED, qa_generation = 0, qa_lease_owner = None, qa_lease_expires_at = None,
     qa_input_digest = None, qa_stale_reason = None\<rparr>"

definition demo_db :: qdb where
  "demo_db = \<lparr>db_bundles = [\<lparr>bu_id = ''v1'', bu_org = ''s'', bu_product_id = ''p'', bu_digest = demo_digest, bu_state = ''ACTIVE'',
       bu_activated_at = Some 0\<rparr>],
     db_members = [\<lparr>bm_org = ''s'', bm_bundle_id = ''v1'', bm_ordinal = 1, bm_kind = ''CLAIM'', bm_member_id = ''c1'', bm_hash = ''h''\<rparr>],
     db_actives = [\<lparr>ap_org = ''s'', ap_product_id = ''p'', ap_bundle_id = ''v1'', ap_bundle_digest = demo_digest, ap_generation = 1\<rparr>],
     db_missions = [\<lparr>qm_id = ''m'', qm_org = ''b'', qm_buyer_context_version_id = ''cv'', qm_buyer_context_hash = ''ch'',
       qm_requirement_brief_version_id = ''rv'', qm_requirement_brief_hash = ''rh'', qm_procurement_policy_version = ''pv'',
       qm_procurement_policy_hash = ''ph'', qm_trace_id = ''t'', qm_state = ''READY''\<rparr>],
     db_mission_bundles = [\<lparr>mb_org = ''b'', mb_attempt_id = ''a'', mb_product_id = ''p'', mb_seller_org = ''s'',
       mb_bundle_id = ''v1'', mb_bundle_digest = demo_digest\<rparr>],
     db_attempts = [demo_attempt], db_attempt_deps = [], db_checkpoints = [], db_decisions = [], db_decision_deps = [],
     db_engagements = [], db_consents = [], db_introductions = [], db_effects = [], db_receipts = [], db_outbox = []\<rparr>"

definition demo_uuid :: "nat \<Rightarrow> string" where
  "demo_uuid n = show_int (int n)"

definition demo_claim1 :: "AttemptLease \<times> qdb" where
  "demo_claim1 = projr (claim_attempt ''b'' (Some 0) ''a'' ''w1'' 60 demo_db)"

definition demo_claim2 :: "AttemptLease \<times> qdb" where
  "demo_claim2 = projr (claim_attempt ''b'' (Some 60000000) ''a'' ''w2'' 60 (snd demo_claim1))"

definition demo_snapshot :: "DependencySnapshot list \<times> qdb" where
  "demo_snapshot = projr (snapshot_attempt demo_env ''b'' 1 demo_uuid (fst demo_claim1) (snd demo_claim1))"

definition demo_final :: "FinalizationResult \<times> qdb" where
  "demo_final = projr (finalize_attempt demo_env ''b'' 1 demo_uuid (fst demo_claim1) ''p'' PyNone [''c1''] (snd demo_snapshot))"

text \<open>The tables after another bundle of the product became the active one.\<close>

definition demo_moved :: qdb where
  "demo_moved = (snd demo_final)\<lparr>db_actives :=
     [\<lparr>ap_org = ''s'', ap_product_id = ''p'', ap_bundle_id = ''v2'', ap_bundle_digest = demo_digest, ap_generation = 2\<rparr>]\<rparr>"

definition demo_invalidation :: "BundleInvalidationResult \<times> qdb" where
  "demo_invalidation = projr (invalidate_decisions_for_active_bundle ''b'' demo_uuid ''p'' demo_moved)"

text \<open>An approved decision with an engagement and the consent of both parties.\<close>

definition demo_consent :: "string \<Rightarrow> string \<Rightarrow> MarketplaceConsent" where
  "demo_consent party actor = \<lparr>co_id = party, co_engagement_id = ''e'', co_party = party, co_actor_id = actor,
     co_input_digest = ''i'', co_approved_fields_hash = ''sha256:'' @ digits_of 64 ''mail'', co_state = ''GRANTED'', co_expires_at = 100\<rparr>"

definition demo_engaged :: qdb where
  "demo_engaged = demo_db\<lparr>
     db_decisions := [\<lparr>qd_id = ''d'', qd_org = ''b'', qd_mission_id = ''m'', qd_attempt_id = ''a'', qd_input_digest = ''i'',
       qd_decision_digest = ''dd'', qd_recommended_product_id = ''p'', qd_payload = PyNone, qd_approval_state = ''APPROVED'',
       qd_current = True\<rparr>],
     db_engagements := [\<lparr>en_id = ''e'', en_decision_id = ''d'', en_buyer_org = ''b'', en_seller_org = ''s'',
       en_input_digest = ''i'', en_state = ''OPEN'', en_expires_at = 100\<rparr>],
     db_consents := [demo_consent ''BUYER'' ''u1'', demo_consent ''SELLER'' ''u2'']\<rparr>"

definition demo_introduction :: "QualifiedIntroduction \<times> qdb" where
  "demo_introduction = projr (introduce demo_env ''b'' (Some 1) demo_uuid ''e'' ''d'' ''i'' (PyStr ''mail'') demo_engaged)"

lemma demo_claim1: "claim_attempt ''b'' (Some 0) ''a'' ''w1'' 60 demo_db = Inr (fst demo_claim1, snd demo_claim1)"
  by code_simp

lemma demo_claim2: "claim_attempt ''b'' (Some 60000000) ''a'' ''w2'' 60 (snd demo_claim1) = Inr (fst demo_claim2, snd demo_claim2)"
  by code_simp

lemma demo_snapshot:
  "snapshot_attempt demo_env ''b'' 1 demo_uuid (fst demo_claim1) (snd demo_claim1) = Inr (fst demo_snapshot, snd demo_snapshot)"
  by code_simp

lemma demo_final:
  "finalize_attempt demo_env ''b'' 1 demo_uuid (fst demo_claim1) ''p'' PyNone [''c1''] (snd demo_snapshot) =
     Inr (fst demo_final, snd demo_final)"
  by code_simp

lemma demo_invalidation:
  "invalidate_decisions_for_active_bundle ''b'' demo_uuid ''p'' demo_moved = Inr (fst demo_invalidation, snd demo_invalidation)"
  by code_simp

lemma demo_introduction:
  "introduce demo_env ''b'' (Some 1) demo_uuid ''e'' ''d'' ''i'' (PyStr ''mail'') demo_engaged =
     Inr (fst demo_introduction, snd demo_introduction)"
  by code_simp

lemma demo_db_kernel: "kernel_inv demo_db"
  by (simp add: kernel_inv_def chain_inv_def decision_inv_def demo_db_def demo_attempt_def)

lemmas demo_steps = qstep.claim [OF demo_claim1] qstep.snapshot [OF demo_snapshot] qstep.finalize [OF demo_final]

lemma demo_run: "(qstep demo_env)\<^sup>*\<^sup>* demo_db (snd demo_final)"
  using demo_steps by (meson rtranclp.intros(1) rtranclp.intros(2))

section \<open>Leases\<close>

text \<open>C26 A worker whose lease on an attempt was taken over can do nothing with it any more: once a second lease
  on the same attempt was granted, after and before any transactions of any tenants, its generation is larger
  and every operation under the first lease is refused at the fence.\<close>

theorem superseded_lease_fenced:
  assumes "kernel_inv db" "claim_attempt org now i owner secs db = Inr (l, db1)" "(qstep E)\<^sup>*\<^sup>* db1 db2"
    "claim_attempt org' now' i owner' secs' db2 = Inr (l', db3)" "(qstep E)\<^sup>*\<^sup>* db3 db4"
  shows "le_generation l < le_generation l' \<and>
    snapshot_attempt E tenant t uuids l db4 = Inl (PersistenceConflict ''attempt lease or generation fence was lost'') \<and>
    checkpoint_attempt tenant t uuid l sq kind payload db4 = Inl (PersistenceConflict ''attempt lease or generation fence was lost'') \<and>
    finalize_attempt E tenant t uuids l product payload cited db4 =
      Inl (PersistenceConflict ''attempt lease or generation fence was lost'')"
proof -
  have inv1: "kernel_inv db1" by (rule kernel.step_inv [OF qstep.claim [OF assms(2)] assms(1)])
  have inv2: "kernel_inv db2" by (rule kernel.steps_inv [OF assms(3) inv1])
  have inv3: "kernel_inv db3" by (rule kernel.step_inv [OF qstep.claim [OF assms(4)] inv2])
  have inv4: "kernel_inv db4" by (rule kernel.steps_inv [OF assms(5) inv3])
  have ids: "kernel_inv d \<Longrightarrow> ids_distinct d" for d by (simp add: kernel_inv_def chain_inv_def)
  note first = claim_generation [OF assms(2,1)] and second = claim_generation [OF assms(4) inv2]
  have "generation_from i (le_generation l) db2"
    using generation_from_evolve [OF _ kernel.steps_evolve [OF assms(3) inv1] ids [OF inv2]] first by blast
  with second have less: "le_generation l < le_generation l'" by blast
  have "generation_from (le_attempt_id l) (le_generation l') db4"
    using generation_from_evolve [OF _ kernel.steps_evolve [OF assms(5) inv3] ids [OF inv4]] first second by blast
  from fence_lost [OF this less] less show ?thesis
    by (simp add: snapshot_attempt_def checkpoint_attempt_def finalize_attempt_def)
qed

theorem superseded_lease_fenced_witness:
  "le_generation (fst demo_claim1) < le_generation (fst demo_claim2) \<and>
   finalize_attempt demo_env ''b'' 1 demo_uuid (fst demo_claim1) ''p'' PyNone [] (snd demo_claim2) =
     Inl (PersistenceConflict ''attempt lease or generation fence was lost'')"
  using superseded_lease_fenced [OF demo_db_kernel demo_claim1 rtranclp.rtrancl_refl demo_claim2 rtranclp.rtrancl_refl,
      where E = demo_env and t = 1 and uuids = demo_uuid and tenant = "''b''" and product = "''p''" and payload = PyNone and cited = "[]"]
  by blast

text \<open>A lease that was granted passes the fence until it expires, if no transaction follows.\<close>

lemma granted_lease_passes:
  assumes "claim_attempt org now i owner secs db = Inr (l, db')" "ids_distinct db" "t < le_expires_at l"
  shows "\<exists>a. fenced_attempt org t l [RUNNING, SNAPSHOT_COMPLETE] db' = Inr a"
proof -
  from assms(1) obtain u b where u: "now = Some u" "find (claimable org u i owner) (db_attempts db) = Some b"
      "l = \<lparr>le_attempt_id = i, le_generation = qa_generation b + 1, le_owner = owner, le_expires_at = u + secs * 1000000\<rparr>"
      "db' = db\<lparr>db_attempts := map (\<lambda>b. if claimable org u i owner b
         then b\<lparr>qa_state := RUNNING, qa_lease_owner := Some owner, qa_lease_expires_at := Some (u + secs * 1000000),
           qa_generation := qa_generation b + 1\<rparr> else b) (db_attempts db)\<rparr>"
    by (auto simp: claim_attempt_def Let_def split: if_splits option.splits)
  let ?b = "b\<lparr>qa_state := RUNNING, qa_lease_owner := Some owner, qa_lease_expires_at := Some (u + secs * 1000000),
           qa_generation := qa_generation b + 1\<rparr>"
  let ?pass = "\<lambda>a. qa_org a = org \<and> qa_id a = le_attempt_id l \<and> qa_generation a = le_generation l \<and>
      qa_lease_owner a = Some (le_owner l) \<and> (case qa_lease_expires_at a of None \<Rightarrow> False | Some e \<Rightarrow> t < e) \<and>
      qa_state a \<in> set [RUNNING, SNAPSHOT_COMPLETE]"
  have b: "b \<in> set (db_attempts db)" "claimable org u i owner b" using find_SomeD [OF u(2)] by simp_all
  then have "?b \<in> set (db_attempts db')" unfolding u(4) by (auto intro!: image_eqI [of _ _ b])
  moreover have "?pass ?b" using b(2) assms(3) by (simp add: u(3) claimable_def)
  ultimately obtain a where "find ?pass (db_attempts db') = Some a"
    using find_NoneD [of ?pass "db_attempts db'" ?b] by (cases "find ?pass (db_attempts db')") auto
  then show ?thesis by (simp add: fenced_attempt_def)
qed

text \<open>C40 A worker that stops does not block its attempt: after a lease was granted, and whatever transactions follow, once the
  lease the attempt then carries has expired and as long as no checkpoint was stored for its generation, any worker's claim
  succeeds, with a larger generation; the new lease passes the fence until it expires, and the old one no longer does.\<close>

theorem expired_lease_reclaimed:
  assumes "kernel_inv db" "claim_attempt org now i owner secs db = Inr (l, db1)" "(qstep E)\<^sup>*\<^sup>* db1 db2"
    and "a \<in> set (db_attempts db2)" "qa_id a = i" "qa_state a \<in> {QUEUED, RUNNING, SNAPSHOT_COMPLETE}"
    and "qa_lease_expires_at a = Some e" "e \<le> t" "\<not> checkpoint_refers db2 a" "1 \<le> secs'" "secs' \<le> 600"
  shows "\<exists>l' db3. claim_attempt org (Some t) i owner' secs' db2 = Inr (l', db3) \<and> le_owner l' = owner' \<and>
    le_expires_at l' = t + secs' * 1000000 \<and> le_generation l < le_generation l' \<and>
    (\<forall>u < le_expires_at l'. \<exists>row. fenced_attempt org u l' [RUNNING, SNAPSHOT_COMPLETE] db3 = Inr row) \<and>
    (\<forall>u states. fenced_attempt org u l states db3 = Inl (PersistenceConflict ''attempt lease or generation fence was lost''))"
proof -
  have ids: "kernel_inv d \<Longrightarrow> ids_distinct d" for d by (simp add: kernel_inv_def chain_inv_def)
  have inv1: "kernel_inv db1" by (rule kernel.step_inv [OF qstep.claim [OF assms(2)] assms(1)])
  have inv2: "kernel_inv db2" by (rule kernel.steps_inv [OF assms(3) inv1])
  note first = claim_generation [OF assms(2,1)]
  obtain f a0 where f: "db1 = db\<lparr>db_attempts := map f (db_attempts db)\<rparr>" "\<forall>b \<in> set (db_attempts db). row_evolves b (f b)"
      "a0 \<in> set (db_attempts db)" "qa_id a0 = i" "qa_org a0 = org"
    using claim_attempt_Inr [OF assms(2) ids [OF assms(1)]] by blast
  then have b: "f a0 \<in> set (db_attempts db1)" "qa_id (f a0) = i" "qa_org (f a0) = org" by (auto simp: row_evolves_def)
  from kernel.steps_evolve [OF assms(3) inv1] b obtain b' where "b' \<in> set (db_attempts db2)" "qa_id b' = i" "qa_org b' = org"
    by (force simp: attempts_evolve_def rows_evolve_def row_evolves_def)
  then have org: "qa_org a = org" using same_id_same_row [OF ids [OF inv2] _ assms(4)] assms(5) by metis
  have claimable: "claimable org t i owner' a" using assms(5-8) org by (simp add: claimable_def)
  have "find (claimable org t i owner') (db_attempts db2) = Some a"
  proof (cases "find (claimable org t i owner') (db_attempts db2)")
    case None
    then show ?thesis using find_NoneD [OF None assms(4)] claimable by simp
  next
    case (Some c)
    then show ?thesis using find_SomeD [OF Some] same_id_same_row [OF ids [OF inv2] _ assms(4)] assms(5) by (auto simp: claimable_def)
  qed
  then obtain l' db3 where c: "claim_attempt org (Some t) i owner' secs' db2 = Inr (l', db3)"
    and l': "le_owner l' = owner'" "le_expires_at l' = t + secs' * 1000000"
    using assms(9-11) by (simp add: claim_attempt_def Let_def)
  note second = claim_generation [OF c inv2]
  have inv3: "kernel_inv db3" by (rule kernel.step_inv [OF qstep.claim [OF c] inv2])
  have "generation_from i (le_generation l) db2"
    using generation_from_evolve [OF _ kernel.steps_evolve [OF assms(3) inv1] ids [OF inv2]] first by blast
  with second have less: "le_generation l < le_generation l'" by blast
  have "generation_from (le_attempt_id l) (le_generation l') db3" using first second by simp
  with less have "fenced_attempt org u l states db3 = Inl (PersistenceConflict ''attempt lease or generation fence was lost'')"
    for u states by (metis fence_lost)
  then show ?thesis using c l' less granted_lease_passes [OF c ids [OF inv2]] by blast
qed

theorem expired_lease_reclaimed_witness:
  "\<exists>l' db3. claim_attempt ''b'' (Some 60000000) ''a'' ''w2'' 60 (snd demo_claim1) = Inr (l', db3) \<and>
     le_generation (fst demo_claim1) < le_generation l' \<and>
     (\<exists>row. fenced_attempt ''b'' 60000001 l' [RUNNING, SNAPSHOT_COMPLETE] db3 = Inr row)"
proof -
  let ?a = "hd (db_attempts (snd demo_claim1))"
  have a: "?a \<in> set (db_attempts (snd demo_claim1))" "qa_id ?a = ''a''" "qa_state ?a \<in> {QUEUED, RUNNING, SNAPSHOT_COMPLETE}"
    "qa_lease_expires_at ?a = Some 60000000" "\<not> checkpoint_refers (snd demo_claim1) ?a" by code_simp+
  from expired_lease_reclaimed [OF demo_db_kernel demo_claim1 rtranclp.rtrancl_refl a(1-4) order_refl a(5), of 60 "''w2''"]
  show ?thesis by fastforce
qed

section \<open>Decisions\<close>

text \<open>C27 Over every sequence of transactions each attempt has at most one decision, an attempt with a decision is
  completed for ever, and each engagement has at most one introduction.\<close>

theorem effects_at_most_once:
  assumes "kernel_inv db" "(qstep E)\<^sup>*\<^sup>* db db'"
  shows "distinct (map qd_attempt_id (db_decisions db')) \<and> distinct (map qi_engagement_id (db_introductions db')) \<and>
    (\<forall>d \<in> set (db_decisions db'). \<exists>a \<in> set (db_attempts db'). qa_id a = qd_attempt_id d \<and> qa_state a = COMPLETED)"
  using kernel.steps_inv [OF assms(2,1)] by (simp add: kernel_inv_def decision_inv_def)

theorem effects_at_most_once_witness:
  "distinct (map qd_attempt_id (db_decisions (snd demo_final))) \<and> length (db_decisions (snd demo_final)) = 1"
proof -
  have "length (db_decisions (snd demo_final)) = 1" by code_simp
  then show ?thesis using effects_at_most_once [OF demo_db_kernel demo_run] by blast
qed

lemma no_changed_bundles:
  "changed_product_bundles db deps = [] \<longleftrightarrow>
     (\<forall>x \<in> set deps. ds_kind (ad_dep x) = ''PRODUCT_BUNDLE'' \<longrightarrow> bundle_is_active db (ad_dep x))"
proof -
  have "sort xs = [] \<longleftrightarrow> xs = []" for xs :: "string list" by (metis length_0_conv length_sort)
  then show ?thesis by (simp add: changed_product_bundles_def filter_empty_conv)
qed

text \<open>C28 A finalization that completes rests on the committed snapshot alone: every bundle of the snapshot is still
  the active one, the recommended product and all cited evidence are in it, and exactly one decision is
  appended, pending approval, bound to the snapshot digest, with one dependency row per snapshot row.\<close>

theorem decision_rests_on_snapshot:
  assumes "finalize_attempt E org now uuid l product payload cited db = Inr (f, db')" "fr_state f = ''COMPLETED''" "kernel_inv db"
  shows "\<exists>deps d. deps = deps_of_attempt db org (le_attempt_id l) \<and>
    (\<forall>x \<in> set deps. ds_kind (ad_dep x) = ''PRODUCT_BUNDLE'' \<longrightarrow> bundle_is_active db (ad_dep x)) \<and>
    set cited \<subseteq> (\<lambda>x. ds_identifier (ad_dep x)) ` set deps \<and>
    (\<exists>x \<in> set deps. ds_kind (ad_dep x) = ''PRODUCT_BUNDLE'' \<and> ds_identifier (ad_dep x) = product) \<and>
    db_decisions db' = db_decisions db @ [d] \<and> qd_attempt_id d = le_attempt_id l \<and> qd_recommended_product_id d = product \<and>
    qd_approval_state d = ''PENDING'' \<and> qd_current d \<and>
    (\<exists>a \<in> set (db_attempts db). qa_id a = le_attempt_id l \<and> qa_input_digest a = Some (qd_input_digest d)) \<and>
    length (db_decision_deps db') = length (db_decision_deps db) + length deps"
  using assms(1)
proof (cases rule: finalize_attempt_Inr)
  case (stale a changed)
  have "chain_inv db" using assms(3) by (simp add: kernel_inv_def)
  from finalize_stale_Inr [OF stale(7,1) this stale(4)] assms(2) show ?thesis by simp
next
  case (completed a dg digest)
  have active: "bundle_is_active db (ad_dep x)"
    if "x \<in> set (deps_of_attempt db org (le_attempt_id l))" "ds_kind (ad_dep x) = ''PRODUCT_BUNDLE''" for x
    using completed(3,5) that by (simp add: no_changed_bundles)
  obtain d where d: "db_decisions db' = db_decisions db @ [d]" "qd_attempt_id d = le_attempt_id l" "qd_recommended_product_id d = product"
      "qd_approval_state d = ''PENDING''" "qd_current d" "qd_input_digest d = dg"
    by (rule that [OF completed(12)]) (simp_all add: completed(3))
  have "length (db_decision_deps db') = length (db_decision_deps db) + length (deps_of_attempt db org (le_attempt_id l))"
    by (simp add: completed(3,13) decision_rows_def)
  moreover have "\<exists>b \<in> set (db_attempts db). qa_id b = le_attempt_id l \<and> qa_input_digest b = Some (qd_input_digest d)"
    using completed(1,3,6) d(6) by blast
  ultimately show ?thesis using active completed(3,7,8) d(1-5) by (intro exI [of _ d] exI conjI refl) simp_all
qed

theorem decision_rests_on_snapshot_witness:
  "fr_state (fst demo_final) = ''COMPLETED'' \<and>
   (\<exists>d. db_decisions (snd demo_final) = db_decisions (snd demo_snapshot) @ [d] \<and> qd_recommended_product_id d = ''p'')"
proof -
  have "kernel_inv (snd demo_snapshot)"
    using kernel.step_inv [OF demo_steps(2)] kernel.step_inv [OF demo_steps(1) demo_db_kernel] by blast
  moreover have "fr_state (fst demo_final) = ''COMPLETED''" by code_simp
  ultimately show ?thesis using decision_rests_on_snapshot [OF demo_final] by blast
qed

section \<open>Replacements and invalidation\<close>

definition replaced_by :: "qdb \<Rightarrow> QualificationAttempt \<Rightarrow> QualificationAttempt \<Rightarrow> bool" where
  "replaced_by db a b \<longleftrightarrow> a \<in> set (db_attempts db) \<and> b \<in> set (db_attempts db) \<and> qa_predecessor b = Some (qa_id a)"

lemma chain_depth:
  assumes "chain_inv db" "(replaced_by db ^^ n) a b"
  shows "qa_depth b = qa_depth a + int n \<and> (n = 0 \<or> a \<in> set (db_attempts db) \<and> b \<in> set (db_attempts db))"
  using assms(2)
proof (induction n arbitrary: b)
  case (Suc n)
  then obtain c where c: "(replaced_by db ^^ n) a c" "replaced_by db c b" by auto
  have mem: "c \<in> set (db_attempts db)" "b \<in> set (db_attempts db)" using c(2) by (simp_all add: replaced_by_def)
  from c(2) obtain p where p: "p \<in> set (db_attempts db)" "qa_id p = qa_id c" "qa_depth b = qa_depth p + 1"
    using assms(1) unfolding replaced_by_def chain_inv_def by blast
  have "p = c" using same_id_same_row [OF _ p(1) mem(1) p(2)] assms(1) by (simp add: chain_inv_def)
  moreover have "a \<in> set (db_attempts db)" using Suc.IH [OF c(1)] c(1) mem(1) by (cases n) simp_all
  ultimately show ?case using Suc.IH [OF c(1)] p(3) mem by simp
qed simp

text \<open>Replacement chains stay short and linear: after any sequence of transactions an attempt has at most one
  replacement in its tenant, and no chain of replacements is longer than three.\<close>

theorem replacement_chain_bounded:
  assumes "kernel_inv db" "(qstep E)\<^sup>*\<^sup>* db db'"
  shows "((replaced_by db' ^^ n) a b \<longrightarrow> n \<le> 3) \<and>
    (replaced_by db' a b \<longrightarrow> replaced_by db' a c \<longrightarrow> qa_org b = qa_org c \<longrightarrow> b = c)"
proof (intro conjI impI)
  have chain: "chain_inv db'" using kernel.steps_inv [OF assms(2,1)] by (simp add: kernel_inv_def)
  show "n \<le> 3" if "(replaced_by db' ^^ n) a b"
  proof (cases "n = 0")
    case False
    then have "qa_depth b = qa_depth a + int n" "a \<in> set (db_attempts db')" "b \<in> set (db_attempts db')"
      using chain_depth [OF chain that] by simp_all
    moreover from this have "0 \<le> qa_depth a" "qa_depth b \<le> 3" using chain unfolding chain_inv_def by blast+
    ultimately show ?thesis by linarith
  qed simp
  show "b = c" if "replaced_by db' a b" "replaced_by db' a c" "qa_org b = qa_org c"
    using that chain unfolding replaced_by_def chain_inv_def by (metis option.distinct(1))
qed

text \<open>Decisions of the concrete run whose bundle moved on, and their replacement.\<close>

lemma demo_moved_kernel: "kernel_inv demo_moved"
proof -
  have "db_attempts demo_moved = db_attempts (snd demo_final)" "db_decisions demo_moved = db_decisions (snd demo_final)"
    "db_introductions demo_moved = db_introductions (snd demo_final)" by (simp_all add: demo_moved_def)
  then show ?thesis
    using kernel.steps_inv [OF demo_run demo_db_kernel] chain_inv_cong [of demo_moved "snd demo_final"]
    by (simp add: kernel_inv_def decision_inv_def)
qed

theorem replacement_chain_bounded_witness:
  "(replaced_by (snd demo_invalidation) ^^ 1) (db_attempts (snd demo_invalidation) ! 0) (db_attempts (snd demo_invalidation) ! 1) \<and>
   (1::nat) \<le> 3"
proof -
  have "replaced_by (snd demo_invalidation) (db_attempts (snd demo_invalidation) ! 0) (db_attempts (snd demo_invalidation) ! 1)"
    by code_simp
  moreover have "(qstep demo_env)\<^sup>*\<^sup>* demo_moved (snd demo_invalidation)" using qstep.invalidate [OF demo_invalidation] by blast
  note replacement_chain_bounded [OF demo_moved_kernel this, of 1]
  ultimately show ?thesis by (metis relpowp_1)
qed

lemma pinned_decisions_iff:
  "(d, q) \<in> set (pinned_decisions org p db) \<longleftrightarrow>
     d \<in> set (db_decisions db) \<and> qd_org d = org \<and> qd_current d \<and> q \<in> set (db_decision_deps db) \<and> dd_org q = org \<and>
     dd_decision_id q = qd_id d \<and> ds_kind (dd_dep q) = ''PRODUCT_BUNDLE'' \<and> ds_identifier (dd_dep q) = p"
  by (auto simp: pinned_decisions_def)

text \<open>C29 Invalidation is complete and exact: afterwards every current decision that depends on the product pins its
  active bundle and digest, the retired decisions are exactly the others, none of them is current any more, and
  all remaining decisions are unchanged.\<close>

theorem invalidation_complete:
  assumes "invalidate_decisions_for_active_bundle org uuid p db = Inr (r, db')" "kernel_inv db"
  shows "(\<forall>(d, q) \<in> set (pinned_decisions org p db'). up_to_date db' p (dd_dep q)) \<and>
    set (bi_invalidated_decision_ids r) = {qd_id d |d q. (d, q) \<in> set (pinned_decisions org p db) \<and> \<not> up_to_date db p (dd_dep q)} \<and>
    (\<forall>d \<in> set (db_decisions db'). qd_id d \<in> set (bi_invalidated_decision_ids r) \<longrightarrow> \<not> qd_current d \<and> qd_approval_state d = ''INVALIDATED'') \<and>
    (\<forall>d \<in> set (db_decisions db). qd_id d \<notin> set (bi_invalidated_decision_ids r) \<longrightarrow> d \<in> set (db_decisions db'))"
proof -
  have chain: "chain_inv db" using assms(2) by (simp add: kernel_inv_def)
  note I = invalidate_Inr [OF assms(1) chain]
  have same: "db_decision_deps db' = db_decision_deps db" "up_to_date db' p x = up_to_date db p x" for x
    using I up_to_date_cong [of db' db] by (simp_all add: requeues_def)
  have kept: "d \<in> set (db_decisions db) \<and> qd_id d \<notin> set (bi_invalidated_decision_ids r)"
    if "d \<in> set (db_decisions db')" "qd_current d" for d
    using that I by (auto split: if_splits)
  have "up_to_date db' p (dd_dep q)" if "(d, q) \<in> set (pinned_decisions org p db')" for d q
  proof (rule ccontr)
    assume "\<not> ?thesis"
    moreover have "(d, q) \<in> set (pinned_decisions org p db)" "qd_id d \<notin> set (bi_invalidated_decision_ids r)"
      using that kept by (simp_all add: pinned_decisions_iff same(1))
    ultimately show False using I same(2) by blast
  qed
  then show ?thesis using I by (auto simp: retired_def)
qed

theorem invalidation_complete_witness:
  "bi_invalidated_decision_ids (fst demo_invalidation) = [''qdec_0''] \<and>
   \<not> qd_current (hd (db_decisions (snd demo_invalidation)))"
proof -
  have "bi_invalidated_decision_ids (fst demo_invalidation) = [''qdec_0'']" by code_simp
  moreover have "db_decisions (snd demo_invalidation) \<noteq> []" "qd_id (hd (db_decisions (snd demo_invalidation))) = ''qdec_0''" by code_simp+
  ultimately show ?thesis using invalidation_complete [OF demo_invalidation demo_moved_kernel] by auto
qed

section \<open>Introductions\<close>

lemma find_map_cong:
  "(\<And>x. x \<in> set xs \<Longrightarrow> P (f x) = P x) \<Longrightarrow> find P (map f xs) = map_option f (find P xs)"
  by (induction xs) auto

lemma find_append_new: "(\<forall>x \<in> set xs. \<not> P x) \<Longrightarrow> P y \<Longrightarrow> find P (xs @ [y]) = Some y"
  by (induction xs) auto

text \<open>C30 An introduction is made only with the consent of both parties: a first introduction of an engagement rests on
  a current, approved decision, an engagement that has not expired, and unexpired consents that a buyer and a
  seller, two different people, granted to this engagement, input digest and exact set of shared fields.
  Repeating the request returns the same introduction and changes nothing.\<close>

theorem introduction_needs_both_consents:
  assumes "introduce E org now uuid eid did dig shared db = Inr (i, db')"
    "\<forall>j \<in> set (db_introductions db). qi_engagement_id j \<noteq> eid"
  shows "(\<exists>h t en buyer seller. content_hash E shared = Inr h \<and> now = Some t \<and> en \<in> set (db_engagements db) \<and>
      en_id en = eid \<and> t < en_expires_at en \<and>
      buyer \<in> set (db_consents db) \<and> seller \<in> set (db_consents db) \<and> co_party buyer = ''BUYER'' \<and> co_party seller = ''SELLER'' \<and>
      co_actor_id buyer \<noteq> co_actor_id seller \<and>
      (\<forall>c \<in> {buyer, seller}. co_engagement_id c = eid \<and> co_input_digest c = dig \<and> co_state c = ''GRANTED'' \<and>
         t < co_expires_at c \<and> co_approved_fields_hash c = h)) \<and>
    (\<exists>d \<in> set (db_decisions db). qd_org d = org \<and> qd_id d = did \<and> qd_input_digest d = dig \<and> qd_current d \<and>
       qd_approval_state d = ''APPROVED'') \<and>
    introduce E org now' uuid' eid did dig shared db' = Inr (i, db')"
  using assms(1)
proof (cases rule: introduce_Inr)
  case existing
  then show ?thesis using assms(2) by blast
next
  case (new h t en buyer seller)
  let ?match = "\<lambda>e. en_id e = eid \<and> en_decision_id e = did \<and> en_input_digest e = dig \<and> en_buyer_org e = org"
  let ?mark = "\<lambda>e. if en_id e = en_id en then e\<lparr>en_state := ''INTRODUCED''\<rparr> else e"
  have "find ?match (db_engagements db') = map_option ?mark (find ?match (db_engagements db))"
    unfolding new(18) store_introduction_simps by (rule find_map_cong) auto
  moreover obtain e where e: "find ?match (db_engagements db) = Some e"
    using new(3-7) find_NoneD [of ?match "db_engagements db" en] by (cases "find ?match (db_engagements db)") auto
  moreover have "en_id (?mark e) = eid" using find_SomeD [OF e] by auto
  moreover have "find (\<lambda>j. qi_engagement_id j = eid) (db_introductions db') = Some i"
    unfolding new(18) store_introduction_simps by (rule find_append_new [OF assms(2) new(12)])
  ultimately have "introduce E org now' uuid' eid did dig shared db' = Inr (i, db')"
    by (simp add: introduce_def new(1,14,15))
  then show ?thesis using new(1-4,8,10) check_consents_Inr [OF new(11), unfolded new(4)] by blast
qed

theorem introduction_needs_both_consents_witness:
  "introduce demo_env ''b'' (Some 2) demo_uuid ''e'' ''d'' ''i'' (PyStr ''mail'') (snd demo_introduction) =
     Inr (fst demo_introduction, snd demo_introduction) \<and> length (db_introductions (snd demo_introduction)) = 1"
proof -
  have "length (db_introductions (snd demo_introduction)) = 1" by code_simp
  moreover have "\<forall>j \<in> set (db_introductions demo_engaged). qi_engagement_id j \<noteq> ''e''" by code_simp
  ultimately show ?thesis using introduction_needs_both_consents [OF demo_introduction] by blast
qed

section \<open>Recovery after a committed snapshot\<close>

text \<open>The foreign key of checkpoints defeats the recovery of an attempt whose worker stops after its snapshot: the checkpoint
  pins the generation, so from then on, after any sequence of transactions, every claim of it by any worker at any time is refused.\<close>

theorem snapshot_pins_lease:
  assumes "kernel_inv db" "snapshot_attempt E org now uuids l db = Inr (ds, db1)" "deps_of_attempt db org (le_attempt_id l) = []"
    "(qstep E)\<^sup>*\<^sup>* db1 db2"
  shows "\<exists>e. claim_attempt org t (le_attempt_id l) owner secs db2 = Inl e"
proof -
  have ids: "kernel_inv d \<Longrightarrow> ids_distinct d" for d by (simp add: kernel_inv_def chain_inv_def)
  have inv1: "kernel_inv db1" by (rule kernel.step_inv [OF qstep.snapshot [OF assms(2)] assms(1)])
  note inv2 = kernel.steps_inv [OF assms(4) inv1]
  note S = snapshot_keeps [OF assms(2) ids [OF assms(1)]]
  obtain a c where a: "a \<in> set (db_attempts db)" "qa_org a = org" "qa_id a = le_attempt_id l"
      "c \<in> set (db_checkpoints db1)" "ck_org c = org" "ck_attempt_id c = qa_id a" "ck_generation c = qa_generation a"
    using S(2) [OF assms(3)] by blast
  then have "pinned org (le_attempt_id l) db1"
    using S(1) unfolding pinned_def checkpoint_refers_def keeps_generations_def list_ex_iff by metis
  then have "pinned org (le_attempt_id l) db2"
    using kernel.steps_keep [OF assms(4) inv1, of "pinned org (le_attempt_id l)"] pinned_step by blast
  then have "claim_attempt org t (le_attempt_id l) owner secs db2 \<noteq> Inr (l', db3)" for l' db3
    using pinned_claim [OF _ ids [OF inv2]] by blast
  then show ?thesis by (cases "claim_attempt org t (le_attempt_id l) owner secs db2") auto
qed

theorem snapshot_pins_lease_witness:
  "\<exists>e. claim_attempt ''b'' (Some 60000000) ''a'' ''w2'' 60 (snd demo_snapshot) = Inl e"
proof -
  have "kernel_inv (snd demo_claim1)" using kernel.step_inv [OF demo_steps(1) demo_db_kernel] by blast
  moreover have "deps_of_attempt (snd demo_claim1) ''b'' (le_attempt_id (fst demo_claim1)) = []"
    "le_attempt_id (fst demo_claim1) = ''a''" by code_simp+
  ultimately show ?thesis using snapshot_pins_lease [OF _ demo_snapshot _ rtranclp.rtrancl_refl] by metis
qed

end
