(* ===== verification/Contracts.thy ===== *)
theory Contracts
  imports Commerce Exchange Documents
begin

text \<open>
  Disclosure and offer contracts of the two-party exchange (\<^verbatim>\<open>src/python/domain/exchange_contracts.py\<close>):
  release manifests, envelopes, receipts, offers with their approvals, counteroffers and the external
  payment handoff. A pydantic model is a record and a constructor function that makes the declared field
  checks and then those of the model validator; the errors of both are \<open>InvalidModel\<close>. The check of a
  decimal field with its limits on digits is the parameter \<open>price_ok\<close>.
\<close>

section \<open>Errors and checks\<close>

datatype contract_error =
    ContractViolation string
  | InvalidModel string
  | PlainValueError string

type_synonym 'a ct = "contract_error + 'a"

fun err_text :: "py_error \<Rightarrow> string" where
  "err_text (DomainValidationError m) = m"
| "err_text (ValueError m) = m"
| "err_text _ = []"

fun in_model :: "'a res \<Rightarrow> 'a ct" where
  "in_model (Inl e) = Inl (InvalidModel (err_text e))"
| "in_model (Inr x) = Inr x"

text \<open>Conditions in the order of the source; the first that fails is reported.\<close>

fun check_all :: "(bool \<times> string) list \<Rightarrow> unit ct" where
  "check_all [] = Inr ()"
| "check_all ((b, m) # cs) = (if b then check_all cs else Inl (InvalidModel m))"

definition require_tz :: "datetime \<Rightarrow> string \<Rightarrow> unit ct" where
  "require_tz t name = (if tz_aware t then Inr () else Inl (PlainValueError (name @ '' must include a timezone'')))"

definition tz_check :: "datetime \<Rightarrow> string \<Rightarrow> bool \<times> string" where
  "tz_check t name = (tz_aware t, name @ '' must include a timezone'')"

definition party_check :: "ExchangeParty \<Rightarrow> string \<Rightarrow> bool \<times> string" where
  "party_check p name = (p \<noteq> SYSTEM, name @ '' must be BUYER or SELLER'')"

definition contract_markers :: "string list" where
  "contract_markers = [''hidden_budget'', ''reservation_value'', ''seller_floor'', ''private_note'', ''private_source'',
     ''buyer_private'', ''seller_private'']"

definition contract_private_key :: "string \<Rightarrow> bool" where
  "contract_private_key k \<longleftrightarrow>
     list_ex (str_contains (map (\<lambda>c. if c = CHR ''-'' then CHR ''_'' else c) (str_lower k))) contract_markers"

text \<open>\<^verbatim>\<open>_assert_public_tree\<close> raises exactly if a key of a nested dict is private.\<close>

fun private_tree :: "pyval \<Rightarrow> bool" where
  "private_tree (PyDict kvs) = list_ex (\<lambda>(k, v). contract_private_key (key_text k) \<or> private_tree v) kvs"
| "private_tree (PyList xs) = list_ex private_tree xs"
| "private_tree (PyTuple xs) = list_ex private_tree xs"
| "private_tree _ = False"

definition seal_model :: "hash_env \<Rightarrow> pyval \<Rightarrow> string \<Rightarrow> string \<Rightarrow> string ct" where
  "seal_model E payload given mismatch =
     bindE (in_model (content_hash E payload)) (\<lambda>expected.
       if given \<noteq> [] \<and> given \<noteq> expected then Inl (InvalidModel mismatch) else Inr expected)"

section \<open>Release manifests\<close>

datatype ReleaseStatus = ACTIVE | REVOKED

fun release_status_value :: "ReleaseStatus \<Rightarrow> string" where
  "release_status_value ReleaseStatus.ACTIVE = ''ACTIVE''"
| "release_status_value ReleaseStatus.REVOKED = ''REVOKED''"

datatype Transformation = IDENTITY | LOWERCASE | REDACT

fun transformation_value :: "Transformation \<Rightarrow> string" where
  "transformation_value IDENTITY = ''IDENTITY''"
| "transformation_value LOWERCASE = ''LOWERCASE''"
| "transformation_value REDACT = ''REDACT''"

record ReleaseManifest =
  rm_manifest_id :: string
  rm_case_id :: string
  rm_owner :: ExchangeParty
  rm_recipient :: ExchangeParty
  rm_purpose :: string
  rm_fields :: "string list"
  rm_transformations :: "(string \<times> Transformation) list"
  rm_source_versions :: "(string \<times> int) list"
  rm_expires_at :: datetime
  rm_approval_id :: string
  rm_approved_payload_hash :: string
  rm_status :: ReleaseStatus
  rm_manifest_hash :: string

definition approval_entries :: "ReleaseManifest \<Rightarrow> (string \<times> pyval) list" where
  "approval_entries m =
     [(''case_id'', PyStr (rm_case_id m)), (''owner'', PyStr (party_value (rm_owner m))),
      (''recipient'', PyStr (party_value (rm_recipient m))), (''purpose'', PyStr (rm_purpose m)),
      (''fields'', py_strs (rm_fields m)),
      (''transformations'', dict_str (map (\<lambda>(k, t). (k, PyStr (transformation_value t))) (rm_transformations m))),
      (''source_versions'', dict_str (map (\<lambda>(k, i). (k, PyInt i)) (rm_source_versions m))),
      (''expires_at'', PyDatetime (rm_expires_at m))]"

definition approval_payload :: "ReleaseManifest \<Rightarrow> pyval" where
  "approval_payload m = dict_str (approval_entries m)"

definition manifest_payload :: "ReleaseManifest \<Rightarrow> pyval" where
  "manifest_payload m = dict_str
     ([(''schema_version'', PyStr ''release-manifest.v1''), (''manifest_id'', PyStr (rm_manifest_id m))] @ approval_entries m @
      [(''approval_id'', PyStr (rm_approval_id m)), (''approved_payload_hash'', PyStr (rm_approved_payload_hash m)),
       (''status'', PyStr (release_status_value (rm_status m)))])"

definition manifest_checks :: "ReleaseManifest \<Rightarrow> (bool \<times> string) list" where
  "manifest_checks m =
     [(length_between 1 64 (rm_manifest_id m), ''manifest_id''), (length_between 1 64 (rm_case_id m), ''case_id''),
      (length_between 1 240 (rm_purpose m), ''purpose''), (rm_fields m \<noteq> [], ''fields''),
      (rm_source_versions m \<noteq> [], ''source_versions''), (length_between 1 64 (rm_approval_id m), ''approval_id''),
      (valid_hash (rm_approved_payload_hash m), ''approved_payload_hash''),
      party_check (rm_owner m) ''owner'', party_check (rm_recipient m) ''recipient'',
      (rm_owner m \<noteq> rm_recipient m, ''release recipient must be the other exchange party''),
      tz_check (rm_expires_at m) ''expires_at'',
      (distinct (rm_fields m), ''release fields must be unique''),
      (list_all (\<lambda>f. f \<noteq> [] \<and> CHR ''.'' \<notin> set f \<and> \<not> contract_private_key f) (rm_fields m),
       ''release fields must be safe top-level field names''),
      (fst ` set (rm_transformations m) \<subseteq> set (rm_fields m), ''transformations may reference only released fields''),
      (list_all (\<lambda>(k, i). 1 \<le> i) (rm_source_versions m), ''source versions must be positive'')]"

definition mk_ReleaseManifest :: "hash_env \<Rightarrow> ReleaseManifest \<Rightarrow> ReleaseManifest ct" where
  "mk_ReleaseManifest E m =
     bindE (check_all (manifest_checks m)) (\<lambda>_.
     bindE (in_model (content_hash E (approval_payload m))) (\<lambda>h.
       if rm_approved_payload_hash m \<noteq> h
       then Inl (InvalidModel ''release approval does not bind the exact disclosure payload'')
       else bindE (seal_model E (manifest_payload m) (rm_manifest_hash m) ''manifest_hash does not match the canonical manifest'')
              (\<lambda>s. Inr (m\<lparr>rm_manifest_hash := s\<rparr>))))"

fun transform_value :: "Transformation \<Rightarrow> pyval \<Rightarrow> pyval ct" where
  "transform_value LOWERCASE (PyStr s) = Inr (PyStr (str_lower s))"
| "transform_value LOWERCASE _ = Inl (ContractViolation ''LOWERCASE transformation requires text'')"
| "transform_value REDACT _ = Inr (PyStr ''[redacted]'')"
| "transform_value IDENTITY v = Inr v"

definition transformation_of :: "ReleaseManifest \<Rightarrow> string \<Rightarrow> Transformation" where
  "transformation_of m f = (case map_of (rm_transformations m) f of Some t \<Rightarrow> t | None \<Rightarrow> IDENTITY)"

definition release :: "ReleaseManifest \<Rightarrow> (string \<times> pyval) list \<Rightarrow> datetime \<Rightarrow> (string \<times> pyval) list ct" where
  "release m source now =
     bindE (require_tz now ''now'') (\<lambda>_.
       if rm_status m \<noteq> ReleaseStatus.ACTIVE then Inl (ContractViolation ''release authorization has been revoked'')
       else if micros (rm_expires_at m) \<le> micros now then Inl (ContractViolation ''release authorization has expired'')
       else
         let missing = sorted_set (filter (\<lambda>f. map_of source f = None) (rm_fields m)) in
         if missing \<noteq> []
         then Inl (ContractViolation (''release source is missing approved fields: '' @ json_repr (JArr (map JStr missing))))
         else bindE (mapE (\<lambda>f. bindE (transform_value (transformation_of m f) (the (map_of source f))) (\<lambda>v. Inr (f, v))) (rm_fields m))
           (\<lambda>kvs. let selected = dict_of kvs in
             if private_tree (dict_str selected)
             then Inl (ContractViolation ''private-plane data cannot enter an exchange contract'')
             else Inr selected))"

definition revoke :: "hash_env \<Rightarrow> ReleaseManifest \<Rightarrow> ReleaseManifest ct" where
  "revoke E m =
     (if rm_status m = ReleaseStatus.REVOKED then Inr m
      else mk_ReleaseManifest E (m\<lparr>rm_status := ReleaseStatus.REVOKED, rm_manifest_hash := []\<rparr>))"

section \<open>Envelopes and receipts\<close>

record ExchangeEnvelope =
  ee_envelope_id :: string
  ee_case_id :: string
  ee_sender :: ExchangeParty
  ee_recipient :: ExchangeParty
  ee_sequence :: int
  ee_causation_id :: string
  ee_manifest_hash :: string
  ee_payload :: "(string \<times> pyval) list"
  ee_expires_at :: datetime
  ee_payload_hash :: string

definition envelope_payload :: "ExchangeEnvelope \<Rightarrow> pyval" where
  "envelope_payload e = dict_str
     [(''schema_version'', PyStr ''exchange-envelope.v1''), (''envelope_id'', PyStr (ee_envelope_id e)),
      (''case_id'', PyStr (ee_case_id e)), (''sender'', PyStr (party_value (ee_sender e))),
      (''recipient'', PyStr (party_value (ee_recipient e))), (''sequence'', PyInt (ee_sequence e)),
      (''causation_id'', PyStr (ee_causation_id e)), (''manifest_hash'', PyStr (ee_manifest_hash e)),
      (''payload'', dict_str (ee_payload e)), (''expires_at'', PyDatetime (ee_expires_at e))]"

definition mk_ExchangeEnvelope :: "hash_env \<Rightarrow> ExchangeEnvelope \<Rightarrow> ExchangeEnvelope ct" where
  "mk_ExchangeEnvelope E e =
     bindE (check_all
       [(length_between 1 64 (ee_envelope_id e), ''envelope_id''), (length_between 1 64 (ee_case_id e), ''case_id''),
        (1 \<le> ee_sequence e, ''sequence''), (length_between 1 64 (ee_causation_id e), ''causation_id''),
        (valid_hash (ee_manifest_hash e), ''manifest_hash''),
        party_check (ee_sender e) ''sender'', party_check (ee_recipient e) ''recipient'',
        (ee_sender e \<noteq> ee_recipient e, ''exchange envelope must cross parties''), tz_check (ee_expires_at e) ''expires_at'',
        (\<not> private_tree (dict_str (ee_payload e)), ''private-plane data cannot enter an exchange contract'')]) (\<lambda>_.
     bindE (seal_model E (envelope_payload e) (ee_payload_hash e) ''payload_hash does not match the exchange envelope'')
       (\<lambda>s. Inr (e\<lparr>ee_payload_hash := s\<rparr>)))"

record ExchangeReceipt =
  xr_receipt_id :: string
  xr_envelope_id :: string
  xr_case_id :: string
  xr_recipient :: ExchangeParty
  xr_envelope_hash :: string
  xr_received_at :: datetime

definition mk_ExchangeReceipt :: "ExchangeReceipt \<Rightarrow> ExchangeReceipt ct" where
  "mk_ExchangeReceipt r =
     bindE (check_all
       [(length_between 1 64 (xr_receipt_id r), ''receipt_id''), (length_between 1 64 (xr_envelope_id r), ''envelope_id''),
        (length_between 1 64 (xr_case_id r), ''case_id''), (valid_hash (xr_envelope_hash r), ''envelope_hash''),
        party_check (xr_recipient r) ''recipient'', tz_check (xr_received_at r) ''received_at'']) (\<lambda>_. Inr r)"

section \<open>Offers\<close>

datatype OfferApprovalStatus = PENDING | APPROVED | REJECTED | REVOKED | SUPERSEDED

record OfferLine =
  ol_item_id :: string
  ol_description :: string
  ol_quantity :: int
  ol_unit_price :: "int \<times> int"

record OfferVersion =
  ov_offer_id :: string
  ov_case_id :: string
  ov_version :: int
  ov_proposer :: ExchangeParty
  ov_recipient :: ExchangeParty
  ov_predecessor_hash :: "string option"
  ov_changed_terms :: "string list"
  ov_rationale :: string
  ov_currency :: string
  ov_lines :: "OfferLine list"
  ov_total :: "int \<times> int"
  ov_expires_at :: datetime
  ov_requirement_hash :: string
  ov_evidence_hash :: string
  ov_approval_status :: OfferApprovalStatus
  ov_offer_hash :: string

text \<open>\<^verbatim>\<open>Decimal * int\<close> in the default context.\<close>

definition subtotal :: "OfferLine \<Rightarrow> int \<times> int" where
  "subtotal l = dec_fix (fst (ol_unit_price l) * ol_quantity l) (snd (ol_unit_price l))"

definition lines_total :: "OfferLine list \<Rightarrow> int \<times> int" where
  "lines_total ls = fold (\<lambda>l acc. dec_add acc (subtotal l)) ls (0, 0)"

definition py_line :: "OfferLine \<Rightarrow> pyval" where
  "py_line l = dict_str
     [(''item_id'', PyStr (ol_item_id l)), (''description'', PyStr (ol_description l)), (''quantity'', PyInt (ol_quantity l)),
      (''unit_price'', PyDec (DFin (fst (ol_unit_price l)) (snd (ol_unit_price l))))]"

definition offer_payload :: "OfferVersion \<Rightarrow> pyval" where
  "offer_payload v = dict_str
     [(''schema_version'', PyStr ''offer.v1''), (''offer_id'', PyStr (ov_offer_id v)), (''case_id'', PyStr (ov_case_id v)),
      (''version'', PyInt (ov_version v)), (''proposer'', PyStr (party_value (ov_proposer v))),
      (''recipient'', PyStr (party_value (ov_recipient v))), (''predecessor_hash'', py_opt PyStr (ov_predecessor_hash v)),
      (''changed_terms'', py_strs (ov_changed_terms v)), (''rationale'', PyStr (ov_rationale v)),
      (''currency'', PyStr (ov_currency v)), (''lines'', PyTuple (map py_line (ov_lines v))),
      (''total'', PyDec (DFin (fst (ov_total v)) (snd (ov_total v)))), (''expires_at'', PyDatetime (ov_expires_at v)),
      (''requirement_hash'', PyStr (ov_requirement_hash v)), (''evidence_hash'', PyStr (ov_evidence_hash v))]"

definition line_checks :: "(int \<times> int \<Rightarrow> bool) \<Rightarrow> OfferLine \<Rightarrow> (bool \<times> string) list" where
  "line_checks price_ok l =
     [(length_between 1 64 (ol_item_id l), ''item_id''), (length_between 1 240 (ol_description l), ''description''),
      (1 \<le> ol_quantity l, ''quantity''), (price_ok (ol_unit_price l), ''unit_price'')]"

definition currency_code :: "string \<Rightarrow> bool" where
  "currency_code c \<longleftrightarrow> length c = 3 \<and> list_all is_upper c"

definition offer_checks :: "(int \<times> int \<Rightarrow> bool) \<Rightarrow> OfferVersion \<Rightarrow> (bool \<times> string) list" where
  "offer_checks price_ok v =
     [(length_between 1 64 (ov_offer_id v), ''offer_id''), (length_between 1 64 (ov_case_id v), ''case_id''),
      (1 \<le> ov_version v, ''version''),
      ((case ov_predecessor_hash v of None \<Rightarrow> True | Some h \<Rightarrow> valid_hash h), ''predecessor_hash''),
      (length_between 1 1000 (ov_rationale v), ''rationale''), (currency_code (ov_currency v), ''currency''),
      (ov_lines v \<noteq> [], ''lines'')] @
     concat (map (line_checks price_ok) (ov_lines v)) @
     [(price_ok (ov_total v), ''total''), (valid_hash (ov_requirement_hash v), ''requirement_hash''),
      (valid_hash (ov_evidence_hash v), ''evidence_hash''),
      party_check (ov_proposer v) ''proposer'', party_check (ov_recipient v) ''recipient'',
      (ov_proposer v \<noteq> ov_recipient v, ''offer recipient must be the other exchange party''),
      tz_check (ov_expires_at v) ''expires_at'',
      (\<not> (ov_version v = 1 \<and> ov_predecessor_hash v \<noteq> None), ''initial offer cannot have a predecessor''),
      (\<not> (1 < ov_version v \<and> ov_predecessor_hash v = None), ''counteroffer must bind its predecessor''),
      (\<not> (1 < ov_version v \<and> ov_changed_terms v = []), ''counteroffer must name changed terms''),
      (distinct (ov_changed_terms v), ''changed terms must be unique''),
      (distinct (map ol_item_id (ov_lines v)), ''offer line item ids must be unique''),
      (amount_rat (lines_total (ov_lines v)) = amount_rat (ov_total v), ''offer total does not equal line-item arithmetic'')]"

definition mk_OfferVersion :: "hash_env \<Rightarrow> (int \<times> int \<Rightarrow> bool) \<Rightarrow> OfferVersion \<Rightarrow> OfferVersion ct" where
  "mk_OfferVersion E price_ok v =
     bindE (check_all (offer_checks price_ok v)) (\<lambda>_.
     bindE (seal_model E (offer_payload v) (ov_offer_hash v) ''offer_hash does not match the canonical offer'')
       (\<lambda>s. Inr (v\<lparr>ov_offer_hash := s\<rparr>)))"

definition assert_actionable :: "OfferVersion \<Rightarrow> ExchangeParty \<Rightarrow> datetime \<Rightarrow> unit ct" where
  "assert_actionable v actor now =
     bindE (require_tz now ''now'') (\<lambda>_.
       if actor \<noteq> ov_recipient v then Inl (ContractViolation ''only the current recipient may accept this offer'')
       else if micros (ov_expires_at v) \<le> micros now then Inl (ContractViolation ''offer has expired'')
       else if ov_approval_status v \<noteq> OfferApprovalStatus.PENDING then Inl (ContractViolation ''offer is not pending'')
       else Inr ())"

record OfferApproval =
  oa_approval_id :: string
  oa_case_id :: string
  oa_offer_hash :: string
  oa_approver_id :: string
  oa_approved_at :: datetime
  oa_expires_at :: datetime

definition mk_OfferApproval :: "OfferApproval \<Rightarrow> OfferApproval ct" where
  "mk_OfferApproval a =
     bindE (check_all
       [(length_between 1 64 (oa_approval_id a), ''approval_id''), (length_between 1 64 (oa_case_id a), ''case_id''),
        (valid_hash (oa_offer_hash a), ''offer_hash''), (length_between 1 100 (oa_approver_id a), ''approver_id''),
        tz_check (oa_approved_at a) ''approved_at'', tz_check (oa_expires_at a) ''expires_at'',
        (micros (oa_approved_at a) < micros (oa_expires_at a), ''offer approval must expire after approval'')]) (\<lambda>_. Inr a)"

definition authorize :: "hash_env \<Rightarrow> (int \<times> int \<Rightarrow> bool) \<Rightarrow> OfferApproval \<Rightarrow> OfferVersion \<Rightarrow> datetime \<Rightarrow> OfferVersion ct" where
  "authorize E price_ok a v now =
     bindE (require_tz now ''now'') (\<lambda>_.
       if oa_case_id a \<noteq> ov_case_id v \<or> oa_offer_hash a \<noteq> ov_offer_hash v
       then Inl (ContractViolation ''approval does not bind the current exact offer'')
       else if micros (oa_expires_at a) \<le> micros now \<or> micros (ov_expires_at v) \<le> micros now
       then Inl (ContractViolation ''offer or approval has expired'')
       else if ov_approval_status v \<noteq> OfferApprovalStatus.PENDING
       then Inl (ContractViolation ''offer is not pending approval'')
       else mk_OfferVersion E price_ok (v\<lparr>ov_approval_status := OfferApprovalStatus.APPROVED, ov_offer_hash := []\<rparr>))"

text \<open>Model equality compares decimals by value.\<close>

definition same_line :: "OfferLine \<Rightarrow> OfferLine \<Rightarrow> bool" where
  "same_line a b \<longleftrightarrow> ol_item_id a = ol_item_id b \<and> ol_description a = ol_description b \<and> ol_quantity a = ol_quantity b \<and>
     amount_rat (ol_unit_price a) = amount_rat (ol_unit_price b)"

definition actual_changes :: "OfferVersion \<Rightarrow> OfferVersion \<Rightarrow> string list" where
  "actual_changes p c =
     (if ov_currency p \<noteq> ov_currency c then [''currency''] else []) @
     (if \<not> list_all2 same_line (ov_lines p) (ov_lines c) then [''lines''] else []) @
     (if amount_rat (ov_total p) \<noteq> amount_rat (ov_total c) then [''total''] else []) @
     (if ov_requirement_hash p \<noteq> ov_requirement_hash c then [''requirement_hash''] else []) @
     (if ov_evidence_hash p \<noteq> ov_evidence_hash c then [''evidence_hash''] else [])"

definition validate_counteroffer :: "OfferVersion \<Rightarrow> OfferVersion \<Rightarrow> unit ct" where
  "validate_counteroffer p c =
     (if ov_case_id c \<noteq> ov_case_id p \<or> ov_offer_id c \<noteq> ov_offer_id p
      then Inl (ContractViolation ''counteroffer targets another negotiation'')
      else if ov_version c \<noteq> ov_version p + 1 then Inl (ContractViolation ''counteroffer version is not sequential'')
      else if ov_predecessor_hash c \<noteq> Some (ov_offer_hash p)
      then Inl (ContractViolation ''counteroffer does not bind the current offer'')
      else if ov_proposer c \<noteq> ov_recipient p \<or> ov_recipient c \<noteq> ov_proposer p
      then Inl (ContractViolation ''counteroffer parties do not alternate'')
      else if set (ov_changed_terms c) \<noteq> set (actual_changes p c)
      then Inl (ContractViolation ''changed_terms does not exactly describe the counteroffer'')
      else Inr ())"

section \<open>External payment handoff\<close>

datatype ExchangeHandoffStatus = READY | OPENED | EXPIRED | CANCELLED

record ExchangePaymentHandoff =
  eh_handoff_id :: string
  eh_case_id :: string
  eh_offer_hash :: string
  eh_approval_hash :: string
  eh_destination_url :: string
  eh_recipient :: string
  eh_amount :: "int \<times> int"
  eh_currency :: string
  eh_reference :: string
  eh_created_at :: datetime
  eh_expires_at :: datetime
  eh_status :: ExchangeHandoffStatus
  eh_opened_at :: "datetime option"
  eh_handoff_hash :: string

definition exchange_handoff_payload :: "ExchangePaymentHandoff \<Rightarrow> pyval" where
  "exchange_handoff_payload h = dict_str
     [(''schema_version'', PyStr ''exchange-handoff.v1''), (''handoff_id'', PyStr (eh_handoff_id h)),
      (''case_id'', PyStr (eh_case_id h)), (''offer_hash'', PyStr (eh_offer_hash h)),
      (''approval_hash'', PyStr (eh_approval_hash h)), (''destination_url'', PyStr (eh_destination_url h)),
      (''recipient'', PyStr (eh_recipient h)), (''amount'', PyDec (DFin (fst (eh_amount h)) (snd (eh_amount h)))),
      (''currency'', PyStr (eh_currency h)), (''reference'', PyStr (eh_reference h)),
      (''created_at'', PyDatetime (eh_created_at h)), (''expires_at'', PyDatetime (eh_expires_at h))]"

definition exchange_handoff_checks :: "(int \<times> int \<Rightarrow> bool) \<Rightarrow> ExchangePaymentHandoff \<Rightarrow> (bool \<times> string) list" where
  "exchange_handoff_checks price_ok h =
     [(length_between 1 64 (eh_handoff_id h), ''handoff_id''), (length_between 1 64 (eh_case_id h), ''case_id''),
      (valid_hash (eh_offer_hash h), ''offer_hash''), (valid_hash (eh_approval_hash h), ''approval_hash''),
      (length_between 1 2000 (eh_destination_url h), ''destination_url''), (length_between 1 200 (eh_recipient h), ''recipient''),
      (price_ok (eh_amount h), ''amount''), (currency_code (eh_currency h), ''currency''),
      (length_between 1 160 (eh_reference h), ''reference'')]"

definition exchange_handoff_times :: "ExchangePaymentHandoff \<Rightarrow> (bool \<times> string) list" where
  "exchange_handoff_times h =
     [tz_check (eh_created_at h) ''created_at'', tz_check (eh_expires_at h) ''expires_at'',
      (micros (eh_created_at h) < micros (eh_expires_at h), ''exchange handoff must expire after creation''),
      ((case eh_opened_at h of None \<Rightarrow> True | Some t \<Rightarrow> tz_aware t), ''opened_at must include a timezone''),
      (\<not> (eh_status h = ExchangeHandoffStatus.OPENED \<and> eh_opened_at h = None), ''opened exchange handoff requires opened_at''),
      (\<not> (eh_status h \<noteq> ExchangeHandoffStatus.OPENED \<and> eh_opened_at h \<noteq> None),
       ''only an opened exchange handoff may have opened_at'')]"

definition mk_ExchangePaymentHandoff ::
  "hash_env \<Rightarrow> (string \<Rightarrow> bool) \<Rightarrow> (int \<times> int \<Rightarrow> bool) \<Rightarrow> ExchangePaymentHandoff \<Rightarrow> ExchangePaymentHandoff ct" where
  "mk_ExchangePaymentHandoff E literal_ok price_ok h =
     bindE (check_all (exchange_handoff_checks price_ok h)) (\<lambda>_.
     bindE (in_model (safe_destination literal_ok (eh_destination_url h))) (\<lambda>safe.
       if \<not> safe then Inl (InvalidModel ''exchange handoff destination must be HTTPS without credentials or fragment'')
       else bindE (check_all (exchange_handoff_times h)) (\<lambda>_.
         bindE (seal_model E (exchange_handoff_payload h) (eh_handoff_hash h)
             ''handoff_hash does not match the canonical exchange handoff'') (\<lambda>s. Inr (h\<lparr>eh_handoff_hash := s\<rparr>)))))"

definition exchange_handoff_open ::
  "hash_env \<Rightarrow> (string \<Rightarrow> bool) \<Rightarrow> (int \<times> int \<Rightarrow> bool) \<Rightarrow> ExchangePaymentHandoff \<Rightarrow> datetime \<Rightarrow> ExchangePaymentHandoff ct" where
  "exchange_handoff_open E literal_ok price_ok h now =
     bindE (require_tz now ''now'') (\<lambda>_.
       if eh_status h = ExchangeHandoffStatus.OPENED then Inr h
       else if eh_status h \<noteq> ExchangeHandoffStatus.READY \<or> micros (eh_expires_at h) \<le> micros now
       then Inl (ContractViolation ''exchange handoff is not openable'')
       else mk_ExchangePaymentHandoff E literal_ok price_ok
              (h\<lparr>eh_status := ExchangeHandoffStatus.OPENED, eh_opened_at := Some now, eh_handoff_hash := []\<rparr>))"

end
