(* ===== verification/Negotiation.thy ===== *)
theory Negotiation
  imports Contracts Qualification
begin

text \<open>
  The repository of the two-party exchange (\<^verbatim>\<open>src/python/persistence/bilateral_repository.py\<close>) over
  its tables (\<^verbatim>\<open>src/python/persistence/models.py\<close>, the classes \<^verbatim>\<open>Bilateral*\<close>). One operation is one
  serializable transaction: a function from the tables to a result and the new tables, or an error that
  leaves them as they were. A document column holds the model that was dumped into it, and a row
  whose columns are the fields of one model holds that model. Of the constraints
  of the schema the model has the primary keys and the unique constraints, which an insert can run into, and the
  foreign keys of transitions and receipts; the check constraints repeat what the validated arguments promise.
  Serialisation by pydantic in JSON mode (of free-form payloads, and of datetimes) is a parameter.
\<close>

section \<open>Errors and parameters\<close>

datatype bilateral_error =
    Persistence persistence_error
  | Contract contract_error
  | Compile exchange_error

type_synonym 'a bt = "bilateral_error + 'a"

record bilateral_env =
  bl_hash :: hash_env
  bl_raw :: raw_env
  bl_literal_ok :: "string \<Rightarrow> bool"
  bl_price_ok :: "int \<times> int \<Rightarrow> bool"
  bl_json_mode :: "(pykey \<times> pyval) list \<Rightarrow> (pykey \<times> pyval) list"
  bl_iso :: "datetime \<Rightarrow> string"

fun persist :: "'a tx \<Rightarrow> 'a bt" where
  "persist (Inl e) = Inl (Persistence e)"
| "persist (Inr x) = Inr x"

fun contract :: "'a ct \<Rightarrow> 'a bt" where
  "contract (Inl e) = Inl (Contract e)"
| "contract (Inr x) = Inr x"

fun compiled :: "'a ex \<Rightarrow> 'a bt" where
  "compiled (Inl e) = Inl (Compile e)"
| "compiled (Inr x) = Inr x"

abbreviation conflict :: "string \<Rightarrow> 'a bt" where
  "conflict m \<equiv> Inl (Persistence (PersistenceConflict m))"

abbreviation not_found :: "string \<Rightarrow> 'a bt" where
  "not_found m \<equiv> Inl (Persistence (RecordNotFound m))"

abbreviation hashed :: "bilateral_env \<Rightarrow> pyval \<Rightarrow> string bt" where
  "hashed B v \<equiv> persist (hashing (content_hash (bl_hash B) v))"

fun contract_text :: "contract_error \<Rightarrow> string" where
  "contract_text (ContractViolation m) = m"
| "contract_text (InvalidModel m) = m"
| "contract_text (PlainValueError m) = m"

section \<open>Rows\<close>

record case_row =
  bc_id :: string
  bc_org :: string
  bc_seller_org :: string
  bc_state :: ExchangeState
  bc_version :: int
  bc_coordinator :: CoordinatorState
  bc_state_hash :: string
  bc_last_command_id :: "string option"

record command_row =
  bq_id :: string
  bq_org :: string
  bq_case_id :: string
  bq_party :: ExchangeParty
  bq_actor_id :: string
  bq_command_type :: CommandType
  bq_expected_version :: int
  bq_idempotency_key :: string
  bq_payload :: "(pykey \<times> pyval) list"
  bq_payload_hash :: string
  bq_status :: string

record transition_row =
  bt_id :: string
  bt_org :: string
  bt_case_id :: string
  bt_sequence :: int
  bt_command_id :: string
  bt_command_org :: string
  bt_previous_state :: ExchangeState
  bt_next_state :: ExchangeState
  bt_transition_hash :: string

record projection_row =
  bp_id :: string
  bp_org :: string
  bp_projection :: PartyProjection

record manifest_row =
  mr_id :: string
  mr_org :: string
  mr_manifest :: ReleaseManifest

record envelope_row =
  be_id :: string
  be_org :: string
  be_envelope :: ExchangeEnvelope

record receipt_row =
  br_id :: string
  br_org :: string
  br_receipt :: ExchangeReceipt

record offer_row =
  bo_id :: string
  bo_org :: string
  bo_terms :: OfferVersion
  bo_approval_status :: OfferApprovalStatus

record approval_row =
  ba_id :: string
  ba_org :: string
  ba_approval :: OfferApproval
  ba_approval_hash :: string

record handoff_row =
  bh_id :: string
  bh_org :: string
  bh_handoff :: ExchangePaymentHandoff

record bdb =
  bl_cases :: "case_row list"
  bl_commands :: "command_row list"
  bl_transitions :: "transition_row list"
  bl_projections :: "projection_row list"
  bl_manifests :: "manifest_row list"
  bl_envelopes :: "envelope_row list"
  bl_receipts :: "receipt_row list"
  bl_offers :: "offer_row list"
  bl_approvals :: "approval_row list"
  bl_handoffs :: "handoff_row list"

text \<open>An insert fails if the new row agrees with an existing one on a key.\<close>

definition insert_row :: "('r \<Rightarrow> 'r \<Rightarrow> bool) \<Rightarrow> 'r \<Rightarrow> 'r list \<Rightarrow> 'r list bt" where
  "insert_row same r rows =
     (if list_ex (same r) rows then Inl (Persistence (IntegrityError ''duplicate key'')) else Inr (rows @ [r]))"

section \<open>Cases and commands\<close>

definition state_payload :: "bilateral_env \<Rightarrow> CoordinatorState \<Rightarrow> CoordinatorState" where
  "state_payload B s = s\<lparr>cs_requirement := map_option (bl_json_mode B) (cs_requirement s),
     cs_evidence := map_option (bl_json_mode B) (cs_evidence s),
     cs_current_offer := map_option (bl_json_mode B) (cs_current_offer s),
     cs_approval := map_option (bl_json_mode B) (cs_approval s)\<rparr>"

definition py_state :: "CoordinatorState \<Rightarrow> pyval" where
  "py_state s = dict_str
     [(''case_id'', PyStr (cs_case_id s)), (''state'', PyStr (exchange_state_value (cs_state s))),
      (''version'', PyInt (cs_version s)), (''requirement'', py_opt PyDict (cs_requirement s)),
      (''evidence'', py_opt PyDict (cs_evidence s)), (''current_offer'', py_opt PyDict (cs_current_offer s)),
      (''approval'', py_opt PyDict (cs_approval s)), (''last_command_id'', py_opt PyStr (cs_last_command_id s))]"

definition create_case :: "bilateral_env \<Rightarrow> string \<Rightarrow> string \<Rightarrow> string \<Rightarrow> bdb \<Rightarrow> (case_row \<times> bdb) bt" where
  "create_case B org case_id seller_org db =
     (case find (\<lambda>r. bc_id r = case_id) (bl_cases db) of
        Some existing \<Rightarrow>
          if bc_org existing \<noteq> org then conflict ''exchange case belongs to another buyer tenant'' else Inr (existing, db)
      | None \<Rightarrow>
          let state = initial_exchange case_id in
          bindE (hashed B (py_state (state_payload B state))) (\<lambda>h.
          let r = \<lparr>bc_id = case_id, bc_org = org, bc_seller_org = seller_org, bc_state = cs_state state,
                bc_version = cs_version state, bc_coordinator = state_payload B state, bc_state_hash = h,
                bc_last_command_id = None\<rparr>
          in bindE (insert_row (\<lambda>a b. bc_id a = bc_id b) r (bl_cases db)) (\<lambda>rs. Inr (r, db\<lparr>bl_cases := rs\<rparr>))))"

definition append_command :: "bilateral_env \<Rightarrow> string \<Rightarrow> PartyCommand \<Rightarrow> bdb \<Rightarrow> (command_row \<times> bdb) bt" where
  "append_command B org c db =
     bindE (hashed B (PyDict (pc_payload c))) (\<lambda>payload_hash.
     case find (\<lambda>r. bq_org r = org \<and> bq_party r = pc_party c \<and> bq_idempotency_key r = pc_idempotency_key c) (bl_commands db) of
        Some existing \<Rightarrow>
          if bq_payload_hash existing \<noteq> payload_hash \<or> bq_command_type existing \<noteq> pc_command_type c
          then conflict ''party command idempotency key was reused'' else Inr (existing, db)
      | None \<Rightarrow>
          let r = \<lparr>bq_id = pc_id c, bq_org = org, bq_case_id = pc_case_id c, bq_party = pc_party c, bq_actor_id = pc_actor_id c,
                bq_command_type = pc_command_type c, bq_expected_version = pc_expected_version c,
                bq_idempotency_key = pc_idempotency_key c, bq_payload = pc_payload c, bq_payload_hash = payload_hash,
                bq_status = ''PENDING''\<rparr>
          in bindE (insert_row (\<lambda>a b. bq_id a = bq_id b \<or>
                 bq_org a = bq_org b \<and> bq_party a = bq_party b \<and> bq_idempotency_key a = bq_idempotency_key b) r (bl_commands db))
               (\<lambda>rs. Inr (r, db\<lparr>bl_commands := rs\<rparr>)))"

definition get_case :: "string \<Rightarrow> string \<Rightarrow> bdb \<Rightarrow> case_row bt" where
  "get_case org case_id db =
     (case find (\<lambda>r. bc_org r = org \<and> bc_id r = case_id) (bl_cases db) of
        None \<Rightarrow> not_found ''bilateral exchange case was not found''
      | Some r \<Rightarrow> Inr r)"

definition read_state :: "CoordinatorState \<Rightarrow> CoordinatorState bt" where
  "read_state s = (if cs_version s < 1 then Inl (Contract (InvalidModel ''version'')) else Inr s)"

definition transition_payload :: "string \<Rightarrow> int \<Rightarrow> string \<Rightarrow> string \<Rightarrow> ExchangeState \<Rightarrow> ExchangeState \<Rightarrow> string \<Rightarrow> pyval" where
  "transition_payload case_id sequence command_id command_org previous_state next_state state_hash = dict_str
     [(''case_id'', PyStr case_id), (''sequence'', PyInt sequence), (''command_id'', PyStr command_id),
      (''command_organization_id'', PyStr command_org), (''previous_state'', PyStr (exchange_state_value previous_state)),
      (''next_state'', PyStr (exchange_state_value next_state)), (''state_hash'', PyStr state_hash)]"

definition same_transition :: "transition_row \<Rightarrow> transition_row \<Rightarrow> bool" where
  "same_transition a b \<longleftrightarrow> bt_id a = bt_id b \<or> bt_org a = bt_org b \<and> bt_case_id a = bt_case_id b \<and>
     (bt_sequence a = bt_sequence b \<or> bt_command_id a = bt_command_id b)"

definition apply_command ::
  "bilateral_env \<Rightarrow> string \<Rightarrow> string \<Rightarrow> case_row \<Rightarrow> PartyCommand \<Rightarrow> string \<Rightarrow> bdb \<Rightarrow> (CompiledTransition \<times> bdb) bt" where
  "apply_command B org uuid exchange c command_org db =
     (if list_ex (\<lambda>t. bt_org t = org \<and> bt_case_id t = bc_id exchange \<and> bt_command_id t = pc_id c) (bl_transitions db)
      then conflict ''party command was already applied''
      else bindE (read_state (bc_coordinator exchange)) (\<lambda>state.
        bindE (compiled (compile_party_command (bl_raw B) state c)) (\<lambda>ct.
        let next_payload = state_payload B (ct_next_state ct);
            sequence = max_key bt_sequence (filter (\<lambda>t. bt_org t = org \<and> bt_case_id t = bc_id exchange) (bl_transitions db)) + 1
        in bindE (hashed B (py_state next_payload)) (\<lambda>h.
           bindE (hashed B (transition_payload (bc_id exchange) sequence (pc_id c) command_org
               (ct_previous_state ct) (cs_state (ct_next_state ct)) h)) (\<lambda>th.
           if bc_id exchange \<notin> bc_id ` set (bl_cases db) then Inl (Persistence (IntegrityError ''foreign key''))
           else bindE (insert_row same_transition
               \<lparr>bt_id = ''btrans_'' @ uuid, bt_org = org, bt_case_id = bc_id exchange, bt_sequence = sequence,
                bt_command_id = pc_id c, bt_command_org = command_org, bt_previous_state = ct_previous_state ct,
                bt_next_state = cs_state (ct_next_state ct), bt_transition_hash = th\<rparr> (bl_transitions db)) (\<lambda>ts.
             let exchange' = exchange\<lparr>bc_state := cs_state (ct_next_state ct), bc_version := cs_version (ct_next_state ct),
                   bc_coordinator := next_payload, bc_state_hash := h, bc_last_command_id := Some (pc_id c)\<rparr>
             in Inr (ct, db\<lparr>bl_transitions := ts,
                  bl_cases := map (\<lambda>r. if bc_id r = bc_id exchange then exchange' else r) (bl_cases db)\<rparr>)))))))"

section \<open>Projections\<close>

definition same_projection :: "projection_row \<Rightarrow> projection_row \<Rightarrow> bool" where
  "same_projection a b \<longleftrightarrow> bp_id a = bp_id b \<or> bp_org a = bp_org b \<and>
     (pp_case_id (bp_projection a) = pp_case_id (bp_projection b) \<and> pp_party (bp_projection a) = pp_party (bp_projection b) \<and>
       pp_version (bp_projection a) = pp_version (bp_projection b) \<or>
      pp_projection_hash (bp_projection a) = pp_projection_hash (bp_projection b))"

definition publish_projection :: "string \<Rightarrow> string \<Rightarrow> PartyProjection \<Rightarrow> bdb \<Rightarrow> (projection_row \<times> bdb) bt" where
  "publish_projection org uuid p db =
     (case find (\<lambda>r. bp_org r = org \<and> pp_case_id (bp_projection r) = pp_case_id p \<and> pp_party (bp_projection r) = pp_party p \<and>
          pp_version (bp_projection r) = pp_version p) (bl_projections db) of
        Some existing \<Rightarrow>
          if pp_projection_hash (bp_projection existing) \<noteq> pp_projection_hash p
          then conflict ''projection version already has another payload'' else Inr (existing, db)
      | None \<Rightarrow>
          let r = \<lparr>bp_id = ''bproj_'' @ uuid, bp_org = org, bp_projection = p\<rparr>
          in bindE (insert_row same_projection r (bl_projections db)) (\<lambda>rs. Inr (r, db\<lparr>bl_projections := rs\<rparr>)))"

definition latest_projection :: "string \<Rightarrow> string \<Rightarrow> ExchangeParty \<Rightarrow> bdb \<Rightarrow> projection_row bt" where
  "latest_projection org case_id party db =
     (case newest (\<lambda>r. pp_version (bp_projection r)) (filter (\<lambda>r. bp_org r = org \<and> pp_case_id (bp_projection r) = case_id \<and>
          pp_party (bp_projection r) = party) (bl_projections db)) of
        None \<Rightarrow> not_found ''party projection was not found''
      | Some r \<Rightarrow> Inr r)"

section \<open>Disclosures\<close>

definition same_manifest :: "manifest_row \<Rightarrow> manifest_row \<Rightarrow> bool" where
  "same_manifest a b \<longleftrightarrow> mr_id a = mr_id b \<or>
     mr_org a = mr_org b \<and> rm_manifest_hash (mr_manifest a) = rm_manifest_hash (mr_manifest b)"

definition store_release_manifest :: "string \<Rightarrow> ReleaseManifest \<Rightarrow> bdb \<Rightarrow> (manifest_row \<times> bdb) bt" where
  "store_release_manifest org m db =
     (case find (\<lambda>r. mr_id r = rm_manifest_id m) (bl_manifests db) of
        Some existing \<Rightarrow>
          if mr_org existing \<noteq> org \<or> rm_manifest_hash (mr_manifest existing) \<noteq> rm_manifest_hash m
          then conflict ''release manifest id was reused'' else Inr (existing, db)
      | None \<Rightarrow>
          let r = \<lparr>mr_id = rm_manifest_id m, mr_org = org, mr_manifest = m\<rparr>
          in bindE (insert_row same_manifest r (bl_manifests db)) (\<lambda>rs. Inr (r, db\<lparr>bl_manifests := rs\<rparr>)))"

definition same_envelope :: "envelope_row \<Rightarrow> envelope_row \<Rightarrow> bool" where
  "same_envelope a b \<longleftrightarrow> be_id a = be_id b \<or> be_org a = be_org b \<and>
     (ee_case_id (be_envelope a) = ee_case_id (be_envelope b) \<and> ee_sender (be_envelope a) = ee_sender (be_envelope b) \<and>
       ee_sequence (be_envelope a) = ee_sequence (be_envelope b) \<or>
      ee_payload_hash (be_envelope a) = ee_payload_hash (be_envelope b))"

definition store_envelope :: "string \<Rightarrow> ExchangeEnvelope \<Rightarrow> bdb \<Rightarrow> (envelope_row \<times> bdb) bt" where
  "store_envelope org e db =
     (case find (\<lambda>r. be_id r = ee_envelope_id e) (bl_envelopes db) of
        Some existing \<Rightarrow>
          if be_org existing \<noteq> org \<or> ee_payload_hash (be_envelope existing) \<noteq> ee_payload_hash e
          then conflict ''exchange envelope id was reused'' else Inr (existing, db)
      | None \<Rightarrow>
          (case find (\<lambda>r. mr_org r = org \<and> rm_manifest_hash (mr_manifest r) = ee_manifest_hash e) (bl_manifests db) of
             None \<Rightarrow> not_found ''release manifest was not found''
           | Some manifest \<Rightarrow>
               let m = mr_manifest manifest in
               if rm_case_id m \<noteq> ee_case_id e \<or> rm_owner m \<noteq> ee_sender e \<or> rm_recipient m \<noteq> ee_recipient e \<or>
                  rm_status m \<noteq> ReleaseStatus.ACTIVE \<or> micros (rm_expires_at m) \<le> micros (ee_expires_at e)
               then conflict ''envelope exceeds its release authorization''
               else
                 let r = \<lparr>be_id = ee_envelope_id e, be_org = org, be_envelope = e\<rparr>
                 in bindE (insert_row same_envelope r (bl_envelopes db)) (\<lambda>rs. Inr (r, db\<lparr>bl_envelopes := rs\<rparr>))))"

definition acknowledge_envelope :: "string \<Rightarrow> ExchangeReceipt \<Rightarrow> bdb \<Rightarrow> (receipt_row \<times> bdb) bt" where
  "acknowledge_envelope org x db =
     (case find (\<lambda>r. br_org r = org \<and> xr_envelope_id (br_receipt r) = xr_envelope_id x) (bl_receipts db) of
        Some existing \<Rightarrow>
          if xr_envelope_hash (br_receipt existing) \<noteq> xr_envelope_hash x \<or> xr_recipient (br_receipt existing) \<noteq> xr_recipient x
          then conflict ''exchange receipt conflicts with prior acknowledgement'' else Inr (existing, db)
      | None \<Rightarrow>
          (case find (\<lambda>r. be_id r = xr_envelope_id x) (bl_envelopes db) of
             None \<Rightarrow> not_found ''exchange envelope was not found''
           | Some envelope \<Rightarrow>
               if be_org envelope \<noteq> org then not_found ''exchange envelope was not found''
               else if ee_case_id (be_envelope envelope) \<noteq> xr_case_id x \<or> ee_recipient (be_envelope envelope) \<noteq> xr_recipient x \<or>
                 ee_payload_hash (be_envelope envelope) \<noteq> xr_envelope_hash x
               then conflict ''receipt does not bind the received envelope''
               else
                 let r = \<lparr>br_id = xr_receipt_id x, br_org = org, br_receipt = x\<rparr>
                 in bindE (insert_row (\<lambda>a b. br_id a = br_id b \<or>
                        br_org a = br_org b \<and> xr_envelope_id (br_receipt a) = xr_envelope_id (br_receipt b)) r (bl_receipts db))
                      (\<lambda>rs. Inr (r, db\<lparr>bl_receipts := rs\<rparr>))))"

section \<open>Offers\<close>

definition offers_of :: "string \<Rightarrow> string \<Rightarrow> bdb \<Rightarrow> offer_row list" where
  "offers_of org case_id db = filter (\<lambda>r. bo_org r = org \<and> ov_case_id (bo_terms r) = case_id) (bl_offers db)"

definition latest_offer :: "string \<Rightarrow> string \<Rightarrow> bdb \<Rightarrow> offer_row option" where
  "latest_offer org case_id db = newest (\<lambda>r. ov_version (bo_terms r)) (offers_of org case_id db)"

definition same_offer :: "offer_row \<Rightarrow> offer_row \<Rightarrow> bool" where
  "same_offer a b \<longleftrightarrow> bo_id a = bo_id b \<or> bo_org a = bo_org b \<and>
     (ov_case_id (bo_terms a) = ov_case_id (bo_terms b) \<and> ov_version (bo_terms a) = ov_version (bo_terms b) \<or>
      ov_offer_hash (bo_terms a) = ov_offer_hash (bo_terms b))"

definition offer_row_id :: "OfferVersion \<Rightarrow> string" where
  "offer_row_id v = ov_offer_id v @ '':v'' @ show_int (ov_version v)"

definition set_offer_status :: "string \<Rightarrow> OfferApprovalStatus \<Rightarrow> bdb \<Rightarrow> bdb" where
  "set_offer_status i st db =
     db\<lparr>bl_offers := map (\<lambda>r. if bo_id r = i then r\<lparr>bo_approval_status := st\<rparr> else r) (bl_offers db)\<rparr>"

definition add_offer :: "string \<Rightarrow> OfferVersion \<Rightarrow> bdb \<Rightarrow> (offer_row \<times> bdb) bt" where
  "add_offer org v db =
     (let r = \<lparr>bo_id = offer_row_id v, bo_org = org, bo_terms = v, bo_approval_status = ov_approval_status v\<rparr>
      in bindE (insert_row same_offer r (bl_offers db)) (\<lambda>rs. Inr (r, db\<lparr>bl_offers := rs\<rparr>)))"

definition store_offer :: "bilateral_env \<Rightarrow> string \<Rightarrow> OfferVersion \<Rightarrow> bdb \<Rightarrow> (offer_row \<times> bdb) bt" where
  "store_offer B org v db =
     (case find (\<lambda>r. bo_org r = org \<and> ov_offer_hash (bo_terms r) = ov_offer_hash v) (bl_offers db) of
        Some existing \<Rightarrow> Inr (existing, db)
      | None \<Rightarrow>
          (case latest_offer org (ov_case_id v) db of
             None \<Rightarrow>
               if ov_version v \<noteq> 1 then conflict ''negotiation must begin with offer version 1'' else add_offer org v db
           | Some latest \<Rightarrow>
               bindE (contract (mk_OfferVersion (bl_hash B) (bl_price_ok B) (bo_terms latest))) (\<lambda>previous.
                 case validate_counteroffer previous v of
                   Inl e \<Rightarrow> conflict (contract_text e)
                 | Inr _ \<Rightarrow>
                     if bo_approval_status latest = OfferApprovalStatus.APPROVED
                     then conflict ''an approved offer cannot be countered''
                     else add_offer org v (set_offer_status (bo_id latest) OfferApprovalStatus.SUPERSEDED db))))"

definition offer_approval_payload :: "bilateral_env \<Rightarrow> OfferApproval \<Rightarrow> pyval" where
  "offer_approval_payload B a = dict_str
     [(''approval_id'', PyStr (oa_approval_id a)), (''case_id'', PyStr (oa_case_id a)), (''offer_hash'', PyStr (oa_offer_hash a)),
      (''approver_id'', PyStr (oa_approver_id a)), (''approved_at'', PyStr (bl_iso B (oa_approved_at a))),
      (''expires_at'', PyStr (bl_iso B (oa_expires_at a)))]"

definition same_approval :: "approval_row \<Rightarrow> approval_row \<Rightarrow> bool" where
  "same_approval a b \<longleftrightarrow> ba_id a = ba_id b \<or> ba_org a = ba_org b \<and>
     (oa_case_id (ba_approval a) = oa_case_id (ba_approval b) \<and> oa_offer_hash (ba_approval a) = oa_offer_hash (ba_approval b) \<or>
      ba_approval_hash a = ba_approval_hash b)"

definition approve_offer :: "bilateral_env \<Rightarrow> string \<Rightarrow> OfferApproval \<Rightarrow> datetime \<Rightarrow> bdb \<Rightarrow> (approval_row \<times> bdb) bt" where
  "approve_offer B org a now db =
     (case find (\<lambda>r. ba_org r = org \<and> oa_case_id (ba_approval r) = oa_case_id a \<and>
          oa_offer_hash (ba_approval r) = oa_offer_hash a) (bl_approvals db) of
        Some existing \<Rightarrow> Inr (existing, db)
      | None \<Rightarrow>
          (case latest_offer org (oa_case_id a) db of
             None \<Rightarrow> not_found ''offer was not found''
           | Some row \<Rightarrow>
               bindE (contract (mk_OfferVersion (bl_hash B) (bl_price_ok B) (bo_terms row))) (\<lambda>offer.
               bindE (contract (authorize (bl_hash B) (bl_price_ok B) a offer now)) (\<lambda>_.
               bindE (hashed B (offer_approval_payload B a)) (\<lambda>h.
                 let r = \<lparr>ba_id = oa_approval_id a, ba_org = org, ba_approval = a, ba_approval_hash = h\<rparr>
                 in bindE (insert_row same_approval r (bl_approvals db)) (\<lambda>rs.
                      Inr (r, set_offer_status (bo_id row) OfferApprovalStatus.APPROVED (db\<lparr>bl_approvals := rs\<rparr>))))))))"

section \<open>Payment handoffs\<close>

definition same_handoff :: "handoff_row \<Rightarrow> handoff_row \<Rightarrow> bool" where
  "same_handoff a b \<longleftrightarrow> bh_id a = bh_id b \<or> bh_org a = bh_org b \<and>
     (eh_case_id (bh_handoff a) = eh_case_id (bh_handoff b) \<and> eh_offer_hash (bh_handoff a) = eh_offer_hash (bh_handoff b) \<or>
      eh_handoff_hash (bh_handoff a) = eh_handoff_hash (bh_handoff b))"

definition store_handoff :: "string \<Rightarrow> ExchangePaymentHandoff \<Rightarrow> bdb \<Rightarrow> (handoff_row \<times> bdb) bt" where
  "store_handoff org h db =
     (case find (\<lambda>r. bh_org r = org \<and> eh_case_id (bh_handoff r) = eh_case_id h \<and> eh_offer_hash (bh_handoff r) = eh_offer_hash h)
          (bl_handoffs db) of
        Some existing \<Rightarrow>
          if eh_handoff_hash (bh_handoff existing) \<noteq> eh_handoff_hash h
          then conflict ''approved offer is bound to another handoff'' else Inr (existing, db)
      | None \<Rightarrow>
          let r = \<lparr>bh_id = eh_handoff_id h, bh_org = org, bh_handoff = h\<rparr>
          in bindE (insert_row same_handoff r (bl_handoffs db)) (\<lambda>rs. Inr (r, db\<lparr>bl_handoffs := rs\<rparr>)))"

definition open_handoff :: "bilateral_env \<Rightarrow> string \<Rightarrow> string \<Rightarrow> string \<Rightarrow> datetime \<Rightarrow> bdb \<Rightarrow> (handoff_row \<times> bdb) bt" where
  "open_handoff B org handoff_id expected_hash now db =
     (case find (\<lambda>r. bh_org r = org \<and> bh_id r = handoff_id) (bl_handoffs db) of
        None \<Rightarrow> not_found ''exchange handoff was not found''
      | Some row \<Rightarrow>
          if eh_handoff_hash (bh_handoff row) \<noteq> expected_hash then conflict ''exchange handoff hash does not match''
          else
            bindE (contract (mk_ExchangePaymentHandoff (bl_hash B) (bl_literal_ok B) (bl_price_ok B) (bh_handoff row))) (\<lambda>current.
            bindE (contract (exchange_handoff_open (bl_hash B) (bl_literal_ok B) (bl_price_ok B) current now)) (\<lambda>opened.
              let row' = row\<lparr>bh_handoff := (bh_handoff row)\<lparr>eh_status := eh_status opened, eh_opened_at := eh_opened_at opened\<rparr>\<rparr>
              in Inr (row', db\<lparr>bl_handoffs := map (\<lambda>r. if bh_id r = handoff_id then row' else r) (bl_handoffs db)\<rparr>))))"

end
