(* ===== verification/ExchangeService.thy ===== *)
theory ExchangeService
  imports Negotiation
begin

text \<open>
  The application service of the two-party exchange (\<^verbatim>\<open>src/services/api/sira_api/exchange_service.py\<close>)
  with its route capabilities (\<^verbatim>\<open>src/python/domain/exchange_route.py\<close>) and seller bindings
  (\<^verbatim>\<open>src/services/api/sira_api/marketplace.py\<close>). A request is a function from the tables to a response or an
  error and the new tables: a request consists of several transactions, and those committed before an error stay.
  Fernet encryption, the seller directory and the reading of ISO texts are parameters; \<open>clock\<close> and \<open>uuid\<close> give what the
  successive calls of the clock and of \<^verbatim>\<open>uuid4\<close> return.
\<close>

section \<open>Route capabilities\<close>

datatype route_error =
    ExchangeRouteError string
  | RouteValueError string
  | RouteTypeError

record ExchangeRoute =
  rt_case_id :: string
  rt_candidate_id :: string
  rt_product_id :: string
  rt_merchant_name :: string
  rt_merchant_url :: string
  rt_buyer_org :: string
  rt_seller_org :: string
  rt_guest_org :: "string option"
  rt_expires_at :: datetime

definition route_ok :: "ExchangeRoute \<Rightarrow> bool" where
  "route_ok r \<longleftrightarrow> length_between 1 64 (rt_case_id r) \<and> length_between 1 128 (rt_candidate_id r) \<and>
     length_between 1 128 (rt_product_id r) \<and> length_between 1 200 (rt_merchant_name r) \<and>
     starts_with (rt_merchant_url r) ''https://'' \<and> length (rt_merchant_url r) \<le> 2000 \<and>
     length_between 1 64 (rt_buyer_org r) \<and> length_between 1 64 (rt_seller_org r) \<and>
     (case rt_guest_org r of None \<Rightarrow> True | Some g \<Rightarrow> length_between 1 64 g)"

text \<open>\<open>rc_decrypt\<close> is decryption followed by reading the fields from the JSON text, \<open>None\<close> where that raises.\<close>

record route_codec =
  rc_encrypt :: "ExchangeRoute \<Rightarrow> string"
  rc_decrypt :: "string \<Rightarrow> ExchangeRoute option"

definition decode :: "route_codec \<Rightarrow> string \<Rightarrow> string \<Rightarrow> datetime \<Rightarrow> route_error + ExchangeRoute" where
  "decode K token org now =
     (case rc_decrypt K token of
        None \<Rightarrow> Inl (ExchangeRouteError ''exchange route is invalid'')
      | Some route \<Rightarrow>
          if \<not> route_ok route then Inl (ExchangeRouteError ''exchange route is invalid'')
          else if \<not> tz_aware now then Inl (RouteValueError ''now must include a timezone'')
          else if \<not> tz_aware (rt_expires_at route) then Inl RouteTypeError
          else if micros (rt_expires_at route) \<le> micros now then Inl (ExchangeRouteError ''exchange route has expired'')
          else if org \<notin> {rt_buyer_org route, rt_seller_org route} \<union> set_option (rt_guest_org route)
          then Inl (ExchangeRouteError ''exchange route belongs to another organization'')
          else Inr route)"

section \<open>Seller bindings\<close>

record SellerPrincipalBinding =
  sb_candidate_id :: string
  sb_product_id :: string
  sb_seller_actor_id :: string
  sb_seller_org :: string
  sb_merchant_name :: string
  sb_merchant_url :: string

definition safe_identifier :: "string \<Rightarrow> bool" where
  "safe_identifier s \<longleftrightarrow> length_between 3 128 s \<and> list_all (\<lambda>c. id_start c \<or> c \<in> {CHR ''_'', CHR ''-''}) s"

definition mk_SellerPrincipalBinding :: "SellerPrincipalBinding \<Rightarrow> SellerPrincipalBinding res" where
  "mk_SellerPrincipalBinding b =
     (if \<not> list_all safe_identifier [sb_candidate_id b, sb_product_id b, sb_seller_actor_id b, sb_seller_org b]
      then Inl (ValueError ''seller binding requires safe identifiers'')
      else if str_strip (sb_merchant_name b) = [] \<or> \<not> starts_with (sb_merchant_url b) ''https://''
      then Inl (ValueError ''seller binding requires an HTTPS merchant destination'')
      else Inr b)"

definition mk_directory :: "SellerPrincipalBinding list \<Rightarrow> (string \<Rightarrow> SellerPrincipalBinding option) res" where
  "mk_directory bs =
     (if \<not> distinct (map sb_candidate_id bs) then Inl (ValueError ''seller directory candidate IDs must be unique'')
      else Inr (map_of (map (\<lambda>b. (sb_candidate_id b, b)) bs)))"

section \<open>Requests\<close>

datatype svc_error =
    ApiProblem string
  | Raised bilateral_error
  | RouteFailed route_error
  | PyRaised py_error

record service_env =
  sv_bilateral :: bilateral_env
  sv_codec :: route_codec
  sv_directory :: "string \<Rightarrow> SellerPrincipalBinding option"
  sv_guest_bridge :: bool
  sv_fromisoformat :: "string \<Rightarrow> datetime option"

type_synonym 'a svc = "bdb \<Rightarrow> (svc_error + 'a) \<times> bdb"

fun up :: "'a bt \<Rightarrow> svc_error + 'a" where
  "up (Inl e) = Inl (Raised e)"
| "up (Inr x) = Inr x"

definition fails :: "svc_error \<Rightarrow> 'a svc" where
  "fails e = (\<lambda>db. (Inl e, db))"

definition pure_svc :: "svc_error + 'a \<Rightarrow> 'a svc" where
  "pure_svc m = (\<lambda>db. (m, db))"

definition bindS :: "'a svc \<Rightarrow> ('a \<Rightarrow> 'b svc) \<Rightarrow> 'b svc" where
  "bindS m f = (\<lambda>db. case m db of (Inl e, db') \<Rightarrow> (Inl e, db') | (Inr x, db') \<Rightarrow> f x db')"

definition tenant_ok :: "string \<Rightarrow> bool" where
  "tenant_ok org \<longleftrightarrow> length_between 1 48 org \<and> list_all (\<lambda>c. id_start c \<or> c \<in> {CHR ''_'', CHR ''-''}) org"

text \<open>A transaction: its effects are kept exactly if its body does not raise.\<close>

definition transaction :: "string \<Rightarrow> (bdb \<Rightarrow> svc_error + 'a \<times> bdb) \<Rightarrow> 'a svc" where
  "transaction org body = (\<lambda>db.
     if \<not> tenant_ok org
     then (Inl (PyRaised (ValueError ''organization_id must contain 1-48 ASCII letters, digits, underscores, or hyphens'')), db)
     else case body db of Inl e \<Rightarrow> (Inl e, db) | Inr (x, db') \<Rightarrow> (Inr x, db'))"

fun is_value_error :: "py_error \<Rightarrow> bool" where
  "is_value_error (DomainValidationError _) = True"
| "is_value_error (InvalidTransitionError _) = True"
| "is_value_error (ValueError _) = True"
| "is_value_error _ = False"

text \<open>\<^verbatim>\<open>except (PersistenceConflict, RecordNotFound, ValueError)\<close>\<close>

fun caught :: "svc_error \<Rightarrow> bool" where
  "caught (Raised (Persistence (PersistenceConflict _))) = True"
| "caught (Raised (Persistence (RecordNotFound _))) = True"
| "caught (Raised (Persistence (IntegrityError _))) = False"
| "caught (Raised (Persistence (BadArgument _))) = True"
| "caught (Raised (Persistence (HashingFailed e))) = is_value_error e"
| "caught (Raised (Contract _)) = True"
| "caught (Raised (Compile _)) = True"
| "caught (PyRaised e) = is_value_error e"
| "caught _ = False"

definition api_conflict :: "'a svc \<Rightarrow> 'a svc" where
  "api_conflict m = (\<lambda>db. case m db of
      (Inl e, db') \<Rightarrow> (Inl (if caught e then ApiProblem ''EXCHANGE_CONFLICT'' else e), db')
    | (Inr x, db') \<Rightarrow> (Inr x, db'))"

definition removeprefix :: "string \<Rightarrow> string \<Rightarrow> string" where
  "removeprefix s p = (if starts_with s p then drop (length p) s else s)"

definition stable_id :: "bilateral_env \<Rightarrow> string \<Rightarrow> string list \<Rightarrow> svc_error + string" where
  "stable_id B prefix parts =
     bindE (up (hashed B (dict_str [(''parts'', py_strs parts)])))
       (\<lambda>h. Inr (prefix @ ''_'' @ take 32 (removeprefix h ''sha256:'')))"

definition projection_view :: "PartyProjection \<Rightarrow> pyval" where
  "projection_view p = dict_str
     [(''case_id'', PyStr (pp_case_id p)), (''party'', PyStr (party_value (pp_party p))),
      (''state'', PyStr (exchange_state_value (pp_state p))), (''version'', PyInt (pp_version p)),
      (''released'', PyDict (pp_released p)), (''projection_hash'', PyStr (pp_projection_hash p))]"

fun exchange_handoff_status_value :: "ExchangeHandoffStatus \<Rightarrow> string" where
  "exchange_handoff_status_value ExchangeHandoffStatus.READY = ''READY''"
| "exchange_handoff_status_value ExchangeHandoffStatus.OPENED = ''OPENED''"
| "exchange_handoff_status_value ExchangeHandoffStatus.EXPIRED = ''EXPIRED''"
| "exchange_handoff_status_value ExchangeHandoffStatus.CANCELLED = ''CANCELLED''"

definition handoff_view :: "ExchangePaymentHandoff \<Rightarrow> pyval" where
  "handoff_view h = dict_str
     [(''id'', PyStr (eh_handoff_id h)), (''case_id'', PyStr (eh_case_id h)), (''offer_hash'', PyStr (eh_offer_hash h)),
      (''approval_hash'', PyStr (eh_approval_hash h)), (''handoff_hash'', PyStr (eh_handoff_hash h)),
      (''destination_url'', PyStr (eh_destination_url h)), (''recipient'', PyStr (eh_recipient h)),
      (''amount'', PyDec (DFin (fst (eh_amount h)) (snd (eh_amount h)))), (''currency'', PyStr (eh_currency h)),
      (''reference'', PyStr (eh_reference h)), (''status'', PyStr (exchange_handoff_status_value (eh_status h))),
      (''expires_at'', PyDatetime (eh_expires_at h)), (''opened_at'', py_opt PyDatetime (eh_opened_at h))]"

definition decode_route ::
  "service_env \<Rightarrow> string \<Rightarrow> ExchangeParty option \<Rightarrow> string \<Rightarrow> string \<Rightarrow> bool \<Rightarrow> datetime \<Rightarrow> svc_error + ExchangeRoute" where
  "decode_route S org party case_id token guest now =
     (if party \<notin> {Some BUYER, Some SELLER} then Inl (ApiProblem ''VERIFIED_PARTY_REQUIRED'')
      else case decode (sv_codec S) token org now of
        Inl (ExchangeRouteError m) \<Rightarrow> Inl (ApiProblem ''EXCHANGE_ROUTE_INVALID'')
      | Inl e \<Rightarrow> Inl (RouteFailed e)
      | Inr route \<Rightarrow>
          if rt_case_id route \<noteq> case_id then Inl (ApiProblem ''EXCHANGE_ROUTE_MISMATCH'')
          else
            let expected = (if party = Some BUYER then rt_buyer_org route else rt_seller_org route);
                bridge = sv_guest_bridge S \<and> guest \<and> party = Some SELLER \<and> rt_guest_org route = Some org
            in if org \<noteq> expected \<and> \<not> bridge then Inl (ApiProblem ''EXCHANGE_PARTY_MISMATCH'') else Inr route)"

definition party_organization :: "ExchangeRoute \<Rightarrow> ExchangeParty option \<Rightarrow> string" where
  "party_organization route party = (if party = Some BUYER then rt_buyer_org route else rt_seller_org route)"

definition publish_compiled :: "ExchangeRoute \<Rightarrow> string \<Rightarrow> CompiledTransition \<Rightarrow> unit svc" where
  "publish_compiled route uuid ct =
     transaction (rt_seller_org route) (\<lambda>db.
       bindE (up (publish_projection (rt_seller_org route) uuid (ct_seller_projection ct) db)) (\<lambda>(_, db'). Inr ((), db')))"

definition view_case ::
  "service_env \<Rightarrow> string \<Rightarrow> ExchangeParty option \<Rightarrow> string \<Rightarrow> string \<Rightarrow> bool \<Rightarrow> datetime \<Rightarrow> pyval svc" where
  "view_case S org party case_id token guest now =
     bindS (pure_svc (decode_route S org party case_id token guest now)) (\<lambda>route.
       let porg = party_organization route party in
       transaction porg (\<lambda>db.
         bindE (up (latest_projection porg case_id (the party) db)) (\<lambda>r. Inr (projection_view (bp_projection r), db))))"

definition replayed_projection ::
  "service_env \<Rightarrow> ExchangeRoute \<Rightarrow> ExchangeParty \<Rightarrow> string \<Rightarrow> datetime \<Rightarrow> pyval option svc" where
  "replayed_projection S route party command_id now =
     bindS (transaction (rt_buyer_org route) (\<lambda>db.
         Inr (list_ex (\<lambda>t. bt_org t = rt_buyer_org route \<and> bt_case_id t = rt_case_id route \<and> bt_command_id t = command_id)
           (bl_transitions db), db))) (\<lambda>applied.
       if \<not> applied then pure_svc (Inr None)
       else bindS (view_case S (party_organization route (Some party)) (Some party) (rt_case_id route)
              (rc_encrypt (sv_codec S) route) False now) (\<lambda>v. pure_svc (Inr (Some v))))"

section \<open>Creating a case\<close>

record RequirementBriefVersion =
  rb_org :: string
  rb_purchase_request_id :: string
  rb_version :: int
  rb_payload :: "(string \<times> pyval) list"
  rb_content_hash :: string

definition seller_safe_fields :: "string list" where
  "seller_safe_fields = [''category_id'', ''intent'', ''desired_outcome'', ''team'', ''data_profile'', ''hard_requirements'',
     ''preferences'', ''allowed_stack_context'', ''seller_questions'']"

definition shift_seconds :: "datetime \<Rightarrow> int \<Rightarrow> datetime" where
  "shift_seconds t n = t\<lparr>micros := micros t + n * 1000000\<rparr>"

definition brief_expiry :: "service_env \<Rightarrow> datetime \<Rightarrow> RequirementBriefVersion \<Rightarrow> svc_error + datetime" where
  "brief_expiry S now b =
     (case map_of (rb_payload b) ''expires_at'' of
        Some (PyStr raw) \<Rightarrow>
          (case sv_fromisoformat S (concat (map (\<lambda>c. if c = CHR ''Z'' then ''+00:00'' else [c]) raw)) of
             None \<Rightarrow> Inl (PyRaised (ValueError ''Invalid isoformat string''))
           | Some t \<Rightarrow>
               if tz_aware t \<noteq> tz_aware now then Inl (PyRaised TypeError)
               else if micros t \<le> micros (shift_seconds now 1) then Inl (ApiProblem ''REQUIREMENT_BRIEF_EXPIRED'')
               else Inr t)
      | _ \<Rightarrow> Inl (ApiProblem ''REQUIREMENT_BRIEF_EXPIRY_MISSING''))"

definition requirement_manifest ::
  "bilateral_env \<Rightarrow> string \<Rightarrow> string \<Rightarrow> RequirementBriefVersion \<Rightarrow> datetime \<Rightarrow> svc_error + ReleaseManifest" where
  "requirement_manifest B case_id actor_id b expires_at =
     bindE (stable_id B ''manifest'' [case_id, rb_content_hash b]) (\<lambda>manifest_id.
     bindE (stable_id B ''releaseapproval'' [case_id, actor_id]) (\<lambda>approval_id.
     let public_source = ''reqbrief_'' @ take 16 (removeprefix (rb_content_hash b) ''sha256:'');
         m = \<lparr>rm_manifest_id = manifest_id, rm_case_id = case_id, rm_owner = BUYER, rm_recipient = SELLER,
              rm_purpose = ''Evaluate fit and respond to the buyer'' @ [CHR 39] @ ''s stated requirements.'',
              rm_fields = seller_safe_fields, rm_transformations = [], rm_source_versions = [(public_source, rb_version b)],
              rm_expires_at = expires_at, rm_approval_id = approval_id, rm_approved_payload_hash = [],
              rm_status = ReleaseStatus.ACTIVE, rm_manifest_hash = []\<rparr>
     in bindE (up (hashed B (approval_payload m))) (\<lambda>h.
        up (contract (mk_ReleaseManifest (bl_hash B) (m\<lparr>rm_approved_payload_hash := h\<rparr>))))))"

definition requirement_envelope ::
  "bilateral_env \<Rightarrow> string \<Rightarrow> ReleaseManifest \<Rightarrow> (string \<times> pyval) list \<Rightarrow> svc_error + ExchangeEnvelope" where
  "requirement_envelope B case_id m released =
     bindE (stable_id B ''envelope'' [case_id, rm_manifest_hash m]) (\<lambda>envelope_id.
       up (contract (mk_ExchangeEnvelope (bl_hash B)
         \<lparr>ee_envelope_id = envelope_id, ee_case_id = case_id, ee_sender = BUYER, ee_recipient = SELLER, ee_sequence = 1,
          ee_causation_id = rm_approval_id m, ee_manifest_hash = rm_manifest_hash m, ee_payload = released,
          ee_expires_at = shift_seconds (rm_expires_at m) (- 1), ee_payload_hash = []\<rparr>)))"

text \<open>The steps shared by the requests: a command is stored, applied to the case and the buyer's view of the
  result is published, all in the tenant of the buyer.\<close>

definition advance_case ::
  "bilateral_env \<Rightarrow> string \<Rightarrow> (nat \<Rightarrow> string) \<Rightarrow> case_row \<Rightarrow> PartyCommand \<Rightarrow> string \<Rightarrow> bdb \<Rightarrow>
     svc_error + ((CompiledTransition \<times> PartyProjection) \<times> bdb)" where
  "advance_case B org uuid exchange c corg db =
     bindE (up (apply_command B org (uuid 0) exchange c corg db)) (\<lambda>(ct, db1).
     bindE (up (publish_projection org (uuid 1) (ct_buyer_projection ct) db1)) (\<lambda>(r, db2). Inr ((ct, bp_projection r), db2)))"

definition record_and_advance ::
  "bilateral_env \<Rightarrow> string \<Rightarrow> (nat \<Rightarrow> string) \<Rightarrow> case_row \<Rightarrow> PartyCommand \<Rightarrow> string \<Rightarrow> bdb \<Rightarrow>
     svc_error + ((CompiledTransition \<times> PartyProjection) \<times> bdb)" where
  "record_and_advance B org uuid exchange c corg db =
     bindE (up (append_command B org c db)) (\<lambda>(_, db1). advance_case B org uuid exchange c corg db1)"

definition release_requirement ::
  "service_env \<Rightarrow> string \<Rightarrow> string \<Rightarrow> string \<Rightarrow> string \<Rightarrow> datetime \<Rightarrow> RequirementBriefVersion option \<Rightarrow> (nat \<Rightarrow> string) \<Rightarrow>
     case_row \<Rightarrow> bdb \<Rightarrow> svc_error + ((datetime \<times> CompiledTransition \<times> PartyProjection) \<times> bdb)" where
  "release_requirement S org actor_id idem case_id now brief uuid exchange db =
     (let B = sv_bilateral S in
      case brief of None \<Rightarrow> Inl (ApiProblem ''REQUIREMENT_BRIEF_MISSING'')
      | Some b \<Rightarrow>
          bindE (brief_expiry S now b) (\<lambda>expires_at.
          let source = filter (\<lambda>kv. snd kv \<noteq> None) (map (\<lambda>f. (f, map_of (rb_payload b) f)) seller_safe_fields) in
          if length source \<noteq> length seller_safe_fields then Inl (ApiProblem ''REQUIREMENT_BRIEF_INCOMPLETE'')
          else
            bindE (requirement_manifest B case_id actor_id b expires_at) (\<lambda>m.
            bindE (up (contract (release m (map (\<lambda>(f, v). (f, the v)) source) now))) (\<lambda>released.
            bindE (requirement_envelope B case_id m released) (\<lambda>e.
            bindE (stable_id B ''command'' [case_id, idem]) (\<lambda>command_id.
            bindE (up (compiled (mk_PartyCommand
              \<lparr>pc_id = command_id, pc_case_id = case_id, pc_party = BUYER, pc_actor_id = actor_id,
               pc_command_type = RELEASE_REQUIREMENT, pc_expected_version = 1, pc_idempotency_key = idem,
               pc_payload = [(KStr ''manifest_hash'', PyStr (rm_manifest_hash m)), (KStr ''envelope_hash'', PyStr (ee_payload_hash e)),
                 (KStr ''requirement'', dict_str released)]\<rparr>))) (\<lambda>c.
            bindE (up (store_release_manifest org m db)) (\<lambda>(_, db1).
            bindE (up (store_envelope org e db1)) (\<lambda>(_, db2).
            bindE (record_and_advance B org uuid exchange c org db2) (\<lambda>((ct, p), db3).
              Inr ((expires_at, ct, p), db3)))))))))))"

definition reopen_case ::
  "string \<Rightarrow> string \<Rightarrow> bdb \<Rightarrow> svc_error + (datetime \<times> PartyProjection)" where
  "reopen_case org case_id db =
     bindE (up (latest_projection org case_id BUYER db)) (\<lambda>p.
       case rev (filter (\<lambda>r. mr_org r = org \<and> rm_case_id (mr_manifest r) = case_id) (bl_manifests db)) of
         [] \<Rightarrow> Inl (ApiProblem ''EXCHANGE_RELEASE_MISSING'')
       | r # _ \<Rightarrow> Inr (rm_expires_at (mr_manifest r), bp_projection p))"

definition brief_of :: "RequirementBriefVersion list \<Rightarrow> string \<Rightarrow> string \<Rightarrow> RequirementBriefVersion option" where
  "brief_of briefs org purchase_request_id =
     newest rb_version (filter (\<lambda>b. rb_org b = org \<and> rb_purchase_request_id b = purchase_request_id) briefs)"

definition case_transaction ::
  "service_env \<Rightarrow> RequirementBriefVersion list \<Rightarrow> string \<Rightarrow> string \<Rightarrow> string \<Rightarrow> string \<Rightarrow> string \<Rightarrow> string \<Rightarrow> datetime \<Rightarrow>
     (nat \<Rightarrow> string) \<Rightarrow> bdb \<Rightarrow> svc_error + ((datetime \<times> PartyProjection \<times> CompiledTransition option) \<times> bdb)" where
  "case_transaction S briefs org actor_id idem case_id seller_org purchase_request_id now uuid db =
     bindE (up (create_case (sv_bilateral S) org case_id seller_org db)) (\<lambda>(existing, db1).
       if 1 < bc_version existing
       then bindE (reopen_case org case_id db1) (\<lambda>(expires_at, p). Inr ((expires_at, p, None), db1))
       else bindE (release_requirement S org actor_id idem case_id now (brief_of briefs org purchase_request_id) uuid existing db1)
         (\<lambda>((expires_at, ct, p), db2). Inr ((expires_at, p, Some ct), db2)))"

definition exchange_create_case ::
  "service_env \<Rightarrow> RequirementBriefVersion list \<Rightarrow> string \<Rightarrow> string \<Rightarrow> ExchangeParty option \<Rightarrow> string \<Rightarrow> string \<Rightarrow> string \<Rightarrow> bool \<Rightarrow>
     datetime \<Rightarrow> (nat \<Rightarrow> string) \<Rightarrow> pyval svc" where
  "exchange_create_case S briefs org actor_id party idem purchase_request_id candidate_id guest now uuid =
     (if party \<noteq> Some BUYER then fails (ApiProblem ''BUYER_IDENTITY_REQUIRED'')
      else case sv_directory S candidate_id of
        None \<Rightarrow> fails (ApiProblem ''SELLER_ORGANIZATION_BINDING_REQUIRED'')
      | Some binding \<Rightarrow>
          let seller_org = sb_seller_org binding in
          if seller_org = org then fails (ApiProblem ''DISTINCT_SELLER_REQUIRED'')
          else
            bindS (pure_svc (stable_id (sv_bilateral S) ''xcase'' [org, purchase_request_id, seller_org, idem])) (\<lambda>case_id.
            bindS (transaction org (case_transaction S briefs org actor_id idem case_id seller_org purchase_request_id now uuid))
              (\<lambda>(expires_at, p, ct).
            let route = \<lparr>rt_case_id = case_id, rt_candidate_id = candidate_id, rt_product_id = sb_product_id binding,
                  rt_merchant_name = sb_merchant_name binding, rt_merchant_url = sb_merchant_url binding, rt_buyer_org = org,
                  rt_seller_org = seller_org,
                  rt_guest_org = (if sv_guest_bridge S \<and> guest \<and> starts_with org ''org_guest_'' then Some org else None),
                  rt_expires_at = expires_at\<rparr>
            in bindS (case ct of None \<Rightarrow> pure_svc (Inr ()) | Some t \<Rightarrow> publish_compiled route (uuid 2) t) (\<lambda>_.
               if \<not> route_ok route then fails (Raised (Contract (InvalidModel ''route'')))
               else pure_svc (Inr (dict_str [(''case_id'', PyStr case_id),
                 (''route_capability'', PyStr (rc_encrypt (sv_codec S) route)), (''expires_at'', PyDatetime expires_at),
                 (''projection'', projection_view p)]))))))"

section \<open>Publishing evidence\<close>

record EvidenceSpan =
  es_id :: string
  es_org :: string
  es_product_id :: string
  es_visibility :: string
  es_source_version_id :: string
  es_sequence :: int
  es_content_hash :: string

definition evidence_spans :: "EvidenceSpan list \<Rightarrow> string \<Rightarrow> string \<Rightarrow> string list \<Rightarrow> EvidenceSpan list" where
  "evidence_spans spans org product_id ids =
     take 64 (sort_key (\<lambda>s. (es_source_version_id s, es_sequence s))
       (filter (\<lambda>s. es_org s = org \<and> es_product_id s = product_id \<and> es_visibility s \<in> {''BUYER_SAFE'', ''PUBLIC''} \<and>
          (ids = [] \<or> es_id s \<in> set ids)) spans))"

definition evidence_payload :: "EvidenceSpan list \<Rightarrow> pyval" where
  "evidence_payload spans = PyList (map (\<lambda>s. dict_str
     [(''span_id'', PyStr (es_id s)), (''source_version_id'', PyStr (es_source_version_id s)),
      (''content_hash'', PyStr (es_content_hash s))]) (sort_key es_id spans))"

definition publish_evidence ::
  "service_env \<Rightarrow> EvidenceSpan list \<Rightarrow> string \<Rightarrow> string \<Rightarrow> ExchangeParty option \<Rightarrow> string \<Rightarrow> string \<Rightarrow> string \<Rightarrow> int \<Rightarrow> string \<Rightarrow>
     string list \<Rightarrow> bool \<Rightarrow> (nat \<Rightarrow> datetime) \<Rightarrow> (nat \<Rightarrow> string) \<Rightarrow> pyval svc" where
  "publish_evidence S spans org actor_id party case_id token idem expected_version summary ids guest clock uuid =
     (let B = sv_bilateral S in
      bindS (pure_svc (decode_route S org party case_id token guest (clock 0))) (\<lambda>route.
      if party \<noteq> Some SELLER then fails (ApiProblem ''SELLER_IDENTITY_REQUIRED'')
      else bindS (transaction (rt_seller_org route) (\<lambda>db. Inr (evidence_spans spans (rt_seller_org route) (rt_product_id route) ids, db)))
        (\<lambda>found.
        if found = [] \<or> ids \<noteq> [] \<and> length found \<noteq> length (remdups ids)
        then fails (ApiProblem ''PUBLISHED_EVIDENCE_REQUIRED'')
        else
          bindS (pure_svc (up (hashed B (evidence_payload found)))) (\<lambda>evidence_hash.
          bindS (pure_svc (stable_id B ''command'' [case_id, idem])) (\<lambda>command_id.
          bindS (pure_svc (up (compiled (mk_PartyCommand
            \<lparr>pc_id = command_id, pc_case_id = case_id, pc_party = SELLER, pc_actor_id = actor_id,
             pc_command_type = PUBLISH_EVIDENCE, pc_expected_version = expected_version, pc_idempotency_key = idem,
             pc_payload = [(KStr ''evidence_hash'', PyStr evidence_hash), (KStr ''summary'', PyStr summary),
               (KStr ''published_span_ids'', PyList (map PyStr ids))]\<rparr>)))) (\<lambda>c.
          bindS (replayed_projection S route SELLER command_id (clock 1)) (\<lambda>replayed.
          case replayed of Some v \<Rightarrow> pure_svc (Inr v)
          | None \<Rightarrow>
              bindS (transaction (rt_seller_org route) (\<lambda>db.
                bindE (up (append_command B (rt_seller_org route) c db)) (\<lambda>(_, db'). Inr ((), db')))) (\<lambda>_.
              bindS (api_conflict (transaction (rt_buyer_org route) (\<lambda>db.
                bindE (up (get_case (rt_buyer_org route) case_id db)) (\<lambda>exchange.
                  advance_case B (rt_buyer_org route) uuid exchange c (rt_seller_org route) db)))) (\<lambda>(ct, _).
              bindS (publish_compiled route (uuid 2) ct) (\<lambda>_.
                pure_svc (Inr (projection_view (ct_seller_projection ct)))))))))))))"

section \<open>Proposing and accepting offers\<close>

fun offer_status_value :: "OfferApprovalStatus \<Rightarrow> string" where
  "offer_status_value OfferApprovalStatus.PENDING = ''PENDING''"
| "offer_status_value OfferApprovalStatus.APPROVED = ''APPROVED''"
| "offer_status_value OfferApprovalStatus.REJECTED = ''REJECTED''"
| "offer_status_value OfferApprovalStatus.REVOKED = ''REVOKED''"
| "offer_status_value OfferApprovalStatus.SUPERSEDED = ''SUPERSEDED''"

text \<open>The offer dumped in JSON mode: decimals and datetimes are texts.\<close>

definition offer_document :: "bilateral_env \<Rightarrow> OfferVersion \<Rightarrow> (pykey \<times> pyval) list" where
  "offer_document B v = map (\<lambda>(k, x). (KStr k, x))
     [(''schema_version'', PyStr ''offer.v1''), (''offer_id'', PyStr (ov_offer_id v)), (''case_id'', PyStr (ov_case_id v)),
      (''version'', PyInt (ov_version v)), (''proposer'', PyStr (party_value (ov_proposer v))),
      (''recipient'', PyStr (party_value (ov_recipient v))), (''predecessor_hash'', py_opt PyStr (ov_predecessor_hash v)),
      (''changed_terms'', PyList (map PyStr (ov_changed_terms v))), (''rationale'', PyStr (ov_rationale v)),
      (''currency'', PyStr (ov_currency v)),
      (''lines'', PyList (map (\<lambda>l. dict_str
         [(''item_id'', PyStr (ol_item_id l)), (''description'', PyStr (ol_description l)), (''quantity'', PyInt (ol_quantity l)),
          (''unit_price'', PyStr (dec_str (fst (ol_unit_price l)) (snd (ol_unit_price l))))]) (ov_lines v))),
      (''total'', PyStr (dec_str (fst (ov_total v)) (snd (ov_total v)))), (''expires_at'', PyStr (bl_iso B (ov_expires_at v))),
      (''requirement_hash'', PyStr (ov_requirement_hash v)), (''evidence_hash'', PyStr (ov_evidence_hash v)),
      (''approval_status'', PyStr (offer_status_value (ov_approval_status v))), (''offer_hash'', PyStr (ov_offer_hash v))]"

text \<open>\<^verbatim>\<open>str((document or {}).get(key, ''))\<close>, read as a hash: the text of a value that is no string is no hash.\<close>

definition hash_field :: "(pykey \<times> pyval) list option \<Rightarrow> string \<Rightarrow> string" where
  "hash_field d key =
     (case d of None \<Rightarrow> [] | Some kvs \<Rightarrow> (case map_of kvs (KStr key) of Some (PyStr s) \<Rightarrow> s | Some _ \<Rightarrow> ''?'' | None \<Rightarrow> []))"

definition proposal_stage ::
  "ExchangeState \<Rightarrow> ExchangeParty \<Rightarrow> offer_row option \<Rightarrow> (CommandType \<times> int \<times> string option) bt" where
  "proposal_stage state party latest =
     (if state = EVIDENCE_RELEASED \<and> party = BUYER then Inr (PROPOSE_OFFER, 1, None)
      else if state = OFFERED \<and> party = SELLER
      then (case latest of None \<Rightarrow> conflict ''the current offer is unavailable''
            | Some r \<Rightarrow> Inr (COUNTER_OFFER, ov_version (bo_terms r) + 1, Some (ov_offer_hash (bo_terms r))))
      else conflict ''this party cannot propose at the current stage'')"

record OfferInput =
  oi_currency :: string
  oi_lines :: "OfferLine list"
  oi_total :: "int \<times> int"
  oi_rationale :: string
  oi_changed_terms :: "string list"
  oi_expires_at :: datetime

definition other_party :: "ExchangeParty \<Rightarrow> ExchangeParty" where
  "other_party p = (if p = BUYER then SELLER else BUYER)"

definition propose_transaction ::
  "service_env \<Rightarrow> ExchangeRoute \<Rightarrow> string \<Rightarrow> ExchangeParty \<Rightarrow> string \<Rightarrow> string \<Rightarrow> int \<Rightarrow> string \<Rightarrow> OfferInput \<Rightarrow> (nat \<Rightarrow> string) \<Rightarrow>
     bdb \<Rightarrow> svc_error + ((CompiledTransition \<times> PartyProjection) \<times> bdb)" where
  "propose_transaction S route actor_id party case_id idem expected_version command_id x uuid db =
     (let B = sv_bilateral S; org = rt_buyer_org route in
      bindE (up (get_case org case_id db)) (\<lambda>exchange.
      bindE (up (read_state (bc_coordinator exchange))) (\<lambda>state.
      bindE (up (proposal_stage (cs_state state) party (latest_offer org case_id db))) (\<lambda>(command_type, version, predecessor).
      bindE (stable_id B ''offer'' [case_id]) (\<lambda>offer_id.
      bindE (up (contract (mk_OfferVersion (bl_hash B) (bl_price_ok B)
        \<lparr>ov_offer_id = offer_id, ov_case_id = case_id, ov_version = version, ov_proposer = party, ov_recipient = other_party party,
         ov_predecessor_hash = predecessor, ov_changed_terms = oi_changed_terms x, ov_rationale = oi_rationale x,
         ov_currency = oi_currency x, ov_lines = oi_lines x, ov_total = oi_total x, ov_expires_at = oi_expires_at x,
         ov_requirement_hash = hash_field (cs_requirement state) ''envelope_hash'',
         ov_evidence_hash = hash_field (cs_evidence state) ''evidence_hash'',
         ov_approval_status = OfferApprovalStatus.PENDING, ov_offer_hash = []\<rparr>))) (\<lambda>offer.
      bindE (up (compiled (mk_PartyCommand
        \<lparr>pc_id = command_id, pc_case_id = case_id, pc_party = party, pc_actor_id = actor_id, pc_command_type = command_type,
         pc_expected_version = expected_version, pc_idempotency_key = idem, pc_payload = offer_document B offer\<rparr>))) (\<lambda>c.
      bindE (up (store_offer B org offer db)) (\<lambda>(_, db1).
        record_and_advance B org uuid exchange c (party_organization route (Some party)) db1))))))))"

text \<open>A request that was applied before is answered from the stored projection; otherwise the transaction runs in the
  tenant of the buyer, and the seller's projection is published after it.\<close>

definition once ::
  "service_env \<Rightarrow> ExchangeRoute \<Rightarrow> ExchangeParty \<Rightarrow> string \<Rightarrow> datetime \<Rightarrow> string \<Rightarrow>
     (bdb \<Rightarrow> svc_error + ((CompiledTransition \<times> PartyProjection) \<times> bdb)) \<Rightarrow> pyval svc" where
  "once S route party command_id now uuid body =
     bindS (replayed_projection S route party command_id now) (\<lambda>replayed.
     case replayed of Some v \<Rightarrow> pure_svc (Inr v)
     | None \<Rightarrow>
         bindS (api_conflict (transaction (rt_buyer_org route) body)) (\<lambda>(ct, _).
         bindS (publish_compiled route uuid ct) (\<lambda>_.
           pure_svc (Inr (projection_view (if party = BUYER then ct_buyer_projection ct else ct_seller_projection ct))))))"

definition propose_offer ::
  "service_env \<Rightarrow> string \<Rightarrow> string \<Rightarrow> ExchangeParty option \<Rightarrow> string \<Rightarrow> string \<Rightarrow> string \<Rightarrow> int \<Rightarrow> OfferInput \<Rightarrow> bool \<Rightarrow>
     (nat \<Rightarrow> datetime) \<Rightarrow> (nat \<Rightarrow> string) \<Rightarrow> pyval svc" where
  "propose_offer S org actor_id party case_id token idem expected_version x guest clock uuid =
     bindS (pure_svc (decode_route S org party case_id token guest (clock 0))) (\<lambda>route.
     bindS (pure_svc (stable_id (sv_bilateral S) ''command'' [case_id, idem])) (\<lambda>command_id.
       once S route (the party) command_id (clock 1) (uuid 2)
         (propose_transaction S route actor_id (the party) case_id idem expected_version command_id x uuid)))"

definition accept_transaction ::
  "service_env \<Rightarrow> ExchangeRoute \<Rightarrow> string \<Rightarrow> ExchangeParty \<Rightarrow> string \<Rightarrow> string \<Rightarrow> int \<Rightarrow> string \<Rightarrow> string \<Rightarrow> datetime \<Rightarrow>
     (nat \<Rightarrow> string) \<Rightarrow> bdb \<Rightarrow> svc_error + ((CompiledTransition \<times> PartyProjection) \<times> bdb)" where
  "accept_transaction S route actor_id party case_id idem expected_version command_id offer_hash now uuid db =
     (let B = sv_bilateral S; org = rt_buyer_org route in
      bindE (up (get_case org case_id db)) (\<lambda>exchange.
      bindE (up (read_state (bc_coordinator exchange))) (\<lambda>state.
      case latest_offer org case_id db of
        None \<Rightarrow> up (conflict ''the accepted offer is not current'')
      | Some latest \<Rightarrow>
          if ov_offer_hash (bo_terms latest) \<noteq> offer_hash then up (conflict ''the accepted offer is not current'')
          else
            bindE (up (contract (mk_OfferVersion (bl_hash B) (bl_price_ok B) (bo_terms latest)))) (\<lambda>offer.
            bindE (up (contract (assert_actionable offer party now))) (\<lambda>_.
            bindE (up (compiled (mk_PartyCommand
              \<lparr>pc_id = command_id, pc_case_id = case_id, pc_party = party, pc_actor_id = actor_id,
               pc_command_type = (if cs_state state = OFFERED then ACCEPT_OFFER else ACCEPT_COUNTER),
               pc_expected_version = expected_version, pc_idempotency_key = idem,
               pc_payload = [(KStr ''offer_hash'', PyStr offer_hash)]\<rparr>))) (\<lambda>c.
              record_and_advance B org uuid exchange c (party_organization route (Some party)) db))))))"

definition accept_offer ::
  "service_env \<Rightarrow> string \<Rightarrow> string \<Rightarrow> ExchangeParty option \<Rightarrow> string \<Rightarrow> string \<Rightarrow> string \<Rightarrow> int \<Rightarrow> string \<Rightarrow> bool \<Rightarrow>
     (nat \<Rightarrow> datetime) \<Rightarrow> (nat \<Rightarrow> string) \<Rightarrow> pyval svc" where
  "accept_offer S org actor_id party case_id token idem expected_version offer_hash guest clock uuid =
     bindS (pure_svc (decode_route S org party case_id token guest (clock 0))) (\<lambda>route.
     bindS (pure_svc (stable_id (sv_bilateral S) ''command'' [case_id, idem])) (\<lambda>command_id.
       once S route (the party) command_id (clock 1) (uuid 2)
         (accept_transaction S route actor_id (the party) case_id idem expected_version command_id offer_hash (clock 1) uuid)))"

section \<open>Approval and handoff\<close>

definition approve_transaction ::
  "service_env \<Rightarrow> ExchangeRoute \<Rightarrow> string \<Rightarrow> string \<Rightarrow> string \<Rightarrow> string \<Rightarrow> int \<Rightarrow> string \<Rightarrow> string \<Rightarrow> datetime \<Rightarrow> datetime \<Rightarrow>
     (nat \<Rightarrow> string) \<Rightarrow> bdb \<Rightarrow> svc_error + ((CompiledTransition \<times> PartyProjection) \<times> bdb)" where
  "approve_transaction S route org actor_id case_id idem expected_version command_id offer_hash expires_at now uuid db =
     (let B = sv_bilateral S; buyer = rt_buyer_org route in
      bindE (up (get_case buyer case_id db)) (\<lambda>exchange.
      bindE (stable_id B ''offerapproval'' [case_id, idem]) (\<lambda>approval_id.
      bindE (up (contract (mk_OfferApproval
        \<lparr>oa_approval_id = approval_id, oa_case_id = case_id, oa_offer_hash = offer_hash, oa_approver_id = actor_id,
         oa_approved_at = now, oa_expires_at = expires_at\<rparr>))) (\<lambda>a.
      bindE (up (approve_offer B buyer a now db)) (\<lambda>(_, db1).
      bindE (up (hashed B (offer_approval_payload B a))) (\<lambda>approval_hash.
      bindE (up (compiled (mk_PartyCommand
        \<lparr>pc_id = command_id, pc_case_id = case_id, pc_party = SYSTEM, pc_actor_id = actor_id, pc_command_type = APPROVE_HANDOFF,
         pc_expected_version = expected_version, pc_idempotency_key = idem,
         pc_payload = [(KStr ''offer_hash'', PyStr offer_hash), (KStr ''approval_id'', PyStr approval_id),
           (KStr ''approval_hash'', PyStr approval_hash)]\<rparr>))) (\<lambda>c.
        record_and_advance B buyer uuid exchange c org db1)))))))"

definition exchange_approve_offer ::
  "service_env \<Rightarrow> string \<Rightarrow> string \<Rightarrow> ExchangeParty option \<Rightarrow> string \<Rightarrow> string \<Rightarrow> string \<Rightarrow> int \<Rightarrow> string \<Rightarrow> datetime \<Rightarrow> bool \<Rightarrow>
     (nat \<Rightarrow> datetime) \<Rightarrow> (nat \<Rightarrow> string) \<Rightarrow> pyval svc" where
  "exchange_approve_offer S org actor_id party case_id token idem expected_version offer_hash expires_at guest clock uuid =
     bindS (pure_svc (decode_route S org party case_id token guest (clock 0))) (\<lambda>route.
     if party \<noteq> Some BUYER then fails (ApiProblem ''BUYER_APPROVAL_REQUIRED'')
     else bindS (pure_svc (stable_id (sv_bilateral S) ''command'' [case_id, idem])) (\<lambda>command_id.
       once S route BUYER command_id (clock 2) (uuid 2)
         (approve_transaction S route org actor_id case_id idem expected_version command_id offer_hash expires_at (clock 1) uuid)))"

definition earliest :: "datetime list \<Rightarrow> datetime \<Rightarrow> datetime" where
  "earliest ts t = fold (\<lambda>a b. if micros a < micros b then a else b) ts t"

definition handoff_transaction ::
  "service_env \<Rightarrow> ExchangeRoute \<Rightarrow> string \<Rightarrow> int \<Rightarrow> string \<Rightarrow> datetime \<Rightarrow> bdb \<Rightarrow> svc_error + (handoff_row \<times> bdb)" where
  "handoff_transaction S route case_id expected_version offer_hash now db =
     (let B = sv_bilateral S; org = rt_buyer_org route in
      bindE (up (get_case org case_id db)) (\<lambda>exchange.
      if bc_version exchange \<noteq> expected_version \<or> bc_state exchange \<noteq> APPROVED_FOR_HANDOFF
      then up (conflict ''exchange is not approved at the expected version'')
      else case (find (\<lambda>r. bo_org r = org \<and> ov_case_id (bo_terms r) = case_id \<and> ov_offer_hash (bo_terms r) = offer_hash) (bl_offers db),
                 find (\<lambda>a. ba_org a = org \<and> oa_case_id (ba_approval a) = case_id \<and> oa_offer_hash (ba_approval a) = offer_hash)
                   (bl_approvals db)) of
          (Some offer, Some approval) \<Rightarrow>
            if bo_approval_status offer \<noteq> OfferApprovalStatus.APPROVED
            then up (conflict ''the exact offer has no current approval'')
            else
              bindE (stable_id B ''xhandoff'' [case_id, offer_hash]) (\<lambda>handoff_id.
              bindE (up (contract (mk_ExchangePaymentHandoff (bl_hash B) (bl_literal_ok B) (bl_price_ok B)
                \<lparr>eh_handoff_id = handoff_id, eh_case_id = case_id, eh_offer_hash = offer_hash,
                 eh_approval_hash = ba_approval_hash approval, eh_destination_url = rt_merchant_url route,
                 eh_recipient = rt_merchant_name route, eh_amount = ov_total (bo_terms offer),
                 eh_currency = ov_currency (bo_terms offer), eh_reference = ''SIRA-'' @ case_id, eh_created_at = now,
                 eh_expires_at = earliest [ov_expires_at (bo_terms offer), oa_expires_at (ba_approval approval)] (shift_seconds now 900),
                 eh_status = ExchangeHandoffStatus.READY, eh_opened_at = None, eh_handoff_hash = []\<rparr>))) (\<lambda>h.
                up (store_handoff org h db)))
        | _ \<Rightarrow> up (conflict ''the exact offer has no current approval'')))"

definition create_handoff ::
  "service_env \<Rightarrow> string \<Rightarrow> ExchangeParty option \<Rightarrow> string \<Rightarrow> string \<Rightarrow> int \<Rightarrow> string \<Rightarrow> bool \<Rightarrow> (nat \<Rightarrow> datetime) \<Rightarrow> pyval svc" where
  "create_handoff S org party case_id token expected_version offer_hash guest clock =
     bindS (pure_svc (decode_route S org party case_id token guest (clock 0))) (\<lambda>route.
     if party \<noteq> Some BUYER then fails (ApiProblem ''BUYER_HANDOFF_REQUIRED'')
     else bindS (api_conflict (transaction (rt_buyer_org route)
              (handoff_transaction S route case_id expected_version offer_hash (clock 1)))) (\<lambda>r.
            pure_svc (Inr (handoff_view (bh_handoff r)))))"

definition exchange_open_handoff ::
  "service_env \<Rightarrow> string \<Rightarrow> ExchangeParty option \<Rightarrow> string \<Rightarrow> string \<Rightarrow> string \<Rightarrow> string \<Rightarrow> bool \<Rightarrow> (nat \<Rightarrow> datetime) \<Rightarrow> pyval svc" where
  "exchange_open_handoff S org party case_id token handoff_id handoff_hash guest clock =
     bindS (pure_svc (decode_route S org party case_id token guest (clock 0))) (\<lambda>route.
     if party \<noteq> Some BUYER then fails (ApiProblem ''BUYER_HANDOFF_REQUIRED'')
     else bindS (api_conflict (transaction (rt_buyer_org route) (\<lambda>db.
            bindE (up (open_handoff (sv_bilateral S) (rt_buyer_org route) handoff_id handoff_hash (clock 1) db)) (\<lambda>(r, db').
              if eh_case_id (bh_handoff r) \<noteq> case_id then up (conflict ''handoff belongs to another exchange'') else Inr (r, db')))))
            (\<lambda>r. pure_svc (Inr (handoff_view (bh_handoff r)))))"

end
