(* ===== verification/ContractFacts.thy ===== *)
theory ContractFacts
  imports Contracts
begin

text \<open>
  What the contracts of \<open>Contracts\<close> promise: the total of an accepted offer is the exact sum of its
  lines although the program adds in rounded decimal arithmetic; a validated model is sealed by its hash,
  validating it again changes nothing; an approval or a counteroffer is accepted in exactly the stated cases;
  a release discloses the approved fields, transformed as approved, and nothing else.
\<close>

section \<open>Line arithmetic\<close>

lemma dec_rat_mono: "x \<le> y \<Longrightarrow> dec_rat x e \<le> dec_rat y e"
  by (simp add: dec_rat_def divide_right_mono mult_right_mono)

lemma dec_rat_le_iff: "dec_rat x e \<le> dec_rat y e \<longleftrightarrow> x \<le> y"
  by (simp add: dec_rat_def divide_le_cancel)

text \<open>Rounding a positive coefficient leaves at least the truncated one.\<close>

lemma dec_fix_truncates:
  assumes "0 < c" "dec_fix c e = (c', e')"
  shows "\<exists>k q. dec_rat c' e' = dec_rat q (e + int k) \<and> c div 10 ^ k \<le> q \<and> 0 < q \<and> 0 < c'"
proof (cases "ndigits (nat \<bar>c\<bar>) \<le> dec_prec")
  case True
  with assms show ?thesis by (intro exI [of _ 0] exI [of _ c]) (simp add: dec_fix_exact)
next
  case False
  define k where "k = ndigits (nat \<bar>c\<bar>) - dec_prec"
  define q where "q = div_half_even (nat \<bar>c\<bar>) (10 ^ k)"
  have k: "0 < k" using False by (simp add: k_def)
  have big: "10 ^ (dec_prec + k - 1) \<le> nat c"
    using False ndigits_le_iff [of "dec_prec + k - 1" "nat c"] assms(1) by (auto simp: k_def dec_prec_def)
  have fixed: "dec_fix c e = (if ndigits q > dec_prec then (signed c (q div 10), e + int k + 1)
      else (signed c q, e + int k))"
    unfolding dec_fix_def Let_def k_def [symmetric] q_def [symmetric] using k by simp
  have q: "nat c div 10 ^ k \<le> q" "q \<le> nat c div 10 ^ k + 1"
    using assms(1) by (simp_all add: q_def div_half_even_def Let_def)
  have "nat c < 10 ^ (dec_prec + k)" using ndigits_less [of "nat c"] False assms(1) by (simp add: k_def)
  then have "nat c div 10 ^ k < 10 ^ dec_prec" by (simp add: div_less_iff_less_mult power_add)
  with q(2) have upper: "q \<le> 10 ^ dec_prec" by linarith
  have "dec_prec + k - 1 = (dec_prec - 1) + k" by (simp add: dec_prec_def)
  with big have "10 ^ (dec_prec - 1) \<le> nat c div 10 ^ k"
    by (simp only: power_add) (simp add: less_eq_div_iff_mult_less_eq)
  with q(1) have pos: "10 ^ (dec_prec - 1) \<le> q" by linarith
  have "int (nat c div 10 ^ k) = c div 10 ^ k" using assms(1) by (simp add: zdiv_int)
  then have trunc: "c div 10 ^ k \<le> int q" using q(1) by (metis of_nat_le_iff)
  have qpos: "0 < q" using pos by (simp add: dec_prec_def)
  show ?thesis
  proof (cases "ndigits q > dec_prec")
    case True
    then have q10: "q = 10 ^ dec_prec" using upper ndigits_le_iff [of dec_prec q] by (simp add: dec_prec_def)
    then have "dec_rat (int (q div 10)) (e + int k + 1) = dec_rat (int q) (e + int k)"
      using q10 dec_rat_pow [of "e + int k" "e + int k + 1" "int (q div 10)"] by (simp add: dec_prec_def)
    moreover have "0 < q div 10" using q10 by (simp add: dec_prec_def)
    ultimately show ?thesis
      using True assms trunc qpos by (intro exI [of _ k] exI [of _ "int q"]) (simp add: fixed signed_def)
  next
    case False
    then show ?thesis
      using assms trunc qpos by (intro exI [of _ k] exI [of _ "int q"]) (simp add: fixed signed_def)
  qed
qed

text \<open>It never takes a value below a power of ten it had reached.\<close>

lemma dec_fix_lower:
  assumes "0 < c" "dec_fix c e = (c', e')" "dec_rat 1 n \<le> dec_rat c e"
  shows "dec_rat 1 n \<le> dec_rat c' e'"
proof -
  obtain k q where q: "dec_rat c' e' = dec_rat q (e + int k)" "c div 10 ^ k \<le> q" "0 < q"
    using dec_fix_truncates [OF assms(1,2)] by blast
  show ?thesis
  proof (cases "n \<le> e + int k")
    case True
    have "dec_rat 1 n \<le> dec_rat (10 ^ nat (e + int k - n)) n" by (rule dec_rat_mono) simp
    also have "\<dots> = dec_rat 1 (e + int k)" using dec_rat_pow [OF True, of 1] by simp
    also have "\<dots> \<le> dec_rat q (e + int k)" using q(3) by (intro dec_rat_mono) simp
    finally show ?thesis by (simp add: q(1))
  next
    case False
    define d where "d = nat (n - (e + int k))"
    have d: "n = e + int k + int d" "e \<le> n" "nat (n - e) = d + k" using False by (auto simp: d_def)
    have "dec_rat 1 n = dec_rat (10 ^ (d + k)) e" using dec_rat_pow [OF d(2), of 1] d(3) by simp
    with assms(3) have "10 ^ (d + k) \<le> c" by (simp add: dec_rat_le_iff)
    then have "10 ^ d * 10 ^ k div 10 ^ k \<le> c div 10 ^ k" by (intro zdiv_mono1) (simp_all add: power_add)
    then have "10 ^ d \<le> c div 10 ^ k" by simp
    with q(2) have "10 ^ d \<le> q" by linarith
    then have "dec_rat (10 ^ d) (e + int k) \<le> dec_rat q (e + int k)" by (rule dec_rat_mono)
    moreover have "dec_rat 1 n = dec_rat (10 ^ d) (e + int k)" using dec_rat_pow [of "e + int k" n 1] d(1) by simp
    ultimately show ?thesis by (simp add: q(1))
  qed
qed

text \<open>A decimal stands for a number of cents, or both have left the range of prices.\<close>

definition tracks :: "int \<times> int \<Rightarrow> int \<Rightarrow> bool" where
  "tracks a k \<longleftrightarrow> 0 \<le> k \<and> 0 \<le> fst a \<and> (amount_rat a = dec_rat k (-2) \<or> 10 ^ 20 \<le> k \<and> dec_rat 1 18 \<le> amount_rat a)"

lemma dec_rat_18: "dec_rat 1 18 = dec_rat (10 ^ 20) (-2)"
  using dec_rat_pow [of "-2" 18 1] by simp

lemma tracks_fix:
  assumes "0 \<le> c" "0 \<le> k" "dec_rat c e = dec_rat k (-2) \<or> 10 ^ 20 \<le> k \<and> dec_rat 1 18 \<le> dec_rat c e"
  shows "tracks (dec_fix c e) k"
proof (cases "c = 0")
  case True
  then have zero: "dec_fix c e = (0, e)" using ndigits_le_iff [of dec_prec 0] by (simp add: dec_fix_exact dec_prec_def)
  show ?thesis unfolding tracks_def zero amount_rat_def fst_conv snd_conv
    using assms(2,3) unfolding True by blast
next
  case False
  then have c: "0 < c" using assms(1) by simp
  obtain c' e' where f: "dec_fix c e = (c', e')" by fastforce
  have pos: "0 < c'" using dec_fix_truncates [OF c f] by blast
  show ?thesis
  proof (cases "dec_rat c e = dec_rat k (-2) \<and> k < 10 ^ dec_prec")
    case True
    then have "dec_rat c' e' = dec_rat k (-2)" using dec_fix_rat [of k c e c' e'] c f by simp
    then show ?thesis using f assms(2) pos by (simp add: tracks_def amount_rat_def)
  next
    case False
    then have k: "10 ^ 20 \<le> k" using assms(3) by (auto simp: dec_prec_def)
    then have "dec_rat 1 18 \<le> dec_rat k (-2)" unfolding dec_rat_18 by (rule dec_rat_mono)
    then have "dec_rat 1 18 \<le> dec_rat c e" using assms(3) by auto
    then show ?thesis using dec_fix_lower [OF c f] f pos k by (simp add: tracks_def amount_rat_def)
  qed
qed

lemma tracks_add:
  assumes "tracks a j" "tracks b k"
  shows "tracks (dec_add a b) (j + k)"
proof -
  define m where "m = min (snd a) (snd b)"
  let ?c = "dec_align (fst a) (snd a) m + dec_align (fst b) (snd b) m"
  have exact: "dec_rat ?c m = amount_rat a + amount_rat b"
  proof -
    have "dec_rat (x + y) m = dec_rat x m + dec_rat y m" for x y
      by (simp add: dec_rat_def add_divide_distrib distrib_right)
    moreover have "amount_rat a = dec_rat (dec_align (fst a) (snd a) m) m" "amount_rat b = dec_rat (dec_align (fst b) (snd b) m) m"
      using dec_rat_pow [of m "snd a" "fst a"] dec_rat_pow [of m "snd b" "fst b"]
      by (simp_all add: amount_rat_def dec_align_def m_def)
    ultimately show ?thesis by simp
  qed
  have nonneg: "0 \<le> amount_rat a" "0 \<le> amount_rat b" "0 \<le> ?c"
    using assms by (auto simp: tracks_def amount_rat_def dec_align_def dec_rat_def)
  have cents: "dec_rat (j + k) (-2) = dec_rat j (-2) + dec_rat k (-2)" by (simp add: dec_rat_def add_divide_distrib)
  have "tracks (dec_fix ?c m) (j + k)"
  proof (rule tracks_fix)
    show "0 \<le> j + k" using assms by (simp add: tracks_def)
    show "dec_rat ?c m = dec_rat (j + k) (-2) \<or> 10 ^ 20 \<le> j + k \<and> dec_rat 1 18 \<le> dec_rat ?c m"
      using assms nonneg(1,2) by (auto simp: exact cents tracks_def)
  qed (rule nonneg(3))
  then show ?thesis by (simp add: dec_add_def Let_def m_def)
qed

text \<open>The documented meaning of a decimal field with a lower bound of zero, at most 20 digits and two decimal
  places: the value is a number of cents of at most 20 digits.\<close>

definition price_field :: "(int \<times> int \<Rightarrow> bool) \<Rightarrow> bool" where
  "price_field price_ok \<longleftrightarrow>
     (\<forall>a. price_ok a \<longrightarrow> 0 \<le> fst a \<and> (\<exists>k. 0 \<le> k \<and> k < 10 ^ 20 \<and> amount_rat a = dec_rat k (-2)))"

definition exact_total :: "OfferLine list \<Rightarrow> rat" where
  "exact_total ls = (\<Sum>l \<leftarrow> ls. amount_rat (ol_unit_price l) * of_int (ol_quantity l))"

lemma dec_rat_scale: "dec_rat (c * q) e = dec_rat c e * of_int q"
  by (simp add: dec_rat_def)

lemma subtotal_tracks:
  assumes "price_field price_ok" "price_ok (ol_unit_price l)" "1 \<le> ol_quantity l"
  shows "\<exists>k. tracks (subtotal l) k \<and> dec_rat k (-2) = amount_rat (ol_unit_price l) * of_int (ol_quantity l)"
proof -
  obtain k where k: "0 \<le> k" "amount_rat (ol_unit_price l) = dec_rat k (-2)" "0 \<le> fst (ol_unit_price l)"
    using assms(1,2) unfolding price_field_def by blast
  have "tracks (subtotal l) (k * ol_quantity l)" unfolding subtotal_def
    by (rule tracks_fix) (use k assms(3) in \<open>auto simp: dec_rat_scale amount_rat_def\<close>)
  then show ?thesis using k(2) by (auto simp: dec_rat_scale)
qed

lemma lines_total_tracks:
  assumes "price_field price_ok" "\<forall>l \<in> set ls. price_ok (ol_unit_price l) \<and> 1 \<le> ol_quantity l" "tracks acc j"
  shows "\<exists>k. tracks (fold (\<lambda>l acc. dec_add acc (subtotal l)) ls acc) k \<and> dec_rat k (-2) = dec_rat j (-2) + exact_total ls"
  using assms(2,3)
proof (induction ls arbitrary: acc j)
  case Nil
  then show ?case by (auto simp: exact_total_def)
next
  case (Cons l ls)
  obtain k where k: "tracks (subtotal l) k" "dec_rat k (-2) = amount_rat (ol_unit_price l) * of_int (ol_quantity l)"
    using subtotal_tracks [OF assms(1)] Cons.prems(1) by auto
  have "dec_rat (j + k) (-2) = dec_rat j (-2) + dec_rat k (-2)" by (simp add: dec_rat_def add_divide_distrib)
  with Cons.IH [OF _ tracks_add [OF Cons.prems(2) k(1)]] Cons.prems(1) k(2) show ?case
    by (auto simp: exact_total_def)
qed

text \<open>The total that the validator accepts is the exact sum: rounding neither makes a wrong total pass nor a right one fail.\<close>

lemma lines_total_iff:
  assumes "price_field price_ok" "\<forall>l \<in> set ls. price_ok (ol_unit_price l) \<and> 1 \<le> ol_quantity l" "price_ok t"
  shows "amount_rat (lines_total ls) = amount_rat t \<longleftrightarrow> amount_rat t = exact_total ls"
proof -
  have "tracks (0, 0) 0" by (simp add: tracks_def amount_rat_def dec_rat_def)
  then obtain k where k: "tracks (lines_total ls) k" "dec_rat k (-2) = exact_total ls"
    using lines_total_tracks [OF assms(1,2), of "(0, 0)" 0] by (auto simp: lines_total_def dec_rat_def)
  obtain j where j: "j < 10 ^ 20" "amount_rat t = dec_rat j (-2)" using assms(1,3) unfolding price_field_def by blast
  have small: "\<not> dec_rat 1 18 \<le> amount_rat t" using j unfolding dec_rat_18 by (simp add: dec_rat_le_iff)
  show ?thesis
  proof
    assume "amount_rat (lines_total ls) = amount_rat t"
    then show "amount_rat t = exact_total ls" using k small by (auto simp: tracks_def)
  next
    assume t: "amount_rat t = exact_total ls"
    have "\<not> 10 ^ 20 \<le> k"
    proof
      assume "10 ^ 20 \<le> k"
      then have "dec_rat 1 18 \<le> dec_rat k (-2)" unfolding dec_rat_18 by (rule dec_rat_mono)
      then show False using small t k(2) by simp
    qed
    then show "amount_rat (lines_total ls) = amount_rat t" using k t by (auto simp: tracks_def)
  qed
qed

section \<open>Values that can be hashed\<close>

fun text_key :: "pykey \<Rightarrow> bool" where
  "text_key (KStr _) = True"
| "text_key (KOther _) = False"

fun plain :: "pyval \<Rightarrow> bool" where
  "plain (PyDict kvs) = list_all (\<lambda>kv. text_key (fst kv) \<and> plain (snd kv)) kvs"
| "plain (PyList xs) = list_all plain xs"
| "plain (PyTuple xs) = list_all plain xs"
| "plain (PyObj fs) = list_all (\<lambda>kv. plain (snd kv)) fs"
| "plain (PyDatetime d) = tz_aware d"
| "plain (PyDec d) = (case d of DFin _ _ \<Rightarrow> True | _ \<Rightarrow> False)"
| "plain (PyFloat _) = False"
| "plain (PyBytes _) = False"
| "plain (PySet _) = False"
| "plain _ = True"

lemma decimal_canonical_total: "\<exists>t. decimal_canonical_text (DFin c e) = Inr t"
  by (auto simp: decimal_canonical_text_def Let_def split: prod.splits)

lemma plain_normalizes:
  "plain v \<Longrightarrow> \<exists>j. normalize ex v = Inr j"
  "list_all plain xs \<Longrightarrow> \<exists>js. normalize_list ex xs = Inr js"
  "list_all (\<lambda>kv. plain (snd kv)) fs \<Longrightarrow> \<exists>js. normalize_fields ex fs = Inr js"
  "list_all (\<lambda>kv. text_key (fst kv) \<and> plain (snd kv)) kvs \<Longrightarrow> \<exists>js. normalize_items ex kvs = Inr js"
proof (induction ex v and ex xs and ex fs and ex kvs rule: normalize_normalize_list_normalize_fields_normalize_items.induct)
  case (7 ex d)
  then show ?case using decimal_canonical_total by (cases d) (auto simp: bindE_Inr_conv)
qed (auto simp: datetime_text_def bindE_Inr_conv)

section \<open>Validated models\<close>

lemma check_all_Inr [simp, res_simps]: "check_all cs = Inr u \<longleftrightarrow> list_all fst cs"
  by (induction cs rule: check_all.induct) auto

lemma in_model_Inr [simp, res_simps]: "in_model m = Inr x \<longleftrightarrow> m = Inr x"
  by (cases m) auto

lemma require_tz_Inr [simp, res_simps]: "require_tz t n = Inr u \<longleftrightarrow> tz_aware t"
  by (simp add: require_tz_def)

lemma seal_model_Inr [res_simps]:
  "seal_model E p g m = Inr s \<longleftrightarrow> content_hash E p = Inr s \<and> (g = [] \<or> g = s)"
  by (auto simp: seal_model_def bindE_Inr_conv split: if_splits)

lemma offer_payload_simps [simp]:
  "offer_payload (v\<lparr>ov_offer_hash := s\<rparr>) = offer_payload v"
  "offer_payload (v\<lparr>ov_approval_status := st\<rparr>) = offer_payload v"
  by (simp_all add: offer_payload_def)

lemma offer_checks_simps [simp]:
  "offer_checks price_ok (v\<lparr>ov_offer_hash := s\<rparr>) = offer_checks price_ok v"
  "offer_checks price_ok (v\<lparr>ov_approval_status := st\<rparr>) = offer_checks price_ok v"
  by (simp_all add: offer_checks_def)

lemma mk_OfferVersion_Inr:
  "mk_OfferVersion E price_ok v = Inr w \<longleftrightarrow>
     list_all fst (offer_checks price_ok v) \<and>
     (\<exists>s. content_hash E (offer_payload v) = Inr s \<and> (ov_offer_hash v = [] \<or> ov_offer_hash v = s) \<and> w = v\<lparr>ov_offer_hash := s\<rparr>)"
  by (auto simp: mk_OfferVersion_def res_simps)

text \<open>A sealed offer: validating it again gives it back.\<close>

definition sealed_offer :: "hash_env \<Rightarrow> (int \<times> int \<Rightarrow> bool) \<Rightarrow> OfferVersion \<Rightarrow> bool" where
  "sealed_offer E price_ok v \<longleftrightarrow> mk_OfferVersion E price_ok v = Inr v"

lemma mk_OfferVersion_sealed: "mk_OfferVersion E price_ok v = Inr w \<Longrightarrow> sealed_offer E price_ok w"
  by (auto simp: sealed_offer_def mk_OfferVersion_Inr)

lemma sealed_offerD:
  assumes "sealed_offer E price_ok v"
  shows "list_all fst (offer_checks price_ok v)" "content_hash E (offer_payload v) = Inr (ov_offer_hash v)"
proof -
  from assms obtain s where "list_all fst (offer_checks price_ok v)" "content_hash E (offer_payload v) = Inr s"
    "v = v\<lparr>ov_offer_hash := s\<rparr>" unfolding sealed_offer_def mk_OfferVersion_Inr by blast
  moreover from this(3) have "ov_offer_hash v = s" by (metis OfferVersion.select_convs(16) OfferVersion.surjective OfferVersion.update_convs(16))
  ultimately show "list_all fst (offer_checks price_ok v)" "content_hash E (offer_payload v) = Inr (ov_offer_hash v)" by auto
qed

lemma offer_checksD:
  assumes "list_all fst (offer_checks price_ok v)"
  shows "1 \<le> ov_version v" "ov_lines v \<noteq> []" "price_ok (ov_total v)"
    "\<forall>l \<in> set (ov_lines v). price_ok (ol_unit_price l) \<and> 1 \<le> ol_quantity l"
    "ov_proposer v \<noteq> SYSTEM" "ov_recipient v \<noteq> SYSTEM" "ov_proposer v \<noteq> ov_recipient v"
    "ov_version v = 1 \<longleftrightarrow> ov_predecessor_hash v = None" "tz_aware (ov_expires_at v)"
    "amount_rat (lines_total (ov_lines v)) = amount_rat (ov_total v)"
  using assms by (auto simp: offer_checks_def line_checks_def party_check_def tz_check_def list_all_iff)

lemma sealed_total:
  assumes "price_field price_ok" "sealed_offer E price_ok v"
  shows "amount_rat (ov_total v) = exact_total (ov_lines v)"
  using offer_checksD [OF sealed_offerD(1) [OF assms(2)]] by (subst lines_total_iff [OF assms(1), symmetric]) auto

section \<open>Approvals and counteroffers\<close>

lemma authorize_Inr:
  assumes "sealed_offer E price_ok v"
  shows "authorize E price_ok a v now = Inr w \<longleftrightarrow>
     tz_aware now \<and> oa_case_id a = ov_case_id v \<and> oa_offer_hash a = ov_offer_hash v \<and>
     micros now < micros (oa_expires_at a) \<and> micros now < micros (ov_expires_at v) \<and>
     ov_approval_status v = OfferApprovalStatus.PENDING \<and> w = v\<lparr>ov_approval_status := OfferApprovalStatus.APPROVED\<rparr>"
proof -
  have "mk_OfferVersion E price_ok (v\<lparr>ov_approval_status := OfferApprovalStatus.APPROVED, ov_offer_hash := []\<rparr>) = Inr w \<longleftrightarrow>
      w = v\<lparr>ov_approval_status := OfferApprovalStatus.APPROVED\<rparr>"
    using sealed_offerD [OF assms] by (auto simp: mk_OfferVersion_Inr)
  then show ?thesis by (auto simp: authorize_def res_simps)
qed

lemma validate_counteroffer_Inr:
  "validate_counteroffer p c = Inr u \<longleftrightarrow>
     ov_case_id c = ov_case_id p \<and> ov_offer_id c = ov_offer_id p \<and> ov_version c = ov_version p + 1 \<and>
     ov_predecessor_hash c = Some (ov_offer_hash p) \<and> ov_proposer c = ov_recipient p \<and> ov_recipient c = ov_proposer p \<and>
     set (ov_changed_terms c) = set (actual_changes p c)"
  by (auto simp: validate_counteroffer_def)

section \<open>Releases\<close>

definition disclosed :: "ReleaseManifest \<Rightarrow> (string \<times> pyval) list \<Rightarrow> string \<Rightarrow> string \<times> pyval \<Rightarrow> bool" where
  "disclosed m source f kv \<longleftrightarrow> fst kv = f \<and>
     (\<exists>u. map_of source f = Some u \<and> transform_value (transformation_of m f) u = Inr (snd kv))"

lemma disclosed_fst: "list_all2 (disclosed m source) fs kvs \<Longrightarrow> map fst kvs = fs"
  by (induction rule: list_all2_induct) (auto simp: disclosed_def)

lemma disclosed_iff:
  "list_all2 (disclosed m source) fs kvs \<longleftrightarrow> map fst kvs = fs \<and>
     (\<forall>(f, v) \<in> set kvs. \<exists>u. map_of source f = Some u \<and> transform_value (transformation_of m f) u = Inr v)"
proof (induction kvs arbitrary: fs)
  case (Cons kv kvs)
  then show ?case by (cases fs) (auto simp: disclosed_def)
qed auto

lemma mk_ReleaseManifest_Inr:
  "mk_ReleaseManifest E m = Inr w \<longleftrightarrow>
     list_all fst (manifest_checks m) \<and> content_hash E (approval_payload m) = Inr (rm_approved_payload_hash m) \<and>
     (\<exists>s. content_hash E (manifest_payload m) = Inr s \<and> (rm_manifest_hash m = [] \<or> rm_manifest_hash m = s) \<and>
        w = m\<lparr>rm_manifest_hash := s\<rparr>)"
  by (auto simp: mk_ReleaseManifest_def res_simps split: if_splits)

lemma manifest_fields:
  assumes "mk_ReleaseManifest E m = Inr w"
  shows "distinct (rm_fields w)" "rm_fields w \<noteq> []" "\<forall>f \<in> set (rm_fields w). \<not> contract_private_key f"
    "rm_owner w \<noteq> rm_recipient w" "tz_aware (rm_expires_at w)"
    "content_hash E (approval_payload w) = Inr (rm_approved_payload_hash w)"
  using assms by (auto simp: mk_ReleaseManifest_Inr manifest_checks_def tz_check_def list_all_iff approval_payload_def approval_entries_def)

lemma mapE_disclosed:
  assumes "\<forall>f \<in> set fs. map_of source f \<noteq> None"
  shows "mapE (\<lambda>f. bindE (transform_value (transformation_of m f) (the (map_of source f))) (\<lambda>v. Inr (f, v))) fs = Inr kvs \<longleftrightarrow>
    list_all2 (disclosed m source) fs kvs"
  using assms
proof (induction fs arbitrary: kvs)
  case (Cons f fs)
  then show ?case by (cases kvs) (auto simp: res_simps disclosed_def)
qed auto

lemma release_Inr:
  assumes "distinct (rm_fields m)"
  shows "release m source now = Inr out \<longleftrightarrow>
     tz_aware now \<and> rm_status m = ReleaseStatus.ACTIVE \<and> micros now < micros (rm_expires_at m) \<and>
     list_all2 (disclosed m source) (rm_fields m) out \<and> \<not> private_tree (dict_str out)"
proof (cases "\<forall>f \<in> set (rm_fields m). map_of source f \<noteq> None")
  case True
  then have none: "sorted_set (filter (\<lambda>f. map_of source f = None) (rm_fields m)) = []" by (simp add: filter_empty_conv)
  have same: "dict_of kvs = kvs" if "list_all2 (disclosed m source) (rm_fields m) kvs" for kvs
    using disclosed_fst [OF that] assms by (simp add: dict_of_distinct)
  show ?thesis
    unfolding release_def none by (auto simp: bindE_Inr_conv mapE_disclosed [OF True] Let_def same intro!: exI [of _ out])
next
  case False
  then have some: "sorted_set (filter (\<lambda>f. map_of source f = None) (rm_fields m)) \<noteq> []" by (auto simp: filter_empty_conv)
  moreover have "\<not> list_all2 (disclosed m source) (rm_fields m) out"
    using False list_all2_memL [of "disclosed m source" "rm_fields m" out] by (fastforce simp: disclosed_def)
  ultimately show ?thesis by (auto simp: release_def res_simps Let_def)
qed

end
