(* ===== verification/NegotiationFacts.thy ===== *)
theory NegotiationFacts
  imports Negotiation ContractFacts Transitions
begin

text \<open>
  The transactions of the exchange repository as a step relation, and what every run of them keeps: the
  offers of a case form one chain of sealed counteroffers of which at most the last is open or approved,
  an approval binds a stored offer and ends the negotiation, the journal of a case replays to its state,
  and every envelope is covered by a release manifest.
\<close>

inductive bilateral_step :: "bilateral_env \<Rightarrow> bdb \<Rightarrow> bdb \<Rightarrow> bool" for B where
  step_create: "create_case B org i seller db = Inr (r, db') \<Longrightarrow> bilateral_step B db db'"
| step_append: "mk_PartyCommand c0 = Inr c \<Longrightarrow> append_command B org c db = Inr (q, db') \<Longrightarrow> bilateral_step B db db'"
| step_apply: "mk_PartyCommand c0 = Inr c \<Longrightarrow> get_case org i db = Inr x \<Longrightarrow>
    apply_command B org uuid x c corg db = Inr (ct, db') \<Longrightarrow> bilateral_step B db db'"
| step_project: "publish_projection org uuid p db = Inr (pr, db') \<Longrightarrow> bilateral_step B db db'"
| step_manifest: "mk_ReleaseManifest (bl_hash B) m0 = Inr m \<Longrightarrow> store_release_manifest org m db = Inr (mr, db') \<Longrightarrow>
    bilateral_step B db db'"
| step_envelope: "mk_ExchangeEnvelope (bl_hash B) e0 = Inr e \<Longrightarrow> store_envelope org e db = Inr (er, db') \<Longrightarrow> bilateral_step B db db'"
| step_receipt: "mk_ExchangeReceipt x0 = Inr xr \<Longrightarrow> acknowledge_envelope org xr db = Inr (rr, db') \<Longrightarrow> bilateral_step B db db'"
| step_offer: "mk_OfferVersion (bl_hash B) (bl_price_ok B) v0 = Inr v \<Longrightarrow> store_offer B org v db = Inr (orow, db') \<Longrightarrow>
    bilateral_step B db db'"
| step_approve: "mk_OfferApproval a0 = Inr a \<Longrightarrow> approve_offer B org a now db = Inr (ar, db') \<Longrightarrow> bilateral_step B db db'"
| step_handoff: "mk_ExchangePaymentHandoff (bl_hash B) (bl_literal_ok B) (bl_price_ok B) h0 = Inr h \<Longrightarrow>
    store_handoff org h db = Inr (hr, db') \<Longrightarrow> bilateral_step B db db'"
| step_open: "open_handoff B org i eh now db = Inr (hr, db') \<Longrightarrow> bilateral_step B db db'"

definition empty_bdb :: bdb where
  "empty_bdb = \<lparr>bl_cases = [], bl_commands = [], bl_transitions = [], bl_projections = [], bl_manifests = [],
     bl_envelopes = [], bl_receipts = [], bl_offers = [], bl_approvals = [], bl_handoffs = []\<rparr>"

section \<open>Rows and keys\<close>

lemma lift_Inr [simp, res_simps]:
  "persist p = Inr x \<longleftrightarrow> p = Inr x" "contract c = Inr x \<longleftrightarrow> c = Inr x" "compiled e = Inr x \<longleftrightarrow> e = Inr x"
  by (cases p; cases c; cases e; simp)+

lemma hashing_Inr [simp, res_simps]: "hashing m = Inr x \<longleftrightarrow> m = Inr x"
  by (cases m) auto

lemma insert_row_Inr [simp, res_simps]: "insert_row same r rows = Inr rs \<longleftrightarrow> (\<forall>x \<in> set rows. \<not> same r x) \<and> rs = rows @ [r]"
  by (auto simp: insert_row_def list_ex_iff)

section \<open>The chain of offers\<close>

definition counters :: "offer_row \<Rightarrow> offer_row \<Rightarrow> bool" where
  "counters p c \<longleftrightarrow> validate_counteroffer (bo_terms p) (bo_terms c) = Inr () \<and>
     bo_approval_status p = OfferApprovalStatus.SUPERSEDED"

definition chained :: "bilateral_env \<Rightarrow> offer_row list \<Rightarrow> bool" where
  "chained B rows \<longleftrightarrow>
     list_all (\<lambda>r. sealed_offer (bl_hash B) (bl_price_ok B) (bo_terms r)) rows \<and>
     map (\<lambda>r. ov_version (bo_terms r)) rows = map int [1..<Suc (length rows)] \<and> successively counters rows"

definition offer_inv :: "bilateral_env \<Rightarrow> bdb \<Rightarrow> bool" where
  "offer_inv B db \<longleftrightarrow> distinct (map bo_id (bl_offers db)) \<and> (\<forall>org i. chained B (offers_of org i db))"

lemma chained_Nil [simp]: "chained B []"
  by (simp add: chained_def)

lemma chained_one:
  "sealed_offer (bl_hash B) (bl_price_ok B) (bo_terms r) \<Longrightarrow> ov_version (bo_terms r) = 1 \<Longrightarrow> chained B [r]"
  by (simp add: chained_def)

lemma chained_snoc:
  assumes "chained B (ps @ [p])" "bo_terms q = bo_terms p" "counters q c"
    "sealed_offer (bl_hash B) (bl_price_ok B) (bo_terms c)"
  shows "chained B ((ps @ [q]) @ [c])"
proof -
  have v: "map (\<lambda>r. ov_version (bo_terms r)) (ps @ [q]) = map int [1..<Suc (length (ps @ [q]))]"
    using assms(1,2) by (simp add: chained_def)
  have "ov_version (bo_terms c) = ov_version (bo_terms q) + 1"
    using assms(3) by (simp add: counters_def validate_counteroffer_Inr)
  moreover have "ov_version (bo_terms q) = int (length ps) + 1" using v numbered_snoc [of _ ps q] by simp
  ultimately have "map (\<lambda>r. ov_version (bo_terms r)) ((ps @ [q]) @ [c]) = map int [1..<Suc (length ((ps @ [q]) @ [c]))]"
    unfolding numbered_snoc using v by simp
  moreover have "successively counters ((ps @ [q]) @ [c])"
  proof -
    have "successively counters (ps @ [p])" using assms(1) by (simp add: chained_def)
    then have "successively counters (ps @ [q])"
      using assms(2) by (auto simp: successively_append_iff counters_def)
    then show ?thesis using assms(3) by (simp add: successively_append_iff)
  qed
  ultimately show ?thesis using assms(1,2,4) by (simp add: chained_def)
qed

lemma chained_status:
  assumes "chained B (ps @ [p])" "bo_terms q = bo_terms p"
  shows "chained B (ps @ [q])"
  using assms by (auto simp: chained_def successively_append_iff counters_def)

lemma latest_offer_chained:
  "chained B (offers_of org i db) \<Longrightarrow>
     latest_offer org i db = (if offers_of org i db = [] then None else Some (last (offers_of org i db)))"
  by (simp add: latest_offer_def newest_numbered(1) chained_def)

lemma offers_of_mem: "r \<in> set (offers_of org i db) \<longleftrightarrow> r \<in> set (bl_offers db) \<and> bo_org r = org \<and> ov_case_id (bo_terms r) = i"
  by (auto simp: offers_of_def)

lemma offers_of_status:
  "offers_of org i (set_offer_status j st db) =
     map (\<lambda>r. if bo_id r = j then r\<lparr>bo_approval_status := st\<rparr> else r) (offers_of org i db)"
  by (simp add: offers_of_def set_offer_status_def filter_update)

lemma offers_of_distinct: "distinct (map bo_id (bl_offers db)) \<Longrightarrow> distinct (map bo_id (offers_of org i db))"
  by (simp add: offers_of_def distinct_map_filter)

text \<open>A change of the status of the last offer of a case touches no other offer.\<close>

lemma offers_of_last_status:
  assumes "distinct (map bo_id (bl_offers db))" "offers_of org i db = ps @ [p]"
  shows "offers_of org i (set_offer_status (bo_id p) st db) = ps @ [p\<lparr>bo_approval_status := st\<rparr>]"
    and "(org', i') \<noteq> (org, i) \<Longrightarrow> offers_of org' i' (set_offer_status (bo_id p) st db) = offers_of org' i' db"
proof -
  have "distinct (map bo_id (ps @ [p]))" using offers_of_distinct [OF assms(1), of org i] assms(2) by simp
  then have "bo_id p \<notin> bo_id ` set ps" by auto
  then show "offers_of org i (set_offer_status (bo_id p) st db) = ps @ [p\<lparr>bo_approval_status := st\<rparr>]"
    unfolding offers_of_status assms(2) by (simp add: map_update_id)
  assume other: "(org', i') \<noteq> (org, i)"
  have p: "p \<in> set (bl_offers db)" "bo_org p = org" "ov_case_id (bo_terms p) = i"
    using offers_of_mem [of p org i db] assms(2) by auto
  have "bo_id p \<notin> bo_id ` set (offers_of org' i' db)"
  proof
    assume "bo_id p \<in> bo_id ` set (offers_of org' i' db)"
    then obtain r where "r \<in> set (bl_offers db)" "bo_org r = org'" "ov_case_id (bo_terms r) = i'" "bo_id r = bo_id p"
      by (auto simp: offers_of_mem)
    then show False using p other assms(1) by (metis distinct_map inj_on_eq_iff)
  qed
  then show "offers_of org' i' (set_offer_status (bo_id p) st db) = offers_of org' i' db"
    unfolding offers_of_status by (simp add: map_update_id)
qed

text \<open>Storing an offer returns a stored one, opens a negotiation, or appends to it and supersedes the last.\<close>

lemma add_offer_Inr:
  "add_offer org v db = Inr (r, db') \<longleftrightarrow>
     r = \<lparr>bo_id = offer_row_id v, bo_org = org, bo_terms = v, bo_approval_status = ov_approval_status v\<rparr> \<and>
     (\<forall>x \<in> set (bl_offers db). \<not> same_offer r x) \<and> db' = db\<lparr>bl_offers := bl_offers db @ [r]\<rparr>"
  by (auto simp: add_offer_def res_simps Let_def)

lemma store_offer_cases:
  assumes "store_offer B org v db = Inr (r, db')" "offer_inv B db"
  obtains (known) "db' = db" "r \<in> set (bl_offers db)"
  | (first) "offers_of org (ov_case_id v) db = []" "ov_version v = 1" "add_offer org v db = Inr (r, db')"
  | (counter) ps p where "offers_of org (ov_case_id v) db = ps @ [p]" "validate_counteroffer (bo_terms p) v = Inr ()"
      "bo_approval_status p \<noteq> OfferApprovalStatus.APPROVED"
      "add_offer org v (set_offer_status (bo_id p) OfferApprovalStatus.SUPERSEDED db) = Inr (r, db')"
proof -
  let ?rows = "offers_of org (ov_case_id v) db"
  have chain: "chained B ?rows" using assms(2) by (simp add: offer_inv_def)
  show thesis
  proof (cases "find (\<lambda>r. bo_org r = org \<and> ov_offer_hash (bo_terms r) = ov_offer_hash v) (bl_offers db)")
    case (Some e)
    then show ?thesis using assms(1) known by (auto simp: store_offer_def dest: find_SomeD)
  next
    case None
    show ?thesis
    proof (cases ?rows rule: rev_cases)
      case Nil
      then show ?thesis
        using assms(1) None first by (auto simp: store_offer_def latest_offer_chained [OF chain] split: if_splits)
    next
      case (snoc ps p)
      have "sealed_offer (bl_hash B) (bl_price_ok B) (bo_terms p)" using chain snoc by (simp add: chained_def)
      then show ?thesis
        using assms(1) None snoc counter
        by (auto simp: store_offer_def latest_offer_chained [OF chain] sealed_offer_def split: if_splits sum.splits)
    qed
  qed
qed

lemma offers_of_add:
  "add_offer org v db = Inr (r, db') \<Longrightarrow>
     offers_of org' i db' = offers_of org' i db @ (if org' = org \<and> i = ov_case_id v then [r] else [])"
  by (auto simp: add_offer_Inr offers_of_def)

lemma add_offer_distinct:
  "add_offer org v db = Inr (r, db') \<Longrightarrow> distinct (map bo_id (bl_offers db)) \<Longrightarrow> distinct (map bo_id (bl_offers db'))"
  by (auto simp: add_offer_Inr same_offer_def)

lemma status_distinct [simp]: "map bo_id (bl_offers (set_offer_status i st db)) = map bo_id (bl_offers db)"
  by (auto simp: set_offer_status_def)

lemma store_offer_inv:
  assumes "store_offer B org v db = Inr (r, db')" "offer_inv B db" "sealed_offer (bl_hash B) (bl_price_ok B) v"
  shows "offer_inv B db'"
  using assms(1,2)
proof (cases rule: store_offer_cases)
  case known
  then show ?thesis using assms(2) by simp
next
  case first
  have row: "bo_terms r = v" using first(3) by (simp add: add_offer_Inr)
  have "chained B (offers_of org' i db')" for org' i
    using offers_of_add [OF first(3), of org' i] assms(2,3) first(1,2) row
    by (cases "org' = org \<and> i = ov_case_id v") (auto simp: offer_inv_def intro: chained_one)
  then show ?thesis using add_offer_distinct [OF first(3)] assms(2) by (simp add: offer_inv_def)
next
  case (counter ps p)
  have dist: "distinct (map bo_id (bl_offers db))" and chain: "chained B (ps @ [p])"
    using assms(2) counter(1) unfolding offer_inv_def by metis+
  note upd = offers_of_last_status [OF dist counter(1), where st = OfferApprovalStatus.SUPERSEDED]
  have row: "bo_terms r = v" using counter(4) by (simp add: add_offer_Inr)
  have "chained B (offers_of org' i db')" for org' i
  proof (cases "(org', i) = (org, ov_case_id v)")
    case True
    have "chained B ((ps @ [p\<lparr>bo_approval_status := OfferApprovalStatus.SUPERSEDED\<rparr>]) @ [r])"
      by (rule chained_snoc [OF chain]) (use counter(2) assms(3) row in \<open>auto simp: counters_def\<close>)
    then show ?thesis using True offers_of_add [OF counter(4), of org' i] upd(1) by simp
  next
    case False
    then show ?thesis using offers_of_add [OF counter(4), of org' i] upd(2) [OF False] assms(2) by (auto simp: offer_inv_def)
  qed
  then show ?thesis using add_offer_distinct [OF counter(4)] dist by (simp add: offer_inv_def)
qed

lemma approve_offer_cases:
  assumes "approve_offer B org a now db = Inr (r, db')" "offer_inv B db"
  obtains (known) "db' = db" "r \<in> set (bl_approvals db)"
  | (approved) ps p where "offers_of org (oa_case_id a) db = ps @ [p]"
      "ov_offer_hash (bo_terms p) = oa_offer_hash a" "ov_approval_status (bo_terms p) = OfferApprovalStatus.PENDING"
      "tz_aware now" "micros now < micros (oa_expires_at a)" "micros now < micros (ov_expires_at (bo_terms p))"
      "ba_org r = org" "ba_approval r = a" "\<forall>x \<in> set (bl_approvals db). \<not> same_approval r x"
      "db' = set_offer_status (bo_id p) OfferApprovalStatus.APPROVED (db\<lparr>bl_approvals := bl_approvals db @ [r]\<rparr>)"
proof -
  let ?rows = "offers_of org (oa_case_id a) db"
  have chain: "chained B ?rows" using assms(2) by (simp add: offer_inv_def)
  let ?find = "find (\<lambda>r. ba_org r = org \<and> oa_case_id (ba_approval r) = oa_case_id a \<and>
          oa_offer_hash (ba_approval r) = oa_offer_hash a) (bl_approvals db)"
  show thesis
  proof (cases ?find)
    case (Some e)
    then show ?thesis using assms(1) known by (auto simp: approve_offer_def dest: find_SomeD)
  next
    case None
    show ?thesis
    proof (cases ?rows rule: rev_cases)
      case Nil
      then show ?thesis using assms(1) None by (simp add: approve_offer_def latest_offer_chained [OF chain])
    next
      case (snoc ps p)
      have sealed: "sealed_offer (bl_hash B) (bl_price_ok B) (bo_terms p)" using chain snoc by (simp add: chained_def)
      then have "mk_OfferVersion (bl_hash B) (bl_price_ok B) (bo_terms p) = Inr (bo_terms p)" by (simp add: sealed_offer_def)
      then show ?thesis
        using assms(1) None snoc approved
        by (auto simp: approve_offer_def latest_offer_chained [OF chain] authorize_Inr [OF sealed] bindE_Inr_conv Let_def)
    qed
  qed
qed

lemma offers_of_approvals [simp]: "offers_of org i (db\<lparr>bl_approvals := x\<rparr>) = offers_of org i db"
  by (simp add: offers_of_def)

lemma approve_offer_inv:
  assumes "approve_offer B org a now db = Inr (r, db')" "offer_inv B db"
  shows "offer_inv B db'"
  using assms
proof (cases rule: approve_offer_cases)
  case known
  then show ?thesis using assms(2) by simp
next
  case (approved ps p)
  have dist: "distinct (map bo_id (bl_offers db))" and chain: "chained B (ps @ [p])"
    using assms(2) approved(1) unfolding offer_inv_def by metis+
  let ?db = "db\<lparr>bl_approvals := bl_approvals db @ [r]\<rparr>"
  have "distinct (map bo_id (bl_offers ?db))" "offers_of org (oa_case_id a) ?db = ps @ [p]" using dist approved(1) by simp_all
  note upd = offers_of_last_status [OF this, where st = OfferApprovalStatus.APPROVED]
  have "chained B (offers_of org' i db')" for org' i
  proof (cases "(org', i) = (org, oa_case_id a)")
    case True
    then show ?thesis using upd(1) approved(10) chained_status [OF chain, of "p\<lparr>bo_approval_status := OfferApprovalStatus.APPROVED\<rparr>"]
      by simp
  next
    case False
    then show ?thesis using upd(2) [OF False] approved(10) assms(2) by (simp add: offer_inv_def)
  qed
  then show ?thesis using dist by (simp add: approved(10) offer_inv_def)
qed

section \<open>What each transaction writes\<close>

lemma create_case_cases:
  assumes "create_case B org i seller db = Inr (r, db')"
  shows "db' = db \<and> r \<in> set (bl_cases db) \<or>
    i \<notin> bc_id ` set (bl_cases db) \<and> db' = db\<lparr>bl_cases := bl_cases db @ [r]\<rparr> \<and> bc_id r = i \<and> bc_org r = org \<and>
    bc_state r = CREATED \<and> bc_version r = 1 \<and> bc_coordinator r = initial_exchange i"
  using assms
  by (auto simp: create_case_def state_payload_def initial_exchange_def res_simps Let_def dest: find_SomeD split: option.splits if_splits)

lemma append_command_writes: "append_command B org c db = Inr (q, db') \<Longrightarrow> \<exists>rs. db' = db\<lparr>bl_commands := rs\<rparr>"
  by (clarsimp simp: append_command_def bindE_Inr_conv)
    (auto simp: res_simps Let_def split: option.splits if_splits intro: exI [of _ "bl_commands db"])

lemma publish_projection_writes: "publish_projection org uuid p db = Inr (r, db') \<Longrightarrow> \<exists>rs. db' = db\<lparr>bl_projections := rs\<rparr>"
  by (auto simp: publish_projection_def res_simps Let_def split: option.splits if_splits intro: exI [of _ "bl_projections db"])

lemma store_release_manifest_cases:
  "store_release_manifest org m db = Inr (r, db') \<Longrightarrow>
     db' = db \<or> r = \<lparr>mr_id = rm_manifest_id m, mr_org = org, mr_manifest = m\<rparr> \<and> db' = db\<lparr>bl_manifests := bl_manifests db @ [r]\<rparr>"
  by (auto simp: store_release_manifest_def res_simps Let_def split: option.splits if_splits)

definition covers :: "manifest_row \<Rightarrow> envelope_row \<Rightarrow> bool" where
  "covers mr er \<longleftrightarrow> (let m = mr_manifest mr; e = be_envelope er in
     mr_org mr = be_org er \<and> rm_manifest_hash m = ee_manifest_hash e \<and> rm_case_id m = ee_case_id e \<and>
     rm_owner m = ee_sender e \<and> rm_recipient m = ee_recipient e \<and> rm_status m = ReleaseStatus.ACTIVE \<and>
     micros (ee_expires_at e) < micros (rm_expires_at m))"

lemma store_envelope_cases:
  "store_envelope org e db = Inr (r, db') \<Longrightarrow>
     db' = db \<or> (be_org r = org \<and> be_envelope r = e \<and> db' = db\<lparr>bl_envelopes := bl_envelopes db @ [r]\<rparr> \<and>
       (\<exists>mr \<in> set (bl_manifests db). covers mr r))"
  by (auto simp: store_envelope_def covers_def res_simps Let_def not_le dest!: find_SomeD split: option.splits if_splits)

definition acknowledges :: "receipt_row \<Rightarrow> envelope_row \<Rightarrow> bool" where
  "acknowledges rr er \<longleftrightarrow> br_org rr = be_org er \<and> xr_envelope_id (br_receipt rr) = be_id er \<and>
     xr_case_id (br_receipt rr) = ee_case_id (be_envelope er) \<and> xr_recipient (br_receipt rr) = ee_recipient (be_envelope er) \<and>
     xr_envelope_hash (br_receipt rr) = ee_payload_hash (be_envelope er)"

lemma acknowledge_envelope_cases:
  "acknowledge_envelope org x db = Inr (r, db') \<Longrightarrow>
     db' = db \<or> db' = db\<lparr>bl_receipts := bl_receipts db @ [r]\<rparr> \<and> (\<exists>er \<in> set (bl_envelopes db). acknowledges r er) \<and>
       (\<forall>q \<in> set (bl_receipts db). \<not> (br_org q = br_org r \<and> xr_envelope_id (br_receipt q) = xr_envelope_id (br_receipt r)))"
  by (auto simp: acknowledge_envelope_def acknowledges_def res_simps Let_def dest!: find_SomeD split: option.splits if_splits)

lemma store_handoff_writes: "store_handoff org h db = Inr (r, db') \<Longrightarrow> \<exists>rs. db' = db\<lparr>bl_handoffs := rs\<rparr>"
  by (auto simp: store_handoff_def res_simps Let_def split: option.splits if_splits intro: exI [of _ "bl_handoffs db"])

lemma open_handoff_writes: "open_handoff B org i eh now db = Inr (r, db') \<Longrightarrow> \<exists>rs. db' = db\<lparr>bl_handoffs := rs\<rparr>"
  by (auto simp: open_handoff_def res_simps Let_def split: option.splits if_splits)

lemma get_case_Inr: "get_case org i db = Inr x \<Longrightarrow> x \<in> set (bl_cases db) \<and> bc_org x = org \<and> bc_id x = i"
  by (auto simp: get_case_def dest!: find_SomeD split: option.splits)

lemma apply_command_Inr:
  assumes "apply_command B org uuid x c corg db = Inr (ct, db')"
  obtains t h where
    "compile_party_command (bl_raw B) (bc_coordinator x) c = Inr ct"
    "bt_org t = org" "bt_case_id t = bc_id x" "bt_command_id t = pc_id c" "bt_previous_state t = ct_previous_state ct"
    "bt_next_state t = cs_state (ct_next_state ct)"
    "bt_sequence t = max_key bt_sequence (filter (\<lambda>t. bt_org t = org \<and> bt_case_id t = bc_id x) (bl_transitions db)) + 1"
    "\<forall>u \<in> set (bl_transitions db). \<not> same_transition t u"
    "db' = db\<lparr>bl_transitions := bl_transitions db @ [t], bl_cases := map (\<lambda>r. if bc_id r = bc_id x
        then x\<lparr>bc_state := cs_state (ct_next_state ct), bc_version := cs_version (ct_next_state ct),
               bc_coordinator := state_payload B (ct_next_state ct), bc_state_hash := h, bc_last_command_id := Some (pc_id c)\<rparr>
        else r) (bl_cases db)\<rparr>"
proof -
  let ?n = "max_key bt_sequence (filter (\<lambda>t. bt_org t = org \<and> bt_case_id t = bc_id x) (bl_transitions db)) + 1"
  let ?t = "\<lambda>th. \<lparr>bt_id = ''btrans_'' @ uuid, bt_org = org, bt_case_id = bc_id x, bt_sequence = ?n,
      bt_command_id = pc_id c, bt_command_org = corg, bt_previous_state = ct_previous_state ct,
      bt_next_state = cs_state (ct_next_state ct), bt_transition_hash = th\<rparr>"
  from assms obtain h th where "compile_party_command (bl_raw B) (bc_coordinator x) c = Inr ct"
    "\<forall>u \<in> set (bl_transitions db). \<not> same_transition (?t th) u"
    "db' = db\<lparr>bl_transitions := bl_transitions db @ [?t th], bl_cases := map (\<lambda>r. if bc_id r = bc_id x
        then x\<lparr>bc_state := cs_state (ct_next_state ct), bc_version := cs_version (ct_next_state ct),
               bc_coordinator := state_payload B (ct_next_state ct), bc_state_hash := h, bc_last_command_id := Some (pc_id c)\<rparr>
        else r) (bl_cases db)\<rparr>"
    by (auto simp: apply_command_def read_state_def res_simps Let_def split: if_splits)
  then show thesis using that [of "?t th" h] by simp
qed

text \<open>Only two transactions touch the offers and their approvals.\<close>

lemma bilateral_step_offers:
  assumes "bilateral_step B db db'"
  obtains (frame) "bl_offers db' = bl_offers db" "bl_approvals db' = bl_approvals db"
  | (offer) org v r where "sealed_offer (bl_hash B) (bl_price_ok B) v" "store_offer B org v db = Inr (r, db')"
  | (approve) org a now r where "approve_offer B org a now db = Inr (r, db')"
  using assms
proof cases
  case (step_create org i seller r)
  then show ?thesis using create_case_cases frame by fastforce
next
  case (step_append c0 c org q)
  then show ?thesis using append_command_writes frame by fastforce
next
  case (step_apply c0 c org i x uuid corg ct)
  then show ?thesis using frame by (auto elim: apply_command_Inr)
next
  case (step_project org uuid p pr)
  then show ?thesis using publish_projection_writes frame by fastforce
next
  case (step_manifest m0 m org mr)
  then show ?thesis using store_release_manifest_cases frame by fastforce
next
  case (step_envelope e0 e org er)
  then show ?thesis using store_envelope_cases frame by fastforce
next
  case (step_receipt x0 xr org rr)
  then show ?thesis using acknowledge_envelope_cases frame by fastforce
next
  case (step_offer v0 v org orow)
  then show ?thesis using mk_OfferVersion_sealed offer by blast
next
  case (step_approve a0 a org now ar)
  then show ?thesis using approve by blast
next
  case (step_handoff h0 h org hr)
  then show ?thesis using store_handoff_writes frame by fastforce
next
  case (step_open org i eh now hr)
  then show ?thesis using open_handoff_writes frame by fastforce
qed

section \<open>Approvals\<close>

definition binds :: "approval_row \<Rightarrow> offer_row \<Rightarrow> bool" where
  "binds a r \<longleftrightarrow> ba_org a = bo_org r \<and> oa_case_id (ba_approval a) = ov_case_id (bo_terms r) \<and>
     oa_offer_hash (ba_approval a) = ov_offer_hash (bo_terms r)"

definition approval_inv :: "bdb \<Rightarrow> bool" where
  "approval_inv db \<longleftrightarrow>
     (\<forall>a \<in> set (bl_approvals db). \<exists>r \<in> set (bl_offers db). binds a r \<and> bo_approval_status r = OfferApprovalStatus.APPROVED) \<and>
     (\<forall>r \<in> set (bl_offers db). bo_approval_status r = OfferApprovalStatus.APPROVED \<and>
        ov_approval_status (bo_terms r) = OfferApprovalStatus.PENDING \<longrightarrow> (\<exists>a \<in> set (bl_approvals db). binds a r))"

text \<open>The offers of one tenant and case only grow, and not at all once one is approved.\<close>

definition offer_evolve :: "bdb \<Rightarrow> bdb \<Rightarrow> bool" where
  "offer_evolve db db' \<longleftrightarrow>
     (\<forall>org i. \<exists>more. map bo_terms (offers_of org i db') = map bo_terms (offers_of org i db) @ more) \<and>
     (\<forall>r \<in> set (bl_offers db). bo_approval_status r = OfferApprovalStatus.APPROVED \<longrightarrow>
        r \<in> set (bl_offers db') \<and>
        offers_of (bo_org r) (ov_case_id (bo_terms r)) db' = offers_of (bo_org r) (ov_case_id (bo_terms r)) db)"

lemma offer_evolve_refl: "offer_evolve db db"
  by (auto simp: offer_evolve_def)

lemma offer_evolve_trans:
  assumes "offer_evolve a b" "offer_evolve b c"
  shows "offer_evolve a c"
proof -
  have "\<exists>more. map bo_terms (offers_of org i c) = map bo_terms (offers_of org i a) @ more" for org i
    using assms unfolding offer_evolve_def by (metis append_assoc)
  moreover have "r \<in> set (bl_offers c) \<and>
      offers_of (bo_org r) (ov_case_id (bo_terms r)) c = offers_of (bo_org r) (ov_case_id (bo_terms r)) a"
    if "r \<in> set (bl_offers a)" "bo_approval_status r = OfferApprovalStatus.APPROVED" for r
    using assms that unfolding offer_evolve_def by simp
  ultimately show ?thesis unfolding offer_evolve_def by blast
qed

lemma offers_of_frame: "bl_offers db' = bl_offers db \<Longrightarrow> offers_of org i db' = offers_of org i db"
  by (simp add: offers_of_def)

lemma approved_is_last:
  assumes "chained B (ps @ [p])" "r \<in> set (ps @ [p])" "bo_approval_status r = OfferApprovalStatus.APPROVED"
  shows "r = p"
proof (rule ccontr)
  assume "r \<noteq> p"
  then obtain xs ys where "ps = xs @ r # ys" using assms(2) by (auto dest: split_list)
  then have "successively counters (xs @ r # (ys @ [p]))" using assms(1) by (simp add: chained_def)
  then have "successively counters (r # (ys @ [p]))" by (simp add: successively_append_iff)
  then have "counters r (hd (ys @ [p]))" by (cases ys) auto
  then show False using assms(3) by (simp add: counters_def)
qed

text \<open>Replacing the status of the open last offer, and possibly appending a counteroffer, evolves the offers.\<close>

lemma last_change_evolves:
  assumes inv: "offer_inv B db" and rows: "offers_of org i db = ps @ [p]"
    and unapproved: "bo_approval_status p \<noteq> OfferApprovalStatus.APPROVED \<or> st = OfferApprovalStatus.APPROVED"
    and same: "\<And>org' i'. offers_of org' i' db' = offers_of org' i' (set_offer_status (bo_id p) st db) @
        (if org' = org \<and> i' = i then new else [])"
    and stays: "bo_approval_status p = OfferApprovalStatus.APPROVED \<Longrightarrow> new = []"
  shows "offer_evolve db db'"
proof -
  have dist: "distinct (map bo_id (bl_offers db))" and chain: "chained B (ps @ [p])"
    using inv rows unfolding offer_inv_def by metis+
  note upd = offers_of_last_status [OF dist rows, where st = st]
  have other: "offers_of org' i' db' = offers_of org' i' db" if "(org', i') \<noteq> (org, i)" for org' i'
    using same upd(2) [OF that] that by auto
  have main: "offers_of org i db' = ps @ p\<lparr>bo_approval_status := st\<rparr> # new" using same upd(1) by simp
  have "\<exists>more. map bo_terms (offers_of org' i' db') = map bo_terms (offers_of org' i' db) @ more" for org' i'
    using other [of org' i'] main rows by (cases "(org', i') = (org, i)") auto
  moreover have "r \<in> set (bl_offers db') \<and>
      offers_of (bo_org r) (ov_case_id (bo_terms r)) db' = offers_of (bo_org r) (ov_case_id (bo_terms r)) db"
    if r: "r \<in> set (bl_offers db)" "bo_approval_status r = OfferApprovalStatus.APPROVED" for r
  proof -
    have mem: "r \<in> set (offers_of (bo_org r) (ov_case_id (bo_terms r)) db)" using r by (simp add: offers_of_mem)
    have eq: "offers_of (bo_org r) (ov_case_id (bo_terms r)) db' = offers_of (bo_org r) (ov_case_id (bo_terms r)) db"
    proof (cases "(bo_org r, ov_case_id (bo_terms r)) = (org, i)")
      case True
      then have "r = p" using mem rows r(2) approved_is_last [OF chain] by simp
      then have "p\<lparr>bo_approval_status := st\<rparr> = p" "new = []" using r(2) unapproved stays by auto
      then show ?thesis using True main rows by simp
    qed (rule other)
    then show ?thesis using mem by (metis offers_of_mem)
  qed
  ultimately show ?thesis unfolding offer_evolve_def by blast
qed

lemma store_offer_evolves:
  assumes "store_offer B org v db = Inr (r, db')" "offer_inv B db"
  shows "offer_evolve db db'"
  using assms
proof (cases rule: store_offer_cases)
  case known
  then show ?thesis by (simp add: offer_evolve_refl)
next
  case first
  have rows: "offers_of org' i db' = offers_of org' i db @ (if org' = org \<and> i = ov_case_id v then [r] else [])" for org' i
    by (rule offers_of_add [OF first(3)])
  have "bl_offers db' = bl_offers db @ [r]" using first(3) by (simp add: add_offer_Inr)
  moreover have "(bo_org q, ov_case_id (bo_terms q)) \<noteq> (org, ov_case_id v)" if "q \<in> set (bl_offers db)" for q
    using that first(1) offers_of_mem [of q org "ov_case_id v" db] by auto
  ultimately show ?thesis unfolding offer_evolve_def using rows by auto
next
  case (counter ps p)
  then show ?thesis
    by (intro last_change_evolves [OF assms(2) counter(1), where st = OfferApprovalStatus.SUPERSEDED and new = "[r]"])
      (auto simp: offers_of_add [OF counter(4)])
qed

lemma approve_offer_evolves:
  assumes "approve_offer B org a now db = Inr (r, db')" "offer_inv B db"
  shows "offer_evolve db db'"
  using assms
proof (cases rule: approve_offer_cases)
  case known
  then show ?thesis by (simp add: offer_evolve_refl)
next
  case (approved ps p)
  then show ?thesis
    by (intro last_change_evolves [OF assms(2) approved(1), where st = OfferApprovalStatus.APPROVED and new = "[]"])
      (auto simp: offers_of_status)
qed

lemma set_offer_status_mem:
  "x \<in> set (bl_offers (set_offer_status i st db)) \<longleftrightarrow>
     x \<in> set (bl_offers db) \<and> bo_id x \<noteq> i \<or> (\<exists>y \<in> set (bl_offers db). bo_id y = i \<and> x = y\<lparr>bo_approval_status := st\<rparr>)"
  by (auto simp: set_offer_status_def)

lemma offer_id_unique:
  "offer_inv B db \<Longrightarrow> x \<in> set (bl_offers db) \<Longrightarrow> y \<in> set (bl_offers db) \<Longrightarrow> bo_id x = bo_id y \<Longrightarrow> x = y"
  by (auto simp: offer_inv_def distinct_map inj_on_def)

lemma last_offer_mem: "offers_of org i db = ps @ [p] \<Longrightarrow> p \<in> set (bl_offers db) \<and> bo_org p = org \<and> ov_case_id (bo_terms p) = i"
  using offers_of_mem [of p org i db] by simp

lemma store_offer_approvals:
  assumes "store_offer B org v db = Inr (r, db')" "offer_inv B db" "approval_inv db"
  shows "approval_inv db'"
  using assms(1,2)
proof (cases rule: store_offer_cases)
  case known
  then show ?thesis using assms(3) by simp
next
  case first
  then show ?thesis using assms(3) by (fastforce simp: add_offer_Inr approval_inv_def)
next
  case (counter ps p)
  have p: "p \<in> set (bl_offers db)" using last_offer_mem [OF counter(1)] by simp
  let ?db = "set_offer_status (bo_id p) OfferApprovalStatus.SUPERSEDED db"
  have keep: "x \<in> set (bl_offers ?db)"
    if "x \<in> set (bl_offers db)" "bo_approval_status x = OfferApprovalStatus.APPROVED" for x
    using that counter(3) offer_id_unique [OF assms(2) that(1) p] by (auto simp: set_offer_status_mem)
  have row: "bo_terms r = v" "bo_approval_status r = ov_approval_status v" "bl_offers db' = bl_offers ?db @ [r]"
    "bl_approvals db' = bl_approvals db"
    using counter(4) by (auto simp: add_offer_Inr set_offer_status_def)
  have "\<exists>x \<in> set (bl_offers db'). binds a x \<and> bo_approval_status x = OfferApprovalStatus.APPROVED"
    if "a \<in> set (bl_approvals db')" for a
    using assms(3) that keep unfolding approval_inv_def row(3,4) by fastforce
  moreover have "\<exists>a \<in> set (bl_approvals db'). binds a x"
    if "x \<in> set (bl_offers db')" "bo_approval_status x = OfferApprovalStatus.APPROVED"
      "ov_approval_status (bo_terms x) = OfferApprovalStatus.PENDING" for x
  proof -
    have "x \<in> set (bl_offers db)" using that row(1-3) by (auto simp: set_offer_status_mem)
    then show ?thesis using assms(3) that(2,3) unfolding approval_inv_def row(4) by blast
  qed
  ultimately show ?thesis unfolding approval_inv_def by blast
qed

lemma approve_offer_approvals:
  assumes "approve_offer B org a now db = Inr (r, db')" "offer_inv B db" "approval_inv db"
  shows "approval_inv db'"
  using assms(1,2)
proof (cases rule: approve_offer_cases)
  case known
  then show ?thesis using assms(3) by simp
next
  case (approved ps p)
  have p: "p \<in> set (bl_offers db)" "bo_org p = org" "ov_case_id (bo_terms p) = oa_case_id a"
    using last_offer_mem [OF approved(1)] by simp_all
  let ?p = "p\<lparr>bo_approval_status := OfferApprovalStatus.APPROVED\<rparr>"
  have rows: "x \<in> set (bl_offers db') \<longleftrightarrow> x \<in> set (bl_offers db) \<and> bo_id x \<noteq> bo_id p \<or> x = ?p" for x
  proof -
    have "y = p" if "y \<in> set (bl_offers db)" "bo_id y = bo_id p" for y using offer_id_unique [OF assms(2) that(1) p(1) that(2)] .
    then show ?thesis using p(1) unfolding approved(10) set_offer_status_mem by auto
  qed
  have apps: "bl_approvals db' = bl_approvals db @ [r]" by (simp add: approved(10) set_offer_status_def)
  have new: "binds r ?p" using approved(2,7,8) p by (simp add: binds_def)
  have "\<exists>x \<in> set (bl_offers db'). binds b x \<and> bo_approval_status x = OfferApprovalStatus.APPROVED"
    if b: "b \<in> set (bl_approvals db')" for b
  proof (cases "b = r")
    case True
    then show ?thesis using new rows by auto
  next
    case False
    then obtain x where x: "x \<in> set (bl_offers db)" "binds b x" "bo_approval_status x = OfferApprovalStatus.APPROVED"
      using b assms(3) unfolding approval_inv_def apps by auto
    have "\<exists>y. (x = y \<and> bo_id x \<noteq> bo_id p \<or> x = p \<and> y = ?p) \<and> binds b y \<and> bo_approval_status y = OfferApprovalStatus.APPROVED"
      using x offer_id_unique [OF assms(2) x(1) p(1)] by (cases "bo_id x = bo_id p") (auto simp: binds_def)
    then show ?thesis using x(1) rows by blast
  qed
  moreover have "\<exists>b \<in> set (bl_approvals db'). binds b x"
    if "x \<in> set (bl_offers db')" "bo_approval_status x = OfferApprovalStatus.APPROVED"
      "ov_approval_status (bo_terms x) = OfferApprovalStatus.PENDING" for x
  proof (cases "x = ?p")
    case True
    then show ?thesis using new apps by auto
  next
    case False
    then have "x \<in> set (bl_offers db)" using that(1) rows by blast
    then show ?thesis using assms(3) that(2,3) unfolding approval_inv_def apps by auto
  qed
  ultimately show ?thesis unfolding approval_inv_def by blast
qed

definition negotiation_inv :: "bilateral_env \<Rightarrow> bdb \<Rightarrow> bool" where
  "negotiation_inv B db \<longleftrightarrow> offer_inv B db \<and> approval_inv db"

interpretation negotiation: evolving_system "bilateral_step B" "negotiation_inv B" offer_evolve for B
proof unfold_locales
  fix s t
  assume inv: "negotiation_inv B s"
  assume step: "bilateral_step B s t"
  then show "negotiation_inv B t"
  proof (cases rule: bilateral_step_offers)
    case frame
    then show ?thesis using inv offers_of_frame [OF frame(1)] by (simp add: negotiation_inv_def offer_inv_def approval_inv_def)
  qed (use inv in \<open>auto simp: negotiation_inv_def intro: store_offer_inv approve_offer_inv store_offer_approvals approve_offer_approvals\<close>)
  from step show "offer_evolve s t"
  proof (cases rule: bilateral_step_offers)
    case frame
    then show ?thesis using offers_of_frame [OF frame(1)] by (simp add: offer_evolve_def)
  qed (use inv in \<open>auto simp: negotiation_inv_def intro: store_offer_evolves approve_offer_evolves\<close>)
qed (rule offer_evolve_refl, erule (1) offer_evolve_trans)

lemma negotiation_initial: "negotiation_inv B empty_bdb"
  by (simp add: negotiation_inv_def offer_inv_def approval_inv_def empty_bdb_def offers_of_def)

lemma approved_offer_last:
  assumes "negotiation_inv B db" "r \<in> set (bl_offers db)" "bo_approval_status r = OfferApprovalStatus.APPROVED"
  shows "r = last (offers_of (bo_org r) (ov_case_id (bo_terms r)) db)"
proof -
  let ?rows = "offers_of (bo_org r) (ov_case_id (bo_terms r)) db"
  have mem: "r \<in> set ?rows" using assms(2) by (simp add: offers_of_mem)
  then obtain ps p where ps: "?rows = ps @ [p]" by (cases ?rows rule: rev_cases) auto
  moreover have "chained B ?rows" using assms(1) by (simp add: negotiation_inv_def offer_inv_def)
  ultimately show ?thesis using approved_is_last [of B ps p r] mem assms(3) by (metis last_snoc)
qed

end
