(* ===== verification/ExchangeJournal.thy ===== *)
theory ExchangeJournal
  imports NegotiationFacts
begin

text \<open>
  The journal of coordinator transitions and the ledger of disclosures: the transitions stored for a case,
  numbered from one, replay to the state the case row holds, each command is applied at most once, every
  stored envelope is public, crosses the parties and is covered by an active release manifest of the same tenant,
  and a payment handoff is opened at most once, before it expires, with its sealed content unchanged.
\<close>

section \<open>The journal\<close>

definition journal :: "string \<Rightarrow> string \<Rightarrow> bdb \<Rightarrow> transition_row list" where
  "journal org i db = filter (\<lambda>t. bt_org t = org \<and> bt_case_id t = i) (bl_transitions db)"

fun replay :: "ExchangeState \<Rightarrow> transition_row list \<Rightarrow> ExchangeState option" where
  "replay s [] = Some s"
| "replay s (t # ts) =
     (if bt_previous_state t = s \<and> bt_next_state t \<in> set (exchange_successors s) then replay (bt_next_state t) ts else None)"

lemma replay_snoc:
  "replay s (ts @ [t]) = (case replay s ts of None \<Rightarrow> None | Some u \<Rightarrow>
     if bt_previous_state t = u \<and> bt_next_state t \<in> set (exchange_successors u) then Some (bt_next_state t) else None)"
  by (induction ts arbitrary: s) auto

definition journal_ok :: "bdb \<Rightarrow> case_row \<Rightarrow> bool" where
  "journal_ok db r \<longleftrightarrow> (let ts = journal (bc_org r) (bc_id r) db in
     replay CREATED ts = Some (bc_state r) \<and> map bt_sequence ts = map int [1..<Suc (length ts)] \<and>
     distinct (map bt_command_id ts) \<and> bc_version r = int (length ts) + 1 \<and>
     cs_state (bc_coordinator r) = bc_state r \<and> cs_version (bc_coordinator r) = bc_version r \<and>
     cs_case_id (bc_coordinator r) = bc_id r)"

definition journal_inv :: "bdb \<Rightarrow> bool" where
  "journal_inv db \<longleftrightarrow> distinct (map bc_id (bl_cases db)) \<and>
     (\<forall>t \<in> set (bl_transitions db). bt_case_id t \<in> bc_id ` set (bl_cases db)) \<and> list_all (journal_ok db) (bl_cases db)"

definition journal_evolve :: "bdb \<Rightarrow> bdb \<Rightarrow> bool" where
  "journal_evolve db db' \<longleftrightarrow> (\<exists>more. bl_transitions db' = bl_transitions db @ more) \<and> bc_id ` set (bl_cases db) \<subseteq> bc_id ` set (bl_cases db')"

lemma compile_Inr:
  assumes "compile_party_command R s c = Inr ct"
  shows "ct_previous_state ct = cs_state s" "cs_version (ct_next_state ct) = cs_version s + 1"
    "cs_case_id (ct_next_state ct) = cs_case_id s" "cs_state (ct_next_state ct) \<in> set (exchange_successors (cs_state s))"
    "pc_case_id c = cs_case_id s" "pc_expected_version c = cs_version s"
proof -
  obtain target where t: "command_target s c = Inr target" "ct_next_state ct = command_changes s c target"
    "ct_previous_state ct = cs_state s" "pc_case_id c = cs_case_id s" "pc_expected_version c = cs_version s"
    using assms by (auto simp: compile_party_command_def bindE_Inr_conv Let_def split: if_splits)
  then show "ct_previous_state ct = cs_state s" "pc_case_id c = cs_case_id s" "pc_expected_version c = cs_version s"
    "cs_version (ct_next_state ct) = cs_version s + 1" "cs_case_id (ct_next_state ct) = cs_case_id s"
    by (simp_all add: command_changes_def Let_def)
  have "cs_state (ct_next_state ct) = target" using t(2) by (simp add: command_changes_def Let_def)
  moreover have "target \<in> set (exchange_successors (cs_state s))"
    using t(1) by (auto simp: command_target_def exchange_successors_def exchange_transitions_def map_filter_simps
        split: if_splits option.splits)
  ultimately show "cs_state (ct_next_state ct) \<in> set (exchange_successors (cs_state s))" by simp
qed

lemma state_payload_simps [simp]:
  "cs_state (state_payload B s) = cs_state s" "cs_version (state_payload B s) = cs_version s"
  "cs_case_id (state_payload B s) = cs_case_id s"
  by (simp_all add: state_payload_def)

lemma journal_snoc:
  "journal org i (db\<lparr>bl_transitions := bl_transitions db @ [t], bl_cases := x\<rparr>) =
     journal org i db @ (if bt_org t = org \<and> bt_case_id t = i then [t] else [])"
  by (simp add: journal_def)

lemma apply_command_journal:
  assumes run: "apply_command B org uuid x c corg db = Inr (ct, db')" and inv: "journal_inv db"
    and mem: "x \<in> set (bl_cases db)" "bc_org x = org"
  shows "journal_inv db'" "journal_evolve db db'"
proof -
  from run obtain t h where ct: "compile_party_command (bl_raw B) (bc_coordinator x) c = Inr ct"
    and t: "bt_org t = org" "bt_case_id t = bc_id x" "bt_command_id t = pc_id c" "bt_previous_state t = ct_previous_state ct"
      "bt_next_state t = cs_state (ct_next_state ct)"
      "bt_sequence t = max_key bt_sequence (journal org (bc_id x) db) + 1"
      "\<forall>u \<in> set (bl_transitions db). \<not> same_transition t u"
    and db': "db' = db\<lparr>bl_transitions := bl_transitions db @ [t], bl_cases := map (\<lambda>r. if bc_id r = bc_id x
        then x\<lparr>bc_state := cs_state (ct_next_state ct), bc_version := cs_version (ct_next_state ct),
               bc_coordinator := state_payload B (ct_next_state ct), bc_state_hash := h, bc_last_command_id := Some (pc_id c)\<rparr>
        else r) (bl_cases db)\<rparr>"
    unfolding journal_def by (rule apply_command_Inr)
  let ?x = "x\<lparr>bc_state := cs_state (ct_next_state ct), bc_version := cs_version (ct_next_state ct),
      bc_coordinator := state_payload B (ct_next_state ct), bc_state_hash := h, bc_last_command_id := Some (pc_id c)\<rparr>"
  note c = compile_Inr [OF ct]
  have ok: "journal_ok db x" and dist: "distinct (map bc_id (bl_cases db))"
    using inv mem by (auto simp: journal_inv_def list_all_iff)
  have ids: "map bc_id (bl_cases db') = map bc_id (bl_cases db)" by (auto simp: db')
  have mine: "journal org (bc_id x) db' = journal org (bc_id x) db @ [t]" using t(1,2) by (simp add: db' journal_snoc)
  have fresh: "pc_id c \<notin> set (map bt_command_id (journal org (bc_id x) db))"
    using t(1-3,7) by (auto simp: journal_def same_transition_def)
  have "journal_ok db' ?x"
    unfolding journal_ok_def Let_def using ok mem(2) mine fresh c t(3-6) newest_numbered(2) [of bt_sequence "journal org (bc_id x) db"]
    by (simp add: journal_ok_def Let_def replay_snoc)
  moreover have "journal_ok db' r" if r: "r \<in> set (bl_cases db)" "bc_id r \<noteq> bc_id x" for r
  proof -
    have "journal (bc_org r) (bc_id r) db' = journal (bc_org r) (bc_id r) db" using t(2) r(2) by (simp add: db' journal_snoc)
    then show ?thesis using inv r(1) by (simp add: journal_inv_def list_all_iff journal_ok_def)
  qed
  ultimately have "\<forall>r \<in> set (bl_cases db'). journal_ok db' r" by (auto simp: db')
  moreover have "bt_case_id u \<in> bc_id ` set (bl_cases db')" if "u \<in> set (bl_transitions db')" for u
  proof -
    have "bc_id ` set (bl_cases db') = bc_id ` set (bl_cases db)" using ids by (metis set_map)
    then show ?thesis using that inv mem t(2) by (auto simp: db' journal_inv_def)
  qed
  ultimately show "journal_inv db'" using dist ids by (simp add: journal_inv_def list_all_iff)
  have "bc_id ` set (bl_cases db') = bc_id ` set (bl_cases db)" using ids by (metis set_map)
  moreover have "bl_transitions db' = bl_transitions db @ [t]" by (simp add: db')
  ultimately show "journal_evolve db db'" by (auto simp: journal_evolve_def)
qed

lemma create_case_journal:
  assumes create: "create_case B org i seller db = Inr (r, db')" and inv: "journal_inv db"
  shows "journal_inv db'" "journal_evolve db db'"
proof -
  consider "db' = db" | "i \<notin> bc_id ` set (bl_cases db)" "db' = db\<lparr>bl_cases := bl_cases db @ [r]\<rparr>" "bc_id r = i"
      "bc_state r = CREATED" "bc_version r = 1" "bc_coordinator r = initial_exchange i"
    using create_case_cases [OF create] by blast
  then have "journal_inv db' \<and> journal_evolve db db'"
  proof cases
    case 1
    then show ?thesis using inv by (simp add: journal_evolve_def)
  next
    case 2
    have same: "journal org' j db' = journal org' j db" for org' j by (simp add: 2(2) journal_def)
    have "journal (bc_org r) i db = []" using inv 2(1) by (auto simp: journal_inv_def journal_def filter_empty_conv)
    then have "journal_ok db' r" using 2(3-6) same by (simp add: journal_ok_def initial_exchange_def)
    moreover have "journal_ok db' x" if "x \<in> set (bl_cases db)" for x
      using inv that same by (simp add: journal_inv_def list_all_iff journal_ok_def)
    ultimately have "list_all (journal_ok db') (bl_cases db')" by (simp add: 2(2) list_all_iff)
    then show ?thesis using inv 2(1,3) by (auto simp: journal_inv_def journal_evolve_def 2(2))
  qed
  then show "journal_inv db'" "journal_evolve db db'" by simp_all
qed

text \<open>The tables that the transactions on offers leave alone.\<close>

definition same_ledgers :: "bdb \<Rightarrow> bdb \<Rightarrow> bool" where
  "same_ledgers db db' \<longleftrightarrow> bl_cases db' = bl_cases db \<and> bl_transitions db' = bl_transitions db \<and>
     bl_manifests db' = bl_manifests db \<and> bl_envelopes db' = bl_envelopes db \<and> bl_receipts db' = bl_receipts db \<and>
     bl_handoffs db' = bl_handoffs db"

lemma add_offer_ledgers: "add_offer org v db = Inr (r, db') \<Longrightarrow> same_ledgers db db'"
  by (auto simp: add_offer_Inr same_ledgers_def)

lemma set_offer_status_ledgers [simp]: "same_ledgers (set_offer_status i st db) db' = same_ledgers db db'"
  by (simp add: set_offer_status_def same_ledgers_def)

lemma same_ledgers_refl [simp]: "same_ledgers db db"
  by (simp add: same_ledgers_def)

lemma unit_sum_cases: "(\<forall>e. s \<noteq> Inl e) \<Longrightarrow> s \<noteq> Inr () \<Longrightarrow> False"
  by (cases s) auto

lemma store_offer_ledgers: "store_offer B org v db = Inr (r, db') \<Longrightarrow> same_ledgers db db'"
  by (auto simp: store_offer_def bindE_Inr_conv dest!: add_offer_ledgers dest: unit_sum_cases
      split: option.split_asm if_split_asm sum.split_asm)

lemma approve_offer_ledgers: "approve_offer B org a now db = Inr (r, db') \<Longrightarrow> same_ledgers db db'"
  by (auto simp: approve_offer_def set_offer_status_def same_ledgers_def bindE_Inr_conv Let_def split: option.splits)

lemma journal_frame:
  assumes "bl_cases db' = bl_cases db" "bl_transitions db' = bl_transitions db"
  shows "journal_inv db' = journal_inv db \<and> journal_evolve db db'"
proof -
  have "journal_ok db' = journal_ok db" using assms by (simp add: fun_eq_iff journal_ok_def journal_def)
  then show ?thesis using assms by (simp add: journal_inv_def journal_evolve_def)
qed

lemma bilateral_step_journal:
  assumes "bilateral_step B db db'" "journal_inv db"
  shows "journal_inv db' \<and> journal_evolve db db'"
  using assms(1)
proof cases
  case (step_create org i seller r)
  then show ?thesis using create_case_journal assms(2) by blast
next
  case (step_append c0 c org q)
  then obtain rs where "db' = db\<lparr>bl_commands := rs\<rparr>" using append_command_writes by blast
  then show ?thesis using journal_frame [of db' db] assms(2) by simp
next
  case (step_apply c0 c org i x uuid corg ct)
  then show ?thesis using apply_command_journal [OF step_apply(3) assms(2)] get_case_Inr by blast
next
  case (step_project org uuid p pr)
  then obtain rs where "db' = db\<lparr>bl_projections := rs\<rparr>" using publish_projection_writes by blast
  then show ?thesis using journal_frame [of db' db] assms(2) by simp
next
  case (step_manifest m0 m org mr)
  then show ?thesis using store_release_manifest_cases journal_frame [of db' db] assms(2) by fastforce
next
  case (step_envelope e0 e org er)
  then show ?thesis using store_envelope_cases journal_frame [of db' db] assms(2) by fastforce
next
  case (step_receipt x0 xr org rr)
  then show ?thesis using acknowledge_envelope_cases journal_frame [of db' db] assms(2) by fastforce
next
  case (step_offer v0 v org orow)
  then show ?thesis
    using store_offer_ledgers journal_frame [of db' db] assms(2) by (simp add: same_ledgers_def)
next
  case (step_approve a0 a org now ar)
  then show ?thesis using approve_offer_ledgers journal_frame [of db' db] assms(2) by (simp add: same_ledgers_def)
next
  case (step_handoff h0 h org hr)
  then obtain rs where "db' = db\<lparr>bl_handoffs := rs\<rparr>" using store_handoff_writes by blast
  then show ?thesis using journal_frame [of db' db] assms(2) by simp
next
  case (step_open org i eh now hr)
  then obtain rs where "db' = db\<lparr>bl_handoffs := rs\<rparr>" using open_handoff_writes by blast
  then show ?thesis using journal_frame [of db' db] assms(2) by simp
qed

interpretation journals: evolving_system "bilateral_step B" journal_inv journal_evolve for B
proof unfold_locales
  show "journal_evolve s s" for s by (simp add: journal_evolve_def)
  show "journal_evolve s u" if "journal_evolve s t" "journal_evolve t u" for s t u
    using that unfolding journal_evolve_def by (metis append_assoc order_trans)
qed (use bilateral_step_journal in blast)+

section \<open>Disclosures\<close>

lemma manifest_hash_simps [simp]:
  "manifest_checks (m\<lparr>rm_manifest_hash := s\<rparr>) = manifest_checks m"
  "approval_payload (m\<lparr>rm_manifest_hash := s\<rparr>) = approval_payload m"
  "manifest_payload (m\<lparr>rm_manifest_hash := s\<rparr>) = manifest_payload m"
  by (simp_all add: manifest_checks_def approval_payload_def manifest_payload_def approval_entries_def)

lemma mk_ReleaseManifest_sealed: "mk_ReleaseManifest E m = Inr w \<Longrightarrow> mk_ReleaseManifest E w = Inr w"
  by (auto simp: mk_ReleaseManifest_Inr)

definition public_envelope :: "hash_env \<Rightarrow> ExchangeEnvelope \<Rightarrow> bool" where
  "public_envelope E e \<longleftrightarrow> \<not> private_tree (dict_str (ee_payload e)) \<and> ee_sender e \<noteq> ee_recipient e \<and>
     ee_sender e \<noteq> SYSTEM \<and> ee_recipient e \<noteq> SYSTEM \<and> content_hash E (envelope_payload e) = Inr (ee_payload_hash e)"

lemma mk_ExchangeEnvelope_public: "mk_ExchangeEnvelope E e0 = Inr e \<Longrightarrow> public_envelope E e"
  by (auto simp: mk_ExchangeEnvelope_def res_simps public_envelope_def party_check_def envelope_payload_def
      simp del: check_all.simps)

definition disclosure_inv :: "bilateral_env \<Rightarrow> bdb \<Rightarrow> bool" where
  "disclosure_inv B db \<longleftrightarrow>
     (\<forall>mr \<in> set (bl_manifests db). mk_ReleaseManifest (bl_hash B) (mr_manifest mr) = Inr (mr_manifest mr)) \<and>
     (\<forall>er \<in> set (bl_envelopes db). public_envelope (bl_hash B) (be_envelope er) \<and> (\<exists>mr \<in> set (bl_manifests db). covers mr er)) \<and>
     (\<forall>rr \<in> set (bl_receipts db). \<exists>er \<in> set (bl_envelopes db). acknowledges rr er)"

definition disclosure_evolve :: "bdb \<Rightarrow> bdb \<Rightarrow> bool" where
  "disclosure_evolve db db' \<longleftrightarrow> set (bl_manifests db) \<subseteq> set (bl_manifests db') \<and>
     set (bl_envelopes db) \<subseteq> set (bl_envelopes db') \<and> set (bl_receipts db) \<subseteq> set (bl_receipts db')"

lemma disclosure_frame:
  "bl_manifests db' = bl_manifests db \<Longrightarrow> bl_envelopes db' = bl_envelopes db \<Longrightarrow> bl_receipts db' = bl_receipts db \<Longrightarrow>
     disclosure_inv B db' = disclosure_inv B db \<and> disclosure_evolve db db'"
  by (simp add: disclosure_inv_def disclosure_evolve_def)

lemma bilateral_step_disclosure:
  assumes "bilateral_step B db db'" "disclosure_inv B db"
  shows "disclosure_inv B db' \<and> disclosure_evolve db db'"
  using assms(1)
proof cases
  case (step_create org i seller r)
  then show ?thesis using create_case_cases disclosure_frame [of db' db] assms(2) by fastforce
next
  case (step_append c0 c org q)
  then obtain rs where "db' = db\<lparr>bl_commands := rs\<rparr>" using append_command_writes by blast
  then show ?thesis using disclosure_frame [of db' db] assms(2) by simp
next
  case (step_apply c0 c org i x uuid corg ct)
  then show ?thesis using disclosure_frame [of db' db B] assms(2) by (auto elim: apply_command_Inr)
next
  case (step_project org uuid p pr)
  then obtain rs where "db' = db\<lparr>bl_projections := rs\<rparr>" using publish_projection_writes by blast
  then show ?thesis using disclosure_frame [of db' db] assms(2) by simp
next
  case (step_manifest m0 m org mr)
  have "mk_ReleaseManifest (bl_hash B) m = Inr m" using mk_ReleaseManifest_sealed step_manifest(1) by blast
  with store_release_manifest_cases [OF step_manifest(2)] assms(2) show ?thesis
    by (auto simp: disclosure_inv_def disclosure_evolve_def)
next
  case (step_envelope e0 e org er)
  from store_envelope_cases [OF step_envelope(2)] mk_ExchangeEnvelope_public [OF step_envelope(1)] assms(2) show ?thesis
    by (auto simp: disclosure_inv_def disclosure_evolve_def)
next
  case (step_receipt x0 xr org rr)
  from acknowledge_envelope_cases [OF step_receipt(2)] assms(2) show ?thesis
    by (auto simp: disclosure_inv_def disclosure_evolve_def)
next
  case (step_offer v0 v org orow)
  then show ?thesis using store_offer_ledgers disclosure_frame [of db' db B] assms(2) by (simp add: same_ledgers_def)
next
  case (step_approve a0 a org now ar)
  then show ?thesis using approve_offer_ledgers disclosure_frame [of db' db B] assms(2) by (simp add: same_ledgers_def)
next
  case (step_handoff h0 h org hr)
  then obtain rs where "db' = db\<lparr>bl_handoffs := rs\<rparr>" using store_handoff_writes by blast
  then show ?thesis using disclosure_frame [of db' db] assms(2) by simp
next
  case (step_open org i eh now hr)
  then obtain rs where "db' = db\<lparr>bl_handoffs := rs\<rparr>" using open_handoff_writes by blast
  then show ?thesis using disclosure_frame [of db' db] assms(2) by simp
qed

interpretation disclosures: evolving_system "bilateral_step B" "disclosure_inv B" disclosure_evolve for B
  by unfold_locales (use bilateral_step_disclosure in blast, use bilateral_step_disclosure in blast, auto simp: disclosure_evolve_def)

lemma bilateral_initial: "journal_inv empty_bdb" "disclosure_inv B empty_bdb"
  by (simp_all add: journal_inv_def disclosure_inv_def empty_bdb_def)

section \<open>Handoffs\<close>

definition sealed_handoff :: "bilateral_env \<Rightarrow> ExchangePaymentHandoff \<Rightarrow> bool" where
  "sealed_handoff B h \<longleftrightarrow> mk_ExchangePaymentHandoff (bl_hash B) (bl_literal_ok B) (bl_price_ok B) h = Inr h"

lemma handoff_payload_simps [simp]:
  "exchange_handoff_payload (h\<lparr>eh_handoff_hash := s\<rparr>) = exchange_handoff_payload h"
  "exchange_handoff_payload (h\<lparr>eh_status := st\<rparr>) = exchange_handoff_payload h"
  "exchange_handoff_payload (h\<lparr>eh_opened_at := t\<rparr>) = exchange_handoff_payload h"
  "exchange_handoff_checks price_ok (h\<lparr>eh_handoff_hash := s\<rparr>) = exchange_handoff_checks price_ok h"
  "exchange_handoff_checks price_ok (h\<lparr>eh_status := st\<rparr>) = exchange_handoff_checks price_ok h"
  "exchange_handoff_checks price_ok (h\<lparr>eh_opened_at := t\<rparr>) = exchange_handoff_checks price_ok h"
  "exchange_handoff_times (h\<lparr>eh_handoff_hash := s\<rparr>) = exchange_handoff_times h"
  by (simp_all add: exchange_handoff_payload_def exchange_handoff_checks_def exchange_handoff_times_def)

lemma mk_ExchangePaymentHandoff_Inr:
  "mk_ExchangePaymentHandoff E literal_ok price_ok h = Inr w \<longleftrightarrow>
     list_all fst (exchange_handoff_checks price_ok h) \<and> safe_destination literal_ok (eh_destination_url h) = Inr True \<and>
     list_all fst (exchange_handoff_times h) \<and>
     (\<exists>s. content_hash E (exchange_handoff_payload h) = Inr s \<and> (eh_handoff_hash h = [] \<or> eh_handoff_hash h = s) \<and>
        w = h\<lparr>eh_handoff_hash := s\<rparr>)"
  by (auto simp: mk_ExchangePaymentHandoff_def res_simps split: if_splits)

lemma mk_ExchangePaymentHandoff_sealed:
  "mk_ExchangePaymentHandoff (bl_hash B) (bl_literal_ok B) (bl_price_ok B) h = Inr w \<Longrightarrow> sealed_handoff B w"
  by (auto simp: mk_ExchangePaymentHandoff_Inr sealed_handoff_def)

lemma sealed_handoff_hash: "sealed_handoff B h \<Longrightarrow> content_hash (bl_hash B) (exchange_handoff_payload h) = Inr (eh_handoff_hash h)"
  unfolding sealed_handoff_def mk_ExchangePaymentHandoff_Inr
  by (metis ExchangePaymentHandoff.select_convs(14) ExchangePaymentHandoff.surjective ExchangePaymentHandoff.update_convs(14))

text \<open>Opening a sealed handoff changes its status once, before it expires, and nothing else.\<close>

lemma exchange_handoff_open_Inr:
  assumes "sealed_handoff B h"
  shows "exchange_handoff_open (bl_hash B) (bl_literal_ok B) (bl_price_ok B) h now = Inr w \<longleftrightarrow>
    tz_aware now \<and> (eh_status h = ExchangeHandoffStatus.OPENED \<and> w = h \<or>
      eh_status h = ExchangeHandoffStatus.READY \<and> micros now < micros (eh_expires_at h) \<and>
      w = h\<lparr>eh_status := ExchangeHandoffStatus.OPENED, eh_opened_at := Some now\<rparr>)"
proof -
  have c: "list_all fst (exchange_handoff_checks (bl_price_ok B) h)"
    "safe_destination (bl_literal_ok B) (eh_destination_url h) = Inr True" "list_all fst (exchange_handoff_times h)"
    using assms by (auto simp: sealed_handoff_def mk_ExchangePaymentHandoff_Inr)
  have "mk_ExchangePaymentHandoff (bl_hash B) (bl_literal_ok B) (bl_price_ok B)
      (h\<lparr>eh_status := ExchangeHandoffStatus.OPENED, eh_opened_at := Some now, eh_handoff_hash := []\<rparr>) = Inr w \<longleftrightarrow>
      w = h\<lparr>eh_status := ExchangeHandoffStatus.OPENED, eh_opened_at := Some now\<rparr>" if "tz_aware now"
    using c that sealed_handoff_hash [OF assms] by (auto simp: mk_ExchangePaymentHandoff_Inr exchange_handoff_times_def tz_check_def)
  then show ?thesis by (auto simp: exchange_handoff_open_def res_simps)
qed

definition handoff_inv :: "bilateral_env \<Rightarrow> bdb \<Rightarrow> bool" where
  "handoff_inv B db \<longleftrightarrow> distinct (map bh_id (bl_handoffs db)) \<and>
     (\<forall>r \<in> set (bl_handoffs db). sealed_handoff B (bh_handoff r) \<and> bh_id r = eh_handoff_id (bh_handoff r))"

definition handoff_moves :: "handoff_row \<Rightarrow> handoff_row \<Rightarrow> bool" where
  "handoff_moves r r' \<longleftrightarrow> r' = r \<or> eh_status (bh_handoff r) = ExchangeHandoffStatus.READY \<and>
     (\<exists>now. tz_aware now \<and> micros now < micros (eh_expires_at (bh_handoff r)) \<and>
        r' = r\<lparr>bh_handoff := (bh_handoff r)\<lparr>eh_status := ExchangeHandoffStatus.OPENED, eh_opened_at := Some now\<rparr>\<rparr>)"

definition handoff_evolve :: "bdb \<Rightarrow> bdb \<Rightarrow> bool" where
  "handoff_evolve db db' \<longleftrightarrow> (\<forall>r \<in> set (bl_handoffs db). \<exists>r' \<in> set (bl_handoffs db'). handoff_moves r r')"

lemma handoff_moves_trans: "handoff_moves a b \<Longrightarrow> handoff_moves b c \<Longrightarrow> handoff_moves a c"
  by (auto simp: handoff_moves_def)

lemma store_handoff_inv:
  assumes "store_handoff org h db = Inr (r, db')" "sealed_handoff B h" "handoff_inv B db"
  shows "handoff_inv B db' \<and> handoff_evolve db db'"
  using assms
  by (auto simp: store_handoff_def res_simps Let_def same_handoff_def handoff_inv_def handoff_evolve_def handoff_moves_def
      split: option.splits if_splits)

lemma open_handoff_inv:
  assumes "open_handoff B org i eh now db = Inr (r, db')" "handoff_inv B db"
  shows "handoff_inv B db' \<and> handoff_evolve db db'"
proof -
  obtain row where row: "find (\<lambda>r. bh_org r = org \<and> bh_id r = i) (bl_handoffs db) = Some row"
    using assms(1) by (auto simp: open_handoff_def split: option.splits)
  have mem: "row \<in> set (bl_handoffs db)" "bh_org row = org" "bh_id row = i" using find_SomeD [OF row] by auto
  have sealed: "sealed_handoff B (bh_handoff row)" "bh_id row = eh_handoff_id (bh_handoff row)"
    using mem assms(2) by (auto simp: handoff_inv_def)
  then have mk: "mk_ExchangePaymentHandoff (bl_hash B) (bl_literal_ok B) (bl_price_ok B) (bh_handoff row) = Inr (bh_handoff row)"
    by (simp add: sealed_handoff_def)
  obtain w where w: "exchange_handoff_open (bl_hash B) (bl_literal_ok B) (bl_price_ok B) (bh_handoff row) now = Inr w"
    "r = row\<lparr>bh_handoff := (bh_handoff row)\<lparr>eh_status := eh_status w, eh_opened_at := eh_opened_at w\<rparr>\<rparr>"
    "db' = db\<lparr>bl_handoffs := map (\<lambda>x. if bh_id x = i then r else x) (bl_handoffs db)\<rparr>"
    using assms(1) unfolding open_handoff_def row
    by (auto simp: mk bindE_Inr_conv Let_def split: if_splits)
  have r: "handoff_moves row r" "bh_handoff r = w" "bh_id r = i" "sealed_handoff B w" "eh_handoff_id w = i"
  proof -
    note o = w(1) [unfolded exchange_handoff_open_Inr [OF sealed(1)]]
    show "bh_handoff r = w" using o w(2) by auto
    show "handoff_moves row r" using o w(2) unfolding handoff_moves_def by auto
    show "eh_handoff_id w = i" using o sealed(2) mem(3) by auto
    show "bh_id r = i" using mem(3) w(2) by simp
    show "sealed_handoff B w" using o sealed(1) w(1)
      by (auto simp: exchange_handoff_open_def res_simps intro: mk_ExchangePaymentHandoff_sealed split: if_splits)
  qed
  have same: "x = row" if "x \<in> set (bl_handoffs db)" "bh_id x = i" for x
    using that mem assms(2) by (auto simp: handoff_inv_def distinct_map inj_on_def)
  have "map bh_id (bl_handoffs db') = map bh_id (bl_handoffs db)" using r(3) by (auto simp: w(3))
  moreover have "sealed_handoff B (bh_handoff x) \<and> bh_id x = eh_handoff_id (bh_handoff x)" if "x \<in> set (bl_handoffs db')" for x
    using that assms(2) r by (auto simp: handoff_inv_def w(3))
  ultimately have "handoff_inv B db'" using assms(2) by (simp add: handoff_inv_def)
  moreover have "handoff_evolve db db'"
  proof -
    have "\<exists>x' \<in> set (bl_handoffs db'). handoff_moves x x'" if "x \<in> set (bl_handoffs db)" for x
    proof (cases "bh_id x = i")
      case True
      then have "handoff_moves x r" "r \<in> set (bl_handoffs db')" using same [OF that True] that r(1) by (auto simp: w(3))
      then show ?thesis by blast
    next
      case False
      then have "x \<in> set (bl_handoffs db')" using that by (auto simp: w(3))
      then show ?thesis by (auto simp: handoff_moves_def)
    qed
    then show ?thesis by (simp add: handoff_evolve_def)
  qed
  ultimately show ?thesis by simp
qed

lemma handoff_frame: "bl_handoffs db' = bl_handoffs db \<Longrightarrow> handoff_inv B db' = handoff_inv B db \<and> handoff_evolve db db'"
  by (auto simp: handoff_inv_def handoff_evolve_def handoff_moves_def)

lemma bilateral_step_handoffs:
  assumes "bilateral_step B db db'"
  obtains (frame) "bl_handoffs db' = bl_handoffs db"
  | (store) org h r where "sealed_handoff B h" "store_handoff org h db = Inr (r, db')"
  | (opened) org i eh now r where "open_handoff B org i eh now db = Inr (r, db')"
  using assms
proof cases
  case (step_create org i seller r)
  then show ?thesis using create_case_cases frame by fastforce
next
  case (step_append c0 c org q)
  then show ?thesis using append_command_writes frame by fastforce
next
  case (step_apply c0 c org i x uuid corg ct)
  then show ?thesis using frame by (auto elim: apply_command_Inr)
next
  case (step_project org uuid p pr)
  then show ?thesis using publish_projection_writes frame by fastforce
next
  case (step_manifest m0 m org mr)
  then show ?thesis using store_release_manifest_cases frame by fastforce
next
  case (step_envelope e0 e org er)
  then show ?thesis using store_envelope_cases frame by fastforce
next
  case (step_receipt x0 xr org rr)
  then show ?thesis using acknowledge_envelope_cases frame by fastforce
next
  case (step_offer v0 v org orow)
  then show ?thesis using store_offer_ledgers frame by (simp add: same_ledgers_def)
next
  case (step_approve a0 a org now ar)
  then show ?thesis using approve_offer_ledgers frame by (simp add: same_ledgers_def)
next
  case (step_handoff h0 h org hr)
  then show ?thesis using mk_ExchangePaymentHandoff_sealed store by blast
next
  case (step_open org i eh now hr)
  then show ?thesis using opened by blast
qed

interpretation handoffs: evolving_system "bilateral_step B" "handoff_inv B" handoff_evolve for B
proof unfold_locales
  fix s t
  assume "bilateral_step B s t" "handoff_inv B s"
  then have "handoff_inv B t \<and> handoff_evolve s t"
    by (cases rule: bilateral_step_handoffs) (metis handoff_frame, metis store_handoff_inv, metis open_handoff_inv)
  then show "handoff_inv B t" "handoff_evolve s t" by simp_all
next
  show "handoff_evolve s s" for s by (auto simp: handoff_evolve_def handoff_moves_def)
  show "handoff_evolve s u" if "handoff_evolve s t" "handoff_evolve t u" for s t u
    using that unfolding handoff_evolve_def by (meson handoff_moves_trans)
qed

lemma handoff_initial: "handoff_inv B empty_bdb"
  by (simp add: handoff_inv_def empty_bdb_def)

end
