(* ===== verification/ExchangeServiceFacts.thy ===== *)
theory ExchangeServiceFacts
  imports ExchangeService ExchangeJournal
begin

text \<open>
  How requests of the exchange service compose the transactions of the repository: every request moves the
  tables along repository steps, a request that ends in an API problem leaves them as they were (a recorded
  command of publish\_evidence apart), and a request whose command was applied before changes nothing.
\<close>

section \<open>Requests as programs over the tables\<close>

definition keeps :: "(bdb \<Rightarrow> bdb \<Rightarrow> bool) \<Rightarrow> 'a svc \<Rightarrow> bool" where
  "keeps R m \<longleftrightarrow> (\<forall>db. R db (snd (m db)))"

text \<open>A request refuses cleanly for \<open>R\<close> if it moves the tables along \<open>R\<close> whenever it ends in an API problem.\<close>

definition refuses :: "(bdb \<Rightarrow> bdb \<Rightarrow> bool) \<Rightarrow> 'a svc \<Rightarrow> bool" where
  "refuses R m \<longleftrightarrow> (\<forall>db c. fst (m db) = Inl (ApiProblem c) \<longrightarrow> R db (snd (m db)))"

definition no_problem :: "'a svc \<Rightarrow> bool" where
  "no_problem m \<longleftrightarrow> (\<forall>db c. fst (m db) \<noteq> Inl (ApiProblem c))"

lemma bindS_cases:
  obtains e db1 where "m db = (Inl e, db1)" "bindS m f db = (Inl e, db1)"
  | x db1 where "m db = (Inr x, db1)" "bindS m f db = f x db1"
  by (cases "m db"; cases "fst (m db)") (auto simp: bindS_def)

lemma transaction_cases:
  obtains e where "transaction org body db = (Inl e, db)"
  | x db' where "body db = Inr (x, db')" "transaction org body db = (Inr x, db')"
  by (cases "tenant_ok org"; cases "body db") (auto simp: transaction_def split: prod.splits)

lemma api_conflict_snd [simp]: "snd (api_conflict m db) = snd (m db)"
  by (auto simp: api_conflict_def split: prod.splits sum.splits)

lemma simple_svc [simp]: "pure_svc r db = (r, db)" "fails e db = (Inl e, db)"
  by (simp_all add: pure_svc_def fails_def)

lemma up_Inr [simp, res_simps]: "up m = Inr x \<longleftrightarrow> m = Inr x"
  by (cases m) auto

lemma up_no_problem [simp]: "up m \<noteq> Inl (ApiProblem c)"
  by (cases m) auto

lemma keeps_simple: "reflp R \<Longrightarrow> keeps R (pure_svc r)" "reflp R \<Longrightarrow> keeps R (fails e)"
  by (simp_all add: keeps_def reflp_def)

lemma keeps_bindS: "transp R \<Longrightarrow> keeps R m \<Longrightarrow> (\<And>x. keeps R (f x)) \<Longrightarrow> keeps R (bindS m f)"
  unfolding keeps_def transp_def
proof
  fix db
  assume "\<forall>x y z. R x y \<longrightarrow> R y z \<longrightarrow> R x z" "\<forall>db. R db (snd (m db))" "\<And>x. \<forall>db. R db (snd (f x db))"
  then show "R db (snd (bindS m f db))" by (cases rule: bindS_cases [of m db f]) (metis snd_conv)+
qed

lemma keeps_transaction:
  "reflp R \<Longrightarrow> (\<And>db x db'. body db = Inr (x, db') \<Longrightarrow> R db db') \<Longrightarrow> keeps R (transaction org body)"
  unfolding keeps_def
proof
  fix db
  assume "reflp R" "\<And>db x db'. body db = Inr (x, db') \<Longrightarrow> R db db'"
  then show "R db (snd (transaction org body db))"
    by (cases rule: transaction_cases [of org body db]) (auto simp: reflp_def)
qed

lemma keeps_api_conflict: "keeps R m \<Longrightarrow> keeps R (api_conflict m)"
  by (simp add: keeps_def)

lemma keeps_read: "reflp R \<Longrightarrow> keeps R (transaction org (\<lambda>db. bindE (g db) (\<lambda>x. Inr (h x, db))))"
  by (rule keeps_transaction) (auto simp: res_simps reflp_def)

text \<open>The preorders used below.\<close>

abbreviation reaches :: "bilateral_env \<Rightarrow> bdb \<Rightarrow> bdb \<Rightarrow> bool" where
  "reaches B \<equiv> (bilateral_step B)\<^sup>*\<^sup>*"

lemma preorders [simp]: "reflp (reaches B)" "transp (reaches B)" "reflp ((=) :: bdb \<Rightarrow> _)" "transp ((=) :: bdb \<Rightarrow> _)"
  by (auto simp: reflp_def transp_def)

lemma keeps_query: "reflp R \<Longrightarrow> keeps R (transaction org (\<lambda>db. Inr (g db, db)))"
  by (rule keeps_transaction) (auto simp: reflp_def)

lemma view_case_keeps: "reflp R \<Longrightarrow> transp R \<Longrightarrow> keeps R (view_case S org party i token guest now)"
  unfolding view_case_def Let_def by (intro keeps_bindS keeps_simple keeps_read)

lemma replayed_projection_keeps:
  assumes "reflp R" "transp R"
  shows "keeps R (replayed_projection S route party command_id now)"
  unfolding replayed_projection_def
proof (intro keeps_bindS)
  show "keeps R (if \<not> applied then pure_svc (Inr None)
      else bindS (view_case S (party_organization route (Some party)) (Some party) (rt_case_id route)
              (rc_encrypt (sv_codec S) route) False now) (\<lambda>v. pure_svc (Inr (Some v))))" for applied
    using assms by (auto intro!: keeps_bindS keeps_simple view_case_keeps)
qed (use assms in \<open>auto intro!: keeps_transaction simp: reflp_def\<close>)

section \<open>Requests run repository steps\<close>

lemma get_case_frame: "bl_cases db' = bl_cases db \<Longrightarrow> get_case org i db' = get_case org i db"
  by (simp add: get_case_def)

lemma create_case_get:
  assumes "create_case B org i seller db = Inr (x, db')"
  shows "get_case org i db' = Inr x"
proof (cases "find (\<lambda>r. bc_id r = i) (bl_cases db)")
  case None
  then have "find (\<lambda>r. bc_org r = org \<and> bc_id r = i) (bl_cases db) = None"
    using find_NoneD [OF None] by (auto simp: find_None_iff)
  moreover have "db' = db\<lparr>bl_cases := bl_cases db @ [x]\<rparr>" "bc_id x = i" "bc_org x = org"
    using assms None by (auto simp: create_case_def res_simps Let_def)
  ultimately show ?thesis by (simp add: get_case_def find_append)
next
  case (Some y)
  then have y: "x = y" "db' = db" "bc_org y = org" using assms by (auto simp: create_case_def split: if_splits)
  have "find (\<lambda>r. bc_org r = org \<and> bc_id r = i) (bl_cases db) = Some y"
    using Some y(3) by (induction "bl_cases db") (auto split: if_splits simp: find_Some_iff)
  then show ?thesis using y by (simp add: get_case_def)
qed

lemma advance_case_reaches:
  assumes "advance_case B org uuid x c corg db = Inr (y, db')" "mk_PartyCommand c0 = Inr c" "get_case org i db = Inr x"
  shows "reaches B db db'"
proof -
  obtain ct db1 r where "apply_command B org (uuid 0) x c corg db = Inr (ct, db1)"
    "publish_projection org (uuid 1) (ct_buyer_projection ct) db1 = Inr (r, db')"
    using assms(1) by (auto simp: advance_case_def bindE_Inr_conv)
  then have "bilateral_step B db db1" "bilateral_step B db1 db'"
    using assms(2,3) by (auto intro: step_apply step_project)
  then show ?thesis by auto
qed

lemma record_and_advance_reaches:
  assumes "record_and_advance B org uuid x c corg db = Inr (y, db')" "mk_PartyCommand c0 = Inr c" "get_case org i db = Inr x"
  shows "reaches B db db'"
proof -
  obtain q db1 where q: "append_command B org c db = Inr (q, db1)" "advance_case B org uuid x c corg db1 = Inr (y, db')"
    using assms(1) by (auto simp: record_and_advance_def bindE_Inr_conv)
  then obtain rs where "db1 = db\<lparr>bl_commands := rs\<rparr>" using append_command_writes by blast
  then have "get_case org i db1 = Inr x" using assms(3) get_case_frame [of db1 db] by simp
  then have "reaches B db1 db'" using advance_case_reaches q(2) assms(2) by blast
  moreover have "bilateral_step B db db1" using q(1) assms(2) by (rule step_append [rotated])
  ultimately show ?thesis by (rule converse_rtranclp_into_rtranclp [rotated])
qed

lemma propose_transaction_reaches:
  assumes "propose_transaction S route actor_id party i idem ev cid x uuid db = Inr (y, db')"
  shows "reaches (sv_bilateral S) db db'"
proof -
  let ?B = "sv_bilateral S" and ?org = "rt_buyer_org route"
  from assms obtain exchange v0 v c0 c r db1 where s: "get_case ?org i db = Inr exchange"
    "mk_OfferVersion (bl_hash ?B) (bl_price_ok ?B) v0 = Inr v" "mk_PartyCommand c0 = Inr c" "store_offer ?B ?org v db = Inr (r, db1)"
    "record_and_advance ?B ?org uuid exchange c (party_organization route (Some party)) db1 = Inr (y, db')"
    unfolding propose_transaction_def Let_def by (force simp: bindE_Inr_conv)
  have "bl_cases db1 = bl_cases db" using store_offer_ledgers [OF s(4)] by (simp add: same_ledgers_def)
  then have "reaches ?B db1 db'" using record_and_advance_reaches [OF s(5,3)] s(1) get_case_frame by metis
  moreover have "bilateral_step ?B db db1" using s(2,4) by (rule step_offer)
  ultimately show ?thesis by (rule converse_rtranclp_into_rtranclp [rotated])
qed

lemma accept_transaction_reaches:
  assumes "accept_transaction S route actor_id party i idem ev cid h now uuid db = Inr (y, db')"
  shows "reaches (sv_bilateral S) db db'"
proof -
  let ?B = "sv_bilateral S" and ?org = "rt_buyer_org route"
  from assms obtain exchange c0 c where "get_case ?org i db = Inr exchange" "mk_PartyCommand c0 = Inr c"
    "record_and_advance ?B ?org uuid exchange c (party_organization route (Some party)) db = Inr (y, db')"
    unfolding accept_transaction_def Let_def by (force simp: bindE_Inr_conv split: option.splits if_splits)
  then show ?thesis using record_and_advance_reaches by blast
qed

lemma approve_transaction_reaches:
  assumes "approve_transaction S route org actor_id i idem ev cid h ex now uuid db = Inr (y, db')"
  shows "reaches (sv_bilateral S) db db'"
proof -
  let ?B = "sv_bilateral S" and ?org = "rt_buyer_org route"
  from assms obtain exchange a0 a c0 c r db1 where s: "get_case ?org i db = Inr exchange" "mk_OfferApproval a0 = Inr a"
    "approve_offer ?B ?org a now db = Inr (r, db1)" "mk_PartyCommand c0 = Inr c"
    "record_and_advance ?B ?org uuid exchange c org db1 = Inr (y, db')"
    unfolding approve_transaction_def Let_def by (force simp: bindE_Inr_conv)
  have "bl_cases db1 = bl_cases db" using approve_offer_ledgers [OF s(3)] by (simp add: same_ledgers_def)
  then have "reaches ?B db1 db'" using record_and_advance_reaches [OF s(5,4)] s(1) get_case_frame by metis
  moreover have "bilateral_step ?B db db1" using s(2,3) by (rule step_approve)
  ultimately show ?thesis by (rule converse_rtranclp_into_rtranclp [rotated])
qed

lemma handoff_transaction_Inr:
  assumes "handoff_transaction S route i ev h now db = Inr (r, db')"
  obtains exchange offer approval h0 hh where "get_case (rt_buyer_org route) i db = Inr exchange" "bc_version exchange = ev"
    "bc_state exchange = APPROVED_FOR_HANDOFF" "offer \<in> set (offers_of (rt_buyer_org route) i db)"
    "ov_offer_hash (bo_terms offer) = h" "bo_approval_status offer = OfferApprovalStatus.APPROVED"
    "approval \<in> set (bl_approvals db)" "ba_org approval = rt_buyer_org route" "oa_case_id (ba_approval approval) = i"
    "oa_offer_hash (ba_approval approval) = h"
    "mk_ExchangePaymentHandoff (bl_hash (sv_bilateral S)) (bl_literal_ok (sv_bilateral S)) (bl_price_ok (sv_bilateral S)) h0 = Inr hh"
    "eh_case_id h0 = i" "eh_offer_hash h0 = h" "eh_approval_hash h0 = ba_approval_hash approval"
    "eh_destination_url h0 = rt_merchant_url route" "eh_recipient h0 = rt_merchant_name route"
    "eh_amount h0 = ov_total (bo_terms offer)" "eh_currency h0 = ov_currency (bo_terms offer)" "eh_created_at h0 = now"
    "eh_expires_at h0 = earliest [ov_expires_at (bo_terms offer), oa_expires_at (ba_approval approval)] (shift_seconds now 900)"
    "eh_status h0 = ExchangeHandoffStatus.READY" "eh_opened_at h0 = None"
    "store_handoff (rt_buyer_org route) hh db = Inr (r, db')"
proof -
  let ?org = "rt_buyer_org route"
  let ?fo = "find (\<lambda>r. bo_org r = ?org \<and> ov_case_id (bo_terms r) = i \<and> ov_offer_hash (bo_terms r) = h) (bl_offers db)"
  let ?fa = "find (\<lambda>a. ba_org a = ?org \<and> oa_case_id (ba_approval a) = i \<and> oa_offer_hash (ba_approval a) = h) (bl_approvals db)"
  obtain exchange where x: "get_case ?org i db = Inr exchange" "bc_version exchange = ev" "bc_state exchange = APPROVED_FOR_HANDOFF"
    using assms by (auto simp: handoff_transaction_def Let_def bindE_Inr_conv split: if_splits)
  obtain offer where offer: "?fo = Some offer" using assms x by (cases ?fo) (auto simp: handoff_transaction_def Let_def)
  obtain approval where approval: "?fa = Some approval"
    using assms x offer by (cases ?fa) (auto simp: handoff_transaction_def Let_def)
  show thesis
    using assms x offer approval find_SomeD [OF offer] find_SomeD [OF approval] that
    by (auto simp: handoff_transaction_def Let_def bindE_Inr_conv offers_of_mem split: if_splits)
qed

lemma append_reaches: "append_command B org c db = Inr (q, db') \<Longrightarrow> mk_PartyCommand c0 = Inr c \<Longrightarrow> reaches B db db'"
  by (rule r_into_rtranclp, rule step_append)

lemma open_reaches: "open_handoff B org i eh now db = Inr (r, db') \<Longrightarrow> reaches B db db'"
  by (rule r_into_rtranclp, rule step_open)

lemma handoff_transaction_reaches:
  assumes "handoff_transaction S route i ev h now db = Inr (r, db')"
  shows "reaches (sv_bilateral S) db db'"
  using assms by (rule handoff_transaction_Inr) (rule r_into_rtranclp, rule step_handoff)

lemma release_requirement_reaches:
  assumes "release_requirement S org actor_id idem i now brief uuid exchange db = Inr (y, db')" "get_case org i db = Inr exchange"
  shows "reaches (sv_bilateral S) db db'"
proof -
  let ?B = "sv_bilateral S"
  from assms(1) obtain b m0 m e0 e c0 c mr db1 er db2 z where s:
    "mk_ReleaseManifest (bl_hash ?B) m0 = Inr m" "mk_ExchangeEnvelope (bl_hash ?B) e0 = Inr e" "mk_PartyCommand c0 = Inr c"
    "store_release_manifest org m db = Inr (mr, db1)" "store_envelope org e db1 = Inr (er, db2)"
    "record_and_advance ?B org uuid exchange c org db2 = Inr (z, db')"
    unfolding release_requirement_def Let_def requirement_manifest_def requirement_envelope_def
    by (force simp: bindE_Inr_conv split: option.splits if_splits)
  have "bl_cases db2 = bl_cases db"
    using store_release_manifest_cases [OF s(4)] store_envelope_cases [OF s(5)] by auto
  then have "reaches ?B db2 db'" using record_and_advance_reaches [OF s(6,3)] assms(2) get_case_frame by metis
  moreover have "bilateral_step ?B db db1" "bilateral_step ?B db1 db2"
    using s(1,4) s(2,5) by (auto intro: step_manifest step_envelope)
  ultimately show ?thesis by (meson converse_rtranclp_into_rtranclp)
qed

lemma case_transaction_reaches:
  assumes "case_transaction S briefs org actor_id idem i seller preq now uuid db = Inr (y, db')"
  shows "reaches (sv_bilateral S) db db'"
proof -
  obtain x db1 where x: "create_case (sv_bilateral S) org i seller db = Inr (x, db1)"
    using assms by (auto simp: case_transaction_def bindE_Inr_conv)
  have "reaches (sv_bilateral S) db1 db'"
    using assms x release_requirement_reaches [OF _ create_case_get [OF x]]
    by (auto simp: case_transaction_def bindE_Inr_conv split: if_splits)
  moreover have "bilateral_step (sv_bilateral S) db db1" using x by (rule step_create)
  ultimately show ?thesis by (rule converse_rtranclp_into_rtranclp [rotated])
qed

lemma publish_compiled_reaches: "keeps (reaches B) (publish_compiled route uuid ct)"
  unfolding publish_compiled_def
  by (rule keeps_transaction) (auto simp: bindE_Inr_conv intro: step_project)

lemma once_reaches:
  assumes "\<And>db y db'. body db = Inr (y, db') \<Longrightarrow> reaches B db db'"
  shows "keeps (reaches B) (once S route party cid now u body)"
  unfolding once_def
proof (intro keeps_bindS replayed_projection_keeps)
  fix replayed :: "pyval option"
  show "keeps (reaches B) (case replayed of Some v \<Rightarrow> pure_svc (Inr v)
     | None \<Rightarrow> bindS (api_conflict (transaction (rt_buyer_org route) body)) (\<lambda>(ct, _).
         bindS (publish_compiled route u ct) (\<lambda>_.
           pure_svc (Inr (projection_view (if party = BUYER then ct_buyer_projection ct else ct_seller_projection ct))))))"
    using assms by (auto split: option.split intro!: keeps_bindS keeps_simple keeps_api_conflict keeps_transaction publish_compiled_reaches)
qed simp_all

text \<open>The requests of the service, by any caller, at any time.\<close>

inductive service_step :: "service_env \<Rightarrow> bdb \<Rightarrow> bdb \<Rightarrow> bool" for S where
  request_create: "db' = snd (exchange_create_case S briefs org actor_id party idem preq cand guest now uuid db) \<Longrightarrow> service_step S db db'"
| request_view: "db' = snd (view_case S org party i token guest now db) \<Longrightarrow> service_step S db db'"
| request_evidence: "db' = snd (publish_evidence S spans org actor_id party i token idem ev summary ids guest clock uuid db) \<Longrightarrow>
    service_step S db db'"
| request_propose: "db' = snd (propose_offer S org actor_id party i token idem ev x guest clock uuid db) \<Longrightarrow> service_step S db db'"
| request_accept: "db' = snd (accept_offer S org actor_id party i token idem ev h guest clock uuid db) \<Longrightarrow> service_step S db db'"
| request_approve: "db' = snd (exchange_approve_offer S org actor_id party i token idem ev h ex guest clock uuid db) \<Longrightarrow> service_step S db db'"
| request_handoff: "db' = snd (create_handoff S org party i token ev h guest clock db) \<Longrightarrow> service_step S db db'"
| request_open: "db' = snd (exchange_open_handoff S org party i token hid hh guest clock db) \<Longrightarrow> service_step S db db'"

lemmas svc_intros = keeps_bindS keeps_simple keeps_api_conflict keeps_transaction publish_compiled_reaches

lemma create_reaches: "keeps (reaches (sv_bilateral S)) (exchange_create_case S briefs org actor_id party idem preq cand guest now uuid)"
  unfolding exchange_create_case_def Let_def
  by (auto split: option.split intro!: svc_intros intro: case_transaction_reaches)

lemma evidence_reaches: "keeps (reaches (sv_bilateral S)) (publish_evidence S spans org actor_id party i token idem ev summary ids guest clock uuid)"
proof -
  let ?B = "sv_bilateral S"
  have tail: "keeps (reaches ?B) (bindS (transaction (rt_seller_org route) (\<lambda>db.
      bindE (up (append_command ?B (rt_seller_org route) c db)) (\<lambda>(_, db'). Inr ((), db')))) (\<lambda>_.
      bindS (api_conflict (transaction (rt_buyer_org route) (\<lambda>db.
        bindE (up (get_case (rt_buyer_org route) i db)) (\<lambda>exchange.
          advance_case ?B (rt_buyer_org route) uuid exchange c (rt_seller_org route) db)))) (\<lambda>(ct, _).
      bindS (publish_compiled route (uuid 2) ct) (\<lambda>_. pure_svc (Inr (projection_view (ct_seller_projection ct)))))))"
    if "mk_PartyCommand c0 = Inr c" for route c0 c
    using that
    by (auto simp: bindE_Inr_conv split: prod.splits intro!: svc_intros intro: advance_case_reaches append_reaches)
  have cmd: "keeps (reaches ?B) (bindS (pure_svc (up (compiled (mk_PartyCommand c0)))) f)"
    if "\<And>c. mk_PartyCommand c0 = Inr c \<Longrightarrow> keeps (reaches ?B) (f c)" for c0 and f :: "PartyCommand \<Rightarrow> pyval svc"
    using that by (cases "mk_PartyCommand c0") (auto simp: keeps_def bindS_def)
  show ?thesis unfolding publish_evidence_def Let_def
    by (auto split: option.split intro!: svc_intros(1-4) keeps_query replayed_projection_keeps cmd tail simp del: up.simps)
qed

lemma service_step_reaches:
  assumes "service_step S db db'"
  shows "reaches (sv_bilateral S) db db'"
proof -
  let ?R = "reaches (sv_bilateral S)"
  have propose: "keeps ?R (propose_offer S org actor_id party i token idem ev x guest clock uuid)"
    for org actor_id party i token idem ev x guest clock uuid
    unfolding propose_offer_def by (auto intro!: svc_intros(1,2) once_reaches intro: propose_transaction_reaches)
  have accept: "keeps ?R (accept_offer S org actor_id party i token idem ev h guest clock uuid)"
    for org actor_id party i token idem ev h guest clock uuid
    unfolding accept_offer_def by (auto intro!: svc_intros(1,2) once_reaches intro: accept_transaction_reaches)
  have approve: "keeps ?R (exchange_approve_offer S org actor_id party i token idem ev h ex guest clock uuid)"
    for org actor_id party i token idem ev h ex guest clock uuid
    unfolding exchange_approve_offer_def by (auto intro!: svc_intros(1-3) once_reaches intro: approve_transaction_reaches)
  have handoff: "keeps ?R (create_handoff S org party i token ev h guest clock)" for org party i token ev h guest clock
    unfolding create_handoff_def
    by (auto intro!: svc_intros(1-5) intro: handoff_transaction_reaches)
  have opened: "keeps ?R (exchange_open_handoff S org party i token hid hh guest clock)" for org party i token hid hh guest clock
    unfolding exchange_open_handoff_def
    by (auto simp: bindE_Inr_conv split: if_splits intro!: svc_intros(1-5)) (rule open_reaches, assumption)
  show ?thesis using assms
    by cases (auto simp: create_reaches [unfolded keeps_def] evidence_reaches [unfolded keeps_def] propose [unfolded keeps_def]
        accept [unfolded keeps_def] approve [unfolded keeps_def] handoff [unfolded keeps_def] opened [unfolded keeps_def]
        view_case_keeps [unfolded keeps_def])
qed

section \<open>Refused requests\<close>

lemma refuses_simple [simp]: "reflp R \<Longrightarrow> refuses R (pure_svc r)" "reflp R \<Longrightarrow> refuses R (fails e)"
  by (simp_all add: refuses_def reflp_def)

lemma refuses_transaction: "reflp R \<Longrightarrow> refuses R (transaction org body)"
  unfolding refuses_def
proof (intro allI impI)
  fix db c
  assume "reflp R" "fst (transaction org body db) = Inl (ApiProblem c)"
  then show "R db (snd (transaction org body db))"
    by (cases rule: transaction_cases [of org body db]) (auto simp: reflp_def)
qed

lemma refuses_conflict: "reflp R \<Longrightarrow> refuses R (api_conflict (transaction org body))"
  unfolding refuses_def
proof (intro allI impI)
  fix db c
  assume "reflp R" "fst (api_conflict (transaction org body) db) = Inl (ApiProblem c)"
  then show "R db (snd (api_conflict (transaction org body) db))"
    by (cases rule: transaction_cases [of org body db]) (auto simp: reflp_def api_conflict_def)
qed

text \<open>Reading first, writing last.\<close>

lemma refuses_after_read: "reflp R \<Longrightarrow> keeps (=) m \<Longrightarrow> (\<And>x. refuses R (f x)) \<Longrightarrow> refuses R (bindS m f)"
  unfolding refuses_def
proof (intro allI impI)
  fix db c
  assume a: "reflp R" "keeps (=) m" "\<And>x. \<forall>db c. fst (f x db) = Inl (ApiProblem c) \<longrightarrow> R db (snd (f x db))"
    "fst (bindS m f db) = Inl (ApiProblem c)"
  show "R db (snd (bindS m f db))"
  proof (cases rule: bindS_cases [of m db f])
    case (1 e db1)
    then show ?thesis using a(1,2) by (metis keeps_def reflp_def snd_conv)
  next
    case (2 x db1)
    then show ?thesis using a(2,3,4) by (metis keeps_def snd_conv)
  qed
qed

lemma refuses_before: "keeps R m \<Longrightarrow> (\<And>x. refuses (=) (f x)) \<Longrightarrow> refuses R (bindS m f)"
  unfolding refuses_def
proof (intro allI impI)
  fix db c
  assume a: "keeps R m" "\<And>x. \<forall>db c. fst (f x db) = Inl (ApiProblem c) \<longrightarrow> db = snd (f x db)"
    "fst (bindS m f db) = Inl (ApiProblem c)"
  show "R db (snd (bindS m f db))"
  proof (cases rule: bindS_cases [of m db f])
    case (1 e db1)
    then show ?thesis using a(1) by (metis keeps_def snd_conv)
  next
    case (2 x db1)
    then show ?thesis using a by (metis keeps_def snd_conv)
  qed
qed

lemma refuses_then_sure: "refuses R m \<Longrightarrow> (\<And>x. no_problem (f x)) \<Longrightarrow> refuses R (bindS m f)"
  unfolding refuses_def
proof (intro allI impI)
  fix db c
  assume a: "\<forall>db c. fst (m db) = Inl (ApiProblem c) \<longrightarrow> R db (snd (m db))" "\<And>x. no_problem (f x)"
    "fst (bindS m f db) = Inl (ApiProblem c)"
  show "R db (snd (bindS m f db))"
  proof (cases rule: bindS_cases [of m db f])
    case (1 e db1)
    then show ?thesis using a(3) a(1) [rule_format, of db c] by simp
  next
    case (2 x db1)
    then show ?thesis using a(2,3) unfolding no_problem_def by metis
  qed
qed

lemma no_problem_bindS: "no_problem m \<Longrightarrow> (\<And>x. no_problem (f x)) \<Longrightarrow> no_problem (bindS m f)"
  unfolding no_problem_def
proof (intro allI)
  fix db c
  assume a: "\<forall>db c. fst (m db) \<noteq> Inl (ApiProblem c)" "\<And>x. \<forall>db c. fst (f x db) \<noteq> Inl (ApiProblem c)"
  show "fst (bindS m f db) \<noteq> Inl (ApiProblem c)"
  proof (cases rule: bindS_cases [of m db f])
    case (1 e db1)
    then show ?thesis using a(1) [rule_format, of db c] by simp
  next
    case (2 x db1)
    then show ?thesis using a(2) by simp
  qed
qed

lemma no_problem_publish: "no_problem (publish_compiled route uuid ct)"
  unfolding no_problem_def publish_compiled_def transaction_def
  by (auto simp: bindE_Inl_conv split: sum.split prod.split)

lemma no_problem_pure: "(\<And>c. r \<noteq> Inl (ApiProblem c)) \<Longrightarrow> no_problem (pure_svc r)"
  by (simp add: no_problem_def)

lemma no_problem_fails: "(\<And>c. e \<noteq> ApiProblem c) \<Longrightarrow> no_problem (fails e)"
  by (simp add: no_problem_def)

lemma once_refuses: "refuses (=) (once S route party cid now u body)"
proof -
  have "refuses (=) (case replayed of Some v \<Rightarrow> pure_svc (Inr v)
     | None \<Rightarrow> bindS (api_conflict (transaction (rt_buyer_org route) body)) (\<lambda>(ct, _).
         bindS (publish_compiled route u ct) (\<lambda>_.
           pure_svc (Inr (projection_view (if party = BUYER then ct_buyer_projection ct else ct_seller_projection ct))))))"
    for replayed :: "pyval option"
    by (auto split: option.split prod.split intro!: refuses_then_sure refuses_conflict no_problem_bindS no_problem_publish no_problem_pure)
  then show ?thesis unfolding once_def by (intro refuses_after_read replayed_projection_keeps) simp_all
qed

definition same_but_commands :: "bdb \<Rightarrow> bdb \<Rightarrow> bool" where
  "same_but_commands db db' \<longleftrightarrow> (\<exists>cs. db' = db\<lparr>bl_commands := cs\<rparr>)"

lemma same_but_commands_refl: "reflp same_but_commands"
  unfolding reflp_def same_but_commands_def
proof
  fix db :: bdb
  show "\<exists>cs. db = db\<lparr>bl_commands := cs\<rparr>" by (rule exI [of _ "bl_commands db"]) simp
qed

lemma evidence_refuses:
  "refuses same_but_commands (publish_evidence S spans org actor_id party i token idem ev summary ids guest clock uuid)"
proof -
  let ?B = "sv_bilateral S"
  have tail: "refuses same_but_commands (bindS (transaction (rt_seller_org route) (\<lambda>db.
      bindE (up (append_command ?B (rt_seller_org route) c db)) (\<lambda>(_, db'). Inr ((), db')))) (\<lambda>_.
      bindS (api_conflict (transaction (rt_buyer_org route) (\<lambda>db.
        bindE (up (get_case (rt_buyer_org route) i db)) (\<lambda>exchange.
          advance_case ?B (rt_buyer_org route) uuid exchange c (rt_seller_org route) db)))) (\<lambda>(ct, _).
      bindS (publish_compiled route (uuid 2) ct) (\<lambda>_. pure_svc (Inr (projection_view (ct_seller_projection ct)))))))" for route c
  proof (rule refuses_before)
    show "keeps same_but_commands (transaction (rt_seller_org route) (\<lambda>db.
        bindE (up (append_command ?B (rt_seller_org route) c db)) (\<lambda>(_, db'). Inr ((), db'))))"
      by (rule keeps_transaction [OF same_but_commands_refl])
        (auto simp: bindE_Inr_conv same_but_commands_def dest: append_command_writes)
  qed (auto split: prod.split intro!: refuses_then_sure refuses_conflict no_problem_bindS no_problem_publish no_problem_pure)
  show ?thesis unfolding publish_evidence_def Let_def
    by (auto split: option.split intro!: refuses_after_read same_but_commands_refl refuses_simple keeps_simple keeps_query
        replayed_projection_keeps tail)
qed

section \<open>Repeated requests\<close>

definition applied_in :: "bdb \<Rightarrow> string \<Rightarrow> string \<Rightarrow> string \<Rightarrow> bool" where
  "applied_in db org i cid \<longleftrightarrow> (\<exists>t \<in> set (bl_transitions db). bt_org t = org \<and> bt_case_id t = i \<and> bt_command_id t = cid)"

lemma applied_in_evolves: "journal_evolve db db' \<Longrightarrow> applied_in db org i cid \<Longrightarrow> applied_in db' org i cid"
  by (auto simp: journal_evolve_def applied_in_def)

text \<open>A command that was applied is answered with the stored projection of the party.\<close>

lemma view_case_stored:
  assumes "view_case S org party i token guest now db = (Inr v, db')" "decode_route S org party i token guest now = Inr route"
  shows "db' = db" "\<exists>r. latest_projection (party_organization route party) i (the party) db = Inr r \<and> v = projection_view (bp_projection r)"
  using assms by (auto simp: view_case_def bindS_def Let_def transaction_def bindE_Inr_conv split: sum.splits if_splits prod.splits)

lemma decode_route_token:
  assumes "decode_route S org party i token guest now = Inr route"
  shows "rc_decrypt (sv_codec S) token = Some route" "rt_case_id route = i" "party \<in> {Some BUYER, Some SELLER}"
  using assms by (auto simp: decode_route_def decode_def Let_def split: if_splits option.splits sum.splits route_error.splits)

text \<open>A command that was applied is answered exactly as the party's read of the case.\<close>

lemma replayed_projection_view:
  assumes "applied_in db (rt_buyer_org route) (rt_case_id route) cid" "tenant_ok (rt_buyer_org route)"
  shows "bindS (replayed_projection S route party cid now)
      (\<lambda>replayed. case replayed of Some v \<Rightarrow> pure_svc (Inr v) | None \<Rightarrow> m) db =
    view_case S (party_organization route (Some party)) (Some party) (rt_case_id route) (rc_encrypt (sv_codec S) route) False now db"
proof -
  define q where "q = transaction (rt_buyer_org route) (\<lambda>db.
     Inr (list_ex (\<lambda>t. bt_org t = rt_buyer_org route \<and> bt_case_id t = rt_case_id route \<and> bt_command_id t = cid)
       (bl_transitions db), db))"
  define view where "view = view_case S (party_organization route (Some party)) (Some party) (rt_case_id route)
     (rc_encrypt (sv_codec S) route) False now"
  have "q db = (Inr True, db)" using assms by (simp add: q_def transaction_def applied_in_def list_ex_iff)
  moreover obtain r where "view db = (r, db)"
    using view_case_keeps [of "(=)" S] unfolding view_def keeps_def by (metis prod.collapse reflp_on_equality transp_on_equality)
  ultimately show ?thesis
    unfolding replayed_projection_def q_def [symmetric] view_def [symmetric]
    by (cases r) (simp_all add: bindS_def)
qed

lemma viewed_projection_stored:
  assumes "view_case S (party_organization route (Some party)) (Some party) i (rc_encrypt (sv_codec S) route) False now db = (Inr v, db')"
    and codec: "rc_decrypt (sv_codec S) (rc_encrypt (sv_codec S) route) = Some route"
  shows "\<exists>r. latest_projection (party_organization route (Some party)) i party db = Inr r \<and> v = projection_view (bp_projection r)"
proof -
  from assms(1) obtain route' where d: "decode_route S (party_organization route (Some party)) (Some party) i
      (rc_encrypt (sv_codec S) route) False now = Inr route'"
    by (auto simp: view_case_def bindS_def split: sum.splits)
  then have "route' = route" using decode_route_token(1) [OF d] codec by simp
  with d view_case_stored(2) [OF assms(1)] show ?thesis by simp
qed

section \<open>Requests that were applied\<close>

lemma advance_case_applies:
  "advance_case B org uuid x c corg db = Inr (y, db') \<Longrightarrow> applied_in db' org (bc_id x) (pc_id c)"
  by (auto simp: advance_case_def bindE_Inr_conv applied_in_def dest!: publish_projection_writes elim!: apply_command_Inr)

lemma record_and_advance_applies:
  "record_and_advance B org uuid x c corg db = Inr (y, db') \<Longrightarrow> applied_in db' org (bc_id x) (pc_id c)"
  by (auto simp: record_and_advance_def bindE_Inr_conv intro: advance_case_applies)

lemma get_case_id: "get_case org i db = Inr x \<Longrightarrow> bc_id x = i"
  by (auto simp: get_case_def split: option.splits dest: find_SomeD)

lemma mk_PartyCommand_same: "mk_PartyCommand c0 = Inr c \<Longrightarrow> c = c0"
  by (auto simp: mk_PartyCommand_def split: if_splits)

lemma transactions_apply:
  "propose_transaction S route actor_id party i idem ev cid x uuid db = Inr (y, db') \<Longrightarrow> applied_in db' (rt_buyer_org route) i cid"
  "accept_transaction S route actor_id party i idem ev cid h now uuid db = Inr (y, db') \<Longrightarrow> applied_in db' (rt_buyer_org route) i cid"
  "approve_transaction S route org actor_id i idem ev cid h ex now uuid db = Inr (y, db') \<Longrightarrow> applied_in db' (rt_buyer_org route) i cid"
  unfolding propose_transaction_def accept_transaction_def approve_transaction_def Let_def
  by (auto simp: bindE_Inr_conv split: option.splits if_splits prod.splits
      dest!: record_and_advance_applies mk_PartyCommand_same get_case_id)

lemma publish_compiled_applied: "keeps (\<lambda>db db'. applied_in db org i cid \<longrightarrow> applied_in db' org i cid) (publish_compiled route u ct)"
  unfolding publish_compiled_def
  by (rule keeps_transaction) (auto simp: reflp_def bindE_Inr_conv applied_in_def dest!: publish_projection_writes)

lemma once_applies:
  assumes "once S route party cid now u body db = (Inr v, db')"
    and body: "\<And>db y db'. body db = Inr (y, db') \<Longrightarrow> applied_in db' (rt_buyer_org route) (rt_case_id route) cid"
  shows "applied_in db' (rt_buyer_org route) (rt_case_id route) cid"
proof -
  let ?r = "replayed_projection S route party cid now"
  let ?q = "\<lambda>db. (Inr (list_ex (\<lambda>t. bt_org t = rt_buyer_org route \<and> bt_case_id t = rt_case_id route \<and> bt_command_id t = cid)
       (bl_transitions db), db)) :: svc_error + bool \<times> bdb"
  have "snd (?r db) = db" using replayed_projection_keeps [of "(=)" S] by (simp add: keeps_def)
  then obtain rep where rep: "?r db = (Inr rep, db)"
    using assms(1) by (cases "?r db"; cases "fst (?r db)") (auto simp: once_def bindS_def)
  show ?thesis
  proof (cases rep)
    case (Some w)
    then have "fst (transaction (rt_buyer_org route) ?q db) = Inr True"
      using rep by (auto simp: replayed_projection_def bindS_def split: prod.splits sum.splits if_splits)
    then have "applied_in db (rt_buyer_org route) (rt_case_id route) cid"
      by (auto simp: transaction_def applied_in_def list_ex_iff split: if_splits)
    then show ?thesis using assms(1) rep Some by (simp add: once_def bindS_def)
  next
    case None
    then obtain ct p db1 where 1: "transaction (rt_buyer_org route) body db = (Inr (ct, p), db1)"
      "snd (publish_compiled route u ct db1) = db'"
      using assms(1) rep by (auto simp: once_def bindS_def api_conflict_def split: prod.splits sum.splits)
    then have "applied_in db1 (rt_buyer_org route) (rt_case_id route) cid"
      using body by (cases rule: transaction_cases [of "rt_buyer_org route" body db]) auto
    then show ?thesis using publish_compiled_applied 1(2) unfolding keeps_def by metis
  qed
qed

lemma once_tenant: "once S route party cid now u body db = (Inr v, db') \<Longrightarrow> tenant_ok (rt_buyer_org route)"
  by (rule ccontr) (simp add: once_def replayed_projection_def bindS_def transaction_def)

text \<open>The requests that carry an idempotency key, with the route they decode and the party that is answered.\<close>

inductive keyed_request :: "service_env \<Rightarrow> string \<Rightarrow> string \<Rightarrow> ExchangeRoute \<Rightarrow> ExchangeParty \<Rightarrow> pyval svc \<Rightarrow> bool" for S i idem route where
  keyed_propose: "decode_route S org (Some party) i token guest (clock 0) = Inr route \<Longrightarrow>
    keyed_request S i idem route party (propose_offer S org actor_id (Some party) i token idem ev x guest clock uuid)"
| keyed_accept: "decode_route S org (Some party) i token guest (clock 0) = Inr route \<Longrightarrow>
    keyed_request S i idem route party (accept_offer S org actor_id (Some party) i token idem ev h guest clock uuid)"
| keyed_approve: "decode_route S org (Some BUYER) i token guest (clock 0) = Inr route \<Longrightarrow>
    keyed_request S i idem route BUYER (exchange_approve_offer S org actor_id (Some BUYER) i token idem ev h ex guest clock uuid)"

lemma keyed_request_once:
  assumes "keyed_request S i idem route party req"
  obtains now u body where "rt_case_id route = i"
    "req = bindS (pure_svc (stable_id (sv_bilateral S) ''command'' [i, idem])) (\<lambda>cid. once S route party cid now u (body cid))"
    "\<And>cid db y db'. body cid db = Inr (y, db') \<Longrightarrow> applied_in db' (rt_buyer_org route) i cid"
  using assms
proof cases
  case (keyed_propose org token guest clock actor_id ev x uuid)
  show ?thesis
    by (rule that [of "clock 1" "uuid 2" "\<lambda>cid. propose_transaction S route actor_id party i idem ev cid x uuid"])
      (use keyed_propose decode_route_token(2) [OF keyed_propose(2)] in
        \<open>auto simp: propose_offer_def bindS_def fun_eq_iff intro: transactions_apply\<close>)
next
  case (keyed_accept org token guest clock actor_id ev h uuid)
  show ?thesis
    by (rule that [of "clock 1" "uuid 2" "\<lambda>cid. accept_transaction S route actor_id party i idem ev cid h (clock 1) uuid"])
      (use keyed_accept decode_route_token(2) [OF keyed_accept(2)] in
        \<open>auto simp: accept_offer_def bindS_def fun_eq_iff intro: transactions_apply\<close>)
next
  case (keyed_approve org token guest clock actor_id ev h ex uuid)
  show ?thesis
    by (rule that [of "clock 2" "uuid 2" "\<lambda>cid. approve_transaction S route org actor_id i idem ev cid h ex (clock 1) uuid"])
      (use keyed_approve decode_route_token(2) [OF keyed_approve(3)] in
        \<open>auto simp: exchange_approve_offer_def bindS_def fun_eq_iff intro: transactions_apply\<close>)
qed

text \<open>A request and its retry: the same operation by the same actor with the same arguments; the route capability, the
  clock and the fresh identifiers may differ. \<open>now\<close> is the time at which the retry asks for the stored projection.\<close>

inductive retried_request ::
    "service_env \<Rightarrow> string \<Rightarrow> string \<Rightarrow> ExchangeRoute \<Rightarrow> ExchangeRoute \<Rightarrow> ExchangeParty \<Rightarrow> datetime \<Rightarrow> pyval svc \<Rightarrow> pyval svc \<Rightarrow> bool"
    for S i idem route route' where
  retried_propose: "decode_route S org (Some party) i token guest (clock 0) = Inr route \<Longrightarrow>
    decode_route S org (Some party) i token' guest (clock' 0) = Inr route' \<Longrightarrow>
    retried_request S i idem route route' party (clock' 1)
      (propose_offer S org actor_id (Some party) i token idem ev x guest clock uuid)
      (propose_offer S org actor_id (Some party) i token' idem ev x guest clock' uuid')"
| retried_accept: "decode_route S org (Some party) i token guest (clock 0) = Inr route \<Longrightarrow>
    decode_route S org (Some party) i token' guest (clock' 0) = Inr route' \<Longrightarrow>
    retried_request S i idem route route' party (clock' 1)
      (accept_offer S org actor_id (Some party) i token idem ev h guest clock uuid)
      (accept_offer S org actor_id (Some party) i token' idem ev h guest clock' uuid')"
| retried_approve: "decode_route S org (Some BUYER) i token guest (clock 0) = Inr route \<Longrightarrow>
    decode_route S org (Some BUYER) i token' guest (clock' 0) = Inr route' \<Longrightarrow>
    retried_request S i idem route route' BUYER (clock' 2)
      (exchange_approve_offer S org actor_id (Some BUYER) i token idem ev h ex guest clock uuid)
      (exchange_approve_offer S org actor_id (Some BUYER) i token' idem ev h ex guest clock' uuid')"

lemma retried_request_once:
  assumes "retried_request S i idem route route' party now req req'"
  shows "keyed_request S i idem route party req \<and> rt_case_id route' = i \<and>
    (\<exists>u body. req' = bindS (pure_svc (stable_id (sv_bilateral S) ''command'' [i, idem])) (\<lambda>cid. once S route' party cid now u (body cid)))"
  using assms
proof cases
  case (retried_propose org token guest clock token' clock' actor_id ev x uuid uuid')
  have "req' = bindS (pure_svc (stable_id (sv_bilateral S) ''command'' [i, idem])) (\<lambda>cid. once S route' party cid now (uuid' 2)
      (propose_transaction S route' actor_id party i idem ev cid x uuid'))"
    using retried_propose by (simp add: propose_offer_def bindS_def fun_eq_iff)
  moreover have "keyed_request S i idem route party req" unfolding retried_propose(2) by (rule keyed_propose, rule retried_propose(4))
  ultimately show ?thesis using decode_route_token(2) [OF retried_propose(5)] by (intro conjI exI)
next
  case (retried_accept org token guest clock token' clock' actor_id ev h uuid uuid')
  have "req' = bindS (pure_svc (stable_id (sv_bilateral S) ''command'' [i, idem])) (\<lambda>cid. once S route' party cid now (uuid' 2)
      (accept_transaction S route' actor_id party i idem ev cid h (clock' 1) uuid'))"
    using retried_accept by (simp add: accept_offer_def bindS_def fun_eq_iff)
  moreover have "keyed_request S i idem route party req" unfolding retried_accept(2) by (rule keyed_accept, rule retried_accept(4))
  ultimately show ?thesis using decode_route_token(2) [OF retried_accept(5)] by (intro conjI exI)
next
  case (retried_approve org token guest clock token' clock' actor_id ev h ex uuid uuid')
  have "req' = bindS (pure_svc (stable_id (sv_bilateral S) ''command'' [i, idem])) (\<lambda>cid. once S route' party cid now (uuid' 2)
      (approve_transaction S route' org actor_id i idem ev cid h ex (clock' 1) uuid'))"
    using retried_approve by (simp add: exchange_approve_offer_def bindS_def fun_eq_iff)
  moreover have "keyed_request S i idem route party req"
    unfolding retried_approve(1,3) by (rule keyed_approve, rule retried_approve(5))
  ultimately show ?thesis using decode_route_token(2) [OF retried_approve(6)] by (intro conjI exI)
qed

lemma keyed_request_step:
  assumes "keyed_request S i idem route party request"
  shows "service_step S db (snd (request db))"
  using assms by cases (auto intro: request_propose request_accept request_approve)

lemma requests_reach:
  assumes "(service_step S)\<^sup>*\<^sup>* db db'"
  shows "reaches (sv_bilateral S) db db'"
  using assms
proof (induction rule: rtranclp_induct)
  case (step a b)
  then show ?case using service_step_reaches rtranclp_trans by metis
qed simp

text \<open>Once a keyed request has succeeded, every later request under its key is answered as the party's read of the case.\<close>

lemma applied_key_replays:
  assumes "reaches (sv_bilateral S) empty_bdb db"
    and "keyed_request S i idem route party request" "request db = (Inr v, db1)" "(service_step S)\<^sup>*\<^sup>* db1 db2"
    and "rt_case_id route' = i" "rt_buyer_org route' = rt_buyer_org route"
    and request': "request' = bindS (pure_svc (stable_id (sv_bilateral S) ''command'' [i, idem]))
      (\<lambda>cid. once S route' party' cid now u' (body' cid))"
  shows "request' db2 =
    view_case S (party_organization route' (Some party')) (Some party') i (rc_encrypt (sv_codec S) route') False now db2"
proof -
  let ?R = "reaches (sv_bilateral S)"
  obtain now0 u body where 1: "rt_case_id route = i"
    "request = bindS (pure_svc (stable_id (sv_bilateral S) ''command'' [i, idem])) (\<lambda>cid. once S route party cid now0 u (body cid))"
    "\<And>cid db y db'. body cid db = Inr (y, db') \<Longrightarrow> applied_in db' (rt_buyer_org route) i cid"
    using assms(2) by (rule keyed_request_once) blast
  obtain cid where cid: "stable_id (sv_bilateral S) ''command'' [i, idem] = Inr cid" "once S route party cid now0 u (body cid) db = (Inr v, db1)"
    using assms(3) 1(2) by (cases "stable_id (sv_bilateral S) ''command'' [i, idem]") (auto simp: bindS_def)
  have "applied_in db1 (rt_buyer_org route) i cid" using once_applies [OF cid(2)] 1 by simp
  moreover have "?R db1 db2" using requests_reach [OF assms(4)] .
  moreover have "?R db db1" using keyed_request_step [OF assms(2), of db] assms(3) service_step_reaches by force
  then have "?R empty_bdb db1" using assms(1) by (meson rtranclp_trans)
  ultimately have "applied_in db2 (rt_buyer_org route') (rt_case_id route') cid"
    using applied_in_evolves journals.steps_evolve [OF _ journals.steps_inv [OF _ bilateral_initial(1)]] assms(5,6) by metis
  moreover have "tenant_ok (rt_buyer_org route')" using once_tenant [OF cid(2)] assms(6) by simp
  ultimately have "once S route' party' cid now u' (body' cid) db2 =
      view_case S (party_organization route' (Some party')) (Some party') (rt_case_id route') (rc_encrypt (sv_codec S) route') False now db2"
    unfolding once_def by (rule replayed_projection_view)
  then show ?thesis by (simp add: request' cid(1) bindS_def assms(5))
qed

section \<open>Handoff requests\<close>

lemma create_handoff_Inr:
  assumes "create_handoff S org party i token ev h guest clock db = (Inr v, db')"
  obtains route r where "decode_route S org party i token guest (clock 0) = Inr route" "party = Some BUYER"
    "handoff_transaction S route i ev h (clock 1) db = Inr (r, db')" "v = handoff_view (bh_handoff r)"
  using assms
  by (auto simp: create_handoff_def bindS_def api_conflict_def transaction_def
      split: sum.splits if_splits prod.splits)

text \<open>What the document of a handoff takes from the route, the offer and the approval.\<close>

definition handoff_of :: "ExchangeRoute \<Rightarrow> offer_row \<Rightarrow> approval_row \<Rightarrow> datetime \<Rightarrow> ExchangePaymentHandoff \<Rightarrow> bool" where
  "handoff_of route offer approval now d \<longleftrightarrow>
     eh_destination_url d = rt_merchant_url route \<and> eh_recipient d = rt_merchant_name route \<and>
     eh_offer_hash d = ov_offer_hash (bo_terms offer) \<and> eh_approval_hash d = ba_approval_hash approval \<and>
     eh_amount d = ov_total (bo_terms offer) \<and> eh_currency d = ov_currency (bo_terms offer) \<and> eh_created_at d = now \<and>
     eh_expires_at d = earliest [ov_expires_at (bo_terms offer), oa_expires_at (ba_approval approval)] (shift_seconds now 900)"

lemma handoff_of_expiry:
  "handoff_of route offer approval now d \<Longrightarrow>
     micros (eh_expires_at d) \<le> micros (ov_expires_at (bo_terms offer)) \<and>
     micros (eh_expires_at d) \<le> micros (oa_expires_at (ba_approval approval)) \<and>
     micros (eh_expires_at d) \<le> micros now + 900 * 1000000"
  by (auto simp: handoff_of_def earliest_def shift_seconds_def)

lemma handoff_transaction_document:
  assumes "handoff_transaction S route i ev h now db = Inr (r, db')"
  obtains exchange offer approval d where "get_case (rt_buyer_org route) i db = Inr exchange" "bc_version exchange = ev"
    "bc_state exchange = APPROVED_FOR_HANDOFF" "offer \<in> set (offers_of (rt_buyer_org route) i db)"
    "ov_offer_hash (bo_terms offer) = h" "bo_approval_status offer = OfferApprovalStatus.APPROVED"
    "approval \<in> set (bl_approvals db)" "ba_org approval = rt_buyer_org route" "oa_case_id (ba_approval approval) = i"
    "oa_offer_hash (ba_approval approval) = h" "handoff_of route offer approval now d" "store_handoff (rt_buyer_org route) d db = Inr (r, db')"
  using assms by (rule handoff_transaction_Inr) (rule that, auto simp: mk_ExchangePaymentHandoff_Inr handoff_of_def)

lemma store_handoff_cases:
  "store_handoff org d db = Inr (r, db') \<Longrightarrow> eh_handoff_hash (bh_handoff r) = eh_handoff_hash d \<and>
     (bh_handoff r = d \<and> db' = db\<lparr>bl_handoffs := bl_handoffs db @ [r]\<rparr> \<or> r \<in> set (bl_handoffs db) \<and> db' = db)"
  by (auto simp: store_handoff_def res_simps Let_def insert_row_def split: option.splits if_splits dest: find_SomeD)

end
