(* ===== verification/ExchangeDemo.thy ===== *)
theory ExchangeDemo
  imports ExchangeServiceFacts
begin

text \<open>
  A small negotiation for the witnesses: an environment with a constant digest, one case that is taken from its
  creation to the approval of an offer by the operations of the repository, and a service around it.
\<close>

section \<open>A negotiation\<close>

definition zero_hash :: string where
  "zero_hash = ''sha256:'' @ replicate 64 (CHR ''0'')"

definition demo_hash :: hash_env where
  "demo_hash = \<lparr>rfc8785_dumps = \<lambda>_. Some [], sha256_hex = \<lambda>_. replicate 64 (CHR ''0'')\<rparr>"

definition demo_bilateral :: bilateral_env where
  "demo_bilateral = \<lparr>bl_hash = demo_hash,
     bl_raw = \<lparr>raw_dumps = \<lambda>v. Some [], raw_sha256 = \<lambda>_. replicate 64 (CHR ''0'')\<rparr>, bl_literal_ok = \<lambda>_. True,
     bl_price_ok = \<lambda>a. snd a = -2 \<and> 0 \<le> fst a \<and> fst a < 10 ^ 20, bl_json_mode = \<lambda>d. d, bl_iso = \<lambda>_. []\<rparr>"

definition moment :: "int \<Rightarrow> datetime" where
  "moment t = \<lparr>tz_aware = True, micros = t\<rparr>"

definition demo_command :: "CommandType \<Rightarrow> string \<Rightarrow> int \<Rightarrow> PartyCommand" where
  "demo_command t i v = \<lparr>pc_id = i, pc_case_id = ''case'', pc_party = command_owner t, pc_actor_id = ''ann'',
     pc_command_type = t, pc_expected_version = v, pc_idempotency_key = i, pc_payload = []\<rparr>"

definition demo_offer :: OfferVersion where
  "demo_offer =
     \<lparr>ov_offer_id = ''offer'', ov_case_id = ''case'', ov_version = 1, ov_proposer = BUYER, ov_recipient = SELLER,
      ov_predecessor_hash = None, ov_changed_terms = [], ov_rationale = ''Scope'', ov_currency = ''USD'',
      ov_lines = [\<lparr>ol_item_id = ''seat'', ol_description = ''Annual seat'', ol_quantity = 2, ol_unit_price = (10, -2)\<rparr>],
      ov_total = (20, -2), ov_expires_at = moment 500, ov_requirement_hash = zero_hash,
      ov_evidence_hash = zero_hash, ov_approval_status = OfferApprovalStatus.PENDING, ov_offer_hash = zero_hash\<rparr>"

lemma zero_hash_ok [simp]: "valid_hash zero_hash" "zero_hash \<noteq> []" "[] \<noteq> zero_hash"
  by (simp add: zero_hash_def, code_simp) (simp_all add: zero_hash_def)

lemma demo_content_hash: "plain v \<Longrightarrow> content_hash demo_hash v = Inr zero_hash"
  using plain_normalizes(1) [of v "[]"] by (auto simp: content_hash_def canonical_json_def demo_hash_def zero_hash_def)

lemma demo_env_simps [simp]:
  "bl_hash demo_bilateral = demo_hash" "bl_json_mode demo_bilateral d = d" "bl_iso demo_bilateral u = []"
  "bl_literal_ok demo_bilateral s = True" "bl_price_ok demo_bilateral (p, e) \<longleftrightarrow> e = -2 \<and> 0 \<le> p \<and> p < 10 ^ 20"
  "tz_aware (moment t)" "micros (moment t) = t"
  by (simp_all add: demo_bilateral_def moment_def)

lemma demo_projection [simp]:
  "projection (bl_raw demo_bilateral) s p c = Inr \<lparr>pp_case_id = cs_case_id s, pp_party = p, pp_state = cs_state s, pp_version = cs_version s,
     pp_released = released_fields s, pp_source_command_id = c, pp_projection_hash = zero_hash\<rparr>"
proof -
  have "''sha256:'' @ raw_sha256 (bl_raw demo_bilateral) [] = zero_hash" by (simp add: demo_bilateral_def zero_hash_def)
  moreover have "raw_dumps (bl_raw demo_bilateral) v = Some []" for v by (simp add: demo_bilateral_def)
  ultimately show ?thesis by (simp only: projection_def Let_def option.case zero_hash_ok simp_thms if_False)
qed

lemma demo_commands [simp]:
  "length_between 1 64 i \<Longrightarrow> 1 \<le> v \<Longrightarrow> mk_PartyCommand (demo_command t i v) = Inr (demo_command t i v)"
  by (auto simp: mk_PartyCommand_def demo_command_def length_between_def)

lemma demo_offer_sealed: "sealed_offer demo_hash (bl_price_ok demo_bilateral) demo_offer"
proof -
  have t: "lines_total (ov_lines demo_offer) = (20, -2)" unfolding demo_offer_def OfferVersion.select_convs by code_simp
  have c: "currency_code ''USD''" by code_simp
  have "list_all fst (offer_checks (bl_price_ok demo_bilateral) demo_offer)"
    using t c by (simp add: offer_checks_def line_checks_def demo_offer_def party_check_def tz_check_def length_between_def)
  moreover have "plain (offer_payload demo_offer)"
    by (simp add: offer_payload_def demo_offer_def dict_str_def py_opt_def py_strs_def py_line_def)
  ultimately show ?thesis by (simp add: sealed_offer_def mk_OfferVersion_Inr demo_content_hash) (simp add: demo_offer_def)
qed


definition demo_approval :: OfferApproval where
  "demo_approval = \<lparr>oa_approval_id = ''approval'', oa_case_id = ''case'', oa_offer_hash = zero_hash, oa_approver_id = ''ann'',
       oa_approved_at = moment 1, oa_expires_at = moment 400\<rparr>"

text \<open>A case of the buyer after the commands \<open>ids\<close> (the last one first), each with an empty payload.\<close>

definition bare :: "CoordinatorState \<Rightarrow> bool" where
  "bare s \<longleftrightarrow> cs_requirement s \<in> {None, Some []} \<and> cs_evidence s \<in> {None, Some []} \<and>
     cs_current_offer s \<in> {None, Some []} \<and> cs_approval s \<in> {None, Some []}"

definition demo_at :: "bdb \<Rightarrow> ExchangeState \<Rightarrow> string list \<Rightarrow> bool" where
  "demo_at db s ids \<longleftrightarrow> (\<exists>r. bl_cases db = [r] \<and> bc_id r = ''case'' \<and> bc_org r = ''buyer'' \<and> bc_state r = s \<and>
      bc_version r = int (length ids) + 1 \<and> cs_case_id (bc_coordinator r) = ''case'' \<and> cs_state (bc_coordinator r) = s \<and>
      cs_version (bc_coordinator r) = int (length ids) + 1 \<and> bare (bc_coordinator r)) \<and>
    map bt_command_id (bl_transitions db) = rev ids \<and> map bt_id (bl_transitions db) = map (\<lambda>i. ''btrans_'' @ i) (rev ids) \<and>
    list_all (\<lambda>t. bt_org t = ''buyer'' \<and> bt_case_id t = ''case'') (bl_transitions db) \<and>
    map bt_sequence (bl_transitions db) = map int [1..<Suc (length ids)]"

definition demo_frame :: "bdb \<Rightarrow> bdb \<Rightarrow> bool" where
  "demo_frame db' db \<longleftrightarrow> bl_offers db' = bl_offers db \<and> bl_approvals db' = bl_approvals db \<and> bl_handoffs db' = bl_handoffs db \<and>
     bl_commands db' = bl_commands db \<and> bl_projections db' = bl_projections db"

lemma demo_py_state:
  assumes "bare s"
  shows "content_hash demo_hash (py_state s) = Inr zero_hash"
proof -
  have doc: "plain (py_opt PyDict d)" if "d \<in> {None, Some []}" for d using that by (auto simp: py_opt_def)
  have "plain (py_opt PyStr (cs_last_command_id s))" by (simp add: py_opt_def split: option.split)
  with assms show ?thesis by (intro demo_content_hash) (simp add: bare_def py_state_def dict_str_def doc)
qed

lemma demo_transition_payload: "content_hash demo_hash (transition_payload a b c d e f g) = Inr zero_hash"
  by (rule demo_content_hash) (simp add: transition_payload_def dict_str_def)

lemma demo_state_payload: "state_payload demo_bilateral s = s"
proof -
  have "bl_json_mode demo_bilateral = (\<lambda>d. d)" by (simp add: demo_bilateral_def)
  then show ?thesis by (simp add: state_payload_def option.map_ident)
qed

lemma demo_created:
  obtains r db where "create_case demo_bilateral ''buyer'' ''case'' ''seller'' empty_bdb = Inr (r, db)" "demo_at db CREATED []"
    "demo_frame db empty_bdb"
proof -
  have "bare (initial_exchange ''case'')" by (simp add: bare_def initial_exchange_def)
  then have h: "content_hash demo_hash (py_state (initial_exchange ''case'')) = Inr zero_hash" by (rule demo_py_state)
  then have "\<exists>r db. create_case demo_bilateral ''buyer'' ''case'' ''seller'' empty_bdb = Inr (r, db)"
    by (simp add: create_case_def Let_def empty_bdb_def demo_state_payload insert_row_def)
  then obtain r db where c: "create_case demo_bilateral ''buyer'' ''case'' ''seller'' empty_bdb = Inr (r, db)" by blast
  have "db = empty_bdb\<lparr>bl_cases := [r]\<rparr>" "bc_id r = ''case''" "bc_org r = ''buyer''" "bc_state r = CREATED" "bc_version r = 1"
    "bc_coordinator r = initial_exchange ''case''"
    using create_case_cases [OF c] by (auto simp: empty_bdb_def)
  then show thesis
    by (intro that [OF c]) (simp_all add: demo_at_def empty_bdb_def bare_def initial_exchange_def demo_frame_def)
qed

text \<open>Commands whose payload does not enter the state, or is empty.\<close>

definition routine :: "PartyCommand \<Rightarrow> int \<Rightarrow> bool" where
  "routine c v \<longleftrightarrow> pc_case_id c = ''case'' \<and> pc_party c = command_owner (pc_command_type c) \<and> pc_expected_version c = v \<and>
     (pc_payload c = [] \<or> pc_command_type c \<in> {ACCEPT_OFFER, ACCEPT_COUNTER})"

lemma demo_command_routine [simp]:
  "routine (demo_command t i v) v" "pc_id (demo_command t i v) = i" "pc_command_type (demo_command t i v) = t"
  by (simp_all add: routine_def demo_command_def)

lemma demo_compile:
  assumes "cs_case_id s = ''case''" "cs_version s = v" "exchange_transitions (cs_state s) (pc_command_type c) = Some target" "bare s"
    "routine c v"
  obtains ct where "compile_party_command (bl_raw demo_bilateral) s c = Inr ct" "ct_previous_state ct = cs_state s"
    "cs_state (ct_next_state ct) = target" "cs_version (ct_next_state ct) = v + 1" "cs_case_id (ct_next_state ct) = ''case''"
    "bare (ct_next_state ct)"
proof -
  have t: "pc_command_type c \<notin> {REJECT, EXPIRE}" using assms(3) by (auto simp: exchange_transitions_def split: if_splits)
  then have "command_target s c = Inr target" using assms(3,5) by (simp add: command_target_def routine_def)
  moreover have "bare (command_changes s c target)" using assms(4,5) by (auto simp: command_changes_def bare_def routine_def Let_def)
  ultimately show thesis using assms that
    by (auto simp: compile_party_command_def routine_def Let_def) (auto simp: command_changes_def Let_def)
qed

lemma demo_apply:
  assumes at: "demo_at db s ids" and t: "exchange_transitions s (pc_command_type c) = Some target" and i: "i \<notin> set ids"
    and c: "routine c (int (length ids) + 1)" "pc_id c = i"
  obtains x ct db' where "get_case ''buyer'' ''case'' db = Inr x"
    "apply_command demo_bilateral ''buyer'' i x c corg db = Inr (ct, db')"
    "demo_at db' target (i # ids)" "demo_frame db' db" "compile_party_command (bl_raw demo_bilateral) (bc_coordinator x) c = Inr ct"
proof -
  let ?v = "int (length ids) + 1"
  obtain r where r: "bl_cases db = [r]" "bc_id r = ''case''" "bc_org r = ''buyer''" "bc_state r = s" "bc_version r = ?v"
    "cs_case_id (bc_coordinator r) = ''case''" "cs_state (bc_coordinator r) = s" "cs_version (bc_coordinator r) = ?v"
    "bare (bc_coordinator r)" using at by (auto simp: demo_at_def)
  obtain ct where ct: "compile_party_command (bl_raw demo_bilateral) (bc_coordinator r) c = Inr ct"
    "ct_previous_state ct = s" "cs_state (ct_next_state ct) = target" "cs_version (ct_next_state ct) = ?v + 1"
    "cs_case_id (ct_next_state ct) = ''case''" "bare (ct_next_state ct)"
    using demo_compile [of "bc_coordinator r" ?v c target thesis] r(6-9) t c(1) by auto
  have ts: "filter (\<lambda>t. bt_org t = ''buyer'' \<and> bt_case_id t = ''case'') (bl_transitions db) = bl_transitions db"
    using at by (auto simp: demo_at_def list_all_iff filter_id_conv)
  have n: "length (bl_transitions db) = length ids" using at unfolding demo_at_def by (metis length_map length_rev)
  have seq: "map bt_sequence (bl_transitions db) = map int [1..<Suc (length (bl_transitions db))]"
    using at n by (simp add: demo_at_def)
  have ids: "set (map bt_command_id (bl_transitions db)) = set ids" "set (map bt_id (bl_transitions db)) = (\<lambda>i. ''btrans_'' @ i) ` set ids"
    using at unfolding demo_at_def by auto
  have fresh: "\<not> list_ex (\<lambda>t. bt_org t = ''buyer'' \<and> bt_case_id t = ''case'' \<and> bt_command_id t = i) (bl_transitions db)"
    using i ids(1) by (auto simp: list_ex_iff)
  have "\<forall>u \<in> set (bl_transitions db). bt_id u \<noteq> ''btrans_'' @ i \<and> bt_command_id u \<noteq> i \<and> bt_sequence u < ?v"
  proof
    fix u assume u: "u \<in> set (bl_transitions db)"
    have "bt_id u \<in> (\<lambda>i. ''btrans_'' @ i) ` set ids" "bt_command_id u \<in> set ids" using u ids by auto
    moreover have "bt_sequence u \<in> set (map int [1..<Suc (length ids)])" using u seq n by (metis image_eqI set_map)
    ultimately show "bt_id u \<noteq> ''btrans_'' @ i \<and> bt_command_id u \<noteq> i \<and> bt_sequence u < ?v" using i by auto
  qed
  then have unseen: "list_ex (same_transition u) (bl_transitions db) = False"
    if "bt_id u = ''btrans_'' @ i" "bt_command_id u = i" "bt_sequence u = ?v" for u
    using that by (fastforce simp: list_ex_iff same_transition_def)
  define u where "u = \<lparr>bt_id = ''btrans_'' @ i, bt_org = ''buyer'', bt_case_id = ''case'', bt_sequence = ?v, bt_command_id = i,
      bt_command_org = corg, bt_previous_state = s, bt_next_state = target, bt_transition_hash = zero_hash\<rparr>"
  define db' where "db' = db\<lparr>bl_transitions := bl_transitions db @ [u], bl_cases := [r\<lparr>bc_state := target, bc_version := ?v + 1,
        bc_coordinator := ct_next_state ct, bc_state_hash := zero_hash, bc_last_command_id := Some i\<rparr>]\<rparr>"
  have u: "bt_org u = ''buyer''" "bt_case_id u = ''case''" "bt_command_id u = i" "bt_sequence u = ?v" "bt_id u = ''btrans_'' @ i"
    by (simp_all add: u_def)
  have run: "apply_command demo_bilateral ''buyer'' i r c corg db = Inr (ct, db')"
    using r(1,2,8) ct(1-4) fresh newest_numbered(2) [OF seq] n unseen [OF u(5,3,4)]
    by (simp add: apply_command_def read_state_def ts Let_def demo_state_payload demo_py_state [OF ct(6)] demo_transition_payload
        insert_row_def c(2) u_def db'_def)
  have "demo_at db' target (i # ids)"
    using at r ct u n unfolding demo_at_def db'_def by simp
  moreover have "get_case ''buyer'' ''case'' db = Inr r" using r(1-3) by (simp add: get_case_def)
  ultimately show thesis using that run ct(1) by (simp add: db'_def demo_frame_def)
qed

lemma demo_command_apply:
  assumes "demo_at db s ids" "exchange_transitions s t = Some target" "i \<notin> set ids" "length_between 1 64 i"
  obtains db' where "bilateral_step demo_bilateral db db'" "demo_at db' target (i # ids)" "demo_frame db' db"
proof -
  obtain x ct db' where "get_case ''buyer'' ''case'' db = Inr x" "demo_at db' target (i # ids)" "demo_frame db' db"
    "apply_command demo_bilateral ''buyer'' i x (demo_command t i (int (length ids) + 1)) ''buyer'' db = Inr (ct, db')"
    by (rule demo_apply [OF assms(1), of "demo_command t i (int (length ids) + 1)" target i "''buyer''"]) (use assms(2,3) in auto)
  moreover have "mk_PartyCommand (demo_command t i (int (length ids) + 1)) = Inr (demo_command t i (int (length ids) + 1))"
    using assms(4) by (intro demo_commands) simp_all
  ultimately show thesis using that step_apply by blast
qed

text \<open>The case after the release of requirement and evidence.\<close>

lemma demo_released:
  obtains db where "reaches demo_bilateral empty_bdb db" "demo_at db EVIDENCE_RELEASED [''b'', ''a'']" "demo_frame db empty_bdb"
proof -
  obtain r0 db0 where 0: "create_case demo_bilateral ''buyer'' ''case'' ''seller'' empty_bdb = Inr (r0, db0)" "demo_at db0 CREATED []"
    "demo_frame db0 empty_bdb" by (rule demo_created)
  obtain db1 where 1: "bilateral_step demo_bilateral db0 db1" "demo_at db1 REQUIREMENT_RELEASED [''a'']" "demo_frame db1 db0"
    using demo_command_apply [OF 0(2), of RELEASE_REQUIREMENT REQUIREMENT_RELEASED "''a''"]
    by (auto simp: exchange_transitions_def length_between_def)
  obtain db2 where 2: "bilateral_step demo_bilateral db1 db2" "demo_at db2 EVIDENCE_RELEASED [''b'', ''a'']" "demo_frame db2 db1"
    using demo_command_apply [OF 1(2), of PUBLISH_EVIDENCE EVIDENCE_RELEASED "''b''"]
    by (auto simp: exchange_transitions_def length_between_def)
  have "reaches demo_bilateral empty_bdb db2"
    using step_create [OF 0(1)] 1(1) 2(1) by (meson converse_rtranclp_into_rtranclp rtranclp.rtrancl_refl)
  then show thesis using that 2(2,3) 1(3) 0(3) by (simp add: demo_frame_def)
qed

definition demo_row :: "OfferApprovalStatus \<Rightarrow> offer_row" where
  "demo_row st = \<lparr>bo_id = offer_row_id demo_offer, bo_org = ''buyer'', bo_terms = demo_offer, bo_approval_status = st\<rparr>"

definition demo_approval_row :: approval_row where
  "demo_approval_row = \<lparr>ba_id = ''approval'', ba_org = ''buyer'', ba_approval = demo_approval, ba_approval_hash = zero_hash\<rparr>"

lemma demo_store_offer:
  assumes "bl_offers db = []"
  shows "store_offer demo_bilateral ''buyer'' demo_offer db = Inr (demo_row OfferApprovalStatus.PENDING,
    db\<lparr>bl_offers := [demo_row OfferApprovalStatus.PENDING]\<rparr>)"
  using assms by (simp add: store_offer_def latest_offer_def offers_of_def newest_def add_offer_def insert_row_def demo_row_def Let_def)
    (simp add: demo_offer_def)

lemma demo_approve_offer:
  assumes "bl_offers db = [demo_row OfferApprovalStatus.PENDING]" "bl_approvals db = []"
  shows "approve_offer demo_bilateral ''buyer'' demo_approval (moment 1) db = Inr (demo_approval_row,
    db\<lparr>bl_approvals := [demo_approval_row], bl_offers := [demo_row OfferApprovalStatus.APPROVED]\<rparr>)"
proof -
  have l: "latest_offer ''buyer'' ''case'' db = Some (demo_row OfferApprovalStatus.PENDING)"
    using assms(1) by (simp add: latest_offer_def offers_of_def newest_def demo_row_def demo_offer_def)
  have mk: "mk_OfferVersion demo_hash (bl_price_ok demo_bilateral) demo_offer = Inr demo_offer"
    using demo_offer_sealed by (simp add: sealed_offer_def)
  have auth: "authorize demo_hash (bl_price_ok demo_bilateral) demo_approval demo_offer (moment 1) =
      Inr (demo_offer\<lparr>ov_approval_status := OfferApprovalStatus.APPROVED\<rparr>)"
    unfolding authorize_Inr [OF demo_offer_sealed] by (simp add: demo_approval_def demo_offer_def)
  have h: "content_hash demo_hash (offer_approval_payload demo_bilateral demo_approval) = Inr zero_hash"
    by (rule demo_content_hash) (simp add: offer_approval_payload_def dict_str_def)
  have case_id: "oa_case_id demo_approval = ''case''" "oa_approval_id demo_approval = ''approval''" by (simp_all add: demo_approval_def)
  have "bo_terms (demo_row st) = demo_offer" "bo_id (demo_row st) = offer_row_id demo_offer" for st by (simp_all add: demo_row_def)
  then show ?thesis
    using assms l mk auth h case_id
    by (simp add: approve_offer_def insert_row_def Let_def set_offer_status_def demo_approval_row_def demo_row_def)
qed

lemma demo_approval_ok: "mk_OfferApproval demo_approval = Inr demo_approval"
  by (simp add: mk_OfferApproval_def demo_approval_def length_between_def tz_check_def)

lemma demo_at_frame: "bl_cases db' = bl_cases db \<Longrightarrow> bl_transitions db' = bl_transitions db \<Longrightarrow> demo_at db' s ids = demo_at db s ids"
  by (simp add: demo_at_def)

text \<open>The case after the offer was proposed.\<close>

lemma demo_offered:
  obtains db where "reaches demo_bilateral empty_bdb db" "demo_at db OFFERED [''c'', ''b'', ''a'']"
    "bl_offers db = [demo_row OfferApprovalStatus.PENDING]" "bl_approvals db = []" "bl_handoffs db = []" "bl_commands db = []"
    "bl_projections db = []"
proof -
  obtain db0 where 0: "reaches demo_bilateral empty_bdb db0" "demo_at db0 EVIDENCE_RELEASED [''b'', ''a'']" "demo_frame db0 empty_bdb"
    by (rule demo_released)
  let ?db1 = "db0\<lparr>bl_offers := [demo_row OfferApprovalStatus.PENDING]\<rparr>"
  have 1: "demo_at ?db1 EVIDENCE_RELEASED [''b'', ''a'']" using 0(2) demo_at_frame [of ?db1 db0] by simp
  obtain db2 where 2: "bilateral_step demo_bilateral ?db1 db2" "demo_at db2 OFFERED [''c'', ''b'', ''a'']" "demo_frame db2 ?db1"
    using demo_command_apply [OF 1, of PROPOSE_OFFER OFFERED "''c''"] by (auto simp: exchange_transitions_def length_between_def)
  have sealed: "mk_OfferVersion (bl_hash demo_bilateral) (bl_price_ok demo_bilateral) demo_offer = Inr demo_offer"
    using demo_offer_sealed by (simp add: sealed_offer_def)
  have "bl_offers db0 = []" using 0(3) by (simp add: demo_frame_def empty_bdb_def)
  then have "bilateral_step demo_bilateral db0 ?db1" by (rule step_offer [OF sealed demo_store_offer])
  then have "reaches demo_bilateral empty_bdb db2" using 0(1) 2(1) by (meson rtranclp.rtrancl_into_rtrancl)
  then show thesis using that 2(2,3) 0(3) by (simp add: demo_frame_def empty_bdb_def)
qed

text \<open>The case after the offer was accepted and approved.\<close>

lemma demo_agreed:
  obtains db where "reaches demo_bilateral empty_bdb db" "demo_at db APPROVED_FOR_HANDOFF [''e'', ''d'', ''c'', ''b'', ''a'']"
    "bl_offers db = [demo_row OfferApprovalStatus.APPROVED]" "bl_approvals db = [demo_approval_row]" "bl_handoffs db = []"
proof -
  obtain db2 where 2: "reaches demo_bilateral empty_bdb db2" "demo_at db2 OFFERED [''c'', ''b'', ''a'']"
    "bl_offers db2 = [demo_row OfferApprovalStatus.PENDING]" "bl_approvals db2 = []" "bl_handoffs db2 = []" by (rule demo_offered)
  obtain db3 where 3: "bilateral_step demo_bilateral db2 db3" "demo_at db3 AGREED_PENDING_APPROVAL [''d'', ''c'', ''b'', ''a'']"
    "demo_frame db3 db2"
    using demo_command_apply [OF 2(2), of ACCEPT_OFFER AGREED_PENDING_APPROVAL "''d''"] by (auto simp: exchange_transitions_def length_between_def)
  let ?db4 = "db3\<lparr>bl_approvals := [demo_approval_row], bl_offers := [demo_row OfferApprovalStatus.APPROVED]\<rparr>"
  have 4: "demo_at ?db4 AGREED_PENDING_APPROVAL [''d'', ''c'', ''b'', ''a'']" using 3(2) demo_at_frame [of ?db4 db3] by simp
  obtain db5 where 5: "bilateral_step demo_bilateral ?db4 db5"
    "demo_at db5 APPROVED_FOR_HANDOFF [''e'', ''d'', ''c'', ''b'', ''a'']" "demo_frame db5 ?db4"
    using demo_command_apply [OF 4, of APPROVE_HANDOFF APPROVED_FOR_HANDOFF "''e''"] by (auto simp: exchange_transitions_def length_between_def)
  have "bl_offers db3 = [demo_row OfferApprovalStatus.PENDING]" "bl_approvals db3 = []" using 3(3) 2(3,4) by (simp_all add: demo_frame_def)
  then have "bilateral_step demo_bilateral db3 ?db4" by (intro step_approve [OF demo_approval_ok demo_approve_offer])
  then have "reaches demo_bilateral empty_bdb db5" using 2(1) 3(1) 5(1) by (meson rtranclp.rtrancl_into_rtrancl)
  then show thesis using that 5(2,3) 3(3) 2(5) by (simp add: demo_frame_def)
qed

section \<open>The service around it\<close>

definition demo_route :: "string \<Rightarrow> ExchangeRoute" where
  "demo_route i = \<lparr>rt_case_id = i, rt_candidate_id = ''cand'', rt_product_id = ''prod'', rt_merchant_name = ''Acme'',
     rt_merchant_url = ''https://acme.test'', rt_buyer_org = ''buyer'', rt_seller_org = ''seller'', rt_guest_org = None,
     rt_expires_at = moment 300\<rparr>"

definition demo_service :: service_env where
  "demo_service = \<lparr>sv_bilateral = demo_bilateral, sv_codec = \<lparr>rc_encrypt = rt_case_id, rc_decrypt = \<lambda>t. Some (demo_route t)\<rparr>,
     sv_directory = \<lambda>_. None, sv_guest_bridge = False, sv_fromisoformat = \<lambda>_. None\<rparr>"

definition demo_clock :: "nat \<Rightarrow> datetime" where
  "demo_clock n = moment 1"

lemma demo_service_simps [simp]: "sv_bilateral demo_service = demo_bilateral" "demo_clock n = moment 1"
  by (simp_all add: demo_service_def demo_clock_def)

lemma demo_decode: "decode_route demo_service ''buyer'' (Some BUYER) ''case'' ''case'' False (moment 1) = Inr (demo_route ''case'')"
  by (simp add: decode_route_def decode_def demo_service_def demo_route_def route_ok_def length_between_def)

lemma demo_stable_id: "stable_id demo_bilateral p parts = Inr (p @ ''_'' @ replicate 32 (CHR ''0''))"
proof -
  have "plain (dict_str [(''parts'', py_strs parts)])" by (simp add: dict_str_def py_strs_def list_all_iff)
  from demo_content_hash [OF this] show ?thesis
    by (simp add: stable_id_def) (simp add: zero_hash_def removeprefix_def numeral_eq_Suc)
qed

lemma tenant_buyer [simp]: "tenant_ok ''buyer''" "tenant_ok ''seller''"
  by code_simp+

text \<open>The payment handoff of the agreed offer.\<close>

definition demo_handoff :: ExchangePaymentHandoff where
  "demo_handoff = \<lparr>eh_handoff_id = ''xhandoff_'' @ replicate 32 (CHR ''0''), eh_case_id = ''case'', eh_offer_hash = zero_hash,
     eh_approval_hash = zero_hash, eh_destination_url = ''https://acme.test'', eh_recipient = ''Acme'', eh_amount = (20, -2),
     eh_currency = ''USD'', eh_reference = ''SIRA-case'', eh_created_at = moment 1, eh_expires_at = moment 400,
     eh_status = ExchangeHandoffStatus.READY, eh_opened_at = None, eh_handoff_hash = zero_hash\<rparr>"

definition demo_handoff_row :: handoff_row where
  "demo_handoff_row = \<lparr>bh_id = eh_handoff_id demo_handoff, bh_org = ''buyer'', bh_handoff = demo_handoff\<rparr>"

lemma demo_handoff_ok:
  "mk_ExchangePaymentHandoff demo_hash (bl_literal_ok demo_bilateral) (bl_price_ok demo_bilateral) (demo_handoff\<lparr>eh_handoff_hash := []\<rparr>) =
     Inr demo_handoff"
proof -
  have "currency_code ''USD''" by code_simp
  then have "list_all fst (exchange_handoff_checks (bl_price_ok demo_bilateral) demo_handoff)"
    by (simp add: exchange_handoff_checks_def demo_handoff_def length_between_def)
  moreover have "bl_literal_ok demo_bilateral = (\<lambda>_. True)" by (simp add: demo_bilateral_def)
  moreover have "safe_destination (\<lambda>_. True) ''https://acme.test'' = Inr True" by code_simp
  moreover have "list_all fst (exchange_handoff_times demo_handoff)"
    by (simp add: exchange_handoff_times_def demo_handoff_def tz_check_def)
  moreover have "plain (exchange_handoff_payload demo_handoff)"
    by (simp add: exchange_handoff_payload_def demo_handoff_def dict_str_def)
  ultimately show ?thesis
    by (simp add: mk_ExchangePaymentHandoff_Inr demo_content_hash) (simp add: demo_handoff_def exchange_handoff_times_def tz_check_def)
qed

lemma demo_create_handoff:
  assumes at: "demo_at db APPROVED_FOR_HANDOFF [''e'', ''d'', ''c'', ''b'', ''a'']"
    and rows: "bl_offers db = [demo_row OfferApprovalStatus.APPROVED]" "bl_approvals db = [demo_approval_row]" "bl_handoffs db = []"
  shows "create_handoff demo_service ''buyer'' (Some BUYER) ''case'' ''case'' 6 zero_hash False demo_clock db =
    (Inr (handoff_view demo_handoff), db\<lparr>bl_handoffs := [demo_handoff_row]\<rparr>)"
proof -
  obtain x where x: "get_case ''buyer'' ''case'' db = Inr x" "bc_version x = 6" "bc_state x = APPROVED_FOR_HANDOFF"
    using at by (auto simp: demo_at_def get_case_def)
  have h: "mk_ExchangePaymentHandoff demo_hash (bl_literal_ok demo_bilateral) (bl_price_ok demo_bilateral)
      \<lparr>eh_handoff_id = ''xhandoff_'' @ replicate 32 (CHR ''0''), eh_case_id = ''case'', eh_offer_hash = zero_hash,
       eh_approval_hash = zero_hash, eh_destination_url = ''https://acme.test'', eh_recipient = ''Acme'', eh_amount = (20, -2),
       eh_currency = ''USD'', eh_reference = ''SIRA-case'', eh_created_at = moment 1, eh_expires_at = moment 400,
       eh_status = ExchangeHandoffStatus.READY, eh_opened_at = None, eh_handoff_hash = []\<rparr> = Inr demo_handoff"
    using demo_handoff_ok by (simp add: demo_handoff_def)
  have e: "earliest [moment 500, moment 400] (shift_seconds (moment 1) 900) = moment 400"
    by (simp add: earliest_def shift_seconds_def moment_def)
  have offer: "bo_org (demo_row s) = ''buyer''" "bo_terms (demo_row s) = demo_offer" "bo_approval_status (demo_row s) = s"
    "ov_case_id demo_offer = ''case''" "ov_offer_hash demo_offer = zero_hash" "ov_total demo_offer = (20, -2)"
    "ov_currency demo_offer = ''USD''" "ov_expires_at demo_offer = moment 500" for s
    by (simp_all add: demo_row_def demo_offer_def)
  have approval: "ba_org demo_approval_row = ''buyer''" "ba_approval demo_approval_row = demo_approval"
    "ba_approval_hash demo_approval_row = zero_hash" "oa_case_id demo_approval = ''case''" "oa_offer_hash demo_approval = zero_hash"
    "oa_expires_at demo_approval = moment 400"
    by (simp_all add: demo_approval_row_def demo_approval_def)
  have route: "rt_buyer_org (demo_route i) = ''buyer''" "rt_merchant_url (demo_route i) = ''https://acme.test''"
    "rt_merchant_name (demo_route i) = ''Acme''" for i
    by (simp_all add: demo_route_def)
  have id: "''xhandoff'' @ ''_'' @ s = ''xhandoff_'' @ s" for s by simp
  have "handoff_transaction demo_service (demo_route ''case'') ''case'' 6 zero_hash (moment 1) db =
      Inr (demo_handoff_row, db\<lparr>bl_handoffs := [demo_handoff_row]\<rparr>)"
    using x rows h e
    by (simp add: handoff_transaction_def Let_def route offer approval demo_stable_id store_handoff_def insert_row_def
        demo_handoff_row_def)
  then show ?thesis
    by (simp add: create_handoff_def bindS_def demo_decode api_conflict_def transaction_def route demo_handoff_row_def)
qed

text \<open>The seller accepts the offer: the first request with this key is applied.\<close>

definition demo_key :: string where
  "demo_key = ''command_'' @ replicate 32 (CHR ''0'')"

definition demo_uuid :: "nat \<Rightarrow> string" where
  "demo_uuid n = (if n = 0 then demo_key else replicate n (CHR ''u''))"

lemma demo_decode_seller:
  "decode_route demo_service ''seller'' (Some SELLER) ''case'' ''case'' False (moment 1) = Inr (demo_route ''case'')"
  by (simp add: decode_route_def decode_def demo_service_def demo_route_def route_ok_def length_between_def)

lemma demo_accept:
  assumes at: "demo_at db OFFERED [''c'', ''b'', ''a'']"
    and rows: "bl_offers db = [demo_row OfferApprovalStatus.PENDING]" "bl_commands db = []" "bl_projections db = []"
  obtains v db' where "accept_offer demo_service ''seller'' ''bob'' (Some SELLER) ''case'' ''case'' ''key'' 4 zero_hash False demo_clock
      demo_uuid db = (Inr v, db')" "demo_at db' AGREED_PENDING_APPROVAL [demo_key, ''c'', ''b'', ''a'']"
proof -
  define c where "c = \<lparr>pc_id = demo_key, pc_case_id = ''case'', pc_party = SELLER, pc_actor_id = ''bob'', pc_command_type = ACCEPT_OFFER,
     pc_expected_version = 4, pc_idempotency_key = ''key'', pc_payload = [(KStr ''offer_hash'', PyStr zero_hash)]\<rparr>"
  have key: "length demo_key = 40" "demo_key \<notin> {''c'', ''b'', ''a''}" by (simp_all add: demo_key_def)
  have public: "\<not> private_key (KStr ''offer_hash'')" by code_simp
  have c: "mk_PartyCommand c = Inr c"
    using key(1) public by (auto simp: mk_PartyCommand_def c_def length_between_def command_owner_def)
  have r: "routine c 4" "pc_id c = demo_key" "pc_command_type c = ACCEPT_OFFER" by (simp_all add: routine_def c_def command_owner_def)
  define row where "row = \<lparr>bq_id = demo_key, bq_org = ''buyer'', bq_case_id = ''case'', bq_party = SELLER, bq_actor_id = ''bob'',
      bq_command_type = ACCEPT_OFFER, bq_expected_version = 4, bq_idempotency_key = ''key'',
      bq_payload = [(KStr ''offer_hash'', PyStr zero_hash)], bq_payload_hash = zero_hash, bq_status = ''PENDING''\<rparr>"
  let ?db1 = "db\<lparr>bl_commands := [row]\<rparr>"
  have append: "append_command demo_bilateral ''buyer'' c db = Inr (row, ?db1)"
    using rows(2) by (simp add: append_command_def c_def row_def demo_content_hash insert_row_def Let_def)
  have "demo_at ?db1 OFFERED [''c'', ''b'', ''a'']" using at demo_at_frame [of ?db1 db] by simp
  then obtain x ct db2 where 2: "get_case ''buyer'' ''case'' ?db1 = Inr x"
    "apply_command demo_bilateral ''buyer'' demo_key x c ''seller'' ?db1 = Inr (ct, db2)"
    "demo_at db2 AGREED_PENDING_APPROVAL [demo_key, ''c'', ''b'', ''a'']" "demo_frame db2 ?db1"
    "compile_party_command (bl_raw demo_bilateral) (bc_coordinator x) c = Inr ct"
    by (rule demo_apply [of ?db1 OFFERED "[''c'', ''b'', ''a'']" c AGREED_PENDING_APPROVAL demo_key "''seller''"])
      (use r key(2) in \<open>auto simp: exchange_transitions_def\<close>)
  have x: "get_case ''buyer'' ''case'' db = Inr x" using 2(1) get_case_frame [of ?db1 db] by simp
  have state: "read_state (bc_coordinator x) = Inr (bc_coordinator x)" "cs_state (bc_coordinator x) = OFFERED"
    using at x by (auto simp: demo_at_def get_case_def read_state_def)
  define bp where "bp = \<lparr>bp_id = ''bproj_'' @ demo_uuid 1, bp_org = ''buyer'', bp_projection = ct_buyer_projection ct\<rparr>"
  define sp where "sp = \<lparr>bp_id = ''bproj_'' @ demo_uuid 2, bp_org = ''seller'', bp_projection = ct_seller_projection ct\<rparr>"
  have ne: "demo_uuid 1 \<noteq> demo_uuid 2" "demo_uuid 0 = demo_key" by (simp_all add: demo_uuid_def numeral_2_eq_2)
  have none: "bl_projections db2 = []" using 2(4) rows(3) by (simp add: demo_frame_def)
  let ?db3 = "db2\<lparr>bl_projections := [bp]\<rparr>"
  have advance: "record_and_advance demo_bilateral ''buyer'' demo_uuid x c ''seller'' db = Inr ((ct, ct_buyer_projection ct), ?db3)"
    using append 2(2) none ne(2)
    by (simp add: record_and_advance_def advance_case_def publish_projection_def insert_row_def bp_def Let_def)
  have publish: "publish_compiled (demo_route ''case'') (demo_uuid 2) ct ?db3 = (Inr (), db2\<lparr>bl_projections := [bp, sp]\<rparr>)"
    using ne(1)
    by (simp add: publish_compiled_def transaction_def publish_projection_def insert_row_def bp_def sp_def demo_route_def same_projection_def Let_def)
  have latest: "latest_offer ''buyer'' ''case'' db = Some (demo_row OfferApprovalStatus.PENDING)"
    using rows(1) by (simp add: latest_offer_def offers_of_def newest_def demo_row_def demo_offer_def)
  have offer: "bo_terms (demo_row s) = demo_offer" "ov_offer_hash demo_offer = zero_hash"
    "mk_OfferVersion demo_hash (bl_price_ok demo_bilateral) demo_offer = Inr demo_offer"
    "assert_actionable demo_offer SELLER (moment 1) = Inr ()" for s
    using demo_offer_sealed by (simp_all add: demo_row_def sealed_offer_def assert_actionable_def require_tz_def) (simp_all add: demo_offer_def)
  have route: "rt_buyer_org (demo_route i) = ''buyer''" "rt_case_id (demo_route i) = i"
    "party_organization (demo_route i) (Some SELLER) = ''seller''" for i
    by (simp_all add: demo_route_def party_organization_def)
  have body: "accept_transaction demo_service (demo_route ''case'') ''bob'' SELLER ''case'' ''key'' 4 demo_key zero_hash (moment 1) demo_uuid db =
      Inr ((ct, ct_buyer_projection ct), ?db3)"
    using x state latest c advance by (simp add: accept_transaction_def offer route c_def)
  have "''c'' \<noteq> demo_key" "''b'' \<noteq> demo_key" "''a'' \<noteq> demo_key" using key(2) by auto
  moreover have "map bt_command_id (bl_transitions db) = [''a'', ''b'', ''c'']" using at by (simp add: demo_at_def)
  then have "\<forall>t \<in> set (bl_transitions db). bt_command_id t \<in> {''a'', ''b'', ''c''}"
    by (metis image_eqI list.set_map list.simps(15) empty_set)
  ultimately have fresh: "\<not> list_ex (\<lambda>t. bt_org t = ''buyer'' \<and> bt_case_id t = ''case'' \<and> bt_command_id t = demo_key) (bl_transitions db)"
    by (auto simp: list_ex_iff)
  have sid: "stable_id demo_bilateral ''command'' [''case'', ''key''] = Inr demo_key" by (simp add: demo_stable_id demo_key_def)
  have "accept_offer demo_service ''seller'' ''bob'' (Some SELLER) ''case'' ''case'' ''key'' 4 zero_hash False demo_clock demo_uuid db =
      (Inr (projection_view (ct_seller_projection ct)), db2\<lparr>bl_projections := [bp, sp]\<rparr>)"
    using fresh body publish
    by (simp add: accept_offer_def bindS_def demo_decode_seller sid once_def replayed_projection_def route transaction_def api_conflict_def)
  moreover have "demo_at (db2\<lparr>bl_projections := [bp, sp]\<rparr>) AGREED_PENDING_APPROVAL [demo_key, ''c'', ''b'', ''a'']"
    using 2(3) demo_at_frame [of "db2\<lparr>bl_projections := [bp, sp]\<rparr>" db2] by simp
  ultimately show thesis using that by blast
qed

end
