(* ===== verification/NegotiationClaims.thy ===== *)
theory NegotiationClaims
  imports ExchangeDemo
begin

text \<open>
  The properties of the two-party negotiation: exact totals, disclosures, well-formed tables, the finality of an
  approved offer, the journal, and how the requests of the service use the repository.
\<close>

section \<open>Offers and disclosures\<close>

text \<open>C31 The total of an accepted offer is exact: although the program adds the lines in decimal arithmetic with 28
  digits, the check of the total passes exactly if the total is the exact sum of unit price times quantity.
  The hypothesis states what the declared decimal fields admit: a number of cents of at most 20 digits.\<close>

theorem offer_total_exact:
  assumes "price_field price_ok"
  shows "(mk_OfferVersion E price_ok v = Inr w \<longrightarrow> ov_total w = ov_total v \<and> ov_lines w = ov_lines v \<and>
      amount_rat (ov_total w) = exact_total (ov_lines w)) \<and>
    (price_ok (ov_total v) \<and> (\<forall>l \<in> set (ov_lines v). price_ok (ol_unit_price l) \<and> 1 \<le> ol_quantity l) \<longrightarrow>
      (amount_rat (lines_total (ov_lines v)) = amount_rat (ov_total v) \<longleftrightarrow> amount_rat (ov_total v) = exact_total (ov_lines v)))"
proof (intro conjI impI)
  assume mk: "mk_OfferVersion E price_ok v = Inr w"
  then show "ov_total w = ov_total v" "ov_lines w = ov_lines v" by (auto simp: mk_OfferVersion_Inr)
  show "amount_rat (ov_total w) = exact_total (ov_lines w)" by (rule sealed_total [OF assms mk_OfferVersion_sealed [OF mk]])
next
  assume "price_ok (ov_total v) \<and> (\<forall>l \<in> set (ov_lines v). price_ok (ol_unit_price l) \<and> 1 \<le> ol_quantity l)"
  then show "amount_rat (lines_total (ov_lines v)) = amount_rat (ov_total v) \<longleftrightarrow> amount_rat (ov_total v) = exact_total (ov_lines v)"
    by (intro lines_total_iff [OF assms]) auto
qed

lemma demo_price_field: "price_field (bl_price_ok demo_bilateral)"
proof -
  have "0 \<le> fst a \<and> (\<exists>k. 0 \<le> k \<and> k < 10 ^ 20 \<and> amount_rat a = dec_rat k (-2))" if "bl_price_ok demo_bilateral a" for a
    using that by (cases a) (auto simp: amount_rat_def intro: exI [of _ "fst a"])
  then show ?thesis by (simp add: price_field_def)
qed

theorem offer_total_exact_witness:
  "price_field (bl_price_ok demo_bilateral) \<and> mk_OfferVersion demo_hash (bl_price_ok demo_bilateral) demo_offer = Inr demo_offer \<and>
   amount_rat (ov_total demo_offer) = exact_total (ov_lines demo_offer)"
  using offer_total_exact [OF demo_price_field, of demo_hash demo_offer demo_offer] demo_price_field demo_offer_sealed
  by (simp add: sealed_offer_def)

text \<open>C32 A release discloses the approved fields and nothing else: a validated manifest names distinct, public
  fields and carries the hash of the approved payload, and releasing succeeds exactly if the authorization is active and
  unexpired, every approved field is in the source and can be transformed as approved, and no private key is in the
  result, which then lists exactly the approved fields with their transformed values.\<close>

theorem release_discloses_approved:
  assumes "mk_ReleaseManifest E m0 = Inr m"
  shows "distinct (rm_fields m) \<and> (\<forall>f \<in> set (rm_fields m). \<not> contract_private_key f) \<and>
    content_hash E (approval_payload m) = Inr (rm_approved_payload_hash m) \<and>
    (release m source now = Inr out \<longleftrightarrow>
       tz_aware now \<and> rm_status m = ReleaseStatus.ACTIVE \<and> micros now < micros (rm_expires_at m) \<and>
       map fst out = rm_fields m \<and>
       (\<forall>(f, v) \<in> set out. \<exists>u. map_of source f = Some u \<and> transform_value (transformation_of m f) u = Inr v) \<and>
       \<not> private_tree (dict_str out))"
proof -
  note f = manifest_fields [OF assms]
  have "list_all2 (disclosed m source) (rm_fields m) out \<longleftrightarrow> map fst out = rm_fields m \<and>
      (\<forall>(f, v) \<in> set out. \<exists>u. map_of source f = Some u \<and> transform_value (transformation_of m f) u = Inr v)"
    by (rule disclosed_iff)
  then show ?thesis using f(1,3,6) release_Inr [OF f(1)] by auto
qed

definition demo_manifest :: ReleaseManifest where
  "demo_manifest = \<lparr>rm_manifest_id = ''manifest'', rm_case_id = ''case'', rm_owner = BUYER, rm_recipient = SELLER, rm_purpose = ''fit'',
     rm_fields = [''goal''], rm_transformations = [(''goal'', LOWERCASE)], rm_source_versions = [(''brief'', 1)],
     rm_expires_at = moment 500, rm_approval_id = ''approval'', rm_approved_payload_hash = zero_hash,
     rm_status = ReleaseStatus.ACTIVE, rm_manifest_hash = zero_hash\<rparr>"

lemma demo_manifest_ok: "mk_ReleaseManifest demo_hash demo_manifest = Inr demo_manifest"
proof -
  have "plain (approval_payload demo_manifest)" "plain (manifest_payload demo_manifest)"
    by (simp_all add: approval_payload_def manifest_payload_def approval_entries_def demo_manifest_def dict_str_def py_strs_def)
  moreover have "\<not> contract_private_key ''goal''" by code_simp
  then have "list_all fst (manifest_checks demo_manifest)"
    by (simp add: manifest_checks_def demo_manifest_def length_between_def party_check_def tz_check_def)
  ultimately show ?thesis
    by (simp add: mk_ReleaseManifest_Inr demo_content_hash) (simp add: demo_manifest_def)
qed

theorem release_discloses_approved_witness:
  "mk_ReleaseManifest demo_hash demo_manifest = Inr demo_manifest \<and>
   release demo_manifest [(''goal'', PyStr ''AI''), (''budget'', PyInt 9)] (moment 1) = Inr [(''goal'', PyStr ''ai'')]"
proof -
  have "transform_value LOWERCASE (PyStr ''AI'') = Inr (PyStr ''ai'')" "\<not> private_tree (dict_str [(''goal'', PyStr ''ai'')])"
    by code_simp+
  then show ?thesis
    using release_discloses_approved [OF demo_manifest_ok, of "[(''goal'', PyStr ''AI''), (''budget'', PyInt 9)]" "moment 1"
        "[(''goal'', PyStr ''ai'')]"] demo_manifest_ok
    by (simp add: demo_manifest_def transformation_of_def)
qed

section \<open>The tables\<close>

text \<open>C33 Every document column stays well formed: after any sequence of transactions each stored offer, manifest and
  payment handoff passes its own validation unchanged, so that reading it back cannot fail; each envelope is public,
  crosses the parties, carries the hash of its content and is covered by an active manifest of the same tenant, case
  and direction that outlives it; each receipt binds a stored envelope.\<close>

theorem exchange_documents_valid:
  assumes "(bilateral_step B)\<^sup>*\<^sup>* empty_bdb db"
  shows "(\<forall>r \<in> set (bl_offers db). mk_OfferVersion (bl_hash B) (bl_price_ok B) (bo_terms r) = Inr (bo_terms r)) \<and>
    (\<forall>r \<in> set (bl_manifests db). mk_ReleaseManifest (bl_hash B) (mr_manifest r) = Inr (mr_manifest r)) \<and>
    (\<forall>r \<in> set (bl_handoffs db). mk_ExchangePaymentHandoff (bl_hash B) (bl_literal_ok B) (bl_price_ok B) (bh_handoff r) = Inr (bh_handoff r)) \<and>
    (\<forall>e \<in> set (bl_envelopes db). \<not> private_tree (dict_str (ee_payload (be_envelope e))) \<and>
       ee_sender (be_envelope e) \<noteq> ee_recipient (be_envelope e) \<and>
       content_hash (bl_hash B) (envelope_payload (be_envelope e)) = Inr (ee_payload_hash (be_envelope e)) \<and>
       (\<exists>m \<in> set (bl_manifests db). covers m e)) \<and>
    (\<forall>r \<in> set (bl_receipts db). \<exists>e \<in> set (bl_envelopes db). acknowledges r e)"
proof -
  have n: "negotiation_inv B db" by (rule negotiation.steps_inv [OF assms negotiation_initial])
  have d: "disclosure_inv B db" by (rule disclosures.steps_inv [OF assms bilateral_initial(2)])
  have h: "handoff_inv B db" by (rule handoffs.steps_inv [OF assms handoff_initial])
  have "mk_OfferVersion (bl_hash B) (bl_price_ok B) (bo_terms r) = Inr (bo_terms r)" if "r \<in> set (bl_offers db)" for r
  proof -
    have "chained B (offers_of (bo_org r) (ov_case_id (bo_terms r)) db)" using n by (simp add: negotiation_inv_def offer_inv_def)
    moreover have "r \<in> set (offers_of (bo_org r) (ov_case_id (bo_terms r)) db)" using that by (simp add: offers_of_mem)
    ultimately show ?thesis by (auto simp: chained_def list_all_iff sealed_offer_def)
  qed
  moreover have "(\<forall>r \<in> set (bl_manifests db). mk_ReleaseManifest (bl_hash B) (mr_manifest r) = Inr (mr_manifest r)) \<and>
    (\<forall>e \<in> set (bl_envelopes db). public_envelope (bl_hash B) (be_envelope e) \<and> (\<exists>m \<in> set (bl_manifests db). covers m e)) \<and>
    (\<forall>r \<in> set (bl_receipts db). \<exists>e \<in> set (bl_envelopes db). acknowledges r e)" using d unfolding disclosure_inv_def .
  moreover have "\<forall>r \<in> set (bl_handoffs db). sealed_handoff B (bh_handoff r)" using h by (simp add: handoff_inv_def)
  ultimately show ?thesis unfolding public_envelope_def sealed_handoff_def by blast
qed

theorem exchange_documents_valid_witness:
  "\<exists>db. (bilateral_step demo_bilateral)\<^sup>*\<^sup>* empty_bdb db \<and> demo_row OfferApprovalStatus.APPROVED \<in> set (bl_offers db) \<and>
     mk_OfferVersion demo_hash (bl_price_ok demo_bilateral) demo_offer = Inr demo_offer"
proof -
  obtain db where db: "(bilateral_step demo_bilateral)\<^sup>*\<^sup>* empty_bdb db" "bl_offers db = [demo_row OfferApprovalStatus.APPROVED]"
    by (rule demo_agreed)
  then show ?thesis using exchange_documents_valid [OF db(1)] by (auto simp: demo_row_def)
qed

text \<open>C34 A negotiation is one chain that ends with an approval: after any sequence of transactions the offers of a tenant
  and case are numbered from one, each is superseded and countered by the next, which binds its hash, swaps the
  parties and names exactly the changed terms; and once an offer is approved it is the last one, rests on a stored approval of
  its exact hash if it was submitted as pending, and the negotiation is the same after every further sequence of transactions.\<close>

theorem negotiation_is_final_chain:
  assumes "(bilateral_step B)\<^sup>*\<^sup>* empty_bdb db"
  shows "(\<forall>org i. let rows = offers_of org i db in
      map (\<lambda>r. ov_version (bo_terms r)) rows = map int [1..<Suc (length rows)] \<and>
      (\<forall>k. Suc k < length rows \<longrightarrow>
         bo_approval_status (rows ! k) = OfferApprovalStatus.SUPERSEDED \<and>
         ov_predecessor_hash (bo_terms (rows ! Suc k)) = Some (ov_offer_hash (bo_terms (rows ! k))) \<and>
         ov_proposer (bo_terms (rows ! Suc k)) = ov_recipient (bo_terms (rows ! k)) \<and>
         ov_recipient (bo_terms (rows ! Suc k)) = ov_proposer (bo_terms (rows ! k)) \<and>
         set (ov_changed_terms (bo_terms (rows ! Suc k))) = set (actual_changes (bo_terms (rows ! k)) (bo_terms (rows ! Suc k))))) \<and>
    (\<forall>r \<in> set (bl_offers db). bo_approval_status r = OfferApprovalStatus.APPROVED \<longrightarrow>
       r = last (offers_of (bo_org r) (ov_case_id (bo_terms r)) db) \<and>
       (ov_approval_status (bo_terms r) = OfferApprovalStatus.PENDING \<longrightarrow> (\<exists>a \<in> set (bl_approvals db). binds a r)) \<and>
       (\<forall>db'. (bilateral_step B)\<^sup>*\<^sup>* db db' \<longrightarrow>
          offers_of (bo_org r) (ov_case_id (bo_terms r)) db' = offers_of (bo_org r) (ov_case_id (bo_terms r)) db))"
proof -
  have n: "negotiation_inv B db" by (rule negotiation.steps_inv [OF assms negotiation_initial])
  then have chain: "chained B (offers_of org i db)" for org i by (simp add: negotiation_inv_def offer_inv_def)
  have links: "let rows = offers_of org i db in
      map (\<lambda>r. ov_version (bo_terms r)) rows = map int [1..<Suc (length rows)] \<and>
      (\<forall>k. Suc k < length rows \<longrightarrow> counters (rows ! k) (rows ! Suc k))" for org i
    using chain [of org i] by (simp add: chained_def successively_conv_nth del: upt_Suc)
  have final: "r = last (offers_of (bo_org r) (ov_case_id (bo_terms r)) db) \<and>
       (ov_approval_status (bo_terms r) = OfferApprovalStatus.PENDING \<longrightarrow> (\<exists>a \<in> set (bl_approvals db). binds a r)) \<and>
       (\<forall>db'. (bilateral_step B)\<^sup>*\<^sup>* db db' \<longrightarrow>
          offers_of (bo_org r) (ov_case_id (bo_terms r)) db' = offers_of (bo_org r) (ov_case_id (bo_terms r)) db)"
    if r: "r \<in> set (bl_offers db)" "bo_approval_status r = OfferApprovalStatus.APPROVED" for r
  proof (intro conjI impI allI)
    let ?rows = "offers_of (bo_org r) (ov_case_id (bo_terms r)) db"
    show "r = last ?rows" by (rule approved_offer_last [OF n r])
    show "\<exists>a \<in> set (bl_approvals db). binds a r" if "ov_approval_status (bo_terms r) = OfferApprovalStatus.PENDING"
      using n r that by (auto simp: negotiation_inv_def approval_inv_def)
    show "offers_of (bo_org r) (ov_case_id (bo_terms r)) db' = ?rows" if "(bilateral_step B)\<^sup>*\<^sup>* db db'" for db'
      using negotiation.steps_evolve [OF that n] r unfolding offer_evolve_def by blast
  qed
  show ?thesis
    using links final unfolding Let_def counters_def validate_counteroffer_Inr by blast
qed

theorem negotiation_is_final_chain_witness:
  "\<exists>db. (bilateral_step demo_bilateral)\<^sup>*\<^sup>* empty_bdb db \<and> bl_offers db = [demo_row OfferApprovalStatus.APPROVED] \<and>
     (\<exists>a \<in> set (bl_approvals db). binds a (demo_row OfferApprovalStatus.APPROVED))"
proof -
  obtain db where db: "(bilateral_step demo_bilateral)\<^sup>*\<^sup>* empty_bdb db" "bl_offers db = [demo_row OfferApprovalStatus.APPROVED]"
    by (rule demo_agreed)
  have "ov_approval_status (bo_terms (demo_row OfferApprovalStatus.APPROVED)) = OfferApprovalStatus.PENDING"
    by (simp add: demo_row_def demo_offer_def)
  moreover have "bo_approval_status (demo_row OfferApprovalStatus.APPROVED) = OfferApprovalStatus.APPROVED" by (simp add: demo_row_def)
  ultimately show ?thesis using negotiation_is_final_chain [OF db(1)] db by auto
qed

text \<open>C35 The journal of a case replays to its state: after any sequence of transactions the transitions stored for a case are
  numbered from one without gaps, each continues from the state the one before led to along the transition table, no
  command occurs twice, and the row of the case holds exactly the state and version that this replay gives.\<close>

theorem journal_replays:
  assumes "(bilateral_step B)\<^sup>*\<^sup>* empty_bdb db" "r \<in> set (bl_cases db)"
  shows "let ts = journal (bc_org r) (bc_id r) db in
    replay CREATED ts = Some (bc_state r) \<and> map bt_sequence ts = map int [1..<Suc (length ts)] \<and>
    distinct (map bt_command_id ts) \<and> bc_version r = int (length ts) + 1 \<and>
    cs_state (bc_coordinator r) = bc_state r \<and> cs_version (bc_coordinator r) = bc_version r"
proof -
  have "journal_inv db" by (rule journals.steps_inv [OF assms(1) bilateral_initial(1)])
  then have "journal_ok db r" using assms(2) by (simp add: journal_inv_def list_all_iff)
  then show ?thesis unfolding journal_ok_def Let_def by blast
qed

theorem journal_replays_witness:
  "\<exists>db r. (bilateral_step demo_bilateral)\<^sup>*\<^sup>* empty_bdb db \<and> r \<in> set (bl_cases db) \<and>
     replay CREATED (journal ''buyer'' ''case'' db) = Some APPROVED_FOR_HANDOFF"
proof -
  obtain db where db: "(bilateral_step demo_bilateral)\<^sup>*\<^sup>* empty_bdb db" "demo_at db APPROVED_FOR_HANDOFF [''e'', ''d'', ''c'', ''b'', ''a'']"
    by (rule demo_agreed)
  then obtain r where r: "r \<in> set (bl_cases db)" "bc_id r = ''case''" "bc_org r = ''buyer''" "bc_state r = APPROVED_FOR_HANDOFF"
    by (auto simp: demo_at_def)
  then show ?thesis using journal_replays [OF db(1) r(1)] db(1) by (auto simp: Let_def)
qed

end
