(* ===== verification/ServiceClaims.thy ===== *)
theory ServiceClaims
  imports NegotiationClaims
begin

text \<open>
  The properties of the exchange service: its requests refine the repository, a refused request leaves the tables
  alone, a repeated request is answered without effect, and a payment handoff carries the approved offer.
\<close>

section \<open>Requests\<close>

text \<open>C36 Every request refines the repository: whatever a client sends, in any order and by any party, the tables move only
  along transactions of the repository, so that its invariants hold after every request, refused or not.\<close>

theorem requests_refine_repository:
  assumes "(service_step S)\<^sup>*\<^sup>* db db'"
  shows "(bilateral_step (sv_bilateral S))\<^sup>*\<^sup>* db db'"
  using assms by (rule requests_reach)

theorem requests_refine_repository_witness:
  "\<exists>db. bl_handoffs db = [] \<and> (service_step demo_service)\<^sup>*\<^sup>* db (db\<lparr>bl_handoffs := [demo_handoff_row]\<rparr>) \<and>
     (bilateral_step demo_bilateral)\<^sup>*\<^sup>* db (db\<lparr>bl_handoffs := [demo_handoff_row]\<rparr>)"
proof -
  obtain db where db: "demo_at db APPROVED_FOR_HANDOFF [''e'', ''d'', ''c'', ''b'', ''a'']"
    "bl_offers db = [demo_row OfferApprovalStatus.APPROVED]" "bl_approvals db = [demo_approval_row]" "bl_handoffs db = []"
    by (rule demo_agreed)
  have "service_step demo_service db (db\<lparr>bl_handoffs := [demo_handoff_row]\<rparr>)"
    by (rule request_handoff, subst demo_create_handoff [OF db]) simp
  then have "(service_step demo_service)\<^sup>*\<^sup>* db (db\<lparr>bl_handoffs := [demo_handoff_row]\<rparr>)" by simp
  then show ?thesis using requests_refine_repository db(4) by fastforce
qed

text \<open>C37 A refused request leaves no trace: if a request ends in an API problem (a wrong party, an invalid route, a conflict),
  the tables are what they were, except that publishing evidence may have recorded its command.\<close>

theorem refused_request_changes_nothing:
  "(fst (exchange_create_case S briefs org actor_id party idem preq cand guest now uuid db) = Inl (ApiProblem code) \<longrightarrow>
      snd (exchange_create_case S briefs org actor_id party idem preq cand guest now uuid db) = db) \<and>
   (fst (propose_offer S org actor_id party i token idem ev x guest clock uuid db) = Inl (ApiProblem code) \<longrightarrow>
      snd (propose_offer S org actor_id party i token idem ev x guest clock uuid db) = db) \<and>
   (fst (accept_offer S org actor_id party i token idem ev h guest clock uuid db) = Inl (ApiProblem code) \<longrightarrow>
      snd (accept_offer S org actor_id party i token idem ev h guest clock uuid db) = db) \<and>
   (fst (exchange_approve_offer S org actor_id party i token idem ev h ex guest clock uuid db) = Inl (ApiProblem code) \<longrightarrow>
      snd (exchange_approve_offer S org actor_id party i token idem ev h ex guest clock uuid db) = db) \<and>
   (fst (create_handoff S org party i token ev h guest clock db) = Inl (ApiProblem code) \<longrightarrow>
      snd (create_handoff S org party i token ev h guest clock db) = db) \<and>
   (fst (exchange_open_handoff S org party i token hid hh guest clock db) = Inl (ApiProblem code) \<longrightarrow>
      snd (exchange_open_handoff S org party i token hid hh guest clock db) = db) \<and>
   (fst (publish_evidence S spans org actor_id party i token idem ev summary ids guest clock uuid db) = Inl (ApiProblem code) \<longrightarrow>
      (\<exists>cs. snd (publish_evidence S spans org actor_id party i token idem ev summary ids guest clock uuid db) = db\<lparr>bl_commands := cs\<rparr>))"
proof -
  note rules = refuses_after_read [OF _ keeps_simple(1)] refuses_then_sure [OF refuses_conflict] refuses_simple once_refuses no_problem_pure
  have "refuses (=) (exchange_create_case S briefs org actor_id party idem preq cand guest now uuid)"
    unfolding exchange_create_case_def Let_def
    by (auto split: option.split prod.split intro!: refuses_after_read [OF _ keeps_simple(1)] refuses_then_sure [OF refuses_transaction]
        refuses_simple no_problem_bindS no_problem_publish no_problem_pure no_problem_fails)
  moreover have "refuses (=) (propose_offer S org actor_id party i token idem ev x guest clock uuid)"
    "refuses (=) (accept_offer S org actor_id party i token idem ev h guest clock uuid)"
    "refuses (=) (exchange_approve_offer S org actor_id party i token idem ev h ex guest clock uuid)"
    "refuses (=) (create_handoff S org party i token ev h guest clock)"
    "refuses (=) (exchange_open_handoff S org party i token hid hh guest clock)"
    unfolding propose_offer_def accept_offer_def exchange_approve_offer_def create_handoff_def exchange_open_handoff_def
    by (auto intro!: rules)
  ultimately show ?thesis
    using evidence_refuses [of S spans org actor_id party i token idem ev summary ids guest clock uuid]
    unfolding refuses_def same_but_commands_def by metis
qed

theorem refused_request_changes_nothing_witness:
  "fst (create_handoff demo_service ''seller'' (Some SELLER) ''case'' ''case'' 6 zero_hash False demo_clock empty_bdb) =
     Inl (ApiProblem ''BUYER_HANDOFF_REQUIRED'') \<and>
   snd (create_handoff demo_service ''seller'' (Some SELLER) ''case'' ''case'' 6 zero_hash False demo_clock empty_bdb) = empty_bdb"
proof -
  have "fst (create_handoff demo_service ''seller'' (Some SELLER) ''case'' ''case'' 6 zero_hash False demo_clock empty_bdb) =
      Inl (ApiProblem ''BUYER_HANDOFF_REQUIRED'')"
    by (simp add: create_handoff_def demo_decode_seller bindS_def)
  then show ?thesis
    using refused_request_changes_nothing [of _ _ _ _ _ _ _ _ _ _ _ empty_bdb "''BUYER_HANDOFF_REQUIRED''"] by simp
qed

text \<open>C38 A request is applied once: after a proposal, acceptance or approval of a case has succeeded under an idempotency
  key, and whatever requests follow it, its retry (the same operation by the same actor under the same key with the same
  arguments; the route capability, the clock and the fresh identifiers may differ) leaves the tables unchanged and is
  answered exactly as a read of the case by its party at that time, so that, if it succeeds, the answer is the
  stored projection of the party. The hypothesis on the codec states that decryption inverts encryption.\<close>

theorem applied_request_repeats:
  assumes "(bilateral_step (sv_bilateral S))\<^sup>*\<^sup>* empty_bdb db"
    and "retried_request S i idem route route' party now request retry" "request db = (Inr v, db1)"
    and "(service_step S)\<^sup>*\<^sup>* db1 db2" "rt_buyer_org route' = rt_buyer_org route"
    and "rc_decrypt (sv_codec S) (rc_encrypt (sv_codec S) route') = Some route'"
  shows "retry db2 = view_case S (party_organization route' (Some party)) (Some party) i (rc_encrypt (sv_codec S) route') False now db2 \<and>
    snd (retry db2) = db2 \<and>
    (\<forall>w. fst (retry db2) = Inr w \<longrightarrow>
      (\<exists>r. latest_projection (party_organization route' (Some party)) i party db2 = Inr r \<and> w = projection_view (bp_projection r)))"
proof -
  let ?v = "view_case S (party_organization route' (Some party)) (Some party) i (rc_encrypt (sv_codec S) route') False now"
  from retried_request_once [OF assms(2)] obtain u body where R: "keyed_request S i idem route party request" "rt_case_id route' = i"
    "retry = bindS (pure_svc (stable_id (sv_bilateral S) ''command'' [i, idem])) (\<lambda>cid. once S route' party cid now u (body cid))" by blast
  have view: "retry db2 = ?v db2" by (rule applied_key_replays [OF assms(1) R(1) assms(3,4) R(2) assms(5) R(3)])
  moreover have "snd (?v db2) = db2" using view_case_keeps [of "(=)" S] by (simp add: keeps_def)
  ultimately show ?thesis using viewed_projection_stored [OF _ assms(6)] by (metis prod.collapse)
qed

theorem applied_request_repeats_witness:
  "\<exists>db v db1. (bilateral_step demo_bilateral)\<^sup>*\<^sup>* empty_bdb db \<and>
     accept_offer demo_service ''seller'' ''bob'' (Some SELLER) ''case'' ''case'' ''key'' 4 zero_hash False demo_clock demo_uuid db =
       (Inr v, db1) \<and> db1 \<noteq> db \<and>
     accept_offer demo_service ''seller'' ''bob'' (Some SELLER) ''case'' ''case'' ''key'' 4 zero_hash False demo_clock demo_uuid db1 =
       view_case demo_service ''seller'' (Some SELLER) ''case'' ''case'' False (demo_clock 1) db1 \<and>
     snd (accept_offer demo_service ''seller'' ''bob'' (Some SELLER) ''case'' ''case'' ''key'' 4 zero_hash False demo_clock demo_uuid db1) = db1"
proof -
  obtain db where db: "(bilateral_step demo_bilateral)\<^sup>*\<^sup>* empty_bdb db" "demo_at db OFFERED [''c'', ''b'', ''a'']"
    "bl_offers db = [demo_row OfferApprovalStatus.PENDING]" "bl_commands db = []" "bl_projections db = []" by (rule demo_offered)
  obtain v db1 where a: "accept_offer demo_service ''seller'' ''bob'' (Some SELLER) ''case'' ''case'' ''key'' 4 zero_hash False demo_clock
      demo_uuid db = (Inr v, db1)" "demo_at db1 AGREED_PENDING_APPROVAL [demo_key, ''c'', ''b'', ''a'']" using db(2-5) by (rule demo_accept)
  have k: "retried_request demo_service ''case'' ''key'' (demo_route ''case'') (demo_route ''case'') SELLER (demo_clock 1)
      (accept_offer demo_service ''seller'' ''bob'' (Some SELLER) ''case'' ''case'' ''key'' 4 zero_hash False demo_clock demo_uuid)
      (accept_offer demo_service ''seller'' ''bob'' (Some SELLER) ''case'' ''case'' ''key'' 4 zero_hash False demo_clock demo_uuid)"
    by (rule retried_accept) (simp_all add: demo_decode_seller)
  have codec: "rc_decrypt (sv_codec demo_service) (rc_encrypt (sv_codec demo_service) (demo_route ''case'')) = Some (demo_route ''case'')"
    "rc_encrypt (sv_codec demo_service) (demo_route ''case'') = ''case''" "party_organization (demo_route ''case'') (Some SELLER) = ''seller''"
    by (simp_all add: demo_service_def demo_route_def party_organization_def)
  have "db1 \<noteq> db" using a(2) db(2) by (auto simp: demo_at_def)
  moreover have "(bilateral_step (sv_bilateral demo_service))\<^sup>*\<^sup>* empty_bdb db" using db(1) by simp
  note applied_request_repeats [OF this k a(1) rtranclp.rtrancl_refl refl codec(1), unfolded codec(2,3)]
  ultimately show ?thesis using a(1) db(1) by blast
qed

text \<open>The key alone identifies a request: another operation, or the same one with other arguments, is answered in the same
  way under a key that was used, without being done, instead of being refused as a reuse.\<close>

theorem reused_key_answered:
  assumes "(bilateral_step (sv_bilateral S))\<^sup>*\<^sup>* empty_bdb db"
    and "keyed_request S i idem route party request" "request db = (Inr v, db1)" "(service_step S)\<^sup>*\<^sup>* db1 db2"
    and "keyed_request S i idem route' party' other" "rt_buyer_org route' = rt_buyer_org route"
  shows "\<exists>now. other db2 =
    view_case S (party_organization route' (Some party')) (Some party') i (rc_encrypt (sv_codec S) route') False now db2"
  using assms(5)
proof (rule keyed_request_once)
  fix now u body
  assume 1: "rt_case_id route' = i"
    "other = bindS (pure_svc (stable_id (sv_bilateral S) ''command'' [i, idem])) (\<lambda>cid. once S route' party' cid now u (body cid))"
  from applied_key_replays [OF assms(1-4) 1(1) assms(6) 1(2)] show ?thesis by blast
qed

section \<open>Payment\<close>

text \<open>C39 A payment handoff pays the approved offer: if a request for a handoff succeeds, the caller is the buyer of a
  valid route, the case is approved at the expected version, and the offer with the given hash is the last one of the case, is
  approved and bound by a stored approval. The document is sent to the merchant of the route, charges the offer's total,
  which is the exact sum of its lines, and expires no later than the offer, the approval and fifteen minutes from
  now. It is stored as the only new row, or the tables already hold a handoff with the same hash and do not change.\<close>

theorem handoff_pays_approved_offer:
  assumes "price_field (bl_price_ok (sv_bilateral S))" "(bilateral_step (sv_bilateral S))\<^sup>*\<^sup>* empty_bdb db"
    and "create_handoff S org party i token ev h guest clock db = (Inr v, db')"
  shows "\<exists>route exchange offer approval d r.
    party = Some BUYER \<and> decode_route S org (Some BUYER) i token guest (clock 0) = Inr route \<and>
    get_case (rt_buyer_org route) i db = Inr exchange \<and> bc_state exchange = APPROVED_FOR_HANDOFF \<and> bc_version exchange = ev \<and>
    offer \<in> set (bl_offers db) \<and> offer = last (offers_of (rt_buyer_org route) i db) \<and> ov_offer_hash (bo_terms offer) = h \<and>
    bo_approval_status offer = OfferApprovalStatus.APPROVED \<and> approval \<in> set (bl_approvals db) \<and> binds approval offer \<and>
    eh_destination_url d = rt_merchant_url route \<and> eh_amount d = ov_total (bo_terms offer) \<and>
    amount_rat (eh_amount d) = exact_total (ov_lines (bo_terms offer)) \<and> eh_currency d = ov_currency (bo_terms offer) \<and>
    micros (eh_expires_at d) \<le> micros (ov_expires_at (bo_terms offer)) \<and>
    micros (eh_expires_at d) \<le> micros (oa_expires_at (ba_approval approval)) \<and>
    micros (eh_expires_at d) \<le> micros (clock 1) + 900 * 1000000 \<and>
    v = handoff_view (bh_handoff r) \<and> eh_handoff_hash (bh_handoff r) = eh_handoff_hash d \<and>
    (bh_handoff r = d \<and> db' = db\<lparr>bl_handoffs := bl_handoffs db @ [r]\<rparr> \<or> r \<in> set (bl_handoffs db) \<and> db' = db)"
proof -
  let ?B = "sv_bilateral S"
  obtain route r where 1: "decode_route S org party i token guest (clock 0) = Inr route" "party = Some BUYER"
    "handoff_transaction S route i ev h (clock 1) db = Inr (r, db')" "v = handoff_view (bh_handoff r)"
    using assms(3) by (rule create_handoff_Inr)
  from 1(3) obtain exchange offer approval d where 2: "get_case (rt_buyer_org route) i db = Inr exchange" "bc_version exchange = ev"
    "bc_state exchange = APPROVED_FOR_HANDOFF" "offer \<in> set (offers_of (rt_buyer_org route) i db)"
    "ov_offer_hash (bo_terms offer) = h" "bo_approval_status offer = OfferApprovalStatus.APPROVED"
    "approval \<in> set (bl_approvals db)" "ba_org approval = rt_buyer_org route" "oa_case_id (ba_approval approval) = i"
    "oa_offer_hash (ba_approval approval) = h" "handoff_of route offer approval (clock 1) d" "store_handoff (rt_buyer_org route) d db = Inr (r, db')"
    by (rule handoff_transaction_document)
  have inv: "negotiation_inv ?B db" using negotiation.steps_inv [OF assms(2) negotiation_initial] .
  have offer: "offer \<in> set (bl_offers db)" "bo_org offer = rt_buyer_org route" "ov_case_id (bo_terms offer) = i"
    using 2(4) by (auto simp: offers_of_mem)
  have "offer = last (offers_of (rt_buyer_org route) i db)" using approved_offer_last [OF inv offer(1) 2(6)] offer(2,3) by simp
  moreover have "sealed_offer (bl_hash ?B) (bl_price_ok ?B) (bo_terms offer)"
    using inv 2(4) unfolding negotiation_inv_def offer_inv_def chained_def list_all_iff by blast
  then have "amount_rat (ov_total (bo_terms offer)) = exact_total (ov_lines (bo_terms offer))" by (rule sealed_total [OF assms(1)])
  moreover have "binds approval offer" using 2(5,8-10) offer by (simp add: binds_def)
  ultimately show ?thesis
    using 1 2(1-3,5-7,11) offer(1) store_handoff_cases [OF 2(12)] handoff_of_expiry [OF 2(11)]
    by (intro exI [of _ route] exI [of _ exchange] exI [of _ offer] exI [of _ approval] exI [of _ d] exI [of _ r])
      (auto simp: handoff_of_def)
qed

theorem handoff_pays_approved_offer_witness:
  "\<exists>db. price_field (bl_price_ok demo_bilateral) \<and> (bilateral_step demo_bilateral)\<^sup>*\<^sup>* empty_bdb db \<and>
     create_handoff demo_service ''buyer'' (Some BUYER) ''case'' ''case'' 6 zero_hash False demo_clock db =
       (Inr (handoff_view demo_handoff), db\<lparr>bl_handoffs := [demo_handoff_row]\<rparr>) \<and>
     (\<exists>offer \<in> set (bl_offers db). ov_offer_hash (bo_terms offer) = zero_hash \<and> bo_approval_status offer = OfferApprovalStatus.APPROVED)"
proof -
  obtain db where db: "(bilateral_step demo_bilateral)\<^sup>*\<^sup>* empty_bdb db"
    "demo_at db APPROVED_FOR_HANDOFF [''e'', ''d'', ''c'', ''b'', ''a'']"
    "bl_offers db = [demo_row OfferApprovalStatus.APPROVED]" "bl_approvals db = [demo_approval_row]" "bl_handoffs db = []"
    by (rule demo_agreed)
  note run = demo_create_handoff [OF db(2-5)]
  have "\<exists>offer \<in> set (bl_offers db). ov_offer_hash (bo_terms offer) = zero_hash \<and> bo_approval_status offer = OfferApprovalStatus.APPROVED"
    using handoff_pays_approved_offer [OF _ _ run, unfolded demo_service_simps, OF demo_price_field db(1)] by blast
  then show ?thesis using run demo_price_field db(1) by blast
qed

end
