(* ===== verification/PyEquality.thy ===== *)
theory PyEquality
  imports Values
begin

text \<open>
  Python's \<^verbatim>\<open>==\<close> and \<^verbatim>\<open>in\<close> on the universal value type. Numbers of all types, booleans included, compare
  by exact value; a NaN equals nothing; lists and tuples compare element by element and never with each other;
  sets compare by mutual containment; dicts by their entries; all other values compare as they are.
\<close>

datatype number = Finite rat | Infinite bool | NotANumber

fun decimal_number :: "decimal \<Rightarrow> number" where
  "decimal_number (DFin c e) = Finite (dec_rat c e)"
| "decimal_number (DInf negative) = Infinite negative"
| "decimal_number DNaN = NotANumber"

fun py_number :: "pyval \<Rightarrow> number option" where
  "py_number (PyBool b) = Some (Finite (if b then 1 else 0))"
| "py_number (PyInt i) = Some (Finite (of_int i))"
| "py_number (PyFloat d) = Some (decimal_number d)"
| "py_number (PyDec d) = Some (decimal_number d)"
| "py_number _ = None"

lemma item_smaller: "(k, x) \<in> set a \<Longrightarrow> size x < Suc (size_list (size_prod (\<lambda>_. 0) size) a)"
  by (induction a) auto

lemma element_smaller:
  "(x, y) \<in> set (zip xs ys) \<Longrightarrow> size (x :: pyval) < Suc (size_list size xs)"
  "x \<in> set xs \<Longrightarrow> size x < Suc (size_list size xs)"
  by (auto dest!: set_zip_leftD simp: less_Suc_eq_le size_list_estimation')

function py_eq :: "pyval \<Rightarrow> pyval \<Rightarrow> bool" where
  "py_eq v w =
     (case (v, w) of
        (PyDict a, PyDict b) \<Rightarrow> length a = length b \<and>
          list_all (\<lambda>(k, x). case map_of b k of None \<Rightarrow> False | Some y \<Rightarrow> py_eq x y) a
      | (PyList xs, PyList ys) \<Rightarrow> length xs = length ys \<and> list_all (\<lambda>(x, y). py_eq x y) (zip xs ys)
      | (PyTuple xs, PyTuple ys) \<Rightarrow> length xs = length ys \<and> list_all (\<lambda>(x, y). py_eq x y) (zip xs ys)
      | (PySet xs, PySet ys) \<Rightarrow>
          list_all (\<lambda>x. list_ex (\<lambda>y. py_eq x y) ys) xs \<and> list_all (\<lambda>y. list_ex (\<lambda>x. py_eq x y) xs) ys
      | _ \<Rightarrow> (case (py_number v, py_number w) of
                (Some a, Some b) \<Rightarrow> a = b \<and> a \<noteq> NotANumber
              | (None, None) \<Rightarrow> v = w
              | _ \<Rightarrow> False))"
  by auto
termination
  by (relation "measure (size \<circ> fst)") (auto dest: item_smaller element_smaller)

declare py_eq.simps [simp del]

text \<open>The values a dict key or a set element may be; a nested set stands for a \<^verbatim>\<open>frozenset\<close>.\<close>

fun py_hashable :: "pyval \<Rightarrow> bool" where
  "py_hashable (PyList _) = False"
| "py_hashable (PyDict _) = False"
| "py_hashable (PyTuple xs) = list_all py_hashable xs"
| "py_hashable (PyObj kvs) = list_all (\<lambda>(k, v). py_hashable v) kvs"
| "py_hashable _ = True"

text \<open>\<^verbatim>\<open>item in bytes\<close>\<close>

definition byte_in :: "int \<Rightarrow> string \<Rightarrow> bool res" where
  "byte_in i t =
     (if 0 \<le> i \<and> i < 256 then Inr (char_of (nat i) \<in> set t)
      else Inl (ValueError ''byte must be in range(0, 256)''))"

text \<open>\<^verbatim>\<open>item in container\<close>. The keys of a dict are its texts; a value of another type is never among them.\<close>

definition py_in :: "pyval \<Rightarrow> pyval \<Rightarrow> bool res" where
  "py_in item container =
     (case container of
        PyStr t \<Rightarrow> (case item of PyStr s \<Rightarrow> Inr (str_contains t s) | _ \<Rightarrow> Inl TypeError)
      | PyBytes t \<Rightarrow>
          (case item of
             PyBytes s \<Rightarrow> Inr (str_contains t s)
           | PyInt i \<Rightarrow> byte_in i t
           | PyBool b \<Rightarrow> byte_in (if b then 1 else 0) t
           | _ \<Rightarrow> Inl TypeError)
      | PyList xs \<Rightarrow> Inr (list_ex (\<lambda>x. py_eq x item) xs)
      | PyTuple xs \<Rightarrow> Inr (list_ex (\<lambda>x. py_eq x item) xs)
      | PySet xs \<Rightarrow> if py_hashable item then Inr (list_ex (\<lambda>x. py_eq x item) xs) else Inl TypeError
      | PyDict kvs \<Rightarrow>
          if py_hashable item then Inr (case item of PyStr s \<Rightarrow> KStr s \<in> fst ` set kvs | _ \<Rightarrow> False)
          else Inl TypeError
      | _ \<Rightarrow> Inl TypeError)"

end
