(* ===== verification/AgentKernel.thy ===== *)
theory AgentKernel
  imports Exchange MoneyModel PyEquality
begin

text \<open>
  The contracts between the language models and the program
  (\<^verbatim>\<open>src/python/agents/sira_agents\<close>): the typed turn decisions, context manifests, tool contracts and
  grants of \<^verbatim>\<open>kernel_models.py\<close>, the payload guardrails (\<^verbatim>\<open>guardrails.py\<close>), the assembly of a context
  (\<^verbatim>\<open>context_assembler.py\<close>), the tool policy (\<^verbatim>\<open>tool_broker.py\<close>), the check of protected effects
  (\<^verbatim>\<open>authority.py\<close>) and the composition of responses (\<^verbatim>\<open>response_composer.py\<close>).
  A field of type float holds a finite value. The package \<^verbatim>\<open>jsonschema\<close>, pydantic's JSON mode on free-form
  values and the canonical hash are the fields of \<open>kernel_env\<close>.
\<close>

section \<open>Errors and parameters\<close>

datatype kernel_error =
    InvalidKernelModel string
  | PolicyDenied string
  | AgentBoundaryViolation string
  | ToolDenied string
  | AuthorityDenied string
  | CanonicalHashFailed
  | NaiveComparison
  | NotComposable

type_synonym 'a kn = "kernel_error + 'a"

type_synonym dict = "(string \<times> pyval) list"

record kernel_env =
  ke_hash :: hash_env
  ke_raw :: raw_env
  ke_json :: "dict \<Rightarrow> dict"
  ke_schema_ok :: "dict \<Rightarrow> dict \<Rightarrow> bool"

fun require :: "(bool \<times> string) list \<Rightarrow> unit kn" where
  "require [] = Inr ()"
| "require ((b, m) # cs) = (if b then require cs else Inl (InvalidKernelModel m))"

section \<open>Models\<close>

datatype Principal = SIRA | SEIL

datatype Party = BUYER | SELLER

datatype ToolRisk = READ | MUTATION | PROTECTED_EFFECT

datatype FailureCode =
    INVALID_DECISION | BUDGET_EXHAUSTED | TOOL_DENIED | TOOL_TIMEOUT | CANCELLED | PROVIDER_UNAVAILABLE | STALE_CONTEXT

fun principal_value :: "Principal \<Rightarrow> string" where
  "principal_value SIRA = ''SIRA''"
| "principal_value SEIL = ''SEIL''"

fun kernel_party_value :: "Party \<Rightarrow> string" where
  "kernel_party_value BUYER = ''BUYER''"
| "kernel_party_value SELLER = ''SELLER''"

fun risk_value :: "ToolRisk \<Rightarrow> string" where
  "risk_value READ = ''read''"
| "risk_value MUTATION = ''mutation''"
| "risk_value PROTECTED_EFFECT = ''protected_effect''"

fun failure_value :: "FailureCode \<Rightarrow> string" where
  "failure_value INVALID_DECISION = ''INVALID_DECISION''"
| "failure_value BUDGET_EXHAUSTED = ''BUDGET_EXHAUSTED''"
| "failure_value TOOL_DENIED = ''TOOL_DENIED''"
| "failure_value TOOL_TIMEOUT = ''TOOL_TIMEOUT''"
| "failure_value CANCELLED = ''CANCELLED''"
| "failure_value PROVIDER_UNAVAILABLE = ''PROVIDER_UNAVAILABLE''"
| "failure_value STALE_CONTEXT = ''STALE_CONTEXT''"

definition principal_party :: "Principal \<Rightarrow> Party" where
  "principal_party p = (if p = SIRA then BUYER else SELLER)"

record TurnBudget =
  tb_max_model_calls :: int
  tb_max_parallel_reads :: int
  tb_max_mutations :: int
  tb_max_input_tokens :: int
  tb_max_output_tokens :: int
  tb_timeout_seconds :: "int \<times> int"
  tb_max_cost_usd :: "int \<times> int"

definition mk_TurnBudget :: "TurnBudget \<Rightarrow> TurnBudget kn" where
  "mk_TurnBudget b =
     bindE (require
       [(1 \<le> tb_max_model_calls b \<and> tb_max_model_calls b \<le> 3, ''max_model_calls''),
        (1 \<le> tb_max_parallel_reads b \<and> tb_max_parallel_reads b \<le> 4, ''max_parallel_reads''),
        (0 \<le> tb_max_mutations b \<and> tb_max_mutations b \<le> 1, ''max_mutations''),
        (1 \<le> tb_max_input_tokens b \<and> tb_max_input_tokens b \<le> 100000, ''max_input_tokens''),
        (1 \<le> tb_max_output_tokens b \<and> tb_max_output_tokens b \<le> 8192, ''max_output_tokens''),
        (0 < amount_rat (tb_timeout_seconds b) \<and> amount_rat (tb_timeout_seconds b) \<le> 300, ''timeout_seconds''),
        (0 \<le> amount_rat (tb_max_cost_usd b) \<and> amount_rat (tb_max_cost_usd b) \<le> 10, ''max_cost_usd'')]) (\<lambda>_. Inr b)"

definition default_budget :: TurnBudget where
  "default_budget = \<lparr>tb_max_model_calls = 3, tb_max_parallel_reads = 4, tb_max_mutations = 1, tb_max_input_tokens = 12000,
     tb_max_output_tokens = 2048, tb_timeout_seconds = (90, 0), tb_max_cost_usd = (25, -2)\<rparr>"

definition py_float :: "int \<times> int \<Rightarrow> pyval" where
  "py_float a = PyFloat (DFin (fst a) (snd a))"

definition budget_fields :: "TurnBudget \<Rightarrow> dict" where
  "budget_fields b =
     [(''max_model_calls'', PyInt (tb_max_model_calls b)), (''max_parallel_reads'', PyInt (tb_max_parallel_reads b)),
      (''max_mutations'', PyInt (tb_max_mutations b)), (''max_input_tokens'', PyInt (tb_max_input_tokens b)),
      (''max_output_tokens'', PyInt (tb_max_output_tokens b)), (''timeout_seconds'', py_float (tb_timeout_seconds b)),
      (''max_cost_usd'', py_float (tb_max_cost_usd b))]"

datatype DataClass = BuyerPrivate | SellerPrivate | ExchangeData | PublicData

fun data_class_value :: "DataClass \<Rightarrow> string" where
  "data_class_value BuyerPrivate = ''buyer_private''"
| "data_class_value SellerPrivate = ''seller_private''"
| "data_class_value ExchangeData = ''exchange''"
| "data_class_value PublicData = ''public''"

record ContextReference =
  xf_kind :: string
  xf_data_class :: DataClass
  xf_object_id :: string
  xf_version :: int
  xf_content_hash :: string

definition mk_ContextReference :: "ContextReference \<Rightarrow> ContextReference kn" where
  "mk_ContextReference r =
     bindE (require [(length_between 1 64 (xf_kind r), ''kind''), (length_between 1 128 (xf_object_id r), ''object_id''),
       (1 \<le> xf_version r, ''version''), (valid_hash (xf_content_hash r), ''content_hash'')]) (\<lambda>_. Inr r)"

definition reference_fields :: "ContextReference \<Rightarrow> dict" where
  "reference_fields r = [(''kind'', PyStr (xf_kind r)), (''data_class'', PyStr (data_class_value (xf_data_class r))),
     (''object_id'', PyStr (xf_object_id r)), (''version'', PyInt (xf_version r)), (''content_hash'', PyStr (xf_content_hash r))]"

record ContextManifest =
  cm_principal :: Principal
  cm_party :: Party
  cm_organization_id :: string
  cm_actor_id :: string
  cm_actor_roles :: "string list"
  cm_permissions :: "string list"
  cm_purpose :: string
  cm_conversation_id :: string
  cm_turn_id :: string
  cm_current_message :: string
  cm_recent_messages :: "dict list"
  cm_summary :: "string option"
  cm_unresolved_questions :: "string list"
  cm_references :: "ContextReference list"
  cm_exchange_projection :: dict
  cm_available_tools :: "string list"
  cm_tool_contracts :: "dict list"
  cm_budget :: TurnBudget
  cm_manifest_hash :: "string option"

definition py_list_str :: "string list \<Rightarrow> pyval" where
  "py_list_str xs = PyList (map PyStr xs)"

definition context_payload :: "kernel_env \<Rightarrow> ContextManifest \<Rightarrow> pyval" where
  "context_payload E m = dict_str
     [(''principal'', PyStr (principal_value (cm_principal m))), (''party'', PyStr (kernel_party_value (cm_party m))),
      (''organization_id'', PyStr (cm_organization_id m)), (''actor_id'', PyStr (cm_actor_id m)),
      (''actor_roles'', py_list_str (cm_actor_roles m)), (''permissions'', py_list_str (cm_permissions m)),
      (''purpose'', PyStr (cm_purpose m)), (''conversation_id'', PyStr (cm_conversation_id m)), (''turn_id'', PyStr (cm_turn_id m)),
      (''current_message'', PyStr (cm_current_message m)),
      (''recent_messages'', PyList (map (\<lambda>d. dict_str (ke_json E d)) (cm_recent_messages m))),
      (''summary'', py_opt PyStr (cm_summary m)), (''unresolved_questions'', py_list_str (cm_unresolved_questions m)),
      (''references'', PyList (map (\<lambda>r. dict_str (reference_fields r)) (cm_references m))),
      (''exchange_projection'', dict_str (ke_json E (cm_exchange_projection m))),
      (''available_tools'', py_list_str (cm_available_tools m)),
      (''tool_contracts'', PyList (map (\<lambda>d. dict_str (ke_json E d)) (cm_tool_contracts m))),
      (''budget'', dict_str (budget_fields (cm_budget m)))]"

definition raw_hash :: "kernel_env \<Rightarrow> pyval \<Rightarrow> string kn" where
  "raw_hash E v = (case raw_dumps (ke_raw E) v of None \<Rightarrow> Inl CanonicalHashFailed | Some t \<Rightarrow> Inr (''sha256:'' @ raw_sha256 (ke_raw E) t))"

definition calculate_hash :: "kernel_env \<Rightarrow> ContextManifest \<Rightarrow> string kn" where
  "calculate_hash E m = raw_hash E (context_payload E m)"

definition context_checks :: "ContextManifest \<Rightarrow> (bool \<times> string) list" where
  "context_checks m =
     [(length_between 1 100 (cm_organization_id m), ''organization_id''), (length_between 1 100 (cm_actor_id m), ''actor_id''),
      (length (cm_actor_roles m) \<le> 32, ''actor_roles''), (length (cm_permissions m) \<le> 64, ''permissions''),
      (length_between 1 100 (cm_purpose m), ''purpose''), (length_between 1 128 (cm_conversation_id m), ''conversation_id''),
      (length_between 1 128 (cm_turn_id m), ''turn_id''), (length_between 1 16000 (cm_current_message m), ''current_message''),
      (length (cm_recent_messages m) \<le> 20, ''recent_messages''),
      ((case cm_summary m of None \<Rightarrow> True | Some s \<Rightarrow> length s \<le> 8000), ''summary''),
      (length (cm_unresolved_questions m) \<le> 8, ''unresolved_questions''), (length (cm_references m) \<le> 40, ''references''),
      (length (cm_available_tools m) \<le> 32, ''available_tools''), (length (cm_tool_contracts m) \<le> 32, ''tool_contracts''),
      ((case cm_manifest_hash m of None \<Rightarrow> True | Some h \<Rightarrow> valid_hash h), ''manifest_hash''),
      (cm_party m = principal_party (cm_principal m), ''context principal and party do not match''),
      (list_all (\<lambda>r. xf_data_class r \<noteq> (if cm_principal m = SIRA then SellerPrivate else BuyerPrivate)) (cm_references m),
       ''context contains a reference from the opposing private plane'')]"

definition mk_ContextManifest :: "kernel_env \<Rightarrow> ContextManifest \<Rightarrow> ContextManifest kn" where
  "mk_ContextManifest E m =
     bindE (require (context_checks m)) (\<lambda>_.
     bindE (calculate_hash E m) (\<lambda>h.
       if cm_manifest_hash m \<notin> {None, Some h}
       then Inl (InvalidKernelModel ''context manifest hash does not match its contents'') else Inr m))"

definition sealed :: "kernel_env \<Rightarrow> ContextManifest \<Rightarrow> ContextManifest kn" where
  "sealed E m = bindE (calculate_hash E m) (\<lambda>h. Inr (m\<lparr>cm_manifest_hash := Some h\<rparr>))"

section \<open>Decisions\<close>

record ProposedToolCall =
  tc_call_id :: string
  tc_tool_name :: string
  tc_contract_version :: string
  tc_arguments :: dict

datatype TurnDecision =
    Respond string
  | Clarify string string
  | ProposeTools "ProposedToolCall list"
  | RequestApproval string string string
  | WaitForExternal string
  | Complete string
  | FailSafely FailureCode string bool

definition tool_name_ok :: "string \<Rightarrow> bool" where
  "tool_name_ok s = (case s of [] \<Rightarrow> False
     | c # cs \<Rightarrow> is_lower c \<and> length cs \<le> 63 \<and> list_all (\<lambda>c. is_lower c \<or> is_digit c \<or> c = CHR ''_'') cs)"

definition contract_version_ok :: "string \<Rightarrow> bool" where
  "contract_version_ok s = (case s of (a # d # ds) \<Rightarrow> a = CHR ''v'' \<and> is_digit d \<and> d \<noteq> CHR ''0'' \<and> list_all is_digit ds | _ \<Rightarrow> False)"

definition question_marks :: "string \<Rightarrow> nat" where
  "question_marks s = count_list s (CHR ''?'')"

definition ends_with_question :: "string \<Rightarrow> bool" where
  "ends_with_question s = (case dropWhile is_space (rev s) of [] \<Rightarrow> False | c # _ \<Rightarrow> c = CHR ''?'')"

definition call_checks :: "ProposedToolCall \<Rightarrow> (bool \<times> string) list" where
  "call_checks c = [(length_between 1 100 (tc_call_id c), ''call_id''), (tool_name_ok (tc_tool_name c), ''tool_name''),
     (contract_version_ok (tc_contract_version c), ''contract_version'')]"

fun decision_checks :: "TurnDecision \<Rightarrow> (bool \<times> string) list" where
  "decision_checks (Respond m) = [(length_between 1 8000 m, ''message''),
     (question_marks m \<le> 1, ''a user-facing response may ask at most one question'')]"
| "decision_checks (Clarify q r) = [(length_between 1 800 q, ''question''), (length_between 1 500 r, ''reason''),
     (ends_with_question q \<and> question_marks q = 1, ''a clarification must contain exactly one focused question'')]"
| "decision_checks (ProposeTools cs) = (1 \<le> length cs \<and> length cs \<le> 4, ''calls'') # concat (map call_checks cs)"
| "decision_checks (RequestApproval a s h) = [(length_between 1 100 a, ''action''), (length_between 1 800 s, ''summary''),
     (valid_hash h, ''payload_hash'')]"
| "decision_checks (WaitForExternal r) = [(length_between 1 500 r, ''reason'')]"
| "decision_checks (Complete m) = [(length_between 1 8000 m, ''message''),
     (question_marks m \<le> 1, ''a completed response may ask at most one question'')]"
| "decision_checks (FailSafely c m r) = [(length_between 1 800 m, ''message'')]"

definition mk_TurnDecision :: "TurnDecision \<Rightarrow> TurnDecision kn" where
  "mk_TurnDecision d = bindE (require (decision_checks d)) (\<lambda>_. Inr d)"

definition call_fields :: "kernel_env \<Rightarrow> ProposedToolCall \<Rightarrow> dict" where
  "call_fields E c = [(''call_id'', PyStr (tc_call_id c)), (''tool_name'', PyStr (tc_tool_name c)),
     (''contract_version'', PyStr (tc_contract_version c)), (''arguments'', dict_str (ke_json E (tc_arguments c)))]"

fun decision_fields :: "kernel_env \<Rightarrow> TurnDecision \<Rightarrow> dict" where
  "decision_fields E (Respond m) = [(''kind'', PyStr ''respond''), (''message'', PyStr m)]"
| "decision_fields E (Clarify q r) = [(''kind'', PyStr ''clarify''), (''question'', PyStr q), (''reason'', PyStr r)]"
| "decision_fields E (ProposeTools cs) =
     [(''kind'', PyStr ''propose_tools''), (''calls'', PyList (map (\<lambda>c. dict_str (call_fields E c)) cs))]"
| "decision_fields E (RequestApproval a s h) =
     [(''kind'', PyStr ''request_approval''), (''action'', PyStr a), (''summary'', PyStr s), (''payload_hash'', PyStr h)]"
| "decision_fields E (WaitForExternal r) = [(''kind'', PyStr ''wait_for_external''), (''reason'', PyStr r)]"
| "decision_fields E (Complete m) = [(''kind'', PyStr ''complete''), (''message'', PyStr m)]"
| "decision_fields E (FailSafely c m r) =
     [(''kind'', PyStr ''fail_safely''), (''code'', PyStr (failure_value c)), (''message'', PyStr m), (''retryable'', PyBool r)]"

section \<open>Tools and grants\<close>

record ToolManifest =
  tl_name :: string
  tl_contract_version :: string
  tl_description :: string
  tl_allowed_principals :: "Principal list"
  tl_allowed_parties :: "Party list"
  tl_purposes :: "string list"
  tl_allowed_stages :: "string list"
  tl_risk :: ToolRisk
  tl_input_schema :: dict
  tl_output_schema :: dict
  tl_timeout_seconds :: "int \<times> int"

definition mk_ToolManifest :: "ToolManifest \<Rightarrow> ToolManifest kn" where
  "mk_ToolManifest t =
     bindE (require
       [(tool_name_ok (tl_name t), ''name''), (contract_version_ok (tl_contract_version t), ''contract_version''),
        (length_between 1 500 (tl_description t), ''description''),
        (0 < amount_rat (tl_timeout_seconds t) \<and> amount_rat (tl_timeout_seconds t) \<le> 120, ''timeout_seconds''),
        (map_of (tl_input_schema t) ''type'' = Some (PyStr ''object''), ''tool input schema must describe an object''),
        (map_of (tl_input_schema t) ''additionalProperties'' = Some (PyBool False),
         ''tool input schema must reject additional properties''),
        (map_of (tl_output_schema t) ''type'' = Some (PyStr ''object''), ''tool output schema must describe an object'')]) (\<lambda>_. Inr t)"

datatype GrantStatus = ACTIVE | REVOKED | EXPIRED | CONSUMED

record CapabilityGrant =
  cg_id :: string
  cg_capability :: string
  cg_principal :: Principal
  cg_party :: Party
  cg_actor_id :: string
  cg_purpose :: string
  cg_tool_name :: string
  cg_contract_version :: string
  cg_scope :: dict
  cg_payload_hash :: string
  cg_object_versions :: "(string \<times> int) list"
  cg_status :: GrantStatus
  cg_expires_at :: datetime
  cg_max_uses :: int
  cg_uses :: int

definition mk_CapabilityGrant :: "CapabilityGrant \<Rightarrow> CapabilityGrant kn" where
  "mk_CapabilityGrant g =
     bindE (require
       [(length_between 1 64 (cg_id g), ''id''), (length_between 1 100 (cg_capability g), ''capability''),
        (length_between 1 100 (cg_actor_id g), ''actor_id''), (length_between 1 100 (cg_purpose g), ''purpose''),
        (tool_name_ok (cg_tool_name g), ''tool_name''), (contract_version_ok (cg_contract_version g), ''contract_version''),
        (valid_hash (cg_payload_hash g), ''payload_hash''), (1 \<le> cg_max_uses g \<and> cg_max_uses g \<le> 10, ''max_uses''),
        (0 \<le> cg_uses g, ''uses''), (cg_uses g \<le> cg_max_uses g, ''capability uses exceed its maximum''),
        (cg_party g = principal_party (cg_principal g), ''capability principal and party do not match''),
        (tz_aware (cg_expires_at g), ''capability expiry must be timezone-aware'')]) (\<lambda>_. Inr g)"

definition grant_active :: "CapabilityGrant \<Rightarrow> datetime \<Rightarrow> bool" where
  "grant_active g now \<longleftrightarrow> cg_status g = GrantStatus.ACTIVE \<and> cg_uses g < cg_max_uses g \<and> micros now < micros (cg_expires_at g)"

end
