(* ===== verification/AgentPolicy.thy ===== *)
theory AgentPolicy
  imports AgentKernel
begin

text \<open>
  The policies around a model call (\<^verbatim>\<open>src/python/agents/sira_agents\<close>): guardrails on every payload that
  reaches a model, the assembly of a context for a principal, the tool broker, the check of protected effects, the
  user-safe response and the catalog of read tools. A regular expression search is the existence of a match.
\<close>

section \<open>Guardrails\<close>

definition secret_key_parts :: "string list" where
  "secret_key_parts = [''api_key'', ''authorization'', ''card_number'', ''client_secret'', ''credential'', ''cvv'', ''cvc'',
     ''one_time_password'', ''pan'', ''password'', ''private_key'', ''secret'', ''security_code'', ''token'']"

definition seller_denied_key_parts :: "string list" where
  "seller_denied_key_parts = [''buyer_passport'', ''buyer_private'', ''company_private'', ''hidden_budget'', ''identity_graph'',
     ''internal_budget'', ''private_context'', ''private_notes'']"

definition buyer_denied_key_parts :: "string list" where
  "buyer_denied_key_parts = [''seller_private'', ''seller_floor'', ''seller_capacity'', ''private_claims'', ''private_sources'',
     ''disclosure_policy'']"

text \<open>\<^verbatim>\<open>re.sub(r"[^a-z0-9]+", "_", s)\<close>; the flag tells that the last character was replaced.\<close>

primrec squeeze :: "bool \<Rightarrow> string \<Rightarrow> string" where
  "squeeze b [] = []"
| "squeeze b (c # cs) =
     (if is_lower c \<or> is_digit c then c # squeeze False cs else (if b then [] else ''_'') @ squeeze True cs)"

definition normalized_key :: "string \<Rightarrow> string" where
  "normalized_key s = rstrip_char (CHR ''_'') (dropWhile (\<lambda>c. c = CHR ''_'') (squeeze False (str_lower s)))"

definition ends_with :: "string \<Rightarrow> string \<Rightarrow> bool" where
  "ends_with s p = starts_with (rev s) (rev p)"

definition key_is_denied :: "string \<Rightarrow> string list \<Rightarrow> bool" where
  "key_is_denied key parts =
     (let n = normalized_key key in
      list_ex (\<lambda>part. if part = ''token''
         then n = ''token'' \<or> starts_with n ''token_'' \<or> ends_with n ''_token'' \<or> str_contains n ''_token_''
         else str_contains n part) parts)"

text \<open>All nodes of a payload in pre-order, each with its path.\<close>

fun walk :: "string list \<Rightarrow> pyval \<Rightarrow> (string list \<times> pyval) list"
  and walk_items :: "string list \<Rightarrow> (pykey \<times> pyval) list \<Rightarrow> (string list \<times> pyval) list"
  and walk_seq :: "string list \<Rightarrow> nat \<Rightarrow> pyval list \<Rightarrow> (string list \<times> pyval) list"
where
  "walk path (PyDict kvs) = (path, PyDict kvs) # walk_items path kvs"
| "walk path (PyList xs) = (path, PyList xs) # walk_seq path 0 xs"
| "walk path (PyTuple xs) = (path, PyTuple xs) # walk_seq path 0 xs"
| "walk path v = [(path, v)]"
| "walk_items path [] = []"
| "walk_items path ((k, v) # r) = walk (path @ [key_text k]) v @ walk_items path r"
| "walk_seq path i [] = []"
| "walk_seq path i (x # xs) = walk (path @ [show_nat i]) x @ walk_seq path (Suc i) xs"

definition word_char :: "char \<Rightarrow> bool" where
  "word_char c \<longleftrightarrow> id_start c \<or> c = CHR ''_''"

definition boundary :: "string \<Rightarrow> nat \<Rightarrow> bool" where
  "boundary s i \<longleftrightarrow> (0 < i \<and> word_char (s ! (i - 1))) \<noteq> (i < length s \<and> word_char (s ! i))"

definition secret_key_text :: "string \<Rightarrow> bool" where
  "secret_key_text m \<longleftrightarrow> starts_with m ''sk-'' \<and> 15 \<le> length m \<and>
     list_all (\<lambda>c. id_start c \<or> c \<in> {CHR ''_'', CHR ''-''}) (drop 3 m)"

definition card_text :: "string \<Rightarrow> bool" where
  "card_text m \<longleftrightarrow> m \<noteq> [] \<and> is_digit (hd m) \<and> list_all (\<lambda>c. is_digit c \<or> c \<in> {CHR '' '', CHR ''-''}) m \<and>
     13 \<le> length (filter is_digit m) \<and> length (filter is_digit m) \<le> 19"

definition secret_value :: "string \<Rightarrow> bool" where
  "secret_value s = list_ex (\<lambda>i. boundary s i \<and> list_ex (\<lambda>j. boundary s j \<and>
     (let m = drop i (take j s) in secret_key_text m \<or> card_text m)) [i..<Suc (length s)]) [0..<Suc (length s)]"

definition node_violation :: "bool \<Rightarrow> string list \<times> pyval \<Rightarrow> string option" where
  "node_violation seller_visible node =
     (case node of (path, v) \<Rightarrow>
        if path \<noteq> [] \<and> key_is_denied (last path) secret_key_parts
        then Some (''model payload contains forbidden secret field at '' @ str_join ''.'' path)
        else if path \<noteq> [] \<and> seller_visible \<and> key_is_denied (last path) seller_denied_key_parts
        then Some (''seller-visible payload contains buyer-private field at '' @ str_join ''.'' path)
        else if path \<noteq> [] \<and> \<not> seller_visible \<and> key_is_denied (last path) buyer_denied_key_parts
        then Some (''buyer-visible payload contains seller-private field at '' @ str_join ''.'' path)
        else case v of
          PyStr s \<Rightarrow>
            if secret_value s
            then Some (''model payload contains a credential or payment-card-like value at '' @
              (if path = [] then ''<root>'' else str_join ''.'' path))
            else None
        | _ \<Rightarrow> None)"

definition validate_agent_payload :: "dict \<Rightarrow> bool \<Rightarrow> unit kn" where
  "validate_agent_payload payload seller_visible =
     (case List.map_filter (node_violation seller_visible) (walk [] (dict_str payload)) of
        [] \<Rightarrow> Inr () | m # _ \<Rightarrow> Inl (AgentBoundaryViolation m))"

definition validate_principal_payload :: "dict \<Rightarrow> string \<Rightarrow> unit kn" where
  "validate_principal_payload payload agent =
     (if agent \<notin> {''SIRA'', ''SEIL''} then Inl (AgentBoundaryViolation ''unknown agent principal'')
      else validate_agent_payload payload (agent = ''SEIL''))"

section \<open>Contexts\<close>

record PrincipalPolicy =
  po_principal :: Principal
  po_party :: Party
  po_purpose :: string
  po_allowed_tools :: "string list"
  po_budget :: TurnBudget

definition resolve :: "PrincipalPolicy list \<Rightarrow> Principal \<Rightarrow> Party \<Rightarrow> string \<Rightarrow> PrincipalPolicy kn" where
  "resolve policies agent party purpose =
     (case filter (\<lambda>p. po_principal p = agent \<and> po_party p = party \<and> po_purpose p = purpose) policies of
        [p] \<Rightarrow> Inr p | _ \<Rightarrow> Inl (PolicyDenied ''PRINCIPAL_POLICY_NOT_FOUND''))"

record ContextRequest =
  cq_principal :: Principal
  cq_party :: Party
  cq_organization_id :: string
  cq_actor_id :: string
  cq_actor_roles :: "string list"
  cq_permissions :: "string list"
  cq_purpose :: string
  cq_conversation_id :: string
  cq_turn_id :: string
  cq_current_message :: string
  cq_recent_messages :: "dict list"
  cq_summary :: "string option"
  cq_unresolved_questions :: "string list"
  cq_references :: "ContextReference list"
  cq_private_context :: dict
  cq_exchange_projection :: dict
  cq_requested_tools :: "string list"

definition guarded_payload :: "ContextRequest \<Rightarrow> dict" where
  "guarded_payload q =
     [(''current_message'', PyStr (cq_current_message q)),
      (''recent_messages'', PyTuple (map dict_str (cq_recent_messages q))), (''summary'', py_opt PyStr (cq_summary q)),
      (''principal_context'', dict_str (cq_private_context q)), (''exchange_projection'', dict_str (cq_exchange_projection q))]"

definition assemble :: "kernel_env \<Rightarrow> PrincipalPolicy list \<Rightarrow> ContextRequest \<Rightarrow> ContextManifest kn" where
  "assemble E policies q =
     bindE (resolve policies (cq_principal q) (cq_party q) (cq_purpose q)) (\<lambda>policy.
     bindE (validate_principal_payload (guarded_payload q) (principal_value (cq_principal q))) (\<lambda>_.
     bindE (mk_ContextManifest E
       \<lparr>cm_principal = cq_principal q, cm_party = cq_party q, cm_organization_id = cq_organization_id q, cm_actor_id = cq_actor_id q,
        cm_actor_roles = sorted_set (cq_actor_roles q), cm_permissions = sorted_set (cq_permissions q), cm_purpose = cq_purpose q,
        cm_conversation_id = cq_conversation_id q, cm_turn_id = cq_turn_id q, cm_current_message = cq_current_message q,
        cm_recent_messages = cq_recent_messages q, cm_summary = cq_summary q,
        cm_unresolved_questions = cq_unresolved_questions q, cm_references = cq_references q,
        cm_exchange_projection = [(''private'', dict_str (cq_private_context q)), (''released'', dict_str (cq_exchange_projection q))],
        cm_available_tools = sorted_set (filter (\<lambda>t. t \<in> set (po_allowed_tools policy)) (cq_requested_tools q)),
        cm_tool_contracts = [], cm_budget = po_budget policy, cm_manifest_hash = None\<rparr>) (sealed E)))"

definition context_cache_key :: "kernel_env \<Rightarrow> ContextManifest \<Rightarrow> string kn" where
  "context_cache_key E m =
     (case raw_dumps (ke_raw E) (dict_str
        [(''organization_id'', PyStr (cm_organization_id m)), (''principal'', PyStr (principal_value (cm_principal m))),
         (''party'', PyStr (kernel_party_value (cm_party m))), (''purpose'', PyStr (cm_purpose m)),
         (''conversation_id'', PyStr (cm_conversation_id m)), (''manifest_hash'', py_opt PyStr (cm_manifest_hash m))]) of
        None \<Rightarrow> Inl CanonicalHashFailed | Some t \<Rightarrow> Inr (''ctx:'' @ raw_sha256 (ke_raw E) t))"

definition default_policies :: "string list \<Rightarrow> string list \<Rightarrow> PrincipalPolicy list" where
  "default_policies sira_tools seil_tools =
     [\<lparr>po_principal = SIRA, po_party = BUYER, po_purpose = ''software_selection'', po_allowed_tools = sira_tools,
       po_budget = default_budget\<lparr>tb_max_cost_usd := (25, -2)\<rparr>\<rparr>,
      \<lparr>po_principal = SEIL, po_party = SELLER, po_purpose = ''seller_evidence'', po_allowed_tools = seil_tools,
       po_budget = default_budget\<lparr>tb_max_cost_usd := (20, -2)\<rparr>\<rparr>]"

section \<open>The tool broker\<close>

type_synonym catalog = "(string \<times> ToolManifest) list"

definition visible_tools :: "catalog \<Rightarrow> ContextManifest \<Rightarrow> string \<Rightarrow> ToolManifest list" where
  "visible_tools catalog m stage =
     map snd (filter (\<lambda>(name, t). name \<in> set (cm_available_tools m) \<and> cm_principal m \<in> set (tl_allowed_principals t) \<and>
       cm_party m \<in> set (tl_allowed_parties t) \<and> cm_purpose m \<in> set (tl_purposes t) \<and> stage \<in> set (tl_allowed_stages t))
       (sort_key fst catalog))"

definition authorize_capability ::
  "kernel_env \<Rightarrow> ProposedToolCall \<Rightarrow> ContextManifest \<Rightarrow> CapabilityGrant option \<Rightarrow> datetime \<Rightarrow> unit kn" where
  "authorize_capability E call m grant now =
     (case grant of
        None \<Rightarrow> Inl (ToolDenied ''PROTECTED_EFFECT_REQUIRES_CAPABILITY'')
      | Some g \<Rightarrow>
          bindE (raw_hash E (dict_str (tc_arguments call))) (\<lambda>payload_hash.
          if \<not> grant_active g now then Inl (ToolDenied ''CAPABILITY_INACTIVE'')
          else if cg_principal g \<noteq> cm_principal m \<or> cg_party g \<noteq> cm_party m \<or> cg_actor_id g \<noteq> cm_actor_id m \<or>
            cg_purpose g \<noteq> cm_purpose m \<or> cg_tool_name g \<noteq> tc_tool_name call \<or>
            cg_contract_version g \<noteq> tc_contract_version call \<or> cg_payload_hash g \<noteq> payload_hash \<or>
            \<not> py_eq (dict_str (cg_scope g)) (dict_str (tc_arguments call))
          then Inl (ToolDenied ''CAPABILITY_SCOPE_MISMATCH'') else Inr ()))"

definition authorize_call ::
  "kernel_env \<Rightarrow> catalog \<Rightarrow> ProposedToolCall \<Rightarrow> ContextManifest \<Rightarrow> string \<Rightarrow> int \<Rightarrow> CapabilityGrant option \<Rightarrow> datetime \<Rightarrow>
     ToolManifest kn" where
  "authorize_call E catalog call m stage mutations_used grant now =
     (case map_of catalog (tc_tool_name call) of
        None \<Rightarrow> Inl (ToolDenied ''TOOL_NOT_VISIBLE'')
      | Some t \<Rightarrow>
          if t \<notin> set (visible_tools catalog m stage) then Inl (ToolDenied ''TOOL_NOT_VISIBLE'')
          else if tc_contract_version call \<noteq> tl_contract_version t then Inl (ToolDenied ''TOOL_VERSION_MISMATCH'')
          else
            bindE (if tl_risk t = PROTECTED_EFFECT then authorize_capability E call m grant now else Inr ()) (\<lambda>_.
            if tl_risk t = MUTATION \<and> tb_max_mutations (cm_budget m) \<le> mutations_used
            then Inl (ToolDenied ''MUTATION_BUDGET_EXHAUSTED'')
            else if \<not> ke_schema_ok E (tl_input_schema t) (tc_arguments call) then Inl (ToolDenied ''TOOL_INPUT_INVALID'')
            else Inr t))"

definition validate_output :: "kernel_env \<Rightarrow> ToolManifest \<Rightarrow> dict \<Rightarrow> unit kn" where
  "validate_output E t output =
     (if \<not> ke_schema_ok E (tl_output_schema t) output then Inl (ToolDenied ''TOOL_OUTPUT_INVALID'') else Inr ())"

section \<open>Protected effects\<close>

record Capability =
  ca_id :: string
  ca_capability :: string
  ca_scope :: dict
  ca_status :: string
  ca_expires_at :: datetime
  ca_max_uses :: int
  ca_uses :: int

fun scope_mismatch :: "dict \<Rightarrow> dict \<Rightarrow> string option" where
  "scope_mismatch [] payload = None"
| "scope_mismatch ((k, expected) # r) payload =
     (if \<not> py_eq (case map_of payload k of None \<Rightarrow> PyNone | Some v \<Rightarrow> v) expected then Some k else scope_mismatch r payload)"

definition authorize_effect :: "string \<Rightarrow> dict \<Rightarrow> Capability option \<Rightarrow> datetime \<Rightarrow> unit kn" where
  "authorize_effect effect_type payload grant now =
     (case grant of
        None \<Rightarrow> Inl (AuthorityDenied ''CAPABILITY_GRANT_REQUIRED'')
      | Some g \<Rightarrow>
          if ca_status g \<noteq> ''ACTIVE'' then Inl (AuthorityDenied ''CAPABILITY_GRANT_INACTIVE'')
          else if tz_aware (ca_expires_at g) \<noteq> tz_aware now then Inl NaiveComparison
          else if micros (ca_expires_at g) \<le> micros now then Inl (AuthorityDenied ''CAPABILITY_GRANT_INACTIVE'')
          else if ca_max_uses g \<le> ca_uses g then Inl (AuthorityDenied ''CAPABILITY_GRANT_CONSUMED'')
          else if ca_capability g \<noteq> effect_type then Inl (AuthorityDenied ''CAPABILITY_TYPE_MISMATCH'')
          else case scope_mismatch (ca_scope g) payload of
            None \<Rightarrow> Inr () | Some k \<Rightarrow> Inl (AuthorityDenied (''CAPABILITY_SCOPE_MISMATCH:'' @ k)))"

section \<open>Responses\<close>

datatype EventKind =
    message_received | work_started | clarification_needed | approval_needed | work_completed | waiting | could_not_complete

record UserEvent =
  ue_kind :: EventKind
  ue_message :: string
  ue_retryable :: bool

definition mk_UserEvent :: "EventKind \<Rightarrow> string \<Rightarrow> bool \<Rightarrow> UserEvent kn" where
  "mk_UserEvent k m r = bindE (require [(length_between 1 800 m, ''message'')]) (\<lambda>_. Inr \<lparr>ue_kind = k, ue_message = m, ue_retryable = r\<rparr>)"

datatype RunStatus = CAPTURED | DECIDING | EXECUTING | WAITING | COMPLETED | FAILED | CANCELLED

record ComposedResponse =
  co_message :: string
  co_event :: UserEvent
  co_terminal_status :: RunStatus

definition composed :: "string \<Rightarrow> RunStatus \<Rightarrow> UserEvent kn \<Rightarrow> ComposedResponse kn" where
  "composed m s e = bindE e (\<lambda>ev. Inr \<lparr>co_message = m, co_event = ev, co_terminal_status = s\<rparr>)"

fun compose :: "TurnDecision \<Rightarrow> ComposedResponse kn" where
  "compose (Respond m) = composed m RunStatus.COMPLETED (mk_UserEvent work_completed ''A response is ready.'' False)"
| "compose (Clarify q r) = composed q WAITING (mk_UserEvent clarification_needed r False)"
| "compose (RequestApproval a s h) = composed s WAITING (mk_UserEvent approval_needed s False)"
| "compose (WaitForExternal r) =
     composed (''I'' @ [CHR 39] @ ''m waiting for the requested information. Your confirmed work is saved.'') WAITING
       (mk_UserEvent waiting r False)"
| "compose (Complete m) = composed m RunStatus.COMPLETED (mk_UserEvent work_completed ''The requested work is complete.'' False)"
| "compose (FailSafely c m r) = composed m RunStatus.FAILED (mk_UserEvent could_not_complete m r)"
| "compose (ProposeTools cs) = Inl NotComposable"

section \<open>The catalog of read tools\<close>

definition object_schema :: "dict \<Rightarrow> string list \<Rightarrow> dict" where
  "object_schema properties required =
     [(''type'', PyStr ''object''), (''properties'', dict_str properties), (''required'', PyList (map PyStr required)),
      (''additionalProperties'', PyBool False)]"

definition output_schema :: dict where
  "output_schema = [(''type'', PyStr ''object''), (''additionalProperties'', PyBool True)]"

definition string_id :: pyval where
  "string_id = dict_str [(''type'', PyStr ''string''), (''minLength'', PyInt 1), (''maxLength'', PyInt 128)]"

definition query_schema :: pyval where
  "query_schema = dict_str [(''type'', PyStr ''string''), (''maxLength'', PyInt 1000)]"

definition id_schema :: "string \<Rightarrow> dict" where
  "id_schema k = object_schema [(k, string_id)] [k]"

definition tool_definitions :: "(string \<times> string \<times> Principal \<times> dict) list" where
  "tool_definitions =
     [(''search_published_products'', ''Search current buyer-visible published products using bounded semantic retrieval.'', SIRA,
       object_schema [(''query'', query_schema),
         (''limit'', dict_str [(''type'', PyStr ''integer''), (''minimum'', PyInt 1), (''maximum'', PyInt 20)])] [''query'']),
      (''get_published_product'', ''Read one published product projection.'', SIRA, id_schema ''product_id''),
      (''get_purchase_request'', ''Read one buyer purchase request.'', SIRA, id_schema ''request_id''),
      (''get_purchase_brief'', ''Read one private buyer purchase brief.'', SIRA, id_schema ''request_id''),
      (''get_stack_snapshot'', ''Read the buyer organization'' @ [CHR 39] @ ''s current stack.'', SIRA, object_schema [] []),
      (''get_decision_view'', ''Read one current action-neutral decision view.'', SIRA, id_schema ''request_id''),
      (''get_decision_ledger'', ''Read one immutable decision ledger.'', SIRA, id_schema ''decision_id''),
      (''get_decision_counterfactuals'', ''Read deterministic counterfactuals for one decision.'', SIRA, id_schema ''decision_id''),
      (''get_purchase_status'', ''Read approval and external handoff status without acting.'', SIRA, id_schema ''purchase_intent_id''),
      (''search_seller_products'', ''Search products visible to the authenticated seller.'', SEIL,
       object_schema [(''query'', query_schema)] []),
      (''get_seller_product_view'', ''Read one seller-owned product view.'', SEIL, id_schema ''product_id''),
      (''get_seller_pack_draft'', ''Read one seller-owned evidence pack draft.'', SEIL, id_schema ''draft_id''),
      (''get_seller_pack_exports'', ''Read exports for one published seller pack.'', SEIL, id_schema ''version_id''),
      (''get_engagement_requirement_brief'', ''Read the released requirement brief for one seller engagement.'', SEIL,
       id_schema ''brief_id'')]"

definition kernel_catalog :: catalog where
  "kernel_catalog = map (\<lambda>(name, description, agent, schema). (name,
     \<lparr>tl_name = name, tl_contract_version = ''v1'', tl_description = description, tl_allowed_principals = [agent],
      tl_allowed_parties = [if agent = SIRA then BUYER else SELLER],
      tl_purposes = [if agent = SIRA then ''software_selection'' else ''seller_evidence''], tl_allowed_stages = [''evaluating''],
      tl_risk = READ, tl_input_schema = schema, tl_output_schema = output_schema, tl_timeout_seconds = (20, 0)\<rparr>)) tool_definitions"

definition tool_names :: "catalog \<Rightarrow> Principal \<Rightarrow> string list" where
  "tool_names catalog agent = map fst (filter (\<lambda>(name, t). agent \<in> set (tl_allowed_principals t)) catalog)"

end
