(* ===== verification/CognitiveJournal.thy ===== *)
theory CognitiveJournal
  imports AgentPolicy Qualification
begin

text \<open>
  The journal of agent turns (\<^verbatim>\<open>src/python/persistence/cognitive_repository.py\<close>) over its five tables
  (\<^verbatim>\<open>src/python/persistence/models.py\<close>, the classes \<^verbatim>\<open>Cognitive*\<close>). A method of the repository runs inside a
  transaction: it maps the tables to a result and the new tables, or to an error, which discards the changes of the whole
  transaction. Rows stand in the order of their insertion, which is the order of \<^verbatim>\<open>created_at\<close>. A document column holds the
  value that was dumped into it. \<open>uuid\<close> is the supply of the texts of \<^verbatim>\<open>uuid4().hex\<close>, and \<open>cb_drawn\<close> counts those the
  committed transactions have used.
\<close>

section \<open>Transactions\<close>

datatype turn_error =
    Stored persistence_error
  | Kernel kernel_error
  | BoundToAnotherManifest
  | NoSuchInvocation
  | DatabaseUnavailable

section \<open>Rows\<close>

datatype StepKind = INPUT | DECISION | TOOL_REQUEST | TOOL_RESULT | CHECKPOINT | OUTPUT | FAILURE

datatype StepStatus = RECORDED | STEP_AUTHORIZED | STEP_DENIED | STEP_COMPLETED | STEP_FAILED

datatype InvocationStatus =
    REQUESTED | AUTHORIZED | INVOCATION_RUNNING | INVOCATION_COMPLETED | DENIED | INVOCATION_FAILED | INVOCATION_CANCELLED

datatype step_payload =
    InputTaken string
  | DecisionTaken TurnDecision
  | ResultTaken string "string option"
  | MessageGiven string "FailureCode option"

datatype checkpoint_view =
    LastDecision TurnDecision
  | CompletedTool string
  | StatusReached RunStatus

record CognitiveRun =
  ru_id :: string
  ru_org :: string
  ru_principal :: string
  ru_actor_id :: string
  ru_conversation_id :: string
  ru_turn_id :: string
  ru_idempotency_key :: string
  ru_purpose :: string
  ru_input_text :: string
  ru_input_hash :: string
  ru_manifest_hash :: "string option"
  ru_status :: RunStatus
  ru_version :: int
  ru_budget :: TurnBudget
  ru_failure_code :: "FailureCode option"
  ru_cancelled_at :: "int option"

record CognitiveStep =
  st_id :: string
  st_org :: string
  st_run_id :: string
  st_sequence :: int
  st_kind :: StepKind
  st_status :: StepStatus
  st_payload :: step_payload
  st_payload_hash :: string

record CognitiveCheckpoint =
  cc_id :: string
  cc_org :: string
  cc_run_id :: string
  cc_sequence :: int
  cc_run_version :: int
  cc_projection :: checkpoint_view
  cc_content_hash :: string

record CognitiveToolInvocation =
  iv_id :: string
  iv_org :: string
  iv_run_id :: string
  iv_call_id :: string
  iv_tool_name :: string
  iv_contract_version :: string
  iv_risk :: ToolRisk
  iv_arguments :: dict
  iv_arguments_hash :: string
  iv_status :: InvocationStatus
  iv_output :: "dict option"
  iv_output_hash :: "string option"
  iv_safe_error_code :: "string option"

record CognitiveUserEvent =
  ev_id :: string
  ev_org :: string
  ev_run_id :: string
  ev_sequence :: int
  ev_event :: UserEvent

record cdb =
  cb_runs :: "CognitiveRun list"
  cb_steps :: "CognitiveStep list"
  cb_checkpoints :: "CognitiveCheckpoint list"
  cb_invocations :: "CognitiveToolInvocation list"
  cb_events :: "CognitiveUserEvent list"
  cb_drawn :: nat

type_synonym 'a tj = "cdb \<Rightarrow> turn_error + 'a \<times> cdb"

definition ret :: "'a \<Rightarrow> 'a tj" where
  "ret x = (\<lambda>db. Inr (x, db))"

definition raises :: "turn_error \<Rightarrow> 'a tj" where
  "raises e = (\<lambda>db. Inl e)"

definition seq :: "'a tj \<Rightarrow> ('a \<Rightarrow> 'b tj) \<Rightarrow> 'b tj" where
  "seq f g = (\<lambda>db. case f db of Inl e \<Rightarrow> Inl e | Inr (x, db') \<Rightarrow> g x db')"

definition reads :: "(cdb \<Rightarrow> 'a) \<Rightarrow> 'a tj" where
  "reads f = (\<lambda>db. Inr (f db, db))"

definition writes :: "(cdb \<Rightarrow> cdb) \<Rightarrow> unit tj" where
  "writes f = (\<lambda>db. Inr ((), f db))"

definition hashes :: "kernel_env \<Rightarrow> pyval \<Rightarrow> string tj" where
  "hashes E v = (case hashing (content_hash (ke_hash E) v) of Inl e \<Rightarrow> raises (Stored e) | Inr h \<Rightarrow> ret h)"

definition new_id :: "(nat \<Rightarrow> string) \<Rightarrow> string \<Rightarrow> string tj" where
  "new_id uuid prefix = (\<lambda>db. Inr (prefix @ ''_'' @ uuid (cb_drawn db), db\<lparr>cb_drawn := Suc (cb_drawn db)\<rparr>))"

text \<open>Inserting a row whose keys occur already is an integrity error.\<close>

definition inserts :: "(cdb \<Rightarrow> bool) \<Rightarrow> (cdb \<Rightarrow> cdb) \<Rightarrow> unit tj" where
  "inserts clash f = (\<lambda>db. if clash db then Inl (Stored (IntegrityError ''duplicate key'')) else Inr ((), f db))"

section \<open>Payloads\<close>

fun payload_fields :: "kernel_env \<Rightarrow> step_payload \<Rightarrow> dict" where
  "payload_fields E (InputTaken h) = [(''input_hash'', PyStr h)]"
| "payload_fields E (DecisionTaken d) = decision_fields E d"
| "payload_fields E (ResultTaken n h) = [(''tool_name'', PyStr n), (''output_hash'', py_opt PyStr h)]"
| "payload_fields E (MessageGiven m c) = [(''message'', PyStr m), (''failure_code'', py_opt (\<lambda>x. PyStr (failure_value x)) c)]"

fun run_status_value :: "RunStatus \<Rightarrow> string" where
  "run_status_value CAPTURED = ''CAPTURED''"
| "run_status_value DECIDING = ''DECIDING''"
| "run_status_value EXECUTING = ''EXECUTING''"
| "run_status_value WAITING = ''WAITING''"
| "run_status_value RunStatus.COMPLETED = ''COMPLETED''"
| "run_status_value RunStatus.FAILED = ''FAILED''"
| "run_status_value RunStatus.CANCELLED = ''CANCELLED''"

fun view_fields :: "kernel_env \<Rightarrow> checkpoint_view \<Rightarrow> dict" where
  "view_fields E (LastDecision d) = [(''last_decision'', dict_str (decision_fields E d))]"
| "view_fields E (CompletedTool n) = [(''completed_tool'', PyStr n)]"
| "view_fields E (StatusReached s) = [(''status'', PyStr (run_status_value s))]"

section \<open>The repository\<close>

definition steps_of :: "string \<Rightarrow> string \<Rightarrow> cdb \<Rightarrow> CognitiveStep list" where
  "steps_of org rid db = filter (\<lambda>s. st_org s = org \<and> st_run_id s = rid) (cb_steps db)"

definition events_of :: "string \<Rightarrow> string \<Rightarrow> cdb \<Rightarrow> CognitiveUserEvent list" where
  "events_of org rid db = filter (\<lambda>e. ev_org e = org \<and> ev_run_id e = rid) (cb_events db)"

definition checkpoints_of :: "string \<Rightarrow> string \<Rightarrow> cdb \<Rightarrow> CognitiveCheckpoint list" where
  "checkpoints_of org rid db = filter (\<lambda>c. cc_org c = org \<and> cc_run_id c = rid) (cb_checkpoints db)"

definition invocations_of :: "string \<Rightarrow> string \<Rightarrow> cdb \<Rightarrow> CognitiveToolInvocation list" where
  "invocations_of org rid db = filter (\<lambda>i. iv_org i = org \<and> iv_run_id i = rid) (cb_invocations db)"

definition run_of :: "string \<Rightarrow> string \<Rightarrow> cdb \<Rightarrow> CognitiveRun option" where
  "run_of org rid db = find (\<lambda>r. ru_org r = org \<and> ru_id r = rid) (cb_runs db)"

definition keyed_run :: "string \<Rightarrow> string \<Rightarrow> string \<Rightarrow> cdb \<Rightarrow> CognitiveRun option" where
  "keyed_run org actor key db = find (\<lambda>r. ru_org r = org \<and> ru_actor_id r = actor \<and> ru_idempotency_key r = key) (cb_runs db)"

definition get :: "string \<Rightarrow> string \<Rightarrow> CognitiveRun tj" where
  "get org rid = seq (reads (run_of org rid))
     (\<lambda>r. case r of None \<Rightarrow> raises (Stored (RecordNotFound ''cognitive run was not found'')) | Some run \<Rightarrow> ret run)"

definition update_run :: "CognitiveRun \<Rightarrow> unit tj" where
  "update_run run = writes (\<lambda>db. db\<lparr>cb_runs := map (\<lambda>r. if ru_id r = ru_id run then run else r) (cb_runs db)\<rparr>)"

definition update_invocation :: "CognitiveToolInvocation \<Rightarrow> unit tj" where
  "update_invocation iv = writes (\<lambda>db. db\<lparr>cb_invocations := map (\<lambda>i. if iv_id i = iv_id iv then iv else i) (cb_invocations db)\<rparr>)"

definition append_step ::
  "kernel_env \<Rightarrow> (nat \<Rightarrow> string) \<Rightarrow> string \<Rightarrow> CognitiveRun \<Rightarrow> StepKind \<Rightarrow> StepStatus \<Rightarrow> step_payload \<Rightarrow> CognitiveStep tj" where
  "append_step E uuid org run kind status payload =
     seq (reads (\<lambda>db. max_key st_sequence (steps_of org (ru_id run) db) + 1)) (\<lambda>sequence.
     seq (new_id uuid ''cstep'') (\<lambda>i.
     seq (hashes E (dict_str (payload_fields E payload))) (\<lambda>h.
     let step = \<lparr>st_id = i, st_org = org, st_run_id = ru_id run, st_sequence = sequence, st_kind = kind, st_status = status,
           st_payload = payload, st_payload_hash = h\<rparr> in
     seq (inserts (\<lambda>db. st_id step \<in> st_id ` set (cb_steps db) \<or> sequence \<in> st_sequence ` set (steps_of org (ru_id run) db))
       (\<lambda>db. db\<lparr>cb_steps := cb_steps db @ [step]\<rparr>)) (\<lambda>_. ret step))))"

definition append_user_event :: "(nat \<Rightarrow> string) \<Rightarrow> string \<Rightarrow> CognitiveRun \<Rightarrow> UserEvent \<Rightarrow> CognitiveUserEvent tj" where
  "append_user_event uuid org run event =
     seq (reads (\<lambda>db. max_key ev_sequence (events_of org (ru_id run) db) + 1)) (\<lambda>sequence.
     seq (new_id uuid ''cuevt'') (\<lambda>i.
     let rec = \<lparr>ev_id = i, ev_org = org, ev_run_id = ru_id run, ev_sequence = sequence, ev_event = event\<rparr> in
     seq (inserts (\<lambda>db. ev_id rec \<in> ev_id ` set (cb_events db) \<or> sequence \<in> ev_sequence ` set (events_of org (ru_id run) db))
       (\<lambda>db. db\<lparr>cb_events := cb_events db @ [rec]\<rparr>)) (\<lambda>_. ret rec)))"

definition checkpoint :: "kernel_env \<Rightarrow> (nat \<Rightarrow> string) \<Rightarrow> string \<Rightarrow> CognitiveRun \<Rightarrow> checkpoint_view \<Rightarrow> CognitiveCheckpoint tj" where
  "checkpoint E uuid org run view =
     seq (reads (\<lambda>db. max_key cc_sequence (checkpoints_of org (ru_id run) db) + 1)) (\<lambda>sequence.
     seq (new_id uuid ''ccp'') (\<lambda>i.
     seq (hashes E (dict_str (view_fields E view))) (\<lambda>h.
     let rec = \<lparr>cc_id = i, cc_org = org, cc_run_id = ru_id run, cc_sequence = sequence, cc_run_version = ru_version run,
           cc_projection = view, cc_content_hash = h\<rparr> in
     seq (inserts (\<lambda>db. cc_id rec \<in> cc_id ` set (cb_checkpoints db) \<or>
         sequence \<in> cc_sequence ` set (checkpoints_of org (ru_id run) db))
       (\<lambda>db. db\<lparr>cb_checkpoints := cb_checkpoints db @ [rec]\<rparr>)) (\<lambda>_. ret rec))))"

definition user_event :: "EventKind \<Rightarrow> string \<Rightarrow> UserEvent" where
  "user_event k m = \<lparr>ue_kind = k, ue_message = m, ue_retryable = False\<rparr>"

definition capture_payload :: "string \<Rightarrow> string \<Rightarrow> string \<Rightarrow> string \<Rightarrow> string \<Rightarrow> string \<Rightarrow> pyval" where
  "capture_payload agent actor conversation turn purpose input = dict_str
     [(''principal'', PyStr agent), (''actor_id'', PyStr actor), (''conversation_id'', PyStr conversation), (''turn_id'', PyStr turn),
      (''purpose'', PyStr purpose), (''input_text'', PyStr input)]"

definition same_turn :: "CognitiveRun \<Rightarrow> CognitiveRun \<Rightarrow> bool" where
  "same_turn r s \<longleftrightarrow> ru_id r = ru_id s \<or> ru_org r = ru_org s \<and>
     (ru_actor_id r = ru_actor_id s \<and> ru_idempotency_key r = ru_idempotency_key s \<or>
      ru_conversation_id r = ru_conversation_id s \<and> ru_turn_id r = ru_turn_id s)"

definition capture ::
  "kernel_env \<Rightarrow> (nat \<Rightarrow> string) \<Rightarrow> string \<Rightarrow> string \<Rightarrow> string \<Rightarrow> string \<Rightarrow> string \<Rightarrow> string \<Rightarrow> string \<Rightarrow> string \<Rightarrow> TurnBudget \<Rightarrow>
     CognitiveRun tj" where
  "capture E uuid org agent actor conversation turn key purpose input budget =
     seq (hashes E (capture_payload agent actor conversation turn purpose input)) (\<lambda>request_hash.
     seq (reads (keyed_run org actor key)) (\<lambda>existing.
     case existing of
       Some run \<Rightarrow>
         if ru_input_hash run \<noteq> request_hash
         then raises (Stored (PersistenceConflict ''idempotency key was reused with different input'')) else ret run
     | None \<Rightarrow>
         seq (new_id uuid ''crun'') (\<lambda>i.
         let run = \<lparr>ru_id = i, ru_org = org, ru_principal = agent, ru_actor_id = actor, ru_conversation_id = conversation,
               ru_turn_id = turn, ru_idempotency_key = key, ru_purpose = purpose, ru_input_text = input,
               ru_input_hash = request_hash, ru_manifest_hash = None, ru_status = CAPTURED, ru_version = 1, ru_budget = budget,
               ru_failure_code = None, ru_cancelled_at = None\<rparr> in
         seq (inserts (\<lambda>db. list_ex (same_turn run) (cb_runs db)) (\<lambda>db. db\<lparr>cb_runs := cb_runs db @ [run]\<rparr>)) (\<lambda>_.
         seq (append_step E uuid org run INPUT RECORDED (InputTaken request_hash)) (\<lambda>_.
         seq (append_user_event uuid org run (user_event message_received ''Your message is saved.'')) (\<lambda>_. ret run))))))"

definition bind_manifest :: "kernel_env \<Rightarrow> CognitiveRun \<Rightarrow> ContextManifest \<Rightarrow> unit tj" where
  "bind_manifest E run m =
     (case cm_manifest_hash m of
        None \<Rightarrow> raises (Stored (PersistenceConflict ''only a sealed context manifest can be bound''))
      | Some h \<Rightarrow>
          (case calculate_hash E m of
             Inl e \<Rightarrow> raises (Kernel e)
           | Inr h' \<Rightarrow>
               if h \<noteq> h' then raises (Stored (PersistenceConflict ''only a sealed context manifest can be bound''))
               else if principal_value (cm_principal m) \<noteq> ru_principal run \<or> cm_actor_id m \<noteq> ru_actor_id run
               then raises (Stored (PersistenceConflict ''context principal does not own this run''))
               else update_run (run\<lparr>ru_manifest_hash := Some h, ru_status := DECIDING, ru_version := ru_version run + 1\<rparr>)))"

definition request_tool ::
  "kernel_env \<Rightarrow> (nat \<Rightarrow> string) \<Rightarrow> string \<Rightarrow> CognitiveRun \<Rightarrow> ProposedToolCall \<Rightarrow> ToolRisk \<Rightarrow> CognitiveToolInvocation tj" where
  "request_tool E uuid org run call risk =
     seq (reads (\<lambda>db. find (\<lambda>i. iv_call_id i = tc_call_id call) (invocations_of org (ru_id run) db))) (\<lambda>existing.
     seq (hashes E (dict_str (tc_arguments call))) (\<lambda>h.
     case existing of
       Some iv \<Rightarrow>
         if iv_arguments_hash iv \<noteq> h
         then raises (Stored (PersistenceConflict ''tool call id was reused with different arguments'')) else ret iv
     | None \<Rightarrow>
         seq (new_id uuid ''ctool'') (\<lambda>i.
         let iv = \<lparr>iv_id = i, iv_org = org, iv_run_id = ru_id run, iv_call_id = tc_call_id call, iv_tool_name = tc_tool_name call,
               iv_contract_version = tc_contract_version call, iv_risk = risk, iv_arguments = tc_arguments call,
               iv_arguments_hash = h, iv_status = REQUESTED, iv_output = None, iv_output_hash = None, iv_safe_error_code = None\<rparr> in
         seq (inserts (\<lambda>db. iv_id iv \<in> iv_id ` set (cb_invocations db)) (\<lambda>db. db\<lparr>cb_invocations := cb_invocations db @ [iv]\<rparr>))
           (\<lambda>_. ret iv))))"

definition record_decision :: "kernel_env \<Rightarrow> (nat \<Rightarrow> string) \<Rightarrow> string \<Rightarrow> CognitiveRun \<Rightarrow> TurnDecision \<Rightarrow> CognitiveRun tj" where
  "record_decision E uuid org run d =
     seq (append_step E uuid org run DECISION RECORDED (DecisionTaken d)) (\<lambda>_.
     let run' = run\<lparr>ru_version := ru_version run + 1\<rparr> in seq (update_run run') (\<lambda>_. ret run'))"

definition authorize_tool :: "CognitiveToolInvocation \<Rightarrow> unit tj" where
  "authorize_tool iv = (if iv_status iv = REQUESTED then update_invocation (iv\<lparr>iv_status := AUTHORIZED\<rparr>) else ret ())"

definition complete_tool :: "kernel_env \<Rightarrow> CognitiveToolInvocation \<Rightarrow> dict \<Rightarrow> CognitiveToolInvocation tj" where
  "complete_tool E iv out =
     seq (hashes E (dict_str out)) (\<lambda>h.
     if iv_status iv = INVOCATION_COMPLETED then
       if iv_output_hash iv \<noteq> Some h
       then raises (Stored (PersistenceConflict ''tool call already completed with another result'')) else ret iv
     else if iv_status iv \<notin> {AUTHORIZED, INVOCATION_RUNNING}
     then raises (Stored (PersistenceConflict ''tool call is not authorized for completion''))
     else
       let iv' = iv\<lparr>iv_status := INVOCATION_COMPLETED, iv_output := Some out, iv_output_hash := Some h\<rparr> in
       seq (update_invocation iv') (\<lambda>_. ret iv'))"

definition fail_tool :: "CognitiveToolInvocation \<Rightarrow> string \<Rightarrow> unit tj" where
  "fail_tool iv code =
     (if iv_status iv = INVOCATION_COMPLETED then raises (Stored (PersistenceConflict ''completed tool call cannot fail''))
      else update_invocation (iv\<lparr>iv_status := INVOCATION_FAILED, iv_safe_error_code := Some code\<rparr>))"

definition terminal :: "RunStatus \<Rightarrow> bool" where
  "terminal s \<longleftrightarrow> s \<in> {RunStatus.COMPLETED, RunStatus.FAILED, RunStatus.CANCELLED}"

definition finish ::
  "kernel_env \<Rightarrow> (nat \<Rightarrow> string) \<Rightarrow> string \<Rightarrow> CognitiveRun \<Rightarrow> RunStatus \<Rightarrow> string \<Rightarrow> UserEvent \<Rightarrow> FailureCode option \<Rightarrow> CognitiveRun tj" where
  "finish E uuid org run status message event code =
     (if terminal (ru_status run) then ret run
      else
        seq (append_step E uuid org run (if status = RunStatus.FAILED then FAILURE else OUTPUT)
          (if status = RunStatus.FAILED then STEP_FAILED else STEP_COMPLETED) (MessageGiven message code)) (\<lambda>_.
        seq (append_user_event uuid org run event) (\<lambda>_.
        let run' = run\<lparr>ru_status := status, ru_failure_code := code, ru_version := ru_version run + 1\<rparr> in
        seq (update_run run') (\<lambda>_. ret run'))))"

definition cancel :: "int \<Rightarrow> CognitiveRun \<Rightarrow> unit tj" where
  "cancel now run =
     (if terminal (ru_status run) then ret ()
      else update_run (run\<lparr>ru_status := RunStatus.CANCELLED, ru_cancelled_at := Some now, ru_version := ru_version run + 1\<rparr>))"

record CognitiveRunSnapshot =
  sn_run :: CognitiveRun
  sn_steps :: "CognitiveStep list"
  sn_checkpoints :: "CognitiveCheckpoint list"
  sn_tools :: "CognitiveToolInvocation list"
  sn_user_events :: "CognitiveUserEvent list"

definition snapshot :: "string \<Rightarrow> CognitiveRun \<Rightarrow> CognitiveRunSnapshot tj" where
  "snapshot org run = reads (\<lambda>db.
     \<lparr>sn_run = run, sn_steps = sort_key st_sequence (steps_of org (ru_id run) db),
      sn_checkpoints = sort_key cc_sequence (checkpoints_of org (ru_id run) db), sn_tools = invocations_of org (ru_id run) db,
      sn_user_events = sort_key ev_sequence (events_of org (ru_id run) db)\<rparr>)"

end
