(* ===== verification/TurnEngine.thy ===== *)
theory TurnEngine
  imports CognitiveJournal
begin

text \<open>
  The loop of one agent turn (\<^verbatim>\<open>src/services/api/sira_api/cognitive_engine.py\<close>): capture the message, let the model decide,
  authorize and execute the tools it proposes, journal every step, compose the response. The model
  (behind \<^verbatim>\<open>BedrockCognitiveRuntime.decide\<close> of \<^verbatim>\<open>cognitive_runtime.py\<close>) and the tool handlers are
  arbitrary functions of the history of the turn, so they may answer differently every time. Between the transactions of a turn
  other processes may change the tables (\<open>en_others\<close>), and a transaction may find the database unavailable (\<open>en_down\<close>).
  A retried transaction has no effect before it commits, so the retry loop is one attempt.
\<close>

section \<open>State and effects\<close>

record TurnCommand =
  tm_organization_id :: string
  tm_actor_id :: string
  tm_principal :: Principal
  tm_party :: Party
  tm_purpose :: string
  tm_conversation_id :: string
  tm_turn_id :: string
  tm_idempotency_key :: string
  tm_message :: string
  tm_actor_roles :: "string list"
  tm_permissions :: "string list"
  tm_available_tools :: "string list"
  tm_recent_messages :: "dict list"
  tm_summary :: "string option"
  tm_unresolved_questions :: "string list"
  tm_private_context :: dict
  tm_exchange_projection :: dict
  tm_budget :: TurnBudget

record observation =
  wo_call_id :: string
  wo_tool_name :: string
  wo_contract_version :: string
  wo_output :: dict

record TurnResult =
  tr_run_id :: string
  tr_status :: RunStatus
  tr_message :: string
  tr_duplicate :: bool
  tr_tool_calls :: "string list"
  tr_tool_results :: "observation list"

text \<open>What a turn does outside the database, in order: asking the model and calling a handler.\<close>

datatype effect = Asked ContextManifest | Called string dict ContextManifest

datatype reply = Answered TurnDecision | AskTimedOut | AskInvalid | AskFailed

datatype outcome = Returned dict | HandlerTimedOut | HandlerDenied | HandlerFailed

record engine_env =
  en_kernel :: kernel_env
  en_uuid :: "nat \<Rightarrow> string"
  en_runtime :: "effect list \<Rightarrow> ContextManifest \<Rightarrow> reply"
  en_catalog :: catalog
  en_handlers :: "(string \<times> (effect list \<Rightarrow> dict \<Rightarrow> ContextManifest \<Rightarrow> outcome)) list"
  en_assembler :: "PrincipalPolicy list option"
  en_now :: datetime
  en_others :: "nat \<Rightarrow> cdb \<Rightarrow> cdb"
  en_down :: "nat \<Rightarrow> bool"

record engine =
  eg_db :: cdb
  eg_tick :: nat
  eg_log :: "effect list"

type_synonym 'a eng = "engine \<Rightarrow> (turn_error + 'a) \<times> engine"

definition give :: "'a \<Rightarrow> 'a eng" where
  "give x = (\<lambda>s. (Inr x, s))"

definition andthen :: "'a eng \<Rightarrow> ('a \<Rightarrow> 'b eng) \<Rightarrow> 'b eng" where
  "andthen f g = (\<lambda>s. case f s of (Inl e, s') \<Rightarrow> (Inl e, s') | (Inr x, s') \<Rightarrow> g x s')"

definition attempt :: "'a eng \<Rightarrow> (turn_error + 'a) eng" where
  "attempt f = (\<lambda>s. case f s of (r, s') \<Rightarrow> (Inr r, s'))"

definition pure_kn :: "'a kn \<Rightarrow> 'a eng" where
  "pure_kn x = (\<lambda>s. case x of Inl e \<Rightarrow> (Inl (Kernel e), s) | Inr y \<Rightarrow> (Inr y, s))"

definition transact :: "engine_env \<Rightarrow> 'a tj \<Rightarrow> 'a eng" where
  "transact T work = (\<lambda>s.
     let db = en_others T (eg_tick s) (eg_db s); s' = s\<lparr>eg_db := db, eg_tick := Suc (eg_tick s)\<rparr> in
     if en_down T (eg_tick s) then (Inl DatabaseUnavailable, s')
     else case work db of Inl e \<Rightarrow> (Inl e, s') | Inr (x, db') \<Rightarrow> (Inr x, s'\<lparr>eg_db := db'\<rparr>))"

section \<open>Transactions of a turn\<close>

definition capture_work :: "engine_env \<Rightarrow> TurnCommand \<Rightarrow> (CognitiveRun \<times> bool) tj" where
  "capture_work T cmd =
     seq (reads (keyed_run (tm_organization_id cmd) (tm_actor_id cmd) (tm_idempotency_key cmd))) (\<lambda>known.
     seq (capture (en_kernel T) (en_uuid T) (tm_organization_id cmd) (principal_value (tm_principal cmd)) (tm_actor_id cmd)
       (tm_conversation_id cmd) (tm_turn_id cmd) (tm_idempotency_key cmd) (tm_purpose cmd) (tm_message cmd) (tm_budget cmd))
       (\<lambda>run. ret (run, known \<noteq> None)))"

definition bind_work :: "engine_env \<Rightarrow> string \<Rightarrow> string \<Rightarrow> ContextManifest \<Rightarrow> unit tj" where
  "bind_work T org rid m =
     seq (get org rid) (\<lambda>run.
     case ru_manifest_hash run of
       None \<Rightarrow> bind_manifest (en_kernel T) run m
     | Some h \<Rightarrow> if cm_manifest_hash m \<noteq> Some h then raises BoundToAnotherManifest else ret ())"

definition decision_work :: "engine_env \<Rightarrow> string \<Rightarrow> string \<Rightarrow> TurnDecision \<Rightarrow> unit tj" where
  "decision_work T org rid d =
     seq (get org rid) (\<lambda>run.
     seq (record_decision (en_kernel T) (en_uuid T) org run d) (\<lambda>run'.
     seq (checkpoint (en_kernel T) (en_uuid T) org run' (LastDecision d)) (\<lambda>_. ret ())))"

definition authorize_work :: "engine_env \<Rightarrow> string \<Rightarrow> string \<Rightarrow> ProposedToolCall \<Rightarrow> ToolManifest \<Rightarrow> string tj" where
  "authorize_work T org rid call t =
     seq (get org rid) (\<lambda>run.
     seq (request_tool (en_kernel T) (en_uuid T) org run call (tl_risk t)) (\<lambda>iv.
     seq (authorize_tool iv) (\<lambda>_. ret (iv_id iv))))"

definition invocation_in :: "string \<Rightarrow> string \<Rightarrow> CognitiveRun \<Rightarrow> CognitiveToolInvocation tj" where
  "invocation_in org iid run =
     seq (snapshot org run) (\<lambda>sn.
     case find (\<lambda>i. iv_id i = iid) (sn_tools sn) of None \<Rightarrow> raises NoSuchInvocation | Some iv \<Rightarrow> ret iv)"

definition complete_work :: "engine_env \<Rightarrow> string \<Rightarrow> string \<Rightarrow> string \<Rightarrow> ToolManifest \<Rightarrow> dict \<Rightarrow> unit tj" where
  "complete_work T org rid iid t out =
     seq (get org rid) (\<lambda>run.
     seq (invocation_in org iid run) (\<lambda>iv.
     seq (complete_tool (en_kernel T) iv out) (\<lambda>iv'.
     seq (append_step (en_kernel T) (en_uuid T) org run TOOL_RESULT STEP_COMPLETED (ResultTaken (tl_name t) (iv_output_hash iv')))
       (\<lambda>_.
     seq (checkpoint (en_kernel T) (en_uuid T) org run (CompletedTool (tl_name t))) (\<lambda>_. ret ())))))"

definition fail_tool_work :: "string \<Rightarrow> string \<Rightarrow> string \<Rightarrow> string \<Rightarrow> unit tj" where
  "fail_tool_work org rid iid code = seq (get org rid) (\<lambda>run. seq (invocation_in org iid run) (\<lambda>iv. fail_tool iv code))"

fun decision_code :: "TurnDecision \<Rightarrow> FailureCode option" where
  "decision_code (FailSafely c m r) = Some c"
| "decision_code _ = None"

definition finish_work :: "engine_env \<Rightarrow> string \<Rightarrow> string \<Rightarrow> ComposedResponse \<Rightarrow> TurnDecision \<Rightarrow> unit tj" where
  "finish_work T org rid c d =
     seq (get org rid) (\<lambda>run.
     seq (finish (en_kernel T) (en_uuid T) org run (co_terminal_status c) (co_message c) (co_event c) (decision_code d)) (\<lambda>run'.
     seq (checkpoint (en_kernel T) (en_uuid T) org run' (StatusReached (co_terminal_status c))) (\<lambda>_. ret ())))"

definition cancel_work :: "engine_env \<Rightarrow> int \<Rightarrow> string \<Rightarrow> string \<Rightarrow> unit tj" where
  "cancel_work T now org rid =
     seq (get org rid) (\<lambda>run.
     if ru_status run = RunStatus.CANCELLED then ret ()
     else seq (cancel now run) (\<lambda>_.
       seq (append_user_event (en_uuid T) org run (user_event could_not_complete ''This work was cancelled.'')) (\<lambda>_. ret ())))"

fun message_in :: "step_payload \<Rightarrow> string option" where
  "message_in (InputTaken h) = None"
| "message_in (DecisionTaken (Respond m)) = Some m"
| "message_in (DecisionTaken (Complete m)) = Some m"
| "message_in (DecisionTaken (FailSafely c m r)) = Some m"
| "message_in (DecisionTaken _) = None"
| "message_in (ResultTaken n h) = None"
| "message_in (MessageGiven m c) = Some m"

definition existing_view :: "string \<Rightarrow> CognitiveRunSnapshot \<Rightarrow> TurnResult" where
  "existing_view rid sn =
     (let completed = filter (\<lambda>i. iv_status i = INVOCATION_COMPLETED) (sn_tools sn) in
      \<lparr>tr_run_id = rid, tr_status = ru_status (sn_run sn),
       tr_message = (case List.map_filter (\<lambda>s. message_in (st_payload s)) (rev (sn_steps sn)) of
          [] \<Rightarrow> ''Your previous result is available.'' | m # _ \<Rightarrow> m),
       tr_duplicate = True, tr_tool_calls = map iv_tool_name completed,
       tr_tool_results = map (\<lambda>i. \<lparr>wo_call_id = iv_call_id i, wo_tool_name = iv_tool_name i,
          wo_contract_version = iv_contract_version i, wo_output = (case iv_output i of None \<Rightarrow> [] | Some d \<Rightarrow> d)\<rparr>) completed\<rparr>)"

definition existing_result :: "engine_env \<Rightarrow> string \<Rightarrow> string \<Rightarrow> TurnResult eng" where
  "existing_result T org rid =
     andthen (transact T (seq (get org rid) (snapshot org))) (\<lambda>sn. give (existing_view rid sn))"

section \<open>Contexts of a turn\<close>

definition context_of :: "engine_env \<Rightarrow> TurnCommand \<Rightarrow> ContextManifest kn" where
  "context_of T cmd =
     (case en_assembler T of
        Some policies \<Rightarrow> assemble (en_kernel T) policies
          \<lparr>cq_principal = tm_principal cmd, cq_party = tm_party cmd, cq_organization_id = tm_organization_id cmd,
           cq_actor_id = tm_actor_id cmd, cq_actor_roles = tm_actor_roles cmd, cq_permissions = tm_permissions cmd,
           cq_purpose = tm_purpose cmd, cq_conversation_id = tm_conversation_id cmd, cq_turn_id = tm_turn_id cmd,
           cq_current_message = tm_message cmd, cq_recent_messages = tm_recent_messages cmd, cq_summary = tm_summary cmd,
           cq_unresolved_questions = tm_unresolved_questions cmd, cq_references = [],
           cq_private_context = tm_private_context cmd, cq_exchange_projection = tm_exchange_projection cmd,
           cq_requested_tools = tm_available_tools cmd\<rparr>
      | None \<Rightarrow> bindE (mk_ContextManifest (en_kernel T)
          \<lparr>cm_principal = tm_principal cmd, cm_party = tm_party cmd, cm_organization_id = tm_organization_id cmd,
           cm_actor_id = tm_actor_id cmd, cm_actor_roles = tm_actor_roles cmd, cm_permissions = tm_permissions cmd,
           cm_purpose = tm_purpose cmd, cm_conversation_id = tm_conversation_id cmd, cm_turn_id = tm_turn_id cmd,
           cm_current_message = tm_message cmd, cm_recent_messages = tm_recent_messages cmd, cm_summary = tm_summary cmd,
           cm_unresolved_questions = tm_unresolved_questions cmd, cm_references = [],
           cm_exchange_projection = [(''private'', dict_str (tm_private_context cmd)),
             (''released'', dict_str (tm_exchange_projection cmd))],
           cm_available_tools = tm_available_tools cmd, cm_tool_contracts = [], cm_budget = tm_budget cmd,
           cm_manifest_hash = None\<rparr>) (sealed (en_kernel T)))"

definition contract_fields :: "ToolManifest \<Rightarrow> dict" where
  "contract_fields t = [(''name'', PyStr (tl_name t)), (''contract_version'', PyStr (tl_contract_version t)),
     (''description'', PyStr (tl_description t)), (''risk'', PyStr (risk_value (tl_risk t))),
     (''input_schema'', dict_str (tl_input_schema t))]"

definition stage :: string where
  "stage = ''evaluating''"

definition with_contracts :: "engine_env \<Rightarrow> ContextManifest \<Rightarrow> ContextManifest kn" where
  "with_contracts T m = sealed (en_kernel T)
     (m\<lparr>cm_tool_contracts := map contract_fields (visible_tools (en_catalog T) m stage), cm_manifest_hash := None\<rparr>)"

definition observation_fields :: "observation \<Rightarrow> dict" where
  "observation_fields w = [(''call_id'', PyStr (wo_call_id w)), (''tool_name'', PyStr (wo_tool_name w)),
     (''contract_version'', PyStr (wo_contract_version w)), (''output'', dict_str (wo_output w))]"

definition decision_manifest :: "engine_env \<Rightarrow> ContextManifest \<Rightarrow> observation list \<Rightarrow> ContextManifest kn" where
  "decision_manifest T m results =
     (if results = [] then Inr m
      else sealed (en_kernel T) (m\<lparr>
        cm_exchange_projection := dict_of (cm_exchange_projection m @
          [(''authorized_tool_results'', PyList (map (\<lambda>w. dict_str (observation_fields w)) results))]),
        cm_available_tools := [], cm_tool_contracts := [], cm_manifest_hash := None\<rparr>))"

section \<open>The loop\<close>

record progress =
  pg_results :: "observation list"
  pg_all :: "observation list"
  pg_names :: "string list"
  pg_mutations :: int

definition decide :: "engine_env \<Rightarrow> ContextManifest \<Rightarrow> reply eng" where
  "decide T m = (\<lambda>s.
     case calculate_hash (en_kernel T) m of
       Inl e \<Rightarrow> (Inr AskInvalid, s)
     | Inr h \<Rightarrow>
         if cm_manifest_hash m \<noteq> Some h then (Inr AskInvalid, s)
         else (Inr (case en_runtime T (eg_log s) m of
             Answered d \<Rightarrow> (case mk_TurnDecision d of Inl e \<Rightarrow> AskInvalid | Inr d' \<Rightarrow> Answered d')
           | r \<Rightarrow> r), s\<lparr>eg_log := eg_log s @ [Asked m]\<rparr>))"

definition fail_turn ::
  "engine_env \<Rightarrow> string \<Rightarrow> string \<Rightarrow> FailureCode \<Rightarrow> string \<Rightarrow> bool \<Rightarrow> string list \<Rightarrow> observation list \<Rightarrow> TurnResult eng" where
  "fail_turn T org rid code message retryable names results =
     (let d = FailSafely code message retryable in
      andthen (pure_kn (compose d)) (\<lambda>c.
      andthen (transact T (finish_work T org rid c d)) (\<lambda>_.
      give \<lparr>tr_run_id = rid, tr_status = RunStatus.FAILED, tr_message = message, tr_duplicate = False, tr_tool_calls = names,
        tr_tool_results = results\<rparr>)))"

datatype fault = ToolIsDenied | ToolTimedOut | ToolBroke

fun fault_code :: "fault \<Rightarrow> string" where
  "fault_code ToolIsDenied = ''TOOL_DENIED''"
| "fault_code ToolTimedOut = ''TOOL_TIMEOUT''"
| "fault_code ToolBroke = ''TOOL_EXECUTION_FAILED''"

definition forbidden_text :: string where
  "forbidden_text = ''I don'' @ [CHR 39] @ ''t have permission to do that. I can continue with an allowed option.''"

definition silent_text :: string where
  "silent_text = ''That action didn'' @ [CHR 39] @ ''t respond in time. Your confirmed work is saved.''"

definition unretrieved_text :: string where
  "unretrieved_text = ''I couldn'' @ [CHR 39] @ ''t retrieve that safely. Your confirmed work is saved.''"

fun fault_answer :: "fault \<Rightarrow> FailureCode \<times> string \<times> bool" where
  "fault_answer ToolIsDenied = (TOOL_DENIED, forbidden_text, False)"
| "fault_answer ToolTimedOut = (TOOL_TIMEOUT, silent_text, True)"
| "fault_answer ToolBroke = (PROVIDER_UNAVAILABLE, unretrieved_text, True)"

definition tool_fault ::
  "engine_env \<Rightarrow> string \<Rightarrow> string \<Rightarrow> string option \<Rightarrow> fault \<Rightarrow> progress \<Rightarrow> (TurnResult + progress) eng" where
  "tool_fault T org rid invocation f p =
     andthen (case invocation of None \<Rightarrow> give () | Some iid \<Rightarrow> transact T (fail_tool_work org rid iid (fault_code f))) (\<lambda>_.
     case fault_answer f of (code, message, retryable) \<Rightarrow>
       andthen (fail_turn T org rid code message retryable (pg_names p) (pg_all p)) (\<lambda>r. give (Inl r)))"

definition execute :: "engine_env \<Rightarrow> ToolManifest \<Rightarrow> dict \<Rightarrow> ContextManifest \<Rightarrow> (fault + dict) eng" where
  "execute T t args m = (\<lambda>s.
     case map_of (en_handlers T) (tl_name t) of
       None \<Rightarrow> (Inr (Inl ToolIsDenied), s)
     | Some h \<Rightarrow>
         (Inr (case h (eg_log s) args m of
            Returned out \<Rightarrow> (case validate_output (en_kernel T) t out of Inl e \<Rightarrow> Inl ToolIsDenied | Inr _ \<Rightarrow> Inr out)
          | HandlerTimedOut \<Rightarrow> Inl ToolTimedOut
          | HandlerDenied \<Rightarrow> Inl ToolIsDenied
          | HandlerFailed \<Rightarrow> Inl ToolBroke), s\<lparr>eg_log := eg_log s @ [Called (tl_name t) args m]\<rparr>))"

definition observed :: "ProposedToolCall \<Rightarrow> ToolManifest \<Rightarrow> dict \<Rightarrow> progress \<Rightarrow> progress" where
  "observed c t out p =
     (let w = \<lparr>wo_call_id = tc_call_id c, wo_tool_name = tc_tool_name c, wo_contract_version = tc_contract_version c,
            wo_output = out\<rparr> in
      \<lparr>pg_results = pg_results p @ [w], pg_all = pg_all p @ [w], pg_names = pg_names p @ [tl_name t],
       pg_mutations = (if tl_risk t = MUTATION then pg_mutations p + 1 else pg_mutations p)\<rparr>)"

definition run_call ::
  "engine_env \<Rightarrow> string \<Rightarrow> string \<Rightarrow> ContextManifest \<Rightarrow> ProposedToolCall \<Rightarrow> progress \<Rightarrow> (TurnResult + progress) eng" where
  "run_call T org rid m c p =
     (case authorize_call (en_kernel T) (en_catalog T) c m stage (pg_mutations p) None (en_now T) of
        Inl e \<Rightarrow> tool_fault T org rid None (case e of ToolDenied _ \<Rightarrow> ToolIsDenied | _ \<Rightarrow> ToolBroke) p
      | Inr t \<Rightarrow>
          andthen (attempt (transact T (authorize_work T org rid c t))) (\<lambda>r.
          case r of
            Inl e \<Rightarrow> tool_fault T org rid None ToolBroke p
          | Inr iid \<Rightarrow>
              andthen (execute T t (tc_arguments c) m) (\<lambda>x.
              case x of
                Inl f \<Rightarrow> tool_fault T org rid (Some iid) f p
              | Inr out \<Rightarrow>
                  andthen (attempt (transact T (complete_work T org rid iid t out))) (\<lambda>r'.
                  case r' of
                    Inl e \<Rightarrow> tool_fault T org rid (Some iid) ToolBroke p
                  | Inr _ \<Rightarrow> give (Inr (observed c t out p))))))"

primrec run_calls ::
  "engine_env \<Rightarrow> string \<Rightarrow> string \<Rightarrow> ContextManifest \<Rightarrow> ProposedToolCall list \<Rightarrow> progress \<Rightarrow> (TurnResult + progress) eng" where
  "run_calls T org rid m [] p = give (Inr p)"
| "run_calls T org rid m (c # cs) p =
     andthen (run_call T org rid m c p) (\<lambda>r. case r of Inl res \<Rightarrow> give (Inl res) | Inr p' \<Rightarrow> run_calls T org rid m cs p')"

definition respond :: "engine_env \<Rightarrow> string \<Rightarrow> string \<Rightarrow> bool \<Rightarrow> TurnDecision \<Rightarrow> progress \<Rightarrow> TurnResult eng" where
  "respond T org rid duplicate d p =
     andthen (pure_kn (compose d)) (\<lambda>c.
     andthen (transact T (finish_work T org rid c d)) (\<lambda>_.
     give \<lparr>tr_run_id = rid, tr_status = co_terminal_status c, tr_message = co_message c, tr_duplicate = duplicate,
       tr_tool_calls = pg_names p, tr_tool_results = pg_all p\<rparr>))"

definition late_text :: string where
  "late_text = ''I couldn'' @ [CHR 39] @ ''t finish in time. Your confirmed work is saved; please try again.''"

definition unsafe_text :: string where
  "unsafe_text = ''I couldn'' @ [CHR 39] @ ''t complete that safely. Please try again.''"

definition unreachable_text :: string where
  "unreachable_text = ''I couldn'' @ [CHR 39] @ ''t reach the reasoning service. Your confirmed work is saved.''"

definition exhausted_text :: string where
  "exhausted_text = ''I need a fresh turn to continue. Everything confirmed so far is saved.''"

text \<open>\<open>n\<close> is the number of model calls that are left.\<close>

primrec turn_loop ::
  "engine_env \<Rightarrow> string \<Rightarrow> string \<Rightarrow> bool \<Rightarrow> ContextManifest \<Rightarrow> nat \<Rightarrow> progress \<Rightarrow> TurnResult eng" where
  "turn_loop T org rid duplicate m 0 p = fail_turn T org rid BUDGET_EXHAUSTED exhausted_text True (pg_names p) (pg_all p)"
| "turn_loop T org rid duplicate m (Suc n) p =
     andthen (pure_kn (decision_manifest T m (pg_results p))) (\<lambda>dm.
     andthen (decide T dm) (\<lambda>reply.
     case reply of
       AskTimedOut \<Rightarrow> fail_turn T org rid PROVIDER_UNAVAILABLE late_text True (pg_names p) []
     | AskInvalid \<Rightarrow>
         if 0 < n then turn_loop T org rid duplicate m n p
         else fail_turn T org rid INVALID_DECISION unsafe_text True (pg_names p) []
     | AskFailed \<Rightarrow> fail_turn T org rid PROVIDER_UNAVAILABLE unreachable_text True (pg_names p) []
     | Answered d \<Rightarrow>
         andthen (transact T (decision_work T org rid d)) (\<lambda>_.
         case d of
           ProposeTools calls \<Rightarrow>
             andthen (run_calls T org rid dm calls (p\<lparr>pg_results := []\<rparr>)) (\<lambda>r.
             case r of Inl res \<Rightarrow> give res | Inr p' \<Rightarrow> turn_loop T org rid duplicate m n p')
         | _ \<Rightarrow> respond T org rid duplicate d p)))"

definition no_progress :: progress where
  "no_progress = \<lparr>pg_results = [], pg_all = [], pg_names = [], pg_mutations = 0\<rparr>"

definition process :: "engine_env \<Rightarrow> TurnCommand \<Rightarrow> TurnResult eng" where
  "process T cmd =
     andthen (transact T (capture_work T cmd)) (\<lambda>(run, duplicate).
     if duplicate \<and> ru_status run \<in> {RunStatus.COMPLETED, RunStatus.FAILED, WAITING, RunStatus.CANCELLED}
     then existing_result T (tm_organization_id cmd) (ru_id run)
     else
       andthen (pure_kn (context_of T cmd)) (\<lambda>m0.
       andthen (pure_kn (with_contracts T m0)) (\<lambda>m.
       andthen (transact T (bind_work T (tm_organization_id cmd) (ru_id run) m)) (\<lambda>_.
       turn_loop T (tm_organization_id cmd) (ru_id run) duplicate m (nat (tb_max_model_calls (tm_budget cmd))) no_progress))))"

definition cancel_turn :: "engine_env \<Rightarrow> int \<Rightarrow> string \<Rightarrow> string \<Rightarrow> unit eng" where
  "cancel_turn T now org rid = transact T (cancel_work T now org rid)"

end
