(* ===== verification/TurnEffects.thy ===== *)
theory TurnEffects
  imports TurnEngine
begin

text \<open>
  What a turn does outside the database. \<open>emits f P\<close> says that every run of \<open>f\<close> extends the log by a list of effects that is
  related to its outcome by \<open>P\<close>, whatever the model, the handlers, the database and other processes do; there is one rule
  per construct of the engine.
\<close>

section \<open>Rules\<close>

definition emits :: "'a eng \<Rightarrow> (turn_error + 'a \<Rightarrow> effect list \<Rightarrow> bool) \<Rightarrow> bool" where
  "emits f P \<longleftrightarrow> (\<forall>s r s'. f s = (r, s') \<longrightarrow> (\<exists>l. eg_log s' = eg_log s @ l \<and> P r l))"

lemma emitsD: "emits f P \<Longrightarrow> f s = (r, s') \<Longrightarrow> \<exists>l. eg_log s' = eg_log s @ l \<and> P r l"
  by (simp add: emits_def)

lemma emits_mono: "emits f P \<Longrightarrow> (\<And>r l. P r l \<Longrightarrow> Q r l) \<Longrightarrow> emits f Q"
  unfolding emits_def by blast

lemma emits_give [intro!]: "P (Inr x) [] \<Longrightarrow> emits (give x) P"
  by (simp add: emits_def give_def)

lemma emits_pure_kn:
  "(\<And>e. x = Inl e \<Longrightarrow> P (Inl (Kernel e)) []) \<Longrightarrow> (\<And>y. x = Inr y \<Longrightarrow> P (Inr y) []) \<Longrightarrow> emits (pure_kn x) P"
  by (cases x) (simp_all add: emits_def pure_kn_def)

lemma emits_transact: "(\<And>r. P r []) \<Longrightarrow> emits (transact T w) P"
  by (auto simp: emits_def transact_def Let_def split: if_splits sum.splits prod.splits)

lemma emits_andthen:
  assumes f: "emits f Q"
    and raised: "\<And>e l. Q (Inl e) l \<Longrightarrow> P (Inl e) l"
    and next_step: "\<And>x l. Q (Inr x) l \<Longrightarrow> emits (g x) (\<lambda>r l'. P r (l @ l'))"
  shows "emits (andthen f g) P"
  unfolding emits_def
proof (intro allI impI)
  fix s r s'
  assume run: "andthen f g s = (r, s')"
  obtain r1 s1 where f1: "f s = (r1, s1)" by (cases "f s")
  from emitsD [OF f this] obtain l where l: "eg_log s1 = eg_log s @ l" "Q r1 l" by blast
  show "\<exists>l. eg_log s' = eg_log s @ l \<and> P r l"
  proof (cases r1)
    case (Inl e)
    then show ?thesis using run f1 l raised by (auto simp: andthen_def)
  next
    case (Inr x)
    then have "g x s1 = (r, s')" using run f1 by (simp add: andthen_def)
    from emitsD [OF next_step this] l Inr obtain l' where "eg_log s' = eg_log s1 @ l'" "P r (l @ l')" by auto
    with l show ?thesis by auto
  qed
qed

lemma emits_attempt: "emits f (\<lambda>r l. P (Inr r) l) \<Longrightarrow> emits (attempt f) P"
  by (auto simp: emits_def attempt_def split: prod.splits)

lemma emits_pure_then:
  "(\<And>e. P (Inl (Kernel e)) []) \<Longrightarrow> (\<And>y. x = Inr y \<Longrightarrow> emits (g y) P) \<Longrightarrow> emits (andthen (pure_kn x) g) P"
  by (rule emits_andthen [OF emits_pure_kn [where P = "\<lambda>r l. l = [] \<and> (case r of Inl e \<Rightarrow> \<exists>k. e = Kernel k | Inr y \<Rightarrow> x = Inr y)"]]) auto

lemma emits_transact_then: "(\<And>e. P (Inl e) []) \<Longrightarrow> (\<And>x. emits (g x) P) \<Longrightarrow> emits (andthen (transact T w) g) P"
  by (rule emits_andthen [OF emits_transact [where P = "\<lambda>r l. l = []"]]) auto

section \<open>Parts of a turn that only journal\<close>

abbreviation quiet :: "'a eng \<Rightarrow> bool" where
  "quiet f \<equiv> emits f (\<lambda>_ l. l = [])"

lemma quiet_andthen: "quiet f \<Longrightarrow> (\<And>x. quiet (g x)) \<Longrightarrow> quiet (andthen f g)"
  by (rule emits_andthen [where Q = "\<lambda>_ l. l = []"]) auto

lemma quiet_transact: "quiet (transact T w)"
  by (rule emits_transact) simp

lemma quiet_attempt: "quiet f \<Longrightarrow> quiet (attempt f)"
  by (rule emits_attempt) simp

lemma quiet_pure_kn: "quiet (pure_kn x)"
  by (rule emits_pure_kn) simp_all

lemmas quiet_intros = quiet_andthen quiet_transact quiet_attempt quiet_pure_kn

lemma quiet_fail_turn: "quiet (fail_turn T org rid code message retryable names results)"
  unfolding fail_turn_def Let_def by (intro quiet_intros emits_give) simp

lemma quiet_respond: "quiet (respond T org rid duplicate d p)"
  unfolding respond_def by (intro quiet_intros emits_give) simp

lemma quiet_existing_result: "quiet (existing_result T org rid)"
  unfolding existing_result_def by (intro quiet_intros emits_give) simp

lemma quiet_tool_fault: "quiet (tool_fault T org rid invocation f p)"
  unfolding tool_fault_def
  by (cases invocation; cases f) (auto intro!: quiet_intros quiet_fail_turn)

lemma tool_fault_ends: "emits (tool_fault T org rid invocation f p) (\<lambda>r l. l = [] \<and> (\<forall>p'. r \<noteq> Inr (Inr p')))"
proof -
  have "fst (tool_fault T org rid invocation f p s) \<noteq> Inr (Inr p')" for s p'
    by (auto simp: tool_fault_def andthen_def give_def split: prod.splits sum.splits)
  moreover note emitsD [OF quiet_tool_fault [of T org rid invocation f p]]
  ultimately show ?thesis unfolding emits_def by (metis fst_conv)
qed

lemmas quiet_parts = quiet_fail_turn quiet_respond quiet_existing_result

section \<open>Tool calls\<close>

definition authorised :: "engine_env \<Rightarrow> ContextManifest \<Rightarrow> ProposedToolCall \<Rightarrow> ToolManifest \<Rightarrow> bool" where
  "authorised T m c t \<longleftrightarrow>
     map_of (en_catalog T) (tc_tool_name c) = Some t \<and> t \<in> set (visible_tools (en_catalog T) m stage) \<and>
     tc_contract_version c = tl_contract_version t \<and> tl_risk t \<noteq> PROTECTED_EFFECT \<and>
     ke_schema_ok (en_kernel T) (tl_input_schema t) (tc_arguments c)"

definition mutations :: "(ProposedToolCall \<times> ToolManifest) list \<Rightarrow> int" where
  "mutations ps = int (length (filter (\<lambda>(c, t). tl_risk t = MUTATION) ps))"

definition call_effect :: "ContextManifest \<Rightarrow> ProposedToolCall \<times> ToolManifest \<Rightarrow> effect" where
  "call_effect m = (\<lambda>(c, t). Called (tl_name t) (tc_arguments c) m)"

fun is_asked :: "effect \<Rightarrow> bool" where
  "is_asked (Asked m) = True"
| "is_asked (Called n d m) = False"

lemma mutations_simps [simp]: "mutations [] = 0"
  "mutations ((c, t) # ps) = (if tl_risk t = MUTATION then 1 else 0) + mutations ps"
  by (simp_all add: mutations_def)

lemma not_asked_call [simp]: "\<not> is_asked (call_effect m ct)"
  by (simp add: call_effect_def split: prod.splits)

lemma asked_not_call [simp]: "Asked dm \<noteq> call_effect m ct" "call_effect m ct \<noteq> Asked dm"
  by (simp_all add: call_effect_def split: prod.splits)

lemma authorize_call_Inr:
  assumes "authorize_call (en_kernel T) (en_catalog T) c m stage u None now = Inr t"
  shows "authorised T m c t" "tl_risk t = MUTATION \<Longrightarrow> u < tb_max_mutations (cm_budget m)"
  using assms by (auto simp: authorize_call_def authorised_def authorize_capability_def split: option.splits if_splits)

lemma authorize_without_tools:
  "cm_available_tools m = [] \<Longrightarrow> \<exists>e. authorize_call E catalog c m st u grant now = Inl (ToolDenied e)"
  by (auto simp: authorize_call_def visible_tools_def split: option.splits)

definition batch :: "engine_env \<Rightarrow> ContextManifest \<Rightarrow> int \<Rightarrow> (ProposedToolCall \<times> ToolManifest) list \<Rightarrow> bool" where
  "batch T m u ps \<longleftrightarrow> list_all (\<lambda>(c, t). authorised T m c t) ps \<and> u + mutations ps \<le> max u (tb_max_mutations (cm_budget m))"

lemma batch_Nil [simp]: "batch T m u []"
  by (simp add: batch_def)

lemma batch_Cons:
  assumes "authorised T m c t" "tl_risk t = MUTATION \<Longrightarrow> u < tb_max_mutations (cm_budget m)"
    "batch T m (if tl_risk t = MUTATION then u + 1 else u) ps"
  shows "batch T m u ((c, t) # ps)"
  using assms by (auto simp: batch_def split: if_splits)

lemma execute_emits:
  "emits (execute T t args m) (\<lambda>r l. l = [] \<and> r = Inr (Inl ToolIsDenied) \<or> l = [Called (tl_name t) args m])"
  by (auto simp: emits_def execute_def split: option.splits)

definition one_call ::
  "engine_env \<Rightarrow> ContextManifest \<Rightarrow> ProposedToolCall \<Rightarrow> progress \<Rightarrow> turn_error + (TurnResult + progress) \<Rightarrow> effect list \<Rightarrow> bool" where
  "one_call T m c p r l \<longleftrightarrow>
     l = [] \<and> (\<forall>p'. r \<noteq> Inr (Inr p')) \<or>
     (\<exists>t. l = [call_effect m (c, t)] \<and> authorised T m c t \<and>
       (tl_risk t = MUTATION \<longrightarrow> pg_mutations p < tb_max_mutations (cm_budget m)) \<and>
       (\<forall>p'. r = Inr (Inr p') \<longrightarrow> (\<exists>out. p' = observed c t out p)))"

lemma tool_fault_one_call: "emits (tool_fault T org rid invocation f p) (one_call T m c p')"
  by (rule emits_mono [OF tool_fault_ends]) (auto simp: one_call_def)

lemma run_call_emits: "emits (run_call T org rid m c p) (one_call T m c p)"
proof (cases "authorize_call (en_kernel T) (en_catalog T) c m stage (pg_mutations p) None (en_now T)")
  case (Inl e)
  then show ?thesis by (simp add: run_call_def tool_fault_one_call)
next
  case (Inr t)
  note auth = authorize_call_Inr [OF Inr]
  let ?called = "[Called (tl_name t) (tc_arguments c) m]"
  have called: "one_call T m c p r ?called" if "\<And>p'. r = Inr (Inr p') \<Longrightarrow> \<exists>out. p' = observed c t out p" for r
    using auth that by (auto simp: one_call_def call_effect_def)
  have fault: "emits (tool_fault T org rid invocation f p) (\<lambda>r l'. one_call T m c p r (Called (tl_name t) (tc_arguments c) m # l'))"
    for invocation f by (rule emits_mono [OF tool_fault_ends]) (auto intro!: called)
  have stored: "emits (andthen (attempt (transact T (complete_work T org rid iid t out))) (\<lambda>r'. case r' of
      Inl e \<Rightarrow> tool_fault T org rid (Some iid) ToolBroke p | Inr _ \<Rightarrow> give (Inr (observed c t out p))))
      (\<lambda>r l'. one_call T m c p r (Called (tl_name t) (tc_arguments c) m # l'))" for iid out
    by (rule emits_andthen [OF quiet_attempt [OF quiet_transact]]) (auto intro!: called fault split: sum.split)
  have executed: "emits (andthen (execute T t (tc_arguments c) m) (\<lambda>x. case x of Inl f \<Rightarrow> tool_fault T org rid (Some iid) f p
      | Inr out \<Rightarrow> andthen (attempt (transact T (complete_work T org rid iid t out))) (\<lambda>r'. case r' of
          Inl e \<Rightarrow> tool_fault T org rid (Some iid) ToolBroke p | Inr _ \<Rightarrow> give (Inr (observed c t out p)))))
      (one_call T m c p)" for iid
    by (rule emits_andthen [OF execute_emits]) (auto intro!: called fault stored tool_fault_one_call split: sum.split)
  show ?thesis unfolding run_call_def Inr sum.case
    by (rule emits_andthen [OF quiet_attempt [OF quiet_transact]])
       (auto intro!: executed tool_fault_one_call simp: one_call_def [of T m c p "Inl _"] split: sum.split)
qed

lemma one_call_batch:
  "one_call T m c p r l \<Longrightarrow> \<exists>ps. l = map (call_effect m) ps \<and> batch T m (pg_mutations p) ps \<and> length ps \<le> 1"
  unfolding one_call_def
proof (elim disjE exE conjE)
  fix t
  assume t: "l = [call_effect m (c, t)]" "authorised T m c t"
    "tl_risk t = MUTATION \<longrightarrow> pg_mutations p < tb_max_mutations (cm_budget m)"
  then have "batch T m (pg_mutations p) [(c, t)]" by (auto intro: batch_Cons)
  with t(1) show ?thesis by (intro exI [of _ "[(c, t)]"]) simp
qed auto

lemma run_calls_emits:
  "emits (run_calls T org rid m cs p) (\<lambda>r l. \<exists>ps. l = map (call_effect m) ps \<and> batch T m (pg_mutations p) ps \<and>
     length ps \<le> length cs \<and>
     (\<forall>p'. r = Inr (Inr p') \<longrightarrow> length (pg_results p') = length (pg_results p) + length cs))"
proof (induction cs arbitrary: p)
  case Nil
  then show ?case by auto
next
  case (Cons c cs)
  show ?case unfolding run_calls.simps
  proof (rule emits_andthen [OF run_call_emits], goal_cases)
    case (1 e l)
    from one_call_batch [OF this] show ?case by fastforce
  next
    case (2 x l)
    show ?case
    proof (cases x)
      case (Inl res)
      with one_call_batch [OF 2] show ?thesis by fastforce
    next
      case (Inr p1)
      with 2 obtain t out where t: "l = [call_effect m (c, t)]" "authorised T m c t" "p1 = observed c t out p"
        "tl_risk t = MUTATION \<longrightarrow> pg_mutations p < tb_max_mutations (cm_budget m)"
        by (auto simp: one_call_def)
      have p1: "pg_mutations p1 = (if tl_risk t = MUTATION then pg_mutations p + 1 else pg_mutations p)"
        "length (pg_results p1) = length (pg_results p) + 1" by (simp_all add: t(3) observed_def Let_def)
      show ?thesis unfolding Inr sum.case
      proof (rule emits_mono [OF Cons.IH], goal_cases)
        case (1 r l')
        then obtain ps where ps: "l' = map (call_effect m) ps" "batch T m (pg_mutations p1) ps" "length ps \<le> length cs"
          "\<And>p'. r = Inr (Inr p') \<Longrightarrow> length (pg_results p') = length (pg_results p1) + length cs" by blast
        have "batch T m (pg_mutations p) ((c, t) # ps)" using t ps(2) p1(1) by (intro batch_Cons) auto
        with t(1) ps p1(2) show ?case by (intro exI [of _ "(c, t) # ps"]) auto
      qed
    qed
  qed
qed

section \<open>The loop\<close>

lemma decide_emits:
  "emits (decide T m) (\<lambda>r l. (l = [] \<or> l = [Asked m]) \<and> (\<forall>d. r = Inr (Answered d) \<longrightarrow> mk_TurnDecision d = Inr d))"
  by (auto simp: emits_def decide_def mk_TurnDecision_def bindE_Inr_conv split: sum.splits if_splits reply.splits)

lemma require_Inr: "require cs = Inr () \<longleftrightarrow> list_all fst cs"
  by (induction cs rule: require.induct) auto

lemma propose_bounds: "mk_TurnDecision (ProposeTools cs) = Inr d \<Longrightarrow> 1 \<le> length cs \<and> length cs \<le> 4"
  by (auto simp: mk_TurnDecision_def bindE_Inr_conv split: if_splits)

definition bounded_calls :: "engine_env \<Rightarrow> ContextManifest \<Rightarrow> int \<Rightarrow> effect list \<Rightarrow> bool" where
  "bounded_calls T m u l \<longleftrightarrow> (\<exists>ps. filter (\<lambda>e. \<not> is_asked e) l = map (call_effect m) ps \<and> batch T m u ps \<and> length ps \<le> 4)"

lemma bounded_calls_silent [simp]: "filter (\<lambda>e. \<not> is_asked e) l = [] \<Longrightarrow> bounded_calls T m u l"
  unfolding bounded_calls_def by (rule exI [of _ "[]"]) simp

lemma filter_call_effects [simp]:
  "filter (\<lambda>e. \<not> is_asked e) (map (call_effect m) ps) = map (call_effect m) ps" "filter is_asked (map (call_effect m) ps) = []"
  by (induction ps) auto

text \<open>With observations in hand no tool is called any more.\<close>

lemma no_tools_left:
  assumes "cm_available_tools dm = []" "cs \<noteq> []"
  shows "emits (run_calls T org rid dm cs p) (\<lambda>r l. l = [] \<and> (\<forall>p'. r \<noteq> Inr (Inr p')))"
proof -
  obtain c cs' where cs: "cs = c # cs'" using assms(2) by (cases cs) auto
  obtain e where "authorize_call (en_kernel T) (en_catalog T) c dm stage (pg_mutations p) None (en_now T) = Inl (ToolDenied e)"
    using authorize_without_tools [OF assms(1)] by blast
  then have "run_call T org rid dm c p = tool_fault T org rid None ToolIsDenied p" by (simp add: run_call_def)
  then show ?thesis unfolding cs run_calls.simps
    by (auto intro!: emits_andthen [OF tool_fault_ends] split: sum.split)
qed

lemma later_manifest:
  "decision_manifest T m results = Inr dm \<Longrightarrow> results \<noteq> [] \<Longrightarrow> cm_available_tools dm = []"
  by (auto simp: decision_manifest_def sealed_def bindE_Inr_conv)

definition loop_effects :: "engine_env \<Rightarrow> ContextManifest \<Rightarrow> nat \<Rightarrow> int \<Rightarrow> bool \<Rightarrow> effect list \<Rightarrow> bool" where
  "loop_effects T m n u later l \<longleftrightarrow> length (filter is_asked l) \<le> n \<and>
     (\<forall>dm. Asked dm \<in> set l \<longrightarrow> (\<exists>results. decision_manifest T m results = Inr dm)) \<and>
     (if later then filter (\<lambda>e. \<not> is_asked e) l = [] else bounded_calls T m u l)"

lemma loop_effects_silent:
  "l = [] \<or> l = [Asked dm] \<Longrightarrow> decision_manifest T m results = Inr dm \<Longrightarrow> loop_effects T m (Suc n) u later l"
  by (auto simp: loop_effects_def)

lemma loop_effects_asked:
  assumes "l = [] \<or> l = [Asked dm]" "decision_manifest T m results = Inr dm" "loop_effects T m n u later l'"
  shows "loop_effects T m (Suc n) u later (l @ l')"
  using assms by (auto simp: loop_effects_def bounded_calls_def)

lemma loop_effects_called:
  assumes "batch T m u ps" "length ps \<le> 4" "loop_effects T m n v True l'"
  shows "loop_effects T m n u False (map (call_effect m) ps @ l')"
  using assms by (auto simp: loop_effects_def bounded_calls_def image_iff)

lemma turn_loop_emits:
  "emits (turn_loop T org rid duplicate m n p) (\<lambda>_. loop_effects T m n (pg_mutations p) (pg_results p \<noteq> []))"
proof (induction n arbitrary: p)
  case 0
  show ?case unfolding turn_loop.simps by (rule emits_mono [OF quiet_fail_turn]) (simp add: loop_effects_def)
next
  case (Suc n)
  let ?P = "loop_effects T m (Suc n) (pg_mutations p) (pg_results p \<noteq> [])"
  have silent: "emits f (\<lambda>_ l'. loop_effects T m (Suc k) (pg_mutations p) (pg_results p \<noteq> []) (l @ l'))"
    if "l = [] \<or> l = [Asked dm]" "decision_manifest T m (pg_results p) = Inr dm" "quiet f" for f :: "TurnResult eng" and l dm k
    by (rule emits_mono [OF that(3)]) (use loop_effects_silent [OF that(1,2)] in simp)
  have answered: "emits (run_calls T org rid dm cs (p\<lparr>pg_results := []\<rparr>)) (\<lambda>r l'. case r of
       Inr (Inr p') \<Rightarrow> \<forall>k. loop_effects T m n (pg_mutations p') (pg_results p' \<noteq> []) k \<longrightarrow>
         loop_effects T m n (pg_mutations p) (pg_results p \<noteq> []) (l' @ k)
     | _ \<Rightarrow> loop_effects T m n (pg_mutations p) (pg_results p \<noteq> []) l')"
    if "decision_manifest T m (pg_results p) = Inr dm" "mk_TurnDecision (ProposeTools cs) = Inr d" for dm cs d
  proof (cases "pg_results p = []")
    case True
    then have [simp]: "dm = m" using that(1) by (simp add: decision_manifest_def)
    note bounds = propose_bounds [OF that(2)]
    show ?thesis
    proof (rule emits_mono [OF run_calls_emits], goal_cases)
      case (1 r l')
      then obtain ps where ps: "l' = map (call_effect m) ps" "batch T m (pg_mutations p) ps" "length ps \<le> 4"
        and later: "\<And>p'. r = Inr (Inr p') \<Longrightarrow> pg_results p' \<noteq> []"
        using bounds by fastforce
      from ps have "loop_effects T m n (pg_mutations p) False l'" by (auto simp: loop_effects_def bounded_calls_def)
      with ps later True show ?case by (auto intro!: loop_effects_called split: sum.split)
    qed
  next
    case False
    show ?thesis
      by (rule emits_mono [OF no_tools_left [OF later_manifest [OF that(1) False]]])
         (use propose_bounds [OF that(2)] in \<open>auto split: sum.split simp: loop_effects_def\<close>)
  qed
  show ?case unfolding turn_loop.simps
  proof (rule emits_pure_then, goal_cases)
    case 1
    show ?case by (simp add: loop_effects_def)
  next
    case (2 dm)
    note dm = 2
    show ?case
    proof (rule emits_andthen [OF decide_emits], goal_cases)
      case (1 e l)
      then show ?case by (intro loop_effects_silent [OF _ dm]) simp
    next
      case (2 reply l)
      then have l: "l = [] \<or> l = [Asked dm]" and d: "\<And>d. reply = Answered d \<Longrightarrow> mk_TurnDecision d = Inr d" by auto
      show ?case
      proof (cases reply)
        case (Answered d)
        have "emits (case d of ProposeTools calls \<Rightarrow>
             andthen (run_calls T org rid dm calls (p\<lparr>pg_results := []\<rparr>))
               (\<lambda>r. case r of Inl res \<Rightarrow> give res | Inr p' \<Rightarrow> turn_loop T org rid duplicate m n p')
           | _ \<Rightarrow> respond T org rid duplicate d p) (\<lambda>_ l'. ?P (l @ l'))"
        proof (cases "\<exists>cs. d = ProposeTools cs")
          case True
          then obtain cs where cs: "d = ProposeTools cs" by blast
          show ?thesis unfolding cs TurnDecision.case
            by (rule emits_andthen [OF answered [OF dm d [OF Answered, unfolded cs]]])
               (auto intro: loop_effects_asked [OF l dm] intro!: emits_mono [OF Suc.IH] split: sum.splits)
        next
          case False
          then show ?thesis by (cases d) (auto intro!: silent [OF l dm] quiet_respond)
        qed
        then show ?thesis unfolding Answered reply.case
          by (intro emits_andthen [OF quiet_transact]) (auto intro: loop_effects_silent [OF l dm])
      qed (auto intro!: silent [OF l dm] quiet_fail_turn emits_mono [OF Suc.IH] intro: loop_effects_asked [OF l dm])
    qed
  qed
qed

lemma process_emits:
  "emits (process T cmd) (\<lambda>_ l. l = [] \<or> (\<exists>m0 m. context_of T cmd = Inr m0 \<and> with_contracts T m0 = Inr m \<and>
     loop_effects T m (nat (tb_max_model_calls (tm_budget cmd))) 0 False l))"
proof -
  have turn: "emits (andthen (pure_kn (context_of T cmd)) (\<lambda>m0. andthen (pure_kn (with_contracts T m0)) (\<lambda>m.
      andthen (transact T (bind_work T (tm_organization_id cmd) rid m)) (\<lambda>_.
      turn_loop T (tm_organization_id cmd) rid duplicate m (nat (tb_max_model_calls (tm_budget cmd))) no_progress))))
      (\<lambda>_ l. l = [] \<or> (\<exists>m0 m. context_of T cmd = Inr m0 \<and> with_contracts T m0 = Inr m \<and>
     loop_effects T m (nat (tb_max_model_calls (tm_budget cmd))) 0 False l))" for rid duplicate
    by (intro emits_pure_then emits_transact_then emits_mono [OF turn_loop_emits]) (auto simp: no_progress_def)
  show ?thesis unfolding process_def
  proof (rule emits_transact_then, goal_cases)
    case (2 x)
    obtain run duplicate where x: "x = (run, duplicate)" by (cases x)
    show ?case unfolding x prod.case
      by (split if_split, intro conjI impI turn emits_mono [OF quiet_existing_result]) simp
  qed simp
qed

end
