(* ===== verification/TurnJournal.thy ===== *)
theory TurnJournal
  imports TurnEngine Transitions
begin

text \<open>
  The tables under the transactions of turns. Every transaction adds at most one step, one event and one checkpoint,
  numbered without gaps, and adds or changes at most one run and one invocation. \<open>turn_step\<close> interleaves the
  transactions of all turns of all tenants; its invariant and what it keeps are proved once, over these changes.
\<close>

section \<open>Transactions that succeed\<close>

lemma seq_Inr: "seq f g db = Inr (x, db') \<longleftrightarrow> (\<exists>y db1. f db = Inr (y, db1) \<and> g y db1 = Inr (x, db'))"
  by (auto simp: seq_def split: sum.splits)

lemma ret_Inr: "ret x db = Inr (y, db') \<longleftrightarrow> y = x \<and> db' = db"
  by (auto simp: ret_def)

lemma raises_Inr: "raises e db \<noteq> Inr z"
  by (simp add: raises_def)

lemma reads_Inr: "reads f db = Inr (y, db') \<longleftrightarrow> y = f db \<and> db' = db"
  by (auto simp: reads_def)

lemma writes_Inr: "writes f db = Inr (y, db') \<longleftrightarrow> db' = f db"
  by (auto simp: writes_def)

lemma hashes_Inr: "hashes E v db = Inr (h, db') \<longleftrightarrow> db' = db \<and> content_hash (ke_hash E) v = Inr h"
  by (cases "content_hash (ke_hash E) v") (auto simp: hashes_def raises_def ret_def)

lemma new_id_Inr: "new_id uuid prefix db = Inr (i, db') \<longleftrightarrow> i = prefix @ ''_'' @ uuid (cb_drawn db) \<and> db' = db\<lparr>cb_drawn := Suc (cb_drawn db)\<rparr>"
  by (auto simp: new_id_def)

lemma inserts_Inr: "inserts clash f db = Inr (u, db') \<longleftrightarrow> \<not> clash db \<and> db' = f db"
  by (auto simp: inserts_def)

lemmas tj_Inr = seq_Inr ret_Inr raises_Inr reads_Inr writes_Inr hashes_Inr new_id_Inr inserts_Inr

lemma append_step_Inr:
  assumes "append_step E uuid org run kind status payload db = Inr (x, db')"
  shows "db' = db\<lparr>cb_steps := cb_steps db @ [x], cb_drawn := Suc (cb_drawn db)\<rparr>" "st_org x = org" "st_run_id x = ru_id run"
    "st_sequence x = max_key st_sequence (steps_of org (ru_id run) db) + 1" "st_kind x = kind" "st_status x = status"
    "st_payload x = payload"
  using assms by (auto simp: append_step_def tj_Inr Let_def steps_of_def)

lemma append_user_event_Inr:
  assumes "append_user_event uuid org run event db = Inr (x, db')"
  shows "db' = db\<lparr>cb_events := cb_events db @ [x], cb_drawn := Suc (cb_drawn db)\<rparr>" "ev_org x = org" "ev_run_id x = ru_id run"
    "ev_sequence x = max_key ev_sequence (events_of org (ru_id run) db) + 1" "ev_event x = event"
  using assms by (auto simp: append_user_event_def tj_Inr Let_def events_of_def)

lemma checkpoint_Inr:
  assumes "checkpoint E uuid org run view db = Inr (x, db')"
  shows "db' = db\<lparr>cb_checkpoints := cb_checkpoints db @ [x], cb_drawn := Suc (cb_drawn db)\<rparr>" "cc_org x = org" "cc_run_id x = ru_id run"
    "cc_sequence x = max_key cc_sequence (checkpoints_of org (ru_id run) db) + 1" "cc_projection x = view"
    "cc_run_version x = ru_version run"
  using assms by (auto simp: checkpoint_def tj_Inr Let_def checkpoints_of_def)

lemma get_Inr: "get org rid db = Inr (run, db') \<longleftrightarrow> run_of org rid db = Some run \<and> db' = db"
  by (auto simp: get_def tj_Inr split: option.splits)

lemma invocation_in_Inr:
  "invocation_in org iid run db = Inr (iv, db') \<longleftrightarrow> find (\<lambda>i. iv_id i = iid) (invocations_of org (ru_id run) db) = Some iv \<and> db' = db"
  by (auto simp: invocation_in_def snapshot_def tj_Inr split: option.splits)

lemma run_ofD: "run_of org rid db = Some run \<Longrightarrow> run \<in> set (cb_runs db) \<and> ru_org run = org \<and> ru_id run = rid"
  by (auto simp: run_of_def find_Some_iff)

lemma find_invocationD:
  "find P (invocations_of org rid db) = Some iv \<Longrightarrow> iv \<in> set (cb_invocations db) \<and> iv_org iv = org \<and> iv_run_id iv = rid \<and> P iv"
  by (auto simp: find_Some_iff invocations_of_def dest!: nth_mem)

section \<open>Changes of a table\<close>

definition adds :: "('r \<Rightarrow> 'g) \<Rightarrow> ('r \<Rightarrow> int) \<Rightarrow> 'r list \<Rightarrow> 'r list \<Rightarrow> bool" where
  "adds grp num old new \<longleftrightarrow> new = old \<or> (\<exists>r. new = old @ [r] \<and> num r = max_key num (filter (\<lambda>q. grp q = grp r) old) + 1)"

definition numbered :: "('r \<Rightarrow> 'g) \<Rightarrow> ('r \<Rightarrow> int) \<Rightarrow> 'r list \<Rightarrow> bool" where
  "numbered grp num rows \<longleftrightarrow>
     (\<forall>g. map num (filter (\<lambda>r. grp r = g) rows) = map int [1..<Suc (length (filter (\<lambda>r. grp r = g) rows))])"

lemma adds_refl [simp]: "adds grp num rows rows"
  by (simp add: adds_def)

lemma adds_numbered: "adds grp num old new \<Longrightarrow> numbered grp num old \<Longrightarrow> numbered grp num new"
  unfolding adds_def numbered_def
proof (elim disjE exE conjE, simp, intro allI)
  fix r g
  assume old: "\<forall>g. map num (filter (\<lambda>r. grp r = g) old) = map int [1..<Suc (length (filter (\<lambda>r. grp r = g) old))]"
    and new: "new = old @ [r]" "num r = max_key num (filter (\<lambda>q. grp q = grp r) old) + 1"
  show "map num (filter (\<lambda>r. grp r = g) new) = map int [1..<Suc (length (filter (\<lambda>r. grp r = g) new))]"
  proof (cases "grp r = g")
    case True
    then have "num r = int (length (filter (\<lambda>r. grp r = g) old)) + 1"
      using new(2) newest_numbered(2) [OF old [rule_format, of g]] by simp
    then show ?thesis using old [rule_format, of g] True numbered_snoc [of num "filter (\<lambda>r. grp r = g) old" r] new(1) by simp
  qed (use old new(1) in simp)
qed

lemma adds_prefix: "adds grp num old new \<Longrightarrow> \<exists>k. new = old @ k"
  by (auto simp: adds_def)

definition updates :: "('r \<Rightarrow> 'k) \<Rightarrow> ('r \<Rightarrow> 'r \<Rightarrow> bool) \<Rightarrow> ('r \<Rightarrow> 'r \<Rightarrow> bool) \<Rightarrow> ('r \<Rightarrow> bool) \<Rightarrow> 'r list \<Rightarrow> 'r list \<Rightarrow> bool" where
  "updates key clash moves fresh old new \<longleftrightarrow>
     new = old \<or> (\<exists>r. new = old @ [r] \<and> fresh r \<and> (\<forall>q\<in>set old. \<not> clash r q)) \<or>
     (\<exists>r r'. r \<in> set old \<and> moves r r' \<and> new = map (\<lambda>q. if key q = key r then r' else q) old)"

definition unclashing :: "('r \<Rightarrow> 'r \<Rightarrow> bool) \<Rightarrow> 'r list \<Rightarrow> bool" where
  "unclashing clash rows \<longleftrightarrow> sorted_wrt (\<lambda>q r. \<not> clash r q) rows"

definition evolves :: "('r \<Rightarrow> 'r \<Rightarrow> bool) \<Rightarrow> 'r list \<Rightarrow> 'r list \<Rightarrow> bool" where
  "evolves moves old new \<longleftrightarrow> (\<exists>f k. new = map f old @ k \<and> (\<forall>r\<in>set old. moves r (f r)))"

text \<open>
  A table whose rows have a key and only move along a preorder, with keys and clashes that moves do not touch.
\<close>

locale moving_rows =
  fixes key :: "'r \<Rightarrow> 'k"
    and clash :: "'r \<Rightarrow> 'r \<Rightarrow> bool"
    and moves :: "'r \<Rightarrow> 'r \<Rightarrow> bool"
    and fresh :: "'r \<Rightarrow> bool"
    and ok :: "'r \<Rightarrow> bool"
  assumes moves_refl: "moves r r"
    and moves_trans: "moves r s \<Longrightarrow> moves s t \<Longrightarrow> moves r t"
    and moves_key: "moves r s \<Longrightarrow> key s = key r"
    and moves_clash: "moves r r' \<Longrightarrow> moves q q' \<Longrightarrow> clash r' q' = clash r q"
    and key_clash: "key r = key q \<Longrightarrow> clash r q"
    and moves_ok: "moves r s \<Longrightarrow> ok r \<Longrightarrow> ok s"
    and fresh_ok: "fresh r \<Longrightarrow> ok r"
begin

lemma unclashing_same: "unclashing clash rows \<Longrightarrow> q \<in> set rows \<Longrightarrow> r \<in> set rows \<Longrightarrow> key q = key r \<Longrightarrow> q = r"
proof (induction rows)
  case (Cons x rows)
  then have "\<forall>y\<in>set rows. key y \<noteq> key x" using key_clash by (auto simp: unclashing_def)
  with Cons show ?case by (auto simp: unclashing_def)
qed simp

lemma updates_evolves:
  assumes "updates key clash moves fresh old new" "unclashing clash old"
  shows "evolves moves old new"
  using assms(1) unfolding updates_def
proof (elim disjE exE conjE)
  assume "new = old"
  then show ?thesis unfolding evolves_def using moves_refl by (intro exI [of _ id] exI [of _ "[]"]) simp
next
  fix r
  assume "new = old @ [r]"
  then show ?thesis unfolding evolves_def using moves_refl by (intro exI [of _ id] exI [of _ "[r]"]) simp
next
  fix r r'
  assume r: "r \<in> set old" "moves r r'" "new = map (\<lambda>q. if key q = key r then r' else q) old"
  have "moves q (if key q = key r then r' else q)" if "q \<in> set old" for q
    using unclashing_same [OF assms(2) that r(1)] r(2) moves_refl by auto
  then show ?thesis unfolding evolves_def using r(3)
    by (intro exI [of _ "\<lambda>q. if key q = key r then r' else q"] exI [of _ "[]"]) simp
qed

lemma evolves_refl: "evolves moves rows rows"
  unfolding evolves_def using moves_refl by (intro exI [of _ id] exI [of _ "[]"]) simp

lemma evolves_trans: "evolves moves a b \<Longrightarrow> evolves moves b c \<Longrightarrow> evolves moves a c"
  unfolding evolves_def
proof (elim exE conjE)
  fix f k g l
  assume "b = map f a @ k" "\<forall>r\<in>set a. moves r (f r)" "c = map g b @ l" "\<forall>r\<in>set b. moves r (g r)"
  then show "\<exists>f k. c = map f a @ k \<and> (\<forall>r\<in>set a. moves r (f r))"
    by (intro exI [of _ "g \<circ> f"] exI [of _ "map g k @ l"]) (auto intro: moves_trans)
qed

lemma unclashing_map:
  "\<forall>r\<in>set rows. moves r (f r) \<Longrightarrow> unclashing clash (map f rows) = unclashing clash rows"
proof (induction rows)
  case (Cons a rows)
  then have "clash (f x) (f a) = clash x a" if "x \<in> set rows" for x using that by (intro moves_clash) auto
  with Cons show ?case by (auto simp: unclashing_def)
qed (simp add: unclashing_def)

lemma updates_ok:
  assumes "updates key clash moves fresh old new" "unclashing clash old" "list_all ok old"
  shows "unclashing clash new \<and> list_all ok new"
  using assms(1) unfolding updates_def
proof (elim disjE exE conjE)
  fix r
  assume "new = old @ [r]" "fresh r" "\<forall>q\<in>set old. \<not> clash r q"
  then show ?thesis using assms fresh_ok by (auto simp: unclashing_def sorted_wrt_append)
next
  fix r r'
  let ?f = "\<lambda>q. if key q = key r then r' else q"
  assume r: "r \<in> set old" "moves r r'" "new = map ?f old"
  have "\<forall>q\<in>set old. moves q (?f q)"
    using unclashing_same [OF assms(2) _ r(1)] r(2) moves_refl by auto
  then show ?thesis using assms(2,3) r(3) unclashing_map [of old ?f] moves_ok by (auto simp: list_all_iff)
qed (use assms in simp)

lemma evolves_mem: "evolves moves old new \<Longrightarrow> r \<in> set old \<Longrightarrow> \<exists>r'\<in>set new. moves r r'"
  by (auto simp: evolves_def)

end

section \<open>Runs and invocations\<close>

definition bound_run :: "CognitiveRun \<Rightarrow> bool" where
  "bound_run r \<longleftrightarrow> ru_manifest_hash r \<noteq> None"

definition settled :: "CognitiveRun \<Rightarrow> bool" where
  "settled r \<longleftrightarrow> terminal (ru_status r) \<and> bound_run r"

definition answered_status :: "RunStatus \<Rightarrow> bool" where
  "answered_status s \<longleftrightarrow> s \<in> {RunStatus.COMPLETED, RunStatus.FAILED, WAITING}"

definition same_request :: "CognitiveRun \<Rightarrow> CognitiveRun \<Rightarrow> bool" where
  "same_request r r' \<longleftrightarrow> ru_id r' = ru_id r \<and> ru_org r' = ru_org r \<and> ru_principal r' = ru_principal r \<and>
     ru_actor_id r' = ru_actor_id r \<and> ru_conversation_id r' = ru_conversation_id r \<and> ru_turn_id r' = ru_turn_id r \<and>
     ru_idempotency_key r' = ru_idempotency_key r \<and> ru_purpose r' = ru_purpose r \<and> ru_input_text r' = ru_input_text r \<and>
     ru_input_hash r' = ru_input_hash r \<and> ru_budget r' = ru_budget r"

definition run_moves :: "CognitiveRun \<Rightarrow> CognitiveRun \<Rightarrow> bool" where
  "run_moves r r' \<longleftrightarrow> same_request r r' \<and> ru_version r \<le> ru_version r' \<and>
     (bound_run r \<longrightarrow> ru_manifest_hash r' = ru_manifest_hash r) \<and>
     (settled r \<longrightarrow> ru_status r' = ru_status r \<and> ru_failure_code r' = ru_failure_code r \<and> ru_cancelled_at r' = ru_cancelled_at r) \<and>
     (answered_status (ru_status r') \<longrightarrow> bound_run r' \<or> ru_status r' = ru_status r)"

definition run_ok :: "CognitiveRun \<Rightarrow> bool" where
  "run_ok r \<longleftrightarrow> (answered_status (ru_status r) \<longrightarrow> bound_run r)"

definition fresh_run :: "CognitiveRun \<Rightarrow> bool" where
  "fresh_run r \<longleftrightarrow> ru_status r = CAPTURED \<and> ru_manifest_hash r = None \<and> ru_version r = 1"

definition same_call :: "CognitiveToolInvocation \<Rightarrow> CognitiveToolInvocation \<Rightarrow> bool" where
  "same_call i j \<longleftrightarrow> iv_id i = iv_id j \<or> iv_org i = iv_org j \<and> iv_run_id i = iv_run_id j \<and> iv_call_id i = iv_call_id j"

definition invocation_moves :: "CognitiveToolInvocation \<Rightarrow> CognitiveToolInvocation \<Rightarrow> bool" where
  "invocation_moves i j \<longleftrightarrow> iv_id j = iv_id i \<and> iv_org j = iv_org i \<and> iv_run_id j = iv_run_id i \<and> iv_call_id j = iv_call_id i \<and>
     iv_tool_name j = iv_tool_name i \<and> iv_contract_version j = iv_contract_version i \<and> iv_risk j = iv_risk i \<and>
     iv_arguments j = iv_arguments i \<and> iv_arguments_hash j = iv_arguments_hash i \<and>
     (iv_status i = INVOCATION_COMPLETED \<longrightarrow> j = i) \<and>
     (iv_status j = INVOCATION_COMPLETED \<longrightarrow> iv_output j \<noteq> None \<or> j = i)"

definition invocation_ok :: "CognitiveToolInvocation \<Rightarrow> bool" where
  "invocation_ok i \<longleftrightarrow> (iv_status i = INVOCATION_COMPLETED \<longrightarrow> iv_output i \<noteq> None)"

definition fresh_invocation :: "CognitiveToolInvocation \<Rightarrow> bool" where
  "fresh_invocation i \<longleftrightarrow> iv_status i \<in> {REQUESTED, AUTHORIZED}"

interpretation runs: moving_rows ru_id same_turn run_moves fresh_run run_ok
proof
  show "run_moves r t" if "run_moves r s" "run_moves s t" for r s t
    using that unfolding run_moves_def same_request_def settled_def bound_run_def by auto
  show "same_turn r' q' = same_turn r q" if "run_moves r r'" "run_moves q q'" for r r' q q'
    using that by (auto simp: run_moves_def same_request_def same_turn_def)
  show "run_ok s" if "run_moves r s" "run_ok r" for r s
    using that by (auto simp: run_moves_def run_ok_def bound_run_def)
qed (auto simp: run_moves_def same_request_def same_turn_def fresh_run_def run_ok_def answered_status_def)

interpretation invocations: moving_rows iv_id same_call invocation_moves fresh_invocation invocation_ok
proof
  show "invocation_moves r t" if "invocation_moves r s" "invocation_moves s t" for r s t
    using that unfolding invocation_moves_def by auto
qed (auto simp: invocation_moves_def same_call_def invocation_ok_def fresh_invocation_def)

section \<open>One transaction\<close>

definition step_group :: "CognitiveStep \<Rightarrow> string \<times> string" where
  "step_group s = (st_org s, st_run_id s)"

definition event_group :: "CognitiveUserEvent \<Rightarrow> string \<times> string" where
  "event_group e = (ev_org e, ev_run_id e)"

definition checkpoint_group :: "CognitiveCheckpoint \<Rightarrow> string \<times> string" where
  "checkpoint_group c = (cc_org c, cc_run_id c)"

definition turn_change :: "cdb \<Rightarrow> cdb \<Rightarrow> bool" where
  "turn_change db db' \<longleftrightarrow>
     adds step_group st_sequence (cb_steps db) (cb_steps db') \<and>
     adds event_group ev_sequence (cb_events db) (cb_events db') \<and>
     adds checkpoint_group cc_sequence (cb_checkpoints db) (cb_checkpoints db') \<and>
     updates ru_id same_turn run_moves fresh_run (cb_runs db) (cb_runs db') \<and>
     updates iv_id same_call invocation_moves fresh_invocation (cb_invocations db) (cb_invocations db')"

definition journal_inv :: "cdb \<Rightarrow> bool" where
  "journal_inv db \<longleftrightarrow>
     numbered step_group st_sequence (cb_steps db) \<and> numbered event_group ev_sequence (cb_events db) \<and>
     numbered checkpoint_group cc_sequence (cb_checkpoints db) \<and>
     (unclashing same_turn (cb_runs db) \<and> list_all run_ok (cb_runs db)) \<and>
     (unclashing same_call (cb_invocations db) \<and> list_all invocation_ok (cb_invocations db))"

definition journal_evolves :: "cdb \<Rightarrow> cdb \<Rightarrow> bool" where
  "journal_evolves db db' \<longleftrightarrow>
     (\<exists>k. cb_steps db' = cb_steps db @ k) \<and> (\<exists>k. cb_events db' = cb_events db @ k) \<and>
     (\<exists>k. cb_checkpoints db' = cb_checkpoints db @ k) \<and>
     evolves run_moves (cb_runs db) (cb_runs db') \<and> evolves invocation_moves (cb_invocations db) (cb_invocations db')"

lemma turn_change_inv: "turn_change db db' \<Longrightarrow> journal_inv db \<Longrightarrow> journal_inv db'"
  unfolding turn_change_def journal_inv_def by (auto intro: adds_numbered dest: runs.updates_ok invocations.updates_ok)

lemma turn_change_evolves: "turn_change db db' \<Longrightarrow> journal_inv db \<Longrightarrow> journal_evolves db db'"
  unfolding turn_change_def journal_inv_def journal_evolves_def
  by (auto intro: adds_prefix runs.updates_evolves invocations.updates_evolves)

lemma adds_step: "append_step E uuid org run kind status payload db = Inr (x, db') \<Longrightarrow>
  adds step_group st_sequence (cb_steps db) (cb_steps db @ [x])"
  by (frule append_step_Inr(2), frule append_step_Inr(3), drule append_step_Inr(4)) (simp add: adds_def step_group_def steps_of_def)

lemma adds_event: "append_user_event uuid org run event db = Inr (x, db') \<Longrightarrow>
  adds event_group ev_sequence (cb_events db) (cb_events db @ [x])"
  by (frule append_user_event_Inr(2), frule append_user_event_Inr(3), drule append_user_event_Inr(4)) (simp add: adds_def event_group_def events_of_def)

lemma adds_checkpoint: "checkpoint E uuid org run view db = Inr (x, db') \<Longrightarrow>
  adds checkpoint_group cc_sequence (cb_checkpoints db) (cb_checkpoints db @ [x])"
  by (frule checkpoint_Inr(2), frule checkpoint_Inr(3), drule checkpoint_Inr(4)) (simp add: adds_def checkpoint_group_def checkpoints_of_def)

lemma updates_refl [simp]: "updates key clash moves fresh rows rows"
  by (simp add: updates_def)

lemma updates_run:
  assumes "run \<in> set (cb_runs db)" "run_moves run run'"
  shows "updates ru_id same_turn run_moves fresh_run (cb_runs db) (map (\<lambda>r. if ru_id r = ru_id run then run' else r) (cb_runs db))"
  using assms by (auto simp: updates_def)

lemma updates_invocation:
  assumes "iv \<in> set (cb_invocations db)" "invocation_moves iv iv'"
  shows "updates iv_id same_call invocation_moves fresh (cb_invocations db)
    (map (\<lambda>i. if iv_id i = iv_id iv then iv' else i) (cb_invocations db))"
  using assms by (auto simp: updates_def)

section \<open>The transactions of a turn\<close>

abbreviation put_run :: "CognitiveRun \<Rightarrow> cdb \<Rightarrow> CognitiveRun list" where
  "put_run run db \<equiv> map (\<lambda>r. if ru_id r = ru_id run then run else r) (cb_runs db)"

abbreviation put_invocation :: "CognitiveToolInvocation \<Rightarrow> cdb \<Rightarrow> CognitiveToolInvocation list" where
  "put_invocation iv db \<equiv> map (\<lambda>i. if iv_id i = iv_id iv then iv else i) (cb_invocations db)"

abbreviation request_payload :: "TurnCommand \<Rightarrow> pyval" where
  "request_payload cmd \<equiv> capture_payload (principal_value (tm_principal cmd)) (tm_actor_id cmd) (tm_conversation_id cmd)
     (tm_turn_id cmd) (tm_purpose cmd) (tm_message cmd)"

lemma capture_work_Inr:
  assumes "capture_work T cmd db = Inr ((run, duplicate), db')"
  obtains (old) "keyed_run (tm_organization_id cmd) (tm_actor_id cmd) (tm_idempotency_key cmd) db = Some run" "duplicate" "db' = db"
      "content_hash (ke_hash (en_kernel T)) (request_payload cmd) = Inr (ru_input_hash run)"
    | (new) s e where "keyed_run (tm_organization_id cmd) (tm_actor_id cmd) (tm_idempotency_key cmd) db = None" "\<not> duplicate"
      "content_hash (ke_hash (en_kernel T)) (request_payload cmd) = Inr (ru_input_hash run)" "fresh_run run"
      "ru_org run = tm_organization_id cmd" "ru_actor_id run = tm_actor_id cmd" "ru_idempotency_key run = tm_idempotency_key cmd"
      "\<forall>r\<in>set (cb_runs db). \<not> same_turn run r"
      "cb_runs db' = cb_runs db @ [run]" "cb_steps db' = cb_steps db @ [s]" "cb_events db' = cb_events db @ [e]"
      "cb_checkpoints db' = cb_checkpoints db" "cb_invocations db' = cb_invocations db"
      "adds step_group st_sequence (cb_steps db) (cb_steps db @ [s])" "adds event_group ev_sequence (cb_events db) (cb_events db @ [e])"
proof (cases "keyed_run (tm_organization_id cmd) (tm_actor_id cmd) (tm_idempotency_key cmd) db")
  case (Some run')
  with assms show ?thesis
    by (intro old) (auto simp: capture_work_def capture_def tj_Inr split: if_splits)
next
  case None
  from None assms obtain h db1 db2 s e where run: "content_hash (ke_hash (en_kernel T)) (request_payload cmd) = Inr h"
      "\<not> list_ex (same_turn run) (cb_runs db)" "\<not> duplicate"
      "db1 = db\<lparr>cb_drawn := Suc (cb_drawn db), cb_runs := cb_runs db @ [run]\<rparr>"
      "append_step (en_kernel T) (en_uuid T) (tm_organization_id cmd) run INPUT RECORDED (InputTaken h) db1 = Inr (s, db2)"
      "append_user_event (en_uuid T) (tm_organization_id cmd) run (user_event message_received ''Your message is saved.'') db2 =
        Inr (e, db')"
      "fresh_run run" "ru_org run = tm_organization_id cmd" "ru_actor_id run = tm_actor_id cmd"
      "ru_idempotency_key run = tm_idempotency_key cmd" "ru_input_hash run = h"
    by (auto simp: capture_work_def capture_def tj_Inr Let_def fresh_run_def)
  note added = append_step_Inr(1) [OF run(5)] adds_step [OF run(5)] append_user_event_Inr(1) [OF run(6)] adds_event [OF run(6)]
  show ?thesis by (rule new [OF None run(3)]) (use run added in \<open>auto simp: list_ex_iff\<close>)
qed

lemma bind_work_Inr:
  assumes "bind_work T org rid m db = Inr (x, db')"
  obtains (unbound) run h where "run_of org rid db = Some run" "ru_manifest_hash run = None"
      "db' = db\<lparr>cb_runs := put_run (run\<lparr>ru_manifest_hash := Some h, ru_status := DECIDING, ru_version := ru_version run + 1\<rparr>) db\<rparr>"
    | (bound) run h where "run_of org rid db = Some run" "ru_manifest_hash run = Some h" "db' = db"
proof -
  from assms obtain run where run: "run_of org rid db = Some run" by (auto simp: bind_work_def tj_Inr get_Inr)
  show ?thesis
  proof (cases "ru_manifest_hash run")
    case None
    with assms run have "bind_manifest (en_kernel T) run m db = Inr (x, db')" by (auto simp: bind_work_def tj_Inr get_Inr)
    then show ?thesis
      using unbound [OF run None] by (auto simp: bind_manifest_def update_run_def tj_Inr split: option.splits sum.splits if_splits)
  next
    case (Some h)
    then show ?thesis using assms run by (intro bound [OF run Some]) (auto simp: bind_work_def tj_Inr get_Inr split: if_splits)
  qed
qed

lemma decision_work_Inr:
  assumes "decision_work T org rid d db = Inr (x, db')"
  obtains run s c where "run_of org rid db = Some run" "cb_runs db' = put_run (run\<lparr>ru_version := ru_version run + 1\<rparr>) db"
    "cb_steps db' = cb_steps db @ [s]" "cb_checkpoints db' = cb_checkpoints db @ [c]" "cb_events db' = cb_events db"
    "cb_invocations db' = cb_invocations db" "st_payload s = DecisionTaken d"
    "adds step_group st_sequence (cb_steps db) (cb_steps db @ [s])"
    "adds checkpoint_group cc_sequence (cb_checkpoints db) (cb_checkpoints db @ [c])"
proof -
  from assms obtain run s db1 db2 c where w: "run_of org rid db = Some run"
    "append_step (en_kernel T) (en_uuid T) org run DECISION RECORDED (DecisionTaken d) db = Inr (s, db1)"
    "db2 = db1\<lparr>cb_runs := put_run (run\<lparr>ru_version := ru_version run + 1\<rparr>) db1\<rparr>"
    "checkpoint (en_kernel T) (en_uuid T) org (run\<lparr>ru_version := ru_version run + 1\<rparr>) (LastDecision d) db2 = Inr (c, db')"
    by (auto simp: decision_work_def record_decision_def update_run_def tj_Inr get_Inr Let_def)
  note s = append_step_Inr [OF w(2)] adds_step [OF w(2)] and c = checkpoint_Inr(1) [OF w(4)] adds_checkpoint [OF w(4)]
  show ?thesis by (rule that [OF w(1), of s c]) (use w(3) s c in auto)
qed

lemma authorize_work_Inr:
  assumes "authorize_work T org rid call t db = Inr (iid, db')"
  obtains run where "run_of org rid db = Some run" "cb_runs db' = cb_runs db" "cb_steps db' = cb_steps db"
    "cb_events db' = cb_events db" "cb_checkpoints db' = cb_checkpoints db"
    "updates iv_id same_call invocation_moves fresh_invocation (cb_invocations db) (cb_invocations db')"
proof -
  from assms obtain run iv db1 where w: "run_of org rid db = Some run"
    "request_tool (en_kernel T) (en_uuid T) org run call (tl_risk t) db = Inr (iv, db1)" "authorize_tool iv db1 = Inr ((), db')"
    by (auto simp: authorize_work_def tj_Inr get_Inr)
  have auth: "cb_runs db' = cb_runs db1 \<and> cb_steps db' = cb_steps db1 \<and> cb_events db' = cb_events db1 \<and>
      cb_checkpoints db' = cb_checkpoints db1 \<and>
      cb_invocations db' = (if iv_status iv = REQUESTED then put_invocation (iv\<lparr>iv_status := AUTHORIZED\<rparr>) db1 else cb_invocations db1)"
    using w(3) by (auto simp: authorize_tool_def update_invocation_def tj_Inr split: if_splits)
  show ?thesis
  proof (cases "find (\<lambda>i. iv_call_id i = tc_call_id call) (invocations_of org (ru_id run) db)")
    case (Some i)
    then have "db1 = db" "iv = i" using w(2) by (auto simp: request_tool_def tj_Inr split: if_splits)
    moreover have "i \<in> set (cb_invocations db)" using find_invocationD [OF Some] by blast
    then have "updates iv_id same_call invocation_moves fresh (cb_invocations db) (put_invocation (i\<lparr>iv_status := AUTHORIZED\<rparr>) db)"
      if "iv_status i = REQUESTED" for fresh
      using that by (auto intro!: updates_invocation simp: invocation_moves_def)
    ultimately show ?thesis using auth by (intro that [OF w(1)]) auto
  next
    case None
    then have db1: "cb_runs db1 = cb_runs db" "cb_steps db1 = cb_steps db" "cb_events db1 = cb_events db"
        "cb_checkpoints db1 = cb_checkpoints db" "cb_invocations db1 = cb_invocations db @ [iv]"
      and iv: "iv_status iv = REQUESTED" "iv_org iv = org" "iv_run_id iv = ru_id run" "iv_call_id iv = tc_call_id call"
        "iv_id iv \<notin> iv_id ` set (cb_invocations db)"
      using w(2) by (auto simp: request_tool_def tj_Inr Let_def)
    let ?iv = "iv\<lparr>iv_status := AUTHORIZED\<rparr>"
    have "put_invocation ?iv db1 = cb_invocations db @ [?iv]" using db1 iv(5) map_update_id [of "iv_id iv" iv_id "cb_invocations db" "\<lambda>_. ?iv"] by simp
    moreover have "\<not> same_call ?iv q" if "q \<in> set (cb_invocations db)" for q
      using find_NoneD [OF None, of q] that iv by (auto simp: same_call_def invocations_of_def)
    ultimately show ?thesis using auth db1 iv(1) by (intro that [OF w(1)]) (auto simp: updates_def fresh_invocation_def)
  qed
qed

lemma complete_work_Inr:
  assumes "complete_work T org rid iid t out db = Inr (x, db')"
  obtains run s c where "run_of org rid db = Some run" "cb_runs db' = cb_runs db" "cb_steps db' = cb_steps db @ [s]"
    "cb_events db' = cb_events db" "cb_checkpoints db' = cb_checkpoints db @ [c]" "message_in (st_payload s) = None"
    "adds step_group st_sequence (cb_steps db) (cb_steps db @ [s])"
    "adds checkpoint_group cc_sequence (cb_checkpoints db) (cb_checkpoints db @ [c])"
    "updates iv_id same_call invocation_moves fresh_invocation (cb_invocations db) (cb_invocations db')"
proof -
  from assms obtain run iv iv' db1 s db2 c where w: "run_of org rid db = Some run"
    "find (\<lambda>i. iv_id i = iid) (invocations_of org (ru_id run) db) = Some iv" "complete_tool (en_kernel T) iv out db = Inr (iv', db1)"
    "append_step (en_kernel T) (en_uuid T) org run TOOL_RESULT STEP_COMPLETED (ResultTaken (tl_name t) (iv_output_hash iv')) db1 = Inr (s, db2)"
    "checkpoint (en_kernel T) (en_uuid T) org run (CompletedTool (tl_name t)) db2 = Inr (c, db')"
    by (auto simp: complete_work_def tj_Inr get_Inr invocation_in_Inr)
  have iv: "iv \<in> set (cb_invocations db)" using find_invocationD [OF w(2)] by blast
  have db1: "cb_runs db1 = cb_runs db" "cb_steps db1 = cb_steps db" "cb_events db1 = cb_events db"
    "cb_checkpoints db1 = cb_checkpoints db"
    "updates iv_id same_call invocation_moves fresh_invocation (cb_invocations db) (cb_invocations db1)"
    using w(3) by (auto simp: complete_tool_def tj_Inr Let_def update_invocation_def invocation_moves_def
        split: if_splits intro!: updates_invocation [OF iv])
  note s = append_step_Inr [OF w(4)] adds_step [OF w(4)] and c = checkpoint_Inr(1) [OF w(5)] adds_checkpoint [OF w(5)]
  show ?thesis
    by (rule that [OF w(1), of s c]) (use db1 s c in auto)
qed

lemma fail_tool_work_Inr:
  assumes "fail_tool_work org rid iid code db = Inr (x, db')"
  obtains run where "run_of org rid db = Some run" "cb_runs db' = cb_runs db" "cb_steps db' = cb_steps db"
    "cb_events db' = cb_events db" "cb_checkpoints db' = cb_checkpoints db"
    "updates iv_id same_call invocation_moves fresh_invocation (cb_invocations db) (cb_invocations db')"
proof -
  from assms obtain run iv where w: "run_of org rid db = Some run"
    "find (\<lambda>i. iv_id i = iid) (invocations_of org (ru_id run) db) = Some iv" "fail_tool iv code db = Inr (x, db')"
    by (auto simp: fail_tool_work_def tj_Inr get_Inr invocation_in_Inr)
  have iv: "iv \<in> set (cb_invocations db)" using find_invocationD [OF w(2)] by blast
  show ?thesis using w(3)
    by (intro that [OF w(1)]) (auto simp: fail_tool_def update_invocation_def tj_Inr invocation_moves_def
        split: if_splits intro!: updates_invocation [OF iv])
qed

lemma finish_work_Inr:
  assumes "finish_work T org rid c d db = Inr (x, db')"
  obtains (ended) run k where "run_of org rid db = Some run" "terminal (ru_status run)" "cb_runs db' = cb_runs db"
      "cb_steps db' = cb_steps db" "cb_events db' = cb_events db" "cb_invocations db' = cb_invocations db"
      "cb_checkpoints db' = cb_checkpoints db @ [k]" "adds checkpoint_group cc_sequence (cb_checkpoints db) (cb_checkpoints db @ [k])"
    | (answered) run k s e where "run_of org rid db = Some run" "\<not> terminal (ru_status run)"
      "cb_runs db' = put_run (run\<lparr>ru_status := co_terminal_status c, ru_failure_code := decision_code d,
        ru_version := ru_version run + 1\<rparr>) db"
      "cb_steps db' = cb_steps db @ [s]" "cb_events db' = cb_events db @ [e]" "cb_invocations db' = cb_invocations db"
      "cb_checkpoints db' = cb_checkpoints db @ [k]" "adds checkpoint_group cc_sequence (cb_checkpoints db) (cb_checkpoints db @ [k])"
      "adds step_group st_sequence (cb_steps db) (cb_steps db @ [s])" "adds event_group ev_sequence (cb_events db) (cb_events db @ [e])"
      "st_payload s = MessageGiven (co_message c) (decision_code d)" "st_org s = org" "st_run_id s = rid"
proof -
  from assms obtain run run' db1 k where w: "run_of org rid db = Some run"
    "finish (en_kernel T) (en_uuid T) org run (co_terminal_status c) (co_message c) (co_event c) (decision_code d) db = Inr (run', db1)"
    "checkpoint (en_kernel T) (en_uuid T) org run' (StatusReached (co_terminal_status c)) db1 = Inr (k, db')"
    by (auto simp: finish_work_def tj_Inr get_Inr)
  note k = checkpoint_Inr(1) [OF w(3)] adds_checkpoint [OF w(3)]
  show ?thesis
  proof (cases "terminal (ru_status run)")
    case True
    then have "db1 = db" using w(2) by (simp add: finish_def tj_Inr)
    with k show ?thesis by (intro ended [OF w(1) True, of k]) auto
  next
    case False
    let ?run = "run\<lparr>ru_status := co_terminal_status c, ru_failure_code := decision_code d, ru_version := ru_version run + 1\<rparr>"
    from False w(2) obtain kind status s db2 e db3 where
      s: "append_step (en_kernel T) (en_uuid T) org run kind status (MessageGiven (co_message c) (decision_code d)) db = Inr (s, db2)"
      and e: "append_user_event (en_uuid T) org run (co_event c) db2 = Inr (e, db3)"
      and db1: "db1 = db3\<lparr>cb_runs := put_run ?run db3\<rparr>"
      by (auto simp: finish_def tj_Inr Let_def update_run_def)
    note facts = append_step_Inr [OF s] adds_step [OF s] append_user_event_Inr(1) [OF e] adds_event [OF e]
    show ?thesis
      by (rule answered [OF w(1) False, of s e k]) (use facts k db1 run_ofD [OF w(1)] in auto)
  qed
qed

lemma cancel_work_Inr:
  assumes "cancel_work T now org rid db = Inr (x, db')"
  obtains (ignored) run where "run_of org rid db = Some run" "ru_status run = RunStatus.CANCELLED" "db' = db"
    | (late) run e where "run_of org rid db = Some run" "terminal (ru_status run)" "ru_status run \<noteq> RunStatus.CANCELLED"
      "db' = db\<lparr>cb_events := cb_events db @ [e], cb_drawn := Suc (cb_drawn db)\<rparr>"
      "adds event_group ev_sequence (cb_events db) (cb_events db @ [e])"
      "ev_event e = user_event could_not_complete ''This work was cancelled.''"
    | (cancelled) run e where "run_of org rid db = Some run" "\<not> terminal (ru_status run)"
      "cb_runs db' = put_run (run\<lparr>ru_status := RunStatus.CANCELLED, ru_cancelled_at := Some now,
        ru_version := ru_version run + 1\<rparr>) db"
      "cb_steps db' = cb_steps db" "cb_checkpoints db' = cb_checkpoints db" "cb_invocations db' = cb_invocations db"
      "cb_events db' = cb_events db @ [e]" "adds event_group ev_sequence (cb_events db) (cb_events db @ [e])"
proof -
  from assms obtain run where run: "run_of org rid db = Some run" by (auto simp: cancel_work_def tj_Inr get_Inr)
  show ?thesis
  proof (cases "ru_status run = RunStatus.CANCELLED")
    case True
    with assms run show ?thesis by (intro ignored [OF run True]) (auto simp: cancel_work_def tj_Inr get_Inr)
  next
    case False
    with assms run obtain db1 e where w: "cancel now run db = Inr ((), db1)"
      "append_user_event (en_uuid T) org run (user_event could_not_complete ''This work was cancelled.'') db1 = Inr (e, db')"
      by (auto simp: cancel_work_def tj_Inr get_Inr)
    note e = append_user_event_Inr [OF w(2)] adds_event [OF w(2)]
    show ?thesis
    proof (cases "terminal (ru_status run)")
      case True
      then have "db1 = db" using w(1) by (simp add: cancel_def tj_Inr)
      with e show ?thesis by (intro late [OF run True False, of e]) auto
    next
      case 1: False
      then have db1: "db1 = db\<lparr>cb_runs := put_run (run\<lparr>ru_status := RunStatus.CANCELLED, ru_cancelled_at := Some now,
          ru_version := ru_version run + 1\<rparr>) db\<rparr>" using w(1) by (simp add: cancel_def update_run_def tj_Inr)
      show ?thesis by (rule cancelled [OF run 1, of e]) (use e db1 in auto)
    qed
  qed
qed

section \<open>Interleaved turns\<close>

inductive turn_step :: "engine_env \<Rightarrow> cdb \<Rightarrow> cdb \<Rightarrow> bool" for T where
  captured: "capture_work T cmd db = Inr (x, db') \<Longrightarrow> turn_step T db db'"
| bound: "bind_work T org rid m db = Inr (x, db') \<Longrightarrow> turn_step T db db'"
| decided: "decision_work T org rid d db = Inr (x, db') \<Longrightarrow> turn_step T db db'"
| tool_authorized: "authorize_work T org rid call t db = Inr (x, db') \<Longrightarrow> turn_step T db db'"
| tool_completed: "complete_work T org rid iid t out db = Inr (x, db') \<Longrightarrow> turn_step T db db'"
| tool_failed: "fail_tool_work org rid iid code db = Inr (x, db') \<Longrightarrow> turn_step T db db'"
| finished: "finish_work T org rid c d db = Inr (x, db') \<Longrightarrow> run_of org rid db = Some run \<Longrightarrow> bound_run run \<Longrightarrow> turn_step T db db'"
| cancelled: "cancel_work T now org rid db = Inr (x, db') \<Longrightarrow> turn_step T db db'"

lemma run_moves_intros:
  "run_moves r (r\<lparr>ru_version := ru_version r + 1\<rparr>)"
  "ru_manifest_hash r = None \<Longrightarrow>
     run_moves r (r\<lparr>ru_manifest_hash := Some h, ru_status := DECIDING, ru_version := ru_version r + 1\<rparr>)"
  "\<not> terminal (ru_status r) \<Longrightarrow> bound_run r \<Longrightarrow>
     run_moves r (r\<lparr>ru_status := st, ru_failure_code := code, ru_version := ru_version r + 1\<rparr>)"
  "\<not> terminal (ru_status r) \<Longrightarrow>
     run_moves r (r\<lparr>ru_status := RunStatus.CANCELLED, ru_cancelled_at := Some now, ru_version := ru_version r + 1\<rparr>)"
  by (auto simp: run_moves_def same_request_def settled_def bound_run_def answered_status_def)

lemma turn_step_change: "turn_step T db db' \<Longrightarrow> turn_change db db'"
proof (induction rule: turn_step.induct)
  case (captured cmd db x db')
  obtain run duplicate where x: "x = (run, duplicate)" by (cases x)
  from captured [unfolded x] show ?case
    by (cases rule: capture_work_Inr) (auto simp: turn_change_def updates_def)
next
  case (bound org rid m db x db')
  then show ?case
    by (cases rule: bind_work_Inr) (auto simp: turn_change_def intro!: updates_run run_moves_intros dest: run_ofD)
next
  case (decided org rid d db x db')
  then show ?case
    by (cases rule: decision_work_Inr) (auto simp: turn_change_def intro!: updates_run run_moves_intros dest: run_ofD)
next
  case (finished org rid c d db x db' run)
  from finished(1) show ?case
    by (cases rule: finish_work_Inr)
       (use finished(2,3) in \<open>auto simp: turn_change_def intro!: updates_run run_moves_intros dest: run_ofD\<close>)
next
  case (cancelled now org rid db x db')
  then show ?case
    by (cases rule: cancel_work_Inr) (auto simp: turn_change_def intro!: updates_run run_moves_intros dest: run_ofD)
next
  case (tool_authorized org rid call t db x db')
  then show ?case by (cases rule: authorize_work_Inr) (auto simp: turn_change_def)
next
  case (tool_completed org rid iid t out db x db')
  then show ?case by (cases rule: complete_work_Inr) (auto simp: turn_change_def)
next
  case (tool_failed org rid iid code db x db')
  then show ?case by (cases rule: fail_tool_work_Inr) (auto simp: turn_change_def)
qed

interpretation journal: evolving_system "turn_step T" journal_inv journal_evolves for T
proof
  show "journal_inv t" if "turn_step T s t" "journal_inv s" for s t
    using that turn_step_change turn_change_inv by blast
  show "journal_evolves s t" if "turn_step T s t" "journal_inv s" for s t
    using that turn_step_change turn_change_evolves by blast
  show "journal_evolves s s" for s
    by (auto simp: journal_evolves_def runs.evolves_refl invocations.evolves_refl)
  show "journal_evolves s u" if "journal_evolves s t" "journal_evolves t u" for s t u
    using that unfolding journal_evolves_def by (auto intro: runs.evolves_trans invocations.evolves_trans)
qed

end
