(* ===== verification/TurnRuns.thy ===== *)
theory TurnRuns
  imports TurnEffects TurnJournal
begin

text \<open>
  Whole turns on the tables. \<open>guided T I f Q\<close> says that from tables with \<open>I\<close> the part \<open>f\<close> of a turn only takes steps of
  \<open>turn_step\<close>, those of other processes included, and that \<open>Q\<close> holds of its result. The locale \<open>turn_guard\<close> states what the loop
  of a turn needs of the assertion that it keeps; it is interpreted for turns among other processes that take steps of their own,
  and for a turn that has the tables for itself.
\<close>

section \<open>Rules\<close>

definition guided :: "engine_env \<Rightarrow> (cdb \<Rightarrow> bool) \<Rightarrow> 'a eng \<Rightarrow> ('a \<Rightarrow> cdb \<Rightarrow> bool) \<Rightarrow> bool" where
  "guided T I f Q \<longleftrightarrow> (\<forall>s r s'. f s = (r, s') \<longrightarrow> I (eg_db s) \<longrightarrow>
     (turn_step T)\<^sup>*\<^sup>* (eg_db s) (eg_db s') \<and> (\<forall>x. r = Inr x \<longrightarrow> Q x (eg_db s')))"

lemma guided_mono: "guided T I f Q \<Longrightarrow> (\<And>x db. Q x db \<Longrightarrow> R x db) \<Longrightarrow> guided T I f R"
  unfolding guided_def by blast

lemma guided_give: "(\<And>db. I db \<Longrightarrow> Q x db) \<Longrightarrow> guided T I (give x) Q"
  by (auto simp: guided_def give_def)

lemma guided_pure_kn: "(\<And>y db. x = Inr y \<Longrightarrow> I db \<Longrightarrow> Q y db) \<Longrightarrow> guided T I (pure_kn x) Q"
  by (cases x) (auto simp: guided_def pure_kn_def)

lemma guided_andthen:
  assumes f: "guided T I f Q" and g: "\<And>x. guided T (Q x) (g x) R"
  shows "guided T I (andthen f g) R"
  unfolding guided_def
proof (intro allI impI)
  fix s r s'
  assume run: "andthen f g s = (r, s')" and I: "I (eg_db s)"
  obtain r1 s1 where f1: "f s = (r1, s1)" by (cases "f s")
  note q = f [unfolded guided_def, rule_format, OF f1 I]
  show "(turn_step T)\<^sup>*\<^sup>* (eg_db s) (eg_db s') \<and> (\<forall>x. r = Inr x \<longrightarrow> R x (eg_db s'))"
  proof (cases r1)
    case (Inl e)
    then show ?thesis using run f1 q by (auto simp: andthen_def)
  next
    case (Inr x)
    then have "g x s1 = (r, s')" using run f1 by (simp add: andthen_def)
    from g [unfolded guided_def, rule_format, OF this] q Inr show ?thesis by (auto intro: rtranclp_trans)
  qed
qed

definition others_keep :: "engine_env \<Rightarrow> (cdb \<Rightarrow> bool) \<Rightarrow> bool" where
  "others_keep T I \<longleftrightarrow> (\<forall>n db. I db \<longrightarrow> (turn_step T)\<^sup>*\<^sup>* db (en_others T n db) \<and> I (en_others T n db))"

lemma guided_attempt_transact:
  assumes others: "others_keep T I"
    and own: "\<And>db x db'. I db \<Longrightarrow> w db = Inr (x, db') \<Longrightarrow> (turn_step T)\<^sup>*\<^sup>* db db' \<and> Q x db'"
  shows "guided T I (attempt (transact T w)) (\<lambda>r db. case r of Inl e \<Rightarrow> I db | Inr x \<Rightarrow> Q x db)"
  unfolding guided_def
proof (intro allI impI, goal_cases)
  case (1 s r s')
  let ?db = "en_others T (eg_tick s) (eg_db s)"
  from others 1(2) have db: "(turn_step T)\<^sup>*\<^sup>* (eg_db s) ?db" "I ?db" by (auto simp: others_keep_def)
  show ?case
  proof (cases "en_down T (eg_tick s) \<or> (\<exists>e. w ?db = Inl e)")
    case True
    then have "\<exists>e. transact T w s = (Inl e, s\<lparr>eg_db := ?db, eg_tick := Suc (eg_tick s)\<rparr>)"
      by (auto simp: transact_def Let_def)
    then show ?thesis using 1(1) db by (auto simp: attempt_def)
  next
    case False
    then obtain x db' where w: "w ?db = Inr (x, db')" by (cases "w ?db") auto
    then have "transact T w s = (Inr x, s\<lparr>eg_db := db', eg_tick := Suc (eg_tick s)\<rparr>)"
      using False by (simp add: transact_def Let_def)
    then show ?thesis using 1(1) own [OF db(2) w] db(1) by (auto simp: attempt_def intro: rtranclp_trans)
  qed
qed

lemma guided_transact:
  assumes "others_keep T I" "\<And>db x db'. I db \<Longrightarrow> w db = Inr (x, db') \<Longrightarrow> (turn_step T)\<^sup>*\<^sup>* db db' \<and> Q x db'"
  shows "guided T I (transact T w) Q"
  unfolding guided_def
proof (intro allI impI, goal_cases)
  case (1 s r s')
  then have "attempt (transact T w) s = (Inr r, s')" by (simp add: attempt_def)
  moreover have "guided T I (attempt (transact T w)) (\<lambda>r db. case r of Inl e \<Rightarrow> I db | Inr x \<Rightarrow> Q x db)"
    by (rule guided_attempt_transact [OF assms(1)]) (rule assms(2))
  ultimately have "(turn_step T)\<^sup>*\<^sup>* (eg_db s) (eg_db s') \<and> (case r of Inl e \<Rightarrow> I (eg_db s') | Inr x \<Rightarrow> Q x (eg_db s'))"
    using 1(2) by (simp add: guided_def)
  then show ?case by auto
qed

lemma guided_keep:
  assumes "others_keep T I" "\<And>db x db'. I db \<Longrightarrow> w db = Inr (x, db') \<Longrightarrow> turn_step T db db' \<and> I db'"
  shows "guided T I (transact T w) (\<lambda>_. I)" "guided T I (attempt (transact T w)) (\<lambda>_. I)"
proof -
  have own: "(turn_step T)\<^sup>*\<^sup>* db db' \<and> I db'" if "I db" "w db = Inr (x, db')" for db x db' using assms(2) [OF that] by blast
  show "guided T I (transact T w) (\<lambda>_. I)" by (rule guided_transact [OF assms(1)]) (rule own)
  have "guided T I (attempt (transact T w)) (\<lambda>r db. case r of Inl e \<Rightarrow> I db | Inr x \<Rightarrow> I db)"
    by (rule guided_attempt_transact [OF assms(1)]) (rule own)
  then show "guided T I (attempt (transact T w)) (\<lambda>_. I)" by (rule guided_mono) (auto split: sum.splits)
qed

lemma guided_effect: "(\<And>s r s'. f s = (r, s') \<Longrightarrow> eg_db s' = eg_db s) \<Longrightarrow> guided T I f (\<lambda>_. I)"
  unfolding guided_def by (metis rtranclp.rtrancl_refl)

lemma guided_decide: "guided T I (decide T m) (\<lambda>_. I)"
  by (rule guided_effect) (auto simp: decide_def split: sum.splits if_splits)

lemma guided_execute: "guided T I (execute T t args m) (\<lambda>_. I)"
  by (rule guided_effect) (auto simp: execute_def split: option.splits)

section \<open>The loop\<close>

locale turn_guard =
  fixes T :: engine_env and org rid :: string
    and I :: "cdb \<Rightarrow> bool"
    and answered :: "RunStatus \<Rightarrow> string \<Rightarrow> cdb \<Rightarrow> bool"
  assumes keep: "others_keep T I"
    and is_bound: "I db \<Longrightarrow> \<exists>run. run_of org rid db = Some run \<and> bound_run run"
    and keep_decision: "I db \<Longrightarrow> decision_work T org rid d db = Inr (u, db') \<Longrightarrow> I db'"
    and keep_authorize: "I db \<Longrightarrow> authorize_work T org rid c t db = Inr (iid, db') \<Longrightarrow> I db'"
    and keep_complete: "I db \<Longrightarrow> complete_work T org rid iid t out db = Inr (u, db') \<Longrightarrow> I db'"
    and keep_fail: "I db \<Longrightarrow> fail_tool_work org rid iid code db = Inr (u, db') \<Longrightarrow> I db'"
    and answers: "I db \<Longrightarrow> compose d = Inr rsp \<Longrightarrow> finish_work T org rid rsp d db = Inr (u, db') \<Longrightarrow>
      answered (co_terminal_status rsp) (co_message rsp) db'"
begin

definition answer :: "TurnResult \<Rightarrow> cdb \<Rightarrow> bool" where
  "answer res db \<longleftrightarrow> tr_run_id res = rid \<and> answered (tr_status res) (tr_message res) db"

lemma guided_finish:
  assumes "compose d = Inr rsp"
  shows "guided T I (transact T (finish_work T org rid rsp d)) (\<lambda>_. answered (co_terminal_status rsp) (co_message rsp))"
proof (rule guided_transact [OF keep])
  fix db u db'
  assume "I db" and w: "finish_work T org rid rsp d db = Inr (u, db')"
  with is_bound have "turn_step T db db'" by (auto intro: turn_step.finished)
  with answers [OF \<open>I db\<close> assms w]
  show "(turn_step T)\<^sup>*\<^sup>* db db' \<and> answered (co_terminal_status rsp) (co_message rsp) db'" by blast
qed

lemma guided_fail_turn: "guided T I (fail_turn T org rid code message retryable names results) answer"
proof -
  have "guided T I (andthen (transact T (finish_work T org rid rsp (FailSafely code message retryable))) (\<lambda>_. give
     \<lparr>tr_run_id = rid, tr_status = RunStatus.FAILED, tr_message = message, tr_duplicate = False, tr_tool_calls = names,
        tr_tool_results = results\<rparr>)) answer"
    if "compose (FailSafely code message retryable) = Inr rsp" for rsp
    using that by (intro guided_andthen [OF guided_finish [OF that]] guided_give) (auto simp: answer_def composed_def bindE_Inr_conv)
  then show ?thesis unfolding fail_turn_def Let_def
    by (intro guided_andthen [OF guided_pure_kn [where Q = "\<lambda>c db. compose (FailSafely code message retryable) = Inr c \<and> I db"]])
       (auto simp: guided_def)
qed

lemma guided_respond: "guided T I (respond T org rid duplicate d p) answer"
proof -
  have "guided T I (andthen (transact T (finish_work T org rid rsp d)) (\<lambda>_. give
     \<lparr>tr_run_id = rid, tr_status = co_terminal_status rsp, tr_message = co_message rsp, tr_duplicate = duplicate,
       tr_tool_calls = pg_names p, tr_tool_results = pg_all p\<rparr>)) answer"
    if "compose d = Inr rsp" for rsp
    using that by (intro guided_andthen [OF guided_finish [OF that]] guided_give) (auto simp: answer_def)
  then show ?thesis unfolding respond_def
    by (intro guided_andthen [OF guided_pure_kn [where Q = "\<lambda>c db. compose d = Inr c \<and> I db"]]) (auto simp: guided_def)
qed

definition goes_on :: "TurnResult + progress \<Rightarrow> cdb \<Rightarrow> bool" where
  "goes_on r = (case r of Inl res \<Rightarrow> answer res | Inr p \<Rightarrow> I)"

lemma goes_on_simps [simp]: "goes_on (Inl res) = answer res" "goes_on (Inr p) = I"
  by (simp_all add: goes_on_def)

lemma guided_tool_fault: "guided T I (tool_fault T org rid invocation f p) goes_on"
proof -
  have own: "guided T I (transact T (fail_tool_work org rid iid code)) (\<lambda>_. I)" for iid code
    by (rule guided_keep [OF keep]) (auto intro: keep_fail turn_step.tool_failed)
  have failed: "guided T I (case invocation of None \<Rightarrow> give () | Some iid \<Rightarrow> transact T (fail_tool_work org rid iid (fault_code f))) (\<lambda>_. I)"
    by (cases invocation) (simp_all add: guided_give own)
  show ?thesis unfolding tool_fault_def
  proof (rule guided_andthen [OF failed])
    fix u
    show "guided T I (case fault_answer f of (code, message, retryable) \<Rightarrow>
       andthen (fail_turn T org rid code message retryable (pg_names p) (pg_all p)) (\<lambda>r. give (Inl r))) goes_on"
      by (cases "fault_answer f") (simp add: guided_andthen [OF guided_fail_turn] guided_give)
  qed
qed

lemma guided_run_call: "guided T I (run_call T org rid m c p) goes_on"
proof (cases "authorize_call (en_kernel T) (en_catalog T) c m stage (pg_mutations p) None (en_now T)")
  case (Inl e)
  then show ?thesis by (simp add: run_call_def guided_tool_fault)
next
  case (Inr t)
  have own: "guided T I (attempt (transact T (authorize_work T org rid c t))) (\<lambda>_. I)"
    by (rule guided_keep [OF keep]) (auto intro: keep_authorize turn_step.tool_authorized)
  have completes: "guided T I (attempt (transact T (complete_work T org rid iid t out))) (\<lambda>_. I)" for iid out
    by (rule guided_keep [OF keep]) (auto intro: keep_complete turn_step.tool_completed)
  have stored: "guided T I (andthen (attempt (transact T (complete_work T org rid iid t out))) (\<lambda>r'. case r' of
      Inl e \<Rightarrow> tool_fault T org rid (Some iid) ToolBroke p | Inr _ \<Rightarrow> give (Inr (observed c t out p)))) goes_on" for iid out
  proof (rule guided_andthen [OF completes])
    fix r'
    show "guided T I (case r' of
      Inl e \<Rightarrow> tool_fault T org rid (Some iid) ToolBroke p | Inr _ \<Rightarrow> give (Inr (observed c t out p))) goes_on"
      by (cases r') (simp_all add: guided_tool_fault guided_give)
  qed
  have executed: "guided T I (andthen (execute T t (tc_arguments c) m) (\<lambda>x. case x of Inl f \<Rightarrow> tool_fault T org rid (Some iid) f p
      | Inr out \<Rightarrow> andthen (attempt (transact T (complete_work T org rid iid t out))) (\<lambda>r'. case r' of
          Inl e \<Rightarrow> tool_fault T org rid (Some iid) ToolBroke p | Inr _ \<Rightarrow> give (Inr (observed c t out p))))) goes_on" for iid
  proof (rule guided_andthen [OF guided_execute])
    fix x
    show "guided T I (case x of Inl f \<Rightarrow> tool_fault T org rid (Some iid) f p
      | Inr out \<Rightarrow> andthen (attempt (transact T (complete_work T org rid iid t out))) (\<lambda>r'. case r' of
          Inl e \<Rightarrow> tool_fault T org rid (Some iid) ToolBroke p | Inr _ \<Rightarrow> give (Inr (observed c t out p)))) goes_on"
      by (cases x) (simp_all add: guided_tool_fault stored)
  qed
  show ?thesis unfolding run_call_def Inr sum.case
  proof (rule guided_andthen [OF own])
    fix r
    show "guided T I (case r of Inl e \<Rightarrow> tool_fault T org rid None ToolBroke p
      | Inr iid \<Rightarrow> andthen (execute T t (tc_arguments c) m) (\<lambda>x. case x of Inl f \<Rightarrow> tool_fault T org rid (Some iid) f p
          | Inr out \<Rightarrow> andthen (attempt (transact T (complete_work T org rid iid t out))) (\<lambda>r'. case r' of
              Inl e \<Rightarrow> tool_fault T org rid (Some iid) ToolBroke p | Inr _ \<Rightarrow> give (Inr (observed c t out p))))) goes_on"
      by (cases r) (simp_all add: guided_tool_fault executed)
  qed
qed

lemma guided_run_calls: "guided T I (run_calls T org rid m cs p) goes_on"
proof (induction cs arbitrary: p)
  case (Cons c cs)
  show ?case unfolding run_calls.simps
  proof (rule guided_andthen [OF guided_run_call])
    fix r
    show "guided T (goes_on r) (case r of Inl res \<Rightarrow> give (Inl res) | Inr p' \<Rightarrow> run_calls T org rid m cs p') goes_on"
      by (cases r) (simp_all add: guided_give Cons.IH)
  qed
qed (simp add: guided_give)

lemma guided_turn_loop: "guided T I (turn_loop T org rid duplicate m n p) answer"
proof (induction n arbitrary: p)
  case (Suc n)
  have own: "guided T I (transact T (decision_work T org rid d)) (\<lambda>_. I)" for d
    by (rule guided_keep [OF keep]) (auto intro: keep_decision turn_step.decided)
  have calls: "guided T I (andthen (run_calls T org rid dm cs (p\<lparr>pg_results := []\<rparr>)) (\<lambda>r. case r of Inl res \<Rightarrow> give res
      | Inr p' \<Rightarrow> turn_loop T org rid duplicate m n p')) answer" for dm cs
  proof (rule guided_andthen [OF guided_run_calls])
    fix r
    show "guided T (goes_on r) (case r of Inl res \<Rightarrow> give res | Inr p' \<Rightarrow> turn_loop T org rid duplicate m n p') answer"
      by (cases r) (simp_all add: guided_give Suc.IH)
  qed
  have decided: "guided T I (andthen (transact T (decision_work T org rid d)) (\<lambda>_. case d of
      ProposeTools cs \<Rightarrow> andthen (run_calls T org rid dm cs (p\<lparr>pg_results := []\<rparr>)) (\<lambda>r. case r of Inl res \<Rightarrow> give res
        | Inr p' \<Rightarrow> turn_loop T org rid duplicate m n p')
    | _ \<Rightarrow> respond T org rid duplicate d p)) answer" for d dm
  proof (rule guided_andthen [OF own])
    show "guided T I (case d of
        ProposeTools cs \<Rightarrow> andthen (run_calls T org rid dm cs (p\<lparr>pg_results := []\<rparr>)) (\<lambda>r. case r of Inl res \<Rightarrow> give res
          | Inr p' \<Rightarrow> turn_loop T org rid duplicate m n p')
      | _ \<Rightarrow> respond T org rid duplicate d p) answer"
      by (cases d) (simp_all only: TurnDecision.case calls guided_respond)
  qed
  have invalid: "guided T I (if 0 < n then turn_loop T org rid duplicate m n p
      else fail_turn T org rid INVALID_DECISION unsafe_text True (pg_names p) []) answer"
    by (simp add: guided_fail_turn Suc.IH)
  show ?case unfolding turn_loop.simps
  proof (rule guided_andthen [OF guided_pure_kn [where Q = "\<lambda>_. I"]], assumption, rule guided_andthen [OF guided_decide])
    fix dm reply
    show "guided T I (case reply of
         AskTimedOut \<Rightarrow> fail_turn T org rid PROVIDER_UNAVAILABLE late_text True (pg_names p) []
       | AskInvalid \<Rightarrow> if 0 < n then turn_loop T org rid duplicate m n p
           else fail_turn T org rid INVALID_DECISION unsafe_text True (pg_names p) []
       | AskFailed \<Rightarrow> fail_turn T org rid PROVIDER_UNAVAILABLE unreachable_text True (pg_names p) []
       | Answered d \<Rightarrow> andthen (transact T (decision_work T org rid d)) (\<lambda>_. case d of
           ProposeTools cs \<Rightarrow> andthen (run_calls T org rid dm cs (p\<lparr>pg_results := []\<rparr>)) (\<lambda>r. case r of Inl res \<Rightarrow> give res
             | Inr p' \<Rightarrow> turn_loop T org rid duplicate m n p')
         | _ \<Rightarrow> respond T org rid duplicate d p)) answer"
      by (cases reply) (simp_all only: reply.case decided guided_fail_turn invalid)
  qed
qed (simp add: guided_fail_turn)

end

section \<open>Turns among other processes\<close>

definition turn_rely :: "engine_env \<Rightarrow> bool" where
  "turn_rely T \<longleftrightarrow> (\<forall>n db. journal_inv db \<longrightarrow> (turn_step T)\<^sup>*\<^sup>* db (en_others T n db))"

definition bound_in :: "string \<Rightarrow> string \<Rightarrow> cdb \<Rightarrow> bool" where
  "bound_in org rid db \<longleftrightarrow> (\<exists>run. run_of org rid db = Some run \<and> bound_run run)"

lemma run_of_evolves:
  assumes "journal_evolves db db'" "run_of org rid db = Some r"
  shows "\<exists>r'. run_of org rid db' = Some r' \<and> run_moves r r'"
proof -
  from assms(1) obtain f k where runs: "cb_runs db' = map f (cb_runs db) @ k" "\<forall>r\<in>set (cb_runs db). run_moves r (f r)"
    unfolding journal_evolves_def evolves_def by blast
  have "find (\<lambda>r. ru_org r = org \<and> ru_id r = rid) (map f (cb_runs db)) =
      map_option f (find (\<lambda>r. ru_org r = org \<and> ru_id r = rid) (cb_runs db))"
    by (rule find_map_same) (use runs(2) in \<open>auto simp: run_moves_def same_request_def\<close>)
  then have "run_of org rid db' = Some (f r)" using assms(2) by (simp add: run_of_def runs(1) find_append)
  moreover have "run_moves r (f r)" using runs(2) run_ofD [OF assms(2)] by blast
  ultimately show ?thesis by blast
qed

lemma bound_in_evolves: "journal_evolves db db' \<Longrightarrow> bound_in org rid db \<Longrightarrow> bound_in org rid db'"
  unfolding bound_in_def using run_of_evolves by (fastforce simp: run_moves_def bound_run_def)

definition among_others :: "engine_env \<Rightarrow> string \<Rightarrow> string \<Rightarrow> cdb \<Rightarrow> bool" where
  "among_others T org rid db \<longleftrightarrow> turn_rely T \<and> journal_inv db \<and> bound_in org rid db"

lemma among_others_step: "turn_step T db db' \<Longrightarrow> among_others T org rid db \<Longrightarrow> among_others T org rid db'"
  unfolding among_others_def using journal.step_inv journal.step_evolve bound_in_evolves by blast

lemma others_keep_inv: "others_keep T (\<lambda>db. turn_rely T \<and> journal_inv db)"
  unfolding others_keep_def turn_rely_def using journal.steps_inv by blast

interpretation among: turn_guard T org rid "among_others T org rid" "\<lambda>_ _ _. True" for T org rid
proof
  have "among_others T org rid db'" if "(turn_step T)\<^sup>*\<^sup>* db db'" "among_others T org rid db" for db db'
    using that by (induction rule: rtranclp_induct) (auto intro: among_others_step)
  then show "others_keep T (among_others T org rid)"
    unfolding others_keep_def by (auto simp: among_others_def turn_rely_def)
  show "\<exists>run. run_of org rid db = Some run \<and> bound_run run" if "among_others T org rid db" for db
    using that by (auto simp: among_others_def bound_in_def)
qed (auto intro: among_others_step turn_step.intros)

lemma run_of_put:
  assumes "run_of org rid db = Some run" "cb_runs db' = put_run run' db" "ru_id run' = ru_id run" "ru_org run' = ru_org run"
    "journal_inv db"
  shows "run_of org rid db' = Some run'"
proof -
  note run = run_ofD [OF assms(1)]
  have one: "q = run" if "q \<in> set (cb_runs db)" "ru_id q = ru_id run" for q
    using assms(5) that run runs.unclashing_same [of "cb_runs db" q run] by (auto simp: journal_inv_def)
  have "find (\<lambda>r. ru_org r = org \<and> ru_id r = rid) (put_run run' db) =
      map_option (\<lambda>r. if ru_id r = ru_id run' then run' else r) (find (\<lambda>r. ru_org r = org \<and> ru_id r = rid) (cb_runs db))"
    by (rule find_map_same) (use one assms(3,4) in auto)
  with assms(1-3) show ?thesis by (simp add: run_of_def)
qed

lemma bind_work_bound:
  assumes "bind_work T org rid m db = Inr (u, db')" "journal_inv db"
  shows "bound_in org rid db'"
  using assms(1)
proof (cases rule: bind_work_Inr)
  case (unbound run h)
  then show ?thesis using run_of_put [OF unbound(1) _ _ _ assms(2), of db'] by (fastforce simp: bound_in_def bound_run_def)
qed (auto simp: bound_in_def bound_run_def)

lemma process_guided: "guided T (\<lambda>db. turn_rely T \<and> journal_inv db) (process T cmd) (\<lambda>_ _. True)"
proof -
  let ?I = "\<lambda>db. turn_rely T \<and> journal_inv db"
  have "guided T ?I (transact T (capture_work T cmd)) (\<lambda>_. ?I)"
    by (rule guided_keep [OF others_keep_inv]) (auto intro: turn_step.captured journal.step_inv)
  moreover have "guided T ?I (existing_result T org rid) (\<lambda>_ _. True)" for org rid
    unfolding existing_result_def
    by (rule guided_andthen [OF guided_transact [OF others_keep_inv, where Q = "\<lambda>_ _. True"]])
       (auto simp: tj_Inr get_Inr snapshot_def intro: guided_give)
  moreover have bind: "guided T ?I (transact T (bind_work T org rid m)) (\<lambda>_. among_others T org rid)" for org rid m
    by (rule guided_transact [OF others_keep_inv])
       (auto simp: among_others_def intro: turn_step.bound bind_work_bound journal.step_inv)
  moreover have "guided T (among_others T org rid) (turn_loop T org rid duplicate m n p) (\<lambda>_ _. True)" for org rid duplicate m n p
    by (rule guided_mono [OF among.guided_turn_loop]) simp
  ultimately have turn: "guided T ?I (andthen (pure_kn (context_of T cmd)) (\<lambda>m0. andthen (pure_kn (with_contracts T m0)) (\<lambda>m.
      andthen (transact T (bind_work T org rid m)) (\<lambda>_. turn_loop T org rid duplicate m n no_progress)))) (\<lambda>_ _. True)"
    for org rid duplicate n
    by (intro guided_andthen [OF guided_pure_kn [where Q = "\<lambda>_. ?I"]] guided_andthen [OF bind])
  show ?thesis unfolding process_def
  proof (rule guided_andthen, fact)
    fix x
    show "guided T ?I (case x of (run, duplicate) \<Rightarrow>
        if duplicate \<and> ru_status run \<in> {RunStatus.COMPLETED, RunStatus.FAILED, WAITING, RunStatus.CANCELLED}
        then existing_result T (tm_organization_id cmd) (ru_id run)
        else andthen (pure_kn (context_of T cmd)) (\<lambda>m0. andthen (pure_kn (with_contracts T m0)) (\<lambda>m.
          andthen (transact T (bind_work T (tm_organization_id cmd) (ru_id run) m)) (\<lambda>_.
          turn_loop T (tm_organization_id cmd) (ru_id run) duplicate m (nat (tb_max_model_calls (tm_budget cmd))) no_progress))))
        (\<lambda>_ _. True)"
      using turn \<open>\<And>rid org. guided T ?I (existing_result T org rid) (\<lambda>_ _. True)\<close> by (cases x) simp
  qed
qed

end
