(* ===== verification/TurnReplay.thy ===== *)
theory TurnReplay
  imports TurnRuns
begin

text \<open>
  A turn that has the tables for itself: what it reports is what it stored, and repeating the request under its idempotency key
  reports the same without doing anything.
\<close>

section \<open>What the tables say of a run\<close>

definition turn_alone :: "engine_env \<Rightarrow> bool" where
  "turn_alone T \<longleftrightarrow> (\<forall>n db. en_others T n db = db)"

definition reported :: "string \<Rightarrow> string \<Rightarrow> cdb \<Rightarrow> string" where
  "reported org rid db =
     (case List.map_filter (\<lambda>s. message_in (st_payload s)) (rev (sort_key st_sequence (steps_of org rid db))) of
        [] \<Rightarrow> ''Your previous result is available.'' | m # _ \<Rightarrow> m)"

definition owned :: "string \<Rightarrow> string \<Rightarrow> string \<Rightarrow> string \<Rightarrow> string \<Rightarrow> cdb \<Rightarrow> bool" where
  "owned org actor key h rid db \<longleftrightarrow>
     (\<exists>run. keyed_run org actor key db = Some run \<and> run_of org rid db = Some run \<and> ru_input_hash run = h)"

lemma keyed_runD: "keyed_run org actor key db = Some run \<Longrightarrow>
  run \<in> set (cb_runs db) \<and> ru_org run = org \<and> ru_actor_id run = actor \<and> ru_idempotency_key run = key"
  by (auto simp: keyed_run_def dest!: find_SomeD)

lemma keyed_run_of:
  assumes "journal_inv db" "keyed_run org actor key db = Some run"
  shows "run_of org (ru_id run) db = Some run"
proof -
  note run = keyed_runD [OF assms(2)]
  then obtain q where q: "run_of org (ru_id run) db = Some q"
    using find_NoneD [of "\<lambda>r. ru_org r = org \<and> ru_id r = ru_id run" "cb_runs db" run]
    by (cases "run_of org (ru_id run) db") (auto simp: run_of_def)
  with run run_ofD [OF q] assms(1) have "q = run"
    by (intro runs.unclashing_same [of "cb_runs db"]) (auto simp: journal_inv_def)
  with q show ?thesis by simp
qed

lemma owned_evolves:
  assumes "journal_evolves db db'" "journal_inv db'" "owned org actor key h rid db"
  shows "owned org actor key h rid db'"
proof -
  from assms(3) obtain run where run: "keyed_run org actor key db = Some run" "run_of org rid db = Some run" "ru_input_hash run = h"
    by (auto simp: owned_def)
  from assms(1) obtain f k where runs: "cb_runs db' = map f (cb_runs db) @ k" "\<forall>r\<in>set (cb_runs db). run_moves r (f r)"
    unfolding journal_evolves_def evolves_def by blast
  have "find (\<lambda>r. ru_org r = org \<and> ru_actor_id r = actor \<and> ru_idempotency_key r = key) (map f (cb_runs db)) =
      map_option f (find (\<lambda>r. ru_org r = org \<and> ru_actor_id r = actor \<and> ru_idempotency_key r = key) (cb_runs db))"
    by (rule find_map_same) (use runs(2) in \<open>auto simp: run_moves_def same_request_def\<close>)
  then have keyed: "keyed_run org actor key db' = Some (f run)" using run(1) by (simp add: keyed_run_def runs(1) find_append)
  have moved: "run_moves run (f run)" using runs(2) keyed_runD [OF run(1)] by blast
  then have "ru_id (f run) = rid" using run_ofD [OF run(2)] by (simp add: run_moves_def same_request_def)
  with keyed_run_of [OF assms(2) keyed] keyed moved run(3) show ?thesis
    by (auto simp: owned_def run_moves_def same_request_def)
qed

lemma owned_step: "turn_step T db db' \<Longrightarrow> journal_inv db \<Longrightarrow> owned org actor key h rid db \<Longrightarrow> owned org actor key h rid db'"
  using owned_evolves journal.step_inv journal.step_evolve by blast

definition finished_run :: "string \<Rightarrow> string \<Rightarrow> string \<Rightarrow> string \<Rightarrow> string \<Rightarrow> RunStatus \<Rightarrow> string \<Rightarrow> cdb \<Rightarrow> bool" where
  "finished_run org actor key h rid status message db \<longleftrightarrow>
     journal_inv db \<and> owned org actor key h rid db \<and> reported org rid db = message \<and>
     (\<exists>run. run_of org rid db = Some run \<and> ru_status run = status) \<and>
     status \<in> {RunStatus.COMPLETED, RunStatus.FAILED, WAITING, RunStatus.CANCELLED}"

definition pending :: "engine_env \<Rightarrow> string \<Rightarrow> string \<Rightarrow> string \<Rightarrow> string \<Rightarrow> string \<Rightarrow> cdb \<Rightarrow> bool" where
  "pending T org actor key h rid db \<longleftrightarrow> turn_alone T \<and> journal_inv db \<and> owned org actor key h rid db \<and>
     (\<exists>run. run_of org rid db = Some run \<and> bound_run run \<and> \<not> terminal (ru_status run))"

lemma pending_step:
  assumes "turn_step T db db'" "pending T org actor key h rid db"
    "\<And>run. run_of org rid db = Some run \<Longrightarrow> \<exists>run'. run_of org rid db' = Some run' \<and> ru_status run' = ru_status run"
  shows "pending T org actor key h rid db'"
proof -
  from assms(2) obtain run where run: "run_of org rid db = Some run" "bound_run run" "\<not> terminal (ru_status run)" "journal_inv db"
    by (auto simp: pending_def)
  from assms(3) [OF run(1)] obtain run' where run': "run_of org rid db' = Some run'" "ru_status run' = ru_status run" by blast
  moreover have "run_moves run run'"
    using run_of_evolves [OF journal.step_evolve [OF assms(1) run(4)] run(1)] run'(1) by auto
  ultimately show ?thesis using assms(1,2) run
    by (auto simp: pending_def run_moves_def bound_run_def intro: journal.step_inv owned_step)
qed

lemma compose_status: "compose d = Inr c \<Longrightarrow> answered_status (co_terminal_status c)"
  by (cases d) (auto simp: composed_def bindE_Inr_conv answered_status_def)

lemma numbered_sorted: "journal_inv db \<Longrightarrow> sort_key st_sequence (steps_of org rid db) = steps_of org rid db"
proof -
  assume "journal_inv db"
  then have "map st_sequence (steps_of org rid db) = map int [1..<Suc (length (steps_of org rid db))]"
    unfolding journal_inv_def numbered_def step_group_def steps_of_def by simp
  then show ?thesis by (intro sort_key_sorted sorted_numbered)
qed

lemma reported_message:
  fixes db db' :: cdb
  assumes "journal_inv db'" "cb_steps db' = cb_steps db @ [s]" "st_payload s = MessageGiven m c" "st_org s = org" "st_run_id s = rid"
  shows "reported org rid db' = m"
proof -
  have "steps_of org rid db' = steps_of org rid db @ [s]" using assms(2,4,5) by (simp add: steps_of_def)
  then show ?thesis unfolding reported_def numbered_sorted [OF assms(1)] using assms(3) by (simp add: map_filter_simps)
qed

interpretation alone: turn_guard T org rid "pending T org actor key h rid" "finished_run org actor key h rid" for T org rid actor key h
proof
  let ?I = "pending T org actor key h rid"
  show "others_keep T ?I" by (auto simp: others_keep_def pending_def turn_alone_def)
  show "\<exists>run. run_of org rid db = Some run \<and> bound_run run" if "?I db" for db
    using that by (auto simp: pending_def)
  show "?I db'" if I: "?I db" and w: "decision_work T org rid d db = Inr (u, db')" for db d u db'
  proof (rule pending_step [OF turn_step.decided [OF w] I])
    fix run
    assume run: "run_of org rid db = Some run"
    from w show "\<exists>run'. run_of org rid db' = Some run' \<and> ru_status run' = ru_status run"
    proof (cases rule: decision_work_Inr)
      case (1 run1 s c)
      have "run_of org rid db' = Some (run1\<lparr>ru_version := ru_version run1 + 1\<rparr>)"
        by (rule run_of_put [OF 1(1) 1(2)]) (use I in \<open>auto simp: pending_def\<close>)
      with 1(1) run show ?thesis by auto
    qed
  qed
  show "?I db'" if "?I db" "authorize_work T org rid c t db = Inr (iid, db')" for db c t iid db'
    by (rule pending_step [OF turn_step.tool_authorized [OF that(2)] that(1)], insert that(2), erule authorize_work_Inr) (simp add: run_of_def)
  show "?I db'" if "?I db" "complete_work T org rid iid t out db = Inr (u, db')" for db iid t out u db'
    by (rule pending_step [OF turn_step.tool_completed [OF that(2)] that(1)], insert that(2), erule complete_work_Inr) (simp add: run_of_def)
  show "?I db'" if "?I db" "fail_tool_work org rid iid code db = Inr (u, db')" for db iid code u db'
    by (rule pending_step [OF turn_step.tool_failed [OF that(2)] that(1)], insert that(2), erule fail_tool_work_Inr) (simp add: run_of_def)
  show "finished_run org actor key h rid (co_terminal_status rsp) (co_message rsp) db'"
    if I: "?I db" and c: "compose d = Inr rsp" and w: "finish_work T org rid rsp d db = Inr (u, db')" for db d rsp u db'
  proof -
    from I obtain run where run: "run_of org rid db = Some run" "bound_run run" "\<not> terminal (ru_status run)" "journal_inv db"
      "owned org actor key h rid db" by (auto simp: pending_def)
    have step: "turn_step T db db'" by (rule turn_step.finished [OF w run(1,2)])
    from w show ?thesis
    proof (cases rule: finish_work_Inr)
      case (ended run1 k)
      with run show ?thesis by simp
    next
      case (answered run1 k s e)
      have "run_of org rid db' = Some (run1\<lparr>ru_status := co_terminal_status rsp, ru_failure_code := decision_code d,
          ru_version := ru_version run1 + 1\<rparr>)"
        by (rule run_of_put [OF answered(1) answered(3)]) (use run in auto)
      moreover have "reported org rid db' = co_message rsp"
        by (rule reported_message [OF journal.step_inv [OF step run(4)] answered(4) answered(11-13)])
      ultimately show ?thesis
        using compose_status [OF c] journal.step_inv [OF step run(4)] owned_step [OF step run(4,5)]
        by (auto simp: finished_run_def answered_status_def)
    qed
  qed
qed

section \<open>A turn and its repetition\<close>

definition turn_pre :: "engine_env \<Rightarrow> cdb \<Rightarrow> bool" where
  "turn_pre T db \<longleftrightarrow> turn_alone T \<and> journal_inv db"

lemma turn_pre_keep: "others_keep T (turn_pre T)"
  by (auto simp: others_keep_def turn_pre_def turn_alone_def)

abbreviation stored_answer :: "engine_env \<Rightarrow> TurnCommand \<Rightarrow> TurnResult \<Rightarrow> cdb \<Rightarrow> bool" where
  "stored_answer T cmd res db \<equiv> \<exists>h. content_hash (ke_hash (en_kernel T)) (request_payload cmd) = Inr h \<and>
     finished_run (tm_organization_id cmd) (tm_actor_id cmd) (tm_idempotency_key cmd) h (tr_run_id res) (tr_status res) (tr_message res) db"

definition captured_run :: "engine_env \<Rightarrow> TurnCommand \<Rightarrow> CognitiveRun \<times> bool \<Rightarrow> cdb \<Rightarrow> bool" where
  "captured_run T cmd = (\<lambda>(run, duplicate) db. turn_pre T db \<and> (\<not> duplicate \<longrightarrow> ru_status run = CAPTURED) \<and>
     run_of (tm_organization_id cmd) (ru_id run) db = Some run \<and>
     content_hash (ke_hash (en_kernel T)) (request_payload cmd) = Inr (ru_input_hash run) \<and>
     owned (tm_organization_id cmd) (tm_actor_id cmd) (tm_idempotency_key cmd) (ru_input_hash run) (ru_id run) db)"

lemma capture_work_captured:
  assumes "turn_pre T db" "capture_work T cmd db = Inr (x, db')"
  shows "turn_step T db db' \<and> captured_run T cmd x db'"
proof -
  obtain run duplicate where x: "x = (run, duplicate)" by (cases x)
  note step = turn_step.captured [OF assms(2)]
  have inv: "journal_inv db'" using assms(1) journal.step_inv [OF step] by (simp add: turn_pre_def)
  have keyed: "keyed_run (tm_organization_id cmd) (tm_actor_id cmd) (tm_idempotency_key cmd) db' = Some run \<and>
      (\<not> duplicate \<longrightarrow> ru_status run = CAPTURED) \<and>
      content_hash (ke_hash (en_kernel T)) (request_payload cmd) = Inr (ru_input_hash run)"
    using assms(2) [unfolded x]
    by (cases rule: capture_work_Inr) (auto simp: keyed_run_def find_append fresh_run_def)
  then have "run_of (tm_organization_id cmd) (ru_id run) db' = Some run" using keyed_run_of [OF inv] by blast
  with step keyed inv assms(1) show ?thesis by (auto simp: captured_run_def x owned_def turn_pre_def)
qed

lemma existing_view_finished:
  assumes "captured_run T cmd (run, duplicate) db"
    "ru_status run \<in> {RunStatus.COMPLETED, RunStatus.FAILED, WAITING, RunStatus.CANCELLED}"
    "seq (get (tm_organization_id cmd) (ru_id run)) (snapshot (tm_organization_id cmd)) db = Inr (sn, db')"
  shows "db' = db" "stored_answer T cmd (existing_view (ru_id run) sn) db"
    "tr_status (existing_view (ru_id run) sn) = ru_status run"
    "tr_message (existing_view (ru_id run) sn) = reported (tm_organization_id cmd) (ru_id run) db"
  using assms by (auto simp: captured_run_def tj_Inr get_Inr snapshot_def existing_view_def Let_def finished_run_def reported_def turn_pre_def)

lemma process_alone: "guided T (turn_pre T) (process T cmd) (stored_answer T cmd)"
  unfolding process_def
proof (rule guided_andthen)
  show "guided T (turn_pre T) (transact T (capture_work T cmd)) (captured_run T cmd)"
    by (rule guided_transact [OF turn_pre_keep]) (use capture_work_captured in blast)
  fix x :: "CognitiveRun \<times> bool"
  obtain run duplicate where x: "x = (run, duplicate)" by (cases x)
  let ?org = "tm_organization_id cmd" and ?final = "{RunStatus.COMPLETED, RunStatus.FAILED, WAITING, RunStatus.CANCELLED}"
  let ?C = "captured_run T cmd (run, duplicate)"
  let ?P = "pending T ?org (tm_actor_id cmd) (tm_idempotency_key cmd) (ru_input_hash run) (ru_id run)"
  have keep: "others_keep T ?C" by (auto simp: others_keep_def captured_run_def turn_pre_def turn_alone_def)
  have old: "guided T ?C (existing_result T ?org (ru_id run)) (stored_answer T cmd)" if "ru_status run \<in> ?final"
    unfolding existing_result_def
  proof (rule guided_andthen)
    show "guided T ?C (transact T (seq (get ?org (ru_id run)) (snapshot ?org))) (\<lambda>sn db. stored_answer T cmd (existing_view (ru_id run) sn) db)"
      by (rule guided_transact [OF keep]) (use existing_view_finished [OF _ that] in blast)
  qed (rule guided_give)
  have bind: "guided T ?C (transact T (bind_work T ?org (ru_id run) m)) (\<lambda>_. ?P)" if "\<not> (duplicate \<and> ru_status run \<in> ?final)" for m
  proof (rule guided_transact [OF keep])
    fix db u db'
    assume C: "?C db" and w: "bind_work T ?org (ru_id run) m db = Inr (u, db')"
    have inv: "journal_inv db" using C by (simp add: captured_run_def turn_pre_def)
    have active: "\<not> terminal (ru_status run)" using C that by (auto simp: captured_run_def terminal_def)
    note step = turn_step.bound [OF w]
    from bind_work_bound [OF w inv] obtain run' where run': "run_of ?org (ru_id run) db' = Some run'" "bound_run run'"
      by (auto simp: bound_in_def)
    from w have "\<not> terminal (ru_status run')"
    proof (cases rule: bind_work_Inr)
      case (unbound r h)
      then have "run_of ?org (ru_id run) db' = Some (r\<lparr>ru_manifest_hash := Some h, ru_status := DECIDING, ru_version := ru_version r + 1\<rparr>)"
        by (intro run_of_put [OF unbound(1) _ _ _ inv]) auto
      then show ?thesis using run' by (auto simp: terminal_def)
    next
      case (bound r h)
      then show ?thesis using run' C active by (auto simp: captured_run_def)
    qed
    with step C run' journal.step_inv [OF step inv] owned_step [OF step inv]
    show "(turn_step T)\<^sup>*\<^sup>* db db' \<and> ?P db'" by (auto simp: pending_def captured_run_def turn_pre_def)
  qed
  have loop: "guided T ?P (turn_loop T ?org (ru_id run) duplicate m n no_progress) (stored_answer T cmd)"
    if "content_hash (ke_hash (en_kernel T)) (request_payload cmd) = Inr (ru_input_hash run)" for m n
    by (rule guided_mono [OF alone.guided_turn_loop]) (use that in \<open>auto simp: alone.answer_def\<close>)
  have turn: "guided T ?C (andthen (pure_kn (context_of T cmd)) (\<lambda>m0. andthen (pure_kn (with_contracts T m0)) (\<lambda>m.
      andthen (transact T (bind_work T ?org (ru_id run) m)) (\<lambda>_. turn_loop T ?org (ru_id run) duplicate m n no_progress))))
      (stored_answer T cmd)" if "\<not> (duplicate \<and> ru_status run \<in> ?final)" for n
  proof (cases "content_hash (ke_hash (en_kernel T)) (request_payload cmd) = Inr (ru_input_hash run)")
    case True
    show ?thesis
      by (intro guided_andthen [OF guided_pure_kn [where Q = "\<lambda>_. ?C"]] guided_andthen [OF bind [OF that]] loop [OF True])
  qed (auto simp: guided_def captured_run_def)
  show "guided T (captured_run T cmd x) (case x of (run, duplicate) \<Rightarrow>
      if duplicate \<and> ru_status run \<in> ?final then existing_result T ?org (ru_id run)
      else andthen (pure_kn (context_of T cmd)) (\<lambda>m0. andthen (pure_kn (with_contracts T m0)) (\<lambda>m.
        andthen (transact T (bind_work T ?org (ru_id run) m)) (\<lambda>_.
        turn_loop T ?org (ru_id run) duplicate m (nat (tb_max_model_calls (tm_budget cmd))) no_progress)))) (stored_answer T cmd)"
  proof (cases "duplicate \<and> ru_status run \<in> ?final")
    case True
    with old show ?thesis unfolding x prod.case by (simp only: if_True HOL.simp_thms)
  next
    case False
    with turn show ?thesis unfolding x prod.case by (simp only: if_False HOL.simp_thms)
  qed
qed

lemma transact_alone:
  "turn_alone T \<Longrightarrow> \<not> en_down T (eg_tick s) \<Longrightarrow> w (eg_db s) = Inr (x, db) \<Longrightarrow>
     transact T w s = (Inr x, s\<lparr>eg_db := db, eg_tick := Suc (eg_tick s)\<rparr>)"
  by (simp add: transact_def turn_alone_def)

text \<open>The same request under the same key; tools, history and budget may differ.\<close>

definition repeats :: "TurnCommand \<Rightarrow> TurnCommand \<Rightarrow> bool" where
  "repeats cmd cmd' \<longleftrightarrow> tm_organization_id cmd' = tm_organization_id cmd \<and> tm_actor_id cmd' = tm_actor_id cmd \<and>
     tm_idempotency_key cmd' = tm_idempotency_key cmd \<and> tm_principal cmd' = tm_principal cmd \<and>
     tm_conversation_id cmd' = tm_conversation_id cmd \<and> tm_turn_id cmd' = tm_turn_id cmd \<and> tm_purpose cmd' = tm_purpose cmd \<and>
     tm_message cmd' = tm_message cmd"

lemma process_repeated:
  assumes stored: "stored_answer T cmd res (eg_db s)" and alone: "turn_alone T" and up: "\<forall>n \<ge> eg_tick s. \<not> en_down T n" and same: "repeats cmd cmd'"
  shows "\<exists>res' s'. process T cmd' s = (Inr res', s') \<and> eg_db s' = eg_db s \<and> eg_log s' = eg_log s \<and>
    tr_duplicate res' \<and> tr_run_id res' = tr_run_id res \<and> tr_status res' = tr_status res \<and> tr_message res' = tr_message res"
proof -
  let ?org = "tm_organization_id cmd"
  from stored obtain h run where h: "content_hash (ke_hash (en_kernel T)) (request_payload cmd) = Inr h"
    and inv: "journal_inv (eg_db s)"
    and run: "keyed_run ?org (tm_actor_id cmd) (tm_idempotency_key cmd) (eg_db s) = Some run" "ru_input_hash run = h"
      "run_of ?org (tr_run_id res) (eg_db s) = Some run" "ru_status run = tr_status res"
      "tr_status res \<in> {RunStatus.COMPLETED, RunStatus.FAILED, WAITING, RunStatus.CANCELLED}"
      "reported ?org (tr_run_id res) (eg_db s) = tr_message res"
    by (auto simp: finished_run_def owned_def)
  have rid: "ru_id run = tr_run_id res" using run_ofD [OF run(3)] by simp
  have capture: "capture_work T cmd' (eg_db s) = Inr ((run, True), eg_db s)"
    using h run(1,2) same by (simp add: capture_work_def capture_def repeats_def seq_def reads_def hashes_def ret_def)
  let ?s1 = "s\<lparr>eg_db := eg_db s, eg_tick := Suc (eg_tick s)\<rparr>"
  obtain sn where sn: "seq (get ?org (ru_id run)) (snapshot ?org) (eg_db ?s1) = Inr (sn, eg_db s)"
    using run(3) rid by (simp add: seq_def get_def reads_def snapshot_def ret_def)
  have captured: "captured_run T cmd (run, True) (eg_db s)"
    using h run rid inv alone by (auto simp: captured_run_def turn_pre_def owned_def)
  have up: "\<not> en_down T (eg_tick s)" "\<not> en_down T (eg_tick ?s1)" using up by simp_all
  have final: "ru_status run \<in> {RunStatus.COMPLETED, RunStatus.FAILED, WAITING, RunStatus.CANCELLED}" using run(4,5) by simp
  note view = existing_view_finished [OF captured final, of sn "eg_db s"]
  have "process T cmd' s = existing_result T ?org (ru_id run) ?s1"
    unfolding process_def andthen_def transact_alone [where w = "capture_work T cmd'" and s = s, OF alone up(1) capture] using final same by (simp add: repeats_def)
  moreover have "existing_result T ?org (ru_id run) ?s1 =
      (Inr (existing_view (ru_id run) sn), ?s1\<lparr>eg_db := eg_db s, eg_tick := Suc (eg_tick ?s1)\<rparr>)"
    unfolding existing_result_def andthen_def transact_alone [where w = "seq (get ?org (ru_id run)) (snapshot ?org)" and s = ?s1, OF alone up(2) sn] by (simp add: give_def)
  ultimately show ?thesis using view(3,4) sn run(4,6) rid by (auto simp: existing_view_def Let_def)
qed

end
