(* ===== verification/AgentFacts.thy ===== *)
theory AgentFacts
  imports TurnEffects
begin

text \<open>
  What reaches a model: the guardrails leave no denied name and no secret text at any depth, and every context that a turn
  shows to the model is the assembled one, with tool results and nothing else added.
\<close>

section \<open>Isolation\<close>

text \<open>No denied name and no secret text anywhere in a value.\<close>

definition denied_key :: "bool \<Rightarrow> string \<Rightarrow> bool" where
  "denied_key seller k \<longleftrightarrow> key_is_denied k secret_key_parts \<or>
     key_is_denied k (if seller then seller_denied_key_parts else buyer_denied_key_parts)"

fun isolated :: "bool \<Rightarrow> pyval \<Rightarrow> bool"
  and isolated_items :: "bool \<Rightarrow> (pykey \<times> pyval) list \<Rightarrow> bool"
  and isolated_seq :: "bool \<Rightarrow> pyval list \<Rightarrow> bool"
where
  "isolated b (PyDict kvs) = isolated_items b kvs"
| "isolated b (PyList xs) = isolated_seq b xs"
| "isolated b (PyTuple xs) = isolated_seq b xs"
| "isolated b (PyStr s) = (\<not> secret_value s)"
| "isolated b v = True"
| "isolated_items b [] = True"
| "isolated_items b ((k, v) # r) = (\<not> denied_key b (key_text k) \<and> isolated b v \<and> isolated_items b r)"
| "isolated_seq b [] = True"
| "isolated_seq b (v # vs) = (isolated b v \<and> isolated_seq b vs)"

lemma walk_self: "(path, v) \<in> set (walk path v)"
  by (cases v) auto

lemma no_violation: "node_violation b (path, v) = None \<Longrightarrow>
  (path \<noteq> [] \<longrightarrow> \<not> denied_key b (last path)) \<and> (\<forall>s. v = PyStr s \<longrightarrow> \<not> secret_value s)"
  by (auto simp: node_violation_def denied_key_def split: if_splits)

lemma walk_isolated:
  "\<forall>node\<in>set (walk path v). node_violation b node = None \<Longrightarrow> isolated b v"
  "\<forall>node\<in>set (walk_items path kvs). node_violation b node = None \<Longrightarrow> isolated_items b kvs"
  "\<forall>node\<in>set (walk_seq path i xs). node_violation b node = None \<Longrightarrow> isolated_seq b xs"
proof (induction path v and path kvs and path i xs rule: walk_walk_items_walk_seq.induct)
  case (6 path k v r)
  then have "node_violation b (path @ [key_text k], v) = None" using walk_self [of "path @ [key_text k]" v] by simp
  with 6 show ?case using no_violation [of b "path @ [key_text k]" v] by simp
qed (auto dest: no_violation)

lemma validate_isolated: "validate_agent_payload payload b = Inr () \<Longrightarrow> isolated b (dict_str payload)"
  unfolding validate_agent_payload_def
proof (rule walk_isolated(1) [of "[]"])
  assume "(case List.map_filter (node_violation b) (walk [] (dict_str payload)) of
      [] \<Rightarrow> Inr () | m # x \<Rightarrow> Inl (AgentBoundaryViolation m)) = Inr ()"
  then have "List.map_filter (node_violation b) (walk [] (dict_str payload)) = []" by (auto split: list.splits)
  then show "\<forall>node\<in>set (walk [] (dict_str payload)). node_violation b node = None"
    by (auto simp: List.map_filter_def filter_empty_conv)
qed

section \<open>Contexts\<close>

lemma calculate_hash_cong:
  "calculate_hash E (m\<lparr>cm_manifest_hash := h\<rparr>) = calculate_hash E m"
  by (simp add: calculate_hash_def context_payload_def)

lemma sealed_Inr:
  assumes "sealed E m = Inr m'"
  obtains h where "m' = m\<lparr>cm_manifest_hash := Some h\<rparr>" "calculate_hash E m' = Inr h"
  using assms by (auto simp: sealed_def bindE_Inr_conv calculate_hash_cong)

lemma resolve_Inr:
  "resolve policies a b c = Inr p \<Longrightarrow> p \<in> set policies \<and> po_principal p = a \<and> po_party p = b \<and> po_purpose p = c"
proof -
  assume "resolve policies a b c = Inr p"
  then have "filter (\<lambda>p. po_principal p = a \<and> po_party p = b \<and> po_purpose p = c) policies = [p]"
    by (auto simp: resolve_def split: list.splits)
  then have "p \<in> set (filter (\<lambda>p. po_principal p = a \<and> po_party p = b \<and> po_purpose p = c) policies)" by simp
  then show ?thesis by simp
qed

definition is_sealed :: "kernel_env \<Rightarrow> ContextManifest \<Rightarrow> bool" where
  "is_sealed E m \<longleftrightarrow> (\<exists>h. cm_manifest_hash m = Some h \<and> calculate_hash E m = Inr h)"

text \<open>The context that a model may see for a command under a policy.\<close>

definition speaks_for :: "TurnCommand \<Rightarrow> PrincipalPolicy \<Rightarrow> ContextManifest \<Rightarrow> bool" where
  "speaks_for cmd p m \<longleftrightarrow>
     cm_principal m = tm_principal cmd \<and> cm_party m = principal_party (tm_principal cmd) \<and>
     cm_organization_id m = tm_organization_id cmd \<and> cm_actor_id m = tm_actor_id cmd \<and>
     cm_current_message m = tm_message cmd \<and> cm_recent_messages m = tm_recent_messages cmd \<and> cm_summary m = tm_summary cmd \<and>
     cm_references m = [] \<and> cm_budget m = po_budget p \<and>
     po_principal p = tm_principal cmd \<and> po_party p = tm_party cmd \<and> po_purpose p = tm_purpose cmd \<and>
     set (cm_available_tools m) \<subseteq> set (po_allowed_tools p) \<inter> set (tm_available_tools cmd)"

definition own_projection :: "TurnCommand \<Rightarrow> dict" where
  "own_projection cmd = [(''private'', dict_str (tm_private_context cmd)), (''released'', dict_str (tm_exchange_projection cmd))]"

lemma context_of_Inr:
  assumes "en_assembler T = Some policies" "context_of T cmd = Inr m"
  obtains p where "p \<in> set policies" "speaks_for cmd p m" "cm_exchange_projection m = own_projection cmd"
    "isolated (tm_principal cmd = SEIL) (dict_str
      [(''current_message'', PyStr (tm_message cmd)), (''recent_messages'', PyTuple (map dict_str (tm_recent_messages cmd))),
       (''summary'', py_opt PyStr (tm_summary cmd)), (''principal_context'', dict_str (tm_private_context cmd)),
       (''exchange_projection'', dict_str (tm_exchange_projection cmd))])"
proof -
  let ?m1 = "\<lambda>p. \<lparr>cm_principal = tm_principal cmd, cm_party = tm_party cmd, cm_organization_id = tm_organization_id cmd,
    cm_actor_id = tm_actor_id cmd, cm_actor_roles = sorted_set (tm_actor_roles cmd), cm_permissions = sorted_set (tm_permissions cmd),
    cm_purpose = tm_purpose cmd, cm_conversation_id = tm_conversation_id cmd, cm_turn_id = tm_turn_id cmd,
    cm_current_message = tm_message cmd, cm_recent_messages = tm_recent_messages cmd, cm_summary = tm_summary cmd,
    cm_unresolved_questions = tm_unresolved_questions cmd, cm_references = [], cm_exchange_projection = own_projection cmd,
    cm_available_tools = sorted_set (filter (\<lambda>t. t \<in> set (po_allowed_tools p)) (tm_available_tools cmd)),
    cm_tool_contracts = [], cm_budget = po_budget p, cm_manifest_hash = None\<rparr>"
  from assms obtain p where p: "resolve policies (tm_principal cmd) (tm_party cmd) (tm_purpose cmd) = Inr p"
    and guard: "validate_principal_payload
      [(''current_message'', PyStr (tm_message cmd)), (''recent_messages'', PyTuple (map dict_str (tm_recent_messages cmd))),
       (''summary'', py_opt PyStr (tm_summary cmd)), (''principal_context'', dict_str (tm_private_context cmd)),
       (''exchange_projection'', dict_str (tm_exchange_projection cmd))] (principal_value (tm_principal cmd)) = Inr ()"
    and made: "bindE (mk_ContextManifest (en_kernel T) (?m1 p)) (sealed (en_kernel T)) = Inr m"
    unfolding context_of_def assemble_def guarded_payload_def own_projection_def by (auto simp: bindE_Inr_conv)
  define m1 where "m1 = ?m1 p"
  have m1: "cm_principal m1 = tm_principal cmd" "cm_party m1 = tm_party cmd" "cm_organization_id m1 = tm_organization_id cmd"
      "cm_actor_id m1 = tm_actor_id cmd" "cm_current_message m1 = tm_message cmd" "cm_recent_messages m1 = tm_recent_messages cmd"
      "cm_summary m1 = tm_summary cmd" "cm_references m1 = []" "cm_budget m1 = po_budget p"
      "cm_exchange_projection m1 = own_projection cmd"
      "cm_available_tools m1 = sorted_set (filter (\<lambda>t. t \<in> set (po_allowed_tools p)) (tm_available_tools cmd))"
    by (simp_all add: m1_def)
  from made have m1_ok: "mk_ContextManifest (en_kernel T) m1 = Inr m1" and "sealed (en_kernel T) m1 = Inr m"
    unfolding m1_def [symmetric] by (auto simp: bindE_Inr_conv mk_ContextManifest_def split: if_splits)
  from this(2) obtain h where m: "m = m1\<lparr>cm_manifest_hash := Some h\<rparr>" by (rule sealed_Inr)
  from m1_ok have "require (context_checks m1) = Inr ()" by (auto simp: mk_ContextManifest_def bindE_Inr_conv)
  then have "cm_party m1 = principal_party (cm_principal m1)" unfolding require_Inr by (simp add: context_checks_def)
  then have "speaks_for cmd p m" using resolve_Inr [OF p] m1 m by (auto simp: speaks_for_def)
  moreover have "(principal_value (tm_principal cmd) = ''SEIL'') = (tm_principal cmd = SEIL)" by (cases "tm_principal cmd") auto
  with guard have "validate_agent_payload
      [(''current_message'', PyStr (tm_message cmd)), (''recent_messages'', PyTuple (map dict_str (tm_recent_messages cmd))),
       (''summary'', py_opt PyStr (tm_summary cmd)), (''principal_context'', dict_str (tm_private_context cmd)),
       (''exchange_projection'', dict_str (tm_exchange_projection cmd))] (tm_principal cmd = SEIL) = Inr ()"
    unfolding validate_principal_payload_def by (simp split: if_splits)
  note validate_isolated [OF this]
  ultimately show ?thesis using resolve_Inr [OF p] m1(10) m by (intro that [of p]) auto
qed

lemma decision_manifest_shows:
  assumes "with_contracts T m0 = Inr m" "decision_manifest T m results = Inr dm" "speaks_for cmd p m0"
    "cm_exchange_projection m0 = own_projection cmd"
  shows "is_sealed (en_kernel T) dm" "speaks_for cmd p dm"
    "cm_exchange_projection dm = own_projection cmd \<or>
     cm_available_tools dm = [] \<and> (\<exists>results. cm_exchange_projection dm = own_projection cmd @ [(''authorized_tool_results'', results)])"
proof -
  from assms(1) obtain h where m: "m = m0\<lparr>cm_tool_contracts := map contract_fields (visible_tools (en_catalog T) m0 stage),
      cm_manifest_hash := Some h\<rparr>" "calculate_hash (en_kernel T) m = Inr h"
    unfolding with_contracts_def by (elim sealed_Inr) simp
  show "is_sealed (en_kernel T) dm"
    using assms(2) m by (auto simp: decision_manifest_def is_sealed_def split: if_splits elim!: sealed_Inr)
  show "speaks_for cmd p dm"
    using assms(2,3) m(1) by (auto simp: decision_manifest_def speaks_for_def split: if_splits elim!: sealed_Inr)
  show "cm_exchange_projection dm = own_projection cmd \<or>
     cm_available_tools dm = [] \<and> (\<exists>results. cm_exchange_projection dm = own_projection cmd @ [(''authorized_tool_results'', results)])"
    using assms(2,4) m(1) by (auto simp: decision_manifest_def own_projection_def dict_of_def split: if_splits elim!: sealed_Inr)
qed

end
