(* ===== verification/TurnClaims.thy ===== *)
theory TurnClaims
  imports TurnReplay AgentFacts
begin

text \<open>
  The properties of agent turns, and one concrete turn in which the model proposes a tool and then answers.
\<close>

section \<open>Start of the tables\<close>

definition no_rows :: cdb where
  "no_rows = \<lparr>cb_runs = [], cb_steps = [], cb_checkpoints = [], cb_invocations = [], cb_events = [], cb_drawn = 0\<rparr>"

definition turn_reachable :: "engine_env \<Rightarrow> cdb \<Rightarrow> bool" where
  "turn_reachable T db \<longleftrightarrow> (turn_step T)\<^sup>*\<^sup>* no_rows db"

lemma no_rows_inv: "journal_inv no_rows"
  by (simp add: journal_inv_def no_rows_def numbered_def unclashing_def)

lemma reachable_inv: "turn_reachable T db \<Longrightarrow> journal_inv db"
  unfolding turn_reachable_def by (rule journal.steps_inv [OF _ no_rows_inv])

lemma numbered_steps_of:
  assumes "journal_inv db"
  shows "map st_sequence (steps_of org rid db) = map int [1..<Suc (length (steps_of org rid db))]"
    "map ev_sequence (events_of org rid db) = map int [1..<Suc (length (events_of org rid db))]"
    "map cc_sequence (checkpoints_of org rid db) = map int [1..<Suc (length (checkpoints_of org rid db))]"
  using assms unfolding journal_inv_def numbered_def step_group_def event_group_def checkpoint_group_def
    steps_of_def events_of_def checkpoints_of_def by simp_all

lemma completed_stays:
  assumes "journal_evolves db db'" "i \<in> set (cb_invocations db)" "iv_status i = INVOCATION_COMPLETED"
  shows "i \<in> set (cb_invocations db')"
  using assms invocations.evolves_mem [of "cb_invocations db" "cb_invocations db'" i]
  by (auto simp: journal_evolves_def invocation_moves_def)

lemma one_call_each:
  assumes "unclashing same_call rows" "i \<in> set rows" "j \<in> set rows"
    "iv_org i = iv_org j" "iv_run_id i = iv_run_id j" "iv_call_id i = iv_call_id j"
  shows "i = j"
  using assms
proof (induction rows)
  case (Cons x rows)
  then have "\<forall>y\<in>set rows. \<not> same_call y x" by (simp add: unclashing_def)
  with Cons show ?case by (auto simp: unclashing_def same_call_def)
qed simp

section \<open>One turn\<close>

definition demo_kernel :: kernel_env where
  "demo_kernel = \<lparr>ke_hash = \<lparr>rfc8785_dumps = (\<lambda>j. Some ''j''), sha256_hex = (\<lambda>t. ''h'')\<rparr>,
     ke_raw = \<lparr>raw_dumps = (\<lambda>v. Some ''r''), raw_sha256 = (\<lambda>t. ''x'')\<rparr>, ke_json = (\<lambda>d. d), ke_schema_ok = (\<lambda>s d. True)\<rparr>"

definition demo_tool :: ToolManifest where
  "demo_tool = \<lparr>tl_name = ''look'', tl_contract_version = ''v1'', tl_description = ''Look.'', tl_allowed_principals = [SIRA],
     tl_allowed_parties = [BUYER], tl_purposes = [''p''], tl_allowed_stages = [stage], tl_risk = READ,
     tl_input_schema = object_schema [] [], tl_output_schema = output_schema, tl_timeout_seconds = (20, 0)\<rparr>"

definition demo_policies :: "PrincipalPolicy list" where
  "demo_policies = [\<lparr>po_principal = SIRA, po_party = BUYER, po_purpose = ''p'', po_allowed_tools = [''look''], po_budget = default_budget\<rparr>]"

definition demo_answer :: "effect list \<Rightarrow> ContextManifest \<Rightarrow> reply" where
  "demo_answer l m = (if l = []
     then Answered (ProposeTools [\<lparr>tc_call_id = ''c'', tc_tool_name = ''look'', tc_contract_version = ''v1'', tc_arguments = []\<rparr>])
     else Answered (Respond ''Seen.''))"

definition demo_engine :: engine_env where
  "demo_engine = \<lparr>en_kernel = demo_kernel, en_uuid = show_nat, en_runtime = demo_answer, en_catalog = [(''look'', demo_tool)],
     en_handlers = [(''look'', \<lambda>l d m. Returned [(''n'', PyInt 1)])], en_assembler = Some demo_policies,
     en_now = \<lparr>tz_aware = True, micros = 0\<rparr>, en_others = (\<lambda>n db. db), en_down = (\<lambda>n. False)\<rparr>"

definition demo_command :: TurnCommand where
  "demo_command = \<lparr>tm_organization_id = ''o'', tm_actor_id = ''a'', tm_principal = SIRA, tm_party = BUYER, tm_purpose = ''p'',
     tm_conversation_id = ''k'', tm_turn_id = ''t'', tm_idempotency_key = ''i'', tm_message = ''Hi'', tm_actor_roles = [],
     tm_permissions = [], tm_available_tools = [''look''], tm_recent_messages = [], tm_summary = None, tm_unresolved_questions = [],
     tm_private_context = [], tm_exchange_projection = [], tm_budget = default_budget\<rparr>"

definition idle_engine :: engine where
  "idle_engine = \<lparr>eg_db = no_rows, eg_tick = 0, eg_log = []\<rparr>"

lemma demo_turn:
  "map_sum (\<lambda>e. ()) tr_message (fst (process demo_engine demo_command idle_engine)) = Inr ''Seen.'' \<and>
   map is_asked (eg_log (snd (process demo_engine demo_command idle_engine))) = [True, False, True] \<and>
   length (cb_steps (eg_db (snd (process demo_engine demo_command idle_engine)))) = 5"
  by code_simp

lemma demo_steps: "cb_steps (eg_db (snd (process demo_engine demo_command idle_engine))) \<noteq> []"
  using demo_turn by auto

lemma demo_alone: "turn_alone demo_engine" "\<And>n. \<not> en_down demo_engine n" "turn_rely demo_engine"
  by (simp_all add: demo_engine_def turn_alone_def turn_rely_def)

lemma demo_answered: "\<exists>res s. process demo_engine demo_command idle_engine = (Inr res, s)"
proof -
  obtain r s where run: "process demo_engine demo_command idle_engine = (r, s)" by (cases "process demo_engine demo_command idle_engine")
  with demo_turn obtain res where "r = Inr res" by (cases r) auto
  with run show ?thesis by blast
qed

section \<open>Properties\<close>

text \<open>C7 A turn is bounded, whatever the model answers, the handlers return, other processes do to the tables and the database
  fails: it asks the model at most as often as the budget allows, which is at most three times; it calls at most four tools, all
  in one context, the one assembled for the command; each called tool is visible in that context, is called
  in the version of its contract with arguments that its schema accepts, and is not a protected effect; and the
  number of calls with side effects stays within the budget of the context.\<close>

theorem turn_bounded:
  assumes "mk_TurnBudget (tm_budget cmd) = Inr (tm_budget cmd)" "process T cmd s = (r, s')"
  shows "\<exists>l (ps :: (ProposedToolCall \<times> ToolManifest) list) m. eg_log s' = eg_log s @ l \<and>
    int (length (filter is_asked l)) \<le> tb_max_model_calls (tm_budget cmd) \<and> tb_max_model_calls (tm_budget cmd) \<le> 3 \<and>
    filter (\<lambda>e. \<not> is_asked e) l = map (\<lambda>(c, t). Called (tl_name t) (tc_arguments c) m) ps \<and> length ps \<le> 4 \<and>
    (\<forall>(c, t)\<in>set ps. (\<exists>m0. context_of T cmd = Inr m0 \<and> with_contracts T m0 = Inr m) \<and>
       map_of (en_catalog T) (tc_tool_name c) = Some t \<and> t \<in> set (visible_tools (en_catalog T) m ''evaluating'') \<and>
       tc_contract_version c = tl_contract_version t \<and> ke_schema_ok (en_kernel T) (tl_input_schema t) (tc_arguments c) \<and>
       tl_risk t \<noteq> PROTECTED_EFFECT) \<and>
    int (length (filter (\<lambda>(c, t). tl_risk t = MUTATION) ps)) \<le> max 0 (tb_max_mutations (cm_budget m))"
proof -
  from assms(1) have "require
       [(1 \<le> tb_max_model_calls (tm_budget cmd) \<and> tb_max_model_calls (tm_budget cmd) \<le> 3, ''max_model_calls'')] = Inr ()"
    unfolding mk_TurnBudget_def by (simp add: bindE_Inr_conv split: if_splits)
  then have calls: "1 \<le> tb_max_model_calls (tm_budget cmd)" "tb_max_model_calls (tm_budget cmd) \<le> 3" by (simp_all split: if_splits)
  from emitsD [OF process_emits assms(2)] obtain l where l: "eg_log s' = eg_log s @ l"
    "l = [] \<or> (\<exists>m0 m. context_of T cmd = Inr m0 \<and> with_contracts T m0 = Inr m \<and>
       loop_effects T m (nat (tb_max_model_calls (tm_budget cmd))) 0 False l)" by blast
  from l(2) show ?thesis
  proof (elim disjE exE conjE)
    assume "l = []"
    with l(1) calls show ?thesis by (intro exI [of _ "[]"] exI [of _ undefined]) auto
  next
    fix m0 m
    assume m: "context_of T cmd = Inr m0" "with_contracts T m0 = Inr m"
      and eff: "loop_effects T m (nat (tb_max_model_calls (tm_budget cmd))) 0 False l"
    from eff obtain ps where ps: "filter (\<lambda>e. \<not> is_asked e) l = map (call_effect m) ps" "batch T m 0 ps" "length ps \<le> 4"
      by (auto simp: loop_effects_def bounded_calls_def)
    moreover have "int (length (filter is_asked l)) \<le> tb_max_model_calls (tm_budget cmd)"
      using eff calls by (auto simp: loop_effects_def)
    moreover have "int (length (filter (\<lambda>(c, t). tl_risk t = MUTATION) ps)) \<le> max 0 (tb_max_mutations (cm_budget m))"
      using ps(2) by (simp add: batch_def mutations_def)
    moreover have "\<forall>(c, t)\<in>set ps. authorised T m c t" using ps(2) by (simp add: batch_def list_all_iff)
    ultimately show ?thesis using l(1) calls m
      by (intro exI [of _ l] exI [of _ ps] exI [of _ m]) (fastforce simp: call_effect_def authorised_def stage_def)
  qed
qed

theorem turn_bounded_witness:
  "\<exists>l. eg_log (snd (process demo_engine demo_command idle_engine)) = eg_log idle_engine @ l \<and> map is_asked l = [True, False, True] \<and>
    int (length (filter is_asked l)) \<le> tb_max_model_calls (tm_budget demo_command)"
proof -
  obtain r s where run: "process demo_engine demo_command idle_engine = (r, s)" by (cases "process demo_engine demo_command idle_engine")
  have "mk_TurnBudget (tm_budget demo_command) = Inr (tm_budget demo_command)" by code_simp
  from turn_bounded [OF this run] obtain l where "eg_log s = eg_log idle_engine @ l"
    "int (length (filter is_asked l)) \<le> tb_max_model_calls (tm_budget demo_command)" by blast
  moreover have "map is_asked (eg_log s) = [True, False, True]" using demo_turn run by simp
  ultimately show ?thesis using run by (auto simp: idle_engine_def)
qed

text \<open>C8 A turn is stored before it is reported. Where no other process writes to the tables, also when transactions of
  the turn fail: after the turn returned, repeating its request under its idempotency key on a database that answers, with
  whatever tools, history or budget, is answered with the same run, status and message, marked as a duplicate, without
  asking the model, calling a tool or changing the tables.\<close>

theorem turn_repeats:
  assumes "turn_alone T" "turn_reachable T (eg_db s)" "process T cmd s = (Inr res, s1)" "repeats cmd cmd'"
    and "\<forall>n \<ge> eg_tick s1. \<not> en_down T n"
  shows "tr_status res \<in> {RunStatus.COMPLETED, RunStatus.FAILED, WAITING, RunStatus.CANCELLED} \<and>
    (\<exists>res' s2. process T cmd' s1 = (Inr res', s2) \<and> eg_db s2 = eg_db s1 \<and> eg_log s2 = eg_log s1 \<and> tr_duplicate res' \<and>
      tr_run_id res' = tr_run_id res \<and> tr_status res' = tr_status res \<and> tr_message res' = tr_message res)"
proof -
  have "turn_pre T (eg_db s)" using assms(1) reachable_inv [OF assms(2)] by (simp add: turn_pre_def)
  with process_alone [of T cmd] assms(3) have "stored_answer T cmd res (eg_db s1)" by (auto simp: guided_def)
  then show ?thesis using process_repeated [OF _ assms(1,5,4)] by (auto simp: finished_run_def)
qed

theorem turn_repeats_witness:
  "\<exists>res s1 res' s2. process demo_engine demo_command idle_engine = (Inr res, s1) \<and>
     process demo_engine (demo_command\<lparr>tm_available_tools := []\<rparr>) s1 = (Inr res', s2) \<and> eg_db s2 = eg_db s1 \<and>
     eg_log s2 = eg_log s1 \<and> tr_message res' = tr_message res"
proof -
  from demo_answered obtain res s1 where run: "process demo_engine demo_command idle_engine = (Inr res, s1)" by blast
  have "turn_reachable demo_engine (eg_db idle_engine)" by (simp add: turn_reachable_def idle_engine_def)
  moreover have "repeats demo_command (demo_command\<lparr>tm_available_tools := []\<rparr>)" by (simp add: repeats_def)
  ultimately show ?thesis using turn_repeats [OF demo_alone(1) _ run] demo_alone(2) run by blast
qed

text \<open>C9 Turns refine the journal: whatever the model and the handlers answer and whenever the database fails, a
  turn moves the tables only along transactions of the journal, and it finishes a run only after its context was bound, also when other
  turns, repetitions of the same turn and cancellations commit between its transactions.\<close>

theorem turns_refine_journal:
  assumes "\<And>n db. (turn_step T)\<^sup>*\<^sup>* db (en_others T n db)" "turn_reachable T (eg_db s)"
  shows "(turn_step T)\<^sup>*\<^sup>* (eg_db s) (eg_db (snd (process T cmd s))) \<and>
    (turn_step T)\<^sup>*\<^sup>* (eg_db s) (eg_db (snd (cancel_turn T now org rid s)))"
proof -
  have pre: "turn_rely T \<and> journal_inv (eg_db s)" using assms reachable_inv by (simp add: turn_rely_def)
  have "guided T (\<lambda>db. turn_rely T \<and> journal_inv db) (cancel_turn T now org rid) (\<lambda>_ _. True)"
    unfolding cancel_turn_def by (rule guided_transact [OF others_keep_inv]) (auto intro: turn_step.cancelled)
  with process_guided [of T cmd] pre show ?thesis unfolding guided_def by (metis prod.collapse)
qed

theorem turns_refine_journal_witness:
  "turn_reachable demo_engine (eg_db (snd (process demo_engine demo_command idle_engine)))"
proof -
  have "turn_reachable demo_engine (eg_db idle_engine)" by (simp add: turn_reachable_def idle_engine_def)
  with turns_refine_journal [of demo_engine idle_engine] show ?thesis
    by (simp add: demo_engine_def turn_reachable_def idle_engine_def)
qed

text \<open>C10 The journal is append-only and final under every interleaving of turns: steps, user events and checkpoints are numbered
  from one without gaps and never change; a run keeps its request and its bound context, and once it is completed, failed or cancelled
  with a bound context its status, failure code and cancellation time never change; a completed tool invocation, with
  its output, never changes; and no run has two invocations with one call id.\<close>

theorem journal_final:
  assumes "turn_reachable T db" "(turn_step T)\<^sup>*\<^sup>* db db'"
  shows "map st_sequence (steps_of org rid db') = map int [1..<Suc (length (steps_of org rid db'))] \<and>
    map ev_sequence (events_of org rid db') = map int [1..<Suc (length (events_of org rid db'))] \<and>
    map cc_sequence (checkpoints_of org rid db') = map int [1..<Suc (length (checkpoints_of org rid db'))] \<and>
    (\<exists>k. cb_steps db' = cb_steps db @ k) \<and> (\<exists>k. cb_events db' = cb_events db @ k) \<and>
    (\<exists>k. cb_checkpoints db' = cb_checkpoints db @ k) \<and>
    (\<forall>r. run_of org rid db = Some r \<longrightarrow> (\<exists>r'. run_of org rid db' = Some r' \<and> same_request r r' \<and>
      (ru_manifest_hash r \<noteq> None \<longrightarrow> ru_manifest_hash r' = ru_manifest_hash r) \<and>
      (ru_status r \<in> {RunStatus.COMPLETED, RunStatus.FAILED} \<or> ru_status r = RunStatus.CANCELLED \<and> ru_manifest_hash r \<noteq> None \<longrightarrow>
        ru_status r' = ru_status r \<and> ru_failure_code r' = ru_failure_code r \<and> ru_cancelled_at r' = ru_cancelled_at r))) \<and>
    (\<forall>i\<in>set (cb_invocations db). iv_status i = INVOCATION_COMPLETED \<longrightarrow> i \<in> set (cb_invocations db')) \<and>
    (\<forall>i\<in>set (cb_invocations db'). \<forall>j\<in>set (cb_invocations db').
      iv_org i = iv_org j \<and> iv_run_id i = iv_run_id j \<and> iv_call_id i = iv_call_id j \<longrightarrow> i = j)"
proof (intro conjI allI ballI impI)
  have inv: "journal_inv db" by (rule reachable_inv [OF assms(1)])
  have inv': "journal_inv db'" by (rule journal.steps_inv [OF assms(2) inv])
  have ev: "journal_evolves db db'" by (rule journal.steps_evolve [OF assms(2) inv])
  show "map st_sequence (steps_of org rid db') = map int [1..<Suc (length (steps_of org rid db'))]"
    "map ev_sequence (events_of org rid db') = map int [1..<Suc (length (events_of org rid db'))]"
    "map cc_sequence (checkpoints_of org rid db') = map int [1..<Suc (length (checkpoints_of org rid db'))]"
    by (rule numbered_steps_of [OF inv'])+
  show "\<exists>k. cb_steps db' = cb_steps db @ k" "\<exists>k. cb_events db' = cb_events db @ k" "\<exists>k. cb_checkpoints db' = cb_checkpoints db @ k"
    using ev by (auto simp: journal_evolves_def)
  show "i \<in> set (cb_invocations db')" if "i \<in> set (cb_invocations db)" "iv_status i = INVOCATION_COMPLETED" for i
    using completed_stays [OF ev that] .
  show "i = j" if "i \<in> set (cb_invocations db')" "j \<in> set (cb_invocations db')"
    "iv_org i = iv_org j \<and> iv_run_id i = iv_run_id j \<and> iv_call_id i = iv_call_id j" for i j
    using inv' that by (auto simp: journal_inv_def intro: one_call_each)
  fix r
  assume r: "run_of org rid db = Some r"
  then have "run_ok r" using inv run_ofD [OF r] by (auto simp: journal_inv_def list_all_iff)
  with run_of_evolves [OF ev r] show "\<exists>r'. run_of org rid db' = Some r' \<and> same_request r r' \<and>
      (ru_manifest_hash r \<noteq> None \<longrightarrow> ru_manifest_hash r' = ru_manifest_hash r) \<and>
      (ru_status r \<in> {RunStatus.COMPLETED, RunStatus.FAILED} \<or> ru_status r = RunStatus.CANCELLED \<and> ru_manifest_hash r \<noteq> None \<longrightarrow>
        ru_status r' = ru_status r \<and> ru_failure_code r' = ru_failure_code r \<and> ru_cancelled_at r' = ru_cancelled_at r)"
    by (auto simp: run_moves_def settled_def bound_run_def terminal_def run_ok_def answered_status_def)
qed

theorem journal_final_witness:
  "\<exists>db'. eg_db (snd (process demo_engine demo_command idle_engine)) = db' \<and> cb_steps db' \<noteq> [] \<and>
    map st_sequence (steps_of ''o'' ''crun_0'' db') = map int [1..<Suc (length (steps_of ''o'' ''crun_0'' db'))]"
proof -
  let ?db = "eg_db (snd (process demo_engine demo_command idle_engine))"
  have "guided demo_engine (\<lambda>db. turn_rely demo_engine \<and> journal_inv db) (process demo_engine demo_command) (\<lambda>_ _. True)"
    by (rule process_guided)
  then have "(turn_step demo_engine)\<^sup>*\<^sup>* no_rows ?db"
    using demo_alone(3) no_rows_inv unfolding guided_def by (metis idle_engine_def engine.select_convs(1) prod.collapse)
  from journal_final [OF _ this] demo_steps show ?thesis by (simp add: turn_reachable_def)
qed

text \<open>C11 A model sees only its own side: where contexts are assembled under policies, every context that a turn shows to the model is
  sealed, carries principal, party, tenant and actor of the command and a policy made for them, offers only tools that this policy allows and the
  command asked for, and contains the message, the history, the summary and the two projections of the command, which have no
  name of a secret or of the other party's private plane and no text like a credential or a card number at any depth; only
  the results of authorized tools are added, and then no tool is offered any more.\<close>

theorem model_sees_own_side:
  assumes "en_assembler T = Some policies" "process T cmd s = (r, s')" "eg_log s' = eg_log s @ l" "Asked m \<in> set l"
  shows "(\<exists>h. cm_manifest_hash m = Some h \<and> calculate_hash (en_kernel T) m = Inr h) \<and>
    (\<exists>p\<in>set policies. speaks_for cmd p m) \<and>
    (cm_exchange_projection m = own_projection cmd \<or> cm_available_tools m = [] \<and>
      (\<exists>results. cm_exchange_projection m = own_projection cmd @ [(''authorized_tool_results'', results)])) \<and>
    isolated (tm_principal cmd = SEIL) (PyStr (cm_current_message m)) \<and>
    isolated (tm_principal cmd = SEIL) (PyTuple (map dict_str (cm_recent_messages m))) \<and>
    isolated (tm_principal cmd = SEIL) (py_opt PyStr (cm_summary m)) \<and>
    isolated (tm_principal cmd = SEIL) (dict_str (tm_private_context cmd)) \<and>
    isolated (tm_principal cmd = SEIL) (dict_str (tm_exchange_projection cmd))"
proof -
  from emitsD [OF process_emits assms(2)] assms(3,4) obtain m0 m1 results where m: "context_of T cmd = Inr m0"
    "with_contracts T m0 = Inr m1" "decision_manifest T m1 results = Inr m" by (auto simp: loop_effects_def)
  from context_of_Inr [OF assms(1) m(1)] obtain p where p: "p \<in> set policies" "speaks_for cmd p m0"
    "cm_exchange_projection m0 = own_projection cmd"
    and iso: "isolated (tm_principal cmd = SEIL) (dict_str
      [(''current_message'', PyStr (tm_message cmd)), (''recent_messages'', PyTuple (map dict_str (tm_recent_messages cmd))),
       (''summary'', py_opt PyStr (tm_summary cmd)), (''principal_context'', dict_str (tm_private_context cmd)),
       (''exchange_projection'', dict_str (tm_exchange_projection cmd))])" by metis
  note seen = decision_manifest_shows [OF m(2,3) p(2,3)]
  have "isolated (tm_principal cmd = SEIL) (PyStr (tm_message cmd)) \<and>
    isolated (tm_principal cmd = SEIL) (PyTuple (map dict_str (tm_recent_messages cmd))) \<and>
    isolated (tm_principal cmd = SEIL) (py_opt PyStr (tm_summary cmd)) \<and>
    isolated (tm_principal cmd = SEIL) (dict_str (tm_private_context cmd)) \<and>
    isolated (tm_principal cmd = SEIL) (dict_str (tm_exchange_projection cmd))"
    using iso by (simp add: dict_str_def)
  with seen p(1) show ?thesis unfolding is_sealed_def speaks_for_def by metis
qed

theorem model_sees_own_side_witness:
  "\<exists>m. Asked m \<in> set (eg_log (snd (process demo_engine demo_command idle_engine))) \<and>
    (\<exists>p\<in>set demo_policies. speaks_for demo_command p m) \<and> isolated False (PyStr (cm_current_message m))"
proof -
  obtain r s where run: "process demo_engine demo_command idle_engine = (r, s)" by (cases "process demo_engine demo_command idle_engine")
  with demo_turn have "map is_asked (eg_log s) = [True, False, True]" by simp
  then have "\<exists>e\<in>set (eg_log s). is_asked e" by (cases "eg_log s") auto
  then obtain e where e: "e \<in> set (eg_log s)" "is_asked e" by blast
  from e(2) have "\<exists>m. e = Asked m" by (cases e) simp_all
  with e have "\<exists>m. Asked m \<in> set (eg_log s)" by auto
  then obtain m where m: "Asked m \<in> set (eg_log s)" by blast
  have "en_assembler demo_engine = Some demo_policies" "eg_log s = eg_log idle_engine @ eg_log s"
    by (simp_all add: demo_engine_def idle_engine_def)
  from model_sees_own_side [OF this(1) run this(2) m] m run show ?thesis by (auto simp: demo_command_def)
qed

end
