(* ===== verification/RuleLanguage.thy ===== *)
theory RuleLanguage
  imports PyEquality Enums
begin

text \<open>
  The three-valued rule language of \<^verbatim>\<open>src/python/domain/rules.py\<close>: dotted field paths, typed comparisons that
  never coerce booleans or floats, conditions and \<^verbatim>\<open>all\<close>/\<^verbatim>\<open>any\<close> expressions. A context is a dict value. An
  aware datetime counts as UTC, the only zone the program creates; a signalling NaN does not occur in a context.
  The lemmas show that evaluation is Kleene's logic over the conditions, never fails on constructed rules, and
  that more information never revises a decided rule.
\<close>

section \<open>Field paths\<close>

definition valid_segment :: "string \<Rightarrow> bool" where
  "valid_segment s =
     (case s of [] \<Rightarrow> False
      | c # cs \<Rightarrow> is_lower c \<and> list_all (\<lambda>d. is_lower d \<or> is_digit d \<or> d = CHR ''_'') cs)"

definition valid_path :: "string \<Rightarrow> bool" where
  "valid_path path = list_all valid_segment (str_split (CHR ''.'') path)"

fun resolve_segments :: "pyval \<Rightarrow> string list \<Rightarrow> pyval option res" where
  "resolve_segments current [] = Inr (Some current)"
| "resolve_segments current (segment # rest) =
     (if segment = [] \<or> starts_with segment ''_''
      then Inl (DomainValidationError ''private or empty field path segments are prohibited'')
      else (case current of
              PyDict kvs \<Rightarrow>
                (case map_of kvs (KStr segment) of
                   Some v \<Rightarrow> resolve_segments v rest
                 | None \<Rightarrow> Inr None)
            | _ \<Rightarrow> Inr None))"

definition resolve_field :: "pyval \<Rightarrow> string \<Rightarrow> pyval option res" where
  "resolve_field context path =
     (if \<not> valid_path path then Inl (DomainValidationError ''rule field must be a valid dotted path'')
      else resolve_segments context (str_split (CHR ''.'') path))"

section \<open>Typed readings\<close>

definition as_decimal :: "pyval \<Rightarrow> decimal res" where
  "as_decimal value =
     (case value of
        PyDec d \<Rightarrow> Inr d
      | PyInt i \<Rightarrow> Inr (DFin i 0)
      | PyStr s \<Rightarrow> parse_decimal s
      | _ \<Rightarrow> Inl InvalidOperation)"

text \<open>The order of numbers; comparing a NaN raises.\<close>

fun order_rank :: "decimal \<Rightarrow> (int \<times> rat) res" where
  "order_rank (DFin c e) = Inr (0, dec_rat c e)"
| "order_rank (DInf negative) = Inr (if negative then -1 else 1, 0)"
| "order_rank DNaN = Inl InvalidOperation"

definition leap_year :: "int \<Rightarrow> bool" where
  "leap_year y \<longleftrightarrow> 4 dvd y \<and> (\<not> 100 dvd y \<or> 400 dvd y)"

definition days_in_month :: "int \<Rightarrow> int \<Rightarrow> int" where
  "days_in_month y m =
     (if m = 2 then (if leap_year y then 29 else 28) else if m \<in> {4, 6, 9, 11} then 30 else 31)"

text \<open>The day number of a calendar date, day 0 being 1970-01-01.\<close>

definition days_from_civil :: "int \<Rightarrow> int \<Rightarrow> int \<Rightarrow> int" where
  "days_from_civil y m d =
     (let y' = (if m \<le> 2 then y - 1 else y); era = y' div 400; yoe = y' mod 400;
          doy = (153 * (if m \<le> 2 then m + 9 else m - 3) + 2) div 5 + d - 1;
          doe = yoe * 365 + yoe div 4 - yoe div 100 + doy
      in era * 146097 + doe - 719468)"

definition bad_date :: "'a res" where
  "bad_date = Inl (ValueError ''Invalid isoformat string'')"

definition calendar_day :: "int \<Rightarrow> int \<Rightarrow> int \<Rightarrow> int res" where
  "calendar_day y m d =
     (if 1 \<le> y \<and> y \<le> 9999 \<and> 1 \<le> m \<and> m \<le> 12 \<and> 1 \<le> d \<and> d \<le> days_in_month y m
      then Inr (days_from_civil y m d) else bad_date)"

text \<open>The Monday of the first ISO week of a year; day 0 is a Thursday.\<close>

definition iso_week1_monday :: "int \<Rightarrow> int" where
  "iso_week1_monday y =
     (let firstday = days_from_civil y 1 1; firstweekday = (firstday + 3) mod 7
      in firstday - firstweekday + (if firstweekday > 3 then 7 else 0))"

definition week_day :: "int \<Rightarrow> int \<Rightarrow> int \<Rightarrow> int res" where
  "week_day y w d =
     (let first = (days_from_civil y 1 1 + 3) mod 7;
          long_year = first = 3 \<or> (first = 2 \<and> leap_year y);
          day = iso_week1_monday y + (w - 1) * 7 + (d - 1)
      in if 1 \<le> y \<and> y \<le> 9999 \<and> 1 \<le> w \<and> (w \<le> 52 \<or> w = 53 \<and> long_year) \<and> 1 \<le> d \<and> d \<le> 7
            \<and> day \<le> days_from_civil 9999 12 31
         then Inr day else bad_date)"

definition read_digits :: "nat \<Rightarrow> string \<Rightarrow> (int \<times> string) res" where
  "read_digits n s =
     (if n \<le> length s \<and> list_all is_digit (take n s) then Inr (int (digits_val (take n s)), drop n s)
      else bad_date)"

definition read_dash :: "bool \<Rightarrow> string \<Rightarrow> string res" where
  "read_dash dashed s =
     (if starts_with s ''-'' \<noteq> dashed then bad_date else Inr (if dashed then tl s else s))"

definition at_end :: "string \<Rightarrow> 'a res \<Rightarrow> 'a res" where
  "at_end s r = (if s = [] then r else bad_date)"

text \<open>\<^verbatim>\<open>date.fromisoformat\<close>: a calendar date or a week date, in basic or extended form.\<close>

definition date_fromisoformat :: "string \<Rightarrow> int res" where
  "date_fromisoformat s =
     (if length s \<notin> {7, 8, 10} then bad_date
      else bindE (read_digits 4 s) (\<lambda>(y, r0).
        let dashed = starts_with r0 ''-''; r1 = (if dashed then tl r0 else r0)
        in if starts_with r1 ''W''
           then bindE (read_digits 2 (tl r1)) (\<lambda>(w, r2).
             if r2 = [] then week_day y w 1
             else bindE (read_dash dashed r2) (\<lambda>r3. bindE (read_digits 1 r3) (\<lambda>(d, r4).
               at_end r4 (week_day y w d))))
           else bindE (read_digits 2 r1) (\<lambda>(m, r2). bindE (read_dash dashed r2) (\<lambda>r3.
             bindE (read_digits 2 r3) (\<lambda>(d, r4). at_end r4 (calendar_day y m d))))))"

definition as_date :: "pyval \<Rightarrow> int res" where
  "as_date value =
     (case value of
        PyDatetime t \<Rightarrow> Inr (micros t div 86400000000)
      | PyDate n \<Rightarrow> Inr n
      | PyStr s \<Rightarrow> date_fromisoformat s
      | _ \<Rightarrow> Inl (ValueError []))"

definition collection_items :: "pyval \<Rightarrow> pyval list option" where
  "collection_items value =
     (case value of PyList xs \<Rightarrow> Some xs | PyTuple xs \<Rightarrow> Some xs | PySet xs \<Rightarrow> Some xs | _ \<Rightarrow> None)"

definition strictly_equal :: "pyval \<Rightarrow> pyval \<Rightarrow> bool" where
  "strictly_equal left right =
     (case (left, right) of
        (PyBool a, PyBool b) \<Rightarrow> a = b
      | (PyBool _, _) \<Rightarrow> False
      | (_, PyBool _) \<Rightarrow> False
      | _ \<Rightarrow> py_eq left right)"

section \<open>Conditions\<close>

record RuleCondition =
  rc_field :: string
  rc_operator :: RuleOperator
  rc_value :: pyval

record RuleEvaluation =
  re_value :: TruthValue
  re_unresolved_fields :: "string list"

fun rule_operator_value :: "RuleOperator \<Rightarrow> string" where
  "rule_operator_value EQ = ''eq''"
| "rule_operator_value NEQ = ''neq''"
| "rule_operator_value IN = ''in''"
| "rule_operator_value NOT_IN = ''not_in''"
| "rule_operator_value CONTAINS = ''contains''"
| "rule_operator_value CONTAINS_ALL = ''contains_all''"
| "rule_operator_value GTE = ''gte''"
| "rule_operator_value LTE = ''lte''"
| "rule_operator_value GT = ''gt''"
| "rule_operator_value LT = ''lt''"
| "rule_operator_value EXISTS = ''exists''"
| "rule_operator_value DATE_BEFORE = ''date_before''"
| "rule_operator_value DATE_ON_OR_BEFORE = ''date_on_or_before''"
| "rule_operator_value DATE_AFTER = ''date_after''"
| "rule_operator_value DATE_ON_OR_AFTER = ''date_on_or_after''"

definition rule_operators :: "RuleOperator list" where
  "rule_operators =
     [EQ, NEQ, IN, NOT_IN, CONTAINS, CONTAINS_ALL, GTE, LTE, GT, LT, EXISTS,
      DATE_BEFORE, DATE_ON_OR_BEFORE, DATE_AFTER, DATE_ON_OR_AFTER]"

definition collection_operators :: "RuleOperator set" where
  "collection_operators = {IN, NOT_IN, CONTAINS_ALL}"

fun is_py_bool :: "pyval \<Rightarrow> bool" where
  "is_py_bool (PyBool _) = True"
| "is_py_bool _ = False"

text \<open>The operator arrives as a member or as its text.\<close>

definition mk_RuleCondition :: "string \<Rightarrow> RuleOperator + string \<Rightarrow> pyval \<Rightarrow> RuleCondition res" where
  "mk_RuleCondition field operator expected =
     bindE (case operator of
              Inl op \<Rightarrow> Inr op
            | Inr text \<Rightarrow>
                (case find (\<lambda>op. rule_operator_value op = text) rule_operators of
                   Some op \<Rightarrow> Inr op
                 | None \<Rightarrow> Inl (DomainValidationError ''unsupported rule operator''))) (\<lambda>op.
     bindE (resolve_field (PyDict []) field) (\<lambda>_.
       if op \<in> collection_operators \<and> collection_items expected = None
       then Inl (DomainValidationError (rule_operator_value op @ '' requires a list-like value''))
       else if op = EXISTS \<and> \<not> is_py_bool expected
       then Inl (DomainValidationError ''exists requires a boolean expected value'')
       else Inr \<lparr>rc_field = field, rc_operator = op, rc_value = expected\<rparr>))"

definition compare_numbers :: "((int \<times> rat) \<Rightarrow> (int \<times> rat) \<Rightarrow> bool) \<Rightarrow> pyval \<Rightarrow> pyval \<Rightarrow> bool res" where
  "compare_numbers op actual expected =
     bindE (as_decimal actual) (\<lambda>left. bindE (as_decimal expected) (\<lambda>right.
     bindE (order_rank left) (\<lambda>a. bindE (order_rank right) (\<lambda>b. Inr (op a b)))))"

definition compare_dates :: "(int \<Rightarrow> int \<Rightarrow> bool) \<Rightarrow> pyval \<Rightarrow> pyval \<Rightarrow> bool res" where
  "compare_dates op actual expected =
     bindE (as_date actual) (\<lambda>left. bindE (as_date expected) (\<lambda>right. Inr (op left right)))"

definition items_or_raise :: "pyval \<Rightarrow> pyval list res" where
  "items_or_raise v = (case collection_items v of Some xs \<Rightarrow> Inr xs | None \<Rightarrow> Inl TypeError)"

definition compare_condition :: "RuleCondition \<Rightarrow> pyval \<Rightarrow> bool res" where
  "compare_condition c actual =
     (let expected = rc_value c
      in case rc_operator c of
           EQ \<Rightarrow> Inr (strictly_equal actual expected)
         | NEQ \<Rightarrow> Inr (\<not> strictly_equal actual expected)
         | IN \<Rightarrow> bindE (items_or_raise expected) (\<lambda>items. Inr (list_ex (strictly_equal actual) items))
         | NOT_IN \<Rightarrow> bindE (items_or_raise expected) (\<lambda>items. Inr (\<not> list_ex (strictly_equal actual) items))
         | CONTAINS \<Rightarrow> py_in expected actual
         | CONTAINS_ALL \<Rightarrow>
             bindE (items_or_raise actual) (\<lambda>present. bindE (items_or_raise expected) (\<lambda>items.
               Inr (list_all (\<lambda>item. list_ex (strictly_equal item) present) items)))
         | GTE \<Rightarrow> compare_numbers (\<lambda>a b. a \<ge> b) actual expected
         | LTE \<Rightarrow> compare_numbers (\<lambda>a b. a \<le> b) actual expected
         | GT \<Rightarrow> compare_numbers (\<lambda>a b. a > b) actual expected
         | LT \<Rightarrow> compare_numbers (\<lambda>a b. a < b) actual expected
         | DATE_BEFORE \<Rightarrow> compare_dates (\<lambda>a b. a < b) actual expected
         | DATE_ON_OR_BEFORE \<Rightarrow> compare_dates (\<lambda>a b. a \<le> b) actual expected
         | DATE_AFTER \<Rightarrow> compare_dates (\<lambda>a b. a > b) actual expected
         | DATE_ON_OR_AFTER \<Rightarrow> compare_dates (\<lambda>a b. a \<ge> b) actual expected
         | EXISTS \<Rightarrow> Inl (DomainValidationError ''unsupported operator: exists''))"

definition matched_truth :: "bool \<Rightarrow> TruthValue" where
  "matched_truth b = (if b then TRUE else FALSE)"

text \<open>The exceptions \<^verbatim>\<open>(InvalidOperation, TypeError, ValueError)\<close> with their subclasses.\<close>

fun comparison_error :: "py_error \<Rightarrow> bool" where
  "comparison_error InvalidOperation = True"
| "comparison_error TypeError = True"
| "comparison_error (ValueError _) = True"
| "comparison_error (DomainValidationError _) = True"
| "comparison_error (InvalidTransitionError _) = True"
| "comparison_error _ = False"

definition unresolved_at :: "string \<Rightarrow> RuleEvaluation" where
  "unresolved_at field = \<lparr>re_value = UNRESOLVED, re_unresolved_fields = [field]\<rparr>"

definition resolved_as :: "bool \<Rightarrow> RuleEvaluation" where
  "resolved_as b = \<lparr>re_value = matched_truth b, re_unresolved_fields = []\<rparr>"

definition evaluate_condition :: "RuleCondition \<Rightarrow> pyval \<Rightarrow> RuleEvaluation res" where
  "evaluate_condition c context =
     bindE (resolve_field context (rc_field c)) (\<lambda>found.
       let present = found \<noteq> None \<and> found \<noteq> Some PyNone
       in if rc_operator c = EXISTS then Inr (resolved_as (py_eq (PyBool present) (rc_value c)))
          else if \<not> present then Inr (unresolved_at (rc_field c))
          else (case compare_condition c (the found) of
                  Inl e \<Rightarrow> if comparison_error e then Inr (unresolved_at (rc_field c)) else Inl e
                | Inr matched \<Rightarrow> Inr (resolved_as matched)))"

section \<open>Expressions\<close>

datatype rule_mode = MATCH_ALL | MATCH_ANY

fun rule_mode_of :: "string \<Rightarrow> rule_mode option" where
  "rule_mode_of s = (if s = ''all'' then Some MATCH_ALL else if s = ''any'' then Some MATCH_ANY else None)"

record RuleExpression =
  rx_conditions :: "RuleCondition list"
  rx_mode :: rule_mode

definition mk_RuleExpression :: "RuleCondition list \<Rightarrow> string \<Rightarrow> RuleExpression res" where
  "mk_RuleExpression conditions mode =
     (if conditions = []
      then Inl (DomainValidationError ''a rule expression needs at least one condition'')
      else (case rule_mode_of mode of
              None \<Rightarrow> Inl (DomainValidationError ''rule expression mode must be all or any'')
            | Some m \<Rightarrow> Inr \<lparr>rx_conditions = conditions, rx_mode = m\<rparr>))"

definition combine :: "rule_mode \<Rightarrow> RuleEvaluation list \<Rightarrow> RuleEvaluation" where
  "combine mode results =
     (let unresolved = sorted_set (concat (map re_unresolved_fields results));
          values = set (map re_value results);
          decisive = (case mode of MATCH_ALL \<Rightarrow> FALSE | MATCH_ANY \<Rightarrow> TRUE);
          otherwise = (case mode of MATCH_ALL \<Rightarrow> TRUE | MATCH_ANY \<Rightarrow> FALSE)
      in if decisive \<in> values then \<lparr>re_value = decisive, re_unresolved_fields = unresolved\<rparr>
         else if UNRESOLVED \<in> values then \<lparr>re_value = UNRESOLVED, re_unresolved_fields = unresolved\<rparr>
         else \<lparr>re_value = otherwise, re_unresolved_fields = []\<rparr>)"

definition evaluate_expression :: "RuleExpression \<Rightarrow> pyval \<Rightarrow> RuleEvaluation res" where
  "evaluate_expression x context =
     bindE (mapE (\<lambda>c. evaluate_condition c context) (rx_conditions x)) (\<lambda>results.
       Inr (combine (rx_mode x) results))"

section \<open>Constructed rules\<close>

text \<open>What the constructors admit.\<close>

definition condition_ok :: "RuleCondition \<Rightarrow> bool" where
  "condition_ok c \<longleftrightarrow> mk_RuleCondition (rc_field c) (Inl (rc_operator c)) (rc_value c) = Inr c"

definition expression_ok :: "RuleExpression \<Rightarrow> bool" where
  "expression_ok x \<longleftrightarrow> rx_conditions x \<noteq> [] \<and> list_all condition_ok (rx_conditions x)"

lemma mk_RuleCondition_ok: "mk_RuleCondition f op v = Inr c \<Longrightarrow> condition_ok c"
  by (auto simp: mk_RuleCondition_def condition_ok_def bindE_Inr_conv split: sum.splits option.splits if_splits)

lemma condition_ok_iff:
  "condition_ok c \<longleftrightarrow> (\<exists>r. resolve_field (PyDict []) (rc_field c) = Inr r) \<and>
     (rc_operator c \<in> collection_operators \<longrightarrow> collection_items (rc_value c) \<noteq> None) \<and>
     (rc_operator c = EXISTS \<longrightarrow> is_py_bool (rc_value c))"
  by (auto simp: mk_RuleCondition_def condition_ok_def bindE_Inr_conv split: if_splits)

lemma valid_segment_public: "valid_segment s \<Longrightarrow> s \<noteq> [] \<and> \<not> starts_with s ''_''"
  by (cases s) (auto simp: valid_segment_def is_lower_def less_eq_char_def)

lemma resolve_segments_total: "list_all valid_segment p \<Longrightarrow> \<exists>r. resolve_segments v p = Inr r"
  by (induction v p rule: resolve_segments.induct)
    (auto dest: valid_segment_public split: pyval.splits option.splits)

lemma resolve_field_total: "valid_path p \<Longrightarrow> \<exists>r. resolve_field context p = Inr r"
  using resolve_segments_total by (simp add: resolve_field_def valid_path_def)

lemma resolve_field_Inr: "resolve_field context p = Inr r \<Longrightarrow> valid_path p"
  by (auto simp: resolve_field_def split: if_splits)

section \<open>Comparisons fail only with the errors that are caught\<close>

lemma parse_decimal_error: "parse_decimal s = Inl e \<Longrightarrow> e = InvalidOperation"
  by (auto simp: parse_decimal_def parse_decimal_number_def Let_def
      split: prod.splits if_splits list.splits option.splits)

lemma bad_date_error [simp]: "bad_date = Inl e \<longleftrightarrow> e = ValueError ''Invalid isoformat string''"
  by (auto simp: bad_date_def)

lemma date_errors:
  "read_digits n s = Inl e \<Longrightarrow> comparison_error e"
  "read_dash b s = Inl e \<Longrightarrow> comparison_error e"
  "at_end s r = Inl e \<Longrightarrow> (r = Inl e \<Longrightarrow> comparison_error e) \<Longrightarrow> comparison_error e"
  "calendar_day y m d = Inl e \<Longrightarrow> comparison_error e"
  "week_day y m d = Inl e \<Longrightarrow> comparison_error e"
  by (auto simp: read_digits_def read_dash_def at_end_def calendar_day_def week_day_def Let_def
      split: if_splits)

lemma date_fromisoformat_error: "date_fromisoformat s = Inl e \<Longrightarrow> comparison_error e"
  by (auto simp: date_fromisoformat_def bindE_Inl_conv Let_def split: if_splits prod.splits dest: date_errors)

lemma as_decimal_error: "as_decimal v = Inl e \<Longrightarrow> comparison_error e"
  by (auto simp: as_decimal_def split: pyval.splits dest: parse_decimal_error)

lemma as_date_error: "as_date v = Inl e \<Longrightarrow> comparison_error e"
  by (auto simp: as_date_def split: pyval.splits dest: date_fromisoformat_error)

lemma order_rank_error: "order_rank d = Inl e \<Longrightarrow> comparison_error e"
  by (cases d) auto

lemma py_in_error: "py_in v w = Inl e \<Longrightarrow> comparison_error e"
  by (auto simp: py_in_def byte_in_def split: pyval.splits if_splits)

lemma compare_condition_error: "compare_condition c v = Inl e \<Longrightarrow> comparison_error e"
  by (auto simp: compare_condition_def Let_def compare_numbers_def compare_dates_def items_or_raise_def bindE_Inl_conv
      split: RuleOperator.splits option.splits
      dest: as_decimal_error as_date_error order_rank_error py_in_error)

section \<open>Kleene's logic\<close>

text \<open>The value of a field the context knows.\<close>

definition known :: "pyval \<Rightarrow> string \<Rightarrow> pyval option" where
  "known context path =
     (case resolve_field context path of Inr (Some v) \<Rightarrow> if v = PyNone then None else Some v | _ \<Rightarrow> None)"

text \<open>The truth of a condition, as the meaning of its operator on the known value.\<close>

definition condition_truth :: "pyval \<Rightarrow> RuleCondition \<Rightarrow> TruthValue" where
  "condition_truth context c =
     (if rc_operator c = EXISTS then matched_truth (rc_value c = PyBool (known context (rc_field c) \<noteq> None))
      else (case known context (rc_field c) of
              None \<Rightarrow> UNRESOLVED
            | Some v \<Rightarrow> (case compare_condition c v of Inl _ \<Rightarrow> UNRESOLVED | Inr b \<Rightarrow> matched_truth b)))"

fun kleene_and :: "TruthValue \<Rightarrow> TruthValue \<Rightarrow> TruthValue" where
  "kleene_and FALSE _ = FALSE"
| "kleene_and _ FALSE = FALSE"
| "kleene_and TRUE b = b"
| "kleene_and a _ = a"

fun kleene_or :: "TruthValue \<Rightarrow> TruthValue \<Rightarrow> TruthValue" where
  "kleene_or TRUE _ = TRUE"
| "kleene_or _ TRUE = TRUE"
| "kleene_or FALSE b = b"
| "kleene_or a _ = a"

fun kleene :: "rule_mode \<Rightarrow> TruthValue list \<Rightarrow> TruthValue" where
  "kleene MATCH_ALL vs = foldr kleene_and vs TRUE"
| "kleene MATCH_ANY vs = foldr kleene_or vs FALSE"

definition three_valued :: "TruthValue set" where
  "three_valued = {TRUE, FALSE, UNRESOLVED}"

lemma kleene_all_conv:
  "set vs \<subseteq> three_valued \<Longrightarrow> kleene MATCH_ALL vs =
     (if FALSE \<in> set vs then FALSE else if UNRESOLVED \<in> set vs then UNRESOLVED else TRUE)"
  by (induction vs) (auto simp: three_valued_def)

lemma kleene_any_conv:
  "set vs \<subseteq> three_valued \<Longrightarrow> kleene MATCH_ANY vs =
     (if TRUE \<in> set vs then TRUE else if UNRESOLVED \<in> set vs then UNRESOLVED else FALSE)"
  by (induction vs) (auto simp: three_valued_def)

lemma matched_truth_simps [simp]:
  "matched_truth b = TRUE \<longleftrightarrow> b" "matched_truth b = FALSE \<longleftrightarrow> \<not> b" "matched_truth b \<noteq> UNRESOLVED"
  "TRUE = matched_truth b \<longleftrightarrow> b" "FALSE = matched_truth b \<longleftrightarrow> \<not> b" "UNRESOLVED \<noteq> matched_truth b"
  by (auto simp: matched_truth_def)

lemma matched_truth_three [simp]: "matched_truth b \<in> three_valued" "UNRESOLVED \<in> three_valued"
  by (simp_all add: matched_truth_def three_valued_def)

lemma condition_truth_three: "condition_truth context c \<in> three_valued"
  by (simp add: condition_truth_def split: option.splits sum.splits)

lemma combine_value: "set (map re_value rs) \<subseteq> three_valued \<Longrightarrow> re_value (combine m rs) = kleene m (map re_value rs)"
  by (cases m) (simp_all only: kleene_all_conv kleene_any_conv, auto simp: combine_def Let_def)

definition condition_result :: "pyval \<Rightarrow> RuleCondition \<Rightarrow> RuleEvaluation" where
  "condition_result context c =
     \<lparr>re_value = condition_truth context c,
      re_unresolved_fields = (if condition_truth context c = UNRESOLVED then [rc_field c] else [])\<rparr>"

lemma py_eq_bool: "is_py_bool v \<Longrightarrow> py_eq (PyBool b) v \<longleftrightarrow> v = PyBool b"
  by (cases v) (auto simp: py_eq.simps)

theorem evaluate_condition_meaning:
  assumes "condition_ok c"
  shows "evaluate_condition c context = Inr (condition_result context c)"
proof -
  obtain found where found: "resolve_field context (rc_field c) = Inr found"
    using assms resolve_field_total resolve_field_Inr by (metis condition_ok_iff)
  have k: "known context (rc_field c) = (if found \<noteq> None \<and> found \<noteq> Some PyNone then found else None)"
    by (auto simp: known_def found split: option.splits)
  show ?thesis
  proof (cases "rc_operator c = EXISTS")
    case True
    then have "is_py_bool (rc_value c)" using assms by (simp add: condition_ok_iff)
    with True found show ?thesis
      by (auto simp: evaluate_condition_def condition_result_def condition_truth_def k py_eq_bool resolved_as_def Let_def)
  next
    case False
    with found show ?thesis
      by (auto simp: evaluate_condition_def condition_result_def condition_truth_def k resolved_as_def
          unresolved_at_def Let_def split: sum.splits option.splits dest: compare_condition_error)
  qed
qed

definition expression_result :: "pyval \<Rightarrow> RuleExpression \<Rightarrow> RuleEvaluation" where
  "expression_result context x = combine (rx_mode x) (map (condition_result context) (rx_conditions x))"

lemma evaluate_expression_meaning:
  assumes "expression_ok x"
  shows "evaluate_expression x context = Inr (expression_result context x)"
proof -
  have "mapE (\<lambda>c. evaluate_condition c context) (rx_conditions x) =
      mapE (\<lambda>c. Inr (condition_result context c)) (rx_conditions x)"
    using assms by (intro mapE_cong) (auto simp: expression_ok_def list_all_iff evaluate_condition_meaning)
  then show ?thesis by (simp add: evaluate_expression_def expression_result_def mapE_pure)
qed

lemma expression_result_value:
  "re_value (expression_result context x) = kleene (rx_mode x) (map (condition_truth context) (rx_conditions x))"
proof -
  have "map re_value (map (condition_result context) (rx_conditions x)) = map (condition_truth context) (rx_conditions x)"
    by (simp add: condition_result_def)
  with condition_truth_three show ?thesis
    unfolding expression_result_def by (subst combine_value) (auto simp: condition_result_def comp_def)
qed

lemma expression_result_fields:
  "f \<in> set (re_unresolved_fields (expression_result context x)) \<Longrightarrow>
     \<exists>c \<in> set (rx_conditions x). rc_field c = f \<and> condition_truth context c = UNRESOLVED"
  by (auto simp: expression_result_def combine_def condition_result_def Let_def split: if_splits)

lemma expression_result_unresolved:
  assumes "re_value (expression_result context x) = UNRESOLVED"
  shows "set (re_unresolved_fields (expression_result context x)) =
      rc_field ` {c \<in> set (rx_conditions x). condition_truth context c = UNRESOLVED}"
    and "re_unresolved_fields (expression_result context x) \<noteq> []"
proof -
  have *: "UNRESOLVED \<in> condition_truth context ` set (rx_conditions x)"
    and "re_unresolved_fields (expression_result context x) =
      sorted_set (concat (map re_unresolved_fields (map (condition_result context) (rx_conditions x))))"
    using assms by (cases "rx_mode x"; auto simp: expression_result_def combine_def condition_result_def Let_def split: if_splits)+
  then show fields: "set (re_unresolved_fields (expression_result context x)) =
      rc_field ` {c \<in> set (rx_conditions x). condition_truth context c = UNRESOLVED}"
    by (auto simp: condition_result_def)
  from * fields show "re_unresolved_fields (expression_result context x) \<noteq> []" by force
qed

section \<open>More information\<close>

text \<open>What was known about the fields of a rule stays known; a field that the rule tests for existence keeps its
  value or its absence.\<close>

definition expression_learned :: "RuleExpression \<Rightarrow> pyval \<Rightarrow> pyval \<Rightarrow> bool" where
  "expression_learned x before after =
     list_all (\<lambda>c. known after (rc_field c) = known before (rc_field c) \<or>
       rc_operator c \<noteq> EXISTS \<and> known before (rc_field c) = None) (rx_conditions x)"

lemma condition_truth_known:
  "known before (rc_field c) = known after (rc_field c) \<Longrightarrow> condition_truth before c = condition_truth after c"
  by (simp add: condition_truth_def)

lemma condition_truth_learned:
  assumes "known after (rc_field c) = known before (rc_field c) \<or> rc_operator c \<noteq> EXISTS \<and> known before (rc_field c) = None"
    "condition_truth before c \<noteq> UNRESOLVED"
  shows "condition_truth after c = condition_truth before c"
  using assms by (auto simp: condition_truth_def)

text \<open>A decided rule is never revised.\<close>

lemma kleene_decided:
  assumes "\<And>c. c \<in> set cs \<Longrightarrow> f c \<in> three_valued \<and> g c \<in> three_valued \<and> (f c \<noteq> UNRESOLVED \<longrightarrow> g c = f c)"
    "kleene m (map f cs) \<noteq> UNRESOLVED"
  shows "kleene m (map g cs) = kleene m (map f cs)"
proof -
  have 3: "set (map f cs) \<subseteq> three_valued" "set (map g cs) \<subseteq> three_valued" using assms(1) by auto
  show ?thesis
  proof (cases m)
    case MATCH_ALL
    then show ?thesis using assms
      by (simp only: kleene_all_conv [OF 3(1)] kleene_all_conv [OF 3(2)])
        (smt (verit) TruthValue.distinct imageE imageI list.set_map)
  next
    case MATCH_ANY
    then show ?thesis using assms
      by (simp only: kleene_any_conv [OF 3(1)] kleene_any_conv [OF 3(2)])
        (smt (verit) TruthValue.distinct imageE imageI list.set_map)
  qed
qed

theorem expression_decided:
  assumes "expression_learned x before after"
    "re_value (expression_result before x) \<noteq> UNRESOLVED"
  shows "re_value (expression_result after x) = re_value (expression_result before x)"
  unfolding expression_result_value
proof (rule kleene_decided)
  show "kleene (rx_mode x) (map (condition_truth before) (rx_conditions x)) \<noteq> UNRESOLVED"
    using assms(2) by (simp add: expression_result_value)
  fix c assume "c \<in> set (rx_conditions x)"
  with assms(1) show "condition_truth before c \<in> three_valued \<and> condition_truth after c \<in> three_valued \<and>
      (condition_truth before c \<noteq> UNRESOLVED \<longrightarrow> condition_truth after c = condition_truth before c)"
    by (auto simp: condition_truth_three expression_learned_def list_all_iff intro!: condition_truth_learned)
qed

text \<open>An open rule stays as it is while none of the fields it reports is learned.\<close>

theorem expression_still_open:
  assumes "expression_learned x before after"
    "re_value (expression_result before x) = UNRESOLVED"
    "\<And>f. f \<in> set (re_unresolved_fields (expression_result before x)) \<Longrightarrow> known after f = known before f"
  shows "expression_result after x = expression_result before x"
proof -
  have "condition_truth after c = condition_truth before c" if c: "c \<in> set (rx_conditions x)" for c
  proof (cases "condition_truth before c = UNRESOLVED")
    case True
    with c have "rc_field c \<in> set (re_unresolved_fields (expression_result before x))"
      using expression_result_unresolved(1) [OF assms(2)] by auto
    from assms(3) [OF this] show ?thesis by (intro condition_truth_known)
  next
    case False
    with c assms(1) show ?thesis
      by (intro condition_truth_learned) (auto simp: expression_learned_def list_all_iff)
  qed
  then have "map (condition_result after) (rx_conditions x) = map (condition_result before) (rx_conditions x)"
    by (intro map_cong) (simp_all add: condition_result_def)
  then show ?thesis unfolding expression_result_def by (rule arg_cong)
qed

end
