(* ===== verification/DecisionEngine.thy ===== *)
theory DecisionEngine
  imports RuleLanguage Bounds
begin

text \<open>
  The rule-based decision engine (\<^verbatim>\<open>src/python/decision_engine\<close>): its value objects (\<^verbatim>\<open>models.py\<close>), the gate
  order of a candidate (\<^verbatim>\<open>evaluation.py\<close>), the order of solution plans (\<^verbatim>\<open>ranking.py\<close>), the comparison of a
  generic with a company-aware decision (\<^verbatim>\<open>counterfactual.py\<close>) and the choice of a clarifying question
  (\<^verbatim>\<open>clarification.py\<close>). The rounding of binary floating point is the argument \<open>fl\<close> of the last; its inputs are
  finite.
\<close>

section \<open>Value objects\<close>

definition exact_decimal :: "exact_input \<Rightarrow> string \<Rightarrow> (int \<times> int) res" where
  "exact_decimal value name =
     (case value of
        InBool _ \<Rightarrow> Inl (DomainValidationError (name @ '' must use exact decimal input''))
      | InFloat \<Rightarrow> Inl (DomainValidationError (name @ '' must use exact decimal input''))
      | InFrac _ \<Rightarrow> Inl TypeError
      | _ \<Rightarrow>
          (case (case value of InDec d \<Rightarrow> Inr d | InStr s \<Rightarrow> parse_decimal s | InInt i \<Rightarrow> Inr (DFin i 0) | _ \<Rightarrow> Inl TypeError) of
             Inl _ \<Rightarrow> Inl (DomainValidationError (''invalid '' @ name))
           | Inr (DFin c e) \<Rightarrow> Inr (c, e)
           | Inr _ \<Rightarrow> Inl (DomainValidationError (name @ '' must be finite''))))"

record BuyerConstraint =
  bc_rule_id :: string
  bc_expression :: RuleExpression
  bc_reason_code :: string
  bc_display_reason :: string
  bc_exception_allowed :: bool

definition mk_BuyerConstraint :: "BuyerConstraint \<Rightarrow> BuyerConstraint res" where
  "mk_BuyerConstraint b =
     bindE (require_id (bc_rule_id b) ''rule_id'') (\<lambda>_.
       if bc_reason_code b = [] \<or> bc_display_reason b = []
       then Inl (DomainValidationError ''buyer constraint reason is required'')
       else Inr b)"

record SellerAntiFitRule =
  sa_rule_id :: string
  sa_expression :: RuleExpression
  sa_reason_code :: string
  sa_display_reason :: string
  sa_evidence_claim_ids :: "string list"

definition mk_SellerAntiFitRule :: "SellerAntiFitRule \<Rightarrow> SellerAntiFitRule res" where
  "mk_SellerAntiFitRule s =
     bindE (require_id (sa_rule_id s) ''rule_id'') (\<lambda>_.
       if sa_reason_code s = [] \<or> sa_display_reason s = []
       then Inl (DomainValidationError ''seller anti-fit reason is required'')
       else if sa_evidence_claim_ids s = []
       then Inl (DomainValidationError ''published hard anti-fit needs evidence claims'')
       else bindE (require_ids (map (\<lambda>c. (c, ''evidence_claim_id'')) (sa_evidence_claim_ids s))) (\<lambda>_. Inr s))"

record PreferenceResult =
  pr_criterion_id :: string
  pr_weight :: int
  pr_satisfaction :: "int \<times> int"
  pr_evidence_ids :: "string list"
  pr_unknown :: bool

definition satisfaction_values :: "rat set" where
  "satisfaction_values = {0, 1/4, 1/2, 3/4, 1}"

definition satisfaction_rat :: "PreferenceResult \<Rightarrow> rat" where
  "satisfaction_rat p = amount_rat (pr_satisfaction p)"

definition mk_PreferenceResult ::
  "string \<Rightarrow> int \<Rightarrow> exact_input \<Rightarrow> string list \<Rightarrow> bool \<Rightarrow> PreferenceResult res" where
  "mk_PreferenceResult criterion_id weight satisfaction evidence_ids unknown =
     bindE (require_id criterion_id ''criterion_id'') (\<lambda>_.
       if \<not> (1 \<le> weight \<and> weight \<le> 5)
       then Inl (DomainValidationError ''preference weight must be an integer from 1 to 5'')
       else bindE (exact_decimal satisfaction ''satisfaction'') (\<lambda>exact.
         if amount_rat exact \<notin> satisfaction_values
         then Inl (DomainValidationError ''satisfaction must be one of 0, .25, .5, .75, 1'')
         else if unknown \<and> amount_rat exact \<noteq> 0
         then Inl (DomainValidationError ''unknown evidence must contribute zero'')
         else Inr \<lparr>pr_criterion_id = criterion_id, pr_weight = weight, pr_satisfaction = exact,
                   pr_evidence_ids = evidence_ids, pr_unknown = unknown\<rparr>))"

definition exact_preference_score :: "PreferenceResult list \<Rightarrow> rat res" where
  "exact_preference_score results =
     (if results = []
      then Inl (DomainValidationError ''an eligible plan needs at least one preference criterion'')
      else let numerator = sum_list (map (\<lambda>r. of_int (pr_weight r) * satisfaction_rat r) results);
               denominator = sum_list (map pr_weight results)
           in if denominator = 0 then Inl ZeroDivisionError
              else Inr (100 * numerator / of_int denominator))"

record CandidateDefinition =
  cd_candidate_id :: string
  cd_name :: string
  cd_pack_id :: string
  cd_pack_version :: int
  cd_available :: bool
  cd_evidence_block :: "CandidateStatus option"
  cd_buyer_constraints :: "BuyerConstraint list"
  cd_seller_anti_fit_rules :: "SellerAntiFitRule list"
  cd_approved_exception_rule_ids :: "string list"
  cd_dependency_state :: TruthValue
  cd_preference_results :: "PreferenceResult list"
  cd_seller_positioning :: "string option"

definition mk_CandidateDefinition :: "CandidateDefinition \<Rightarrow> CandidateDefinition res" where
  "mk_CandidateDefinition c =
     bindE (require_ids [(cd_candidate_id c, ''candidate_id''), (cd_pack_id c, ''pack_id'')]) (\<lambda>_.
       if cd_name c = [] \<or> cd_pack_version c < 1
       then Inl (DomainValidationError ''candidate name and positive Pack version are required'')
       else if cd_evidence_block c \<notin>
           {None, Some STALE_EVIDENCE, Some INSUFFICIENT_EVIDENCE, Some CONFLICTING_EVIDENCE}
       then Inl (DomainValidationError ''evidence_block must be an evidence blocking status'')
       else if \<not> set (cd_approved_exception_rule_ids c) \<subseteq> bc_rule_id ` set (cd_buyer_constraints c)
       then Inl (DomainValidationError ''an exception references an unknown buyer constraint'')
       else Inr c)"

record CandidateResult =
  cr_candidate_id :: string
  cr_name :: string
  cr_pack_id :: string
  cr_pack_version :: int
  cr_status :: CandidateStatus
  cr_reason_code :: "string option"
  cr_reason :: string
  cr_preference_results :: "PreferenceResult list"
  cr_buyer_rule_id :: "string option"
  cr_seller_rule_id :: "string option"
  cr_evidence_claim_ids :: "string list"
  cr_unresolved_fields :: "string list"
  cr_seller_positioning :: "string option"

definition given :: "string option \<Rightarrow> bool" where
  "given x \<longleftrightarrow> x \<noteq> None \<and> x \<noteq> Some []"

definition mk_CandidateResult :: "CandidateResult \<Rightarrow> CandidateResult res" where
  "mk_CandidateResult r =
     (if cr_status r = SIRA_INELIGIBLE \<and> \<not> given (cr_buyer_rule_id r)
      then Inl (DomainValidationError ''SIRA_INELIGIBLE must identify the buyer rule'')
      else if cr_status r = SEIL_PASS \<and> \<not> given (cr_seller_rule_id r)
      then Inl (DomainValidationError ''SEIL_PASS must identify the published seller rule'')
      else if given (cr_buyer_rule_id r) \<and> given (cr_seller_rule_id r)
      then Inl (DomainValidationError ''buyer and seller rejection provenance cannot be conflated'')
      else Inr (r\<lparr>cr_unresolved_fields := sorted_set (cr_unresolved_fields r)\<rparr>))"

record SolutionPlan =
  sp_plan_id :: string
  sp_action :: SolutionAction
  sp_component_ids :: "string list"
  sp_status :: CandidateStatus
  sp_preference_results :: "PreferenceResult list"
  sp_stack_risk :: StackRisk
  sp_total_cost :: Money
  sp_horizon_days :: int
  sp_required_evidence_coverage :: "int \<times> int"
  sp_maximum_evidence_age_ratio :: "int \<times> int"
  sp_seller_positioning :: "string option"
  sp_stable_action_ids :: "string list"

text \<open>The record holds the other arguments; coverage and age arrive as exact inputs.\<close>

definition mk_SolutionPlan :: "SolutionPlan \<Rightarrow> exact_input \<Rightarrow> exact_input \<Rightarrow> SolutionPlan res" where
  "mk_SolutionPlan p coverage_input age_input =
     bindE (require_id (sp_plan_id p) ''plan_id'') (\<lambda>_.
       if sp_horizon_days p < 1
       then Inl (DomainValidationError ''comparison horizon must be positive'')
       else bindE (exact_decimal coverage_input ''required_evidence_coverage'') (\<lambda>coverage.
         bindE (exact_decimal age_input ''maximum_evidence_age_ratio'') (\<lambda>age.
           if \<not> (0 \<le> amount_rat coverage \<and> amount_rat coverage \<le> 1)
           then Inl (DomainValidationError ''evidence coverage must be between zero and one'')
           else if amount_rat age < 0
           then Inl (DomainValidationError ''evidence age ratio cannot be negative'')
           else bindE (require_ids (map (\<lambda>c. (c, ''component_id'')) (sp_component_ids p))) (\<lambda>_.
             if sp_action p = BUY \<and> sp_component_ids p = []
             then Inl (DomainValidationError ''a BUY plan requires at least one component'')
             else Inr (p\<lparr>sp_required_evidence_coverage := coverage, sp_maximum_evidence_age_ratio := age,
                 sp_stable_action_ids := if sp_stable_action_ids p \<noteq> [] then sp_stable_action_ids p
                   else solution_action_value (sp_action p) # sp_component_ids p\<rparr>)))))"

record Counterfactual =
  cf_generic_winner_plan_id :: "string option"
  cf_company_aware_winner_plan_id :: "string option"
  cf_changed :: bool
  cf_decisive_private_fact_ids :: "string list"
  cf_buyer_eliminations :: "(string \<times> string \<times> string) list"
  cf_seller_passes :: "(string \<times> string \<times> string) list"
  cf_coverage_statement :: string
  cf_uncertainties :: "string list"

definition mk_Counterfactual :: "Counterfactual \<Rightarrow> Counterfactual res" where
  "mk_Counterfactual c =
     (if cf_changed c \<and> cf_decisive_private_fact_ids c = []
      then Inl (DomainValidationError ''a changed counterfactual must identify decisive private facts'')
      else Inr c)"

section \<open>The gate order of a candidate\<close>

text \<open>\<^verbatim>\<open>_result\<close>: status, reason code, reason, buyer rule, seller rule, evidence claims, open fields.\<close>

definition candidate_result ::
  "CandidateDefinition \<Rightarrow> CandidateStatus \<Rightarrow> string option \<Rightarrow> string \<Rightarrow> string option \<Rightarrow> string option \<Rightarrow>
     string list \<Rightarrow> string list \<Rightarrow> CandidateResult res" where
  "candidate_result candidate status reason_code reason buyer_rule seller_rule claims unresolved =
     mk_CandidateResult \<lparr>cr_candidate_id = cd_candidate_id candidate, cr_name = cd_name candidate,
       cr_pack_id = cd_pack_id candidate, cr_pack_version = cd_pack_version candidate, cr_status = status,
       cr_reason_code = reason_code, cr_reason = reason, cr_preference_results = cd_preference_results candidate,
       cr_buyer_rule_id = buyer_rule, cr_seller_rule_id = seller_rule, cr_evidence_claim_ids = claims,
       cr_unresolved_fields = unresolved, cr_seller_positioning = cd_seller_positioning candidate\<rparr>"

definition has_exception :: "CandidateDefinition \<Rightarrow> BuyerConstraint \<Rightarrow> bool" where
  "has_exception candidate constraint \<longleftrightarrow>
     bc_exception_allowed constraint \<and> bc_rule_id constraint \<in> set (cd_approved_exception_rule_ids candidate)"

text \<open>The loop over the buyer constraints ends with a result, or with the flag \<^verbatim>\<open>exception_used\<close>.\<close>

fun buyer_gates ::
  "CandidateDefinition \<Rightarrow> pyval \<Rightarrow> bool \<Rightarrow> BuyerConstraint list \<Rightarrow> (CandidateResult + bool) res" where
  "buyer_gates candidate context exception_used [] = Inr (Inr exception_used)"
| "buyer_gates candidate context exception_used (constraint # rest) =
     bindE (evaluate_expression (bc_expression constraint) context) (\<lambda>evaluation.
       if re_value evaluation = UNRESOLVED
       then bindE (candidate_result candidate INSUFFICIENT_EVIDENCE (Some ''BUYER_RULE_UNRESOLVED'')
              ''A required buyer-policy fact is unresolved'' (Some (bc_rule_id constraint)) None []
              (re_unresolved_fields evaluation)) (\<lambda>r. Inr (Inl r))
       else if re_value evaluation = FALSE
       then (if \<not> has_exception candidate constraint
             then bindE (candidate_result candidate SIRA_INELIGIBLE (Some (bc_reason_code constraint))
                    (bc_display_reason constraint) (Some (bc_rule_id constraint)) None [] []) (\<lambda>r. Inr (Inl r))
             else buyer_gates candidate context True rest)
       else buyer_gates candidate context exception_used rest)"

fun seller_gates ::
  "CandidateDefinition \<Rightarrow> pyval \<Rightarrow> SellerAntiFitRule list \<Rightarrow> CandidateResult option res" where
  "seller_gates candidate context [] = Inr None"
| "seller_gates candidate context (anti_fit # rest) =
     bindE (evaluate_expression (sa_expression anti_fit) context) (\<lambda>evaluation.
       if re_value evaluation = TRUE
       then bindE (candidate_result candidate SEIL_PASS (Some (sa_reason_code anti_fit))
              (sa_display_reason anti_fit) None (Some (sa_rule_id anti_fit)) (sa_evidence_claim_ids anti_fit) [])
              (\<lambda>r. Inr (Some r))
       else if re_value evaluation = UNRESOLVED
       then bindE (candidate_result candidate CONDITIONAL (Some ''SELLER_CONDITION_UNRESOLVED'')
              ''A published seller condition needs an allowed field or seller revision'' None
              (Some (sa_rule_id anti_fit)) (sa_evidence_claim_ids anti_fit) (re_unresolved_fields evaluation))
              (\<lambda>r. Inr (Some r))
       else seller_gates candidate context rest)"

definition dependency_gate :: "CandidateDefinition \<Rightarrow> bool \<Rightarrow> CandidateResult res" where
  "dependency_gate candidate exception_used =
     (if cd_dependency_state candidate = FALSE
      then candidate_result candidate SIRA_INELIGIBLE (Some ''DEPENDENCY_UNSATISFIED'')
             ''A required dependency cannot be satisfied'' (Some ''dependency_plan'') None [] []
      else if cd_dependency_state candidate = UNRESOLVED
      then candidate_result candidate CONDITIONAL (Some ''DEPENDENCY_PLAN_REQUIRED'')
             ''A required dependency plan is unresolved'' None None [] [''dependency_plan'']
      else if exception_used
      then candidate_result candidate ELIGIBLE_WITH_EXCEPTION (Some ''APPROVED_EXCEPTION'')
             ''Eligible with an approved buyer-policy exception'' None None [] []
      else candidate_result candidate ELIGIBLE None
             ''Meets evaluated buyer and published seller gates'' None None [] [])"

definition evaluate_candidate :: "CandidateDefinition \<Rightarrow> pyval \<Rightarrow> pyval \<Rightarrow> CandidateResult res" where
  "evaluate_candidate candidate buyer_evaluation_context sanitized_seller_context =
     (if \<not> cd_available candidate
      then candidate_result candidate UNAVAILABLE (Some ''UNAVAILABLE'') ''Not available'' None None [] []
      else (case cd_evidence_block candidate of
              Some block \<Rightarrow>
                candidate_result candidate block (Some (candidate_status_value block))
                  ''Required evidence is not currently actionable'' None None [] []
            | None \<Rightarrow>
                bindE (buyer_gates candidate buyer_evaluation_context False (cd_buyer_constraints candidate))
                  (\<lambda>gates. case gates of
                     Inl r \<Rightarrow> Inr r
                   | Inr exception_used \<Rightarrow>
                       bindE (seller_gates candidate sanitized_seller_context (cd_seller_anti_fit_rules candidate))
                         (\<lambda>found. case found of
                            Some r \<Rightarrow> Inr r
                          | None \<Rightarrow> dependency_gate candidate exception_used))))"

definition context_for :: "(string \<times> pyval) list \<Rightarrow> string \<Rightarrow> pyval" where
  "context_for contexts candidate_id =
     (case map_of contexts candidate_id of Some c \<Rightarrow> c | None \<Rightarrow> PyDict [])"

definition evaluate_candidate_set ::
  "CandidateDefinition list \<Rightarrow> (string \<times> pyval) list \<Rightarrow> (string \<times> pyval) list \<Rightarrow> CandidateResult list res" where
  "evaluate_candidate_set candidates buyer_contexts seller_contexts =
     mapE (\<lambda>c. evaluate_candidate c (context_for buyer_contexts (cd_candidate_id c))
         (context_for seller_contexts (cd_candidate_id c)))
       (sort_key cd_candidate_id candidates)"

section \<open>Ranking\<close>

definition eligibility_order :: "CandidateStatus \<Rightarrow> int option" where
  "eligibility_order s =
     (if s = ELIGIBLE then Some 0 else if s = ELIGIBLE_WITH_EXCEPTION then Some 1 else None)"

text \<open>\<^verbatim>\<open>-value\<close> on a \<^verbatim>\<open>Decimal\<close> rounds to the context.\<close>

definition dec_minus :: "int \<times> int \<Rightarrow> int \<times> int" where
  "dec_minus a = dec_fix (- fst a) (snd a)"

definition ranking_key :: "SolutionPlan \<Rightarrow> ordering_key res" where
  "ranking_key plan =
     (case eligibility_order (sp_status plan) of
        None \<Rightarrow> Inl (DomainValidationError ''only eligible SolutionPlans receive a final rank'')
      | Some eligibility \<Rightarrow>
          bindE (exact_preference_score (sp_preference_results plan)) (\<lambda>score.
            Inr (eligibility, - score, risk_rank (sp_stack_risk plan), amount_rat (amount (sp_total_cost plan)),
                 amount_rat (dec_minus (sp_required_evidence_coverage plan)),
                 amount_rat (sp_maximum_evidence_age_ratio plan), sp_stable_action_ids plan, sp_plan_id plan)))"

definition plan_eligible :: "SolutionPlan \<Rightarrow> bool" where
  "plan_eligible p \<longleftrightarrow> eligibility_order (sp_status p) \<noteq> None"

definition rank_solution_plans :: "SolutionPlan list \<Rightarrow> SolutionPlan list res" where
  "rank_solution_plans plans =
     (let eligible = filter plan_eligible plans
      in if eligible = [] then Inr []
         else if length (remdups (map (currency \<circ> sp_total_cost) eligible)) \<noteq> 1
         then Inl (DomainValidationError ''plans require one quote currency or an approved FX snapshot'')
         else if length (remdups (map sp_horizon_days eligible)) \<noteq> 1
         then Inl (DomainValidationError ''plans require one declared comparison horizon'')
         else sort_by_keyE ranking_key eligible)"

definition select_winner :: "SolutionPlan list \<Rightarrow> SolutionPlan option res" where
  "select_winner plans = bindE (rank_solution_plans plans) (\<lambda>ranked. Inr (first_of ranked))"

section \<open>Counterfactual\<close>

definition outcome_rows :: "CandidateStatus \<Rightarrow> CandidateResult list \<Rightarrow> (string \<times> string \<times> string) list" where
  "outcome_rows status results =
     map (\<lambda>r. (cr_candidate_id r, case cr_reason_code r of Some c \<Rightarrow> c | None \<Rightarrow> [], cr_reason r))
       (filter (\<lambda>r. cr_status r = status) results)"

definition build_counterfactual ::
  "SolutionPlan list \<Rightarrow> SolutionPlan list \<Rightarrow> CandidateResult list \<Rightarrow> string list \<Rightarrow> string \<Rightarrow> string list \<Rightarrow>
     Counterfactual res" where
  "build_counterfactual generic_plans company_aware_plans company_candidate_results decisive_private_fact_ids
       coverage uncertainties =
     bindE (rank_solution_plans generic_plans) (\<lambda>generic_ranked.
     bindE (rank_solution_plans company_aware_plans) (\<lambda>aware_ranked.
       let generic_winner = map_option sp_plan_id (first_of generic_ranked);
           aware_winner = map_option sp_plan_id (first_of aware_ranked)
       in mk_Counterfactual
            \<lparr>cf_generic_winner_plan_id = generic_winner, cf_company_aware_winner_plan_id = aware_winner,
             cf_changed = (generic_winner \<noteq> aware_winner),
             cf_decisive_private_fact_ids = decisive_private_fact_ids,
             cf_buyer_eliminations = outcome_rows SIRA_INELIGIBLE company_candidate_results,
             cf_seller_passes = outcome_rows SEIL_PASS company_candidate_results,
             cf_coverage_statement = coverage, cf_uncertainties = uncertainties\<rparr>))"

section \<open>Clarification\<close>

record ClarificationCandidate =
  cc_fact_id :: string
  cc_question :: string
  cc_affects_hard_gate :: bool
  cc_can_change_rank :: bool
  cc_affects_disclosure :: bool
  cc_affects_execution :: bool
  cc_expected_uncertainty_reduction :: rat
  cc_user_effort :: rat

definition mk_ClarificationCandidate :: "ClarificationCandidate \<Rightarrow> ClarificationCandidate res" where
  "mk_ClarificationCandidate c =
     (if str_strip (cc_fact_id c) = [] \<or> str_strip (cc_question c) = []
      then Inl (ValueError ''clarification fact and question are required'')
      else if cc_expected_uncertainty_reduction c < 0
      then Inl (ValueError ''uncertainty reduction cannot be negative'')
      else if cc_user_effort c \<le> 0
      then Inl (ValueError ''clarification user effort must be positive'')
      else Inr c)"

definition material :: "ClarificationCandidate \<Rightarrow> bool" where
  "material c \<longleftrightarrow> cc_affects_hard_gate c \<or> cc_can_change_rank c \<or> cc_affects_disclosure c \<or> cc_affects_execution c"

definition consequence :: "ClarificationCandidate \<Rightarrow> int" where
  "consequence c = 4 * of_bool (cc_affects_hard_gate c) + 3 * of_bool (cc_can_change_rank c)
     + 3 * of_bool (cc_affects_disclosure c) + 4 * of_bool (cc_affects_execution c)"

definition clarification_value :: "(rat \<Rightarrow> rat) \<Rightarrow> ClarificationCandidate \<Rightarrow> rat" where
  "clarification_value fl c =
     fl (fl (of_int (consequence c) + cc_expected_uncertainty_reduction c) / cc_user_effort c)"

definition select_material_clarification ::
  "(rat \<Rightarrow> rat) \<Rightarrow> ClarificationCandidate list \<Rightarrow> ClarificationCandidate option" where
  "select_material_clarification fl candidates =
     first_of (sort_key (\<lambda>c. (- clarification_value fl c, cc_fact_id c)) (filter material candidates))"

end
