(* ===== verification/DecisionFacts.thy ===== *)
theory DecisionFacts
  imports DecisionEngine
begin

text \<open>
  Facts on the rule-based decision engine: a closed form of the verdict on a candidate as the first gate that does
  not pass, its stability under more information, and the order of plans as a canonical sort.
\<close>

section \<open>Constructed candidates\<close>

definition rule_truth :: "pyval \<Rightarrow> RuleExpression \<Rightarrow> TruthValue" where
  "rule_truth context x = kleene (rx_mode x) (map (condition_truth context) (rx_conditions x))"

definition constraint_ok :: "BuyerConstraint \<Rightarrow> bool" where
  "constraint_ok b \<longleftrightarrow> mk_BuyerConstraint b = Inr b \<and> expression_ok (bc_expression b)"

definition anti_fit_ok :: "SellerAntiFitRule \<Rightarrow> bool" where
  "anti_fit_ok s \<longleftrightarrow> mk_SellerAntiFitRule s = Inr s \<and> expression_ok (sa_expression s)"

definition candidate_ok :: "CandidateDefinition \<Rightarrow> bool" where
  "candidate_ok c \<longleftrightarrow> mk_CandidateDefinition c = Inr c \<and> list_all constraint_ok (cd_buyer_constraints c)
     \<and> list_all anti_fit_ok (cd_seller_anti_fit_rules c)"

lemma constraint_okD: "constraint_ok b \<Longrightarrow> bc_rule_id b \<noteq> [] \<and> expression_ok (bc_expression b)"
  by (auto simp: constraint_ok_def mk_BuyerConstraint_def res_simps valid_id_def split: if_splits)

lemma anti_fit_okD:
  "anti_fit_ok s \<Longrightarrow> sa_rule_id s \<noteq> [] \<and> expression_ok (sa_expression s) \<and> sa_evidence_claim_ids s \<noteq> []"
  by (auto simp: anti_fit_ok_def mk_SellerAntiFitRule_def res_simps valid_id_def split: if_splits)

lemma rule_truth_result: "re_value (expression_result context x) = rule_truth context x"
  by (simp add: rule_truth_def expression_result_value)

lemma kleene_three: "set vs \<subseteq> three_valued \<Longrightarrow> kleene m vs \<in> three_valued"
  by (cases m) (simp_all only: kleene_all_conv kleene_any_conv, auto simp: three_valued_def)

lemma rule_truth_three: "rule_truth context x \<in> three_valued"
  unfolding rule_truth_def using condition_truth_three by (intro kleene_three) auto

lemma rule_truth_cases:
  obtains "rule_truth context x = TRUE" | "rule_truth context x = FALSE" | "rule_truth context x = UNRESOLVED"
  using rule_truth_three [of "context" x] by (auto simp: three_valued_def)

section \<open>The verdict in closed form\<close>

definition buyer_passes :: "CandidateDefinition \<Rightarrow> pyval \<Rightarrow> BuyerConstraint \<Rightarrow> bool" where
  "buyer_passes c context b \<longleftrightarrow>
     rule_truth context (bc_expression b) = TRUE \<or>
     rule_truth context (bc_expression b) = FALSE \<and> has_exception c b"

definition verdict_row ::
  "CandidateDefinition \<Rightarrow> CandidateStatus \<Rightarrow> string option \<Rightarrow> string \<Rightarrow> string option \<Rightarrow> string option \<Rightarrow>
     string list \<Rightarrow> string list \<Rightarrow> CandidateResult" where
  "verdict_row c status code reason buyer_rule seller_rule claims unresolved =
     \<lparr>cr_candidate_id = cd_candidate_id c, cr_name = cd_name c, cr_pack_id = cd_pack_id c,
      cr_pack_version = cd_pack_version c, cr_status = status, cr_reason_code = code, cr_reason = reason,
      cr_preference_results = cd_preference_results c, cr_buyer_rule_id = buyer_rule, cr_seller_rule_id = seller_rule,
      cr_evidence_claim_ids = claims, cr_unresolved_fields = sorted_set unresolved,
      cr_seller_positioning = cd_seller_positioning c\<rparr>"

definition buyer_verdict :: "CandidateDefinition \<Rightarrow> pyval \<Rightarrow> BuyerConstraint \<Rightarrow> CandidateResult" where
  "buyer_verdict c context b =
     (if rule_truth context (bc_expression b) = UNRESOLVED
      then verdict_row c INSUFFICIENT_EVIDENCE (Some ''BUYER_RULE_UNRESOLVED'')
             ''A required buyer-policy fact is unresolved'' (Some (bc_rule_id b)) None []
             (re_unresolved_fields (expression_result context (bc_expression b)))
      else verdict_row c SIRA_INELIGIBLE (Some (bc_reason_code b)) (bc_display_reason b) (Some (bc_rule_id b)) None [] [])"

definition seller_verdict :: "CandidateDefinition \<Rightarrow> pyval \<Rightarrow> SellerAntiFitRule \<Rightarrow> CandidateResult" where
  "seller_verdict c context s =
     (if rule_truth context (sa_expression s) = UNRESOLVED
      then verdict_row c CONDITIONAL (Some ''SELLER_CONDITION_UNRESOLVED'')
             ''A published seller condition needs an allowed field or seller revision'' None (Some (sa_rule_id s))
             (sa_evidence_claim_ids s) (re_unresolved_fields (expression_result context (sa_expression s)))
      else verdict_row c SEIL_PASS (Some (sa_reason_code s)) (sa_display_reason s) None (Some (sa_rule_id s))
             (sa_evidence_claim_ids s) [])"

definition dependency_verdict :: "CandidateDefinition \<Rightarrow> bool \<Rightarrow> CandidateResult" where
  "dependency_verdict c exception_used =
     (if cd_dependency_state c = FALSE
      then verdict_row c SIRA_INELIGIBLE (Some ''DEPENDENCY_UNSATISFIED'') ''A required dependency cannot be satisfied''
             (Some ''dependency_plan'') None [] []
      else if cd_dependency_state c = UNRESOLVED
      then verdict_row c CONDITIONAL (Some ''DEPENDENCY_PLAN_REQUIRED'') ''A required dependency plan is unresolved''
             None None [] [''dependency_plan'']
      else if exception_used
      then verdict_row c ELIGIBLE_WITH_EXCEPTION (Some ''APPROVED_EXCEPTION'')
             ''Eligible with an approved buyer-policy exception'' None None [] []
      else verdict_row c ELIGIBLE None ''Meets evaluated buyer and published seller gates'' None None [] [])"

definition stopping_constraint :: "CandidateDefinition \<Rightarrow> pyval \<Rightarrow> BuyerConstraint option" where
  "stopping_constraint c context = find (\<lambda>b. \<not> buyer_passes c context b) (cd_buyer_constraints c)"

definition stopping_rule :: "CandidateDefinition \<Rightarrow> pyval \<Rightarrow> SellerAntiFitRule option" where
  "stopping_rule c context = find (\<lambda>s. rule_truth context (sa_expression s) \<noteq> FALSE) (cd_seller_anti_fit_rules c)"

definition exception_needed :: "CandidateDefinition \<Rightarrow> pyval \<Rightarrow> bool" where
  "exception_needed c context \<longleftrightarrow>
     list_ex (\<lambda>b. rule_truth context (bc_expression b) = FALSE) (cd_buyer_constraints c)"

definition candidate_verdict :: "CandidateDefinition \<Rightarrow> pyval \<Rightarrow> pyval \<Rightarrow> CandidateResult" where
  "candidate_verdict c buyer seller =
     (if \<not> cd_available c then verdict_row c UNAVAILABLE (Some ''UNAVAILABLE'') ''Not available'' None None [] []
      else case cd_evidence_block c of
        Some block \<Rightarrow> verdict_row c block (Some (candidate_status_value block))
            ''Required evidence is not currently actionable'' None None [] []
      | None \<Rightarrow>
          (case stopping_constraint c buyer of
             Some b \<Rightarrow> buyer_verdict c buyer b
           | None \<Rightarrow>
               (case stopping_rule c seller of
                  Some s \<Rightarrow> seller_verdict c seller s
                | None \<Rightarrow> dependency_verdict c (exception_needed c buyer))))"

lemma candidate_result_row:
  assumes "status = SIRA_INELIGIBLE \<longrightarrow> given br" "status = SEIL_PASS \<longrightarrow> given sr" "br = None \<or> sr = None"
  shows "candidate_result c status code reason br sr claims unresolved =
      Inr (verdict_row c status code reason br sr claims unresolved)"
  using assms by (auto simp: candidate_result_def mk_CandidateResult_def verdict_row_def given_def)

lemma buyer_gates_closed:
  assumes "list_all constraint_ok bs"
  shows "buyer_gates c context used bs =
      Inr (case find (\<lambda>b. \<not> buyer_passes c context b) bs of
             Some b \<Rightarrow> Inl (buyer_verdict c context b)
           | None \<Rightarrow> Inr (used \<or> list_ex (\<lambda>b. rule_truth context (bc_expression b) = FALSE) bs))"
  using assms
proof (induction bs arbitrary: used)
  case (Cons b bs)
  then have b: "bc_rule_id b \<noteq> []" and e: "expression_ok (bc_expression b)" by (auto dest: constraint_okD)
  show ?case
    by (cases rule: rule_truth_cases [of "context" "bc_expression b"])
      (use Cons b in \<open>simp_all add: evaluate_expression_meaning [OF e] rule_truth_result buyer_passes_def
        candidate_result_row given_def buyer_verdict_def split: option.splits\<close>)
qed simp

lemma seller_gates_closed:
  assumes "list_all anti_fit_ok ss"
  shows "seller_gates c context ss =
      Inr (map_option (seller_verdict c context) (find (\<lambda>s. rule_truth context (sa_expression s) \<noteq> FALSE) ss))"
  using assms
proof (induction ss)
  case (Cons s ss)
  then have s: "sa_rule_id s \<noteq> []" and e: "expression_ok (sa_expression s)" by (auto dest: anti_fit_okD)
  show ?case
    by (cases rule: rule_truth_cases [of "context" "sa_expression s"])
      (use Cons s in \<open>simp_all add: evaluate_expression_meaning [OF e] rule_truth_result
        candidate_result_row given_def seller_verdict_def split: option.splits\<close>)
qed simp

lemma dependency_gate_closed: "dependency_gate c used = Inr (dependency_verdict c used)"
  by (simp add: dependency_gate_def dependency_verdict_def candidate_result_row given_def)

text \<open>Evaluation of a constructed candidate never fails and is the closed form.\<close>

theorem evaluate_candidate_closed:
  assumes "candidate_ok c"
  shows "evaluate_candidate c buyer seller = Inr (candidate_verdict c buyer seller)"
proof -
  have b: "list_all constraint_ok (cd_buyer_constraints c)" and s: "list_all anti_fit_ok (cd_seller_anti_fit_rules c)"
    and d: "cd_evidence_block c \<in> {None, Some STALE_EVIDENCE, Some INSUFFICIENT_EVIDENCE, Some CONFLICTING_EVIDENCE}"
    using assms by (auto simp: candidate_ok_def mk_CandidateDefinition_def res_simps split: if_splits)
  have u: "candidate_result c UNAVAILABLE (Some ''UNAVAILABLE'') ''Not available'' None None [] [] =
      Inr (verdict_row c UNAVAILABLE (Some ''UNAVAILABLE'') ''Not available'' None None [] [])"
    by (simp add: candidate_result_row)
  have k: "candidate_result c block code reason None None [] [] = Inr (verdict_row c block code reason None None [] [])"
    if "cd_evidence_block c = Some block" for block code reason
    using d that by (intro candidate_result_row) auto
  show ?thesis
    by (auto simp: evaluate_candidate_def candidate_verdict_def u k buyer_gates_closed [OF b] seller_gates_closed [OF s]
        dependency_gate_closed stopping_constraint_def stopping_rule_def exception_needed_def split: option.splits)
qed

lemma verdict_row_sel [simp]:
  "cr_status (verdict_row c st code reason br sr claims un) = st"
  "cr_reason_code (verdict_row c st code reason br sr claims un) = code"
  "cr_reason (verdict_row c st code reason br sr claims un) = reason"
  "cr_buyer_rule_id (verdict_row c st code reason br sr claims un) = br"
  "cr_seller_rule_id (verdict_row c st code reason br sr claims un) = sr"
  "cr_evidence_claim_ids (verdict_row c st code reason br sr claims un) = claims"
  "cr_unresolved_fields (verdict_row c st code reason br sr claims un) = sorted_set un"
  "cr_candidate_id (verdict_row c st code reason br sr claims un) = cd_candidate_id c"
  by (simp_all add: verdict_row_def)

lemma dependency_verdict_status:
  "cr_status (dependency_verdict c used) =
     (if cd_dependency_state c = FALSE then SIRA_INELIGIBLE
      else if cd_dependency_state c = UNRESOLVED then CONDITIONAL
      else if used then ELIGIBLE_WITH_EXCEPTION else ELIGIBLE)"
  by (simp add: dependency_verdict_def)

lemma gate_verdict_status:
  "cr_status (buyer_verdict c context b) =
     (if rule_truth context (bc_expression b) = UNRESOLVED then INSUFFICIENT_EVIDENCE else SIRA_INELIGIBLE)"
  "cr_status (seller_verdict c context s) =
     (if rule_truth context (sa_expression s) = UNRESOLVED then CONDITIONAL else SEIL_PASS)"
  by (simp_all add: buyer_verdict_def seller_verdict_def)

lemma candidate_block_cases:
  "candidate_ok c \<Longrightarrow>
     cd_evidence_block c \<in> {None, Some STALE_EVIDENCE, Some INSUFFICIENT_EVIDENCE, Some CONFLICTING_EVIDENCE}"
  by (auto simp: candidate_ok_def mk_CandidateDefinition_def res_simps split: if_splits)

lemma stopping_constraint_Some:
  "stopping_constraint c context = Some b \<Longrightarrow> b \<in> set (cd_buyer_constraints c) \<and> \<not> buyer_passes c context b"
  by (auto simp: stopping_constraint_def dest: find_SomeD)

lemma stopping_constraint_None:
  "stopping_constraint c context = None \<longleftrightarrow> (\<forall>b \<in> set (cd_buyer_constraints c). buyer_passes c context b)"
  by (auto simp: stopping_constraint_def find_None_iff)

lemma stopping_rule_Some:
  "stopping_rule c context = Some s \<Longrightarrow> s \<in> set (cd_seller_anti_fit_rules c) \<and> rule_truth context (sa_expression s) \<noteq> FALSE"
  by (auto simp: stopping_rule_def dest: find_SomeD)

lemma stopping_rule_None:
  "stopping_rule c context = None \<longleftrightarrow> (\<forall>s \<in> set (cd_seller_anti_fit_rules c). rule_truth context (sa_expression s) = FALSE)"
  by (auto simp: stopping_rule_def find_None_iff)

lemma candidate_verdict_eligible:
  assumes "candidate_ok c"
  shows "cr_status (candidate_verdict c buyer seller) \<in> {ELIGIBLE, ELIGIBLE_WITH_EXCEPTION} \<longleftrightarrow>
       cd_available c \<and> cd_evidence_block c = None \<and> (\<forall>b \<in> set (cd_buyer_constraints c). buyer_passes c buyer b) \<and>
       (\<forall>s \<in> set (cd_seller_anti_fit_rules c). rule_truth seller (sa_expression s) = FALSE) \<and>
       cd_dependency_state c \<notin> {FALSE, UNRESOLVED}"
  using candidate_block_cases [OF assms]
  by (auto simp: candidate_verdict_def gate_verdict_status dependency_verdict_status
      simp flip: stopping_constraint_None stopping_rule_None split: option.splits if_splits)

lemma candidate_verdict_pass:
  assumes "candidate_ok c" "cr_status (candidate_verdict c buyer seller) = SEIL_PASS"
  shows "\<exists>s \<in> set (cd_seller_anti_fit_rules c).
       rule_truth seller (sa_expression s) = TRUE \<and> cr_seller_rule_id (candidate_verdict c buyer seller) = Some (sa_rule_id s) \<and>
       cr_evidence_claim_ids (candidate_verdict c buyer seller) = sa_evidence_claim_ids s \<and>
       cr_evidence_claim_ids (candidate_verdict c buyer seller) \<noteq> [] \<and> cr_buyer_rule_id (candidate_verdict c buyer seller) = None"
proof -
  from assms candidate_block_cases [OF assms(1)] obtain s where s: "stopping_rule c seller = Some s"
    and v: "candidate_verdict c buyer seller = seller_verdict c seller s" and u: "rule_truth seller (sa_expression s) \<noteq> UNRESOLVED"
    by (auto simp: candidate_verdict_def gate_verdict_status dependency_verdict_status split: option.splits if_splits)
  from stopping_rule_Some [OF s] u have "s \<in> set (cd_seller_anti_fit_rules c)" "rule_truth seller (sa_expression s) = TRUE"
    using rule_truth_cases [of seller "sa_expression s"] by blast+
  moreover from this(1) assms(1) have "sa_evidence_claim_ids s \<noteq> []"
    by (auto simp: candidate_ok_def list_all_iff dest: anti_fit_okD)
  ultimately show ?thesis unfolding v using u by (intro bexI [of _ s]) (simp_all add: seller_verdict_def)
qed

lemma candidate_verdict_ineligible:
  assumes "candidate_ok c" "cr_status (candidate_verdict c buyer seller) = SIRA_INELIGIBLE"
  shows "cr_seller_rule_id (candidate_verdict c buyer seller) = None \<and>
       ((\<exists>b \<in> set (cd_buyer_constraints c). rule_truth buyer (bc_expression b) = FALSE \<and> \<not> has_exception c b \<and>
           cr_buyer_rule_id (candidate_verdict c buyer seller) = Some (bc_rule_id b) \<and>
           cr_reason_code (candidate_verdict c buyer seller) = Some (bc_reason_code b)) \<or>
        cd_dependency_state c = FALSE \<and> cr_buyer_rule_id (candidate_verdict c buyer seller) = Some ''dependency_plan'')"
proof (cases "stopping_constraint c buyer")
  case None
  with assms candidate_block_cases [OF assms(1)]
  have "candidate_verdict c buyer seller = dependency_verdict c (exception_needed c buyer)" "cd_dependency_state c = FALSE"
    by (auto simp: candidate_verdict_def gate_verdict_status dependency_verdict_status split: option.splits if_splits)
  then show ?thesis by (simp add: dependency_verdict_def)
next
  case (Some b)
  with assms candidate_block_cases [OF assms(1)]
  have v: "candidate_verdict c buyer seller = buyer_verdict c buyer b" and u: "rule_truth buyer (bc_expression b) \<noteq> UNRESOLVED"
    by (auto simp: candidate_verdict_def gate_verdict_status split: option.splits if_splits)
  from stopping_constraint_Some [OF Some] u have "b \<in> set (cd_buyer_constraints c)"
    "rule_truth buyer (bc_expression b) = FALSE" "\<not> has_exception c b"
    using rule_truth_cases [of buyer "bc_expression b"] by (auto simp: buyer_passes_def)
  then show ?thesis unfolding v by (auto simp: buyer_verdict_def)
qed

section \<open>More information\<close>

lemma rule_truth_learned:
  assumes "expression_learned x before after" "rule_truth before x \<noteq> UNRESOLVED"
  shows "rule_truth after x = rule_truth before x"
  using expression_decided [OF assms(1)] assms(2) by (simp add: rule_truth_result)

definition candidate_learned :: "CandidateDefinition \<Rightarrow> pyval \<Rightarrow> pyval \<Rightarrow> pyval \<Rightarrow> pyval \<Rightarrow> bool" where
  "candidate_learned c buyer seller buyer' seller' =
     (list_all (\<lambda>b. expression_learned (bc_expression b) buyer buyer') (cd_buyer_constraints c) \<and>
      list_all (\<lambda>s. expression_learned (sa_expression s) seller seller') (cd_seller_anti_fit_rules c))"

text \<open>A set of fields keeps its known values, or its lack of one.\<close>

definition same_known :: "string list \<Rightarrow> pyval \<Rightarrow> pyval \<Rightarrow> bool" where
  "same_known fs before after = list_all (\<lambda>f. known after f = known before f) fs"

lemma still_open:
  assumes "expression_learned x before after" "rule_truth before x = UNRESOLVED"
    "same_known (re_unresolved_fields (expression_result before x)) before after"
  shows "expression_result after x = expression_result before x"
  using assms by (intro expression_still_open) (auto simp: rule_truth_result same_known_def list_all_iff)

text \<open>A scan over rules that an open rule stops.\<close>

lemma scan_stable:
  fixes stops :: "'a \<Rightarrow> TruthValue \<Rightarrow> bool" and rule :: "'a \<Rightarrow> RuleExpression"
  assumes x: "\<forall>a \<in> set xs. expression_learned (rule a) before after"
    and stops: "\<forall>a. stops a UNRESOLVED"
    and still: "\<forall>a. find (\<lambda>a. stops a (rule_truth before (rule a))) xs = Some a \<longrightarrow> rule_truth before (rule a) = UNRESOLVED \<longrightarrow>
       same_known (re_unresolved_fields (expression_result before (rule a))) before after"
  shows "find (\<lambda>a. stops a (rule_truth after (rule a))) xs = find (\<lambda>a. stops a (rule_truth before (rule a))) xs"
    "find (\<lambda>a. stops a (rule_truth before (rule a))) xs = Some a \<Longrightarrow>
       rule_truth after (rule a) = rule_truth before (rule a) \<and>
       (rule_truth before (rule a) = UNRESOLVED \<longrightarrow> expression_result after (rule a) = expression_result before (rule a))"
    "find (\<lambda>a. stops a (rule_truth before (rule a))) xs = None \<Longrightarrow> a \<in> set xs \<Longrightarrow>
       rule_truth after (rule a) = rule_truth before (rule a)"
proof -
  have same: "rule_truth after (rule a) = rule_truth before (rule a)"
    if "a \<in> set xs" "rule_truth before (rule a) \<noteq> UNRESOLVED" for a
    using rule_truth_learned x that by blast
  have stop: "expression_result after (rule a) = expression_result before (rule a)"
    if "find (\<lambda>a. stops a (rule_truth before (rule a))) xs = Some a" "rule_truth before (rule a) = UNRESOLVED" for a
    using still_open [OF _ that(2)] still that x find_SomeD [OF that(1)] by blast
  show found: "rule_truth after (rule a) = rule_truth before (rule a) \<and>
       (rule_truth before (rule a) = UNRESOLVED \<longrightarrow> expression_result after (rule a) = expression_result before (rule a))"
    if f: "find (\<lambda>a. stops a (rule_truth before (rule a))) xs = Some a" for a
  proof (cases "rule_truth before (rule a) = UNRESOLVED")
    case True
    with stop [OF f] show ?thesis by (metis rule_truth_result)
  next
    case False
    with same [of a] find_SomeD [OF f] show ?thesis by blast
  qed
  show "find (\<lambda>a. stops a (rule_truth after (rule a))) xs = find (\<lambda>a. stops a (rule_truth before (rule a))) xs"
  proof (rule find_stable)
    fix a assume a: "a \<in> set xs"
    show "\<not> stops a (rule_truth before (rule a)) \<Longrightarrow> \<not> stops a (rule_truth after (rule a))"
      using same [OF a] stops by metis
    then show "stops a (rule_truth before (rule a)) \<or>
        stops a (rule_truth after (rule a)) = stops a (rule_truth before (rule a))" by blast
  next
    fix a assume f: "find (\<lambda>a. stops a (rule_truth before (rule a))) xs = Some a"
    from find_SomeD [OF f] found [OF f] show "stops a (rule_truth after (rule a))" by simp
  qed
  show "rule_truth after (rule a) = rule_truth before (rule a)"
    if "find (\<lambda>a. stops a (rule_truth before (rule a))) xs = None" "a \<in> set xs"
    using same [OF that(2)] find_NoneD [OF that] stops by metis
qed

definition buyer_stops :: "CandidateDefinition \<Rightarrow> BuyerConstraint \<Rightarrow> TruthValue \<Rightarrow> bool" where
  "buyer_stops c b t \<longleftrightarrow> \<not> (t = TRUE \<or> t = FALSE \<and> has_exception c b)"

lemma stopping_constraint_scan:
  "stopping_constraint c ctx = find (\<lambda>b. buyer_stops c b (rule_truth ctx (bc_expression b))) (cd_buyer_constraints c)"
  by (simp add: stopping_constraint_def buyer_stops_def buyer_passes_def)

lemma buyer_gates_stable:
  assumes x: "\<forall>b \<in> set (cd_buyer_constraints c). expression_learned (bc_expression b) before after"
    and still: "\<forall>b. stopping_constraint c before = Some b \<longrightarrow> rule_truth before (bc_expression b) = UNRESOLVED \<longrightarrow>
       same_known (re_unresolved_fields (expression_result before (bc_expression b))) before after"
  shows "stopping_constraint c after = stopping_constraint c before"
    "stopping_constraint c before = Some b \<Longrightarrow> buyer_verdict c after b = buyer_verdict c before b"
    "stopping_constraint c before = None \<Longrightarrow> exception_needed c after = exception_needed c before"
proof -
  have stops: "\<forall>b. buyer_stops c b UNRESOLVED" by (simp add: buyer_stops_def)
  note scan = scan_stable [where stops = "buyer_stops c", OF x stops, folded stopping_constraint_scan, OF still]
  show "stopping_constraint c after = stopping_constraint c before"
    by (rule scan(1))
  show "buyer_verdict c after b = buyer_verdict c before b" if "stopping_constraint c before = Some b"
    using scan(2) [OF that]
    by (cases "rule_truth before (bc_expression b) = UNRESOLVED") (simp_all only: buyer_verdict_def simp_thms if_True if_False)
  show "exception_needed c after = exception_needed c before" if "stopping_constraint c before = None"
    using scan(3) [OF that] by (simp add: exception_needed_def list_ex_iff)
qed

lemma seller_gates_stable:
  assumes x: "\<forall>s \<in> set (cd_seller_anti_fit_rules c). expression_learned (sa_expression s) before after"
    and still: "\<forall>s. stopping_rule c before = Some s \<longrightarrow> rule_truth before (sa_expression s) = UNRESOLVED \<longrightarrow>
       same_known (re_unresolved_fields (expression_result before (sa_expression s))) before after"
  shows "stopping_rule c after = stopping_rule c before"
    "stopping_rule c before = Some s \<Longrightarrow> seller_verdict c after s = seller_verdict c before s"
proof -
  have stops: "\<forall>s. UNRESOLVED \<noteq> FALSE" by (simp)
  note scan = scan_stable [where stops = "\<lambda>_ t. t \<noteq> FALSE", OF x stops, folded stopping_rule_def, OF still]
  show "stopping_rule c after = stopping_rule c before"
    by (rule scan(1))
  show "seller_verdict c after s = seller_verdict c before s" if "stopping_rule c before = Some s"
    using scan(2) [OF that]
    by (cases "rule_truth before (sa_expression s) = UNRESOLVED") (simp_all only: seller_verdict_def simp_thms if_True if_False)
qed

text \<open>The fields a verdict reports as open keep what is known of them, on the side that reported them.\<close>

definition reported_fields_kept :: "CandidateResult \<Rightarrow> pyval \<Rightarrow> pyval \<Rightarrow> pyval \<Rightarrow> pyval \<Rightarrow> bool" where
  "reported_fields_kept r buyer seller buyer' seller' =
     ((cr_buyer_rule_id r = None \<or> same_known (cr_unresolved_fields r) buyer buyer') \<and>
      (cr_seller_rule_id r = None \<or> same_known (cr_unresolved_fields r) seller seller'))"

lemma same_known_sorted [simp]: "same_known (sorted_set fs) = same_known fs"
  by (simp add: same_known_def list_all_iff fun_eq_iff)

text \<open>A verdict changes only through a field it reports as open.\<close>

theorem verdict_stable:
  assumes learned: "candidate_learned c buyer seller buyer' seller'"
    and kept: "reported_fields_kept (candidate_verdict c buyer seller) buyer seller buyer' seller'"
  shows "candidate_verdict c buyer' seller' = candidate_verdict c buyer seller"
proof (cases "cd_available c \<and> cd_evidence_block c = None")
  case reached: True
  have bk: "\<forall>b. stopping_constraint c buyer = Some b \<longrightarrow> rule_truth buyer (bc_expression b) = UNRESOLVED \<longrightarrow>
      same_known (re_unresolved_fields (expression_result buyer (bc_expression b))) buyer buyer'"
    using kept reached by (intro allI impI) (simp add: reported_fields_kept_def candidate_verdict_def buyer_verdict_def)
  have rules: "\<forall>b \<in> set (cd_buyer_constraints c). expression_learned (bc_expression b) buyer buyer'"
    "\<forall>s \<in> set (cd_seller_anti_fit_rules c). expression_learned (sa_expression s) seller seller'"
    using learned by (simp_all add: candidate_learned_def list_all_iff)
  note buyer = buyer_gates_stable [OF rules(1) bk]
  show ?thesis
  proof (cases "stopping_constraint c buyer")
    case None
    have sk: "\<forall>s. stopping_rule c seller = Some s \<longrightarrow> rule_truth seller (sa_expression s) = UNRESOLVED \<longrightarrow>
        same_known (re_unresolved_fields (expression_result seller (sa_expression s))) seller seller'"
      using kept None reached by (intro allI impI) (simp add: reported_fields_kept_def candidate_verdict_def seller_verdict_def)
    note seller = seller_gates_stable [OF rules(2) sk]
    show ?thesis
      using reached None buyer(1,3) seller
      by (cases "stopping_rule c seller") (simp_all add: candidate_verdict_def)
  next
    case (Some b)
    then show ?thesis using reached buyer(1,2) by (simp add: candidate_verdict_def)
  qed
qed (auto simp: candidate_verdict_def split: option.splits)

section \<open>Ranking\<close>

definition preference_ok :: "PreferenceResult \<Rightarrow> bool" where
  "preference_ok p \<longleftrightarrow> 1 \<le> pr_weight p \<and> pr_weight p \<le> 5 \<and> satisfaction_rat p \<in> satisfaction_values"

lemma mk_PreferenceResult_ok: "mk_PreferenceResult i w s e u = Inr p \<Longrightarrow> preference_ok p"
  by (auto simp: mk_PreferenceResult_def preference_ok_def satisfaction_rat_def bindE_Inr_conv split: if_splits)

abbreviation weighted_sum :: "PreferenceResult list \<Rightarrow> rat" where
  "weighted_sum ps \<equiv> sum_list (map (\<lambda>r. of_int (pr_weight r) * satisfaction_rat r) ps)"

lemma weighted_sums:
  assumes "list_all preference_ok ps"
  shows "0 \<le> weighted_sum ps \<and> weighted_sum ps \<le> of_int (sum_list (map pr_weight ps)) \<and>
    int (length ps) \<le> sum_list (map pr_weight ps)"
  using assms
proof (induction ps)
  case (Cons p ps)
  from Cons.prems have w: "1 \<le> pr_weight p" and s: "0 \<le> satisfaction_rat p" "satisfaction_rat p \<le> 1"
    by (auto simp: preference_ok_def satisfaction_values_def)
  have le: "of_int (pr_weight p) * satisfaction_rat p \<le> of_int (pr_weight p)"
    using mult_left_mono [OF s(2), of "of_int (pr_weight p)"] w by simp
  have ge: "0 \<le> of_int (pr_weight p) * satisfaction_rat p" using w s(1) by simp
  from Cons have IH: "0 \<le> weighted_sum ps" "weighted_sum ps \<le> of_int (sum_list (map pr_weight ps))"
    "int (length ps) \<le> sum_list (map pr_weight ps)" by simp_all
  from le ge w IH show ?case by (simp add: add_mono)
qed simp

lemma exact_preference_score_bounds:
  assumes "list_all preference_ok ps" "ps \<noteq> []"
  obtains q where "exact_preference_score ps = Inr q" "0 \<le> q" "q \<le> 100"
proof -
  define d where "d = sum_list (map pr_weight ps)"
  note sums = weighted_sums [OF assms(1), folded d_def]
  have d: "0 < d" using sums assms(2) by (cases ps) auto
  then have "(0::rat) < of_int d" by simp
  with d sums assms(2) show ?thesis
    by (intro that [of "100 * weighted_sum ps / of_int d"])
      (simp_all add: exact_preference_score_def Let_def divide_le_eq flip: d_def)
qed

lemma ranking_key_plan_id: "ranking_key p = Inr k \<Longrightarrow> snd (snd (snd (snd (snd (snd (snd k)))))) = sp_plan_id p"
  by (auto simp: ranking_key_def bindE_Inr_conv split: option.splits)

section \<open>The ranking is canonical\<close>

definition plan_before :: "SolutionPlan \<Rightarrow> SolutionPlan \<Rightarrow> bool" where
  "plan_before p q \<longleftrightarrow> (case (ranking_key p, ranking_key q) of (Inr a, Inr b) \<Rightarrow> a \<le> b | _ \<Rightarrow> False)"

lemma rank_solution_plans_Inr:
  assumes "rank_solution_plans plans = Inr ranked"
  shows "mset ranked = mset (filter plan_eligible plans)" "sorted_wrt plan_before ranked"
proof -
  have s: "sort_by_keyE ranking_key (filter plan_eligible plans) = Inr ranked"
    using assms by (auto simp: rank_solution_plans_def Let_def sort_by_keyE_def split: if_splits)
  from sort_by_keyE_Inr(1) [OF s] show m: "mset ranked = mset (filter plan_eligible plans)" .
  have key: "\<exists>k. ranking_key p = Inr k" if "p \<in> set ranked" for p
    using sort_by_keyE_Inr(2) [OF s] that m by (metis set_mset_mset)
  show "sorted_wrt plan_before ranked"
  proof (rule sorted_wrt_mono_rel [OF _ sort_by_keyE_sorted [OF s]])
    fix p q assume "p \<in> set ranked" "q \<in> set ranked"
    from key [OF this(1)] key [OF this(2)] obtain k k' where "ranking_key p = Inr k" "ranking_key q = Inr k'" by blast
    then show "\<forall>k k'. ranking_key p = Inr k \<longrightarrow> ranking_key q = Inr k' \<longrightarrow> k \<le> k' \<Longrightarrow> plan_before p q"
      by (simp add: plan_before_def)
  qed
qed

lemma rank_solution_plans_permuted:
  assumes r: "rank_solution_plans plans = Inr ranked" and m: "mset plans' = mset plans"
    and d: "distinct (map sp_plan_id plans)"
  shows "rank_solution_plans plans' = Inr ranked"
proof -
  let ?e = "filter plan_eligible plans" and ?e' = "filter plan_eligible plans'"
  have me: "mset ?e' = mset ?e" using m by simp
  have nil: "?e' = [] \<longleftrightarrow> ?e = []" using me by (metis mset_zero_iff)
  show ?thesis
  proof (cases "?e = []")
    case True
    with r nil show ?thesis by (simp add: rank_solution_plans_def)
  next
    case False
    with r have one: "length (remdups (map (currency \<circ> sp_total_cost) ?e)) = 1"
      "length (remdups (map sp_horizon_days ?e)) = 1" and s: "sort_by_keyE ranking_key ?e = Inr ranked"
      by (auto simp: rank_solution_plans_def Let_def split: if_splits)
    have one': "length (remdups (map f ?e')) = length (remdups (map f ?e))" for f :: "SolutionPlan \<Rightarrow> 'x"
      using me by (intro length_remdups_permuted) (metis mset_map)
    have inj: "p = q" if "p \<in> set ?e" "q \<in> set ?e" "ranking_key p = Inr k" "ranking_key q = Inr k" for p q k
      using that d ranking_key_plan_id [of p k] ranking_key_plan_id [of q k] by (auto simp: distinct_map dest: inj_onD)
    have "sort_by_keyE ranking_key ?e' = Inr ranked"
      by (rule sort_by_keyE_permuted [OF s me inj]) (use d in \<open>auto simp: distinct_map\<close>)
    with False nil one show ?thesis
      by (simp add: rank_solution_plans_def one')
  qed
qed

lemma select_winner_first: "rank_solution_plans plans = Inr ranked \<Longrightarrow> select_winner plans = Inr (first_of ranked)"
  by (simp add: select_winner_def)

section \<open>Counterfactual and clarification\<close>

lemma build_counterfactual_Inr:
  assumes "build_counterfactual generic aware results facts coverage uncertainties = Inr c"
  shows "select_winner generic = Inr w \<Longrightarrow> cf_generic_winner_plan_id c = map_option sp_plan_id w"
    "select_winner aware = Inr w \<Longrightarrow> cf_company_aware_winner_plan_id c = map_option sp_plan_id w"
    "cf_changed c \<longleftrightarrow> cf_generic_winner_plan_id c \<noteq> cf_company_aware_winner_plan_id c"
    "cf_changed c \<Longrightarrow> cf_decisive_private_fact_ids c \<noteq> []"
  using assms
  by (auto simp: build_counterfactual_def select_winner_def mk_Counterfactual_def bindE_Inr_conv Let_def split: if_splits)

end
