(* ===== verification/DecisionClaims.thy ===== *)
theory DecisionClaims
  imports DecisionFacts
begin

text \<open>
  Properties of the rule language and of the rule-based decision engine, with a trial candidate: two buyer
  constraints, one with an approved exception, and one seller rule.
\<close>

definition trial_condition :: "string \<Rightarrow> RuleOperator \<Rightarrow> pyval \<Rightarrow> RuleCondition" where
  "trial_condition field op v = \<lparr>rc_field = field, rc_operator = op, rc_value = v\<rparr>"

definition trial_region_rule :: RuleExpression where
  "trial_region_rule =
     \<lparr>rx_conditions = [trial_condition ''product.region'' IN (PyList [PyStr ''eu'', PyStr ''uk'']),
        trial_condition ''product.certified_on'' DATE_ON_OR_AFTER (PyStr ''2025-01-31'')], rx_mode = MATCH_ALL\<rparr>"

definition trial_price_rule :: RuleExpression where
  "trial_price_rule =
     \<lparr>rx_conditions = [trial_condition ''offer.total'' LTE (PyDec (DFin 120000 (-2)))], rx_mode = MATCH_ALL\<rparr>"

definition trial_anti_fit :: RuleExpression where
  "trial_anti_fit =
     \<lparr>rx_conditions = [trial_condition ''buyer.seats'' GT (PyInt 500), trial_condition ''buyer.tools'' CONTAINS (PyStr ''legacy'')],
      rx_mode = MATCH_ANY\<rparr>"

definition trial_candidate :: CandidateDefinition where
  "trial_candidate =
     \<lparr>cd_candidate_id = ''pack_alpha'', cd_name = ''Alpha'', cd_pack_id = ''pack_alpha'', cd_pack_version = 3,
      cd_available = True, cd_evidence_block = None,
      cd_buyer_constraints =
        [\<lparr>bc_rule_id = ''price_cap'', bc_expression = trial_price_rule, bc_reason_code = ''PRICE_CAP'',
          bc_display_reason = ''Too expensive'', bc_exception_allowed = True\<rparr>,
         \<lparr>bc_rule_id = ''region'', bc_expression = trial_region_rule, bc_reason_code = ''REGION'',
          bc_display_reason = ''Wrong region'', bc_exception_allowed = False\<rparr>],
      cd_seller_anti_fit_rules =
        [\<lparr>sa_rule_id = ''too_large'', sa_expression = trial_anti_fit, sa_reason_code = ''TOO_LARGE'',
          sa_display_reason = ''Built for small teams'', sa_evidence_claim_ids = [''claim_1'']\<rparr>],
      cd_approved_exception_rule_ids = [''price_cap''], cd_dependency_state = TRUE, cd_preference_results = [],
      cd_seller_positioning = None\<rparr>"

definition trial_offer :: "(string \<times> pyval) list \<Rightarrow> pyval" where
  "trial_offer product = dict_str [(''product'', dict_str product), (''offer'', dict_str [(''total'', PyInt 1500)])]"

definition trial_team :: "(string \<times> pyval) list \<Rightarrow> pyval" where
  "trial_team facts = dict_str [(''buyer'', dict_str facts)]"

definition trial_open_product :: pyval where
  "trial_open_product = trial_offer [(''region'', PyStr ''eu'')]"

definition trial_known_product :: pyval where
  "trial_known_product = trial_offer [(''region'', PyStr ''eu''), (''certified_on'', PyDate 20200)]"

definition trial_small_team :: pyval where
  "trial_small_team = trial_team [(''seats'', PyInt 40), (''tools'', PyList [PyStr ''crm''])]"

lemma trial_candidate_ok: "candidate_ok trial_candidate"
  by code_simp

section \<open>Rules\<close>

text \<open>C14 The evaluation of a constructed rule never fails; its value is Kleene's conjunction or disjunction of the
  truth of its conditions, and when it is open it reports exactly the fields of its open conditions, at least one.\<close>

theorem rules_are_kleene:
  assumes "expression_ok x"
  shows "\<exists>ev. evaluate_expression x ctx = Inr ev \<and>
    re_value ev = kleene (rx_mode x) (map (condition_truth ctx) (rx_conditions x)) \<and>
    (re_value ev = UNRESOLVED \<longrightarrow> re_unresolved_fields ev \<noteq> [] \<and>
      set (re_unresolved_fields ev) =
        rc_field ` {c \<in> set (rx_conditions x). condition_truth ctx c = UNRESOLVED})"
  using evaluate_expression_meaning [OF assms] expression_result_value expression_result_unresolved by blast

theorem rules_are_kleene_witness:
  "\<exists>ev. evaluate_expression trial_region_rule trial_open_product = Inr ev \<and> re_value ev = UNRESOLVED \<and>
     re_unresolved_fields ev = [''product.certified_on'']"
proof -
  have "expression_ok trial_region_rule" by code_simp
  from rules_are_kleene [OF this, of trial_open_product]
  obtain ev where r: "evaluate_expression trial_region_rule trial_open_product = Inr ev" by blast
  moreover have "evaluate_expression trial_region_rule trial_open_product =
      Inr \<lparr>re_value = UNRESOLVED, re_unresolved_fields = [''product.certified_on'']\<rparr>" by code_simp
  ultimately have "ev = \<lparr>re_value = UNRESOLVED, re_unresolved_fields = [''product.certified_on'']\<rparr>"
    by (simp only: sum.inject)
  with r show ?thesis by (intro exI [of _ ev]) simp
qed

section \<open>Verdicts\<close>

text \<open>C12 The verdict on a constructed candidate always exists. It is eligible exactly if the candidate is available
  and unblocked, every buyer constraint holds or fails with an approved exception, every published seller rule is
  false and the dependency state is neither false nor unresolved. A seller pass names a published rule that is true
  of the sanitized context alone, with its evidence and no buyer rule; a buyer ineligibility names a failed
  constraint without exception, or the dependency plan, and no seller rule.\<close>

theorem verdict_explained:
  assumes "candidate_ok c"
  shows "\<exists>r. evaluate_candidate c buyer seller = Inr r \<and>
    (cr_status r \<in> {ELIGIBLE, ELIGIBLE_WITH_EXCEPTION} \<longleftrightarrow>
       cd_available c \<and> cd_evidence_block c = None \<and> (\<forall>b \<in> set (cd_buyer_constraints c). buyer_passes c buyer b) \<and>
       (\<forall>s \<in> set (cd_seller_anti_fit_rules c). rule_truth seller (sa_expression s) = FALSE) \<and>
       cd_dependency_state c \<notin> {FALSE, UNRESOLVED}) \<and>
    (cr_status r = SEIL_PASS \<longrightarrow> (\<exists>s \<in> set (cd_seller_anti_fit_rules c).
       rule_truth seller (sa_expression s) = TRUE \<and> cr_seller_rule_id r = Some (sa_rule_id s) \<and>
       cr_evidence_claim_ids r = sa_evidence_claim_ids s \<and> cr_evidence_claim_ids r \<noteq> [] \<and> cr_buyer_rule_id r = None)) \<and>
    (cr_status r = SIRA_INELIGIBLE \<longrightarrow> cr_seller_rule_id r = None \<and>
       ((\<exists>b \<in> set (cd_buyer_constraints c). rule_truth buyer (bc_expression b) = FALSE \<and> \<not> has_exception c b \<and>
           cr_buyer_rule_id r = Some (bc_rule_id b) \<and> cr_reason_code r = Some (bc_reason_code b)) \<or>
        cd_dependency_state c = FALSE \<and> cr_buyer_rule_id r = Some ''dependency_plan''))"
  unfolding evaluate_candidate_closed [OF assms]
  by (rule exI, rule conjI, rule refl, rule conjI, rule candidate_verdict_eligible [OF assms], rule conjI, rule impI,
      erule candidate_verdict_pass [OF assms], rule impI, erule candidate_verdict_ineligible [OF assms])

theorem verdict_explained_witness:
  "\<exists>r. evaluate_candidate trial_candidate trial_known_product trial_small_team = Inr r \<and> cr_status r = ELIGIBLE_WITH_EXCEPTION"
proof -
  from verdict_explained [OF trial_candidate_ok, of trial_known_product trial_small_team]
  obtain r where r: "evaluate_candidate trial_candidate trial_known_product trial_small_team = Inr r" by blast
  have "(case evaluate_candidate trial_candidate trial_known_product trial_small_team of
      Inr r \<Rightarrow> cr_status r = ELIGIBLE_WITH_EXCEPTION | Inl _ \<Rightarrow> False)" by code_simp
  with r show ?thesis by simp
qed

text \<open>C13 A verdict is revised only through a field it reports. If what was known of the fields of the rules stays
  known, the fields that a rule tests for existence keep their value or their absence, and nothing is learned of the fields
  that the verdict reports as open on the side that reported them, the candidate gets the same verdict again, whatever
  else the two contexts contain.\<close>

theorem only_reported_fields_matter:
  assumes "candidate_ok c" "candidate_learned c buyer seller buyer' seller'"
    "evaluate_candidate c buyer seller = Inr r" "reported_fields_kept r buyer seller buyer' seller'"
  shows "evaluate_candidate c buyer' seller' = Inr r"
  using verdict_stable [OF assms(2)] assms(3,4) by (simp add: evaluate_candidate_closed [OF assms(1)])

theorem only_reported_fields_matter_witness:
  "\<exists>r. evaluate_candidate trial_candidate trial_open_product trial_small_team = Inr r \<and>
     cr_unresolved_fields r = [''product.certified_on''] \<and>
     evaluate_candidate trial_candidate (trial_offer [(''region'', PyStr ''eu''), (''vendor'', PyStr ''a'')])
       (trial_team [(''seats'', PyInt 40), (''tools'', PyList [PyStr ''crm'']), (''budget'', PyInt 9)]) = Inr r"
proof -
  let ?b = "trial_offer [(''region'', PyStr ''eu''), (''vendor'', PyStr ''a'')]"
  let ?s = "trial_team [(''seats'', PyInt 40), (''tools'', PyList [PyStr ''crm'']), (''budget'', PyInt 9)]"
  let ?r = "candidate_verdict trial_candidate trial_open_product trial_small_team"
  have r: "evaluate_candidate trial_candidate trial_open_product trial_small_team = Inr ?r"
    by (rule evaluate_candidate_closed [OF trial_candidate_ok])
  have learned: "candidate_learned trial_candidate trial_open_product trial_small_team ?b ?s"
    and kept: "reported_fields_kept ?r trial_open_product trial_small_team ?b ?s"
    and fs: "cr_unresolved_fields ?r = [''product.certified_on'']" by code_simp+
  from only_reported_fields_matter [OF trial_candidate_ok learned r kept] r fs show ?thesis by blast
qed

section \<open>Ranking\<close>

definition trial_plan :: "string \<Rightarrow> int \<Rightarrow> CandidateStatus \<Rightarrow> SolutionPlan" where
  "trial_plan i c100 status =
     \<lparr>sp_plan_id = i, sp_action = BUY, sp_component_ids = [i], sp_status = status,
      sp_preference_results = [\<lparr>pr_criterion_id = ''fit'', pr_weight = 3, pr_satisfaction = (75, -2),
        pr_evidence_ids = [], pr_unknown = False\<rparr>],
      sp_stack_risk = LOW, sp_total_cost = \<lparr>amount = (c100, -2), currency = ''USD''\<rparr>, sp_horizon_days = 365,
      sp_required_evidence_coverage = (1, 0), sp_maximum_evidence_age_ratio = (1, -2), sp_seller_positioning = None,
      sp_stable_action_ids = [''BUY'', i]\<rparr>"

text \<open>C15 When plans with distinct identifiers can be ranked, the ranking holds exactly the eligible plans in
  ascending order of the ranking key and is the same for every order of the input, and so is the winner.\<close>

theorem ranking_canonical:
  assumes "rank_solution_plans plans = Inr ranked" "distinct (map sp_plan_id plans)" "mset plans' = mset plans"
  shows "rank_solution_plans plans' = Inr ranked \<and> select_winner plans' = Inr (first_of ranked) \<and>
    mset ranked = mset (filter plan_eligible plans) \<and> sorted_wrt plan_before ranked"
  using rank_solution_plans_permuted [OF assms(1,3,2)] rank_solution_plans_Inr [OF assms(1)]
  by (simp add: select_winner_first)

theorem ranking_canonical_witness:
  "select_winner [trial_plan ''a'' 9900 ELIGIBLE, trial_plan ''c'' 100 SEIL_PASS, trial_plan ''b'' 9800 ELIGIBLE] =
     Inr (Some (trial_plan ''b'' 9800 ELIGIBLE))"
proof -
  have r: "rank_solution_plans [trial_plan ''c'' 100 SEIL_PASS, trial_plan ''b'' 9800 ELIGIBLE, trial_plan ''a'' 9900 ELIGIBLE] =
      Inr [trial_plan ''b'' 9800 ELIGIBLE, trial_plan ''a'' 9900 ELIGIBLE]" by code_simp
  from ranking_canonical [OF r, of "[trial_plan ''a'' 9900 ELIGIBLE, trial_plan ''c'' 100 SEIL_PASS, trial_plan ''b'' 9800 ELIGIBLE]"]
  show ?thesis by (simp add: trial_plan_def)
qed

end
