(* ===== verification/RuntimeTickets.thy ===== *)
theory RuntimeTickets
  imports AgentKernel
begin

text \<open>
  The signed identity tickets of the isolated agent runtimes (\<^verbatim>\<open>src/python/agents/sira_agents/runtime_ticket.py\<close>)
  and the two guards against their replay: the set in memory of the same file and the table of
  \<^verbatim>\<open>src/python/persistence/runtime_ticket_replay.py\<close>. Base64 is modelled as CPython decodes it, tolerant of foreign
  characters. The JSON of the claims, its parser with pydantic's reading of the fields, and HMAC-SHA256 are the
  fields of \<open>ticket_env\<close>. The locale \<open>replay_guard\<close> is what the verification needs of a guard; both guards
  interpret it.
\<close>

section \<open>Base64\<close>

text \<open>The URL-safe alphabet; reading also takes the standard signs.\<close>

definition b64_char :: "nat \<Rightarrow> char" where
  "b64_char n =
     (if n < 26 then char_of (n + 65) else if n < 52 then char_of (n + 71) else if n < 62 then char_of (n - 4)
      else if n = 62 then CHR ''-'' else CHR ''_'')"

definition b64_index :: "char \<Rightarrow> nat option" where
  "b64_index c =
     (if is_upper c then Some (of_char c - 65) else if is_lower c then Some (of_char c - 71)
      else if is_digit c then Some (of_char c + 4) else if c = CHR ''-'' \<or> c = CHR ''+'' then Some 62
      else if c = CHR ''_'' \<or> c = CHR ''/'' then Some 63 else None)"

fun b64_groups :: "nat list \<Rightarrow> string" where
  "b64_groups [] = []"
| "b64_groups [a] = map b64_char [a div 4, a mod 4 * 16] @ ''==''"
| "b64_groups [a, b] = map b64_char [a div 4, a mod 4 * 16 + b div 16, b mod 16 * 4] @ ''=''"
| "b64_groups (a # b # c # r) =
     map b64_char [a div 4, a mod 4 * 16 + b div 16, b mod 16 * 4 + c div 64, c mod 64] @ b64_groups r"

definition encode_b64 :: "string \<Rightarrow> string" where
  "encode_b64 value = rstrip_char (CHR ''='') (b64_groups (map of_char value))"

text \<open>\<^verbatim>\<open>binascii.a2b_base64\<close>: position in the quad, bits kept, pads seen.\<close>

fun a2b_base64 :: "nat \<Rightarrow> nat \<Rightarrow> nat \<Rightarrow> string \<Rightarrow> nat list option" where
  "a2b_base64 quad left pads [] = (if quad = 0 then Some [] else None)"
| "a2b_base64 quad left pads (c # cs) =
     (if c = CHR ''=''
      then (if 2 \<le> quad then if 4 \<le> quad + pads + 1 then Some [] else a2b_base64 quad left (pads + 1) cs
            else a2b_base64 quad left pads cs)
      else (case b64_index c of
              None \<Rightarrow> a2b_base64 quad left pads cs
            | Some v \<Rightarrow>
                if quad = 0 then a2b_base64 1 v 0 cs
                else if quad = 1 then map_option ((#) (left * 4 + v div 16)) (a2b_base64 2 (v mod 16) 0 cs)
                else if quad = 2 then map_option ((#) (left * 16 + v div 4)) (a2b_base64 3 (v mod 4) 0 cs)
                else map_option ((#) (left * 64 + v)) (a2b_base64 0 0 0 cs)))"

datatype ticket_error =
    RuntimeTicketError string
  | InvalidClaims kernel_error
  | ShortSigningKey
  | GuardFailed string
  | NaiveClock

definition ascii_text :: "string \<Rightarrow> bool" where
  "ascii_text s = list_all (\<lambda>c. of_char c < (128 :: nat)) s"

definition decode_b64 :: "string \<Rightarrow> ticket_error + string" where
  "decode_b64 value =
     (let padded = value @ replicate (nat ((- int (length value)) mod 4)) (CHR ''='')
      in if \<not> ascii_text value then Inl (RuntimeTicketError ''RUNTIME_TICKET_MALFORMED'')
         else (case a2b_base64 0 0 0 padded of
                 None \<Rightarrow> Inl (RuntimeTicketError ''RUNTIME_TICKET_MALFORMED'')
               | Some bytes \<Rightarrow> Inr (map char_of bytes)))"

section \<open>Claims\<close>

record RuntimeTicketClaims =
  rt_version :: int
  rt_ticket_id :: string
  rt_principal :: Principal
  rt_party :: Party
  rt_organization_id :: string
  rt_actor_id :: string
  rt_purpose :: string
  rt_audience :: string
  rt_allowed_tools :: "string list"
  rt_issued_at :: datetime
  rt_expires_at :: datetime
  rt_nonce :: string

definition claims_checks :: "RuntimeTicketClaims \<Rightarrow> (bool \<times> string) list" where
  "claims_checks c =
     [(rt_version c = 1, ''version''), (length_between 16 128 (rt_ticket_id c), ''ticket_id''),
      (length_between 1 100 (rt_organization_id c), ''organization_id''), (length_between 1 100 (rt_actor_id c), ''actor_id''),
      (length_between 1 100 (rt_purpose c), ''purpose''), (length_between 1 200 (rt_audience c), ''audience''),
      (length (rt_allowed_tools c) \<le> 32, ''allowed_tools''), (length_between 16 128 (rt_nonce c), ''nonce''),
      (rt_party c = principal_party (rt_principal c), ''runtime ticket principal and party do not match''),
      (tz_aware (rt_issued_at c) \<and> tz_aware (rt_expires_at c), ''runtime ticket timestamps must be timezone-aware''),
      (micros (rt_issued_at c) < micros (rt_expires_at c), ''runtime ticket expiry must follow issue time'')]"

definition mk_RuntimeTicketClaims :: "RuntimeTicketClaims \<Rightarrow> RuntimeTicketClaims kn" where
  "mk_RuntimeTicketClaims c = bindE (require (claims_checks c)) (\<lambda>_. Inr c)"

section \<open>The codec\<close>

record ticket_env =
  te_dumps :: "RuntimeTicketClaims \<Rightarrow> string"
  te_loads :: "string \<Rightarrow> RuntimeTicketClaims option"
  te_hmac :: "string \<Rightarrow> string \<Rightarrow> string"

definition mk_codec :: "string \<Rightarrow> ticket_error + string" where
  "mk_codec signing_key = (if length signing_key < 32 then Inl ShortSigningKey else Inr signing_key)"

definition sign_ticket :: "ticket_env \<Rightarrow> string \<Rightarrow> RuntimeTicketClaims \<Rightarrow> string" where
  "sign_ticket E key claims =
     (let payload = te_dumps E claims
      in encode_b64 payload @ ''.'' @ encode_b64 (te_hmac E key payload))"

text \<open>The two random texts of \<^verbatim>\<open>token_urlsafe\<close> and the time are arguments.\<close>

record ticket_request =
  tr_principal :: Principal
  tr_party :: Party
  tr_organization_id :: string
  tr_actor_id :: string
  tr_purpose :: string
  tr_audience :: string
  tr_allowed_tools :: "string list"
  tr_ttl :: int

definition issued_claims :: "string \<Rightarrow> string \<Rightarrow> datetime \<Rightarrow> ticket_request \<Rightarrow> RuntimeTicketClaims" where
  "issued_claims random_id random_nonce now r =
     \<lparr>rt_version = 1, rt_ticket_id = ''rtk_'' @ random_id, rt_principal = tr_principal r, rt_party = tr_party r,
      rt_organization_id = tr_organization_id r, rt_actor_id = tr_actor_id r, rt_purpose = tr_purpose r,
      rt_audience = tr_audience r, rt_allowed_tools = tr_allowed_tools r, rt_issued_at = now,
      rt_expires_at = now\<lparr>micros := micros now + tr_ttl r\<rparr>, rt_nonce = random_nonce\<rparr>"

definition issue ::
  "ticket_env \<Rightarrow> string \<Rightarrow> string \<Rightarrow> string \<Rightarrow> datetime \<Rightarrow> ticket_request \<Rightarrow> ticket_error + string" where
  "issue E key random_id random_nonce now r =
     (case mk_RuntimeTicketClaims (issued_claims random_id random_nonce now r) of
        Inl e \<Rightarrow> Inl (InvalidClaims e)
      | Inr claims \<Rightarrow> Inr (sign_ticket E key claims))"

fun split_dot :: "string \<Rightarrow> (string \<times> string) option" where
  "split_dot [] = None"
| "split_dot (c # cs) =
     (if c = CHR ''.'' then Some ([], cs) else map_option (\<lambda>(a, b). (c # a, b)) (split_dot cs))"

record ticket_scope =
  ts_principal :: Principal
  ts_party :: Party
  ts_organization_id :: string
  ts_purpose :: string
  ts_audience :: string

definition in_scope :: "ticket_scope \<Rightarrow> RuntimeTicketClaims \<Rightarrow> bool" where
  "in_scope s c \<longleftrightarrow>
     rt_principal c = ts_principal s \<and> rt_party c = ts_party s \<and> rt_organization_id c = ts_organization_id s \<and>
     rt_purpose c = ts_purpose s \<and> rt_audience c = ts_audience s"

definition in_time :: "datetime \<Rightarrow> RuntimeTicketClaims \<Rightarrow> bool" where
  "in_time now c \<longleftrightarrow> micros now < micros (rt_expires_at c) \<and> micros (rt_issued_at c) \<le> micros now + 30000000"

text \<open>The part of \<^verbatim>\<open>verify\<close> before the guard is asked. A naive clock cannot be compared with the aware times of
  the claims (a \<^verbatim>\<open>TypeError\<close>).\<close>

definition read_ticket :: "ticket_env \<Rightarrow> string \<Rightarrow> string \<Rightarrow> ticket_scope \<Rightarrow> datetime \<Rightarrow> ticket_error + RuntimeTicketClaims" where
  "read_ticket E key token expected now =
     (case split_dot token of
        None \<Rightarrow> Inl (RuntimeTicketError ''RUNTIME_TICKET_MALFORMED'')
      | Some (encoded_payload, encoded_signature) \<Rightarrow>
          bindE (decode_b64 encoded_payload) (\<lambda>payload. bindE (decode_b64 encoded_signature) (\<lambda>supplied.
            if supplied \<noteq> te_hmac E key payload then Inl (RuntimeTicketError ''RUNTIME_TICKET_SIGNATURE_INVALID'')
            else (case te_loads E payload of
                    None \<Rightarrow> Inl (RuntimeTicketError ''RUNTIME_TICKET_CLAIMS_INVALID'')
                  | Some fields_read \<Rightarrow>
                      (case mk_RuntimeTicketClaims fields_read of
                         Inl _ \<Rightarrow> Inl (RuntimeTicketError ''RUNTIME_TICKET_CLAIMS_INVALID'')
                       | Inr claims \<Rightarrow>
                           if \<not> tz_aware now then Inl NaiveClock
                           else if \<not> in_time now claims then Inl (RuntimeTicketError ''RUNTIME_TICKET_EXPIRED'')
                           else if \<not> in_scope expected claims
                           then Inl (RuntimeTicketError ''RUNTIME_TICKET_SCOPE_MISMATCH'')
                           else Inr claims)))))"

type_synonym 'g consumer = "string \<Rightarrow> string \<Rightarrow> datetime \<Rightarrow> 'g \<Rightarrow> (string + bool) \<times> 'g"

definition verify ::
  "ticket_env \<Rightarrow> string \<Rightarrow> 'g consumer \<Rightarrow> string \<Rightarrow> ticket_scope \<Rightarrow> datetime \<Rightarrow> 'g \<Rightarrow> (ticket_error + RuntimeTicketClaims) \<times> 'g" where
  "verify E key consume token expected now g =
     (case read_ticket E key token expected now of
        Inl e \<Rightarrow> (Inl e, g)
      | Inr claims \<Rightarrow>
          (case consume (rt_ticket_id claims) (rt_nonce claims) (rt_expires_at claims) g of
             (Inl e, g') \<Rightarrow> (Inl (GuardFailed e), g')
           | (Inr fresh, g') \<Rightarrow>
               ((if fresh then Inr claims else Inl (RuntimeTicketError ''RUNTIME_TICKET_REPLAYED'')), g')))"

text \<open>A series of verifications that share a guard: the claims accepted, in order.\<close>

fun verify_all ::
  "ticket_env \<Rightarrow> string \<Rightarrow> 'g consumer \<Rightarrow> (string \<times> ticket_scope \<times> datetime) list \<Rightarrow> 'g \<Rightarrow> RuntimeTicketClaims list \<times> 'g" where
  "verify_all E key consume [] g = ([], g)"
| "verify_all E key consume ((token, expected, now) # rest) g =
     (case verify E key consume token expected now g of
        (Inl _, g') \<Rightarrow> verify_all E key consume rest g'
      | (Inr claims, g') \<Rightarrow> (case verify_all E key consume rest g' of (cs, g'') \<Rightarrow> (claims # cs, g'')))"

section \<open>The guards\<close>

type_synonym memory_guard = "(string \<times> string) list"

definition memory_consume :: "memory_guard consumer" where
  "memory_consume ticket_id nonce expires_at consumed =
     (if (ticket_id, nonce) \<in> set consumed then (Inr False, consumed) else (Inr True, (ticket_id, nonce) # consumed))"

record RuntimeTicketUse =
  tu_id :: string
  tu_organization_id :: string
  tu_ticket_id :: string
  tu_nonce_hash :: string
  tu_expires_at :: datetime

record ticket_table =
  tt_rows :: "RuntimeTicketUse list"
  tt_drawn :: nat

definition same_use :: "string \<Rightarrow> string \<Rightarrow> string \<Rightarrow> RuntimeTicketUse \<Rightarrow> bool" where
  "same_use org ticket_id nonce_hash r \<longleftrightarrow>
     tu_organization_id r = org \<and> tu_ticket_id r = ticket_id \<and> tu_nonce_hash r = nonce_hash"

text \<open>One transaction; a clash of the drawn key leaves the table as it was.\<close>

definition cockroach_consume :: "(string \<Rightarrow> string) \<Rightarrow> (nat \<Rightarrow> string) \<Rightarrow> string \<Rightarrow> ticket_table consumer" where
  "cockroach_consume sha256 uuid org ticket_id nonce expires_at t =
     (let nonce_hash = ''sha256:'' @ sha256 nonce; new_id = ''rtuse_'' @ uuid (tt_drawn t)
      in if list_ex (same_use org ticket_id nonce_hash) (tt_rows t) then (Inr False, t)
         else if list_ex (\<lambda>r. tu_id r = new_id) (tt_rows t)
         then (Inl ''duplicate key'', t\<lparr>tt_drawn := tt_drawn t + 1\<rparr>)
         else (Inr True, \<lparr>tt_rows = tt_rows t @ [\<lparr>tu_id = new_id, tu_organization_id = org, tu_ticket_id = ticket_id,
                 tu_nonce_hash = nonce_hash, tu_expires_at = expires_at\<rparr>], tt_drawn = tt_drawn t + 1\<rparr>))"

section \<open>Base64 reads back\<close>

lemma of_b64_char:
  "n < 64 \<Longrightarrow> of_char (b64_char n) =
     (if n < 26 then n + 65 else if n < 52 then n + 71 else if n < 62 then n - 4 else if n = 62 then 45 else 95)"
  by (simp add: b64_char_def)

lemma b64_char_facts:
  assumes "n < 64"
  shows "b64_index (b64_char n) = Some n" "b64_char n \<noteq> CHR ''=''" "b64_char n \<noteq> CHR ''.''"
    "of_char (b64_char n) < (128 :: nat)"
proof -
  have "of_char (b64_char n) \<noteq> (61 :: nat)" "of_char (b64_char n) \<noteq> (46 :: nat)"
    using assms by (auto simp: of_b64_char)
  then show "b64_char n \<noteq> CHR ''=''" "b64_char n \<noteq> CHR ''.''" by auto
  show "of_char (b64_char n) < (128 :: nat)" using assms by (auto simp: of_b64_char)
  have digits: "48 \<le> n - 4 \<and> n - 4 \<le> 57" if "52 \<le> n" "n < 62" using that by linarith
  from assms consider "n < 26" | "26 \<le> n" "n < 52" | "52 \<le> n" "n < 62" | "n = 62" | "n = 63" by linarith
  then show "b64_index (b64_char n) = Some n"
    by cases (simp_all add: b64_index_def is_upper_def is_lower_def is_digit_def less_eq_char_def of_b64_char b64_char_def digits)
qed

text \<open>The characters of a text are its sextets, then at most two pads.\<close>

lemma b64_groups_shape:
  assumes "list_all (\<lambda>b. b < 256) bs"
  shows "\<exists>ns p. b64_groups bs = map b64_char ns @ replicate p (CHR ''='') \<and> list_all (\<lambda>n. n < 64) ns \<and>
    int p = (- int (length ns)) mod 4 \<and> a2b_base64 0 0 0 (map b64_char ns @ replicate p (CHR ''='')) = Some bs"
  using assms
proof (induction bs rule: b64_groups.induct)
  case 1
  show ?case by (rule exI [of _ "[]"], rule exI [of _ 0]) simp
next
  case (2 a)
  then have "a div 4 < 64" "a mod 4 * 16 < 64" by auto
  then show ?case
    by (intro exI [of _ "[a div 4, a mod 4 * 16]"] exI [of _ 2])
      (simp add: b64_char_facts numeral_2_eq_2)
next
  case (3 a b)
  then have "a div 4 < 64" "a mod 4 * 16 + b div 16 < 64" "b mod 16 * 4 < 64" "b div 16 < 16" by auto
  then show ?case
    by (intro exI [of _ "[a div 4, a mod 4 * 16 + b div 16, b mod 16 * 4]"] exI [of _ 1])
      (simp add: b64_char_facts)
next
  case (4 a b c r)
  then obtain ns p where IH: "b64_groups r = map b64_char ns @ replicate p (CHR ''='')" "list_all (\<lambda>n. n < 64) ns"
    "int p = (- int (length ns)) mod 4" "a2b_base64 0 0 0 (map b64_char ns @ replicate p (CHR ''='')) = Some r" by auto
  let ?q = "[a div 4, a mod 4 * 16 + b div 16, b mod 16 * 4 + c div 64, c mod 64]"
  from 4 have q: "a div 4 < 64" "a mod 4 * 16 + b div 16 < 64" "b mod 16 * 4 + c div 64 < 64" "c mod 64 < 64"
    "b div 16 < 16" "c div 64 < 4" by auto
  have "(- int (length (?q @ ns))) mod 4 = (- int (length ns)) mod 4" by simp presburger
  with IH q show ?case
    by (intro exI [of _ "?q @ ns"] exI [of _ p]) (simp add: b64_char_facts)
qed

lemma rstrip_pads: "list_all (\<lambda>c. c \<noteq> d) s \<Longrightarrow> rstrip_char d (s @ replicate p d) = s"
proof -
  assume s: "list_all (\<lambda>c. c \<noteq> d) s"
  have "dropWhile (\<lambda>x. x = d) (rev s) = rev s"
    using s by (cases s rule: rev_cases) auto
  moreover have "dropWhile (\<lambda>x. x = d) (replicate p d @ rev s) = dropWhile (\<lambda>x. x = d) (rev s)"
    by (induction p) auto
  ultimately show ?thesis by (simp add: rstrip_char_def)
qed

lemma encode_b64_shape:
  obtains ns where "encode_b64 v = map b64_char ns" "list_all (\<lambda>n. n < 64) ns"
    "a2b_base64 0 0 0 (map b64_char ns @ replicate (nat ((- int (length ns)) mod 4)) (CHR ''='')) = Some (map of_char v)"
proof -
  have "list_all (\<lambda>b. b < (256::nat)) (map of_char v)" by (simp add: list_all_iff)
  from b64_groups_shape [OF this] obtain ns p where
    g: "b64_groups (map of_char v) = map b64_char ns @ replicate p (CHR ''='')" "list_all (\<lambda>n. n < 64) ns"
    "int p = (- int (length ns)) mod 4"
    "a2b_base64 0 0 0 (map b64_char ns @ replicate p (CHR ''='')) = Some (map of_char v)" by blast
  have "encode_b64 v = map b64_char ns"
    unfolding encode_b64_def g(1) by (rule rstrip_pads) (use g(2) b64_char_facts(2) in \<open>auto simp: list_all_iff\<close>)
  moreover have "p = nat ((- int (length ns)) mod 4)" using g(3) by simp
  ultimately show ?thesis using that g by simp
qed

theorem decode_encode_b64: "decode_b64 (encode_b64 v) = Inr v"
proof -
  obtain ns where e: "encode_b64 v = map b64_char ns" "list_all (\<lambda>n. n < 64) ns"
    "a2b_base64 0 0 0 (map b64_char ns @ replicate (nat ((- int (length ns)) mod 4)) (CHR ''='')) = Some (map of_char v)"
    by (rule encode_b64_shape)
  have "ascii_text (map b64_char ns)" using e(2) b64_char_facts(4) by (auto simp: ascii_text_def list_all_iff)
  with e(3) show ?thesis by (simp add: decode_b64_def e(1) o_def)
qed

lemma split_dot_append: "CHR ''.'' \<notin> set a \<Longrightarrow> split_dot (a @ CHR ''.'' # b) = Some (a, b)"
  by (induction a) auto

lemma encode_b64_no_dot: "CHR ''.'' \<notin> set (encode_b64 v)"
proof -
  obtain ns where "encode_b64 v = map b64_char ns" "list_all (\<lambda>n. n < 64) ns" by (rule encode_b64_shape)
  then show ?thesis using b64_char_facts(3) by (metis (no_types, lifting) imageE list.set_map list_all_iff)
qed

section \<open>What an accepted ticket is\<close>

lemma read_claims_Inr:
  "(case loaded of
      None \<Rightarrow> Inl (RuntimeTicketError a)
    | Some fields_read \<Rightarrow>
        (case mk_RuntimeTicketClaims fields_read of
           Inl _ \<Rightarrow> Inl (RuntimeTicketError b)
         | Inr claims \<Rightarrow>
             if \<not> tz_aware now then Inl NaiveClock
             else if \<not> in_time now claims then Inl (RuntimeTicketError d)
             else if \<not> in_scope expected claims then Inl (RuntimeTicketError e) else Inr claims)) = Inr c \<longleftrightarrow>
   loaded = Some c \<and> mk_RuntimeTicketClaims c = Inr c \<and> tz_aware now \<and> in_time now c \<and> in_scope expected c"
proof (cases loaded)
  case (Some f)
  have "mk_RuntimeTicketClaims f = Inr x \<Longrightarrow> x = f" for x by (auto simp: mk_RuntimeTicketClaims_def bindE_Inr_conv)
  then show ?thesis by (cases "mk_RuntimeTicketClaims f") (auto simp: Some)
qed simp

lemma read_ticket_Inr:
  "read_ticket E key token expected now = Inr c \<longleftrightarrow>
     (\<exists>encoded_payload encoded_signature payload. split_dot token = Some (encoded_payload, encoded_signature) \<and>
        decode_b64 encoded_payload = Inr payload \<and> decode_b64 encoded_signature = Inr (te_hmac E key payload) \<and>
        te_loads E payload = Some c \<and> mk_RuntimeTicketClaims c = Inr c \<and> tz_aware now \<and> in_time now c \<and> in_scope expected c)"
proof (cases "split_dot token")
  case (Some p)
  obtain a b where p: "p = (a, b)" by fastforce
  show ?thesis
    unfolding read_ticket_def Some p option.case prod.case bindE_Inr_conv
    by (auto simp: read_claims_Inr split: if_splits)
qed (simp add: read_ticket_def)

lemma read_signed_ticket:
  assumes "te_loads E (te_dumps E c) = Some c" "mk_RuntimeTicketClaims c = Inr c" "tz_aware now" "in_time now c" "in_scope expected c"
  shows "read_ticket E key (sign_ticket E key c) expected now = Inr c"
  unfolding read_ticket_Inr
  by (intro exI [of _ "encode_b64 (te_dumps E c)"] exI [of _ "encode_b64 (te_hmac E key (te_dumps E c))"]
      exI [of _ "te_dumps E c"])
    (simp add: sign_ticket_def Let_def split_dot_append [OF encode_b64_no_dot] decode_encode_b64 assms)

lemma verify_Inr:
  "verify E key consume token expected now g = (Inr c, g') \<longleftrightarrow>
     read_ticket E key token expected now = Inr c \<and>
     consume (rt_ticket_id c) (rt_nonce c) (rt_expires_at c) g = (Inr True, g')"
  by (auto simp: verify_def split: sum.splits prod.splits if_splits)

section \<open>Single use\<close>

definition ticket_key :: "RuntimeTicketClaims \<Rightarrow> string \<times> string" where
  "ticket_key c = (rt_ticket_id c, rt_nonce c)"

locale replay_guard =
  fixes consume :: "'g consumer"
    and seen :: "'g \<Rightarrow> string \<times> string \<Rightarrow> bool"
  assumes accepted: "consume i n e g = (Inr True, g') \<Longrightarrow> \<not> seen g (i, n) \<and> seen g' (i, n)"
    and refused: "consume i n e g = (Inr False, g') \<Longrightarrow> seen g (i, n)"
    and kept: "consume i n e g = (r, g') \<Longrightarrow> seen g k \<Longrightarrow> seen g' k"
begin

lemma verify_kept: "verify E key consume token expected now g = (r, g') \<Longrightarrow> seen g k \<Longrightarrow> seen g' k"
  by (auto simp: verify_def split: sum.splits prod.splits dest: kept)

lemma verify_accepted:
  assumes "verify E key consume token expected now g = (Inr c, g')"
  shows "\<not> seen g (ticket_key c)" "seen g' (ticket_key c)"
  using assms accepted by (auto simp: verify_Inr ticket_key_def)

lemma seen_refused:
  assumes "seen g (ticket_key c)" shows "fst (verify E key consume token expected now g) \<noteq> Inr c"
  using verify_accepted(1) [of E key token expected now g c] assms by (metis prod.collapse)

lemma verify_all_fresh:
  assumes "verify_all E key consume reqs g = (cs, g')"
  shows "distinct (map ticket_key cs) \<and> (\<forall>c \<in> set cs. \<not> seen g (ticket_key c))"
  using assms
proof (induction reqs arbitrary: g cs g')
  case (Cons req reqs)
  obtain token expected now where req: "req = (token, expected, now)" by (cases req)
  obtain r g1 where v: "verify E key consume token expected now g = (r, g1)" by fastforce
  obtain ds g2 where rest: "verify_all E key consume reqs g1 = (ds, g2)" by fastforce
  note IH = Cons.IH [OF rest]
  have earlier: "\<not> seen g k" if "\<not> seen g1 k" for k using verify_kept [OF v] that by blast
  show ?case
  proof (cases r)
    case (Inl e)
    then have "cs = ds" using Cons.prems v rest by (simp add: req)
    with IH earlier show ?thesis by blast
  next
    case (Inr c)
    then have "cs = c # ds" using Cons.prems v rest by (simp add: req)
    with IH earlier verify_accepted [OF v [unfolded Inr]] show ?thesis by auto
  qed
qed simp

lemma verify_all_kept:
  assumes "verify_all E key consume reqs g = (cs, g')" "seen g k"
  shows "seen g' k"
  using assms
proof (induction reqs arbitrary: g cs g')
  case (Cons req reqs)
  obtain token expected now where req: "req = (token, expected, now)" by (cases req)
  obtain r g1 where v: "verify E key consume token expected now g = (r, g1)" by fastforce
  obtain ds g2 where rest: "verify_all E key consume reqs g1 = (ds, g2)" by fastforce
  have "g' = g2" using Cons.prems(1) v rest by (auto simp: req split: sum.splits)
  with Cons.IH [OF rest verify_kept [OF v Cons.prems(2)]] show ?case by simp
qed simp

lemma verify_all_recorded:
  assumes "verify_all E key consume reqs g = (cs, g')" "c \<in> set cs"
  shows "seen g' (ticket_key c)"
  using assms
proof (induction reqs arbitrary: g cs g')
  case (Cons req reqs)
  obtain token expected now where req: "req = (token, expected, now)" by (cases req)
  obtain r g1 where v: "verify E key consume token expected now g = (r, g1)" by fastforce
  obtain ds g2 where rest: "verify_all E key consume reqs g1 = (ds, g2)" by fastforce
  have g': "g' = g2" and cs: "c \<in> set ds \<or> r = Inr c"
    using Cons.prems v rest by (auto simp: req split: sum.splits)
  from cs show ?case
    using Cons.IH [OF rest] verify_all_kept [OF rest verify_accepted(2)] v g' by blast
qed simp

lemma verify_all_read:
  assumes "verify_all E key consume reqs g = (cs, g')" "c \<in> set cs"
  shows "\<exists>token expected now. (token, expected, now) \<in> set reqs \<and> read_ticket E key token expected now = Inr c"
  using assms
proof (induction reqs arbitrary: g cs g')
  case (Cons req reqs)
  obtain token expected now where req: "req = (token, expected, now)" by (cases req)
  obtain r g1 where v: "verify E key consume token expected now g = (r, g1)" by fastforce
  obtain ds g2 where rest: "verify_all E key consume reqs g1 = (ds, g2)" by fastforce
  have "c \<in> set ds \<or> r = Inr c" using Cons.prems v rest by (auto simp: req split: sum.splits)
  then show ?case
  proof
    assume "r = Inr c"
    with v have "read_ticket E key token expected now = Inr c" by (simp add: verify_Inr)
    with req show ?case by (intro exI [of _ token] exI [of _ expected] exI [of _ now]) simp
  next
    assume "c \<in> set ds"
    with Cons.IH [OF rest] show ?case by (meson list.set_intros(2))
  qed
qed simp

end

interpretation memory: replay_guard memory_consume "\<lambda>g k. k \<in> set g"
  by unfold_locales (auto simp: memory_consume_def split: if_splits)

definition table_seen :: "(string \<Rightarrow> string) \<Rightarrow> string \<Rightarrow> ticket_table \<Rightarrow> string \<times> string \<Rightarrow> bool" where
  "table_seen sha256 org t k \<longleftrightarrow> list_ex (same_use org (fst k) (''sha256:'' @ sha256 (snd k))) (tt_rows t)"

interpretation cockroach: replay_guard "cockroach_consume sha256 uuid org" "table_seen sha256 org"
  by unfold_locales (auto simp: cockroach_consume_def table_seen_def same_use_def Let_def split: if_splits)

end
