(* ===== verification/TicketClaims.thy ===== *)
theory TicketClaims
  imports RuntimeTickets
begin

text \<open>Properties of the runtime tickets, with one issued ticket as their example.\<close>

definition pass_request :: ticket_request where
  "pass_request = \<lparr>tr_principal = SIRA, tr_party = BUYER, tr_organization_id = ''org_1'', tr_actor_id = ''usr_1'',
     tr_purpose = ''turn'', tr_audience = ''buyer-runtime'', tr_allowed_tools = [''search''], tr_ttl = 120000000\<rparr>"

definition pass_time :: datetime where
  "pass_time = \<lparr>tz_aware = True, micros = 1000000\<rparr>"

definition pass_claims :: RuntimeTicketClaims where
  "pass_claims = issued_claims ''aaaaaaaaaaaaaaaa'' ''bbbbbbbbbbbbbbbb'' pass_time pass_request"

definition pass_text :: "RuntimeTicketClaims \<Rightarrow> string" where
  "pass_text c = rt_ticket_id c @ ''/'' @ rt_nonce c @ ''/'' @ rt_organization_id c"

definition pass_env :: ticket_env where
  "pass_env = \<lparr>te_dumps = pass_text, te_loads = (\<lambda>t. if t = pass_text pass_claims then Some pass_claims else None),
     te_hmac = (\<lambda>key payload. take 8 (key @ rev payload))\<rparr>"

definition pass_key :: string where
  "pass_key = replicate 32 (CHR ''k'')"

definition request_scope :: "ticket_request \<Rightarrow> ticket_scope" where
  "request_scope r = \<lparr>ts_principal = tr_principal r, ts_party = tr_party r, ts_organization_id = tr_organization_id r,
     ts_purpose = tr_purpose r, ts_audience = tr_audience r\<rparr>"

text \<open>C17 A ticket that was issued is accepted by the runtime it was issued for, within its lifetime and with the claims it was
  issued with, base64, signature and JSON included, and after that no token with these claims is accepted again, whatever scope
  and time are asked for. (\<^verbatim>\<open>json_back\<close>: JSON mode and its parser read the claims back.)\<close>

theorem issued_ticket_verifies_once:
  assumes issued: "issue E key random_id random_nonce now r = Inr token"
    and json_back: "te_loads E (te_dumps E (issued_claims random_id random_nonce now r)) =
      Some (issued_claims random_id random_nonce now r)"
    and time: "tz_aware later" "micros now \<le> micros later" "micros later < micros now + tr_ttl r"
    and unused: "(''rtk_'' @ random_id, random_nonce) \<notin> set g"
  shows "verify E key memory_consume token (request_scope r) later g =
      (Inr (issued_claims random_id random_nonce now r), (''rtk_'' @ random_id, random_nonce) # g) \<and>
    (\<forall>token' scope' time'. fst (verify E key memory_consume token' scope' time' ((''rtk_'' @ random_id, random_nonce) # g)) \<noteq>
       Inr (issued_claims random_id random_nonce now r))"
proof
  let ?c = "issued_claims random_id random_nonce now r"
  have mk: "mk_RuntimeTicketClaims ?c = Inr ?c" and token: "token = sign_ticket E key ?c"
    using issued by (auto simp: issue_def mk_RuntimeTicketClaims_def bindE_Inr_conv split: sum.splits)
  have "read_ticket E key token (request_scope r) later = Inr ?c"
    unfolding token using time
    by (intro read_signed_ticket json_back mk) (simp_all add: in_time_def in_scope_def request_scope_def issued_claims_def)
  with unused show "verify E key memory_consume token (request_scope r) later g =
      (Inr ?c, (''rtk_'' @ random_id, random_nonce) # g)"
    by (simp add: verify_Inr memory_consume_def issued_claims_def)
  show "\<forall>token' scope' time'. fst (verify E key memory_consume token' scope' time' ((''rtk_'' @ random_id, random_nonce) # g)) \<noteq>
       Inr ?c"
    by (intro allI memory.seen_refused) (simp add: ticket_key_def issued_claims_def)
qed

theorem issued_ticket_verifies_once_witness:
  "\<exists>token. issue pass_env pass_key ''aaaaaaaaaaaaaaaa'' ''bbbbbbbbbbbbbbbb'' pass_time pass_request = Inr token \<and>
     verify pass_env pass_key memory_consume token (request_scope pass_request) (pass_time\<lparr>micros := 60000000\<rparr>) [] =
       (Inr pass_claims, [(''rtk_aaaaaaaaaaaaaaaa'', ''bbbbbbbbbbbbbbbb'')])"
proof -
  have "mk_RuntimeTicketClaims (issued_claims ''aaaaaaaaaaaaaaaa'' ''bbbbbbbbbbbbbbbb'' pass_time pass_request) =
      Inr (issued_claims ''aaaaaaaaaaaaaaaa'' ''bbbbbbbbbbbbbbbb'' pass_time pass_request)" by code_simp
  then have i: "issue pass_env pass_key ''aaaaaaaaaaaaaaaa'' ''bbbbbbbbbbbbbbbb'' pass_time pass_request =
      Inr (sign_ticket pass_env pass_key (issued_claims ''aaaaaaaaaaaaaaaa'' ''bbbbbbbbbbbbbbbb'' pass_time pass_request))"
    by (simp add: issue_def)
  from issued_ticket_verifies_once [OF i, of "pass_time\<lparr>micros := 60000000\<rparr>" "[]"] i show ?thesis
    by (simp add: pass_env_def pass_claims_def pass_time_def pass_request_def)
qed

text \<open>C16 Over any series of verifications against the table of a tenant, with any tokens, scopes and times, no pair of ticket and
  nonce is accepted twice or after it was recorded before, every accepted pair is recorded, and each accepted ticket carried the
  signature of its payload, valid claims of the matching party, the expected scope, and was neither expired nor issued more than 30 seconds ahead.\<close>

theorem tickets_single_use:
  assumes "verify_all E key (cockroach_consume sha256 uuid org) reqs t = (accepted, t')"
  shows "distinct (map ticket_key accepted) \<and>
    (\<forall>c \<in> set accepted. \<not> table_seen sha256 org t (ticket_key c) \<and> table_seen sha256 org t' (ticket_key c) \<and>
       rt_party c = principal_party (rt_principal c) \<and>
       (\<exists>token expected now encoded_payload encoded_signature payload. (token, expected, now) \<in> set reqs \<and>
          split_dot token = Some (encoded_payload, encoded_signature) \<and> decode_b64 encoded_payload = Inr payload \<and>
          decode_b64 encoded_signature = Inr (te_hmac E key payload) \<and> te_loads E payload = Some c \<and>
          tz_aware now \<and> in_time now c \<and> in_scope expected c))"
proof (intro conjI ballI)
  show "distinct (map ticket_key accepted)" using cockroach.verify_all_fresh [OF assms] by blast
  fix c assume c: "c \<in> set accepted"
  show "\<not> table_seen sha256 org t (ticket_key c)" using cockroach.verify_all_fresh [OF assms] c by blast
  show "table_seen sha256 org t' (ticket_key c)" by (rule cockroach.verify_all_recorded [OF assms c])
  from cockroach.verify_all_read [OF assms c] obtain token expected now where
    r: "(token, expected, now) \<in> set reqs" "read_ticket E key token expected now = Inr c" by blast
  then show "rt_party c = principal_party (rt_principal c)"
    by (auto simp: read_ticket_Inr mk_RuntimeTicketClaims_def claims_checks_def bindE_Inr_conv split: if_splits)
  show "\<exists>token expected now encoded_payload encoded_signature payload. (token, expected, now) \<in> set reqs \<and>
          split_dot token = Some (encoded_payload, encoded_signature) \<and> decode_b64 encoded_payload = Inr payload \<and>
          decode_b64 encoded_signature = Inr (te_hmac E key payload) \<and> te_loads E payload = Some c \<and>
          tz_aware now \<and> in_time now c \<and> in_scope expected c"
    using r unfolding read_ticket_Inr by blast
qed

definition pass_twice :: "RuntimeTicketClaims list \<times> ticket_table" where
  "pass_twice = verify_all pass_env pass_key (cockroach_consume rev (\<lambda>n. replicate n (CHR ''x'')) ''org_1'')
     (replicate 2 (sign_ticket pass_env pass_key pass_claims, request_scope pass_request, pass_time))
     \<lparr>tt_rows = [], tt_drawn = 0\<rparr>"

theorem tickets_single_use_witness:
  "fst pass_twice = [pass_claims] \<and> distinct (map ticket_key (fst pass_twice))"
proof
  show "fst pass_twice = [pass_claims]" by code_simp
  obtain accepted t' where p: "pass_twice = (accepted, t')" by fastforce
  from tickets_single_use [OF p [unfolded pass_twice_def]] have "distinct (map ticket_key accepted)" by (rule conjunct1)
  then show "distinct (map ticket_key (fst pass_twice))" by (simp only: p fst_conv)
qed

end
