(* ===== verification/EvidencePipeline.thy ===== *)
theory EvidencePipeline
  imports Exchange
begin

text \<open>
  Evidence parsing and retrieval (\<^verbatim>\<open>src/python/domain/evidence_pipeline.py\<close>): the split of a document into
  paragraphs and stable spans, the check of proposed claims against their pinned span, and the ranking of spans
  for a query. UTF-8 decoding, SHA-256, \<^verbatim>\<open>rfc8785\<close> and floating point arithmetic (the embedding of a text, the
  product of two embeddings and the roundings of a score) are the fields of \<open>evidence_env\<close>. The lemmas show that the spans
  tile the document: between them there is only white space. \<^verbatim>\<open>casefold\<close> is the lower case of ASCII text.
\<close>

section \<open>Errors and parameters\<close>

datatype evidence_error =
    EvidenceValidationError string
  | EvidenceValueError string
  | InvalidModel string
  | NotCanonical

record evidence_env =
  ee_utf8 :: "string \<Rightarrow> string option"
  ee_sha_bytes :: "string \<Rightarrow> string"
  ee_sha_text :: "string \<Rightarrow> string"
  ee_raw :: raw_env
  ee_unit_vector :: "string \<Rightarrow> rat list"
  ee_semantic :: "rat list \<Rightarrow> rat list \<Rightarrow> rat"
  ee_fl :: "rat \<Rightarrow> rat"
  ee_round8 :: "rat \<Rightarrow> rat"

definition allowed_content_types :: "string list" where
  "allowed_content_types = [''text/plain'', ''text/markdown'', ''application/json'', ''text/csv'']"

definition instruction_markers :: "string list" where
  "instruction_markers =
     [''ignore previous'', ''system prompt'', ''call this tool'', ''reveal secret'', ''change your role'']"

section \<open>Data\<close>

record StableSpan =
  ss_id :: string
  ss_source_version_id :: string
  ss_sequence :: int
  ss_start :: int
  ss_stop :: int
  ss_text :: string
  ss_content_hash :: string
  ss_markers :: "string list"
  ss_embedding :: "rat list"

definition mk_StableSpan :: "StableSpan \<Rightarrow> evidence_error + StableSpan" where
  "mk_StableSpan s =
     (if ss_sequence s < 1 then Inl (InvalidModel ''sequence'')
      else if ss_start s < 0 then Inl (InvalidModel ''start'')
      else if ss_stop s \<le> 0 then Inl (InvalidModel ''end'')
      else if \<not> length_between 1 2000 (ss_text s) then Inl (InvalidModel ''text'')
      else if \<not> valid_hash (ss_content_hash s) then Inl (InvalidModel ''content_hash'')
      else if length (ss_embedding s) \<noteq> 1024 then Inl (InvalidModel ''embedding'')
      else if ss_stop s \<le> ss_start s then Inl (InvalidModel ''span end must follow its start'')
      else Inr s)"

record ParsedEvidence =
  pe_source_version_id :: string
  pe_object_checksum :: string
  pe_content_type :: string
  pe_text :: string
  pe_text_hash :: string
  pe_spans :: "StableSpan list"

record ClaimProposal =
  cp_field :: string
  cp_operator :: string
  cp_value :: pyval
  cp_span_id :: string
  cp_supporting_text :: string

definition mk_ClaimProposal :: "ClaimProposal \<Rightarrow> evidence_error + ClaimProposal" where
  "mk_ClaimProposal p =
     (if \<not> length_between 1 120 (cp_field p) then Inl (InvalidModel ''field'')
      else if \<not> length_between 1 24 (cp_operator p) then Inl (InvalidModel ''operator'')
      else if \<not> length_between 1 100 (cp_span_id p) then Inl (InvalidModel ''span_id'')
      else if \<not> length_between 1 2000 (cp_supporting_text p) then Inl (InvalidModel ''supporting_text'')
      else Inr p)"

record ValidatedClaim =
  vc_field :: string
  vc_operator :: string
  vc_value :: pyval
  vc_source_version_id :: string
  vc_span_id :: string
  vc_supporting_text :: string
  vc_provenance_hash :: string

record RetrievalHit =
  rh_span_id :: string
  rh_score :: rat
  rh_text :: string
  rh_content_hash :: string

section \<open>Parsing\<close>

definition deterministic_embedding :: "evidence_env \<Rightarrow> string \<Rightarrow> evidence_error + rat list" where
  "deterministic_embedding E text =
     (if str_strip text = [] then Inl (EvidenceValueError ''embedding text must not be empty'')
      else Inr (ee_unit_vector E (str_lower (str_strip text))))"

abbreviation newline :: char where
  "newline \<equiv> char_of (10 :: nat)"

abbreviation carriage_return :: char where
  "carriage_return \<equiv> char_of (13 :: nat)"

text \<open>\<^verbatim>\<open>replace\<close> of carriage return and line feed, then of carriage returns.\<close>

fun join_line_ends :: "string \<Rightarrow> string" where
  "join_line_ends (c # d # ds) =
     (if c = carriage_return \<and> d = newline then newline # join_line_ends ds else c # join_line_ends (d # ds))"
| "join_line_ends s = s"

definition unix_lines :: "string \<Rightarrow> string" where
  "unix_lines s = map (\<lambda>c. if c = carriage_return then newline else c) (join_line_ends s)"

text \<open>The lookahead \<^verbatim>\<open>(?=\n\s*\n|\s*\Z)\<close>.\<close>

definition at_break :: "string \<Rightarrow> bool" where
  "at_break r \<longleftrightarrow>
     (case r of [] \<Rightarrow> True | c # w \<Rightarrow> c = newline \<and> newline \<in> set (takeWhile is_space w)) \<or> list_all is_space r"

text \<open>\<^verbatim>\<open>.*?\S\<close> up to the first place where the lookahead holds: the number of characters.\<close>

fun lazy_end :: "string \<Rightarrow> nat option" where
  "lazy_end [] = None"
| "lazy_end (c # cs) = (if \<not> is_space c \<and> at_break cs then Some 1 else map_option Suc (lazy_end cs))"

lemma lazy_end_le: "lazy_end s = Some n \<Longrightarrow> n \<le> length s"
  by (induction s arbitrary: n) (auto split: if_splits)

text \<open>The matches of \<^verbatim>\<open>\S(?:.*?\S)?\<close> with their starts; the optional group is tried first.\<close>

function paragraphs :: "nat \<Rightarrow> string \<Rightarrow> (nat \<times> string) list" where
  "paragraphs pos s =
     (case s of
        [] \<Rightarrow> []
      | c # cs \<Rightarrow>
          if is_space c then paragraphs (pos + 1) cs
          else (case lazy_end cs of
                  Some n \<Rightarrow> (pos, c # take n cs) # paragraphs (pos + 1 + n) (drop n cs)
                | None \<Rightarrow>
                    if at_break cs then (pos, [c]) # paragraphs (pos + 1) cs
                    else paragraphs (pos + 1) cs))"
  by auto
termination
  by (relation "measure (length \<circ> snd)") auto

declare paragraphs.simps [simp del]

definition slice :: "string \<Rightarrow> nat \<Rightarrow> nat \<Rightarrow> string" where
  "slice s a b = take (b - a) (drop a s)"

text \<open>\<^verbatim>\<open>s.rfind(" ", a, b)\<close> and \<^verbatim>\<open>s.find(t, a, b)\<close>\<close>

definition rfind_space :: "string \<Rightarrow> nat \<Rightarrow> nat \<Rightarrow> int" where
  "rfind_space s a b =
     (case filter (\<lambda>i. slice s i (i + 1) = '' '') [a..<min b (length s)] of [] \<Rightarrow> -1 | ks \<Rightarrow> int (last ks))"

definition find_text :: "string \<Rightarrow> string \<Rightarrow> nat \<Rightarrow> nat \<Rightarrow> int" where
  "find_text s t a b =
     (case find (\<lambda>i. i + length t \<le> min b (length s) \<and> slice s i (i + length t) = t) [a..<Suc (length s)] of
        None \<Rightarrow> -1 | Some i \<Rightarrow> int i)"

definition chunk_end :: "nat \<Rightarrow> string \<Rightarrow> nat \<Rightarrow> nat" where
  "chunk_end max_span_chars paragraph offset =
     (let stop = min (length paragraph) (offset + max_span_chars); boundary = rfind_space paragraph offset stop
      in if stop < length paragraph \<and> int offset < boundary then nat boundary else stop)"

function chunks :: "nat \<Rightarrow> string \<Rightarrow> nat \<Rightarrow> (int \<times> string) list" where
  "chunks max_span_chars paragraph offset =
     (if offset < length paragraph
      then let stop = chunk_end max_span_chars paragraph offset;
               chunk = str_strip (slice paragraph offset stop);
               rest = chunks max_span_chars paragraph (max stop (offset + 1))
           in if chunk \<noteq> [] then (find_text paragraph chunk offset (stop + 1), chunk) # rest else rest
      else [])"
  by auto
termination
  by (relation "measure (\<lambda>(m, p, i). length p - i)") auto

declare chunks.simps [simp del]

definition document_chunks :: "nat \<Rightarrow> string \<Rightarrow> (int \<times> string) list" where
  "document_chunks max_span_chars text =
     concat (map (\<lambda>(start, p). map (\<lambda>(i, t). (int start + i, t)) (chunks max_span_chars p 0)) (paragraphs 0 text))"

definition make_span :: "evidence_env \<Rightarrow> string \<Rightarrow> nat \<Rightarrow> int \<times> string \<Rightarrow> evidence_error + StableSpan" where
  "make_span E source_version_id before chunk =
     (case chunk of (start, text) \<Rightarrow>
        let stop = start + int (length text);
            digest = ee_sha_text E (source_version_id @ '':'' @ show_int start @ '':'' @ show_int stop @ '':'' @ text)
        in bindE (deterministic_embedding E text) (\<lambda>embedding.
             mk_StableSpan \<lparr>ss_id = ''span_'' @ take 24 digest, ss_source_version_id = source_version_id,
               ss_sequence = int before + 1, ss_start = start, ss_stop = stop, ss_text = text,
               ss_content_hash = ''sha256:'' @ ee_sha_text E text,
               ss_markers = filter (str_contains (str_lower text)) instruction_markers, ss_embedding = embedding\<rparr>))"

definition make_spans :: "evidence_env \<Rightarrow> string \<Rightarrow> (int \<times> string) list \<Rightarrow> evidence_error + StableSpan list" where
  "make_spans E source_version_id cs =
     mapE (\<lambda>(n, c). make_span E source_version_id n c) (zip [0..<length cs] cs)"

definition parse_evidence ::
  "evidence_env \<Rightarrow> string \<Rightarrow> string \<Rightarrow> string \<Rightarrow> nat \<Rightarrow> evidence_error + ParsedEvidence" where
  "parse_evidence E source_version_id body content_type max_span_chars =
     (if content_type \<notin> set allowed_content_types
      then Inl (EvidenceValidationError ''evidence content type requires a configured parser'')
      else if body = [] then Inl (EvidenceValidationError ''evidence object must not be empty'')
      else if length body > 25 * 1024 * 1024 then Inl (EvidenceValidationError ''evidence object exceeds the ingestion limit'')
      else (case ee_utf8 E body of
              None \<Rightarrow> Inl (EvidenceValidationError ''text evidence must be valid UTF-8'')
            | Some decoded \<Rightarrow>
                let text = unix_lines decoded
                in if char_of (0 :: nat) \<in> set text then Inl (EvidenceValidationError ''evidence contains a NUL byte'')
                   else bindE (make_spans E source_version_id (document_chunks max_span_chars text)) (\<lambda>spans.
                     if spans = [] then Inl (EvidenceValidationError ''evidence contains no parseable text'')
                     else Inr \<lparr>pe_source_version_id = source_version_id,
                       pe_object_checksum = ''sha256:'' @ ee_sha_bytes E body, pe_content_type = content_type,
                       pe_text = text, pe_text_hash = ''sha256:'' @ ee_sha_text E text, pe_spans = spans\<rparr>)))"

section \<open>Claims\<close>

definition span_of :: "ParsedEvidence \<Rightarrow> string \<Rightarrow> StableSpan option" where
  "span_of evidence span_id = map_of (dict_of (map (\<lambda>s. (ss_id s, s)) (pe_spans evidence))) span_id"

definition claim_payload :: "ParsedEvidence \<Rightarrow> StableSpan \<Rightarrow> ClaimProposal \<Rightarrow> pyval" where
  "claim_payload evidence pinned p = dict_str
     [(''field'', PyStr (cp_field p)), (''operator'', PyStr (cp_operator p)), (''value'', cp_value p),
      (''source_version_id'', PyStr (pe_source_version_id evidence)), (''span_id'', PyStr (ss_id pinned)),
      (''supporting_text'', PyStr (cp_supporting_text p)), (''span_hash'', PyStr (ss_content_hash pinned))]"

definition validate_claim ::
  "evidence_env \<Rightarrow> ParsedEvidence \<Rightarrow> ClaimProposal \<Rightarrow> evidence_error + ValidatedClaim" where
  "validate_claim E evidence p =
     (case span_of evidence (cp_span_id p) of
        Some pinned \<Rightarrow>
          if \<not> str_contains (ss_text pinned) (cp_supporting_text p)
          then Inl (EvidenceValidationError ''claim support does not resolve to its pinned span'')
          else (case raw_dumps (ee_raw E) (claim_payload evidence pinned p) of
                  None \<Rightarrow> Inl NotCanonical
                | Some t \<Rightarrow> Inr \<lparr>vc_field = cp_field p, vc_operator = cp_operator p, vc_value = cp_value p,
                    vc_source_version_id = pe_source_version_id evidence, vc_span_id = ss_id pinned,
                    vc_supporting_text = cp_supporting_text p,
                    vc_provenance_hash = ''sha256:'' @ raw_sha256 (ee_raw E) t\<rparr>)
      | None \<Rightarrow> Inl (EvidenceValidationError ''claim support does not resolve to its pinned span''))"

definition validate_claim_proposals ::
  "evidence_env \<Rightarrow> ParsedEvidence \<Rightarrow> ClaimProposal list \<Rightarrow> evidence_error + ValidatedClaim list" where
  "validate_claim_proposals E evidence proposals = mapE (validate_claim E evidence) proposals"

section \<open>Retrieval\<close>

text \<open>\<^verbatim>\<open>re.findall("[a-z0-9]+", text)\<close>\<close>

definition word_sign :: "char \<Rightarrow> bool" where
  "word_sign c \<longleftrightarrow> is_lower c \<or> is_digit c"

function word_runs :: "string \<Rightarrow> string list" where
  "word_runs s =
     (case dropWhile (\<lambda>c. \<not> word_sign c) s of
        [] \<Rightarrow> []
      | r \<Rightarrow> takeWhile word_sign r # word_runs (dropWhile word_sign r))"
  by auto
termination
proof (relation "measure length")
  fix s c r assume "dropWhile (\<lambda>c. \<not> word_sign c) s = c # r"
  moreover from this have "word_sign c" by (metis hd_dropWhile list.distinct(1) list.sel(1))
  moreover have "length (dropWhile (\<lambda>c. \<not> word_sign c) s) \<le> length s" by (rule length_dropWhile_le)
  moreover have "length (dropWhile word_sign r) \<le> length r" by (rule length_dropWhile_le)
  ultimately show "(dropWhile word_sign (c # r), s) \<in> measure length" by simp
qed simp

declare word_runs.simps [simp del]

definition seven_tenths :: rat where
  "seven_tenths = 6305039478318694 / 9007199254740992"

definition three_tenths :: rat where
  "three_tenths = 5404319552844595 / 18014398509481984"

definition retrieval_score :: "evidence_env \<Rightarrow> string \<Rightarrow> rat list \<Rightarrow> StableSpan \<Rightarrow> rat" where
  "retrieval_score E query query_vector pinned =
     (let query_terms = set (word_runs (str_lower query)); span_terms = set (word_runs (str_lower (ss_text pinned)));
          lexical = ee_fl E (of_nat (card (query_terms \<inter> span_terms)) / of_nat (max 1 (card query_terms)));
          semantic = ee_semantic E query_vector (ss_embedding pinned)
      in ee_fl E (ee_fl E (seven_tenths * lexical) + ee_fl E (three_tenths * max 0 semantic)))"

definition retrieve_evidence ::
  "evidence_env \<Rightarrow> string \<Rightarrow> StableSpan list \<Rightarrow> string set \<Rightarrow> int \<Rightarrow> evidence_error + RetrievalHit list" where
  "retrieve_evidence E query spans allowed_source_version_ids limit =
     (if limit < 1 \<or> limit > 20 then Inl (EvidenceValueError ''retrieval limit must be between 1 and 20'')
      else bindE (deterministic_embedding E query) (\<lambda>query_vector.
        let candidates = filter (\<lambda>s. ss_source_version_id s \<in> allowed_source_version_ids) spans;
            scored = sort_key (\<lambda>(score, s). (- score, ss_source_version_id s, ss_sequence s))
              (map (\<lambda>s. (retrieval_score E query query_vector s, s)) candidates)
        in Inr (map (\<lambda>(score, s). \<lparr>rh_span_id = ss_id s, rh_score = ee_round8 E score, rh_text = ss_text s,
             rh_content_hash = ss_content_hash s\<rparr>) (take (nat limit) scored))))"

section \<open>The chunks tile the text\<close>

text \<open>From position \<open>a\<close> on, the text \<open>s\<close> is the given pieces at their positions, with white space before, between and
  after them; a piece begins and ends with a visible character.\<close>

fun tiles :: "nat \<Rightarrow> string \<Rightarrow> (int \<times> string) list \<Rightarrow> bool" where
  "tiles a s [] = list_all is_space s"
| "tiles a s ((i, t) # rest) =
     (let gap = takeWhile is_space s; r = dropWhile is_space s
      in i = int (a + length gap) \<and> t \<noteq> [] \<and> \<not> is_space (last t) \<and> take (length t) r = t \<and>
         tiles (a + length gap + length t) (drop (length t) r) rest)"

lemma space_runs:
  "list_all is_space s \<Longrightarrow> takeWhile is_space (s @ r) = s @ takeWhile is_space r"
  "list_all is_space s \<Longrightarrow> dropWhile is_space (s @ r) = dropWhile is_space r"
  by (induction s) auto

lemma visible_runs:
  assumes "dropWhile is_space s \<noteq> []"
  shows "takeWhile is_space (s @ r) = takeWhile is_space s" "dropWhile is_space (s @ r) = dropWhile is_space s @ r"
  using assms by (induction s) auto

lemma tiles_space: "list_all is_space s \<Longrightarrow> tiles (a + length s) r xs \<Longrightarrow> tiles a (s @ r) xs"
  by (cases xs) (auto simp: Let_def space_runs add.assoc add.left_commute)

lemma tiles_append:
  "tiles a s xs \<Longrightarrow> tiles (a + length s) r ys \<Longrightarrow> tiles a (s @ r) (xs @ ys)"
proof (induction a s xs rule: tiles.induct)
  case (1 a s)
  then show ?case by (simp add: tiles_space)
next
  case (2 a s i t rest)
  let ?g = "takeWhile is_space s" and ?d = "dropWhile is_space s"
  from "2.prems"(1) have t: "t \<noteq> []" "take (length t) ?d = t" by (simp_all add: Let_def)
  from t have d: "?d \<noteq> []" by (metis take_Nil)
  have "min (length ?d) (length t) = length t" using t(2) by (metis length_take)
  then have len: "length t \<le> length ?d" by simp
  have "length s = length ?g + length ?d" by (metis length_append takeWhile_dropWhile_id)
  with len have eq: "a + length ?g + length t + length (drop (length t) ?d) = a + length s" by simp
  have A: "tiles (a + length ?g + length t) (drop (length t) ?d) rest" using "2.prems"(1) by (simp add: Let_def)
  have "tiles (a + length ?g + length t) (drop (length t) ?d @ r) (rest @ ys)"
    by (rule "2.IH" [OF refl refl A, unfolded eq, OF "2.prems"(2)])
  with "2.prems"(1) d len show ?case by (simp add: Let_def visible_runs)
qed

lemma strip_parts:
  "s = takeWhile is_space s @ str_strip s @ rev (takeWhile is_space (rev (dropWhile is_space s)))"
  by (metis append_assoc rev_append rev_rev_ident str_strip_def takeWhile_dropWhile_id)

lemma strip_empty: "str_strip s = [] \<Longrightarrow> list_all is_space s"
  using strip_parts [of s] by (metis append_Nil list_all_append list_all_iff rev.simps(1) set_rev set_takeWhileD)

lemma strip_gap:
  obtains w where "dropWhile is_space s = str_strip s @ w" "list_all is_space w"
proof
  show "dropWhile is_space s = str_strip s @ rev (takeWhile is_space (rev (dropWhile is_space s)))"
    by (metis rev_append rev_rev_ident str_strip_def takeWhile_dropWhile_id)
  show "list_all is_space (rev (takeWhile is_space (rev (dropWhile is_space s))))"
    by (auto simp: list_all_iff dest: set_takeWhileD)
qed

lemma strip_visible:
  assumes "str_strip s \<noteq> []"
  shows "\<not> is_space (hd (str_strip s))" "\<not> is_space (last (str_strip s))"
proof -
  let ?u = "dropWhile is_space (rev (dropWhile is_space s))"
  have u: "str_strip s = rev ?u" "?u \<noteq> []" using assms by (auto simp: str_strip_def)
  show "\<not> is_space (last (str_strip s))" using hd_dropWhile [OF u(2)] u by (simp add: last_rev)
  obtain w where w: "dropWhile is_space s = str_strip s @ w" by (rule strip_gap)
  then have "dropWhile is_space s \<noteq> []" using assms by simp
  from hd_dropWhile [OF this] show "\<not> is_space (hd (str_strip s))" using w assms by (metis hd_append2)
qed

lemma tiles_piece:
  assumes "str_strip s \<noteq> []"
  shows "tiles a s [(int (a + length (takeWhile is_space s)), str_strip s)]"
proof -
  obtain w where w: "dropWhile is_space s = str_strip s @ w" "list_all is_space w" by (rule strip_gap)
  then show ?thesis using strip_visible(2) [OF assms] assms by (simp add: Let_def)
qed

section \<open>Chunks of a paragraph\<close>

lemma slice_split: "i \<le> j \<Longrightarrow> drop i p = slice p i j @ drop j p"
  by (metis append_take_drop_id drop_drop le_add_diff_inverse2 slice_def)

lemma find_text_strip:
  assumes "str_strip (slice p i j) \<noteq> []" "i \<le> j" "j \<le> length p"
  shows "find_text p (str_strip (slice p i j)) i (j + 1) = int (i + length (takeWhile is_space (slice p i j)))"
proof -
  define x where "x = slice p i j"
  define t where "t = str_strip x"
  define gap where "gap = takeWhile is_space x"
  define n where "n = length gap"
  obtain w where x: "x = gap @ t @ w"
    using strip_gap [of x] by (metis gap_def t_def takeWhile_dropWhile_id)
  have D: "drop i p = gap @ t @ w @ drop j p" using slice_split [OF assms(2), of p] x by (simp add: x_def)
  have "length x = j - i" using assms(3) by (simp add: x_def slice_def)
  then have len: "n + length t \<le> j - i" by (simp add: x n_def)
  have t: "t \<noteq> []" using assms(1) by (simp add: t_def x_def)
  have at: "slice p (i + k) (i + k + length t) = take (length t) (drop k (drop i p))" for k
    by (simp add: slice_def add.commute)
  let ?P = "\<lambda>k. k + length t \<le> min (j + 1) (length p) \<and> slice p k (k + length t) = t"
  have room: "i + n + length t \<le> j" using len assms(2) t by (cases t) auto
  then have hit: "?P (i + n)" using assms(3) at [of n] by (simp add: D n_def)
  have miss: "\<not> ?P (i + k)" if "k < n" for k
  proof
    assume "?P (i + k)"
    then have "hd (drop k (drop i p)) = hd t" using t by (metis at hd_take length_greater_0_conv)
    moreover have "hd (drop k (drop i p)) = gap ! k"
      using that by (subst hd_drop_conv_nth) (simp_all add: D n_def nth_append)
    moreover have "is_space (gap ! k)" using that by (simp add: n_def gap_def) (metis nth_mem set_takeWhileD)
    moreover have "\<not> is_space (hd t)" using strip_visible(1) [of x] t by (simp add: t_def)
    ultimately show False by simp
  qed
  have "find ?P [i..<Suc (length p)] = Some (i + n)"
    unfolding find_Some_iff using hit miss room assms(3) by (intro exI [of _ n]) (auto simp del: upt_Suc)
  then show ?thesis by (simp add: find_text_def t_def x_def n_def gap_def)
qed

lemma rfind_space_less: "int a < rfind_space s a b \<Longrightarrow> rfind_space s a b < int b"
proof (cases "filter (\<lambda>i. slice s i (i + 1) = '' '') [a..<min b (length s)]")
  case (Cons i ks)
  then have "last (i # ks) \<in> set [a..<min b (length s)]" by (metis filter_is_subset last_in_set list.distinct(1) subsetD)
  then show ?thesis unfolding rfind_space_def Cons by simp
qed (simp add: rfind_space_def)

lemma chunk_end_bounds:
  assumes "0 < m" "i < length p"
  shows "i < chunk_end m p i" "chunk_end m p i \<le> length p" "chunk_end m p i \<le> i + m"
  using assms rfind_space_less [of i p "min (length p) (i + m)"]
  by (auto simp: chunk_end_def Let_def)

lemma chunks_tile:
  assumes "0 < m"
  shows "i \<le> length p \<Longrightarrow> tiles (a + i) (drop i p) (map (\<lambda>(k, t). (int a + k, t)) (chunks m p i))"
  using assms
proof (induction m p i rule: chunks.induct)
  case (1 m p i)
  show ?case
  proof (cases "i < length p")
    case True
    define j where "j = chunk_end m p i"
    define x where "x = slice p i j"
    have j: "i < j" "j \<le> length p" using chunk_end_bounds [OF "1.prems"(2) True] by (simp_all add: j_def)
    then have next_j: "max j (i + 1) = j" "max j (Suc i) = j" by simp_all
    have IH: "tiles (a + j) (drop j p) (map (\<lambda>(k, t). (int a + k, t)) (chunks m p j))"
      using "1.IH" [OF True refl refl] j "1.prems"(2) by (simp add: next_j flip: j_def)
    have D: "drop i p = x @ drop j p" unfolding x_def by (rule slice_split) (use j in simp)
    have len: "length x = j - i" using j by (simp add: x_def slice_def)
    have step: "chunks m p i =
        (if str_strip x \<noteq> [] then [(find_text p (str_strip x) i (j + 1), str_strip x)] else []) @ chunks m p j"
      using True by (simp add: chunks.simps [of m p i] Let_def next_j flip: j_def x_def)
    show ?thesis
    proof (cases "str_strip x = []")
      case True
      with strip_empty [OF this] IH len j show ?thesis by (simp add: step D tiles_space)
    next
      case False
      then have f: "find_text p (str_strip x) i (j + 1) = int (i + length (takeWhile is_space x))"
        using find_text_strip j by (simp add: x_def)
      have "tiles (a + i) x [(int (a + i + length (takeWhile is_space x)), str_strip x)]" by (rule tiles_piece [OF False])
      then have "tiles (a + i) (x @ drop j p)
          ([(int (a + i + length (takeWhile is_space x)), str_strip x)] @ map (\<lambda>(k, t). (int a + k, t)) (chunks m p j))"
        by (rule tiles_append) (use IH len j in simp)
      with False f show ?thesis by (simp add: step D add.assoc)
    qed
  next
    case False
    with "1.prems" show ?thesis by (simp add: chunks.simps)
  qed
qed

lemma chunks_short:
  "0 < m \<Longrightarrow> (k, t) \<in> set (chunks m p i) \<Longrightarrow> t \<noteq> [] \<and> length t \<le> m"
proof (induction m p i rule: chunks.induct)
  case (1 m p i)
  show ?case
  proof (cases "i < length p")
    case True
    define j where "j = chunk_end m p i"
    have "length (slice p i j) \<le> m" using chunk_end_bounds(3) [OF "1.prems"(1) True] by (simp add: slice_def j_def)
    moreover have "length (str_strip s) \<le> length s" for s
      using arg_cong [OF strip_parts [of s], of length] by simp
    ultimately have "length (str_strip (slice p i j)) \<le> m" using order_trans by blast
    with "1.prems" "1.IH" [OF True refl refl] True show ?thesis
      by (auto simp: chunks.simps [of m p i] Let_def j_def split: if_splits)
  next
    case False
    with "1.prems" show ?thesis by (simp add: chunks.simps)
  qed
qed

section \<open>Paragraphs\<close>

lemma lazy_end_None: "lazy_end s = None \<Longrightarrow> list_all is_space s"
proof (induction s)
  case (Cons c s)
  then have "list_all is_space s" by (auto split: if_splits)
  then have "at_break s" by (simp add: at_break_def)
  with Cons \<open>list_all is_space s\<close> show ?case by (auto split: if_splits)
qed simp

text \<open>Every visible character is in a paragraph.\<close>

lemma paragraphs_tile:
  assumes "\<And>start p. tiles start p (map (\<lambda>(k, t). (int start + k, t)) (f p))"
  shows "tiles pos s (concat (map (\<lambda>(start, p). map (\<lambda>(k, t). (int start + k, t)) (f p)) (paragraphs pos s)))"
proof (induction pos s rule: paragraphs.induct)
  case (1 pos s)
  let ?whole = "\<lambda>pos s. concat (map (\<lambda>(start, p). map (\<lambda>(k, t). (int start + k, t)) (f p)) (paragraphs pos s))"
  show ?case
  proof (cases s)
    case (Cons c cs)
    show ?thesis
    proof (cases "is_space c")
      case True
      with 1 Cons have "tiles (pos + 1) cs (?whole (pos + 1) cs)" by simp
      with True have "tiles pos ([c] @ cs) (?whole (pos + 1) cs)" by (intro tiles_space) simp_all
      with True Cons show ?thesis by (simp add: paragraphs.simps [of pos "c # cs"])
    next
      case visible: False
      show ?thesis
      proof (cases "lazy_end cs")
        case None
        then have brk: "at_break cs" using lazy_end_None by (simp add: at_break_def)
        with 1 Cons visible None have "tiles (pos + 1) cs (?whole (pos + 1) cs)" by simp
        then have "tiles pos ([c] @ cs) (map (\<lambda>(k, t). (int pos + k, t)) (f [c]) @ ?whole (pos + 1) cs)"
          by (intro tiles_append assms) simp
        with visible None brk Cons show ?thesis by (simp add: paragraphs.simps [of pos "c # cs"])
      next
        case (Some n)
        then have n: "n \<le> length cs" by (rule lazy_end_le)
        from 1 Cons visible Some have "tiles (pos + 1 + n) (drop n cs) (?whole (pos + 1 + n) (drop n cs))" by simp
        then have "tiles pos ((c # take n cs) @ drop n cs)
            (map (\<lambda>(k, t). (int pos + k, t)) (f (c # take n cs)) @ ?whole (pos + 1 + n) (drop n cs))"
          by (intro tiles_append assms) (use n in simp)
        with visible Some Cons show ?thesis by (simp add: paragraphs.simps [of pos "c # cs"])
      qed
    qed
  qed (simp add: paragraphs.simps)
qed

theorem document_chunks_tile: "0 < m \<Longrightarrow> tiles 0 text (document_chunks m text)"
  unfolding document_chunks_def using chunks_tile [of m 0] by (intro paragraphs_tile) simp

lemma document_chunks_short: "0 < m \<Longrightarrow> (i, t) \<in> set (document_chunks m text) \<Longrightarrow> t \<noteq> [] \<and> length t \<le> m"
  unfolding document_chunks_def
proof -
  assume m: "0 < m" and "(i, t) \<in> set (concat (map (\<lambda>(start, p). map (\<lambda>(k, t). (int start + k, t)) (chunks m p 0)) (paragraphs 0 text)))"
  then obtain k p where "(k, t) \<in> set (chunks m p 0)" by auto
  then show "t \<noteq> [] \<and> length t \<le> m" by (rule chunks_short [OF m])
qed

text \<open>A piece stands in the text at its position.\<close>

lemma tiles_member:
  "tiles a s xs \<Longrightarrow> (i, t) \<in> set xs \<Longrightarrow> \<exists>l r. s = l @ t @ r \<and> i = int (a + length l)"
proof (induction a s xs rule: tiles.induct)
  case (2 a s k u rest)
  let ?g = "takeWhile is_space s" and ?d = "dropWhile is_space s"
  from "2.prems"(1) have u: "k = int (a + length ?g)" "take (length u) ?d = u"
    and rest: "tiles (a + length ?g + length u) (drop (length u) ?d) rest" by (simp_all add: Let_def)
  have s: "s = ?g @ u @ drop (length u) ?d" using u(2) by (metis append_take_drop_id takeWhile_dropWhile_id)
  show ?case
  proof (cases "(i, t) \<in> set rest")
    case True
    from "2.IH" [OF refl refl rest True] obtain l r where "drop (length u) ?d = l @ t @ r"
      "i = int (a + length ?g + length u + length l)" by auto
    then have "s = (?g @ u @ l) @ t @ r" "i = int (a + length (?g @ u @ l))" using s by simp_all
    then show ?thesis by blast
  next
    case False
    with "2.prems"(2) have "i = k" "t = u" by simp_all
    with s u(1) show ?thesis by blast
  qed
qed simp

section \<open>Spans\<close>

lemma make_span_Inr:
  assumes "make_span E src n (i, t) = Inr s"
  shows "ss_start s = i \<and> ss_text s = t \<and> ss_stop s = i + int (length t) \<and> ss_sequence s = int n + 1 \<and>
    ss_source_version_id s = src \<and> ss_content_hash s = ''sha256:'' @ ee_sha_text E t"
  using assms by (auto simp: make_span_def mk_StableSpan_def Let_def bindE_Inr_conv split: if_splits)

lemma make_spans_Inr:
  assumes "make_spans E src cs = Inr spans"
  shows "map (\<lambda>s. (ss_start s, ss_text s)) spans = cs" "map ss_sequence spans = map int [1..<Suc (length spans)]"
    "\<And>s. s \<in> set spans \<Longrightarrow> ss_stop s = ss_start s + int (length (ss_text s)) \<and> ss_source_version_id s = src \<and>
       ss_content_hash s = ''sha256:'' @ ee_sha_text E (ss_text s)"
proof -
  from assms have "list_all2 (\<lambda>(n, c) s. make_span E src n c = Inr s) (zip [0..<length cs] cs) spans"
    by (simp add: make_spans_def mapE_Inr_conv case_prod_unfold)
  then have len: "length spans = length cs" and at: "\<And>k. k < length cs \<Longrightarrow> make_span E src k (cs ! k) = Inr (spans ! k)"
    by (auto simp: list_all2_conv_all_nth)
  have one: "ss_start (spans ! k) = fst (cs ! k) \<and> ss_text (spans ! k) = snd (cs ! k) \<and>
      ss_stop (spans ! k) = fst (cs ! k) + int (length (snd (cs ! k))) \<and> ss_sequence (spans ! k) = int k + 1 \<and>
      ss_source_version_id (spans ! k) = src \<and> ss_content_hash (spans ! k) = ''sha256:'' @ ee_sha_text E (snd (cs ! k))"
    if "k < length cs" for k
    using make_span_Inr [of E src k "fst (cs ! k)" "snd (cs ! k)"] at [OF that] by simp
  show "map (\<lambda>s. (ss_start s, ss_text s)) spans = cs"
    using one by (intro nth_equalityI) (simp_all add: len)
  show "map ss_sequence spans = map int [1..<Suc (length spans)]"
    using one by (intro nth_equalityI) (simp_all add: len del: upt_Suc)
  show "ss_stop s = ss_start s + int (length (ss_text s)) \<and> ss_source_version_id s = src \<and>
       ss_content_hash s = ''sha256:'' @ ee_sha_text E (ss_text s)" if "s \<in> set spans" for s
    using that one by (auto simp: in_set_conv_nth len)
qed

lemma parse_evidence_Inr:
  assumes "parse_evidence E src body ct m = Inr ev"
  shows "make_spans E src (document_chunks m (pe_text ev)) = Inr (pe_spans ev)" "pe_spans ev \<noteq> []"
    "pe_source_version_id ev = src" "ct \<in> set allowed_content_types" "map_option unix_lines (ee_utf8 E body) = Some (pe_text ev)"
  using assms by (auto simp: parse_evidence_def bindE_Inr_conv Let_def split: if_splits option.splits)

lemma span_of_SomeD: "span_of ev i = Some s \<Longrightarrow> s \<in> set (pe_spans ev) \<and> ss_id s = i"
  by (auto simp: span_of_def dest!: map_of_SomeD)

lemma validate_claim_Inr:
  assumes "validate_claim E ev p = Inr c"
  shows "\<exists>s \<in> set (pe_spans ev). ss_id s = vc_span_id c \<and> str_contains (ss_text s) (vc_supporting_text c) \<and>
    vc_source_version_id c = pe_source_version_id ev \<and> vc_field c = cp_field p \<and> vc_operator c = cp_operator p \<and> vc_value c = cp_value p"
  using assms span_of_SomeD by (fastforce simp: validate_claim_def split: option.splits if_splits)

text \<open>Retrieval shows only spans of the allowed sources, at most as many as asked for.\<close>

lemma retrieve_evidence_allowed:
  assumes "retrieve_evidence E query spans allowed limit = Inr hits"
  shows "int (length hits) \<le> limit"
    "h \<in> set hits \<Longrightarrow> \<exists>s \<in> set spans. rh_span_id h = ss_id s \<and> rh_text h = ss_text s \<and> ss_source_version_id s \<in> allowed"
proof -
  obtain v where v: "deterministic_embedding E query = Inr v" and limit: "1 \<le> limit"
    using assms by (auto simp: retrieve_evidence_def bindE_Inr_conv split: if_splits)
  define scored where "scored = sort_key (\<lambda>(score, s). (- score, ss_source_version_id s, ss_sequence s))
    (map (\<lambda>s. (retrieval_score E query v s, s)) (filter (\<lambda>s. ss_source_version_id s \<in> allowed) spans))"
  have scored: "(sc, s) \<in> set scored \<Longrightarrow> s \<in> set spans \<and> ss_source_version_id s \<in> allowed" for sc s
    by (auto simp: scored_def)
  from assms v have hits: "hits = map (\<lambda>(score, s). \<lparr>rh_span_id = ss_id s, rh_score = ee_round8 E score, rh_text = ss_text s,
             rh_content_hash = ss_content_hash s\<rparr>) (take (nat limit) scored)"
    by (simp add: retrieve_evidence_def Let_def scored_def split: if_splits)
  from hits limit show "int (length hits) \<le> limit" by simp
  assume "h \<in> set hits"
  with hits obtain sc s where "(sc, s) \<in> set scored" "rh_span_id h = ss_id s" "rh_text h = ss_text s"
    by (auto dest: in_set_takeD)
  with scored show "\<exists>s \<in> set spans. rh_span_id h = ss_id s \<and> rh_text h = ss_text s \<and> ss_source_version_id s \<in> allowed"
    by blast
qed

end
