(* ===== verification/EvidenceClaims.thy ===== *)
theory EvidenceClaims
  imports EvidencePipeline
begin

text \<open>Properties of the evidence pipeline, with a document of two paragraphs as their example.\<close>

definition note_vector :: "rat list" where
  "note_vector = replicate 1024 0"

definition note_digest :: string where
  "note_digest = replicate 64 (CHR ''0'')"

definition note_env :: evidence_env where
  "note_env = \<lparr>ee_utf8 = Some, ee_sha_bytes = (\<lambda>_. note_digest), ee_sha_text = (\<lambda>_. note_digest),
     ee_raw = \<lparr>raw_dumps = (\<lambda>_. Some []), raw_sha256 = (\<lambda>_. note_digest)\<rparr>, ee_unit_vector = (\<lambda>_. note_vector),
     ee_semantic = (\<lambda>_ _. 0), ee_fl = (\<lambda>x. x), ee_round8 = (\<lambda>x. x)\<rparr>"

definition note_body :: string where
  "note_body = ''  The price is 10 USD per seat.'' @ [newline, newline] @ ''Support: 24/7'' @ [newline]"

definition note_evidence :: "evidence_error + ParsedEvidence" where
  "note_evidence = parse_evidence note_env ''source_1'' note_body ''text/plain'' 20"

lemma note_chunks:
  "document_chunks 20 (unix_lines note_body) =
     [(2, ''The price is 10 USD''), (22, ''per seat.''), (33, ''Support: 24/7'')]"
  by code_simp

lemma note_digest_valid: "valid_hash (''sha256:'' @ note_digest)"
  by code_simp

lemma note_stripped: "str_strip ''The price is 10 USD'' \<noteq> [] \<and> str_strip ''per seat.'' \<noteq> [] \<and> str_strip ''Support: 24/7'' \<noteq> [] \<and>
    char_of (0 :: nat) \<notin> set (unix_lines note_body) \<and> note_body \<noteq> [] \<and> length note_body \<le> 100"
  by code_simp

lemma note_lengths: "length note_vector = 1024" "length_between 1 2000 ''The price is 10 USD''" "length_between 1 2000 ''per seat.''"
    "length_between 1 2000 ''Support: 24/7''"
  by (simp_all add: note_vector_def length_between_def)

lemma note_sends: "deterministic_embedding note_env ''The price is 10 USD'' = Inr note_vector"
    "deterministic_embedding note_env ''per seat.'' = Inr note_vector" "deterministic_embedding note_env ''Support: 24/7'' = Inr note_vector"
  using note_stripped by (simp_all only: deterministic_embedding_def note_env_def evidence_env.simps if_False not_False_eq_True simp_thms)

lemma note_span:
  assumes "deterministic_embedding note_env t = Inr note_vector" "length_between 1 2000 t" "0 \<le> i" "t \<noteq> []"
  shows "\<exists>s. make_span note_env src n (i, t) = Inr s"
proof -
  have sha: "ee_sha_text note_env = (\<lambda>_. note_digest)" by (simp add: note_env_def)
  have visible: "0 < int (length t)" using assms(4) by simp
  with assms(1-3) note_digest_valid note_lengths(1) show ?thesis
    by (simp add: make_span_def Let_def mk_StableSpan_def sha del: append.simps) (use visible assms(3) in linarith)
qed

lemma note_parsed: "\<exists>ev. note_evidence = Inr ev"
proof -
  let ?span = "make_span note_env ''source_1''"
  obtain a where a: "?span 0 (2, ''The price is 10 USD'') = Inr a" using note_span [OF note_sends(1) note_lengths(2)] by force
  obtain b where b: "?span 1 (22, ''per seat.'') = Inr b" using note_span [OF note_sends(2) note_lengths(3)] by force
  obtain c where c: "?span 2 (33, ''Support: 24/7'') = Inr c" using note_span [OF note_sends(3) note_lengths(4)] by force
  define ts where "ts = document_chunks 20 (unix_lines note_body)"
  have "zip [0..<length ts] ts = [(0, 2, ''The price is 10 USD''), (1, 22, ''per seat.''), (2, 33, ''Support: 24/7'')]"
    unfolding ts_def note_chunks by (simp add: upt_rec)
  then have spans: "make_spans note_env ''source_1'' ts = Inr [a, b, c]" by (simp add: make_spans_def a b [simplified] c)
  have "ee_utf8 note_env note_body = Some note_body" by (simp add: note_env_def)
  then show ?thesis using note_stripped spans unfolding ts_def
    by (simp add: note_evidence_def parse_evidence_def allowed_content_types_def Let_def)
qed

text \<open>The spans of a parsed document tile its text: each stands at its offsets, begins and ends with a visible character and is
  at most as long as asked for, and outside of the spans, in their order, there is only white space, so no text is lost and none is
  invented. They are numbered from one and pin the source version and the hash of exactly their text.\<close>

theorem spans_tile_document:
  assumes "parse_evidence E src body ct m = Inr ev" "0 < m"
  shows "tiles 0 (pe_text ev) (map (\<lambda>s. (ss_start s, ss_text s)) (pe_spans ev)) \<and>
    map ss_sequence (pe_spans ev) = map int [1..<Suc (length (pe_spans ev))] \<and>
    list_all (\<lambda>s. ss_stop s = ss_start s + int (length (ss_text s)) \<and> length (ss_text s) \<le> m \<and>
      ss_source_version_id s = src \<and> ss_content_hash s = ''sha256:'' @ ee_sha_text E (ss_text s)) (pe_spans ev)"
proof -
  note spans = make_spans_Inr [OF parse_evidence_Inr(1) [OF assms(1)]]
  have "length (ss_text s) \<le> m" if "s \<in> set (pe_spans ev)" for s
  proof -
    have "(ss_start s, ss_text s) \<in> set (document_chunks m (pe_text ev))" unfolding spans(1) [symmetric] using that by simp
    then show ?thesis using document_chunks_short [OF assms(2)] by blast
  qed
  moreover have "tiles 0 (pe_text ev) (map (\<lambda>s. (ss_start s, ss_text s)) (pe_spans ev))"
    unfolding spans(1) by (rule document_chunks_tile [OF assms(2)])
  ultimately show ?thesis using spans(2,3) by (simp add: list_all_iff del: upt_Suc)
qed

theorem spans_tile_document_witness:
  "\<exists>ev. note_evidence = Inr ev \<and> tiles 0 (pe_text ev) (map (\<lambda>s. (ss_start s, ss_text s)) (pe_spans ev))"
proof -
  obtain ev where "note_evidence = Inr ev" using note_parsed by blast
  then show ?thesis using spans_tile_document [of note_env "''source_1''" note_body "''text/plain''" 20 ev]
    by (simp add: note_evidence_def)
qed

text \<open>A claim that passes validation quotes the document: its supporting text stands in the text of the document within the
  offsets of the span it pins, a span of the same source version, and its field, operator and value are those proposed.\<close>

theorem validated_claims_quote_document:
  assumes "parse_evidence E src body ct m = Inr ev" "0 < m" "validate_claim_proposals E ev proposals = Inr claims" "c \<in> set claims"
  shows "\<exists>s \<in> set (pe_spans ev). \<exists>p \<in> set proposals. ss_id s = vc_span_id c \<and> vc_source_version_id c = src \<and>
    vc_field c = cp_field p \<and> vc_operator c = cp_operator p \<and> vc_value c = cp_value p \<and>
    (\<exists>l r. pe_text ev = l @ vc_supporting_text c @ r \<and> ss_start s \<le> int (length l) \<and>
       int (length l + length (vc_supporting_text c)) \<le> ss_stop s)"
proof -
  note spans = make_spans_Inr [OF parse_evidence_Inr(1) [OF assms(1)]]
  from mapE_memR [OF assms(3) [unfolded validate_claim_proposals_def] assms(4)] obtain p where
    p: "p \<in> set proposals" "validate_claim E ev p = Inr c" by blast
  from validate_claim_Inr [OF p(2)] obtain s where s: "s \<in> set (pe_spans ev)" "ss_id s = vc_span_id c"
    "str_contains (ss_text s) (vc_supporting_text c)" "vc_source_version_id c = pe_source_version_id ev"
    and fs: "vc_field c = cp_field p" "vc_operator c = cp_operator p" "vc_value c = cp_value p" by blast
  have "(ss_start s, ss_text s) \<in> set (document_chunks m (pe_text ev))" unfolding spans(1) [symmetric] using s(1) by simp
  from tiles_member [OF document_chunks_tile [OF assms(2)] this] obtain l r where
    l: "pe_text ev = l @ ss_text s @ r" "ss_start s = int (length l)" by auto
  from s(3) obtain l' r' where q: "ss_text s = l' @ vc_supporting_text c @ r'" by (auto simp: str_contains_iff)
  have stop: "ss_stop s = int (length l + length (ss_text s))" using spans(3) [OF s(1)] l(2) by simp
  have "pe_text ev = (l @ l') @ vc_supporting_text c @ (r' @ r)" using l(1) q by simp
  moreover have "ss_start s \<le> int (length (l @ l'))" using l(2) by simp
  moreover have "int (length (l @ l') + length (vc_supporting_text c)) \<le> ss_stop s" using stop q by simp
  ultimately show ?thesis using s(1,2,4) p(1) fs parse_evidence_Inr(3) [OF assms(1)] by blast
qed

end
