(* ===== verification/Spec2Isabelle.thy ===== *)
theory Spec2Isabelle
  imports GraphClaims StackfileClaims CommerceClaims QualificationClaims ServiceClaims TurnClaims
    DecisionClaims TicketClaims EvidenceClaims
begin

text \<open>
  SIRA and SEIL are two agents for B2B software decisions. Language models only propose; deterministic
  Python code under \<^verbatim>\<open>src/python\<close> decides, and CockroachDB commits. This development models that
  deterministic code and proves the properties it is trusted for.

  \<^bold>\<open>Parts of the program and the theories that model them\<close>

  \<^item> \<^bold>\<open>Foundations.\<close> \<^verbatim>\<open>Prelude\<close> has the exceptions of the program as one sum type, \<open>bindE\<close> for statement
    sequences that may raise, Python's sorting, dictionaries and text operations. \<^verbatim>\<open>Numerics\<close> is Python's
    \<^verbatim>\<open>decimal\<close> (28 digits, half even) and \<^verbatim>\<open>fractions\<close>. \<^verbatim>\<open>Values\<close> is \<^verbatim>\<open>domain/hashing.py\<close> and the
    validators of \<^verbatim>\<open>domain/models.py\<close>. \<^verbatim>\<open>MoneyModel\<close> is \<^verbatim>\<open>domain/money.py\<close>, \<^verbatim>\<open>Enums\<close> the used part of
    \<^verbatim>\<open>domain/enums.py\<close>. \<^verbatim>\<open>Transitions\<close> states the interfaces shared by several components as locales:
    status tables, tables that make progress, and systems of transactions with an invariant.
  \<^item> \<^bold>\<open>Decision Graph\<close> (\<^verbatim>\<open>decision_engine\<close>). \<^verbatim>\<open>Bounds\<close> is \<^verbatim>\<open>bounds.py\<close> (exact intervals, ordering keys, rank
    stability); \<^verbatim>\<open>GraphModels\<close> and \<^verbatim>\<open>GraphPlanModels\<close> are \<^verbatim>\<open>graph_v1_models.py\<close>; \<^verbatim>\<open>Recall\<close> is
    \<^verbatim>\<open>graph_v1_recall.py\<close>; \<^verbatim>\<open>Gates\<close>, \<^verbatim>\<open>Scoring\<close>, \<^verbatim>\<open>Plans\<close>, \<^verbatim>\<open>Payloads\<close> and \<^verbatim>\<open>Ranking\<close> are \<^verbatim>\<open>graph_v1.py\<close> in
    the order of that file, up to \<^verbatim>\<open>evaluate_decision_graph\<close> with its counterfactual search.
    \<^verbatim>\<open>Examples\<close> is one concrete decision; \<^verbatim>\<open>GraphClaims\<close> holds the properties.
  \<^item> \<^bold>\<open>Rule-based decisions.\<close> \<^verbatim>\<open>PyEquality\<close> is Python's equality and membership on values, \<^verbatim>\<open>RuleLanguage\<close> is
    \<^verbatim>\<open>domain/rules.py\<close> (field paths, typed conditions, three-valued expressions), \<^verbatim>\<open>DecisionEngine\<close> is
    \<^verbatim>\<open>decision_engine/models.py\<close>, \<^verbatim>\<open>evaluation.py\<close>, \<^verbatim>\<open>ranking.py\<close>, \<^verbatim>\<open>counterfactual.py\<close> and \<^verbatim>\<open>clarification.py\<close>;
    \<^verbatim>\<open>DecisionFacts\<close> gives the verdict in closed form, \<^verbatim>\<open>DecisionClaims\<close> holds the properties.
  \<^item> \<^bold>\<open>Stackfile\<close> (\<^verbatim>\<open>stackfile\<close>). \<^verbatim>\<open>Documents\<close> has the Python operations on parsed JSON, \<^verbatim>\<open>StackfileModel\<close> is
    \<^verbatim>\<open>models.py\<close> (graph, validation, lock documents), \<^verbatim>\<open>Patches\<close> is \<^verbatim>\<open>patches.py\<close>; \<^verbatim>\<open>StackfileClaims\<close> holds
    the properties.
  \<^item> \<^bold>\<open>Commerce\<close> (\<^verbatim>\<open>domain\<close>). \<^verbatim>\<open>Commerce\<close> is the rest of \<^verbatim>\<open>models.py\<close> (facts, intents, handoffs), \<^verbatim>\<open>Approvals\<close>
    is \<^verbatim>\<open>state_machines.py\<close>, \<^verbatim>\<open>Exchange\<close> is \<^verbatim>\<open>bilateral_exchange.py\<close>, \<^verbatim>\<open>Publication\<close> is
    \<^verbatim>\<open>publication.py\<close>; \<^verbatim>\<open>CommerceClaims\<close> holds the properties.
  \<^item> \<^bold>\<open>Qualification kernel\<close> (\<^verbatim>\<open>persistence\<close>). \<^verbatim>\<open>Qualification\<close> is \<^verbatim>\<open>qualification_repository.py\<close> with the row
    types of \<^verbatim>\<open>qualification_models.py\<close> and the part of \<^verbatim>\<open>services/worker/sira_worker/qualification.py\<close> that
    creates, claims and snapshots attempts; \<^verbatim>\<open>QualificationFacts\<close> has its step relation and invariants,
    \<^verbatim>\<open>QualificationClaims\<close> the properties.
  \<^item> \<^bold>\<open>Negotiation.\<close> \<^verbatim>\<open>Contracts\<close> is \<^verbatim>\<open>domain/exchange_contracts.py\<close> (disclosures, offers, approvals, payment
    documents), with its lemmas in \<^verbatim>\<open>ContractFacts\<close>; \<^verbatim>\<open>Negotiation\<close> is
    \<^verbatim>\<open>persistence/bilateral_repository.py\<close> on its tables; \<^verbatim>\<open>NegotiationFacts\<close> and \<^verbatim>\<open>ExchangeJournal\<close> have its
    step relation and the invariants of offers, journal, disclosures and handoffs. \<^verbatim>\<open>ExchangeService\<close> is
    \<^verbatim>\<open>services/api/sira_api/exchange_service.py\<close> with route capabilities and seller bindings: each request runs
    several of these transactions; \<^verbatim>\<open>ExchangeServiceFacts\<close> shows how requests compose them.
    \<^verbatim>\<open>ExchangeDemo\<close> is one negotiation; \<^verbatim>\<open>NegotiationClaims\<close> and \<^verbatim>\<open>ServiceClaims\<close> hold the properties.
  \<^item> \<^bold>\<open>Agent turns.\<close> \<^verbatim>\<open>AgentKernel\<close> is \<^verbatim>\<open>agents/sira_agents/kernel_models.py\<close> (decisions, contexts, tools, grants);
    \<^verbatim>\<open>AgentPolicy\<close> is the code around a model call in the same package: \<^verbatim>\<open>guardrails.py\<close>, \<^verbatim>\<open>context_assembler.py\<close>,
    \<^verbatim>\<open>tool_broker.py\<close>, \<^verbatim>\<open>authority.py\<close>, \<^verbatim>\<open>response_composer.py\<close> and the catalog of \<^verbatim>\<open>kernel_tools.py\<close>;
    \<^verbatim>\<open>CognitiveJournal\<close> is \<^verbatim>\<open>persistence/cognitive_repository.py\<close> on its tables. \<^verbatim>\<open>TurnEngine\<close> is the loop of a turn,
    \<^verbatim>\<open>services/api/sira_api/cognitive_engine.py\<close>, as a program over the state \<open>engine\<close> (tables, log of effects):
    a \<open>tj\<close> is the body of one transaction, an \<open>eng\<close> a part of a turn, which goes on after a failed transaction where the
    code catches the exception. \<^verbatim>\<open>TurnEffects\<close> has the rules for what a turn does outside the database, \<^verbatim>\<open>AgentFacts\<close> what
    reaches a model, \<^verbatim>\<open>TurnJournal\<close> the step relation \<open>turn_step\<close> of interleaved turns with its invariant,
    \<^verbatim>\<open>TurnRuns\<close> and \<^verbatim>\<open>TurnReplay\<close> whole turns among other processes and alone; \<^verbatim>\<open>TurnClaims\<close> holds the properties.
    \<^verbatim>\<open>RuntimeTickets\<close> is \<^verbatim>\<open>runtime_ticket.py\<close> with the guards against replay of that file and of
    \<^verbatim>\<open>persistence/runtime_ticket_replay.py\<close>; \<^verbatim>\<open>TicketClaims\<close> holds its properties.

  \<^item> \<^bold>\<open>Evidence.\<close> \<^verbatim>\<open>EvidencePipeline\<close> is \<^verbatim>\<open>domain/evidence_pipeline.py\<close> (paragraphs and stable spans of a document, the
    check of proposed claims, retrieval), \<^verbatim>\<open>EvidenceClaims\<close> its theorems on a whole document.

  \<^bold>\<open>How the code is represented\<close>

  A frozen dataclass is a record, its \<^verbatim>\<open>__post_init__\<close> a constructor function \<open>mk_\<dots>\<close> (or \<open>check_\<dots>\<close> where
  it only validates) into \<open>py_error + record\<close>, an enumeration a datatype with its text values. A function that can
  raise returns the error as \<open>Inl\<close>; the order of its checks is kept. A loop with state is a fold or a recursive
  function over that state; recursion that is not structural has a termination proof (alias chains, dependency
  closures, depth first search), so no fuel is used anywhere. Values that are hashed or stored as JSON are
  \<open>pyval\<close>. Python integers are \<open>int\<close>, \<^verbatim>\<open>Decimal\<close> is coefficient and exponent, \<^verbatim>\<open>Fraction\<close> is \<open>rat\<close>,
  a datetime is its microseconds with a time zone flag. A repository operation is a function from the tables
  to an error or a result with new tables; \<open>qstep\<close> interleaves the operations of all tenants, each operation
  being one serializable transaction, with the creation of attempts by the worker and with arbitrary other writes of the
  API (\<open>outside_write\<close>: missions, bundles, consents, engagements, the approval of a decision). \<open>bilateral_step\<close> does the
  same for the exchange, and \<open>service_step\<close> for the requests of its service, whose committed transactions stay when a later
  part of the request fails. A request runs as a whole in \<open>service_step\<close>: two requests follow each other, and the transactions
  of one do not come between those of another, although the code would allow it; the theorems on the repository
  (\<open>bilateral_step\<close>) cover every interleaving of transactions, those on requests do not. An exception that leaves a request
  is the value \<open>Raised\<close>; that \<^verbatim>\<open>main.py\<close> turns some of them into HTTP responses is not modelled.

  \<^bold>\<open>Parameters\<close>

  Code outside the repository is a parameter: \<open>hash_env\<close> and \<open>raw_env\<close> (the package \<^verbatim>\<open>rfc8785\<close> and SHA-256),
  \<open>set_order\<close> (the iteration order of a Python set, arbitrary), \<open>literal_ok\<close> (the check of bracketed hosts in
  \<^verbatim>\<open>urlsplit\<close>), \<open>uuid\<close> (the texts of successive \<^verbatim>\<open>uuid4\<close> calls), \<open>now\<close> and \<open>clock\<close> (the time), \<open>price_ok\<close> (pydantic's limits on the
  digits of a decimal field), \<open>bl_json_mode\<close> and \<open>bl_iso\<close> (pydantic's JSON mode), \<open>route_codec\<close> (Fernet) and
  \<open>sv_fromisoformat\<close>; \<open>ticket_env\<close> (the JSON of ticket claims and HMAC-SHA256); for agents \<open>kernel_env\<close> (\<^verbatim>\<open>jsonschema\<close> and JSON mode), the model and the tool handlers (functions of the
  history of the turn), \<open>en_others\<close> (what other processes commit between two transactions) and \<open>en_down\<close> (when the database
  cannot be reached); \<open>evidence_env\<close> (UTF-8, SHA-256 and the floating point arithmetic of embeddings and scores); \<open>fl\<close> is the rounding of binary floating point. Where a theorem needs more than that these are functions, a named hypothesis states the documented
  behaviour (\<open>price_field\<close>: a price is a number of cents of at most 20 digits; decryption inverts encryption).
  The other theorems hold for every value of them; the witnesses use the small printer and digest of \<^verbatim>\<open>DemoEnv\<close>.

  \<^bold>\<open>What is shown\<close>

  \<^item> \<^verbatim>\<open>GraphClaims\<close>: a ranking is called stable exactly if no competitor with another plan identifier can overtake within
    the bounds; the selected plan has the least key; executable and autonomous plans pass every gate, and a gate whose
    blocked status is an eligible one only has to be testable; gates, statuses and evidence
    states agree with declarative specifications; the counterfactual search is minimal and exhaustive; recall
    partitions the records, never improves them and ignores their order; alias chasing and dependency closure
    terminate with the right result; costs, preference bounds, ratios and money are exact.
  \<^item> \<^verbatim>\<open>StackfileClaims\<close>: validation accepts exactly the well-formed acyclic graphs; lock documents whose attributes are JSON values round trip; patches
    keep the history of instances, activate only validated deployments and are applied only when approved for the
    exact base.
  \<^item> \<^verbatim>\<open>CommerceClaims\<close>: approvals bind the exact intent, handoffs are opened at most once and in time, exchanges reach
    approval only by the protocol, projections and publications are free of private names and depend only on
    allowlisted paths.
  \<^item> \<^verbatim>\<open>QualificationClaims\<close>: over every sequence of transactions superseded leases are fenced, decisions and
    introductions happen at most once, decisions rest on the committed snapshot, replacement chains are linear and
    at most three long, invalidation is complete, introductions need both consents, and an attempt whose lease expired
    before a checkpoint of its generation can be claimed again. \<open>snapshot_pins_lease\<close> shows that after the snapshot this fails:
    the foreign key of the checkpoint keeps the attempt from every later lease.

  \<^item> \<^verbatim>\<open>NegotiationClaims\<close>: the total of an offer is exact although it is checked in 28 digit arithmetic; a release
    discloses exactly the approved public fields; stored documents stay valid; the offers of a case are one chain that an
    approval makes final; the journal of a case replays to its state.
  \<^item> \<^verbatim>\<open>ServiceClaims\<close>: requests refine the repository; a refused request changes nothing; the retry of an
    applied request changes nothing and reads the case; \<open>reused_key_answered\<close> shows that so does any other request under
    its key; a payment handoff charges the exact total of the approved offer.

  \<^item> \<^verbatim>\<open>TurnClaims\<close>: a turn is bounded in model calls, tool calls and mutations whatever the model proposes; where no other
    process writes, a finished turn is stored and its repetition reports the same; turns refine the journal, which is append-only and final under every interleaving;
    a model sees only contexts of its own side: the message, history, summary and projections of the command, not the
    unresolved questions or the results of tools, are searched for names of the other side.

  \<^item> \<^verbatim>\<open>DecisionClaims\<close>: a rule is evaluated in Kleene's logic and reports the fields that leave it open; a verdict on a
    candidate always exists, is explained by the gate that stopped it and is revised only through a field it reports or
    tests for existence; the
    ranking of plans does not depend on their order.

  \<^item> \<^verbatim>\<open>TicketClaims\<close>: a runtime ticket is accepted once, with the claims it was issued with, and only if signed, in time
    and of the expected scope; the locale \<open>replay_guard\<close> is interpreted on both guards.

  \<^item> \<^verbatim>\<open>EvidenceClaims\<close>: the spans of a parsed document tile its text, and a validated claim quotes the span it pins.

  The locales \<open>moving_rows\<close> (tables whose rows only move along a preorder) and \<open>turn_guard\<close> (what the loop of a turn needs of the
  assertion it keeps) are each interpreted twice on the journal. The locales of \<^verbatim>\<open>Transitions\<close> are interpreted on the tables of approvals, handoffs, patches, product lifecycles
  and exchanges, on the qualification kernel, on the repository of the exchange and on the journal of turns.

  \<^bold>\<open>Not modelled\<close>

  The other repositories and the compiler of the demo fixtures are not modelled. HTTP routes and
  the other services, the rest of the workers, change feeds, cloud clients, command line tools and the web application are I/O around the
  modelled code; migrations and fixtures have no logic. Of the database schema the model has, for each group of tables, the
  keys and constraints its theory names; the others (in the qualification kernel the unique current decision and input digest of a
  mission and the unique keys of the outbox) are left out, so that the model allows more transactions than the database; SQL evaluation, row level security, connection retries and
  concurrency below serializable transactions are not.
\<close>

end
